(* ===== verification/Go_Prelude.thy ===== *)
theory Go_Prelude
  imports Main "HOL-Library.Word" "HOL-Library.Sublist"
begin

text \<open>
  What every component shares: the Go values the program is written in (byte strings, 64-bit
  integers, instants and durations), the few functions of Go's standard library the modelled
  code calls on them (\<open>strings.TrimSpace\<close>, \<open>strconv.Itoa\<close>, the \<open>%q\<close> verb), the collections the
  component theories extend, and list lemmas used in several of them.

  A Go \<open>string\<close> is a sequence of bytes, which is what a HOL \<open>string\<close> (a list of 8-bit
  characters) is. A named string type of the source (\<open>type RunStatus string\<close>) stays a string,
  since its values arrive unchecked from requests and from the database; its constants are
  abbreviations with the source's names.
\<close>

named_theorems go_defs \<open>unfolding equations of the modelled operations\<close>
named_theorems go_split \<open>case splits for results\<close>

declare sum.splits [go_split]
declare option.splits [go_split]
declare prod.splits [go_split]
declare if_splits [go_split]

subsection \<open>Integers\<close>

text \<open>Go's \<open>int\<close> and \<open>int64\<close> have 64 bits on the platforms the program is built for.\<close>

type_synonym int64 = "64 word"

abbreviation max_int64 :: int where
  "max_int64 \<equiv> 9223372036854775807"

abbreviation min_int64 :: int where
  "min_int64 \<equiv> - 9223372036854775808"

text \<open>Integer division of Go truncates towards zero; the divisor is checked by the callers.\<close>

definition go_div :: "int \<Rightarrow> int \<Rightarrow> int" where
  "go_div a b = sgn a * sgn b * (\<bar>a\<bar> div \<bar>b\<bar>)"

lemma go_div_nonneg [simp]: "0 \<le> a \<Longrightarrow> 0 < b \<Longrightarrow> go_div a b = a div b"
  by (cases "a = 0") (auto simp: go_div_def)

subsection \<open>Instants and durations\<close>

text \<open>
  \<open>time.Time\<close> as the number of nanoseconds of an instant; \<open>time.Duration\<close> as nanoseconds.
  \<open>Time.Sub\<close> saturates at the limits of a 64-bit duration.
\<close>

datatype time = Time (nanos: int)

type_synonym duration = int

instantiation time :: linorder
begin

definition less_eq_time :: "time \<Rightarrow> time \<Rightarrow> bool" where
  "less_eq_time a b \<longleftrightarrow> nanos a \<le> nanos b"

definition less_time :: "time \<Rightarrow> time \<Rightarrow> bool" where
  "less_time a b \<longleftrightarrow> nanos a < nanos b"

instance
  by standard (auto simp: less_eq_time_def less_time_def time.expand)

end

abbreviation Millisecond :: duration where "Millisecond \<equiv> 1000000"
abbreviation Second :: duration where "Second \<equiv> 1000000000"
abbreviation Minute :: duration where "Minute \<equiv> 60000000000"
abbreviation Hour :: duration where "Hour \<equiv> 3600000000000"

text \<open>The zero \<open>time.Time\<close> is the first of January of year 1.\<close>

abbreviation zero_time :: time where
  "zero_time \<equiv> Time (- 62135596800000000000)"

definition time_add :: "time \<Rightarrow> duration \<Rightarrow> time" where
  "time_add t d = Time (nanos t + d)"

definition time_sub :: "time \<Rightarrow> time \<Rightarrow> duration" where
  "time_sub t u = max min_int64 (min max_int64 (nanos t - nanos u))"

definition milliseconds :: "duration \<Rightarrow> int" where
  "milliseconds d = go_div d Millisecond"

lemma time_add_mono: "0 \<le> d \<Longrightarrow> t \<le> time_add t d"
  by (simp add: time_add_def less_eq_time_def)

lemma time_add_less: "0 < d \<Longrightarrow> t < time_add t d"
  by (simp add: time_add_def less_time_def)

lemma time_sub_nonneg: "u \<le> t \<Longrightarrow> 0 \<le> time_sub t u"
  by (simp add: time_sub_def less_eq_time_def)

lemma time_sub_add [simp]: "0 \<le> d \<Longrightarrow> d \<le> max_int64 \<Longrightarrow> time_sub (time_add t d) t = d"
  by (simp add: time_sub_def time_add_def)

lemma milliseconds_nonneg: "0 \<le> d \<Longrightarrow> 0 \<le> milliseconds d"
  by (simp add: milliseconds_def pos_imp_zdiv_nonneg_iff)

subsection \<open>Strings\<close>

text \<open>
  \<open>strings.TrimSpace\<close> removes leading and trailing Unicode white space. The white-space code
  points, as the byte sequences of their UTF-8 encodings; trailing white space is found by
  reading the string and the encodings backwards.
\<close>

definition space_seqs :: "string list" where
  "space_seqs =
     map (\<lambda>b. [b]) [CHR 0x09, CHR 0x0A, CHR 0x0B, CHR 0x0C, CHR 0x0D, CHR 0x20] @
     [[CHR 0xC2, CHR 0x85], [CHR 0xC2, CHR 0xA0], [CHR 0xE1, CHR 0x9A, CHR 0x80]] @
     map (\<lambda>b. [CHR 0xE2, CHR 0x80, b])
       [CHR 0x80, CHR 0x81, CHR 0x82, CHR 0x83, CHR 0x84, CHR 0x85, CHR 0x86, CHR 0x87,
        CHR 0x88, CHR 0x89, CHR 0x8A, CHR 0xA8, CHR 0xA9, CHR 0xAF] @
     [[CHR 0xE2, CHR 0x81, CHR 0x9F], [CHR 0xE3, CHR 0x80, CHR 0x80]]"

text \<open>Drop one of the sequences from the front, if the string starts with one.\<close>

fun drop_seq :: "string list \<Rightarrow> string \<Rightarrow> string option" where
  "drop_seq [] s = None"
| "drop_seq (p # ps) s =
     (if p \<noteq> [] \<and> take (length p) s = p then Some (drop (length p) s) else drop_seq ps s)"

lemma drop_seq_shorter: "drop_seq ps s = Some t \<Longrightarrow> length t < length s"
proof (induction ps)
  case Nil
  then show ?case by simp
next
  case (Cons p ps)
  show ?case
  proof (cases "p \<noteq> [] \<and> take (length p) s = p")
    case True
    then have p: "0 < length p" "length p \<le> length s"
      by (simp, metis length_take min.cobounded1)
    from True Cons.prems have "t = drop (length p) s" by simp
    moreover have "length s - length p < length s" using p by linarith
    ultimately show ?thesis by simp
  next
    case False
    with Cons show ?thesis by (auto split: if_splits)
  qed
qed

function trim_front :: "string list \<Rightarrow> string \<Rightarrow> string" where
  "trim_front ps s = (case drop_seq ps s of None \<Rightarrow> s | Some t \<Rightarrow> trim_front ps t)"
  by pat_completeness auto
termination
  by (relation "measure (\<lambda>(ps, s). length s)") (auto dest: drop_seq_shorter)

declare trim_front.simps [simp del]

definition TrimSpace :: "string \<Rightarrow> string" where
  "TrimSpace s = rev (trim_front (map rev space_seqs) (rev (trim_front space_seqs s)))"

lemma trim_front_done: "drop_seq ps (trim_front ps s) = None"
proof (induction ps s rule: trim_front.induct)
  case (1 ps s)
  then show ?case
    by (cases "drop_seq ps s") (simp_all add: trim_front.simps [of ps s])
qed

lemma trim_front_id: "drop_seq ps s = None \<Longrightarrow> trim_front ps s = s"
  by (simp add: trim_front.simps)

lemma trim_front_suffix: "suffix (trim_front ps s) s"
proof (induction ps s rule: trim_front.induct)
  case (1 ps s)
  show ?case
  proof (cases "drop_seq ps s")
    case None
    then show ?thesis by (simp add: trim_front.simps)
  next
    case (Some t)
    then have "suffix t s"
      by (induction ps) (auto simp: suffix_drop split: if_splits)
    with 1 Some show ?thesis
      by (simp add: trim_front.simps [of ps s] suffix_order.trans)
  qed
qed

lemma TrimSpace_Nil [simp]: "TrimSpace [] = []"
proof -
  have e: "drop_seq ps [] = None" for ps
    by (induction ps) auto
  show ?thesis by (simp add: TrimSpace_def trim_front_id e)
qed

lemma TrimSpace_no_trailing: "drop_seq (map rev space_seqs) (rev (TrimSpace s)) = None"
  by (simp add: TrimSpace_def trim_front_done)

text \<open>A prefix of a string without leading white space has none either, so trimming twice is
  trimming once.\<close>

lemma drop_seq_prefix: "drop_seq ps s = None \<Longrightarrow> prefix t s \<Longrightarrow> drop_seq ps t = None"
proof (induction ps)
  case Nil
  then show ?case by simp
next
  case (Cons p ps)
  from Cons.prems(1) have p: "\<not> (p \<noteq> [] \<and> take (length p) s = p)" and ps: "drop_seq ps s = None"
    by (auto split: if_splits)
  have "\<not> (p \<noteq> [] \<and> take (length p) t = p)"
  proof
    assume a: "p \<noteq> [] \<and> take (length p) t = p"
    then have "prefix p t" by (metis take_is_prefix)
    with Cons.prems(2) have "prefix p s" by (meson prefix_order.trans)
    with a p show False by (auto simp: prefix_def)
  qed
  with Cons.IH [OF ps Cons.prems(2)] show ?case by auto
qed

lemma TrimSpace_idem [simp]: "TrimSpace (TrimSpace s) = TrimSpace s"
proof -
  let ?u = "trim_front space_seqs s"
  have pre: "prefix (TrimSpace s) ?u"
    using trim_front_suffix [of "map rev space_seqs" "rev ?u"]
    by (simp add: TrimSpace_def suffix_to_prefix)
  then have "drop_seq space_seqs (TrimSpace s) = None"
    using drop_seq_prefix trim_front_done by blast
  then have "trim_front space_seqs (TrimSpace s) = TrimSpace s"
    by (rule trim_front_id)
  moreover have "trim_front (map rev space_seqs) (rev (TrimSpace s)) = rev (TrimSpace s)"
    by (rule trim_front_id [OF TrimSpace_no_trailing])
  ultimately show ?thesis by (simp add: TrimSpace_def [of "TrimSpace s"])
qed

text \<open>A non-empty string that does not start with white space does not trim to nothing.\<close>

lemma drop_seq_Some: "drop_seq ps s = Some t \<Longrightarrow> \<exists>p. p \<in> set ps \<and> p \<noteq> [] \<and> s = p @ t"
  by (induction ps) (auto split: if_splits intro: append_take_drop_id [symmetric] dest: sym)

lemma drop_seq_None: "drop_seq ps s = None \<longleftrightarrow> (\<forall>p. p \<in> set ps \<and> p \<noteq> [] \<longrightarrow> \<not> prefix p s)"
proof (induction ps)
  case (Cons p ps)
  have "(p \<noteq> [] \<and> take (length p) s = p) \<longleftrightarrow> (p \<noteq> [] \<and> prefix p s)"
    by (metis append_eq_conv_conj prefix_def take_is_prefix)
  with Cons show ?case by auto
qed simp

lemma trim_front_Nil:
  "trim_front ps t = [] \<Longrightarrow> t \<noteq> [] \<Longrightarrow> \<exists>p. p \<in> set ps \<and> p \<noteq> [] \<and> suffix p t"
proof (induction ps t rule: trim_front.induct)
  case (1 ps s)
  show ?case
  proof (cases "drop_seq ps s")
    case None
    with 1 show ?thesis by (simp add: trim_front.simps [of ps s])
  next
    case (Some t)
    from drop_seq_Some [OF Some] obtain p where p: "p \<in> set ps" "p \<noteq> []" "s = p @ t" by blast
    show ?thesis
    proof (cases "t = []")
      case True
      with p show ?thesis by auto
    next
      case False
      from 1 Some have "trim_front ps t = []" by (simp add: trim_front.simps [of ps s])
      from 1(1) [OF Some this False] p(3) show ?thesis by (auto intro: suffix_appendI)
    qed
  qed
qed

lemma TrimSpace_nonempty:
  assumes "drop_seq space_seqs s = None" "s \<noteq> []"
  shows "TrimSpace s \<noteq> []"
proof
  assume "TrimSpace s = []"
  then have "trim_front (map rev space_seqs) (rev s) = []"
    using assms(1) by (simp add: TrimSpace_def trim_front_id)
  with assms(2) trim_front_Nil [of "map rev space_seqs" "rev s"] obtain p
    where "p \<in> set space_seqs" "p \<noteq> []" "suffix (rev p) (rev s)" by auto
  with assms(1) show False by (auto simp: drop_seq_None suffix_to_prefix)
qed

text \<open>Decimal rendering (\<open>strconv.Itoa\<close>, the \<open>%d\<close> verb).\<close>

function nat_digits :: "nat \<Rightarrow> string" where
  "nat_digits n =
     (if n < 10 then [char_of (48 + n)] else nat_digits (n div 10) @ [char_of (48 + n mod 10)])"
  by pat_completeness auto
termination
  by (relation "measure id") auto

declare nat_digits.simps [simp del]

definition Itoa :: "int \<Rightarrow> string" where
  "Itoa i = (if i < 0 then ''-'' @ nat_digits (nat (- i)) else nat_digits (nat i))"

text \<open>Reading the digits back: two integers with the same rendering are equal.\<close>

definition digits_val :: "string \<Rightarrow> nat" where
  "digits_val s = foldl (\<lambda>n c. 10 * n + (of_char c - 48)) 0 s"

lemma digits_val_snoc: "digits_val (s @ [c]) = 10 * digits_val s + (of_char c - 48)"
  by (simp add: digits_val_def)

lemma digits_val_nat_digits [simp]: "digits_val (nat_digits n) = n"
proof (induction n rule: nat_digits.induct)
  case (1 n)
  show ?case
  proof (cases "n < 10")
    case True
    then have "n \<in> {0, 1, 2, 3, 4, 5, 6, 7, 8, 9}" by auto
    then show ?thesis
      by (subst nat_digits.simps) (auto simp: digits_val_def)
  next
    case False
    then have "digits_val (nat_digits n) = 10 * (n div 10) + n mod 10"
      using 1 by (simp add: nat_digits.simps [of n] digits_val_snoc)
    then show ?thesis by simp
  qed
qed

lemma nat_digits_inject [simp]: "nat_digits m = nat_digits n \<longleftrightarrow> m = n"
  by (metis digits_val_nat_digits)

lemma nat_digits_hd: "hd (nat_digits n) \<noteq> CHR ''-'' \<and> nat_digits n \<noteq> []"
proof (induction n rule: nat_digits.induct)
  case (1 n)
  show ?case
  proof (cases "n < 10")
    case True
    then have "n \<in> {0, 1, 2, 3, 4, 5, 6, 7, 8, 9}" by auto
    then show ?thesis
      by (auto simp: nat_digits.simps [of n] char_of_eq_iff)
  next
    case False
    with 1 show ?thesis by (simp add: nat_digits.simps [of n])
  qed
qed

lemma Itoa_inject [simp]: "Itoa i = Itoa j \<longleftrightarrow> i = j"
proof
  assume h: "Itoa i = Itoa j"
  show "i = j"
  proof (cases "i < 0"; cases "j < 0")
    assume "i < 0" "\<not> j < 0"
    with h have "nat_digits (nat j) = ''-'' @ nat_digits (nat (- i))"
      by (simp add: Itoa_def)
    then have "hd (nat_digits (nat j)) = CHR ''-''" by simp
    then show ?thesis using nat_digits_hd by blast
  next
    assume "\<not> i < 0" "j < 0"
    with h have "nat_digits (nat i) = ''-'' @ nat_digits (nat (- j))"
      by (simp add: Itoa_def)
    then have "hd (nat_digits (nat i)) = CHR ''-''" by simp
    then show ?thesis using nat_digits_hd by blast
  qed (use h in \<open>auto simp: Itoa_def\<close>)
qed simp

text \<open>
  \<open>strconv.Atoi\<close>: an optional sign, then decimal digits, in the range of the 64-bit \<open>int\<close>.
\<close>

definition is_digit :: "char \<Rightarrow> bool" where
  "is_digit c \<longleftrightarrow> 48 \<le> (of_char c :: nat) \<and> (of_char c :: nat) \<le> 57"

definition Atoi :: "string \<Rightarrow> int64 option" where
  "Atoi s =
     (let neg = (s \<noteq> [] \<and> hd s = CHR ''-'');
          ds = (if s \<noteq> [] \<and> (hd s = CHR ''-'' \<or> hd s = CHR ''+'') then tl s else s);
          v = (if neg then - int (digits_val ds) else int (digits_val ds))
      in if ds = [] \<or> \<not> list_all is_digit ds then None
         else if v < min_int64 \<or> max_int64 < v then None
         else Some (word_of_int v))"

text \<open>
  The \<open>%q\<close> verb: the string between double quotes, with the escapes of \<open>strconv.Quote\<close> for the
  ASCII range. Bytes from 128 on are copied: they are the encodings of printable code points in
  the identifiers the messages quote.
\<close>

fun hex_digit :: "nat \<Rightarrow> char" where
  "hex_digit n = (if n < 10 then char_of (48 + n) else char_of (87 + n))"

definition quote_byte :: "char \<Rightarrow> string" where
  "quote_byte c =
     (if c = CHR 0x22 then [CHR 0x5C, CHR 0x22]
      else if c = CHR 0x5C then [CHR 0x5C, CHR 0x5C]
      else if c = CHR 0x07 then [CHR 0x5C, CHR ''a'']
      else if c = CHR 0x08 then [CHR 0x5C, CHR ''b'']
      else if c = CHR 0x0C then [CHR 0x5C, CHR ''f'']
      else if c = CHR 0x0A then [CHR 0x5C, CHR ''n'']
      else if c = CHR 0x0D then [CHR 0x5C, CHR ''r'']
      else if c = CHR 0x09 then [CHR 0x5C, CHR ''t'']
      else if c = CHR 0x0B then [CHR 0x5C, CHR ''v'']
      else if (of_char c :: nat) < 32 \<or> c = CHR 0x7F
        then [CHR 0x5C, CHR ''x'', hex_digit (of_char c div 16), hex_digit (of_char c mod 16)]
      else [c])"

definition Quote :: "string \<Rightarrow> string" where
  "Quote s = [CHR 0x22] @ concat (map quote_byte s) @ [CHR 0x22]"

subsection \<open>Lists\<close>

text \<open>A slice \<open>s[:n]\<close> guarded by a length test, as the truncation helpers have it.\<close>

lemma length_take_le: "length (take n xs) \<le> n"
  by simp

lemma prefix_take [simp]: "prefix (take n xs) xs"
  by (simp add: take_is_prefix)

text \<open>A run of a step relation, state by state.\<close>

lemma successively_rtranclp: "successively R (x # xs) \<Longrightarrow> R\<^sup>*\<^sup>* x (last (x # xs))"
proof (induction xs arbitrary: x)
  case (Cons y ys)
  then have "R x y" "R\<^sup>*\<^sup>* y (last (y # ys))" by simp_all
  then show ?case by simp
qed simp

text \<open>\<open>LIMIT\<close> and \<open>OFFSET\<close> of a query: zero or negative means absent.\<close>

definition page_of :: "int \<Rightarrow> int \<Rightarrow> 'a list \<Rightarrow> 'a list" where
  "page_of limit offset rows =
     (let rows' = (if offset > 0 then drop (nat offset) rows else rows)
      in if limit > 0 then take (nat limit) rows' else rows')"

lemma page_of_all [simp]: "page_of 0 0 rows = rows"
  by (simp add: page_of_def)

lemma set_page_of: "set (page_of l k rows) \<subseteq> set rows"
  by (auto simp: page_of_def Let_def dest: in_set_takeD in_set_dropD)

lemma length_page_of: "0 < l \<Longrightarrow> length (page_of l k rows) \<le> nat l"
  by (simp add: page_of_def)

text \<open>\<open>strings.Contains\<close>.\<close>

definition Contains :: "string \<Rightarrow> string \<Rightarrow> bool" where
  "Contains s sub \<longleftrightarrow> sub \<in> set (sublists s)"

lemma Contains_iff: "Contains s sub \<longleftrightarrow> sublist sub s"
  by (simp add: Contains_def)

lemma ContainsI: "s = a @ sub @ b \<Longrightarrow> Contains s sub"
  by (auto simp: Contains_iff sublist_def)

text \<open>\<open>strings.ToLower\<close> on ASCII letters; the other bytes stay as they are.\<close>

definition to_lower :: "char \<Rightarrow> char" where
  "to_lower c = (if 65 \<le> (of_char c :: nat) \<and> (of_char c :: nat) \<le> 90 then char_of (of_char c + 32 :: nat) else c)"

definition ToLower :: "string \<Rightarrow> string" where
  "ToLower s = map to_lower s"

text \<open>Results mapped over.\<close>

lemma map_sum_Inl: "map_sum f g x = Inl e \<longleftrightarrow> (\<exists>y. x = Inl y \<and> e = f y)"
  by (cases x) auto

lemma map_sum_Inr: "map_sum f g x = Inr e \<longleftrightarrow> (\<exists>y. x = Inr y \<and> e = g y)"
  by (cases x) auto

end
