(* ===== verification/Contracts.thy ===== *)
theory Contracts
  imports Go_Prelude
begin

text \<open>
  The contracts package (\<open>pkg/contracts\<close>) and the error values every component returns: error
  codes with their HTTP status, the error type with wrapping (\<open>errors.Is\<close>, \<open>errors.As\<close>), the
  global and per-project roles with their ranks, the authenticated user, the decoded JWT claims
  and the pagination block. Also \<open>handler.WriteAPIError\<close>, the translation of any error into the
  HTTP envelope.
\<close>

subsection \<open>Error codes\<close>

datatype error_code =
    CodeValidation
  | CodeUnauthorized
  | CodeForbidden
  | CodeNotFound
  | CodeConflict
  | CodeInvalidState
  | CodeRateLimited
  | CodeInternal
  | CodeBackendUnavailable
  | CodeQueryTimeout
  | CodeQueryTooLong
  | CodeTimeRangeExceeded
  | CodeInvalidExecRequest
  | CodePodNotFound
  | CodeContainerNotFound
  | CodeTimeout
  | CodeClusterLacksExecPermission
  | CodeAPIServerUnreachable
  | OtherCode string

fun HTTPStatus :: "error_code \<Rightarrow> nat" where
  "HTTPStatus CodeValidation = 400"
| "HTTPStatus CodeQueryTooLong = 400"
| "HTTPStatus CodeUnauthorized = 401"
| "HTTPStatus CodeForbidden = 403"
| "HTTPStatus CodeNotFound = 404"
| "HTTPStatus CodeConflict = 409"
| "HTTPStatus CodeInvalidState = 422"
| "HTTPStatus CodeTimeRangeExceeded = 422"
| "HTTPStatus CodeRateLimited = 429"
| "HTTPStatus CodeInternal = 500"
| "HTTPStatus CodeQueryTimeout = 504"
| "HTTPStatus CodeBackendUnavailable = 503"
| "HTTPStatus CodeInvalidExecRequest = 400"
| "HTTPStatus CodeContainerNotFound = 400"
| "HTTPStatus CodePodNotFound = 404"
| "HTTPStatus CodeClusterLacksExecPermission = 502"
| "HTTPStatus CodeAPIServerUnreachable = 502"
| "HTTPStatus CodeTimeout = 504"
| "HTTPStatus (OtherCode _) = 500"

lemma HTTPStatus_range: "400 \<le> HTTPStatus c \<and> HTTPStatus c \<le> 504"
  by (cases c) simp_all

subsection \<open>Errors\<close>

text \<open>
  A Go error of the program is a package-level sentinel (\<open>errors.New\<close> at package level, identified
  by its text), an error made by code outside the repository (a database driver, the operating
  system), a \<open>fmt.Errorf\<close> wrapper of another error, or a \<open>*contracts.APIError\<close> with its code,
  message and optional cause.
\<close>

datatype go_error =
    Sentinel string
  | External string
  | Wrapped string go_error
  | APIError error_code string "go_error option"

type_synonym 'a result = "go_error + 'a"

text \<open>\<open>errors.Is\<close>: walk the \<open>Unwrap\<close> chain.\<close>

fun errors_Is :: "go_error \<Rightarrow> go_error \<Rightarrow> bool" where
  "errors_Is (Sentinel s) t = (t = Sentinel s)"
| "errors_Is (External s) t = (t = External s)"
| "errors_Is (Wrapped p e) t = (t = Wrapped p e \<or> errors_Is e t)"
| "errors_Is (APIError c m None) t = (t = APIError c m None)"
| "errors_Is (APIError c m (Some e)) t = (t = APIError c m (Some e) \<or> errors_Is e t)"

text \<open>\<open>errors.As\<close> with an \<open>*APIError\<close> target: the first one in the chain, as code and message.\<close>

fun errors_As_API :: "go_error \<Rightarrow> (error_code \<times> string) option" where
  "errors_As_API (Sentinel _) = None"
| "errors_As_API (External _) = None"
| "errors_As_API (Wrapped _ e) = errors_As_API e"
| "errors_As_API (APIError c m _) = Some (c, m)"

text \<open>The strings of the error codes and \<open>Error()\<close>, the text of an error.\<close>

fun code_string :: "error_code \<Rightarrow> string" where
  "code_string CodeValidation = ''VALIDATION_ERROR''"
| "code_string CodeUnauthorized = ''UNAUTHORIZED''"
| "code_string CodeForbidden = ''FORBIDDEN''"
| "code_string CodeNotFound = ''NOT_FOUND''"
| "code_string CodeConflict = ''CONFLICT''"
| "code_string CodeInvalidState = ''INVALID_STATE''"
| "code_string CodeRateLimited = ''RATE_LIMITED''"
| "code_string CodeInternal = ''INTERNAL_ERROR''"
| "code_string CodeBackendUnavailable = ''BACKEND_UNAVAILABLE''"
| "code_string CodeQueryTimeout = ''QUERY_TIMEOUT''"
| "code_string CodeQueryTooLong = ''QUERY_TOO_LONG''"
| "code_string CodeTimeRangeExceeded = ''TIME_RANGE_EXCEEDED''"
| "code_string CodeInvalidExecRequest = ''INVALID_EXEC_REQUEST''"
| "code_string CodePodNotFound = ''POD_NOT_FOUND''"
| "code_string CodeContainerNotFound = ''CONTAINER_NOT_FOUND''"
| "code_string CodeTimeout = ''TIMEOUT''"
| "code_string CodeClusterLacksExecPermission = ''CLUSTER_LACKS_EXEC_PERMISSION''"
| "code_string CodeAPIServerUnreachable = ''APISERVER_UNREACHABLE''"
| "code_string (OtherCode s) = s"

fun Error_text :: "go_error \<Rightarrow> string" where
  "Error_text (Sentinel s) = s"
| "Error_text (External s) = s"
| "Error_text (Wrapped p e) = p @ Error_text e"
| "Error_text (APIError c m _) = code_string c @ '': '' @ m"

text \<open>\<open>handler.WriteAPIError\<close>: the status and body code of the response for an error.\<close>

definition WriteAPIError :: "go_error \<Rightarrow> nat \<times> error_code \<times> string" where
  "WriteAPIError e =
     (case errors_As_API e of
        Some (c, m) \<Rightarrow> (HTTPStatus c, c, m)
      | None \<Rightarrow> (HTTPStatus CodeInternal, CodeInternal, Error_text e))"

lemma WriteAPIError_never_success: "400 \<le> fst (WriteAPIError e)"
  using HTTPStatus_range by (auto simp: WriteAPIError_def split: option.splits)

text \<open>The two sentinels of package \<open>context\<close>.\<close>

abbreviation Canceled :: go_error where
  "Canceled \<equiv> Sentinel ''context canceled''"

abbreviation DeadlineExceeded :: go_error where
  "DeadlineExceeded \<equiv> Sentinel ''context deadline exceeded''"

subsection \<open>Roles\<close>

type_synonym role = string

abbreviation RoleSuperAdmin :: role where "RoleSuperAdmin \<equiv> ''SuperAdmin''"
abbreviation RoleOperator :: role where "RoleOperator \<equiv> ''Operator''"
abbreviation RoleDeveloper :: role where "RoleDeveloper \<equiv> ''Developer''"
abbreviation RoleAuditor :: role where "RoleAuditor \<equiv> ''Auditor''"
abbreviation RoleProjectAdmin :: role where "RoleProjectAdmin \<equiv> ''ProjectAdmin''"
abbreviation RoleScopedAuditor :: role where "RoleScopedAuditor \<equiv> ''ScopedAuditor''"

definition roleRank :: "role \<Rightarrow> int" where
  "roleRank r =
     (if r = RoleSuperAdmin then 4
      else if r = RoleOperator then 3
      else if r = RoleDeveloper then 2
      else if r = RoleAuditor then 1
      else if r = RoleProjectAdmin then 0
      else - 1)"

definition Role_HasPermission :: "role \<Rightarrow> role \<Rightarrow> bool" where
  "Role_HasPermission r required \<longleftrightarrow> roleRank r \<ge> roleRank required"

type_synonym project_role = string

abbreviation ProjectRoleViewer :: project_role where "ProjectRoleViewer \<equiv> ''viewer''"
abbreviation ProjectRoleEditor :: project_role where "ProjectRoleEditor \<equiv> ''editor''"
abbreviation ProjectRoleAdmin :: project_role where "ProjectRoleAdmin \<equiv> ''admin''"

definition projectRoleRank :: "project_role \<Rightarrow> int" where
  "projectRoleRank r =
     (if r = ProjectRoleAdmin then 2
      else if r = ProjectRoleEditor then 1
      else if r = ProjectRoleViewer then 0
      else - 1)"

definition ProjectRole_HasPermission :: "project_role \<Rightarrow> project_role \<Rightarrow> bool" where
  "ProjectRole_HasPermission r required \<longleftrightarrow> projectRoleRank r \<ge> projectRoleRank required"

text \<open>The rank order is total and transitive, and \<open>SuperAdmin\<close> is its only top.\<close>

lemma Role_HasPermission_refl: "Role_HasPermission r r"
  by (simp add: Role_HasPermission_def)

lemma Role_HasPermission_trans:
  "Role_HasPermission a b \<Longrightarrow> Role_HasPermission b c \<Longrightarrow> Role_HasPermission a c"
  by (simp add: Role_HasPermission_def)

lemma Role_HasPermission_SuperAdmin:
  "Role_HasPermission r RoleSuperAdmin \<longleftrightarrow> r = RoleSuperAdmin"
  by (simp add: Role_HasPermission_def roleRank_def)

lemma roleRank_unranked:
  "r \<notin> {RoleSuperAdmin, RoleOperator, RoleDeveloper, RoleAuditor, RoleProjectAdmin}
     \<longleftrightarrow> roleRank r = - 1"
  by (simp add: roleRank_def)

lemma roleRank_lower: "- 1 \<le> roleRank r"
  by (simp add: roleRank_def)

subsection \<open>Users and claims\<close>

record user =
  user_ID :: string
  user_Username :: string
  user_Email :: string
  user_Role :: role
  user_ProjectRole :: project_role

record jwt_claims =
  jwt_UserID :: string
  jwt_Username :: string
  jwt_Role :: role
  jwt_ExpiresAt :: int

definition IsExpired :: "int \<Rightarrow> jwt_claims \<Rightarrow> bool" where
  "IsExpired nowFn c \<longleftrightarrow> jwt_ExpiresAt c \<le> nowFn"

subsection \<open>Pagination\<close>

text \<open>The page number and size come from the query string as Go \<open>int\<close>s, so the arithmetic is
  that of 64-bit words.\<close>

record pagination =
  pg_Total :: int64
  pg_Limit :: int64
  pg_Offset :: int64
  pg_HasMore :: bool

abbreviation defaultPageSize :: int64 where "defaultPageSize \<equiv> 20"
abbreviation maxPageSize :: int64 where "maxPageSize \<equiv> 200"

definition NewPagination :: "int64 \<Rightarrow> int64 \<Rightarrow> pagination" where
  "NewPagination page pageSize =
     (let page = (if page <s 1 then 1 else page);
          pageSize = (if pageSize <s 1 then defaultPageSize else pageSize);
          pageSize = (if maxPageSize <s pageSize then maxPageSize else pageSize)
      in \<lparr>pg_Total = 0, pg_Limit = pageSize, pg_Offset = (page - 1) * pageSize, pg_HasMore = False\<rparr>)"

definition MoreAvailable :: "pagination \<Rightarrow> bool" where
  "MoreAvailable p \<longleftrightarrow> pg_Offset p + pg_Limit p <s pg_Total p"

lemma NewPagination_limit:
  "1 \<le> sint (pg_Limit (NewPagination page pageSize))
   \<and> sint (pg_Limit (NewPagination page pageSize)) \<le> 200"
  by (auto simp: NewPagination_def Let_def word_sless_alt)

subsection \<open>HTTP responses\<close>

text \<open>
  What a handler writes (\<open>internal/handler/response.go\<close>): a resource with a success status, a list
  with its pagination block, an empty 204, or the error envelope with its status, code and
  message. \<open>reject\<close> is \<open>WriteError\<close> of a literal \<open>APIError\<close>, \<open>fail_with\<close> is \<open>WriteAPIError\<close>.
\<close>

datatype 'a response =
    Body nat 'a
  | BodyList "'a list" pagination
  | NoContent
  | ErrorBody nat error_code string

fun resp_status :: "'a response \<Rightarrow> nat" where
  "resp_status (Body st _) = st"
| "resp_status (BodyList _ _) = 200"
| "resp_status NoContent = 204"
| "resp_status (ErrorBody st _ _) = st"

definition reject :: "error_code \<Rightarrow> string \<Rightarrow> 'a response" where
  "reject c m = ErrorBody (HTTPStatus c) c m"

definition fail_with :: "go_error \<Rightarrow> 'a response" where
  "fail_with e = (case WriteAPIError e of (st, c, m) \<Rightarrow> ErrorBody st c m)"

lemma reject_status: "400 \<le> resp_status (reject c m)"
  using HTTPStatus_range by (simp add: reject_def)

lemma fail_with_status: "400 \<le> resp_status (fail_with e)"
  using WriteAPIError_never_success [of e] by (auto simp: fail_with_def split: prod.splits)

lemma error_response_cases [simp]:
  "reject c m \<noteq> Body st x" "reject c m \<noteq> BodyList xs p" "reject c m \<noteq> NoContent"
  "fail_with e \<noteq> Body st x" "fail_with e \<noteq> BodyList xs p" "fail_with e \<noteq> NoContent"
  by (auto simp: reject_def fail_with_def split: prod.splits)

definition respond :: "nat \<Rightarrow> 'a result \<Rightarrow> 'a response" where
  "respond st res = (case res of Inl err \<Rightarrow> fail_with err | Inr x \<Rightarrow> Body st x)"

definition respond_none :: "unit result \<Rightarrow> 'a response" where
  "respond_none res = (case res of Inl err \<Rightarrow> fail_with err | Inr _ \<Rightarrow> NoContent)"

definition invalid :: "string \<Rightarrow> go_error" where
  "invalid m = APIError CodeValidation m None"

end
