(* ===== verification/Orm.thy ===== *)
theory Orm
  imports Contracts
begin

text \<open>
  The database layer. GORM and the SQL database under it are not part of the repository: a table
  is a parameter of the model, a record of the calls the repositories make on it. The locale
  \<open>gorm_table\<close> states the documented behaviour of those calls over an abstract view \<open>rows\<close> of the
  live rows; the locale \<open>repository\<close> states what the repositories of the source promise to the
  services, and \<open>gorm_repo\<close> shows that the translated repository methods keep that promise on
  every table that behaves as documented. An in-memory table instantiates the parameter.
\<close>

subsection \<open>The calls\<close>

abbreviation ErrRecordNotFound :: go_error where
  "ErrRecordNotFound \<equiv> Sentinel ''record not found''"

text \<open>
  \<open>db_First s id\<close> is \<open>db.First(&row, "id = ?", id)\<close>; \<open>db_Create\<close> and \<open>db_Save\<close> take the row;
  \<open>db_Delete\<close> and \<open>db_Updates\<close> (\<open>Where("id = ?", id).Updates(patch)\<close>, the patch as a function on
  the row) return \<open>RowsAffected\<close>; \<open>db_Find s P\<close> returns the rows that satisfy the \<open>Where\<close> clauses
  in the order of the query's \<open>Order\<close> clause. A call that fails leaves the database unchanged.

  Two limits of this reading. A clause that compares times compares instants here; a driver that stores
  times as text with their zone offset compares the texts, which agrees with the instants only while all
  of them are written with one offset. And an error of the database is an \<open>External\<close> message, the
  cancellation of the request's context among them, so that \<open>errors.Is\<close> does not recognise it.
\<close>

record ('s, 'r) gorm =
  db_First :: "'s \<Rightarrow> string \<Rightarrow> 'r result"
  db_Create :: "'s \<Rightarrow> 'r \<Rightarrow> 's result"
  db_Save :: "'s \<Rightarrow> 'r \<Rightarrow> 's result"
  db_Delete :: "'s \<Rightarrow> string \<Rightarrow> (nat \<times> 's) result"
  db_Updates :: "'s \<Rightarrow> string \<Rightarrow> ('r \<Rightarrow> 'r) \<Rightarrow> (nat \<times> 's) result"
  db_Find :: "'s \<Rightarrow> ('r \<Rightarrow> bool) \<Rightarrow> 'r list result"

locale gorm_table =
  fixes g :: "('s, 'r) gorm"
    and key :: "'r \<Rightarrow> string"
    and rows :: "'s \<Rightarrow> string \<Rightarrow> 'r option"
  assumes rows_key: "rows s k = Some r \<Longrightarrow> key r = k"
    and First_found: "db_First g s k = Inr r \<Longrightarrow> rows s k = Some r"
    and First_missing: "db_First g s k = Inl ErrRecordNotFound \<Longrightarrow> rows s k = None"
    and First_error: "db_First g s k = Inl e \<Longrightarrow> e = ErrRecordNotFound \<or> (\<exists>m. e = External m)"
    and Create_ok: "db_Create g s r = Inr s' \<Longrightarrow>
      rows s (key r) = None \<and> rows s' = (rows s)(key r \<mapsto> r)"
    and Create_error: "db_Create g s r = Inl e \<Longrightarrow> \<exists>m. e = External m"
    and Save_ok: "db_Save g s r = Inr s' \<Longrightarrow> rows s' = (rows s)(key r \<mapsto> r)"
    and Save_error: "db_Save g s r = Inl e \<Longrightarrow> \<exists>m. e = External m"
    and Delete_ok: "db_Delete g s k = Inr (n, s') \<Longrightarrow>
      rows s' = (rows s)(k := None) \<and> (n = 0 \<longleftrightarrow> rows s k = None)"
    and Delete_error: "db_Delete g s k = Inl e \<Longrightarrow> \<exists>m. e = External m"
    and Updates_ok: "db_Updates g s k f = Inr (n, s') \<Longrightarrow> (\<And>r. key (f r) = key r) \<Longrightarrow>
      rows s' = (rows s)(k := map_option f (rows s k)) \<and> (n = 0 \<longleftrightarrow> rows s k = None)"
    and Updates_error: "db_Updates g s k f = Inl e \<Longrightarrow> \<exists>m. e = External m"
    and Find_ok: "db_Find g s P = Inr rs \<Longrightarrow>
      distinct (map key rs) \<and> set rs = {r. rows s (key r) = Some r \<and> P r}"
    and Find_error: "db_Find g s P = Inl e \<Longrightarrow> \<exists>m. e = External m"

subsection \<open>database.MapNotFound and the repository methods\<close>

definition MapNotFound :: "go_error \<Rightarrow> go_error \<Rightarrow> go_error" where
  "MapNotFound err sentinel = (if errors_Is err ErrRecordNotFound then sentinel else err)"

lemma MapNotFound_simps [simp]:
  "MapNotFound ErrRecordNotFound nf = nf"
  "MapNotFound (External m) nf = External m"
  by (simp_all add: MapNotFound_def)

text \<open>
  Every repository of the program has the same four methods over its table: \<open>Get\<close>, \<open>Update\<close>
  (existence check, then \<open>Save\<close>), \<open>Delete\<close> (with the \<open>RowsAffected\<close> test) and \<open>Create\<close>, with its own
  not-found sentinel \<open>nf\<close> and its own label in the wrapped error.
\<close>

definition repo_Get :: "('s, 'r) gorm \<Rightarrow> go_error \<Rightarrow> 's \<Rightarrow> string \<Rightarrow> 'r result" where
  "repo_Get g nf s k =
     (case db_First g s k of
        Inl err \<Rightarrow> Inl (MapNotFound err nf)
      | Inr r \<Rightarrow> Inr r)"

definition repo_Update ::
    "('s, 'r) gorm \<Rightarrow> ('r \<Rightarrow> string) \<Rightarrow> string \<Rightarrow> go_error \<Rightarrow> 's \<Rightarrow> 'r \<Rightarrow> 's result" where
  "repo_Update g key label nf s r =
     (case db_First g s (key r) of
        Inl err \<Rightarrow> Inl (MapNotFound err nf)
      | Inr _ \<Rightarrow>
          (case db_Save g s r of
             Inl err \<Rightarrow> Inl (Wrapped label err)
           | Inr s' \<Rightarrow> Inr s'))"

definition repo_Delete :: "('s, 'r) gorm \<Rightarrow> string \<Rightarrow> go_error \<Rightarrow> 's \<Rightarrow> string \<Rightarrow> 's result" where
  "repo_Delete g label nf s k =
     (case db_Delete g s k of
        Inl err \<Rightarrow> Inl (Wrapped label err)
      | Inr (n, s') \<Rightarrow> if n = 0 then Inl nf else Inr s')"

definition repo_Create :: "('s, 'r) gorm \<Rightarrow> string \<Rightarrow> 's \<Rightarrow> 'r \<Rightarrow> 's result" where
  "repo_Create g label s r =
     (case db_Create g s r of
        Inl err \<Rightarrow> Inl (Wrapped label err)
      | Inr s' \<Rightarrow> Inr s')"

text \<open>\<open>Model(...).Where("id = ?", id).Updates(patch)\<close> with the \<open>RowsAffected\<close> test.\<close>

definition repo_Patch ::
    "('s, 'r) gorm \<Rightarrow> string \<Rightarrow> go_error \<Rightarrow> 's \<Rightarrow> string \<Rightarrow> ('r \<Rightarrow> 'r) \<Rightarrow> 's result" where
  "repo_Patch g label nf s k f =
     (case db_Updates g s k f of
        Inl err \<Rightarrow> Inl (Wrapped label err)
      | Inr (n, s') \<Rightarrow> if n = 0 then Inl nf else Inr s')"

text \<open>
  The lists: a count and a page of the rows that satisfy the \<open>Where\<close> clauses, two queries of which
  either may fail.
\<close>

definition query_page ::
    "('s, 'r) gorm \<Rightarrow> string \<Rightarrow> 's \<Rightarrow> ('r \<Rightarrow> bool) \<Rightarrow> int64 \<Rightarrow> int64 \<Rightarrow> ('r list \<times> nat) result" where
  "query_page g label s P limit offset =
     (case db_Find g s P of
        Inl err \<Rightarrow> Inl (Wrapped (label @ '' count: '') err)
      | Inr all \<Rightarrow>
          (case db_Find g s P of
             Inl err \<Rightarrow> Inl (Wrapped (label @ '' find: '') err)
           | Inr rs \<Rightarrow> Inr (page_of (sint limit) (sint offset) rs, length all)))"

lemmas repo_defs =
  repo_Get_def repo_Update_def repo_Delete_def repo_Create_def repo_Patch_def

definition BaseModel_BeforeCreate :: "string \<Rightarrow> string \<Rightarrow> string" where
  "BaseModel_BeforeCreate newID k = (if k = '''' then newID else k)"

subsection \<open>What the repositories promise\<close>

text \<open>
  In \<open>gorm_repo\<close> the label of a wrapped error is a function of the method's name, as in
  \<open>physicalhost.Create\<close>, \<open>physicalhost.Update\<close>.
\<close>

locale repository =
  fixes get :: "'s \<Rightarrow> string \<Rightarrow> 'r result"
    and create :: "'s \<Rightarrow> 'r \<Rightarrow> 's result"
    and update :: "'s \<Rightarrow> 'r \<Rightarrow> 's result"
    and patch :: "'s \<Rightarrow> string \<Rightarrow> ('r \<Rightarrow> 'r) \<Rightarrow> 's result"
    and delete :: "'s \<Rightarrow> string \<Rightarrow> 's result"
    and key :: "'r \<Rightarrow> string"
    and nf :: go_error
    and rows :: "'s \<Rightarrow> string \<Rightarrow> 'r option"
  assumes key_of: "rows s k = Some r \<Longrightarrow> key r = k"
    and get_ok: "get s k = Inr r \<Longrightarrow> rows s k = Some r"
    and get_nf: "get s k = Inl e \<Longrightarrow> errors_Is e nf \<Longrightarrow> rows s k = None"
    and create_ok: "create s r = Inr s' \<Longrightarrow> rows s (key r) = None \<and> rows s' = (rows s)(key r \<mapsto> r)"
    and update_ok: "update s r = Inr s' \<Longrightarrow> rows s (key r) \<noteq> None \<and> rows s' = (rows s)(key r \<mapsto> r)"
    and update_nf: "update s r = Inl e \<Longrightarrow> errors_Is e nf \<Longrightarrow> rows s (key r) = None"
    and patch_ok: "patch s k f = Inr s' \<Longrightarrow> (\<And>r. key (f r) = key r) \<Longrightarrow>
      rows s k \<noteq> None \<and> rows s' = (rows s)(k := map_option f (rows s k))"
    and patch_nf: "patch s k f = Inl e \<Longrightarrow> errors_Is e nf \<Longrightarrow> (\<And>r. key (f r) = key r) \<Longrightarrow>
      rows s k = None"
    and delete_ok: "delete s k = Inr s' \<Longrightarrow> rows s k \<noteq> None \<and> rows s' = (rows s)(k := None)"
    and delete_nf: "delete s k = Inl e \<Longrightarrow> errors_Is e nf \<Longrightarrow> rows s k = None"
begin

lemma get_key: "get s k = Inr r \<Longrightarrow> key r = k"
  by (blast dest: get_ok key_of)

lemma update_get: "update s r = Inr s' \<Longrightarrow> get s' (key r) = Inr r' \<Longrightarrow> r' = r"
  by (auto dest!: update_ok get_ok)

lemma update_frame: "update s r = Inr s' \<Longrightarrow> k \<noteq> key r \<Longrightarrow> rows s' k = rows s k"
  by (auto dest: update_ok)

lemma update_dom: "update s r = Inr s' \<Longrightarrow> dom (rows s') = dom (rows s)"
  by (auto dest!: update_ok split: if_splits)

lemma patch_dom:
  "patch s k f = Inr s' \<Longrightarrow> (\<And>r. key (f r) = key r) \<Longrightarrow> dom (rows s') = dom (rows s)"
  using patch_ok [of s k f s'] by (auto split: if_splits)

lemma deleted_not_found: "delete s k = Inr s' \<Longrightarrow> get s' k \<noteq> Inr r"
  by (auto dest!: delete_ok get_ok)

end

text \<open>A page holds live rows that match; the total counts them all.\<close>

context gorm_table
begin

lemma query_page_sound:
  assumes "query_page g label s P limit offset = Inr (rs, n)"
  shows "set rs \<subseteq> {r. rows s (key r) = Some r \<and> P r} \<and> n = card {r. rows s (key r) = Some r \<and> P r}"
proof -
  from assms obtain all where all: "db_Find g s P = Inr all" "n = length all"
    "rs = page_of (sint limit) (sint offset) all"
    by (auto simp: query_page_def split: sum.splits)
  from Find_ok [OF all(1)] have d: "distinct all"
    and s: "set all = {r. rows s (key r) = Some r \<and> P r}"
    by (auto simp: distinct_map)
  from distinct_card [OF d] all(2) s have "n = card {r. rows s (key r) = Some r \<and> P r}" by simp
  with set_page_of [of "sint limit" "sint offset" all] all(3) s show ?thesis by auto
qed

lemma query_page_everything:
  assumes "query_page g label s P 0 0 = Inr (rs, n)"
  shows "distinct (map key rs) \<and> set rs = {r. rows s (key r) = Some r \<and> P r} \<and> n = length rs"
proof -
  from assms have "db_Find g s P = Inr rs" "n = length rs"
    by (auto simp: query_page_def split: sum.splits)
  with Find_ok [of s P rs] show ?thesis by simp
qed

end

locale gorm_repo = gorm_table +
  fixes nf :: go_error
    and label :: "string \<Rightarrow> string"
  assumes nf_sentinel: "\<exists>t. nf = Sentinel t"
begin

lemma nf_not [simp]: "nf \<noteq> External m" "nf \<noteq> Wrapped l e"
  using nf_sentinel by auto

lemma External_not_nf [simp]: "errors_Is (External m) nf = False"
  using nf_sentinel by auto

lemma Wrapped_not_nf [simp]: "errors_Is (Wrapped l (External m)) nf = False"
  using nf_sentinel by auto

lemma nf_is_nf [simp]: "errors_Is nf nf"
  using nf_sentinel by auto

lemma Get_nf: "repo_Get g nf s k = Inl e \<Longrightarrow> errors_Is e nf \<Longrightarrow> rows s k = None"
  using First_error [of s k] First_missing [of s k]
  by (auto simp: repo_Get_def split: sum.splits)

text \<open>The laws of the writes hold for every label of the wrapped error.\<close>

lemma Get_row: "repo_Get g nf s k = Inr r \<Longrightarrow> rows s k = Some r \<and> key r = k"
  by (auto simp: repo_Get_def dest: First_found rows_key split: sum.splits)

lemma Create_row:
  "repo_Create g lab s r = Inr s' \<Longrightarrow> rows s (key r) = None \<and> rows s' = (rows s)(key r \<mapsto> r)"
  by (auto simp: repo_Create_def dest: Create_ok split: sum.splits)

lemma Update_row:
  "repo_Update g key lab nf s r = Inr s' \<Longrightarrow>
     (\<exists>r0. rows s (key r) = Some r0) \<and> rows s' = (rows s)(key r \<mapsto> r)"
  by (auto simp: repo_Update_def dest: First_found Save_ok split: sum.splits)

lemma Delete_row:
  "repo_Delete g lab nf s k = Inr s' \<Longrightarrow>
     (\<exists>r0. rows s k = Some r0) \<and> rows s' = (rows s)(k := None)"
  using Delete_ok [of s k] by (auto simp: repo_Delete_def split: sum.splits if_splits)

lemma Patch_row:
  assumes "repo_Patch g lab nf s k f = Inr s'" "\<And>r. key (f r) = key r"
  shows "\<exists>r. rows s k = Some r \<and> rows s' = (rows s)(k \<mapsto> f r)"
  using Updates_ok [of s k f] assms
  by (auto simp: repo_Patch_def split: sum.splits if_splits)

lemma Patch_live:
  assumes "rows s k = Some r" "\<And>r. key (f r) = key r" "\<And>e. db_Updates g s k f \<noteq> Inl e"
  shows "\<exists>s'. repo_Patch g lab nf s k f = Inr s' \<and> rows s' = (rows s)(k \<mapsto> f r)"
proof (cases "db_Updates g s k f")
  case (Inl e)
  with assms(3) [of e] show ?thesis by simp
next
  case (Inr x)
  then obtain n s' where x: "db_Updates g s k f = Inr (n, s')" by (cases x) simp
  from Updates_ok [OF x assms(2)] assms(1) x show ?thesis by (simp add: repo_Patch_def)
qed

lemma Get_error: "repo_Get g nf s k = Inl e \<Longrightarrow> e = nf \<or> (\<exists>m. e = External m)"
  using First_error [of s k] by (auto simp: repo_Get_def split: sum.splits)

end

sublocale gorm_repo \<subseteq> repo: repository
  "repo_Get g nf" "repo_Create g (label ''Create'')" "repo_Update g key (label ''Update'') nf"
  "repo_Patch g (label ''Patch'') nf" "repo_Delete g (label ''Delete'') nf" key nf rows
proof (standard, goal_cases)
  case 1 then show ?case by (rule rows_key)
next
  case 2 then show ?case
    by (auto simp: repo_Get_def intro: First_found split: sum.splits)
next
  case 3 then show ?case by (rule Get_nf)
next
  case 4 then show ?case
    by (auto simp: repo_Create_def dest: Create_ok split: sum.splits)
next
  case (5 s r s') then show ?case
    by (auto simp: repo_Update_def dest: First_found Save_ok split: sum.splits)
next
  case (6 s r e) then show ?case
    using First_error [of s "key r"] First_missing [of s "key r"] Save_error [of s r]
    by (auto simp: repo_Update_def split: sum.splits)
next
  case (7 s k f s') then show ?case
    using Updates_ok [of s k f] by (auto simp: repo_Patch_def split: sum.splits if_splits)
next
  case (8 s k f e) then show ?case
    using Updates_ok [of s k f] Updates_error [of s k f]
    by (auto simp: repo_Patch_def split: sum.splits if_splits)
next
  case (9 s k s') then show ?case
    using Delete_ok [of s k] by (auto simp: repo_Delete_def split: sum.splits if_splits)
next
  case (10 s k e) then show ?case
    using Delete_ok [of s k] Delete_error [of s k]
    by (auto simp: repo_Delete_def split: sum.splits if_splits)
qed

subsection \<open>An in-memory table\<close>

text \<open>
  A list of rows, the first row with a key being the live one. It is the concrete value of the
  parameter in the witnesses, and shows that the documented behaviour can hold.
\<close>

definition mem_rows :: "('r \<Rightarrow> string) \<Rightarrow> 'r list \<Rightarrow> string \<Rightarrow> 'r option" where
  "mem_rows key s k = find (\<lambda>r. key r = k) s"

definition mem_gorm :: "('r \<Rightarrow> string) \<Rightarrow> ('r list, 'r) gorm" where
  "mem_gorm key =
     \<lparr>db_First = (\<lambda>s k. case mem_rows key s k of None \<Rightarrow> Inl ErrRecordNotFound | Some r \<Rightarrow> Inr r),
      db_Create = (\<lambda>s r. case mem_rows key s (key r) of
         None \<Rightarrow> Inr (r # s) | Some _ \<Rightarrow> Inl (External ''UNIQUE constraint failed'')),
      db_Save = (\<lambda>s r. Inr (r # filter (\<lambda>x. key x \<noteq> key r) s)),
      db_Delete = (\<lambda>s k. Inr (if mem_rows key s k = None then 0 else 1, filter (\<lambda>x. key x \<noteq> k) s)),
      db_Updates = (\<lambda>s k f. Inr (if mem_rows key s k = None then 0 else 1,
         map (\<lambda>x. if key x = k then f x else x) s)),
      db_Find = (\<lambda>s P. Inr (filter P (List.map_filter (mem_rows key s) (remdups (map key s)))))\<rparr>"

lemma mem_rows_Cons [simp]:
  "mem_rows key (x # s) k = (if key x = k then Some x else mem_rows key s k)"
  by (simp add: mem_rows_def)

lemma mem_rows_Nil [simp]: "mem_rows key [] k = None"
  by (simp add: mem_rows_def)

lemma mem_rows_key: "mem_rows key s k = Some r \<Longrightarrow> key r = k \<and> r \<in> set s"
  by (induction s) (auto split: if_splits)

lemma mem_rows_ex: "r \<in> set s \<Longrightarrow> \<exists>x. mem_rows key s (key r) = Some x"
  by (induction s) auto

lemma mem_rows_filter: "mem_rows key (filter (\<lambda>x. key x \<noteq> k0) s) k = (if k = k0 then None else mem_rows key s k)"
  by (induction s) auto

lemma mem_rows_map:
  "(\<And>r. key (f r) = key r) \<Longrightarrow>
   mem_rows key (map (\<lambda>x. if key x = k0 then f x else x) s) k =
     (if k = k0 then map_option f (mem_rows key s k) else mem_rows key s k)"
  by (induction s) auto

lemma mem_live_rows:
  "map key (List.map_filter (mem_rows key s) ks) = filter (\<lambda>k0. mem_rows key s k0 \<noteq> None) ks"
  by (induction ks) (auto simp: map_filter_simps dest: mem_rows_key)

lemma mem_live_set:
  "set (List.map_filter (mem_rows key s) (remdups (map key s))) = {r. mem_rows key s (key r) = Some r}"
proof -
  have "r \<in> set (List.map_filter (mem_rows key s) (remdups (map key s)))"
    if "mem_rows key s (key r) = Some r" for r
    using that mem_rows_key [OF that] by (force simp: map_filter_def)
  moreover have "mem_rows key s (key r) = Some r"
    if m: "r \<in> set (List.map_filter (mem_rows key s) (remdups (map key s)))" for r
  proof -
    from m obtain k where "mem_rows key s k = Some r" unfolding List.map_filter_def by auto
    then show ?thesis by (auto dest: mem_rows_key)
  qed
  ultimately show ?thesis by blast
qed

lemma mem_First:
  "db_First (mem_gorm key) s k = (case mem_rows key s k of None \<Rightarrow> Inl ErrRecordNotFound | Some r \<Rightarrow> Inr r)"
  by (simp add: mem_gorm_def)

lemma mem_Save: "db_Save (mem_gorm key) s r = Inr (r # filter (\<lambda>x. key x \<noteq> key r) s)"
  by (simp add: mem_gorm_def)

lemma mem_Create:
  "db_Create (mem_gorm key) s r =
     (case mem_rows key s (key r) of
        None \<Rightarrow> Inr (r # s) | Some _ \<Rightarrow> Inl (External ''UNIQUE constraint failed''))"
  by (simp add: mem_gorm_def)

lemma mem_Delete:
  "db_Delete (mem_gorm key) s k =
     Inr (if mem_rows key s k = None then 0 else 1, filter (\<lambda>x. key x \<noteq> k) s)"
  by (simp add: mem_gorm_def)

lemma mem_Updates:
  "db_Updates (mem_gorm key) s k f =
     Inr (if mem_rows key s k = None then 0 else 1, map (\<lambda>x. if key x = k then f x else x) s)"
  by (simp add: mem_gorm_def)

lemma mem_Find:
  "db_Find (mem_gorm key) s P = Inr (filter P (List.map_filter (mem_rows key s) (remdups (map key s))))"
  by (simp add: mem_gorm_def)

lemmas mem_calls = mem_First mem_Save mem_Create mem_Delete mem_Updates mem_Find

interpretation mem: gorm_table "mem_gorm key" key "mem_rows key" for key
proof (unfold_locales, unfold mem_calls, goal_cases)
  case 1 then show ?case by (simp add: mem_rows_key)
next
  case 2 then show ?case by (simp split: option.splits)
next
  case 3 then show ?case by (simp split: option.splits)
next
  case 4 then show ?case by (simp split: option.splits)
next
  case 5 then show ?case by (auto split: option.splits)
next
  case 6 then show ?case by (auto split: option.splits)
next
  case 7 then show ?case by (auto simp: mem_rows_filter fun_eq_iff)
next
  case 9 then show ?case by (auto simp: mem_rows_filter fun_eq_iff split: if_splits)
next
  case (11 s k f n s')
  then have s': "s' = map (\<lambda>x. if key x = k then f x else x) s"
    and n: "n = (if mem_rows key s k = None then 0 else 1)" by simp_all
  from 11(2) have "mem_rows key s' = (mem_rows key s)(k := map_option f (mem_rows key s k))"
    unfolding s' by (auto simp: mem_rows_map fun_eq_iff)
  with n show ?case by simp
next
  case (13 s P rs)
  let ?live = "List.map_filter (mem_rows key s) (remdups (map key s))"
  from 13 have rs: "rs = filter P ?live" by (simp only: sum.inject)
  have "distinct (map key ?live)"
    by (simp add: mem_live_rows)
  then have "distinct (map key rs)"
    unfolding rs by (rule distinct_map_filter)
  moreover have "set rs = {r. mem_rows key s (key r) = Some r \<and> P r}"
    unfolding rs set_filter mem_live_set by blast
  ultimately show ?case by blast
qed simp_all

interpretation mem_repo: gorm_repo "mem_gorm key" key "mem_rows key" "Sentinel t" label for key t label
  by standard simp

subsection \<open>Deleting and updating by condition\<close>

text \<open>
  The tables on which the source deletes or updates by a \<open>Where\<close> clause other than the primary key.
  Every row embeds \<open>database.BaseModel\<close>, whose \<open>DeletedAt\<close> column makes a deletion a soft one: the row
  disappears from the queries but stays in the table, and in its unique indexes. \<open>soft_unique\<close> states
  this for a table with one unique index besides the key: \<open>uniq\<close> is the indexed columns of a row and
  \<open>index s\<close> the values the index holds, those of deleted rows included.
\<close>

record ('s, 'r) gorm_bulk =
  gb_table :: "('s, 'r) gorm"
  gb_Delete :: "'s \<Rightarrow> ('r \<Rightarrow> bool) \<Rightarrow> (nat \<times> 's) result"
  gb_Updates :: "'s \<Rightarrow> ('r \<Rightarrow> bool) \<Rightarrow> ('r \<Rightarrow> 'r) \<Rightarrow> (nat \<times> 's) result"

locale gorm_bulk_table = gorm_table "gb_table b" key rows
  for b :: "('s, 'r) gorm_bulk" and key :: "'r \<Rightarrow> string" and rows :: "'s \<Rightarrow> string \<Rightarrow> 'r option" +
  assumes bulk_Delete_ok: "gb_Delete b s P = Inr (n, s') \<Longrightarrow>
      rows s' = (\<lambda>k. case rows s k of Some r \<Rightarrow> if P r then None else Some r | None \<Rightarrow> None)
      \<and> (n = 0 \<longleftrightarrow> (\<forall>k r. rows s k = Some r \<longrightarrow> \<not> P r))"
    and bulk_Updates_ok: "gb_Updates b s P f = Inr (n, s') \<Longrightarrow> (\<And>r. key (f r) = key r) \<Longrightarrow>
      rows s' = (\<lambda>k. map_option (\<lambda>r. if P r then f r else r) (rows s k))
      \<and> (n = 0 \<longleftrightarrow> (\<forall>k r. rows s k = Some r \<longrightarrow> \<not> P r))"
begin

lemma bulk_Delete_none: "gb_Delete b s P = Inr (n, s') \<Longrightarrow> rows s' k = Some r \<Longrightarrow> \<not> P r \<and> rows s k = Some r"
  by (auto dest!: bulk_Delete_ok split: option.splits if_splits)

lemma bulk_Updates_frame:
  "gb_Updates b s P f = Inr (n, s') \<Longrightarrow> (\<And>r. key (f r) = key r) \<Longrightarrow>
     dom (rows s') = dom (rows s)"
  by (auto dest!: bulk_Updates_ok)

end

locale soft_unique = gorm_bulk_table b key rows
  for b :: "('s, 'r) gorm_bulk" and key :: "'r \<Rightarrow> string" and rows :: "'s \<Rightarrow> string \<Rightarrow> 'r option" +
  fixes uniq :: "'r \<Rightarrow> 'u" and index :: "'s \<Rightarrow> 'u set"
  assumes live_indexed: "rows s k = Some r \<Longrightarrow> uniq r \<in> index s"
    and index_Create: "db_Create (gb_table b) s r = Inr s' \<Longrightarrow> uniq r \<notin> index s \<and> index s' = insert (uniq r) (index s)"
    and index_Delete: "gb_Delete b s P = Inr (n, s') \<Longrightarrow> index s' = index s"
    and index_Updates: "gb_Updates b s P f = Inr (n, s') \<Longrightarrow> (\<And>r. uniq (f r) = uniq r) \<Longrightarrow> index s' = index s"
begin

text \<open>A value that is in the index without a live row: no insertion and no update makes it live.\<close>

definition ghost :: "'s \<Rightarrow> 'u \<Rightarrow> bool" where
  "ghost s u \<longleftrightarrow> u \<in> index s \<and> (\<forall>k r. rows s k = Some r \<longrightarrow> uniq r \<noteq> u)"

lemma ghostI: "u \<in> index s \<Longrightarrow> (\<And>k r. rows s k = Some r \<Longrightarrow> uniq r \<noteq> u) \<Longrightarrow> ghost s u"
  by (simp add: ghost_def)

lemma ghostD: "ghost s u \<Longrightarrow> rows s k = Some r \<Longrightarrow> uniq r \<noteq> u"
  by (simp add: ghost_def)

lemma ghost_indexed: "ghost s u \<Longrightarrow> u \<in> index s"
  by (simp add: ghost_def)

lemma ghost_Create:
  assumes "db_Create (gb_table b) s r = Inr s'" "ghost s u"
  shows "ghost s' u"
proof (rule ghostI)
  from index_Create [OF assms(1)] ghost_indexed [OF assms(2)] have "uniq r \<noteq> u" "u \<in> index s'" by auto
  then show "u \<in> index s'" by simp
  show "uniq x \<noteq> u" if "rows s' k = Some x" for k x
    using that Create_ok [OF assms(1)] \<open>uniq r \<noteq> u\<close> ghostD [OF assms(2)] by (auto split: if_splits)
qed

lemma ghost_Delete:
  assumes "gb_Delete b s P = Inr (n, s')" "ghost s u"
  shows "ghost s' u"
proof (rule ghostI)
  show "u \<in> index s'" using index_Delete [OF assms(1)] ghost_indexed [OF assms(2)] by simp
  show "uniq r \<noteq> u" if "rows s' k = Some r" for k r
    by (rule ghostD [OF assms(2), of k]) (simp add: bulk_Delete_none [OF assms(1) that])
qed

lemma ghost_Updates:
  assumes "gb_Updates b s P f = Inr (n, s')" "\<And>r. uniq (f r) = uniq r" "\<And>r. key (f r) = key r" "ghost s u"
  shows "ghost s' u"
proof (rule ghostI)
  show "u \<in> index s'" using index_Updates [OF assms(1,2)] ghost_indexed [OF assms(4)] by simp
  fix k r assume "rows s' k = Some r"
  with bulk_Updates_ok [OF assms(1,3)] obtain r0 where "rows s k = Some r0" "r = (if P r0 then f r0 else r0)"
    by auto
  with ghostD [OF assms(4), of k r0] assms(2) [of r0] show "uniq r \<noteq> u" by simp
qed

lemma Delete_makes_ghost:
  assumes "gb_Delete b s (\<lambda>r. uniq r = u) = Inr (n, s')" "n \<noteq> 0"
  shows "ghost s' u"
proof -
  from bulk_Delete_ok [OF assms(1)] assms(2) obtain k r where "rows s k = Some r" "uniq r = u" by blast
  then have "u \<in> index s'" using index_Delete [OF assms(1)] live_indexed [of s k r] by simp
  then show ?thesis using bulk_Delete_none [OF assms(1)] by (intro ghostI) auto
qed

end

text \<open>
  An in-memory table with soft deletion: the live rows, and the values the index keeps for the rows
  that were deleted.
\<close>

definition mem_live :: "('r \<Rightarrow> string) \<Rightarrow> 'r list \<Rightarrow> 'r list" where
  "mem_live key s = List.map_filter (mem_rows key s) (remdups (map key s))"

definition soft_index :: "('r \<Rightarrow> 'u) \<Rightarrow> 'r list \<times> 'u list \<Rightarrow> 'u set" where
  "soft_index uniq s = uniq ` set (fst s) \<union> set (snd s)"

definition soft_gorm :: "('r \<Rightarrow> string) \<Rightarrow> ('r \<Rightarrow> 'u) \<Rightarrow> string \<Rightarrow> ('r list \<times> 'u list, 'r) gorm_bulk" where
  "soft_gorm key uniq violation =
     \<lparr>gb_table =
        \<lparr>db_First = (\<lambda>s k. db_First (mem_gorm key) (fst s) k),
         db_Create = (\<lambda>s r. if uniq r \<in> soft_index uniq s then Inl (External violation)
            else map_sum (\<lambda>e. e) (\<lambda>l. (l, snd s)) (db_Create (mem_gorm key) (fst s) r)),
         db_Save = (\<lambda>s r. map_sum (\<lambda>e. e) (\<lambda>l. (l, snd s)) (db_Save (mem_gorm key) (fst s) r)),
         db_Delete = (\<lambda>s k. map_sum (\<lambda>e. e) (\<lambda>x. (fst x, snd x, map uniq (fst s) @ snd s))
            (db_Delete (mem_gorm key) (fst s) k)),
         db_Updates = (\<lambda>s k f. map_sum (\<lambda>e. e) (\<lambda>x. (fst x, snd x, snd s)) (db_Updates (mem_gorm key) (fst s) k f)),
         db_Find = (\<lambda>s P. db_Find (mem_gorm key) (fst s) P)\<rparr>,
      gb_Delete = (\<lambda>s P. Inr (length (filter P (mem_live key (fst s))),
         filter (\<lambda>r. \<not> P r) (mem_live key (fst s)), map uniq (fst s) @ snd s)),
      gb_Updates = (\<lambda>s P f. Inr (length (filter P (mem_live key (fst s))),
         map (\<lambda>r. if P r then f r else r) (fst s), snd s))\<rparr>"

lemma mem_rows_distinct: "distinct (map key xs) \<Longrightarrow> mem_rows key xs k = Some r \<longleftrightarrow> r \<in> set xs \<and> key r = k"
  by (induction xs) force+

lemma mem_live_simps:
  "distinct (map key (mem_live key s))" "set (mem_live key s) = {r. mem_rows key s (key r) = Some r}"
  by (simp_all add: mem_live_def mem_live_rows mem_live_set)

lemma mem_rows_filter_live:
  "mem_rows key (filter Q (mem_live key s)) k
     = (case mem_rows key s k of Some r \<Rightarrow> if Q r then Some r else None | None \<Rightarrow> None)"
proof -
  have d: "distinct (map key (filter Q (mem_live key s)))"
    by (rule distinct_map_filter [OF mem_live_simps(1)])
  have m: "mem_rows key (filter Q (mem_live key s)) k = Some r \<longleftrightarrow> mem_rows key s k = Some r \<and> Q r" for r
  proof -
    have "mem_rows key s (key r) = Some r \<and> key r = k \<longleftrightarrow> mem_rows key s k = Some r"
      using mem_rows_key [of key s k r] by blast
    then show ?thesis unfolding mem_rows_distinct [OF d] by (simp add: mem_live_simps) blast
  qed
  show ?thesis
  proof (cases "mem_rows key s k")
    case None
    with m have "mem_rows key (filter Q (mem_live key s)) k \<noteq> Some r" for r by simp
    then have "mem_rows key (filter Q (mem_live key s)) k = None" by (rule not_Some_eq [THEN iffD1, OF allI])
    with None show ?thesis by simp
  next
    case (Some r)
    show ?thesis
    proof (cases "mem_rows key (filter Q (mem_live key s)) k")
      case None
      with m [of r] Some show ?thesis by simp
    next
      case (Some x)
      with m [of x] \<open>mem_rows key s k = Some r\<close> show ?thesis by simp
    qed
  qed
qed

lemma mem_rows_map_cond:
  "(\<And>r. key (f r) = key r) \<Longrightarrow>
     mem_rows key (map (\<lambda>r. if P r then f r else r) s) k = map_option (\<lambda>r. if P r then f r else r) (mem_rows key s k)"
  by (induction s) auto

lemma mem_live_none: "length (filter P (mem_live key s)) = 0 \<longleftrightarrow> (\<forall>k r. mem_rows key s k = Some r \<longrightarrow> \<not> P r)"
  by (auto simp: mem_live_simps filter_empty_conv dest: mem_rows_key)

lemma soft_calls:
  "db_First (gb_table (soft_gorm key uniq m)) s k = db_First (mem_gorm key) (fst s) k"
  "db_Create (gb_table (soft_gorm key uniq m)) s r = (if uniq r \<in> soft_index uniq s then Inl (External m)
     else map_sum (\<lambda>e. e) (\<lambda>l. (l, snd s)) (db_Create (mem_gorm key) (fst s) r))"
  "db_Save (gb_table (soft_gorm key uniq m)) s r = map_sum (\<lambda>e. e) (\<lambda>l. (l, snd s)) (db_Save (mem_gorm key) (fst s) r)"
  "db_Delete (gb_table (soft_gorm key uniq m)) s k = map_sum (\<lambda>e. e) (\<lambda>x. (fst x, snd x, map uniq (fst s) @ snd s))
     (db_Delete (mem_gorm key) (fst s) k)"
  "db_Updates (gb_table (soft_gorm key uniq m)) s k f
     = map_sum (\<lambda>e. e) (\<lambda>x. (fst x, snd x, snd s)) (db_Updates (mem_gorm key) (fst s) k f)"
  "db_Find (gb_table (soft_gorm key uniq m)) s P = db_Find (mem_gorm key) (fst s) P"
  "gb_Delete (soft_gorm key uniq m) s P = Inr (length (filter P (mem_live key (fst s))),
         filter (\<lambda>r. \<not> P r) (mem_live key (fst s)), map uniq (fst s) @ snd s)"
  "gb_Updates (soft_gorm key uniq m) s P f = Inr (length (filter P (mem_live key (fst s))),
         map (\<lambda>r. if P r then f r else r) (fst s), snd s)"
  by (simp_all add: soft_gorm_def)

interpretation soft: soft_unique "soft_gorm key uniq m" key "\<lambda>s. mem_rows key (fst s)" uniq "soft_index uniq"
  for key uniq m
proof (unfold_locales, unfold soft_calls map_sum_Inl map_sum_Inr, goal_cases)
  case 1 then show ?case by (rule mem.rows_key)
next
  case 2 then show ?case by (rule mem.First_found)
next
  case 3 then show ?case by (rule mem.First_missing)
next
  case 4 then show ?case by (rule mem.First_error)
next
  case 5 then show ?case by (auto dest: mem.Create_ok split: if_splits simp: map_sum_Inr)
next
  case 6 then show ?case by (auto dest: mem.Create_error split: if_splits simp: map_sum_Inl)
next
  case 7 then show ?case by (auto dest: mem.Save_ok)
next
  case 8 then show ?case by (auto dest: mem.Save_error)
next
  case (9 s k n s') then show ?case by (auto dest: mem.Delete_ok)
next
  case 10 then show ?case by (auto dest: mem.Delete_error)
next
  case (11 s k f n s')
  then obtain y where "db_Updates (mem_gorm key) (fst s) k f = Inr y" "(n, s') = (fst y, snd y, snd s)" by blast
  with mem.Updates_ok [of key "fst s" k f "fst y" "snd y"] 11(2) show ?case by simp
next
  case 12 then show ?case by (auto dest: mem.Updates_error)
next
  case 13 then show ?case by (rule mem.Find_ok)
next
  case 14 then show ?case by (rule mem.Find_error)
next
  case (15 s P n s')
  then have "s' = (filter (\<lambda>r. \<not> P r) (mem_live key (fst s)), map uniq (fst s) @ snd s)"
    "n = length (filter P (mem_live key (fst s)))" by simp_all
  then show ?case using mem_live_none [of P key "fst s"]
    by (auto simp: mem_rows_filter_live fun_eq_iff split: option.splits)
next
  case (16 s P f n s')
  then have "s' = (map (\<lambda>r. if P r then f r else r) (fst s), snd s)"
    "n = length (filter P (mem_live key (fst s)))" by simp_all
  then show ?case using mem_live_none [of P key "fst s"] 16(2) by (auto simp: mem_rows_map_cond fun_eq_iff)
next
  case 17 then show ?case by (auto simp: soft_index_def dest: mem_rows_key)
next
  case 18 then show ?case
    by (auto simp: map_sum_Inr mem_Create soft_index_def split: if_splits option.splits)
next
  case (19 s P n s') then show ?case by (auto simp: soft_index_def mem_live_simps dest!: mem_rows_key)
next
  case (20 s P f n s')
  then have "s' = (map (\<lambda>r. if P r then f r else r) (fst s), snd s)" by simp
  then show ?case using 20(2) by (simp add: soft_index_def image_image if_distrib [of uniq] del: if_image_distrib cong: if_cong)
qed

end
