(* ===== verification/Rbac.thy ===== *)
theory Rbac
  imports Contracts
begin

text \<open>
  The role-based access control layer (\<open>internal/auth/rbac\<close>): the permission catalogue and the
  role matrix (\<open>matrix.go\<close>), the decision service (\<open>service.go\<close>) and the decision of the
  \<open>RequirePermission\<close> middleware (\<open>middleware.go\<close>). Lemmas: the matrix is monotone along the
  operational roles, absent roles hold nothing, a nil user is always denied, label access is
  intersection, inherited labels are the distinct labels of the path.
\<close>

subsection \<open>The permission catalogue and the matrix\<close>

datatype permission =
    PermissionViewDevices
  | PermissionModifyConfig
  | PermissionExecuteCommands
  | PermissionRemoteRestart
  | PermissionWriteDevices
  | PermissionManageDeviceGroups
  | PermissionManageConfigurationTemplates
  | PermissionViewProjects
  | PermissionWriteProjects
  | PermissionManageHostProjectLinks
  | PermissionRunDiscovery
  | PermissionManageK8sClusters
  | PermissionViewK8sResources
  | PermissionExecK8sPod
  | PermissionViewK8sPodLogs
  | PermissionManagePipelines
  | PermissionViewPipelines
  | PermissionManageServiceCatalog
  | PermissionViewServiceCatalog
  | PermissionViewPhysicalHosts
  | PermissionWritePhysicalHosts
  | PermissionProbePhysicalHost
  | PermissionMaintenancePhysical
  | PermissionViewAuditLog
  | PermissionViewAuditLogProject
  | PermissionViewLogs
  | PermissionWriteLogs
  | PermissionViewMetrics
  | PermissionWriteMetrics
  | PermissionViewAlerts
  | PermissionWriteAlerts
  | PermissionViewDiscovery

definition allPermissions :: "permission list" where
  "allPermissions =
    [PermissionViewDevices, PermissionModifyConfig, PermissionExecuteCommands,
     PermissionRemoteRestart, PermissionWriteDevices, PermissionManageDeviceGroups,
     PermissionManageConfigurationTemplates, PermissionViewProjects, PermissionWriteProjects,
     PermissionManageHostProjectLinks, PermissionViewDiscovery, PermissionRunDiscovery,
     PermissionManageK8sClusters, PermissionViewK8sResources, PermissionExecK8sPod,
     PermissionViewK8sPodLogs, PermissionViewPipelines, PermissionManagePipelines,
     PermissionViewServiceCatalog, PermissionManageServiceCatalog, PermissionViewPhysicalHosts,
     PermissionWritePhysicalHosts, PermissionProbePhysicalHost, PermissionMaintenancePhysical,
     PermissionViewAuditLog, PermissionViewLogs, PermissionWriteLogs, PermissionViewMetrics,
     PermissionWriteMetrics, PermissionViewAlerts, PermissionWriteAlerts]"

text \<open>\<open>AllPermissions\<close> returns a copy of the catalogue.\<close>

definition AllPermissions :: "permission list" where
  "AllPermissions = allPermissions"

text \<open>The map \<open>RolePermissions\<close>; \<open>None\<close> is an absent key.\<close>

definition RolePermissions :: "role \<Rightarrow> permission list option" where
  "RolePermissions r =
     (if r = RoleSuperAdmin then
        Some
         [PermissionViewDevices, PermissionModifyConfig, PermissionExecuteCommands,
          PermissionRemoteRestart, PermissionWriteDevices, PermissionManageDeviceGroups,
          PermissionManageConfigurationTemplates, PermissionViewProjects,
          PermissionWriteProjects, PermissionManageHostProjectLinks, PermissionViewDiscovery,
          PermissionRunDiscovery, PermissionManageK8sClusters, PermissionViewK8sResources,
          PermissionExecK8sPod, PermissionViewK8sPodLogs, PermissionViewPipelines,
          PermissionManagePipelines, PermissionViewServiceCatalog,
          PermissionManageServiceCatalog, PermissionViewPhysicalHosts,
          PermissionWritePhysicalHosts, PermissionProbePhysicalHost,
          PermissionMaintenancePhysical, PermissionViewAuditLog, PermissionViewLogs,
          PermissionWriteLogs, PermissionViewMetrics, PermissionWriteMetrics,
          PermissionViewAlerts, PermissionWriteAlerts]
      else if r = RoleOperator then
        Some
         [PermissionViewDevices, PermissionModifyConfig, PermissionExecuteCommands,
          PermissionWriteDevices, PermissionManageDeviceGroups,
          PermissionManageConfigurationTemplates, PermissionViewProjects,
          PermissionWriteProjects, PermissionManageHostProjectLinks, PermissionViewDiscovery,
          PermissionRunDiscovery, PermissionManageK8sClusters, PermissionViewK8sResources,
          PermissionExecK8sPod, PermissionViewK8sPodLogs, PermissionViewPipelines,
          PermissionManagePipelines, PermissionViewServiceCatalog,
          PermissionManageServiceCatalog, PermissionViewPhysicalHosts,
          PermissionWritePhysicalHosts, PermissionProbePhysicalHost,
          PermissionMaintenancePhysical, PermissionViewAuditLog, PermissionViewLogs,
          PermissionWriteLogs, PermissionViewMetrics, PermissionWriteMetrics,
          PermissionViewAlerts, PermissionWriteAlerts]
      else if r = RoleDeveloper then
        Some
         [PermissionViewDevices, PermissionViewProjects, PermissionViewDiscovery,
          PermissionViewK8sResources, PermissionViewK8sPodLogs, PermissionViewPipelines,
          PermissionViewServiceCatalog, PermissionViewPhysicalHosts, PermissionViewLogs,
          PermissionViewMetrics, PermissionViewAlerts]
      else if r = RoleAuditor then
        Some
         [PermissionViewDevices, PermissionViewProjects, PermissionViewDiscovery,
          PermissionViewK8sResources, PermissionViewK8sPodLogs, PermissionViewPipelines,
          PermissionViewServiceCatalog, PermissionViewPhysicalHosts, PermissionViewAuditLog,
          PermissionViewLogs, PermissionViewMetrics, PermissionViewAlerts]
      else if r = RoleScopedAuditor then
        Some
         [PermissionViewDevices, PermissionViewProjects, PermissionViewDiscovery,
          PermissionViewK8sResources, PermissionViewK8sPodLogs, PermissionViewPipelines,
          PermissionViewServiceCatalog, PermissionViewPhysicalHosts, PermissionViewAuditLog,
          PermissionViewAuditLogProject, PermissionViewLogs, PermissionViewMetrics,
          PermissionViewAlerts]
      else None)"

definition RoleHasPermission :: "role \<Rightarrow> permission \<Rightarrow> bool" where
  "RoleHasPermission r p =
     (case RolePermissions r of
        None \<Rightarrow> False
      | Some perms \<Rightarrow> List.member perms p)"

subsection \<open>The decision service\<close>

text \<open>A nil \<open>*contracts.User\<close> is \<open>None\<close>.\<close>

fun Service_HasPermission :: "user option \<Rightarrow> permission \<Rightarrow> bool" where
  "Service_HasPermission None perm = False"
| "Service_HasPermission (Some u) perm = RoleHasPermission (user_Role u) perm"

fun HasPermissionInProject :: "user option \<Rightarrow> string \<Rightarrow> permission \<Rightarrow> bool" where
  "HasPermissionInProject None projectID perm = False"
| "HasPermissionInProject (Some u) projectID perm =
     (if user_ProjectRole u = ProjectRoleAdmin then True
      else if user_ProjectRole u = ProjectRoleEditor
        then perm = PermissionViewDevices \<or> perm = PermissionModifyConfig
             \<or> perm = PermissionExecuteCommands
      else if user_ProjectRole u = ProjectRoleViewer then perm = PermissionViewDevices
      else RoleHasPermission (user_Role u) perm)"

fun CanRestartInEnvironment :: "user option \<Rightarrow> bool \<Rightarrow> bool" where
  "CanRestartInEnvironment None isProduction = False"
| "CanRestartInEnvironment (Some u) isProduction =
     (if isProduction then user_Role u = RoleSuperAdmin
      else Service_HasPermission (Some u) PermissionRemoteRestart)"

fun CanModifyInEnvironment :: "user option \<Rightarrow> bool \<Rightarrow> bool" where
  "CanModifyInEnvironment None isProduction = False"
| "CanModifyInEnvironment (Some u) isProduction =
     (if isProduction then user_Role u = RoleSuperAdmin
      else Service_HasPermission (Some u) PermissionModifyConfig)"

text \<open>The loop over the user's groups stops at the first one in the label set.\<close>

fun any_in :: "string set \<Rightarrow> string list \<Rightarrow> bool" where
  "any_in devices [] = False"
| "any_in devices (g # gs) = (if g \<in> devices then True else any_in devices gs)"

definition HasAccessByLabel :: "string list \<Rightarrow> string list \<Rightarrow> bool" where
  "HasAccessByLabel userGroups deviceLabels =
     (if userGroups = [] \<or> deviceLabels = [] then False
      else any_in (set deviceLabels) userGroups)"

definition HasAccessByLabelForRole :: "role \<Rightarrow> string list \<Rightarrow> string list \<Rightarrow> bool" where
  "HasAccessByLabelForRole r userGroups deviceLabels =
     (if r = RoleSuperAdmin then True else HasAccessByLabel userGroups deviceLabels)"

text \<open>\<open>InheritedLabels\<close>: the loop with its \<open>seen\<close> set and output slice. A nil result for the empty
  path and an empty slice are not distinguished by any caller.\<close>

fun inherit_loop :: "string set \<Rightarrow> string list \<Rightarrow> string list \<Rightarrow> string list" where
  "inherit_loop seen out [] = out"
| "inherit_loop seen out (g # gs) =
     (if g \<in> seen then inherit_loop seen out gs
      else inherit_loop (insert g seen) (out @ [g]) gs)"

definition InheritedLabels :: "string list \<Rightarrow> string list" where
  "InheritedLabels groupHierarchy =
     (if groupHierarchy = [] then [] else inherit_loop {} [] groupHierarchy)"

subsection \<open>The permission middleware\<close>

text \<open>
  What a middleware does with a request: pass it on, or abort with the status, code and message
  of the error envelope.
\<close>

datatype verdict = Next | Abort nat error_code string

abbreviation abortForbidden :: "string \<Rightarrow> verdict" where
  "abortForbidden msg \<equiv> Abort 403 CodeForbidden msg"

text \<open>The value under the context key: absent (\<open>None\<close>), present but not a user or nil
  (\<open>Some None\<close>), or a user.\<close>

definition RequirePermission :: "permission \<Rightarrow> user option option \<Rightarrow> verdict" where
  "RequirePermission perm v =
     (case v of
        None \<Rightarrow> abortForbidden ''authentication required''
      | Some None \<Rightarrow> abortForbidden ''authentication required''
      | Some (Some u) \<Rightarrow>
          (if \<not> Service_HasPermission (Some u) perm
           then abortForbidden ''insufficient permission''
           else Next))"

subsection \<open>The matrix\<close>

lemma RolePermissions_known:
  "RolePermissions r \<noteq> None \<longleftrightarrow>
     r \<in> {RoleSuperAdmin, RoleOperator, RoleDeveloper, RoleAuditor, RoleScopedAuditor}"
  by (simp add: RolePermissions_def)

lemma RoleHasPermission_unknown:
  "r \<notin> {RoleSuperAdmin, RoleOperator, RoleDeveloper, RoleAuditor, RoleScopedAuditor} \<Longrightarrow>
   \<not> RoleHasPermission r p"
  by (simp add: RoleHasPermission_def RolePermissions_def)

text \<open>What each role holds, by cases on the permission.\<close>

lemma SuperAdmin_perms:
  "RoleHasPermission RoleSuperAdmin p \<longleftrightarrow> p \<noteq> PermissionViewAuditLogProject"
  by (cases p) (simp_all add: RoleHasPermission_def RolePermissions_def)

lemma Operator_perms:
  "RoleHasPermission RoleOperator p \<longleftrightarrow>
     p \<noteq> PermissionViewAuditLogProject \<and> p \<noteq> PermissionRemoteRestart"
  by (cases p) (simp_all add: RoleHasPermission_def RolePermissions_def)

lemma Developer_perms:
  "RoleHasPermission RoleDeveloper p \<longleftrightarrow>
     p \<in> {PermissionViewDevices, PermissionViewProjects, PermissionViewDiscovery,
          PermissionViewK8sResources, PermissionViewK8sPodLogs, PermissionViewPipelines,
          PermissionViewServiceCatalog, PermissionViewPhysicalHosts, PermissionViewLogs,
          PermissionViewMetrics, PermissionViewAlerts}"
  by (cases p) (simp_all add: RoleHasPermission_def RolePermissions_def)

lemma Auditor_perms:
  "RoleHasPermission RoleAuditor p \<longleftrightarrow> p = PermissionViewAuditLog \<or> RoleHasPermission RoleDeveloper p"
  by (cases p) (simp_all add: RoleHasPermission_def RolePermissions_def)

lemma ScopedAuditor_perms:
  "RoleHasPermission RoleScopedAuditor p \<longleftrightarrow>
     p = PermissionViewAuditLogProject \<or> RoleHasPermission RoleAuditor p"
  by (cases p) (simp_all add: RoleHasPermission_def RolePermissions_def)

lemmas matrix_perms =
  SuperAdmin_perms Operator_perms Developer_perms Auditor_perms ScopedAuditor_perms

lemma ProjectAdmin_perms: "\<not> RoleHasPermission RoleProjectAdmin p"
  by (rule RoleHasPermission_unknown) simp

lemma allPermissions_catalogue:
  "set allPermissions = {p. p \<noteq> PermissionViewAuditLogProject}"
proof -
  have "p \<in> set allPermissions \<longleftrightarrow> p \<noteq> PermissionViewAuditLogProject" for p
    by (cases p) (simp_all add: allPermissions_def)
  then show ?thesis by blast
qed

subsection \<open>Labels\<close>

lemma any_in_iff: "any_in D gs \<longleftrightarrow> set gs \<inter> D \<noteq> {}"
  by (induction gs) auto

lemma HasAccessByLabel_iff: "HasAccessByLabel gs ls \<longleftrightarrow> set gs \<inter> set ls \<noteq> {}"
  by (auto simp: HasAccessByLabel_def any_in_iff)

lemma inherit_loop_spec:
  "set out = seen \<Longrightarrow> distinct out \<Longrightarrow>
   distinct (inherit_loop seen out gs) \<and> set (inherit_loop seen out gs) = seen \<union> set gs
   \<and> prefix out (inherit_loop seen out gs)"
proof (induction seen out gs rule: inherit_loop.induct)
  case (1 seen out)
  then show ?case by simp
next
  case (2 seen out g gs)
  show ?case
  proof (cases "g \<in> seen")
    case True
    with 2 show ?thesis by auto
  next
    case False
    with 2 have
      "distinct (inherit_loop (insert g seen) (out @ [g]) gs)
       \<and> set (inherit_loop (insert g seen) (out @ [g]) gs) = insert g seen \<union> set gs
       \<and> prefix (out @ [g]) (inherit_loop (insert g seen) (out @ [g]) gs)"
      by auto
    with False show ?thesis by (auto dest: append_prefixD)
  qed
qed

lemma inherit_loop_subseq: "subseq (inherit_loop seen out gs) (out @ gs)"
proof (induction seen out gs rule: inherit_loop.induct)
  case (2 seen out g gs)
  have "subseq (out @ gs) (out @ g # gs)"
    by (intro list_emb_append_mono) auto
  with 2 show ?case by (auto intro: subseq_order.trans)
qed simp

subsection \<open>Properties\<close>

text \<open>The permissions that change something.\<close>

definition write_permissions :: "permission set" where
  "write_permissions =
     {PermissionModifyConfig, PermissionExecuteCommands, PermissionRemoteRestart,
      PermissionWriteDevices, PermissionManageDeviceGroups,
      PermissionManageConfigurationTemplates, PermissionWriteProjects,
      PermissionManageHostProjectLinks, PermissionRunDiscovery, PermissionManageK8sClusters,
      PermissionExecK8sPod, PermissionManagePipelines, PermissionManageServiceCatalog,
      PermissionWritePhysicalHosts, PermissionProbePhysicalHost, PermissionMaintenancePhysical,
      PermissionWriteLogs, PermissionWriteMetrics, PermissionWriteAlerts}"

text \<open>Who holds a permission that changes something.\<close>

lemma write_holders:
  "p \<in> write_permissions \<Longrightarrow> RoleHasPermission r p \<longleftrightarrow>
     r = RoleSuperAdmin \<or> (r = RoleOperator \<and> p \<noteq> PermissionRemoteRestart)"
  by (cases p) (simp_all add: write_permissions_def RoleHasPermission_def RolePermissions_def)

lemma audit_holders:
  "RoleHasPermission r PermissionViewAuditLog \<longleftrightarrow>
     r = RoleSuperAdmin \<or> r = RoleOperator \<or> r = RoleAuditor \<or> r = RoleScopedAuditor"
  "RoleHasPermission r PermissionViewAuditLogProject \<longleftrightarrow> r = RoleScopedAuditor"
  by (simp_all add: RoleHasPermission_def RolePermissions_def)

text \<open>
  Separation of duties in the role matrix. Only SuperAdmin can restart remotely; every other
  permission that changes something is held by SuperAdmin and Operator only, so the developer, the
  auditors, a project admin and any unknown role are read-only; the audit log is open to the two
  administrators and the two auditors only.
\<close>

theorem matrix_separation:
  "{r. RoleHasPermission r PermissionRemoteRestart} = {RoleSuperAdmin}
   \<and> (\<Union>p \<in> write_permissions. {r. RoleHasPermission r p}) = {RoleSuperAdmin, RoleOperator}
   \<and> {r. RoleHasPermission r PermissionViewAuditLog}
       = {RoleSuperAdmin, RoleOperator, RoleAuditor, RoleScopedAuditor}
   \<and> {r. RoleHasPermission r PermissionViewAuditLogProject} = {RoleScopedAuditor}"
proof (intro conjI)
  have rr: "PermissionRemoteRestart \<in> write_permissions" "PermissionModifyConfig \<in> write_permissions"
    by (simp_all add: write_permissions_def)
  show "{r. RoleHasPermission r PermissionRemoteRestart} = {RoleSuperAdmin}"
    by (simp add: write_holders [OF rr(1)])
  show "(\<Union>p \<in> write_permissions. {r. RoleHasPermission r p}) = {RoleSuperAdmin, RoleOperator}"
  proof (rule set_eqI)
    fix r
    have "r \<in> (\<Union>p \<in> write_permissions. {r. RoleHasPermission r p})
        \<longleftrightarrow> (\<exists>p. p \<in> write_permissions \<and> (r = RoleSuperAdmin \<or> (r = RoleOperator \<and> p \<noteq> PermissionRemoteRestart)))"
      using write_holders [of _ r] by blast
    also have "\<dots> \<longleftrightarrow> r = RoleSuperAdmin \<or> r = RoleOperator"
      using rr by blast
    finally show "r \<in> (\<Union>p \<in> write_permissions. {r. RoleHasPermission r p})
        \<longleftrightarrow> r \<in> {RoleSuperAdmin, RoleOperator}" by (simp only: insert_iff empty_iff simp_thms)
  qed
  show "{r. RoleHasPermission r PermissionViewAuditLog}
      = {RoleSuperAdmin, RoleOperator, RoleAuditor, RoleScopedAuditor}"
    unfolding audit_holders by blast
  show "{r. RoleHasPermission r PermissionViewAuditLogProject} = {RoleScopedAuditor}"
    unfolding audit_holders by blast
qed

text \<open>
  Label based access with inheritance. A user may access a device through the labels inherited
  along a group path exactly if the user is SuperAdmin or one of the user's groups is on the path;
  the inherited labels are distinct and keep the order of the path.
\<close>

theorem label_access_inherited:
  "(HasAccessByLabelForRole r userGroups (InheritedLabels path)
      \<longleftrightarrow> r = RoleSuperAdmin \<or> (\<exists>x. x \<in> set userGroups \<and> x \<in> set path))
   \<and> distinct (InheritedLabels path) \<and> subseq (InheritedLabels path) path"
  using inherit_loop_spec [of "[]" "{}" path] inherit_loop_subseq [of "{}" "[]" path]
  by (auto simp: HasAccessByLabelForRole_def HasAccessByLabel_iff InheritedLabels_def)

end
