(* ===== verification/Caller.thy ===== *)
theory Caller
  imports Rbac
begin

text \<open>
  The request-scoped principal (\<open>internal/auth/caller/caller.go\<close>) with its lazily loaded membership
  cache, the per-project access check, the two access middlewares and the factories of
  \<open>rbac/middleware.go\<close> that bind them to the permission service.

  The membership checker is a function value of the source (production wires a database query);
  it is a parameter here that takes and returns the state \<open>'w\<close> of the world it reads, so that the
  number of times it is called is visible. Its result is the Go pair of a map, which may be nil,
  and an error.
\<close>

type_synonym 'w membership_checker =
  "string \<Rightarrow> 'w \<Rightarrow> (string set option \<times> go_error option) \<times> 'w"

type_synonym permission_checker = "user \<Rightarrow> string \<Rightarrow> bool"

record caller =
  cl_User :: "user option"
  cl_projectIDs :: "string set option"
  cl_projectIDsErr :: "go_error option"

definition New :: "user option \<Rightarrow> caller" where
  "New u = \<lparr>cl_User = u, cl_projectIDs = None, cl_projectIDsErr = None\<rparr>"

text \<open>
  A context (or a gin context) holds nothing under the caller key (\<open>None\<close>), a typed nil pointer
  (\<open>Some None\<close>) or a caller. \<open>FromContext\<close> and \<open>FromGin\<close> return the pointer and whether the key
  was set.
\<close>

type_synonym ctx = "caller option option"

definition WithContext :: "caller option \<Rightarrow> ctx" where
  "WithContext cl = Some cl"

definition FromContext :: "ctx \<Rightarrow> caller option \<times> bool" where
  "FromContext c = (case c of None \<Rightarrow> (None, False) | Some cl \<Rightarrow> (cl, True))"

definition FromGin :: "ctx \<Rightarrow> caller option \<times> bool" where
  "FromGin c = (case c of None \<Rightarrow> (None, False) | Some cl \<Rightarrow> (cl, True))"

fun UserID :: "caller option \<Rightarrow> string" where
  "UserID None = ''''"
| "UserID (Some c) = (case cl_User c of None \<Rightarrow> '''' | Some u \<Rightarrow> user_ID u)"

fun IsSuperAdmin :: "caller option \<Rightarrow> bool" where
  "IsSuperAdmin None = False"
| "IsSuperAdmin (Some c) =
     (case cl_User c of None \<Rightarrow> False | Some u \<Rightarrow> user_Role u = RoleSuperAdmin)"

subsection \<open>Membership with the lazy cache\<close>

text \<open>The load: one call of the checker, its answer kept; a nil map is stored as the empty map.\<close>

definition load_memberships :: "'w membership_checker \<Rightarrow> user \<Rightarrow> caller \<Rightarrow> 'w \<Rightarrow> caller \<times> 'w" where
  "load_memberships m u c w =
     (if cl_projectIDs c = None \<and> cl_projectIDsErr c = None
      then (case m (user_ID u) w of
              ((ids, err), w') \<Rightarrow>
                (c\<lparr>cl_projectIDs := Some (case ids of None \<Rightarrow> {} | Some s \<Rightarrow> s),
                   cl_projectIDsErr := err\<rparr>, w'))
      else (c, w))"

definition IsMemberOf ::
    "string \<Rightarrow> 'w membership_checker option \<Rightarrow> caller option \<Rightarrow> 'w \<Rightarrow> bool \<times> caller option \<times> 'w" where
  "IsMemberOf projectID m cl w =
     (case cl of
        None \<Rightarrow> (False, cl, w)
      | Some c \<Rightarrow>
          (case cl_User c of
             None \<Rightarrow> (False, cl, w)
           | Some u \<Rightarrow>
               if user_Role u = RoleSuperAdmin then (True, cl, w)
               else if projectID = '''' then (False, cl, w)
               else
                 (case m of
                    None \<Rightarrow> (False, cl, w)
                  | Some check \<Rightarrow>
                      (case load_memberships check u c w of
                         (c', w') \<Rightarrow>
                           if cl_projectIDsErr c' \<noteq> None then (False, Some c', w')
                           else (case cl_projectIDs c' of
                                   None \<Rightarrow> (False, Some c', w')
                                 | Some ids \<Rightarrow> (projectID \<in> ids, Some c', w'))))))"

subsection \<open>The access checks\<close>

text \<open>The fallback of the check reads the same key of the same context again.\<close>

definition fromContextGin :: "ctx \<Rightarrow> caller option \<times> bool" where
  "fromContextGin c = (case c of None \<Rightarrow> (None, False) | Some cl \<Rightarrow> (cl, True))"

definition CheckProjectAccess ::
    "ctx \<Rightarrow> string \<Rightarrow> 'w membership_checker option \<Rightarrow> permission_checker option \<Rightarrow> 'w
     \<Rightarrow> bool \<times> caller option \<times> 'w" where
  "CheckProjectAccess ctx projectID m p w =
     (case FromContext ctx of
        (cl, ok) \<Rightarrow>
          if \<not> ok then (False, cl, w)
          else if cl = None then (False, cl, w)
          else if IsSuperAdmin cl then (True, cl, w)
          else if projectID = '''' then (False, cl, w)
          else
            (case IsMemberOf projectID m cl w of
               (member, cl', w') \<Rightarrow>
                 if \<not> member then (False, cl', w')
                 else
                   (case p of
                      None \<Rightarrow> (False, cl', w')
                    | Some check \<Rightarrow>
                        (case Option.bind cl' cl_User of
                           None \<Rightarrow> (False, cl', w')
                         | Some u \<Rightarrow> (check u projectID, cl', w')))))"

text \<open>
  The middlewares. The project-id extractor is a function of the request \<open>req\<close>, possibly nil; the
  result is the verdict, the caller with its cache, and the world.
\<close>

definition permitted :: "permission_checker option \<Rightarrow> caller option \<Rightarrow> string \<Rightarrow> bool" where
  "permitted p cl projectID =
     (case p of
        None \<Rightarrow> False
      | Some check \<Rightarrow>
          (case Option.bind cl cl_User of None \<Rightarrow> False | Some u \<Rightarrow> check u projectID))"

definition RequireProjectAccess ::
    "'w membership_checker option \<Rightarrow> permission_checker option \<Rightarrow> ('req \<Rightarrow> string) option
     \<Rightarrow> 'req \<Rightarrow> ctx \<Rightarrow> 'w \<Rightarrow> verdict \<times> caller option \<times> 'w" where
  "RequireProjectAccess m p projectIDFn req gin w =
     (case FromGin gin of
        (cl, ok) \<Rightarrow>
          if \<not> ok \<or> cl = None then (abortForbidden ''authentication required'', cl, w)
          else if IsSuperAdmin cl then (Next, cl, w)
          else
            (let projectID = (case projectIDFn of None \<Rightarrow> '''' | Some f \<Rightarrow> f req)
             in if projectID = '''' then (abortForbidden ''project id is required'', cl, w)
                else
                  (case IsMemberOf projectID m cl w of
                     (member, cl', w') \<Rightarrow>
                       if \<not> member
                         then (abortForbidden (''not a member of project '' @ projectID), cl', w')
                       else if \<not> permitted p cl' projectID
                         then (abortForbidden (''insufficient permission in project '' @ projectID),
                               cl', w')
                       else (Next, cl', w'))))"

text \<open>The loop over the candidate projects: first match wins.\<close>

fun any_project ::
    "'w membership_checker option \<Rightarrow> permission_checker option \<Rightarrow> string list \<Rightarrow> caller option \<Rightarrow> 'w
     \<Rightarrow> bool \<times> caller option \<times> 'w" where
  "any_project m p [] cl w = (False, cl, w)"
| "any_project m p (pid # pids) cl w =
     (case IsMemberOf pid m cl w of
        (member, cl', w') \<Rightarrow>
          if \<not> member then any_project m p pids cl' w'
          else if \<not> permitted p cl' pid then any_project m p pids cl' w'
          else (True, cl', w'))"

definition RequireAnyProjectAccess ::
    "'w membership_checker option \<Rightarrow> permission_checker option \<Rightarrow> ('req \<Rightarrow> string list) option
     \<Rightarrow> 'req \<Rightarrow> ctx \<Rightarrow> 'w \<Rightarrow> verdict \<times> caller option \<times> 'w" where
  "RequireAnyProjectAccess m p projectIDsFn req gin w =
     (case FromGin gin of
        (cl, ok) \<Rightarrow>
          if \<not> ok \<or> cl = None then (abortForbidden ''authentication required'', cl, w)
          else if IsSuperAdmin cl then (Next, cl, w)
          else
            (let ids = (case projectIDsFn of None \<Rightarrow> [] | Some f \<Rightarrow> f req)
             in if ids = [] then (abortForbidden ''resource is not linked to any project'', cl, w)
                else
                  (case any_project m p ids cl w of
                     (found, cl', w') \<Rightarrow>
                       if found then (Next, cl', w')
                       else (abortForbidden
                               ''not a member of any project linked to the resource'', cl', w'))))"

text \<open>The factories bind the permission service to the middlewares.\<close>

definition NewProjectAccessFactory ::
    "'w membership_checker option \<Rightarrow> permission \<Rightarrow> ('req \<Rightarrow> string) option
     \<Rightarrow> 'req \<Rightarrow> ctx \<Rightarrow> 'w \<Rightarrow> verdict \<times> caller option \<times> 'w" where
  "NewProjectAccessFactory m perm projectIDFn =
     RequireProjectAccess m
       (Some (\<lambda>user projectID. HasPermissionInProject (Some user) projectID perm)) projectIDFn"

definition NewAnyProjectAccessFactory ::
    "'w membership_checker option \<Rightarrow> permission \<Rightarrow> ('req \<Rightarrow> string list) option
     \<Rightarrow> 'req \<Rightarrow> ctx \<Rightarrow> 'w \<Rightarrow> verdict \<times> caller option \<times> 'w" where
  "NewAnyProjectAccessFactory m perm projectIDsFn =
     RequireAnyProjectAccess m
       (Some (\<lambda>user projectID. HasPermissionInProject (Some user) projectID perm)) projectIDsFn"

subsection \<open>The cache\<close>

text \<open>A caller whose memberships were loaded, or whose load failed, is not changed again.\<close>

definition loaded :: "caller \<Rightarrow> bool" where
  "loaded c \<longleftrightarrow> cl_projectIDs c \<noteq> None \<or> cl_projectIDsErr c \<noteq> None"

lemma load_memberships_loaded [simp]: "loaded c \<Longrightarrow> load_memberships m u c w = (c, w)"
  by (auto simp: load_memberships_def loaded_def)

lemma load_memberships_user:
  "load_memberships m u c w = (c', w') \<Longrightarrow> cl_User c' = cl_User c"
  by (auto simp: load_memberships_def split: if_splits prod.splits)

lemma load_memberships_done: "load_memberships m u c w = (c', w') \<Longrightarrow> loaded c'"
  by (auto simp: load_memberships_def loaded_def split: if_splits prod.splits)

lemma IsMemberOf_loaded:
  "loaded c \<Longrightarrow> IsMemberOf pid m (Some c) w = (b, cl', w') \<Longrightarrow> cl' = Some c \<and> w' = w"
  by (auto simp: IsMemberOf_def split: option.splits if_splits)

text \<open>Either the call left caller and world alone, or it did the load.\<close>

lemma IsMemberOf_cases:
  assumes "IsMemberOf pid m (Some c) w = (b, cl', w')"
  shows "(cl' = Some c \<and> w' = w)
    \<or> (\<exists>check u c'. m = Some check \<and> cl_User c = Some u \<and> \<not> loaded c
        \<and> load_memberships check u c w = (c', w') \<and> cl' = Some c' \<and> loaded c')"
proof (cases "loaded c")
  case True
  from IsMemberOf_loaded [OF True assms] show ?thesis by simp
next
  case False
  then show ?thesis using assms
    by (auto simp: IsMemberOf_def split: option.splits if_splits prod.splits
        dest: load_memberships_done)
qed

lemma IsMemberOf_Some: "IsMemberOf pid m (Some c) w = (b, cl', w') \<Longrightarrow> \<exists>c'. cl' = Some c'"
  by (drule IsMemberOf_cases) auto

lemma IsMemberOf_user:
  "IsMemberOf pid m (Some c) w = (b, Some c', w') \<Longrightarrow> cl_User c' = cl_User c"
  by (drule IsMemberOf_cases) (auto dest: load_memberships_user)

text \<open>A sequence of membership questions within one request.\<close>

fun ask :: "'w membership_checker option \<Rightarrow> string list \<Rightarrow> caller option \<Rightarrow> 'w
    \<Rightarrow> bool list \<times> caller option \<times> 'w" where
  "ask m [] cl w = ([], cl, w)"
| "ask m (pid # pids) cl w =
     (case IsMemberOf pid m cl w of
        (b, cl', w') \<Rightarrow>
          (case ask m pids cl' w' of (bs, cl'', w'') \<Rightarrow> (b # bs, cl'', w'')))"

text \<open>A checker that counts its calls.\<close>

definition counting :: "(string \<Rightarrow> string set option \<times> go_error option) \<Rightarrow> nat membership_checker" where
  "counting f uid n = (f uid, Suc n)"

lemma ask_loaded: "loaded c \<Longrightarrow> snd (snd (ask m pids (Some c) w)) = w"
proof (induction pids)
  case Nil
  then show ?case by simp
next
  case (Cons pid pids)
  obtain b cl' w' where e: "IsMemberOf pid m (Some c) w = (b, cl', w')" by (metis prod_cases3)
  from IsMemberOf_loaded [OF Cons.prems e] have "cl' = Some c" "w' = w" by simp_all
  with Cons.IH [OF Cons.prems] e show ?case by (auto split: prod.splits)
qed

lemma ask_None: "snd (snd (ask m pids None w)) = w"
  by (induction pids) (auto simp: IsMemberOf_def split: prod.splits)

text \<open>
  Within one request the membership checker is called at most once, however many membership
  questions are asked, whatever it answers (a failed load is remembered too and not repeated).
\<close>

theorem membership_loaded_at_most_once:
  "snd (snd (ask (Some (counting f)) pids cl n)) \<le> Suc n"
proof (cases cl)
  case None
  then show ?thesis by (simp add: ask_None)
next
  case (Some c)
  then show ?thesis
  proof (induction pids arbitrary: c cl n)
    case Nil
    then show ?case by simp
  next
    case (Cons pid pids)
    obtain b cl' n' where e: "IsMemberOf pid (Some (counting f)) (Some c) n = (b, cl', n')"
      by (metis prod_cases3)
    from IsMemberOf_cases [OF e] show ?case
    proof (elim disjE exE conjE)
      assume "cl' = Some c" "n' = n"
      with Cons.IH [of "Some c" c n] e Cons.prems show ?thesis
        by (auto split: prod.splits)
    next
      fix check u c'
      assume "Some (counting f) = Some check" "load_memberships check u c n = (c', n')"
        "cl' = Some c'" "loaded c'" "\<not> loaded c"
      moreover from this have "n' = Suc n"
        by (auto simp: load_memberships_def loaded_def counting_def split: prod.splits)
      ultimately show ?thesis using e Cons.prems ask_loaded [of c' "Some (counting f)" pids n']
        by (auto split: prod.splits)
    qed
  qed
qed

subsection \<open>What the access checks decide\<close>

text \<open>The memberships a fresh caller gets from a checker that answers \<open>(ids, err)\<close>.\<close>

definition granted :: "string set option \<times> go_error option \<Rightarrow> string set" where
  "granted a = (case a of (ids, None) \<Rightarrow> (case ids of None \<Rightarrow> {} | Some s \<Rightarrow> s) | (_, Some _) \<Rightarrow> {})"

text \<open>A caller whose cache, if loaded, holds that answer.\<close>

definition cache_of :: "user \<Rightarrow> string set option \<times> go_error option \<Rightarrow> caller \<Rightarrow> bool" where
  "cache_of u a c \<longleftrightarrow> cl_User c = Some u \<and>
     (loaded c \<longrightarrow>
        (cl_projectIDsErr c \<noteq> None \<and> granted a = {}) \<or>
        (cl_projectIDsErr c = None \<and> cl_projectIDs c = Some (granted a)))"

lemma cache_of_New [simp]: "cache_of u a (New (Some u))"
  by (simp add: cache_of_def New_def loaded_def)

lemma IsMemberOf_cache:
  assumes c: "cache_of u a c" and m: "\<And>w. fst (m (user_ID u) w) = a"
    and e: "IsMemberOf pid (Some m) (Some c) w = (b, cl', w')"
  shows "(b \<longleftrightarrow> user_Role u = RoleSuperAdmin \<or> pid \<noteq> '''' \<and> pid \<in> granted a)
    \<and> (\<exists>c'. cl' = Some c' \<and> cache_of u a c')"
proof -
  from c have u: "cl_User c = Some u" by (simp add: cache_of_def)
  show ?thesis
  proof (cases "user_Role u = RoleSuperAdmin \<or> pid = ''''")
    case True
    with e u c show ?thesis by (auto simp: IsMemberOf_def split: if_splits)
  next
    case False
    obtain c' w1 where l: "load_memberships m u c w = (c', w1)" by fastforce
    obtain ids err where a2: "a = (ids, err)" by (cases a) auto
    have a: "m (user_ID u) w = ((ids, err), snd (m (user_ID u) w))"
      using m [of w] a2 by (metis prod.collapse)
    have nl: "\<not> loaded c \<Longrightarrow> c' = c\<lparr>cl_projectIDs := Some (case ids of None \<Rightarrow> {} | Some s \<Rightarrow> s),
        cl_projectIDsErr := err\<rparr>"
      using l a by (simp add: load_memberships_def loaded_def split: prod.splits)
    have "cl_projectIDsErr c' \<noteq> None \<and> granted a = {} \<or>
        cl_projectIDsErr c' = None \<and> cl_projectIDs c' = Some (granted a)"
    proof (cases "loaded c")
      case True
      with l c show ?thesis by (auto simp: cache_of_def)
    next
      case False
      with nl a2 show ?thesis by (simp add: granted_def split: option.splits)
    qed
    moreover from load_memberships_user [OF l] u have "cl_User c' = Some u" by simp
    moreover from e u False l have "b = (cl_projectIDsErr c' = None \<and> pid \<in> the (cl_projectIDs c'))"
      "cl' = Some c'" if "cl_projectIDsErr c' = None \<longrightarrow> cl_projectIDs c' \<noteq> None"
      using that by (auto simp: IsMemberOf_def split: if_splits option.splits)
    ultimately show ?thesis using False by (auto simp: cache_of_def)
  qed
qed

lemma any_project_cache:
  assumes m: "\<And>w. fst (m (user_ID u) w) = a"
  shows "cache_of u a c \<Longrightarrow> any_project (Some m) p pids (Some c) w = (b, cl', w') \<Longrightarrow>
    b \<longleftrightarrow> (\<exists>pid \<in> set pids. (user_Role u = RoleSuperAdmin \<or> pid \<noteq> '''' \<and> pid \<in> granted a)
            \<and> (\<exists>check. p = Some check \<and> check u pid))"
proof (induction pids arbitrary: c w)
  case Nil
  then show ?case by simp
next
  case (Cons pid pids)
  obtain b1 cl1 w1 where e: "IsMemberOf pid (Some m) (Some c) w = (b1, cl1, w1)"
    by (metis prod_cases3)
  from IsMemberOf_cache [OF Cons.prems(1) m e] obtain c1
    where b1: "b1 \<longleftrightarrow> user_Role u = RoleSuperAdmin \<or> pid \<noteq> '''' \<and> pid \<in> granted a"
      and c1: "cl1 = Some c1" "cache_of u a c1" by blast
  have perm: "permitted p cl1 pid \<longleftrightarrow> (\<exists>check. p = Some check \<and> check u pid)"
    using c1 by (auto simp: permitted_def cache_of_def split: option.splits)
  show ?case
  proof (cases "b1 \<and> permitted p cl1 pid")
    case True
    with Cons.prems(2) e have b by simp
    with True b1 perm show ?thesis by auto
  next
    case False
    with Cons.prems(2) e c1 have "any_project (Some m) p pids (Some c1) w1 = (b, cl', w')"
      by (auto split: if_splits)
    with Cons.IH [OF c1(2)] False b1 perm show ?thesis by auto
  qed
qed

text \<open>
  C9: tenant isolation of the multi-project routes. For an authenticated caller whose memberships
  the checker answers as \<open>a\<close>, the middleware lets the request through exactly if the caller is
  SuperAdmin, or some project the resource is linked to is non-empty, is one of the caller's
  granted memberships (none if the load failed) and grants the route's permission there.
\<close>

theorem any_project_access_decision:
  assumes "\<And>w. fst (m (user_ID u) w) = a"
  shows "fst (NewAnyProjectAccessFactory (Some m) perm (Some ids) req (Some (Some (New (Some u)))) w) = Next
    \<longleftrightarrow> user_Role u = RoleSuperAdmin
      \<or> (\<exists>pid. pid \<in> set (ids req) \<and> pid \<noteq> '''' \<and> pid \<in> granted a
            \<and> HasPermissionInProject (Some u) pid perm)"
proof -
  let ?p = "Some (\<lambda>user projectID. HasPermissionInProject (Some user) projectID perm)"
  obtain b cl' w' where e: "any_project (Some m) ?p (ids req) (Some (New (Some u))) w = (b, cl', w')"
    by (metis prod_cases3)
  have "IsSuperAdmin (Some (New (Some u))) \<longleftrightarrow> user_Role u = RoleSuperAdmin"
    by (simp add: New_def)
  moreover have "ids req = [] \<Longrightarrow> \<not> b" using e by simp
  ultimately have "fst (NewAnyProjectAccessFactory (Some m) perm (Some ids) req
      (Some (Some (New (Some u)))) w) = Next \<longleftrightarrow> user_Role u = RoleSuperAdmin \<or> b"
    using e by (cases b) (auto simp add: NewAnyProjectAccessFactory_def RequireAnyProjectAccess_def
        FromGin_def Let_def del: HasPermissionInProject.simps IsSuperAdmin.simps)
  with any_project_cache [OF assms cache_of_New e] show ?thesis by blast
qed

abbreviation dev_user :: user where
  "dev_user \<equiv> \<lparr>user_ID = ''u1'', user_Username = ''dev'', user_Email = '''',
    user_Role = RoleDeveloper, user_ProjectRole = ''''\<rparr>"

theorem any_project_access_decision_witness:
  "fst (NewAnyProjectAccessFactory (Some (counting (\<lambda>_. (Some {''p2''}, None))))
      PermissionViewPhysicalHosts (Some (\<lambda>_::unit. [''p1'', ''p2''])) ()
      (Some (Some (New (Some dev_user)))) 0) = Next"
proof -
  have "\<And>w. fst (counting (\<lambda>_. (Some {''p2''}, None)) (user_ID dev_user) w) = (Some {''p2''}, None)"
    by (simp add: counting_def)
  from any_project_access_decision [where m = "counting (\<lambda>_. (Some {''p2''}, None))" and u = dev_user
      and a = "(Some {''p2''}, None)" and perm = PermissionViewPhysicalHosts
      and ids = "\<lambda>_::unit. [''p1'', ''p2'']" and req = "()" and w = 0, OF this]
  show ?thesis by (simp add: granted_def Developer_perms)
qed

text \<open>Fail-closed cases shared by the services.\<close>

lemma IsMemberOf_no_checker:
  "fst (IsMemberOf pid None cl w) \<longleftrightarrow> IsSuperAdmin cl"
  by (cases cl) (auto simp: IsMemberOf_def split: option.splits)

lemma IsMemberOf_no_checker_state [simp]: "snd (IsMemberOf pid None cl w) = (cl, w)"
  by (cases cl) (auto simp: IsMemberOf_def split: option.splits)

definition authenticated :: "ctx \<Rightarrow> caller option option" where
  "authenticated ctx =
     (case FromContext ctx of
        (cl, ok) \<Rightarrow> if \<not> ok \<or> cl = None \<or> Option.bind cl cl_User = None then None else Some cl)"

text \<open>A checker that only reads leaves the world alone.\<close>

lemma IsMemberOf_reads:
  assumes "\<And>u w. snd (m u w) = w" "IsMemberOf pid (Some m) cl w = (b, cl', w')"
  shows "w' = w"
  using assms(2) assms(1) [of _ w]
  by (auto simp: IsMemberOf_def load_memberships_def split: option.splits prod.splits if_splits)
    (metis snd_conv)+

end
