(* ===== verification/Physical_Host.thy ===== *)
theory Physical_Host
  imports Orm Caller
begin

text \<open>
  The physical-host subsystem (\<open>internal/physicalhost\<close>): the host row (\<open>models.go\<close>), its repository
  (\<open>repository.go\<close>), the caller-guarded service (\<open>service.go\<close>) and the create / read / replace /
  delete routes (\<open>handler.go\<close>). Lemmas: the repository keeps the promise of \<open>Orm.repository\<close>, every
  stored row is well formed, the guarded reads are closed to non-members.
\<close>

subsection \<open>The model\<close>

type_synonym physical_host_state = string

abbreviation StateOnline :: physical_host_state where "StateOnline \<equiv> ''online''"
abbreviation StateMonitoringIssue :: physical_host_state where
  "StateMonitoringIssue \<equiv> ''monitoring_issue''"
abbreviation StateOffline :: physical_host_state where "StateOffline \<equiv> ''offline''"
abbreviation StateMaintenance :: physical_host_state where "StateMaintenance \<equiv> ''maintenance''"

definition PhysicalHostState_Valid :: "physical_host_state \<Rightarrow> bool" where
  "PhysicalHostState_Valid s \<longleftrightarrow>
     s = StateOnline \<or> s = StateMonitoringIssue \<or> s = StateOffline \<or> s = StateMaintenance"

text \<open>
  The columns of \<open>BaseModel\<close> other than the key (creation, update and soft-deletion times) are
  GORM's own bookkeeping and stay behind the table parameter.
\<close>

record physical_host =
  ph_ID :: string
  ph_DeviceID :: string
  ph_IPAddress :: string
  ph_SSHPort :: int64
  ph_SSHUser :: string
  ph_State :: physical_host_state
  ph_LastCheckAt :: "time option"
  ph_NextCheckAt :: "time option"
  ph_ConsecutiveFails :: int64
  ph_MaintenanceStartedAt :: "time option"
  ph_MaintenanceReason :: string
  ph_MaintenanceSetBy :: string

text \<open>The UUID that \<open>database.NewID\<close> draws is an argument.\<close>

definition PhysicalHost_BeforeCreate :: "string \<Rightarrow> physical_host \<Rightarrow> physical_host" where
  "PhysicalHost_BeforeCreate newID p =
     (let p = (if ph_State p = '''' then p\<lparr>ph_State := StateOnline\<rparr> else p)
      in p\<lparr>ph_ID := BaseModel_BeforeCreate newID (ph_ID p)\<rparr>)"

definition InMaintenance :: "physical_host \<Rightarrow> bool" where
  "InMaintenance p \<longleftrightarrow> ph_MaintenanceStartedAt p \<noteq> None"

subsection \<open>The repository\<close>

abbreviation ErrHostNotFound :: go_error where
  "ErrHostNotFound \<equiv> Sentinel ''physicalhost: not found''"

abbreviation host_label :: "string \<Rightarrow> string" where
  "host_label m \<equiv> ''physicalhost.'' @ m @ '': ''"

definition IsNotFound :: "go_error \<Rightarrow> bool" where
  "IsNotFound err \<longleftrightarrow> errors_Is err ErrHostNotFound"

type_synonym 's host_table = "('s, physical_host) gorm"

definition Host_Create ::
    "'s host_table \<Rightarrow> string \<Rightarrow> 's \<Rightarrow> physical_host \<Rightarrow> 's result \<times> physical_host" where
  "Host_Create g newID s p =
     (let p' = PhysicalHost_BeforeCreate newID p
      in (repo_Create g (host_label ''Create'') s p', p'))"

abbreviation Host_Get :: "'s host_table \<Rightarrow> 's \<Rightarrow> string \<Rightarrow> physical_host result" where
  "Host_Get g s k \<equiv> repo_Get g ErrHostNotFound s k"

abbreviation Host_Update :: "'s host_table \<Rightarrow> 's \<Rightarrow> physical_host \<Rightarrow> 's result" where
  "Host_Update g s p \<equiv> repo_Update g ph_ID (host_label ''Update'') ErrHostNotFound s p"

abbreviation Host_Delete :: "'s host_table \<Rightarrow> 's \<Rightarrow> string \<Rightarrow> 's result" where
  "Host_Delete g s k \<equiv> repo_Delete g (host_label ''Delete'') ErrHostNotFound s k"

record list_filter =
  lf_State :: physical_host_state
  lf_DeviceID :: string
  lf_Limit :: int64
  lf_Offset :: int64

definition host_matches :: "list_filter \<Rightarrow> physical_host \<Rightarrow> bool" where
  "host_matches f p \<longleftrightarrow>
     (lf_State f \<noteq> '''' \<longrightarrow> ph_State p = lf_State f) \<and>
     (lf_DeviceID f \<noteq> '''' \<longrightarrow> ph_DeviceID p = lf_DeviceID f)"

text \<open>The count and the page are two queries; either may fail.\<close>

definition Host_List ::
    "'s host_table \<Rightarrow> 's \<Rightarrow> list_filter \<Rightarrow> (physical_host list \<times> nat) result" where
  "Host_List g s f =
     (case db_Find g s (host_matches f) of
        Inl err \<Rightarrow> Inl (Wrapped ''physicalhost.List count: '' err)
      | Inr all \<Rightarrow>
          (case db_Find g s (host_matches f) of
             Inl err \<Rightarrow> Inl (Wrapped ''physicalhost.List find: '' err)
           | Inr rows \<Rightarrow>
               Inr (page_of (sint (lf_Limit f)) (sint (lf_Offset f)) rows, length all)))"

text \<open>
  \<open>ListWithDevice\<close> joins the devices table; \<open>devices\<close> maps a device id to the name of the live
  device. \<open>COALESCE(d.name, '')\<close> gives the empty name when there is none. The count names a table and
  no model, so the soft-delete clause is not applied to it: \<open>count_all\<close> answers it, over the deleted
  hosts too. The rows are those of the model, the live ones.
\<close>

record host_list_item =
  hli_Host :: physical_host
  hli_DeviceName :: string

definition Host_ListWithDevice ::
    "'s host_table \<Rightarrow> ('s \<Rightarrow> (physical_host \<Rightarrow> bool) \<Rightarrow> nat result) \<Rightarrow> (string \<Rightarrow> string option) \<Rightarrow> 's
     \<Rightarrow> list_filter \<Rightarrow> (host_list_item list \<times> nat) result" where
  "Host_ListWithDevice g count_all devices s f =
     (case count_all s (host_matches f) of
        Inl err \<Rightarrow> Inl (Wrapped ''physicalhost.ListWithDevice count: '' err)
      | Inr n \<Rightarrow>
          (case db_Find g s (host_matches f) of
             Inl err \<Rightarrow> Inl (Wrapped ''physicalhost.ListWithDevice find: '' err)
           | Inr rows \<Rightarrow>
               Inr (map (\<lambda>p. \<lparr>hli_Host = p,
                              hli_DeviceName = (case devices (ph_DeviceID p) of
                                 None \<Rightarrow> '''' | Some n \<Rightarrow> n)\<rparr>)
                      (page_of (sint (lf_Limit f)) (sint (lf_Offset f)) rows), n)))"

text \<open>The hosts' table: any table that behaves as documented, with the host sentinel.\<close>

locale physical_hosts =
  fixes g :: "'s host_table"
    and rows :: "'s \<Rightarrow> string \<Rightarrow> physical_host option"
  assumes table: "gorm_table g ph_ID rows"

sublocale physical_hosts \<subseteq> gorm_repo g ph_ID rows ErrHostNotFound host_label
  using table by (intro gorm_repo.intro gorm_repo_axioms.intro) simp_all

interpretation mem_hosts: physical_hosts "mem_gorm ph_ID" "mem_rows ph_ID"
  by (intro physical_hosts.intro mem.gorm_table_axioms)

subsection \<open>The service\<close>

text \<open>
  The service holds the repository and an optional resolver of a host's projects; its plain
  methods are the repository's. The guarded variants read the caller from the context.
\<close>

abbreviation Host_ErrUnauthenticated :: go_error where
  "Host_ErrUnauthenticated \<equiv> Sentinel ''physicalhost: unauthenticated''"

abbreviation Host_ErrForbidden :: go_error where
  "Host_ErrForbidden \<equiv> Sentinel ''physicalhost: forbidden''"

definition ProjectIDsForHost ::
    "(string \<Rightarrow> string list result) option \<Rightarrow> string \<Rightarrow> string list result" where
  "ProjectIDsForHost resolver hostID =
     (case resolver of None \<Rightarrow> Inr [] | Some f \<Rightarrow> f hostID)"

definition hostProjectIDs ::
    "(string \<Rightarrow> string list result) option \<Rightarrow> string \<Rightarrow> string list" where
  "hostProjectIDs resolver hostID =
     (if hostID = '''' then []
      else (case ProjectIDsForHost resolver hostID of Inl _ \<Rightarrow> [] | Inr ids \<Rightarrow> ids))"

definition Host_ListWithDeviceWithCaller ::
    "'s host_table \<Rightarrow> ('s \<Rightarrow> (physical_host \<Rightarrow> bool) \<Rightarrow> nat result) \<Rightarrow> (string \<Rightarrow> string option) \<Rightarrow> 's \<Rightarrow> ctx
     \<Rightarrow> list_filter \<Rightarrow> (host_list_item list \<times> nat) result" where
  "Host_ListWithDeviceWithCaller g count_all devices s ctx f =
     (case FromContext ctx of
        (cl, ok) \<Rightarrow>
          if \<not> ok \<or> cl = None \<or> Option.bind cl cl_User = None then Inl Host_ErrUnauthenticated
          else if \<not> IsSuperAdmin cl then Inl Host_ErrForbidden
          else Host_ListWithDevice g count_all devices s f)"

text \<open>The loop over the host's projects asks \<open>IsMemberOf\<close> with a nil checker.\<close>

fun member_loop :: "caller option \<Rightarrow> string list \<Rightarrow> bool" where
  "member_loop cl [] = False"
| "member_loop cl (pid # pids) =
     (case IsMemberOf pid None cl () of
        (b, cl', _) \<Rightarrow> if b then True else member_loop cl' pids)"

definition Host_GetWithCaller ::
    "'s host_table \<Rightarrow> (string \<Rightarrow> string list result) option \<Rightarrow> 's \<Rightarrow> ctx \<Rightarrow> string
     \<Rightarrow> physical_host result" where
  "Host_GetWithCaller g resolver s ctx k =
     (case FromContext ctx of
        (cl, ok) \<Rightarrow>
          if \<not> ok \<or> cl = None \<or> Option.bind cl cl_User = None then Inl Host_ErrUnauthenticated
          else if IsSuperAdmin cl then Host_Get g s k
          else
            (case resolver of
               None \<Rightarrow> Inl Host_ErrForbidden
             | Some f \<Rightarrow>
                 (case f k of
                    Inl err \<Rightarrow> Inl err
                  | Inr ids \<Rightarrow> if member_loop cl ids then Host_Get g s k else Inl Host_ErrForbidden)))"

text \<open>With the nil checker the loop never finds a membership for a caller that is not SuperAdmin.\<close>

lemma member_loop_never: "\<not> IsSuperAdmin cl \<Longrightarrow> \<not> member_loop cl ids"
proof (induction ids)
  case (Cons pid ids)
  obtain b cl' w where e: "IsMemberOf pid None cl () = (b, cl', w)" by (metis prod_cases3)
  with IsMemberOf_no_checker [of pid cl "()"] IsMemberOf_no_checker_state [of pid cl "()"] Cons
  show ?case by simp
qed simp

subsection \<open>The routes\<close>

record host_request =
  hr_DeviceID :: string
  hr_IPAddress :: string
  hr_SSHPort :: int64
  hr_SSHUser :: string
  hr_State :: string

definition hostRequest_validate :: "host_request \<Rightarrow> go_error option" where
  "hostRequest_validate r =
     (if TrimSpace (hr_DeviceID r) = '''' then
        Some (APIError CodeValidation ''device_id is required'' None)
      else if TrimSpace (hr_IPAddress r) = '''' then
        Some (APIError CodeValidation ''ip_address is required'' None)
      else if TrimSpace (hr_SSHUser r) = '''' then
        Some (APIError CodeValidation ''ssh_user is required'' None)
      else if hr_SSHPort r <s 0 \<or> 65535 <s hr_SSHPort r then
        Some (APIError CodeValidation ''ssh_port must be 0-65535'' None)
      else if hr_State r \<noteq> '''' \<and> \<not> PhysicalHostState_Valid (hr_State r) then
        Some (APIError CodeValidation ''state is not a recognised physical-host state'' None)
      else None)"

definition toModel :: "host_request \<Rightarrow> physical_host" where
  "toModel r =
     (let p = \<lparr>ph_ID = '''', ph_DeviceID = TrimSpace (hr_DeviceID r),
               ph_IPAddress = TrimSpace (hr_IPAddress r), ph_SSHPort = hr_SSHPort r,
               ph_SSHUser = TrimSpace (hr_SSHUser r), ph_State = '''', ph_LastCheckAt = None,
               ph_NextCheckAt = None, ph_ConsecutiveFails = 0, ph_MaintenanceStartedAt = None,
               ph_MaintenanceReason = '''', ph_MaintenanceSetBy = ''''\<rparr>;
          p = (if ph_SSHPort p = 0 then p\<lparr>ph_SSHPort := 22\<rparr> else p)
      in if hr_State r \<noteq> '''' then p\<lparr>ph_State := hr_State r\<rparr> else p)"

definition mapRepoError :: "go_error \<Rightarrow> string \<Rightarrow> go_error" where
  "mapRepoError err k =
     (if IsNotFound err
      then APIError CodeNotFound (''physical host '' @ k @ '' not found'') None
      else APIError CodeInternal ''physical host repository error'' (Some err))"

text \<open>The query parameters of the list route, as the strings \<open>c.Query\<close> returns.\<close>

definition parse_page :: "string \<Rightarrow> string \<Rightarrow> string + int64 \<times> int64" where
  "parse_page limit offset =
     (case (if limit = '''' then Some 20 else Atoi limit) of
        None \<Rightarrow> Inl ''limit must be an integer''
      | Some l \<Rightarrow>
          (case (if offset = '''' then Some 0 else Atoi offset) of
             None \<Rightarrow> Inl ''offset must be an integer''
           | Some k \<Rightarrow> Inr (l, k)))"

definition Host_handler_List ::
    "'s host_table \<Rightarrow> ('s \<Rightarrow> (physical_host \<Rightarrow> bool) \<Rightarrow> nat result) \<Rightarrow> (string \<Rightarrow> string option) \<Rightarrow> 's
     \<Rightarrow> string \<Rightarrow> string \<Rightarrow> string \<Rightarrow> string \<Rightarrow> host_list_item response" where
  "Host_handler_List g count_all devices s device_id st limit offset =
     (if st \<noteq> '''' \<and> \<not> PhysicalHostState_Valid st then
        reject CodeValidation ''state filter is not a recognised physical-host state''
      else
        (case parse_page limit offset of
           Inl m \<Rightarrow> reject CodeValidation m
         | Inr (l, k) \<Rightarrow>
             (case Host_ListWithDevice g count_all devices s
                     \<lparr>lf_State = st, lf_DeviceID = device_id, lf_Limit = l, lf_Offset = k\<rparr> of
                Inl err \<Rightarrow> fail_with err
              | Inr (rows, cnt) \<Rightarrow>
                  BodyList rows
                    \<lparr>pg_Total = of_nat cnt, pg_Limit = l, pg_Offset = k,
                     pg_HasMore = (0 <s l \<and> k + l <s of_nat cnt)\<rparr>)))"

definition Host_handler_Get :: "'s host_table \<Rightarrow> 's \<Rightarrow> string \<Rightarrow> physical_host response" where
  "Host_handler_Get g s k =
     (case Host_Get g s k of
        Inl err \<Rightarrow> fail_with (mapRepoError err k)
      | Inr p \<Rightarrow> Body 200 p)"

text \<open>A request body that is not JSON is \<open>None\<close>.\<close>

definition Host_handler_Create ::
    "'s host_table \<Rightarrow> string \<Rightarrow> 's \<Rightarrow> host_request option \<Rightarrow> physical_host response \<times> 's" where
  "Host_handler_Create g newID s body =
     (case body of
        None \<Rightarrow> (reject CodeValidation ''request body must be JSON'', s)
      | Some req \<Rightarrow>
          (case hostRequest_validate req of
             Some apiErr \<Rightarrow> (fail_with apiErr, s)
           | None \<Rightarrow>
               (case Host_Create g newID s (toModel req) of
                  (Inl err, p) \<Rightarrow> (fail_with (mapRepoError err (ph_DeviceID p)), s)
                | (Inr s', p) \<Rightarrow> (Body 201 p, s'))))"

definition replace_fields :: "host_request \<Rightarrow> physical_host \<Rightarrow> physical_host" where
  "replace_fields req p =
     (let p = (if hr_DeviceID req \<noteq> '''' then p\<lparr>ph_DeviceID := TrimSpace (hr_DeviceID req)\<rparr> else p);
          p = (if hr_IPAddress req \<noteq> '''' then p\<lparr>ph_IPAddress := TrimSpace (hr_IPAddress req)\<rparr> else p);
          p = (if 0 <s hr_SSHPort req then p\<lparr>ph_SSHPort := hr_SSHPort req\<rparr> else p);
          p = (if hr_SSHUser req \<noteq> '''' then p\<lparr>ph_SSHUser := TrimSpace (hr_SSHUser req)\<rparr> else p)
      in if hr_State req \<noteq> '''' then p\<lparr>ph_State := hr_State req\<rparr> else p)"

definition Host_handler_Replace ::
    "'s host_table \<Rightarrow> 's \<Rightarrow> string \<Rightarrow> host_request option \<Rightarrow> physical_host response \<times> 's" where
  "Host_handler_Replace g s k body =
     (case body of
        None \<Rightarrow> (reject CodeValidation ''request body must be JSON'', s)
      | Some req \<Rightarrow>
          (case hostRequest_validate req of
             Some apiErr \<Rightarrow> (fail_with apiErr, s)
           | None \<Rightarrow>
               (case Host_Get g s k of
                  Inl err \<Rightarrow> (fail_with (mapRepoError err k), s)
                | Inr p \<Rightarrow>
                    (let p = replace_fields req p
                     in case Host_Update g s p of
                          Inl err \<Rightarrow> (fail_with (mapRepoError err k), s)
                        | Inr s' \<Rightarrow> (Body 200 p, s')))))"

definition Host_handler_Delete ::
    "'s host_table \<Rightarrow> 's \<Rightarrow> string \<Rightarrow> physical_host response \<times> 's" where
  "Host_handler_Delete g s k =
     (case Host_Delete g s k of
        Inl err \<Rightarrow> (fail_with (mapRepoError err k), s)
      | Inr s' \<Rightarrow> (NoContent, s'))"

subsection \<open>Well-formed rows\<close>

text \<open>What every stored host satisfies: the required fields, a usable port, one of the four states.\<close>

definition host_wf :: "physical_host \<Rightarrow> bool" where
  "host_wf p \<longleftrightarrow>
     ph_DeviceID p \<noteq> '''' \<and> ph_IPAddress p \<noteq> '''' \<and> ph_SSHUser p \<noteq> '''' \<and>
     1 \<le> sint (ph_SSHPort p) \<and> sint (ph_SSHPort p) \<le> 65535 \<and> PhysicalHostState_Valid (ph_State p)"

definition all_wf :: "(string \<Rightarrow> physical_host option) \<Rightarrow> bool" where
  "all_wf rows \<longleftrightarrow> (\<forall>k p. rows k = Some p \<longrightarrow> host_wf p)"

lemma all_wf_upd: "all_wf rows \<Longrightarrow> host_wf p \<Longrightarrow> all_wf (rows(k \<mapsto> p))"
  by (simp add: all_wf_def)

lemma all_wf_del: "all_wf rows \<Longrightarrow> all_wf (rows(k := None))"
  by (simp add: all_wf_def)

lemma validate_port:
  "hostRequest_validate r = None \<Longrightarrow> 0 \<le> sint (hr_SSHPort r) \<and> sint (hr_SSHPort r) \<le> 65535"
  by (simp add: hostRequest_validate_def word_sless_alt not_less split: if_splits)

lemma nonzero_port: "0 \<le> sint (w :: int64) \<Longrightarrow> w \<noteq> 0 \<Longrightarrow> 1 \<le> sint w"
  by (metis int_one_le_iff_zero_less order_le_less signed_0 signed_word_eqI)

lemma validate_wf:
  assumes "hostRequest_validate r = None"
  shows "host_wf (PhysicalHost_BeforeCreate n (toModel r))"
  using assms validate_port [OF assms] nonzero_port [of "hr_SSHPort r"]
  by (auto simp: hostRequest_validate_def toModel_def host_wf_def PhysicalHost_BeforeCreate_def
      PhysicalHostState_Valid_def Let_def split: if_splits)

lemma replace_wf:
  assumes v: "hostRequest_validate r = None" and p: "host_wf p"
  shows "host_wf (replace_fields r p)"
  using v validate_port [OF v] p
  by (auto simp: hostRequest_validate_def host_wf_def replace_fields_def
      Let_def word_sless_alt split: if_splits)

lemma replace_fields_keeps [simp]:
  "ph_ID (replace_fields r p) = ph_ID p"
  "ph_MaintenanceStartedAt (replace_fields r p) = ph_MaintenanceStartedAt p"
  "ph_ConsecutiveFails (replace_fields r p) = ph_ConsecutiveFails p"
  by (simp_all add: replace_fields_def Let_def)

end
