(* ===== verification/Host_Metrics.thy ===== *)
theory Host_Metrics
  imports Contracts "HOL-Library.AList" "HOL-Library.Multiset"
begin

text \<open>
  Metrics of a physical host: the prober's types (\<open>prober/contract.go\<close>), the collector that runs
  the SSH commands (\<open>metrics.go\<close>), the in-process snapshot cache (\<open>cache.go\<close>) and the asynchronous
  writer with its bounded channel (\<open>async_writer.go\<close>). Lemmas: the status of a snapshot is a
  function of which commands failed, the cache never exceeds its capacity and never passes an
  expired entry off as fresh, every sample handed to the writer is accounted for.
\<close>

subsection \<open>The prober\<close>

record probe_host =
  pr_IPAddress :: string
  pr_SSHPort :: int64
  pr_SSHUser :: string

record ping_result =
  pg_Reachable :: bool
  pg_LatencyMs :: int64
  pg_Err :: "go_error option"

text \<open>The scripted prober of \<open>prober.go\<close>, with its call counters.\<close>

record fake_prober =
  fk_pingScripted :: "string \<Rightarrow> ping_result option"
  fk_sshScripted :: "string \<Rightarrow> (string \<times> go_error option) option"
  fk_pingCounts :: "string \<Rightarrow> nat"
  fk_sshCounts :: "string \<Rightarrow> nat"

definition NewFake :: fake_prober where
  "NewFake = \<lparr>fk_pingScripted = (\<lambda>_. None), fk_sshScripted = (\<lambda>_. None),
              fk_pingCounts = (\<lambda>_. 0), fk_sshCounts = (\<lambda>_. 0)\<rparr>"

definition ScriptPing :: "fake_prober \<Rightarrow> string \<Rightarrow> ping_result \<Rightarrow> fake_prober" where
  "ScriptPing f ip res = f\<lparr>fk_pingScripted := (fk_pingScripted f)(ip \<mapsto> res)\<rparr>"

abbreviation ssh_key :: "string \<Rightarrow> string \<Rightarrow> string" where
  "ssh_key ip cmd \<equiv> ip @ [CHR 0x00] @ cmd"

definition ScriptSSHExec ::
    "fake_prober \<Rightarrow> string \<Rightarrow> string \<Rightarrow> string \<Rightarrow> go_error option \<Rightarrow> fake_prober" where
  "ScriptSSHExec f ip cmd out err =
     f\<lparr>fk_sshScripted := (fk_sshScripted f)(ssh_key ip cmd \<mapsto> (out, err))\<rparr>"

definition Fake_Ping ::
    "fake_prober \<Rightarrow> probe_host \<Rightarrow> (ping_result \<times> go_error option) \<times> fake_prober" where
  "Fake_Ping f host =
     (let ip = pr_IPAddress host;
          f = f\<lparr>fk_pingCounts := (fk_pingCounts f)(ip := Suc (fk_pingCounts f ip))\<rparr>
      in case fk_pingScripted f ip of
           Some r \<Rightarrow> ((r, pg_Err r), f)
         | None \<Rightarrow> ((\<lparr>pg_Reachable = True, pg_LatencyMs = 1, pg_Err = None\<rparr>, None), f))"

definition Fake_SSHExec ::
    "fake_prober \<Rightarrow> probe_host \<Rightarrow> string \<Rightarrow> (string \<times> go_error option) \<times> fake_prober" where
  "Fake_SSHExec f host cmd =
     (let key = ssh_key (pr_IPAddress host) cmd;
          f = f\<lparr>fk_sshCounts := (fk_sshCounts f)(key := Suc (fk_sshCounts f key))\<rparr>
      in case fk_sshScripted f key of
           Some r \<Rightarrow> (r, f)
         | None \<Rightarrow> (('''', None), f))"

subsection \<open>The collector\<close>

abbreviation DataStatusFresh :: string where "DataStatusFresh \<equiv> ''fresh''"
abbreviation DataStatusStale :: string where "DataStatusStale \<equiv> ''stale''"
abbreviation DataStatusUnavailable :: string where "DataStatusUnavailable \<equiv> ''unavailable''"

text \<open>
  A snapshot. The readings (CPU, memory, disk, uptime) are an abstract value \<open>'r\<close>: the parsers of
  \<open>prober/parse.go\<close> compute them in floating point and are an argument of \<open>Collect\<close>.
\<close>

record 'r metrics =
  mx_Readings :: 'r
  mx_DataStatus :: string
  mx_CollectedAt :: time
  mx_Warnings :: "string list"

definition collect_cmds :: "string list" where
  "collect_cmds =
     [''nproc'', ''top -bn1 | head -5'', ''free -m'', ''df -BG'', ''uptime -p'',
      ''cat /proc/uptime'']"

text \<open>
  The commands run in parallel; \<open>order\<close> is the order in which their results arrive on the channel,
  a permutation of the commands. \<open>ssh\<close> gives the outcome of each command. The loop fills the map
  \<open>byCmd\<close> and the list of error texts.
\<close>

fun bucket ::
    "(string \<Rightarrow> string \<times> go_error option) \<Rightarrow> string list
     \<Rightarrow> (string \<Rightarrow> string option) \<times> string list \<Rightarrow> (string \<Rightarrow> string option) \<times> string list" where
  "bucket ssh [] (byCmd, errs) = (byCmd, errs)"
| "bucket ssh (cmd # cmds) (byCmd, errs) =
     (case ssh cmd of
        (out, Some err) \<Rightarrow> bucket ssh cmds (byCmd, errs @ [cmd @ '': '' @ Error_text err])
      | (out, None) \<Rightarrow> bucket ssh cmds (byCmd(cmd \<mapsto> out), errs))"

definition Collect ::
    "'r \<Rightarrow> ((string \<Rightarrow> string option) \<Rightarrow> 'r) \<Rightarrow> time \<Rightarrow> string list
     \<Rightarrow> (string \<Rightarrow> string \<times> go_error option) \<Rightarrow> 'r metrics \<times> go_error option" where
  "Collect zero parse now order ssh =
     (case bucket ssh order (\<lambda>_. None, []) of
        (byCmd, errs) \<Rightarrow>
          if length errs = length collect_cmds
          then (\<lparr>mx_Readings = zero, mx_DataStatus = DataStatusUnavailable,
                  mx_CollectedAt = now, mx_Warnings = errs\<rparr>, None)
          else (\<lparr>mx_Readings = parse byCmd,
                  mx_DataStatus = (if errs \<noteq> [] then DataStatusStale else DataStatusFresh),
                  mx_CollectedAt = now, mx_Warnings = errs\<rparr>, None))"

lemma bucket_errs:
  "snd (bucket ssh cmds (m, es)) =
     es @ map (\<lambda>c. c @ '': '' @ Error_text (the (snd (ssh c)))) (filter (\<lambda>c. snd (ssh c) \<noteq> None) cmds)"
  by (induction cmds arbitrary: m es) (auto split: prod.splits option.splits)

lemma bucket_map:
  "fst (bucket ssh cmds (m, es)) c =
     (if c \<in> set cmds \<and> snd (ssh c) = None then Some (fst (ssh c)) else m c)"
  by (induction cmds arbitrary: m es) (auto split: prod.splits option.splits)

lemma bucket_all:
  "bucket ssh cmds (m, es) =
     (\<lambda>c. if c \<in> set cmds \<and> snd (ssh c) = None then Some (fst (ssh c)) else m c,
      es @ map (\<lambda>c. c @ '': '' @ Error_text (the (snd (ssh c)))) (filter (\<lambda>c. snd (ssh c) \<noteq> None) cmds))"
  using bucket_errs [of ssh cmds m es] bucket_map [of ssh cmds m es]
  by (auto simp: prod_eq_iff fun_eq_iff)

lemma filter_length_all: "length (filter P xs) = length xs \<longleftrightarrow> (\<forall>x. x \<in> set xs \<longrightarrow> P x)"
  by (metis filter_True filter_id_conv length_filter_less linorder_neq_iff)

subsection \<open>The cache\<close>

record 'r cache_entry =
  ce_snapshot :: "'r metrics"
  ce_expiresAt :: time

text \<open>
  The entries are an association list in the order in which a range loop of the runtime would
  visit them next; \<open>pick\<close> is where the runtime starts.
\<close>

record 'r metrics_cache =
  mc_ttl :: duration
  mc_max :: int
  mc_entries :: "(string \<times> 'r cache_entry) list"

definition NewMetricsCache :: "duration \<Rightarrow> int \<Rightarrow> 'r metrics_cache" where
  "NewMetricsCache ttl maxE =
     \<lparr>mc_ttl = (if ttl < 0 then 30 * Second else ttl),
      mc_max = (if maxE \<le> 0 then 256 else maxE),
      mc_entries = []\<rparr>"

definition lookup :: "'r metrics_cache \<Rightarrow> string \<Rightarrow> 'r cache_entry option" where
  "lookup c hostID = map_of (mc_entries c) hostID"

definition store ::
    "nat \<Rightarrow> 'r metrics_cache \<Rightarrow> string \<Rightarrow> 'r metrics \<Rightarrow> time \<Rightarrow> 'r metrics_cache" where
  "store pick c hostID snapshot expiresAt =
     (let es = mc_entries c;
          es = (if map_of es hostID = None \<and> mc_max c \<le> int (length es)
                then AList.delete (fst (es ! (pick mod length es))) es else es)
      in c\<lparr>mc_entries := AList.update hostID
             \<lparr>ce_snapshot = snapshot, ce_expiresAt = expiresAt\<rparr> es\<rparr>)"

definition Invalidate :: "'r metrics_cache \<Rightarrow> string \<Rightarrow> 'r metrics_cache" where
  "Invalidate c hostID = c\<lparr>mc_entries := AList.delete hostID (mc_entries c)\<rparr>"

definition Size :: "'r metrics_cache \<Rightarrow> nat" where
  "Size c = length (mc_entries c)"

text \<open>
  \<open>collected\<close> is what the collector answers when it is asked; \<open>zero\<close> are the readings of the zero
  \<open>Metrics\<close> value.
\<close>

definition GetOrCollect ::
    "'r \<Rightarrow> nat \<Rightarrow> time \<Rightarrow> 'r metrics \<times> go_error option \<Rightarrow> 'r metrics_cache \<Rightarrow> string
     \<Rightarrow> 'r metrics \<times> 'r metrics_cache" where
  "GetOrCollect zero pick now collected c hostID =
     (let refresh =
        (case collected of
           (fresh, None) \<Rightarrow> (fresh, store pick c hostID fresh (time_add now (mc_ttl c)))
         | (fresh, Some err) \<Rightarrow>
             (case lookup c hostID of
                Some prior \<Rightarrow> ((ce_snapshot prior)\<lparr>mx_DataStatus := DataStatusStale\<rparr>, c)
              | None \<Rightarrow>
                  (\<lparr>mx_Readings = zero, mx_DataStatus = DataStatusUnavailable,
                    mx_CollectedAt = zero_time, mx_Warnings = [Error_text err]\<rparr>, c)))
      in case lookup c hostID of
           Some hit \<Rightarrow> if now < ce_expiresAt hit then (ce_snapshot hit, c) else refresh
         | None \<Rightarrow> refresh)"

subsection \<open>What a bounded cache promises\<close>

locale bounded_cache =
  fixes look :: "'c \<Rightarrow> 'k \<Rightarrow> 'v option"
    and put :: "nat \<Rightarrow> 'c \<Rightarrow> 'k \<Rightarrow> 'v \<Rightarrow> 'c"
    and drop_key :: "'c \<Rightarrow> 'k \<Rightarrow> 'c"
    and size_of :: "'c \<Rightarrow> nat"
    and cap :: "'c \<Rightarrow> int"
    and inv :: "'c \<Rightarrow> bool"
  assumes put_inv: "inv c \<Longrightarrow> inv (put i c k v) \<and> cap (put i c k v) = cap c"
    and drop_inv: "inv c \<Longrightarrow> inv (drop_key c k) \<and> cap (drop_key c k) = cap c"
    and bounded: "inv c \<Longrightarrow> int (size_of c) \<le> cap c"
    and look_put: "inv c \<Longrightarrow> look (put i c k v) k = Some v"
    and look_put_other: "inv c \<Longrightarrow> k' \<noteq> k \<Longrightarrow> look (put i c k v) k' = Some w \<Longrightarrow> look c k' = Some w"
    and look_drop: "inv c \<Longrightarrow> look (drop_key c k) k' = (if k' = k then None else look c k')"
begin

text \<open>A property of all entries that the new entry has is kept by every operation.\<close>

lemma put_all:
  assumes "inv c" "\<And>k v. look c k = Some v \<Longrightarrow> P k v" "P k v" "look (put i c k v) k' = Some v'"
  shows "P k' v'"
  using assms look_put [of c i k v] look_put_other [of c k' k i v v'] by (cases "k' = k") auto

lemma drop_all:
  assumes "inv c" "\<And>k v. look c k = Some v \<Longrightarrow> P k v" "look (drop_key c k) k' = Some v'"
  shows "P k' v'"
  using assms by (auto simp: look_drop split: if_splits)

end

definition cache_inv :: "'r metrics_cache \<Rightarrow> bool" where
  "cache_inv c \<longleftrightarrow> distinct (map fst (mc_entries c)) \<and> 1 \<le> mc_max c \<and> int (Size c) \<le> mc_max c"

abbreviation put_entry :: "nat \<Rightarrow> 'r metrics_cache \<Rightarrow> string \<Rightarrow> 'r cache_entry \<Rightarrow> 'r metrics_cache" where
  "put_entry pick c k e \<equiv> store pick c k (ce_snapshot e) (ce_expiresAt e)"

lemma NewMetricsCache_inv [simp]: "cache_inv (NewMetricsCache ttl maxE)"
  by (simp add: cache_inv_def NewMetricsCache_def Size_def)

lemma length_AList_update:
  "length (AList.update k v es) = (if map_of es k = None then Suc (length es) else length es)"
  by (induction es) auto

lemma length_AList_delete_member:
  "distinct (map fst es) \<Longrightarrow> k \<in> fst ` set es \<Longrightarrow> Suc (length (AList.delete k es)) = length es"
proof (induction es)
  case (Cons e es)
  then show ?case
    by (cases "fst e = k") (auto simp: AList.delete_eq image_iff
        intro!: arg_cong [where f = length] filter_True split: prod.splits)
qed simp

lemma store_inv:
  assumes c: "cache_inv c"
  shows "cache_inv (store pick c k m t) \<and> mc_max (store pick c k m t) = mc_max c"
proof -
  let ?es = "mc_entries c"
  let ?v = "\<lparr>ce_snapshot = m, ce_expiresAt = t\<rparr>"
  from c have d: "distinct (map fst ?es)" and m: "1 \<le> mc_max c" and l: "int (length ?es) \<le> mc_max c"
    by (simp_all add: cache_inv_def Size_def)
  show ?thesis
  proof (cases "map_of ?es k = None \<and> mc_max c \<le> int (length ?es)")
    case True
    let ?k = "fst (?es ! (pick mod length ?es))"
    from True m have "?es \<noteq> []" by auto
    then have "?k \<in> fst ` set ?es" by simp
    from length_AList_delete_member [OF d this] l have
      "int (length (AList.update k ?v (AList.delete ?k ?es))) \<le> mc_max c"
      by (simp add: length_AList_update)
    with True m d show ?thesis
      by (simp add: cache_inv_def store_def Size_def Let_def distinct_update distinct_delete)
  next
    case False
    then have "int (length (AList.update k ?v ?es)) \<le> mc_max c"
      using l by (auto simp: length_AList_update)
    moreover have "store pick c k m t = c\<lparr>mc_entries := AList.update k ?v ?es\<rparr>"
      unfolding store_def Let_def using False by (simp only: if_False)
    ultimately show ?thesis
      using m d by (simp add: cache_inv_def Size_def distinct_update)
  qed
qed

interpretation mc: bounded_cache lookup put_entry Invalidate Size mc_max cache_inv
proof (unfold_locales, goal_cases)
  case 1 then show ?case by (rule store_inv)
next
  case (2 c k)
  have "length (AList.delete k (mc_entries c)) \<le> length (mc_entries c)"
    by (simp add: AList.delete_eq)
  with 2 show ?case
    by (simp add: cache_inv_def Invalidate_def Size_def distinct_delete)
next
  case 3 then show ?case by (simp add: cache_inv_def)
next
  case 4 then show ?case by (simp add: lookup_def store_def Let_def update_conv')
next
  case 5 then show ?case
    by (auto simp: lookup_def store_def Let_def update_conv' delete_conv' split: if_splits)
next
  case 6 then show ?case by (simp add: lookup_def Invalidate_def delete_conv')
qed

subsection \<open>The cache over a run\<close>

datatype 'r cache_op =
    OpGet string nat time "'r metrics \<times> go_error option"
  | OpInvalidate string

fun cache_step :: "'r \<Rightarrow> 'r cache_op \<Rightarrow> 'r metrics_cache \<Rightarrow> 'r metrics_cache" where
  "cache_step zero (OpGet h pick now col) c = snd (GetOrCollect zero pick now col c h)"
| "cache_step zero (OpInvalidate h) c = Invalidate c h"

definition run_cache :: "'r \<Rightarrow> 'r cache_op list \<Rightarrow> 'r metrics_cache \<Rightarrow> 'r metrics_cache" where
  "run_cache zero ops c = fold (cache_step zero) ops c"

lemma GetOrCollect_cache:
  "snd (GetOrCollect zero pick now col c h) = c
   \<or> (\<exists>m. col = (m, None) \<and> snd (GetOrCollect zero pick now col c h)
          = put_entry pick c h \<lparr>ce_snapshot = m, ce_expiresAt = time_add now (mc_ttl c)\<rparr>)"
  by (auto simp: GetOrCollect_def Let_def split: prod.splits option.splits)

lemma GetOrCollect_inv:
  "cache_inv c \<Longrightarrow> cache_inv (snd (GetOrCollect zero pick now col c h))
     \<and> mc_max (snd (GetOrCollect zero pick now col c h)) = mc_max c"
  using GetOrCollect_cache [of zero pick now col c h] by (auto simp: store_inv)

lemma ttl_const [simp]:
  "mc_ttl (store pick c k m t) = mc_ttl c" "mc_ttl (Invalidate c k) = mc_ttl c"
  by (simp_all add: store_def Invalidate_def Let_def)

lemma GetOrCollect_ttl [simp]: "mc_ttl (snd (GetOrCollect zero pick now col c h)) = mc_ttl c"
  using GetOrCollect_cache [of zero pick now col c h] by auto

lemma cache_step_inv:
  "cache_inv c \<Longrightarrow> cache_inv (cache_step zero op c) \<and> mc_max (cache_step zero op c) = mc_max c
     \<and> mc_ttl (cache_step zero op c) = mc_ttl c"
  using mc.drop_inv by (cases op) (auto simp: GetOrCollect_inv)

lemma run_cache_inv:
  "cache_inv c \<Longrightarrow> cache_inv (run_cache zero ops c) \<and> mc_max (run_cache zero ops c) = mc_max c
     \<and> mc_ttl (run_cache zero ops c) = mc_ttl c"
  unfolding run_cache_def
  by (induction ops arbitrary: c) (simp_all add: cache_step_inv)

text \<open>
  The metrics cache never holds more entries than its configured capacity (256 when none is
  configured), whatever sequence of reads and invalidations it serves, whatever the collector
  answers and whichever entry the runtime picks for eviction.
\<close>

theorem metrics_cache_bounded:
  "int (Size (run_cache zero ops (NewMetricsCache ttl maxE))) \<le> (if maxE \<le> 0 then 256 else maxE)"
proof -
  have "mc_max (NewMetricsCache ttl maxE :: 'a metrics_cache) = (if maxE \<le> 0 then 256 else maxE)"
    by (simp add: NewMetricsCache_def)
  then show ?thesis
    using mc.bounded [of "run_cache zero ops (NewMetricsCache ttl maxE)"]
      run_cache_inv [of "NewMetricsCache ttl maxE" zero ops] by simp
qed

text \<open>An entry is justified by the read that collected it.\<close>

definition justified :: "duration \<Rightarrow> 'r cache_op set \<Rightarrow> string \<Rightarrow> 'r cache_entry \<Rightarrow> bool" where
  "justified ttl ops h e \<longleftrightarrow>
     (\<exists>pick t. OpGet h pick t (ce_snapshot e, None) \<in> ops \<and> ce_expiresAt e = time_add t ttl)"

lemma cache_step_justified:
  assumes "cache_inv c" "\<And>k e. lookup c k = Some e \<Longrightarrow> justified (mc_ttl c) ops k e"
    and "lookup (cache_step zero op c) h = Some e"
  shows "justified (mc_ttl c) (insert op ops) h e"
proof (cases op)
  case (OpInvalidate k)
  with assms(3) have "lookup (Invalidate c k) h = Some e" by simp
  from mc.drop_all [where P = "justified (mc_ttl c) ops", OF assms(1,2) this]
  have "justified (mc_ttl c) ops h e" by simp
  then show ?thesis by (auto simp: justified_def)
next
  case (OpGet k pick now col)
  let ?P = "justified (mc_ttl c) (insert op ops)"
  have old: "\<And>k e. lookup c k = Some e \<Longrightarrow> ?P k e"
    using assms(2) by (fastforce simp: justified_def)
  from GetOrCollect_cache [of zero pick now col c k] show ?thesis
  proof
    assume "snd (GetOrCollect zero pick now col c k) = c"
    with assms(3) OpGet old show ?thesis by simp
  next
    assume "\<exists>m. col = (m, None) \<and> snd (GetOrCollect zero pick now col c k)
          = put_entry pick c k \<lparr>ce_snapshot = m, ce_expiresAt = time_add now (mc_ttl c)\<rparr>"
    then obtain m where m: "col = (m, None)" "snd (GetOrCollect zero pick now col c k)
          = put_entry pick c k \<lparr>ce_snapshot = m, ce_expiresAt = time_add now (mc_ttl c)\<rparr>" by blast
    have new: "?P k \<lparr>ce_snapshot = m, ce_expiresAt = time_add now (mc_ttl c)\<rparr>"
      using OpGet m(1) by (auto simp: justified_def)
    have "lookup (put_entry pick c k \<lparr>ce_snapshot = m, ce_expiresAt = time_add now (mc_ttl c)\<rparr>) h = Some e"
      using m(2) OpGet assms(3) by simp
    from mc.put_all [where P = ?P, OF assms(1) old new this] show ?thesis by simp
  qed
qed

lemma run_cache_justified:
  "lookup (run_cache zero ops (NewMetricsCache ttl maxE)) h = Some e \<Longrightarrow>
   justified (mc_ttl (NewMetricsCache ttl maxE :: 'r metrics_cache)) (set ops) h (e :: 'r cache_entry)"
proof (induction ops arbitrary: h e rule: rev_induct)
  case Nil
  then show ?case by (simp add: run_cache_def lookup_def NewMetricsCache_def)
next
  case (snoc op ops)
  let ?c = "run_cache zero ops (NewMetricsCache ttl maxE)"
  have i: "cache_inv ?c" "mc_ttl ?c = mc_ttl (NewMetricsCache ttl maxE :: 'r metrics_cache)"
    using run_cache_inv [of "NewMetricsCache ttl maxE" zero ops] by simp_all
  from snoc.prems have "lookup (cache_step zero op ?c) h = Some e"
    by (simp add: run_cache_def)
  from cache_step_justified [OF i(1) _ this, of "set ops"] snoc.IH i(2) show ?case by simp
qed

text \<open>
  The bound on staleness. A snapshot that the cache serves as fresh was either collected by
  this very read, or collected by an earlier read of the same host at a time \<open>t\<close> with
  \<open>now < t + ttl\<close>; an entry past its time to live is never served as fresh.
\<close>

theorem metrics_cache_staleness:
  assumes "fst (GetOrCollect zero pick now col (run_cache zero ops (NewMetricsCache ttl maxE)) h) = m"
    and "mx_DataStatus m = DataStatusFresh"
  shows "col = (m, None) \<or>
    (\<exists>pick' t. OpGet h pick' t (m, None) \<in> set ops
       \<and> now < time_add t (if ttl < 0 then 30 * Second else ttl))"
proof -
  let ?c = "run_cache zero ops (NewMetricsCache ttl maxE)"
  have ttl: "mc_ttl (NewMetricsCache ttl maxE :: 'a metrics_cache) = (if ttl < 0 then 30 * Second else ttl)"
    by (simp add: NewMetricsCache_def)
  have "col = (m, None) \<or> (\<exists>e. lookup ?c h = Some e \<and> m = ce_snapshot e \<and> now < ce_expiresAt e)"
    using assms by (auto simp: GetOrCollect_def Let_def split: prod.splits option.splits if_splits)
  then show ?thesis
  proof (elim disjE exE conjE)
    fix e assume e: "lookup ?c h = Some e" "m = ce_snapshot e" "now < ce_expiresAt e"
    with run_cache_justified [OF e(1)] show ?thesis unfolding ttl justified_def by metis
  qed simp
qed

theorem metrics_cache_staleness_witness:
  "\<exists>pick' t. OpGet ''h'' pick' t (\<lparr>mx_Readings = (), mx_DataStatus = ''fresh'', mx_CollectedAt = Time 1,
       mx_Warnings = []\<rparr>, None)
     \<in> set [OpGet ''h'' 0 (Time 1) (\<lparr>mx_Readings = (), mx_DataStatus = ''fresh'',
              mx_CollectedAt = Time 1, mx_Warnings = []\<rparr>, None)]
     \<and> Time 2 < time_add t (if (5::int) < 0 then 30 * Second else 5)"
proof -
  let ?m = "\<lparr>mx_Readings = (), mx_DataStatus = ''fresh'', mx_CollectedAt = Time 1, mx_Warnings = []\<rparr>"
  let ?bad = "(\<lparr>mx_Readings = (), mx_DataStatus = ''unavailable'', mx_CollectedAt = Time 2,
    mx_Warnings = []\<rparr>, None)"
  have "fst (GetOrCollect () 0 (Time 2) ?bad
      (run_cache () [OpGet ''h'' 0 (Time 1) (?m, None)] (NewMetricsCache 5 1)) ''h'') = ?m"
    by (simp add: GetOrCollect_def run_cache_def NewMetricsCache_def lookup_def store_def time_add_def
        less_time_def)
  from metrics_cache_staleness [OF this] show ?thesis by simp
qed

text \<open>The answers of the real collector.\<close>

lemma Collect_no_error [simp]: "snd (Collect zero parse now order ssh) = None"
  by (simp add: Collect_def split: prod.splits)

lemma length_failed:
  assumes "mset order = mset collect_cmds"
  shows "length (filter (\<lambda>c. snd (ssh c) \<noteq> None) order) = length collect_cmds
     \<longleftrightarrow> (\<forall>c. c \<in> set collect_cmds \<longrightarrow> snd (ssh c) \<noteq> None)"
  using filter_length_all [of "\<lambda>c. snd (ssh c) \<noteq> None" order] mset_eq_setD [OF assms]
    mset_eq_length [OF assms] by simp

text \<open>
  The status of a collected snapshot depends only on which of the commands failed, not on the
  order in which the parallel probes finish: fresh when none failed, unavailable when all did,
  stale in between, with one warning per failure; the parsers see exactly the outputs of the
  commands that succeeded.
\<close>

theorem collect_status:
  assumes "mset order = mset collect_cmds"
  shows "mx_DataStatus (fst (Collect zero parse now order ssh)) =
     (let failed = {c. c \<in> set collect_cmds \<and> snd (ssh c) \<noteq> None}
      in if failed = set collect_cmds then DataStatusUnavailable
         else if failed \<noteq> {} then DataStatusStale else DataStatusFresh)
    \<and> length (mx_Warnings (fst (Collect zero parse now order ssh))) =
        length (filter (\<lambda>c. snd (ssh c) \<noteq> None) collect_cmds)
    \<and> mx_Readings (fst (Collect zero parse now order ssh)) =
     (if \<forall>c. c \<in> set collect_cmds \<longrightarrow> snd (ssh c) \<noteq> None then zero
      else parse (\<lambda>c. if c \<in> set collect_cmds \<and> snd (ssh c) = None then Some (fst (ssh c)) else None))"
proof -
  let ?F = "filter (\<lambda>c. snd (ssh c) \<noteq> None)"
  have s: "set order = set collect_cmds" by (rule mset_eq_setD [OF assms])
  have w: "length (?F order) = length (?F collect_cmds)"
    using assms by (metis mset_filter size_mset)
  have e: "?F order = [] \<longleftrightarrow> {c. c \<in> set collect_cmds \<and> snd (ssh c) \<noteq> None} = {}"
    using s by (auto simp: filter_empty_conv)
  have all: "(\<forall>c. c \<in> set collect_cmds \<longrightarrow> snd (ssh c) \<noteq> None)
      \<longleftrightarrow> {c. c \<in> set collect_cmds \<and> snd (ssh c) \<noteq> None} = set collect_cmds" by blast
  show ?thesis
    unfolding Collect_def bucket_all length_failed [OF assms, of ssh, symmetric] Let_def
      all [symmetric] e [symmetric]
    using s w by simp
qed

theorem collect_status_witness:
  "mx_DataStatus (fst (Collect () (\<lambda>_. ()) (Time 0) (rev collect_cmds)
     (\<lambda>c. if c = ''nproc'' then ('''', Some (External ''timeout'')) else (''x'', None)))) = ''stale''"
  using collect_status [of "rev collect_cmds" "()" "\<lambda>_. ()" "Time 0"
      "\<lambda>c. if c = ''nproc'' then ('''', Some (External ''timeout'')) else (''x'', None)"]
  by (simp add: collect_cmds_def)

text \<open>
  With the real collector the "keep the prior snapshot, marked stale" branch of the cache is
  never taken: when every command fails the collector still returns no error, so an expired
  snapshot of the host is overwritten by the unavailable one and the last known good readings are
  lost.
\<close>

theorem total_failure_overwrites_prior:
  assumes "mset order = mset collect_cmds" "\<forall>c. snd (ssh c) \<noteq> None"
    and "lookup c h = Some prior" "ce_expiresAt prior \<le> now" "cache_inv c"
  shows "mx_DataStatus (fst (GetOrCollect zero pick now (Collect zero parse now order ssh) c h))
       = DataStatusUnavailable
    \<and> map_option ce_snapshot (lookup (snd (GetOrCollect zero pick now (Collect zero parse now order ssh) c h)) h)
       = Some (fst (Collect zero parse now order ssh))"
proof -
  obtain m where m: "Collect zero parse now order ssh = (m, None)"
    by (metis Collect_no_error prod.collapse)
  have u: "mx_DataStatus m = DataStatusUnavailable"
    using assms(2) mset_eq_length [OF assms(1)] m unfolding Collect_def bucket_all
    by (auto split: if_splits)
  have "GetOrCollect zero pick now (m, None) c h
      = (m, put_entry pick c h \<lparr>ce_snapshot = m, ce_expiresAt = time_add now (mc_ttl c)\<rparr>)"
    using assms(3,4) by (simp add: GetOrCollect_def)
  with m u mc.look_put [OF assms(5), of pick h "\<lparr>ce_snapshot = m, ce_expiresAt = time_add now (mc_ttl c)\<rparr>"]
  show ?thesis by simp
qed

abbreviation down_snapshot :: "unit metrics" where
  "down_snapshot \<equiv> \<lparr>mx_Readings = (), mx_DataStatus = ''fresh'', mx_CollectedAt = Time 0, mx_Warnings = []\<rparr>"

theorem total_failure_overwrites_prior_witness:
  "mx_DataStatus (fst (GetOrCollect () 0 (Time 9)
      (Collect () (\<lambda>_. ()) (Time 9) collect_cmds (\<lambda>_. ('''', Some (External ''no route''))))
      (store 0 (NewMetricsCache 5 2) ''h'' down_snapshot (Time 5)) ''h'')) = ''unavailable''"
proof -
  have "lookup (store 0 (NewMetricsCache 5 2) ''h'' down_snapshot (Time 5)) ''h''
      = Some \<lparr>ce_snapshot = down_snapshot, ce_expiresAt = Time 5\<rparr>"
    by (simp add: lookup_def store_def NewMetricsCache_def)
  from total_failure_overwrites_prior [OF _ _ this, of collect_cmds
      "\<lambda>_. ('''', Some (External ''no route''))" "Time 9" "()" 0 "\<lambda>_. ()"]
  show ?thesis by (simp add: store_inv less_eq_time_def)
qed

subsection \<open>The asynchronous writer\<close>

type_synonym 'r sample = "string \<times> 'r metrics"

text \<open>
  \<open>aw_enabled\<close> says that the inner writer is present and has a URL; \<open>aw_written\<close> are the samples
  handed to its \<open>Write\<close>, in order; \<open>aw_workers\<close> counts the worker goroutines that run.
\<close>

record 'r async_writer =
  aw_enabled :: bool
  aw_ch :: "'r sample list"
  aw_cap :: int
  aw_dropped :: int64
  aw_stopped :: bool
  aw_workers :: int
  aw_written :: "'r sample list"

definition NewAsyncInfluxWriter :: "bool \<Rightarrow> int \<Rightarrow> int \<Rightarrow> 'r async_writer" where
  "NewAsyncInfluxWriter enabled bs workers =
     \<lparr>aw_enabled = enabled, aw_ch = [], aw_cap = (if bs \<le> 0 then 256 else bs), aw_dropped = 0,
      aw_stopped = False, aw_workers = (if workers \<le> 0 then 1 else workers), aw_written = []\<rparr>"

definition flushOne :: "'r async_writer \<Rightarrow> 'r sample \<Rightarrow> 'r async_writer" where
  "flushOne w s = (if \<not> aw_enabled w then w else w\<lparr>aw_written := aw_written w @ [s]\<rparr>)"

text \<open>\<open>Enqueue\<close> reads the stop flag and then sends; other goroutines may run between the two.\<close>

definition Enqueue_send :: "'r async_writer \<Rightarrow> 'r sample \<Rightarrow> 'r async_writer" where
  "Enqueue_send w s =
     (if int (length (aw_ch w)) < aw_cap w then w\<lparr>aw_ch := aw_ch w @ [s]\<rparr>
      else w\<lparr>aw_dropped := aw_dropped w + 1\<rparr>)"

definition Enqueue :: "'r async_writer \<Rightarrow> string \<Rightarrow> 'r metrics \<Rightarrow> 'r async_writer" where
  "Enqueue w hostID m = (if aw_stopped w then w else Enqueue_send w (hostID, m))"

text \<open>One turn of a worker's select: take a sample, or, once stopped and drained, return.\<close>

definition worker_take :: "'r async_writer \<Rightarrow> 'r async_writer option" where
  "worker_take w =
     (case aw_ch w of [] \<Rightarrow> None | s # ss \<Rightarrow> Some (flushOne (w\<lparr>aw_ch := ss\<rparr>) s))"

definition worker_return :: "'r async_writer \<Rightarrow> 'r async_writer option" where
  "worker_return w =
     (if aw_stopped w \<and> aw_ch w = [] then Some (w\<lparr>aw_workers := aw_workers w - 1\<rparr>) else None)"

definition Close :: "'r async_writer \<Rightarrow> 'r async_writer" where
  "Close w = (if aw_stopped w then w else w\<lparr>aw_stopped := True\<rparr>)"

definition Close_returns :: "'r async_writer \<Rightarrow> bool" where
  "Close_returns w \<longleftrightarrow> aw_stopped w \<and> aw_workers w = 0"

text \<open>
  The system: the writer, the samples of calls that are past the stop test but have not sent yet,
  and two counters of the history, the calls past the stop test and the samples flushed.
\<close>

record 'r aw_sys =
  sy_w :: "'r async_writer"
  sy_inflight :: "'r sample list"
  sy_accepted :: nat
  sy_flushed :: nat

inductive aw_step :: "'r aw_sys \<Rightarrow> 'r aw_sys \<Rightarrow> bool" where
  call: "\<not> aw_stopped (sy_w s) \<Longrightarrow>
    aw_step s (s\<lparr>sy_inflight := x # sy_inflight s, sy_accepted := Suc (sy_accepted s)\<rparr>)"
| send: "x \<in> set (sy_inflight s) \<Longrightarrow>
    aw_step s (s\<lparr>sy_w := Enqueue_send (sy_w s) x, sy_inflight := remove1 x (sy_inflight s)\<rparr>)"
| take_one: "0 < aw_workers (sy_w s) \<Longrightarrow> worker_take (sy_w s) = Some w' \<Longrightarrow>
    aw_step s (s\<lparr>sy_w := w', sy_flushed := Suc (sy_flushed s)\<rparr>)"
| return_one: "0 < aw_workers (sy_w s) \<Longrightarrow> worker_return (sy_w s) = Some w' \<Longrightarrow>
    aw_step s (s\<lparr>sy_w := w'\<rparr>)"
| close: "aw_step s (s\<lparr>sy_w := Close (sy_w s)\<rparr>)"

definition aw_init :: "bool \<Rightarrow> int \<Rightarrow> int \<Rightarrow> 'r aw_sys" where
  "aw_init enabled bs workers =
     \<lparr>sy_w = NewAsyncInfluxWriter enabled bs workers, sy_inflight = [], sy_accepted = 0, sy_flushed = 0\<rparr>"

abbreviation aw_reach :: "bool \<Rightarrow> int \<Rightarrow> int \<Rightarrow> 'r aw_sys \<Rightarrow> bool" where
  "aw_reach enabled bs workers s \<equiv> aw_step\<^sup>*\<^sup>* (aw_init enabled bs workers) s"

definition aw_inv :: "bool \<Rightarrow> int \<Rightarrow> 'r aw_sys \<Rightarrow> bool" where
  "aw_inv enabled cap s \<longleftrightarrow>
     aw_cap (sy_w s) = cap \<and> aw_enabled (sy_w s) = enabled \<and>
     0 < cap \<and> int (length (aw_ch (sy_w s))) \<le> cap \<and>
     (of_nat (sy_accepted s) :: int64) =
       of_nat (length (sy_inflight s) + length (aw_ch (sy_w s)) + sy_flushed s) + aw_dropped (sy_w s) \<and>
     length (aw_written (sy_w s)) = (if enabled then sy_flushed s else 0)"

lemma aw_inv_init: "aw_inv enabled (if bs \<le> 0 then 256 else bs) (aw_init enabled bs workers)"
  by (simp add: aw_inv_def aw_init_def NewAsyncInfluxWriter_def)

lemma Enqueue_send_simps [simp]:
  "aw_cap (Enqueue_send w x) = aw_cap w" "aw_enabled (Enqueue_send w x) = aw_enabled w"
  "aw_written (Enqueue_send w x) = aw_written w" "aw_stopped (Enqueue_send w x) = aw_stopped w"
  "aw_workers (Enqueue_send w x) = aw_workers w"
  by (simp_all add: Enqueue_send_def)

lemma worker_take_simps:
  "worker_take w = Some w' \<Longrightarrow>
     aw_ch w = hd (aw_ch w) # aw_ch w' \<and> aw_cap w' = aw_cap w \<and> aw_dropped w' = aw_dropped w
     \<and> aw_enabled w' = aw_enabled w \<and> aw_stopped w' = aw_stopped w \<and> aw_workers w' = aw_workers w
     \<and> aw_written w' = (if aw_enabled w then aw_written w @ [hd (aw_ch w)] else aw_written w)"
  by (auto simp: worker_take_def flushOne_def split: list.splits)

lemma aw_inv_step: "aw_step s t \<Longrightarrow> aw_inv e c s \<Longrightarrow> aw_inv e c t"
proof (induction rule: aw_step.induct)
  case (call s x)
  then show ?case by (simp add: aw_inv_def)
next
  case (send x s)
  then have "0 < length (sy_inflight s)" by (cases "sy_inflight s") auto
  then obtain n where n: "length (sy_inflight s) = Suc n" by (cases "length (sy_inflight s)") auto
  with send show ?case
    by (auto simp: aw_inv_def Enqueue_send_def length_remove1)
next
  case (take_one s w')
  from take_one.hyps(2) have ch: "length (aw_ch (sy_w s)) = Suc (length (aw_ch w'))"
    using worker_take_simps by (metis length_Cons)
  with take_one worker_take_simps [OF take_one.hyps(2)] show ?case
    by (auto simp: aw_inv_def)
next
  case (return_one s w')
  then show ?case by (auto simp: aw_inv_def worker_return_def split: if_splits)
next
  case (close s)
  then show ?case by (simp add: aw_inv_def Close_def)
qed

lemma aw_inv_reach: "aw_reach enabled bs workers s \<Longrightarrow>
    aw_inv enabled (if bs \<le> 0 then 256 else bs) s"
  by (induction rule: rtranclp_induct) (auto simp: aw_inv_init intro: aw_inv_step)

text \<open>
  C14: the channel of the asynchronous writer never exceeds its capacity, and every sample whose
  \<open>Enqueue\<close> passed the stop test is accounted for, modulo the width of the drop counter: it is
  about to be sent, in the channel, flushed, or counted as dropped, whatever the interleaving of
  callers, workers and \<open>Close\<close>.
\<close>

theorem async_writer_accounts:
  assumes "aw_reach enabled bs workers s"
  shows "int (length (aw_ch (sy_w s))) \<le> (if bs \<le> 0 then 256 else bs)
    \<and> (of_nat (sy_accepted s) :: int64) =
        of_nat (length (sy_inflight s) + length (aw_ch (sy_w s)) + sy_flushed s) + aw_dropped (sy_w s)
    \<and> length (aw_written (sy_w s)) = (if enabled then sy_flushed s else 0)"
  using aw_inv_reach [OF assms] by (simp add: aw_inv_def)

theorem async_writer_accounts_witness:
  "\<exists>s :: unit aw_sys. aw_reach True 1 1 s \<and> sy_accepted s = 1
     \<and> (of_nat (sy_accepted s) :: int64) =
        of_nat (length (sy_inflight s) + length (aw_ch (sy_w s)) + sy_flushed s) + aw_dropped (sy_w s)"
proof -
  let ?s = "(aw_init True 1 1)\<lparr>sy_inflight := [(''h'', down_snapshot)], sy_accepted := 1\<rparr>"
  have "aw_step (aw_init True 1 1) ?s"
    using aw_step.call [of "aw_init True 1 1" "(''h'', down_snapshot)"]
    by (simp add: aw_init_def NewAsyncInfluxWriter_def)
  then have r: "aw_reach True 1 1 ?s" by blast
  from async_writer_accounts [OF r] r show ?thesis by (intro exI [of _ ?s]) simp
qed

text \<open>
  A sample can be lost without being counted. Between the stop test of \<open>Enqueue\<close> and its send,
  \<open>Close\<close> can stop the writer and the workers can drain and return; the send then succeeds on the
  buffered channel, \<open>Close\<close> has returned, and the sample is neither written nor dropped.
\<close>

theorem async_writer_can_strand_sample:
  "\<exists>s :: unit aw_sys. aw_reach True 1 1 s \<and> Close_returns (sy_w s) \<and> sy_accepted s = 1
     \<and> aw_written (sy_w s) = [] \<and> aw_dropped (sy_w s) = 0 \<and> length (aw_ch (sy_w s)) = 1"
proof -
  let ?x = "(''h'', down_snapshot)"
  let ?s0 = "aw_init True 1 1 :: unit aw_sys"
  let ?s1 = "?s0\<lparr>sy_inflight := [?x], sy_accepted := 1\<rparr>"
  let ?s2 = "?s1\<lparr>sy_w := (sy_w ?s0)\<lparr>aw_stopped := True\<rparr>\<rparr>"
  let ?s3 = "?s1\<lparr>sy_w := (sy_w ?s0)\<lparr>aw_stopped := True, aw_workers := 0\<rparr>\<rparr>"
  let ?s4 = "?s3\<lparr>sy_w := (sy_w ?s3)\<lparr>aw_ch := [?x]\<rparr>, sy_inflight := []\<rparr>"
  have 1: "aw_step ?s0 ?s1"
    using aw_step.call [of ?s0 ?x] by (simp add: aw_init_def NewAsyncInfluxWriter_def)
  have 2: "aw_step ?s1 ?s2"
    using aw_step.close [of ?s1] by (simp add: aw_init_def NewAsyncInfluxWriter_def Close_def)
  have 3: "aw_step ?s2 ?s3"
    using aw_step.return_one [of ?s2 "(sy_w ?s0)\<lparr>aw_stopped := True, aw_workers := 0\<rparr>"]
    by (simp add: aw_init_def NewAsyncInfluxWriter_def worker_return_def)
  have 4: "aw_step ?s3 ?s4"
    using aw_step.send [of ?x ?s3]
    by (simp add: aw_init_def NewAsyncInfluxWriter_def Enqueue_send_def)
  from 1 2 3 4 have "aw_reach True 1 1 ?s4"
    by (meson converse_rtranclp_into_rtranclp r_into_rtranclp)
  then show ?thesis
    by (intro exI [of _ ?s4])
       (simp add: aw_init_def NewAsyncInfluxWriter_def Close_returns_def)
qed

end
