(* ===== verification/Realtime.thy ===== *)
theory Realtime
  imports Contracts
begin

text \<open>
  The bridge from domain events to the websocket hub (\<open>internal/ws/realtime\<close>): the event with the
  channel derived from its type (\<open>event.go\<close>), the hub publisher and the recording publisher
  (\<open>publisher.go\<close>). The payload is the list of its key-value pairs.
\<close>

record event =
  ev_Type :: string
  ev_OccurredAt :: time
  ev_SourceID :: string
  ev_Payload :: "(string \<times> string) list"
  ev_Channel :: string

text \<open>\<open>strings.ToLower\<close>, on ASCII letters; event types are ASCII literals.\<close>

definition channelFor :: "string \<Rightarrow> string" where
  "channelFor typ = map to_lower (TrimSpace typ)"

definition NewEvent :: "string \<Rightarrow> string \<Rightarrow> time \<Rightarrow> (string \<times> string) list \<Rightarrow> event" where
  "NewEvent typ sourceID occurredAt payload =
     \<lparr>ev_Type = typ, ev_OccurredAt = occurredAt, ev_SourceID = sourceID, ev_Payload = payload,
      ev_Channel = channelFor typ\<rparr>"

abbreviation ErrNilHub :: go_error where
  "ErrNilHub \<equiv> Sentinel ''realtime: nil hub''"

text \<open>
  The hub is a function on the world \<open>'w\<close> that takes the channel and the event (its JSON text is
  what the encoder of the standard library makes of it); a nil hub is \<open>None\<close>.
\<close>

definition HubPublisher_Publish ::
    "(string \<Rightarrow> event \<Rightarrow> 'w \<Rightarrow> go_error option \<times> 'w) option \<Rightarrow> event \<Rightarrow> 'w \<Rightarrow> go_error option \<times> 'w" where
  "HubPublisher_Publish hub ev w =
     (case hub of None \<Rightarrow> (Some ErrNilHub, w) | Some publish \<Rightarrow> publish (ev_Channel ev) ev w)"

record noop_publisher =
  np_events :: "event list"
  np_err :: "go_error option"

definition NoopPublisher_Publish :: "noop_publisher \<Rightarrow> event \<Rightarrow> go_error option \<times> noop_publisher" where
  "NoopPublisher_Publish p ev =
     (case np_err p of
        Some e \<Rightarrow> (Some e, p)
      | None \<Rightarrow> (None, p\<lparr>np_events := np_events p @ [ev]\<rparr>))"

lemma channel_state_change: "channelFor ''physical_host.state_change'' = ''physical_host.state_change''"
  by code_simp

end
