(* ===== verification/Host_Monitor.thy ===== *)
theory Host_Monitor
  imports Physical_Host Host_Metrics Realtime
begin

text \<open>
  The health monitor of the physical hosts (\<open>monitor.go\<close>), the maintenance service
  (\<open>maintenance.go\<close>) and the periodic loop (\<open>monitor_loop.go\<close>). Lemmas: the state a run of probes
  leaves is a function of the trailing failures, maintenance blocks automatic transitions, the
  audit event follows the database write, the loop checks every host.
\<close>

subsection \<open>The world of the services\<close>

record maint_event =
  me_Action :: string
  me_HostID :: string
  me_UserID :: string
  me_Reason :: string
  me_Duration :: duration
  me_At :: time

text \<open>
  The database, the environment \<open>'w\<close> that the clock, the network and the context read, and what
  was sent to the realtime publisher, to the metrics sink and to the auditor.
\<close>

record ('s, 'w, 'r) mon_world =
  wl_db :: 's
  wl_env :: 'w
  wl_events :: "event list"
  wl_samples :: "'r sample list"
  wl_audit :: "maint_event list"

record ('s, 'w, 'r) monitor_service =
  ms_repo :: "'s host_table"
  ms_Ping :: "probe_host \<Rightarrow> 'w \<Rightarrow> (ping_result \<times> go_error option) \<times> 'w"
  ms_threshold :: int64
  ms_interval :: duration
  ms_now :: "'w \<Rightarrow> time \<times> 'w"
  ms_publisher :: bool
  ms_metricsSink :: bool
  ms_collector :: "(probe_host \<Rightarrow> 'w \<Rightarrow> ('r metrics \<times> go_error option) \<times> 'w) option"

definition NewMonitorService ::
    "'s host_table \<Rightarrow> (probe_host \<Rightarrow> 'w \<Rightarrow> (ping_result \<times> go_error option) \<times> 'w)
     \<Rightarrow> ('w \<Rightarrow> time \<times> 'w) \<Rightarrow> int64 \<Rightarrow> duration \<Rightarrow> ('s, 'w, 'r) monitor_service" where
  "NewMonitorService repo ping now threshold interval =
     \<lparr>ms_repo = repo, ms_Ping = ping,
      ms_threshold = (if threshold \<le>s 0 then 3 else threshold),
      ms_interval = (if interval \<le> 0 then Minute else interval),
      ms_now = now, ms_publisher = False, ms_metricsSink = False, ms_collector = None\<rparr>"

definition SetPublisher :: "bool \<Rightarrow> ('s, 'w, 'r) monitor_service \<Rightarrow> ('s, 'w, 'r) monitor_service" where
  "SetPublisher b m = m\<lparr>ms_publisher := b\<rparr>"

definition SetMetricsSink :: "bool \<Rightarrow> ('s, 'w, 'r) monitor_service \<Rightarrow> ('s, 'w, 'r) monitor_service" where
  "SetMetricsSink b m = m\<lparr>ms_metricsSink := b\<rparr>"

definition SetCollector ::
    "(probe_host \<Rightarrow> 'w \<Rightarrow> ('r metrics \<times> go_error option) \<times> 'w) option
     \<Rightarrow> ('s, 'w, 'r) monitor_service \<Rightarrow> ('s, 'w, 'r) monitor_service" where
  "SetCollector c m = m\<lparr>ms_collector := c\<rparr>"

subsection \<open>One check\<close>

definition probe_target :: "physical_host \<Rightarrow> probe_host" where
  "probe_target p =
     \<lparr>pr_IPAddress = ph_IPAddress p, pr_SSHPort = ph_SSHPort p, pr_SSHUser = ph_SSHUser p\<rparr>"

text \<open>The transition of the state machine for one probe result.\<close>

definition check_transition :: "int64 \<Rightarrow> bool \<Rightarrow> physical_host \<Rightarrow> physical_host" where
  "check_transition threshold reachable p =
     (if reachable then p\<lparr>ph_State := StateOnline, ph_ConsecutiveFails := 0\<rparr>
      else
        (let p = p\<lparr>ph_ConsecutiveFails := ph_ConsecutiveFails p + 1\<rparr>
         in if ph_State p = StateOnline then p\<lparr>ph_State := StateMonitoringIssue\<rparr>
            else if ph_State p = StateMonitoringIssue then
              (if threshold \<le>s ph_ConsecutiveFails p then p\<lparr>ph_State := StateOffline\<rparr> else p)
            else p))"

definition emitStateChange ::
    "('s, 'w, 'r) monitor_service \<Rightarrow> string \<Rightarrow> string \<Rightarrow> string \<Rightarrow> ('s, 'w, 'r) mon_world
     \<Rightarrow> ('s, 'w, 'r) mon_world" where
  "emitStateChange m hostID prev next_state w =
     (if \<not> ms_publisher m then w
      else
        (case ms_now m (wl_env w) of
           (t, env) \<Rightarrow>
             w\<lparr>wl_env := env,
               wl_events := wl_events w @
                 [NewEvent ''physical_host.state_change'' hostID t
                    [(''host_id'', hostID), (''previous_state'', prev), (''new_state'', next_state)]]\<rparr>))"

text \<open>The push of a fresh snapshot to the sink.\<close>

definition push_metrics ::
    "('s, 'w, 'r) monitor_service \<Rightarrow> physical_host \<Rightarrow> ('s, 'w, 'r) mon_world \<Rightarrow> ('s, 'w, 'r) mon_world" where
  "push_metrics m p w =
     (case ms_collector m of
        None \<Rightarrow> w
      | Some collect \<Rightarrow>
          if \<not> ms_metricsSink m then w
          else
            (case collect (probe_target p) (wl_env w) of
               ((snap, err), env) \<Rightarrow>
                 if err = None \<and> mx_DataStatus snap \<noteq> DataStatusUnavailable
                 then w\<lparr>wl_env := env, wl_samples := wl_samples w @ [(ph_ID p, snap)]\<rparr>
                 else w\<lparr>wl_env := env\<rparr>))"

abbreviation load_failed :: "go_error \<Rightarrow> go_error" where
  "load_failed err \<equiv> APIError CodeInternal ''failed to load physical host'' (Some err)"

abbreviation update_failed :: "go_error \<Rightarrow> go_error" where
  "update_failed err \<equiv> APIError CodeInternal ''failed to update physical host'' (Some err)"

definition Check ::
    "('s, 'w, 'r) monitor_service \<Rightarrow> string \<Rightarrow> ('s, 'w, 'r) mon_world
     \<Rightarrow> go_error option \<times> ('s, 'w, 'r) mon_world" where
  "Check m hostID w =
     (case Host_Get (ms_repo m) (wl_db w) hostID of
        Inl err \<Rightarrow>
          if IsNotFound err then (Some ErrHostNotFound, w) else (Some (load_failed err), w)
      | Inr p \<Rightarrow>
          (case ms_now m (wl_env w) of
             (t, env) \<Rightarrow>
               (let p = p\<lparr>ph_LastCheckAt := Some t, ph_NextCheckAt := Some (time_add t (ms_interval m))\<rparr>
                in if InMaintenance p then
                     (case Host_Update (ms_repo m) (wl_db w) p of
                        Inl err \<Rightarrow> (Some (update_failed err), w\<lparr>wl_env := env\<rparr>)
                      | Inr db \<Rightarrow> (None, w\<lparr>wl_env := env, wl_db := db\<rparr>))
                   else
                     (case ms_Ping m (probe_target p) env of
                        ((res, _), env) \<Rightarrow>
                          (let prevState = ph_State p;
                               p = check_transition (ms_threshold m) (pg_Reachable res) p
                           in case Host_Update (ms_repo m) (wl_db w) p of
                                Inl err \<Rightarrow> (Some (update_failed err), w\<lparr>wl_env := env\<rparr>)
                              | Inr db \<Rightarrow>
                                  (let w = w\<lparr>wl_env := env, wl_db := db\<rparr>;
                                       w = (if prevState \<noteq> ph_State p
                                            then emitStateChange m (ph_ID p) prevState (ph_State p) w
                                            else w)
                                   in (None, push_metrics m p w)))))))"

subsection \<open>Maintenance\<close>

record ('s, 'w) maintenance_service =
  mt_repo :: "'s host_table"
  mt_auditor :: bool
  mt_now :: "'w \<Rightarrow> time \<times> 'w"

definition host_not_found :: "string \<Rightarrow> go_error" where
  "host_not_found hostID = APIError CodeNotFound (''physical host '' @ Quote hostID @ '' not found'') None"

definition IsInMaintenance :: "('s, 'w) maintenance_service \<Rightarrow> 's \<Rightarrow> string \<Rightarrow> bool" where
  "IsInMaintenance mt db hostID =
     (case Host_Get (mt_repo mt) db hostID of Inl _ \<Rightarrow> False | Inr p \<Rightarrow> InMaintenance p)"

definition emit_maintenance ::
    "('s, 'w) maintenance_service \<Rightarrow> maint_event \<Rightarrow> ('s, 'w, 'r) mon_world \<Rightarrow> ('s, 'w, 'r) mon_world" where
  "emit_maintenance mt evt w = (if mt_auditor mt then w\<lparr>wl_audit := wl_audit w @ [evt]\<rparr> else w)"

text \<open>The write of a maintenance change with its error mapping.\<close>

definition save_maintenance ::
    "('s, 'w) maintenance_service \<Rightarrow> string \<Rightarrow> physical_host \<Rightarrow> maint_event
     \<Rightarrow> ('s, 'w, 'r) mon_world \<Rightarrow> (physical_host \<times> maint_event) result \<times> ('s, 'w, 'r) mon_world" where
  "save_maintenance mt hostID p evt w =
     (case Host_Update (mt_repo mt) (wl_db w) p of
        Inl err \<Rightarrow>
          (Inl (if IsNotFound err then host_not_found hostID else update_failed err), w)
      | Inr db \<Rightarrow> (Inr (p, evt), emit_maintenance mt evt (w\<lparr>wl_db := db\<rparr>)))"

definition EnterMaintenance ::
    "('s, 'w) maintenance_service \<Rightarrow> string \<Rightarrow> string \<Rightarrow> string \<Rightarrow> ('s, 'w, 'r) mon_world
     \<Rightarrow> (physical_host \<times> maint_event) result \<times> ('s, 'w, 'r) mon_world" where
  "EnterMaintenance mt hostID reason userID w =
     (case Host_Get (mt_repo mt) (wl_db w) hostID of
        Inl err \<Rightarrow> (Inl (if IsNotFound err then host_not_found hostID else load_failed err), w)
      | Inr p \<Rightarrow>
          if InMaintenance p
          then (Inl (APIError CodeInvalidState ''host is already in maintenance'' None), w)
          else
            (case mt_now mt (wl_env w) of
               (t, env) \<Rightarrow>
                 save_maintenance mt hostID
                   (p\<lparr>ph_State := StateMaintenance, ph_MaintenanceStartedAt := Some t,
                      ph_MaintenanceReason := reason, ph_MaintenanceSetBy := userID\<rparr>)
                   \<lparr>me_Action = ''maintenance_enter'', me_HostID = ph_ID p, me_UserID = userID,
                    me_Reason = reason, me_Duration = 0, me_At = t\<rparr>
                   (w\<lparr>wl_env := env\<rparr>)))"

definition ExitMaintenance ::
    "('s, 'w) maintenance_service \<Rightarrow> string \<Rightarrow> string \<Rightarrow> ('s, 'w, 'r) mon_world
     \<Rightarrow> (physical_host \<times> maint_event) result \<times> ('s, 'w, 'r) mon_world" where
  "ExitMaintenance mt hostID userID w =
     (case Host_Get (mt_repo mt) (wl_db w) hostID of
        Inl err \<Rightarrow> (Inl (if IsNotFound err then host_not_found hostID else load_failed err), w)
      | Inr p \<Rightarrow>
          (case ph_MaintenanceStartedAt p of
             None \<Rightarrow> (Inl (APIError CodeInvalidState ''host is not in maintenance'' None), w)
           | Some started \<Rightarrow>
               (case mt_now mt (wl_env w) of
                  (t, env) \<Rightarrow>
                    save_maintenance mt hostID
                      (p\<lparr>ph_State := StateOnline, ph_MaintenanceStartedAt := None,
                         ph_MaintenanceReason := '''', ph_MaintenanceSetBy := ''''\<rparr>)
                      \<lparr>me_Action = ''maintenance_exit'', me_HostID = ph_ID p, me_UserID = userID,
                       me_Reason = '''', me_Duration = time_sub t started, me_At = t\<rparr>
                      (w\<lparr>wl_env := env\<rparr>))))"

definition IsInvalidState :: "go_error \<Rightarrow> bool" where
  "IsInvalidState err = (case errors_As_API err of Some (c, _) \<Rightarrow> c = CodeInvalidState | None \<Rightarrow> False)"

subsection \<open>What a check does\<close>

text \<open>The row a check writes for host \<open>p\<close>, as a function of the clock and the probe.\<close>

definition checked ::
    "('s, 'w, 'r) monitor_service \<Rightarrow> ('s, 'w, 'r) mon_world \<Rightarrow> physical_host \<Rightarrow> physical_host" where
  "checked m w p =
     (let t = fst (ms_now m (wl_env w));
          p = p\<lparr>ph_LastCheckAt := Some t, ph_NextCheckAt := Some (time_add t (ms_interval m))\<rparr>
      in if InMaintenance p then p
         else check_transition (ms_threshold m)
           (pg_Reachable (fst (fst (ms_Ping m (probe_target p) (snd (ms_now m (wl_env w))))))) p)"

lemma check_transition_simps [simp]:
  "ph_ID (check_transition thr r p) = ph_ID p"
  "ph_DeviceID (check_transition thr r p) = ph_DeviceID p"
  "ph_IPAddress (check_transition thr r p) = ph_IPAddress p"
  "ph_SSHPort (check_transition thr r p) = ph_SSHPort p"
  "ph_SSHUser (check_transition thr r p) = ph_SSHUser p"
  "ph_MaintenanceStartedAt (check_transition thr r p) = ph_MaintenanceStartedAt p"
  "ph_MaintenanceReason (check_transition thr r p) = ph_MaintenanceReason p"
  "ph_MaintenanceSetBy (check_transition thr r p) = ph_MaintenanceSetBy p"
  "ph_LastCheckAt (check_transition thr r p) = ph_LastCheckAt p"
  "ph_NextCheckAt (check_transition thr r p) = ph_NextCheckAt p"
  by (simp_all add: check_transition_def Let_def)

lemma checked_simps [simp]:
  "ph_ID (checked m w p) = ph_ID p"
  "ph_DeviceID (checked m w p) = ph_DeviceID p"
  "ph_IPAddress (checked m w p) = ph_IPAddress p"
  "ph_SSHPort (checked m w p) = ph_SSHPort p"
  "ph_SSHUser (checked m w p) = ph_SSHUser p"
  "ph_MaintenanceStartedAt (checked m w p) = ph_MaintenanceStartedAt p"
  by (simp_all add: checked_def Let_def)

lemma check_transition_valid:
  "PhysicalHostState_Valid (ph_State p) \<Longrightarrow> PhysicalHostState_Valid (ph_State (check_transition thr r p))"
  by (auto simp: check_transition_def PhysicalHostState_Valid_def Let_def)

lemma checked_wf: "host_wf p \<Longrightarrow> host_wf (checked m w p)"
  unfolding host_wf_def by (auto simp: checked_def Let_def intro: check_transition_valid)

lemma push_metrics_simps [simp]:
  "wl_db (push_metrics m p w) = wl_db w" "wl_audit (push_metrics m p w) = wl_audit w"
  "wl_events (push_metrics m p w) = wl_events w"
  by (auto simp: push_metrics_def split: option.splits prod.splits)

lemma emitStateChange_simps [simp]:
  "wl_db (emitStateChange m h a b w) = wl_db w" "wl_audit (emitStateChange m h a b w) = wl_audit w"
  "wl_samples (emitStateChange m h a b w) = wl_samples w"
  by (auto simp: emitStateChange_def split: prod.splits)

lemma emitStateChange_events:
  "map (\<lambda>e. (ev_SourceID e, ev_Payload e)) (wl_events (emitStateChange m h a b w)) =
     map (\<lambda>e. (ev_SourceID e, ev_Payload e)) (wl_events w) @
     (if ms_publisher m
      then [(h, [(''host_id'', h), (''previous_state'', a), (''new_state'', b)])] else [])"
  by (simp add: emitStateChange_def NewEvent_def split: prod.splits)

text \<open>
  The services over any table that behaves as documented. The loaded host, if any, is the row with
  the key; a successful write replaces that row and no other.
\<close>

context physical_hosts
begin

lemma Check_ok:
  assumes m: "ms_repo m = g" and c: "Check m hostID w = (None, w')"
  shows "\<exists>p. rows (wl_db w) hostID = Some p \<and> rows (wl_db w') = (rows (wl_db w))(hostID \<mapsto> checked m w p)
    \<and> wl_audit w' = wl_audit w
    \<and> map (\<lambda>e. (ev_SourceID e, ev_Payload e)) (wl_events w') =
        map (\<lambda>e. (ev_SourceID e, ev_Payload e)) (wl_events w) @
        (if ms_publisher m \<and> ph_State (checked m w p) \<noteq> ph_State p
         then [(hostID, [(''host_id'', hostID), (''previous_state'', ph_State p),
                         (''new_state'', ph_State (checked m w p))])] else [])"
proof -
  from c obtain p where get: "Host_Get g (wl_db w) hostID = Inr p"
    by (auto simp: Check_def m split: sum.splits if_splits)
  from repo.get_ok [OF get] have r: "rows (wl_db w) hostID = Some p" .
  from repo.get_key [OF get] have k: "ph_ID p = hostID" .
  obtain t env where n: "ms_now m (wl_env w) = (t, env)" by fastforce
  let ?p = "p\<lparr>ph_LastCheckAt := Some t, ph_NextCheckAt := Some (time_add t (ms_interval m))\<rparr>"
  show ?thesis
  proof (cases "InMaintenance ?p")
    case True
    with c get n obtain db where u: "Host_Update g (wl_db w) ?p = Inr db"
      and w': "w' = w\<lparr>wl_env := env, wl_db := db\<rparr>"
      by (auto simp: Check_def m split: sum.splits)
    have ch: "checked m w p = ?p" using True n by (simp add: checked_def)
    from repo.update_ok [OF u] r w' ch k show ?thesis by auto
  next
    case False
    obtain res e env' where ping: "ms_Ping m (probe_target ?p) env = ((res, e), env')"
      by (metis prod.collapse)
    let ?q = "check_transition (ms_threshold m) (pg_Reachable res) ?p"
    have tgt: "probe_target ?p = probe_target p" by (simp add: probe_target_def)
    have ch: "checked m w p = ?q" using False n ping by (simp add: checked_def tgt)
    from c get n ping False obtain db where u: "Host_Update g (wl_db w) ?q = Inr db"
      and w': "w' = push_metrics m ?q
        (if ph_State p \<noteq> ph_State ?q
         then emitStateChange m (ph_ID ?q) (ph_State p) (ph_State ?q) (w\<lparr>wl_env := env', wl_db := db\<rparr>)
         else w\<lparr>wl_env := env', wl_db := db\<rparr>)"
      by (auto simp: Check_def m Let_def split: sum.splits)
    from repo.update_ok [OF u] r w' ch k show ?thesis
      by (auto simp: emitStateChange_events)
  qed
qed

lemma Check_error:
  assumes m: "ms_repo m = g" and c: "Check m hostID w = (Some e, w')"
  shows "wl_db w' = wl_db w \<and> wl_audit w' = wl_audit w \<and> wl_events w' = wl_events w"
proof (cases "Host_Get g (wl_db w) hostID")
  case (Inl err)
  with c show ?thesis by (auto simp: Check_def m split: if_splits)
next
  case (Inr p)
  obtain t env where n: "ms_now m (wl_env w) = (t, env)" by fastforce
  with c Inr show ?thesis
    by (auto simp: Check_def m Let_def split: sum.splits if_splits prod.splits)
qed

lemma Check_rows:
  assumes "ms_repo m = g"
  shows "rows (wl_db (snd (Check m hostID w))) = rows (wl_db w) \<or>
    (\<exists>p. rows (wl_db w) hostID = Some p
       \<and> rows (wl_db (snd (Check m hostID w))) = (rows (wl_db w))(hostID \<mapsto> checked m w p))"
proof -
  obtain e w' where c: "Check m hostID w = (e, w')" by fastforce
  with Check_ok [OF assms, of hostID w w'] Check_error [OF assms, of hostID w _ w'] show ?thesis
    by (cases e) auto
qed

lemma save_ok:
  assumes "mt_repo mt = g" "save_maintenance mt h p evt w = (Inr x, w')"
  shows "x = (p, evt) \<and> rows (wl_db w) (ph_ID p) \<noteq> None \<and> rows (wl_db w') = (rows (wl_db w))(ph_ID p \<mapsto> p)
    \<and> wl_audit w' = wl_audit w @ (if mt_auditor mt then [evt] else []) \<and> wl_env w' = wl_env w"
  using assms repo.update_ok [of "wl_db w" p]
  by (auto simp: save_maintenance_def emit_maintenance_def split: sum.splits)

lemma save_error:
  assumes "save_maintenance mt h p evt w = (Inl e, w')"
  shows "w' = w"
  using assms by (auto simp: save_maintenance_def split: sum.splits)

lemma Enter_ok:
  assumes mt: "mt_repo mt = g" and c: "EnterMaintenance mt h reason userID w = (Inr (q, evt), w')"
  shows "\<exists>p t. rows (wl_db w) h = Some p \<and> \<not> InMaintenance p \<and> t = fst (mt_now mt (wl_env w))
    \<and> q = p\<lparr>ph_State := StateMaintenance, ph_MaintenanceStartedAt := Some t,
            ph_MaintenanceReason := reason, ph_MaintenanceSetBy := userID\<rparr>
    \<and> evt = \<lparr>me_Action = ''maintenance_enter'', me_HostID = h, me_UserID = userID,
             me_Reason = reason, me_Duration = 0, me_At = t\<rparr>
    \<and> rows (wl_db w') = (rows (wl_db w))(h \<mapsto> q)
    \<and> wl_audit w' = wl_audit w @ (if mt_auditor mt then [evt] else [])
    \<and> wl_env w' = snd (mt_now mt (wl_env w))"
proof -
  from c obtain p where get: "Host_Get g (wl_db w) h = Inr p" and nm: "\<not> InMaintenance p"
    by (auto simp: EnterMaintenance_def mt split: sum.splits if_splits)
  from repo.get_ok [OF get] repo.get_key [OF get] have p: "rows (wl_db w) h = Some p" "ph_ID p = h" by auto
  obtain t env where n: "mt_now mt (wl_env w) = (t, env)" by fastforce
  from c get nm n have "save_maintenance mt h
      (p\<lparr>ph_State := StateMaintenance, ph_MaintenanceStartedAt := Some t,
        ph_MaintenanceReason := reason, ph_MaintenanceSetBy := userID\<rparr>)
      \<lparr>me_Action = ''maintenance_enter'', me_HostID = ph_ID p, me_UserID = userID,
        me_Reason = reason, me_Duration = 0, me_At = t\<rparr> (w\<lparr>wl_env := env\<rparr>) = (Inr (q, evt), w')"
    by (simp add: EnterMaintenance_def mt)
  from save_ok [OF mt this] p nm n show ?thesis by auto
qed

lemma Exit_ok:
  assumes mt: "mt_repo mt = g" and c: "ExitMaintenance mt h userID w = (Inr (q, evt), w')"
  shows "\<exists>p t started. rows (wl_db w) h = Some p \<and> ph_MaintenanceStartedAt p = Some started
    \<and> t = fst (mt_now mt (wl_env w))
    \<and> q = p\<lparr>ph_State := StateOnline, ph_MaintenanceStartedAt := None,
            ph_MaintenanceReason := '''', ph_MaintenanceSetBy := ''''\<rparr>
    \<and> evt = \<lparr>me_Action = ''maintenance_exit'', me_HostID = h, me_UserID = userID,
             me_Reason = '''', me_Duration = time_sub t started, me_At = t\<rparr>
    \<and> rows (wl_db w') = (rows (wl_db w))(h \<mapsto> q)
    \<and> wl_audit w' = wl_audit w @ (if mt_auditor mt then [evt] else [])"
proof -
  from c obtain p started where get: "Host_Get g (wl_db w) h = Inr p"
    and st: "ph_MaintenanceStartedAt p = Some started"
    by (auto simp: ExitMaintenance_def mt split: sum.splits option.splits)
  from repo.get_ok [OF get] repo.get_key [OF get] have p: "rows (wl_db w) h = Some p" "ph_ID p = h" by auto
  obtain t env where n: "mt_now mt (wl_env w) = (t, env)" by fastforce
  from c get st n have "save_maintenance mt h
      (p\<lparr>ph_State := StateOnline, ph_MaintenanceStartedAt := None,
        ph_MaintenanceReason := '''', ph_MaintenanceSetBy := ''''\<rparr>)
      \<lparr>me_Action = ''maintenance_exit'', me_HostID = ph_ID p, me_UserID = userID,
        me_Reason = '''', me_Duration = time_sub t started, me_At = t\<rparr> (w\<lparr>wl_env := env\<rparr>) = (Inr (q, evt), w')"
    by (simp add: ExitMaintenance_def mt)
  from save_ok [OF mt this] p st n show ?thesis by auto
qed

lemma Enter_error:
  "EnterMaintenance mt h reason userID w = (Inl e, w') \<Longrightarrow> wl_db w' = wl_db w \<and> wl_audit w' = wl_audit w"
  by (auto simp: EnterMaintenance_def split: sum.splits if_splits prod.splits dest: save_error)

lemma Exit_error:
  "ExitMaintenance mt h userID w = (Inl e, w') \<Longrightarrow> wl_db w' = wl_db w \<and> wl_audit w' = wl_audit w"
  by (auto simp: ExitMaintenance_def split: sum.splits option.splits prod.splits dest: save_error)

end

subsection \<open>The state after a run of probes\<close>

definition probes :: "int64 \<Rightarrow> bool list \<Rightarrow> physical_host \<Rightarrow> physical_host" where
  "probes threshold rs p = fold (check_transition threshold) rs p"

text \<open>The number of failures at the end of a list of probe results.\<close>

definition trailing_failures :: "bool list \<Rightarrow> nat" where
  "trailing_failures rs = length (takeWhile Not (rev rs))"

lemma trailing_snoc [simp]:
  "trailing_failures [] = 0"
  "trailing_failures (rs @ [True]) = 0"
  "trailing_failures (rs @ [False]) = Suc (trailing_failures rs)"
  by (simp_all add: trailing_failures_def)

lemma trailing_le: "trailing_failures rs \<le> length rs"
  unfolding trailing_failures_def by (metis length_rev length_takeWhile_le)

lemma sint_of_nat_small: "n < 2 ^ 63 \<Longrightarrow> sint (of_nat n :: int64) = int n"
  by (simp add: signed_of_nat signed_take_bit_int_eq_self)

text \<open>
  C2: the health of a host is a function of the failures at the end of its probe history: online
  after a success, monitoring issue from the first failure on, offline from the threshold on (and
  not before a second failure, whatever the threshold); the counter holds their number.
\<close>

theorem state_is_trailing_failures:
  assumes "ph_State p = StateOnline" "ph_ConsecutiveFails p = 0" "length rs < 2 ^ 63"
  shows "ph_State (probes threshold rs p) =
      (if trailing_failures rs = 0 then StateOnline
       else if 2 \<le> trailing_failures rs \<and> sint threshold \<le> int (trailing_failures rs) then StateOffline
       else StateMonitoringIssue)
    \<and> sint (ph_ConsecutiveFails (probes threshold rs p)) = int (trailing_failures rs)"
proof -
  have "ph_ConsecutiveFails (probes threshold rs p) = of_nat (trailing_failures rs)
    \<and> ph_State (probes threshold rs p) =
      (if trailing_failures rs = 0 then StateOnline
       else if 2 \<le> trailing_failures rs \<and> sint threshold \<le> int (trailing_failures rs) then StateOffline
       else StateMonitoringIssue)"
    using assms(3)
  proof (induction rs rule: rev_induct)
    case Nil
    then show ?case by (simp add: probes_def assms)
  next
    case (snoc r rs)
    have step: "probes threshold (rs @ [r]) p = check_transition threshold r (probes threshold rs p)"
      by (simp add: probes_def)
    show ?case
    proof (cases r)
      case True
      then show ?thesis unfolding step by (simp add: check_transition_def)
    next
      case False
      let ?n = "trailing_failures rs"
      have "Suc ?n < 2 ^ 63" using trailing_le [of rs] snoc.prems by simp
      then have "sint (of_nat ?n + 1 :: int64) = int ?n + 1"
        using sint_of_nat_small [of "Suc ?n"] by (simp add: add.commute)
      with False snoc show ?thesis unfolding step
        by (auto simp: check_transition_def Let_def word_sle_eq add.commute)
    qed
  qed
  moreover have "trailing_failures rs < 2 ^ 63" using trailing_le [of rs] assms(3) by simp
  ultimately show ?thesis by (simp add: sint_of_nat_small)
qed

abbreviation sample_host :: physical_host where
  "sample_host \<equiv> \<lparr>ph_ID = ''h'', ph_DeviceID = ''d'', ph_IPAddress = ''10.0.0.1'', ph_SSHPort = 22,
    ph_SSHUser = ''root'', ph_State = ''online'', ph_LastCheckAt = None, ph_NextCheckAt = None,
    ph_ConsecutiveFails = 0, ph_MaintenanceStartedAt = None, ph_MaintenanceReason = '''',
    ph_MaintenanceSetBy = ''''\<rparr>"

theorem state_is_trailing_failures_witness:
  "ph_State (probes 3 [True, False, False, False] sample_host) = ''offline''"
  using state_is_trailing_failures [of sample_host "[True, False, False, False]" 3]
  by (simp add: trailing_failures_def)

text \<open>
  C10: one check of a host that is not in maintenance applies that transition, with the reachability
  the prober reports, to the stored row; no other row changes; a state-change event is published
  exactly when the state changed and a publisher is wired, and no audit record is written.
\<close>

theorem check_applies_transition:
  assumes "gorm_table (ms_repo m) ph_ID rows" "Check m hostID w = (None, w')"
    and "rows (wl_db w) hostID = Some p" "\<not> InMaintenance p"
    and "ms_now m (wl_env w) = (t, env)" "ms_Ping m (probe_target p) env = ((res, e), env')"
  shows "\<exists>q. rows (wl_db w') = (rows (wl_db w))(hostID \<mapsto> q)
    \<and> q = check_transition (ms_threshold m) (pg_Reachable res)
            (p\<lparr>ph_LastCheckAt := Some t, ph_NextCheckAt := Some (time_add t (ms_interval m))\<rparr>)
    \<and> length (wl_events w') = length (wl_events w) +
        (if ms_publisher m \<and> ph_State q \<noteq> ph_State p then 1 else 0)
    \<and> wl_audit w' = wl_audit w"
proof -
  from physical_hosts.Check_ok [OF physical_hosts.intro [OF assms(1)] refl assms(2)] assms(3)
  obtain q where q: "q = checked m w p"
    and r: "rows (wl_db w') = (rows (wl_db w))(hostID \<mapsto> q)" "wl_audit w' = wl_audit w"
    and ev: "map (\<lambda>e. (ev_SourceID e, ev_Payload e)) (wl_events w') =
        map (\<lambda>e. (ev_SourceID e, ev_Payload e)) (wl_events w) @
        (if ms_publisher m \<and> ph_State q \<noteq> ph_State p
         then [(hostID, [(''host_id'', hostID), (''previous_state'', ph_State p),
                         (''new_state'', ph_State q)])] else [])"
    by auto
  from arg_cong [OF ev, of length] have "length (wl_events w') = length (wl_events w) +
        (if ms_publisher m \<and> ph_State q \<noteq> ph_State p then 1 else 0)" by auto
  moreover have "q = check_transition (ms_threshold m) (pg_Reachable res)
      (p\<lparr>ph_LastCheckAt := Some t, ph_NextCheckAt := Some (time_add t (ms_interval m))\<rparr>)"
    using assms(4-6) unfolding q checked_def by (simp add: InMaintenance_def Let_def probe_target_def)
  ultimately show ?thesis using r by blast
qed

text \<open>A monitor over the in-memory table whose clock reads the environment and whose probes fail.\<close>

abbreviation down_monitor :: "(physical_host list, nat, unit) monitor_service" where
  "down_monitor \<equiv> SetPublisher True (NewMonitorService (mem_gorm ph_ID)
     (\<lambda>_ n. ((\<lparr>pg_Reachable = False, pg_LatencyMs = 0, pg_Err = None\<rparr>, None), n))
     (\<lambda>n. (Time (int n), Suc n)) 2 0)"

abbreviation world_of :: "physical_host list \<Rightarrow> nat \<Rightarrow> (physical_host list, nat, unit) mon_world" where
  "world_of db n \<equiv> \<lparr>wl_db = db, wl_env = n, wl_events = [], wl_samples = [], wl_audit = []\<rparr>"

theorem check_applies_transition_witness:
  "\<exists>q. mem_rows ph_ID (wl_db (snd (Check down_monitor ''h'' (world_of [sample_host] 7)))) ''h'' = Some q
     \<and> ph_State q = ''monitoring_issue''
     \<and> length (wl_events (snd (Check down_monitor ''h'' (world_of [sample_host] 7)))) = 1"
proof -
  let ?w = "world_of [sample_host] 7"
  let ?res = "\<lparr>pg_Reachable = False, pg_LatencyMs = 0, pg_Err = None\<rparr>"
  have "fst (Check down_monitor ''h'' ?w) = None"
    by code_simp
  then have ok: "Check down_monitor ''h'' ?w = (None, snd (Check down_monitor ''h'' ?w))"
    by (simp only: prod_eq_iff fst_conv snd_conv)
  have tbl: "gorm_table (ms_repo down_monitor) ph_ID (mem_rows ph_ID)"
    using mem.gorm_table_axioms [of ph_ID] by (simp add: NewMonitorService_def SetPublisher_def)
  have p: "mem_rows ph_ID (wl_db ?w) ''h'' = Some sample_host" by simp
  have np: "\<not> InMaintenance sample_host" by (simp add: InMaintenance_def)
  have n: "ms_now down_monitor (wl_env ?w) = (Time 7, 8)"
    and g: "ms_Ping down_monitor (probe_target sample_host) 8 = ((?res, None), 8)"
    and pub: "ms_publisher down_monitor"
    by (simp_all add: NewMonitorService_def SetPublisher_def)
  from check_applies_transition [OF tbl ok p np n g] obtain q
    where r: "mem_rows ph_ID (wl_db (snd (Check down_monitor ''h'' ?w))) = (mem_rows ph_ID (wl_db ?w))(''h'' \<mapsto> q)"
      and q: "q = check_transition (ms_threshold down_monitor) (pg_Reachable ?res)
        (sample_host\<lparr>ph_LastCheckAt := Some (Time 7),
          ph_NextCheckAt := Some (time_add (Time 7) (ms_interval down_monitor))\<rparr>)"
      and ev: "length (wl_events (snd (Check down_monitor ''h'' ?w))) = length (wl_events ?w) +
        (if ms_publisher down_monitor \<and> ph_State q \<noteq> ph_State sample_host then 1 else 0)"
    by blast
  have st: "ph_State q = ''monitoring_issue''" unfolding q by (simp add: check_transition_def)
  show ?thesis
    using ev st pub by (intro exI [of _ q]) (simp only: r st fun_upd_same, simp)
qed

subsection \<open>Maintenance\<close>

text \<open>
  While a host is in maintenance a check, whatever the prober would say, changes nothing of the
  row but the two check times: state, failure counter and maintenance fields stay, no event is
  published.
\<close>

theorem maintenance_blocks_transitions:
  assumes "gorm_table (ms_repo m) ph_ID rows" "Check m hostID w = (None, w')"
    and "rows (wl_db w) hostID = Some p" "InMaintenance p"
  shows "\<exists>t. rows (wl_db w') = (rows (wl_db w))(hostID \<mapsto> p\<lparr>ph_LastCheckAt := Some t,
        ph_NextCheckAt := Some (time_add t (ms_interval m))\<rparr>)
    \<and> wl_events w' = wl_events w \<and> wl_audit w' = wl_audit w"
proof -
  let ?t = "fst (ms_now m (wl_env w))"
  have ch: "checked m w p = p\<lparr>ph_LastCheckAt := Some ?t, ph_NextCheckAt := Some (time_add ?t (ms_interval m))\<rparr>"
    using assms(4) by (simp add: checked_def InMaintenance_def Let_def)
  from physical_hosts.Check_ok [OF physical_hosts.intro [OF assms(1)] refl assms(2)] assms(3)
  have "rows (wl_db w') = (rows (wl_db w))(hostID \<mapsto> checked m w p)"
    and a: "wl_audit w' = wl_audit w"
    and "map (\<lambda>e. (ev_SourceID e, ev_Payload e)) (wl_events w')
        = map (\<lambda>e. (ev_SourceID e, ev_Payload e)) (wl_events w)"
    by (auto simp: ch)
  moreover have "wl_events w' = wl_events w"
  proof -
    from assms(2) obtain p' where get: "Host_Get (ms_repo m) (wl_db w) hostID = Inr p'"
      by (auto simp: Check_def split: sum.splits if_splits)
    from gorm_table.First_found [OF assms(1)] get assms(3) have "p' = p"
      by (auto simp: repo_Get_def split: sum.splits)
    with get assms(2,4) show ?thesis
      by (auto simp: Check_def InMaintenance_def split: sum.splits prod.splits)
  qed
  ultimately show ?thesis unfolding ch by blast
qed

abbreviation down_maint :: "(physical_host list, nat) maintenance_service" where
  "down_maint \<equiv> \<lparr>mt_repo = mem_gorm ph_ID, mt_auditor = True, mt_now = (\<lambda>n. (Time (int n), Suc n))\<rparr>"

abbreviation maint_host :: physical_host where
  "maint_host \<equiv> sample_host\<lparr>ph_State := ''maintenance'', ph_MaintenanceStartedAt := Some (Time 3)\<rparr>"

theorem maintenance_blocks_transitions_witness:
  "\<exists>t. mem_rows ph_ID (wl_db (snd (Check down_monitor ''h'' (world_of [maint_host] 7)))) =
     (mem_rows ph_ID [maint_host])(''h'' \<mapsto> maint_host\<lparr>ph_LastCheckAt := Some t,
        ph_NextCheckAt := Some (time_add t (ms_interval down_monitor))\<rparr>)
    \<and> wl_events (snd (Check down_monitor ''h'' (world_of [maint_host] 7))) = []"
proof -
  let ?w = "world_of [maint_host] 7"
  have "fst (Check down_monitor ''h'' ?w) = None"
    by code_simp
  then have ok: "Check down_monitor ''h'' ?w = (None, snd (Check down_monitor ''h'' ?w))"
    by (simp only: prod_eq_iff fst_conv snd_conv)
  have tbl: "gorm_table (ms_repo down_monitor) ph_ID (mem_rows ph_ID)"
    using mem.gorm_table_axioms [of ph_ID] by (simp add: NewMonitorService_def SetPublisher_def)
  have p: "mem_rows ph_ID (wl_db ?w) ''h'' = Some maint_host" by simp
  have im: "InMaintenance maint_host" by (simp add: InMaintenance_def)
  from maintenance_blocks_transitions [OF tbl ok p im] show ?thesis
    unfolding mon_world.select_convs by (elim exE conjE) (intro exI conjI, assumption+)
qed

text \<open>
  Entering and leaving maintenance. A successful entry is possible only for a host that is not
  in maintenance, writes the row and emits exactly one audit record after it; a successful exit of
  that host later records the time since the entry, brings the host back online and clears the
  maintenance fields. Every other field of the row, among them the failure counter, survives the
  round trip.
\<close>

theorem maintenance_round_trip:
  assumes "gorm_table (mt_repo mt) ph_ID rows" "mt_auditor mt"
    and "EnterMaintenance mt h reason u1 w = (Inr (q1, e1), w1)"
    and "rows (wl_db w2) h = rows (wl_db w1) h"
    and "ExitMaintenance mt h u2 w2 = (Inr (q2, e2), w3)"
    and "mt_now mt (wl_env w) = (t1, env1)" "mt_now mt (wl_env w2) = (t2, env2)"
  shows "\<exists>p. rows (wl_db w) h = Some p \<and> \<not> InMaintenance p
    \<and> rows (wl_db w1) h = Some (p\<lparr>ph_State := StateMaintenance, ph_MaintenanceStartedAt := Some t1,
         ph_MaintenanceReason := reason, ph_MaintenanceSetBy := u1\<rparr>)
    \<and> rows (wl_db w3) h = Some (p\<lparr>ph_State := StateOnline, ph_MaintenanceStartedAt := None,
         ph_MaintenanceReason := '''', ph_MaintenanceSetBy := ''''\<rparr>)
    \<and> wl_audit w1 = wl_audit w @ [\<lparr>me_Action = ''maintenance_enter'', me_HostID = h, me_UserID = u1,
         me_Reason = reason, me_Duration = 0, me_At = t1\<rparr>]
    \<and> wl_audit w3 = wl_audit w2 @ [\<lparr>me_Action = ''maintenance_exit'', me_HostID = h, me_UserID = u2,
         me_Reason = '''', me_Duration = time_sub t2 t1, me_At = t2\<rparr>]"
  using physical_hosts.Enter_ok [OF physical_hosts.intro [OF assms(1)] refl assms(3)]
    physical_hosts.Exit_ok [OF physical_hosts.intro [OF assms(1)] refl assms(5)] assms(2,4,6,7)
  by auto

theorem maintenance_round_trip_witness:
  "\<exists>q1 e1 w1 q2 e2 w3. EnterMaintenance down_maint ''h'' ''disk swap'' ''alice'' (world_of [sample_host] 5)
        = (Inr (q1, e1), w1)
     \<and> ExitMaintenance down_maint ''h'' ''bob'' w1 = (Inr (q2, e2), w3)
     \<and> wl_audit w3 = wl_audit w1 @ [\<lparr>me_Action = ''maintenance_exit'', me_HostID = ''h'', me_UserID = ''bob'',
         me_Reason = '''', me_Duration = 1, me_At = Time 6\<rparr>]"
proof -
  let ?q1 = "sample_host\<lparr>ph_State := StateMaintenance, ph_MaintenanceStartedAt := Some (Time 5),
    ph_MaintenanceReason := ''disk swap'', ph_MaintenanceSetBy := ''alice''\<rparr>"
  let ?e1 = "\<lparr>me_Action = ''maintenance_enter'', me_HostID = ''h'', me_UserID = ''alice'',
    me_Reason = ''disk swap'', me_Duration = 0, me_At = Time 5\<rparr>"
  let ?w1 = "(world_of [?q1] 6)\<lparr>wl_audit := [?e1]\<rparr>"
  let ?e2 = "\<lparr>me_Action = ''maintenance_exit'', me_HostID = ''h'', me_UserID = ''bob'',
    me_Reason = '''', me_Duration = 1, me_At = Time 6\<rparr>"
  let ?q2 = "?q1\<lparr>ph_State := StateOnline, ph_MaintenanceStartedAt := None,
    ph_MaintenanceReason := '''', ph_MaintenanceSetBy := ''''\<rparr>"
  let ?w3 = "(world_of [?q2] 7)\<lparr>wl_audit := [?e1, ?e2]\<rparr>"
  have en: "EnterMaintenance down_maint ''h'' ''disk swap'' ''alice'' (world_of [sample_host] 5)
      = (Inr (?q1, ?e1), ?w1)"
    by (simp add: EnterMaintenance_def save_maintenance_def emit_maintenance_def repo_defs mem_calls
        InMaintenance_def)
  have ex: "ExitMaintenance down_maint ''h'' ''bob'' ?w1 = (Inr (?q2, ?e2), ?w3)"
    by (simp add: ExitMaintenance_def save_maintenance_def emit_maintenance_def repo_defs mem_calls
        time_sub_def)
  have tbl: "gorm_table (mt_repo down_maint) ph_ID (mem_rows ph_ID)"
    using mem.gorm_table_axioms [of ph_ID] by simp
  from maintenance_round_trip [OF tbl _ en refl ex] en ex show ?thesis by (auto simp: time_sub_def)
qed

subsection \<open>Invariants of the host table\<close>

text \<open>
  Every operation that changes a host: the three write routes, the check (from the loop or the
  probe route), and the two maintenance actions. \<open>ok\<close> restricts the request bodies.
\<close>

inductive host_step ::
    "('s, 'w, 'r) monitor_service \<Rightarrow> ('s, 'w) maintenance_service \<Rightarrow> (host_request option \<Rightarrow> bool)
     \<Rightarrow> ('s, 'w, 'r) mon_world \<Rightarrow> ('s, 'w, 'r) mon_world \<Rightarrow> bool"
  for m mt ok where
  create: "ok body \<Longrightarrow> host_step m mt ok w
    (w\<lparr>wl_db := snd (Host_handler_Create (ms_repo m) newID (wl_db w) body)\<rparr>)"
| replace: "ok body \<Longrightarrow> host_step m mt ok w
    (w\<lparr>wl_db := snd (Host_handler_Replace (ms_repo m) (wl_db w) k body)\<rparr>)"
| delete: "host_step m mt ok w (w\<lparr>wl_db := snd (Host_handler_Delete (ms_repo m) (wl_db w) k)\<rparr>)"
| check: "host_step m mt ok w (snd (Check m k w))"
| enter: "host_step m mt ok w (snd (EnterMaintenance mt k reason userID w))"
| exit: "host_step m mt ok w (snd (ExitMaintenance mt k userID w))"

context physical_hosts
begin

lemma Create_rows:
  "rows (snd (Host_handler_Create g newID s body)) = rows s \<or>
   (\<exists>r p. body = Some r \<and> hostRequest_validate r = None
      \<and> p = PhysicalHost_BeforeCreate newID (toModel r) \<and> rows s (ph_ID p) = None
      \<and> rows (snd (Host_handler_Create g newID s body)) = (rows s)(ph_ID p \<mapsto> p)
      \<and> fst (Host_handler_Create g newID s body) = Body 201 p)"
  using repo.create_ok [of s]
  by (auto simp: Host_handler_Create_def Host_Create_def Let_def split: option.splits sum.splits)

lemma Replace_rows:
  "rows (snd (Host_handler_Replace g s k body)) = rows s \<or>
   (\<exists>r p. body = Some r \<and> hostRequest_validate r = None \<and> rows s k = Some p
      \<and> rows (snd (Host_handler_Replace g s k body)) = (rows s)(k \<mapsto> replace_fields r p))"
proof (cases body)
  case (Some r)
  show ?thesis
  proof (cases "hostRequest_validate r")
    case None
    show ?thesis
    proof (cases "Host_Get g s k")
      case (Inr p)
      from repo.get_ok [OF Inr] repo.get_key [OF Inr] have "rows s k = Some p" "ph_ID p = k" by auto
      with Some None Inr show ?thesis
        using repo.update_ok [of s "replace_fields r p"]
        by (auto simp: Host_handler_Replace_def Let_def split: sum.splits)
    qed (simp add: Some None Host_handler_Replace_def)
  qed (simp add: Some Host_handler_Replace_def)
qed (simp add: Host_handler_Replace_def)

lemma Delete_rows:
  "rows (snd (Host_handler_Delete g s k)) = rows s \<or>
   rows (snd (Host_handler_Delete g s k)) = (rows s)(k := None)"
  using repo.delete_ok [of s k] by (auto simp: Host_handler_Delete_def split: sum.splits)

lemma Enter_rows:
  assumes "mt_repo mt = g"
  shows "rows (wl_db (snd (EnterMaintenance mt h reason u w))) = rows (wl_db w) \<or>
   (\<exists>p t. rows (wl_db w) h = Some p \<and> rows (wl_db (snd (EnterMaintenance mt h reason u w))) =
     (rows (wl_db w))(h \<mapsto> p\<lparr>ph_State := StateMaintenance, ph_MaintenanceStartedAt := Some t,
            ph_MaintenanceReason := reason, ph_MaintenanceSetBy := u\<rparr>))"
proof -
  obtain r w' where e: "EnterMaintenance mt h reason u w = (r, w')" by fastforce
  show ?thesis
  proof (cases r)
    case (Inl x)
    with e Enter_error [of mt h reason u w x w'] show ?thesis by simp
  next
    case (Inr x)
    with e have e': "EnterMaintenance mt h reason u w = (Inr (fst x, snd x), w')" by simp
    from Enter_ok [OF assms e'] e show ?thesis by auto
  qed
qed

lemma Exit_rows:
  assumes "mt_repo mt = g"
  shows "rows (wl_db (snd (ExitMaintenance mt h u w))) = rows (wl_db w) \<or>
   (\<exists>p. rows (wl_db w) h = Some p \<and> rows (wl_db (snd (ExitMaintenance mt h u w))) =
     (rows (wl_db w))(h \<mapsto> p\<lparr>ph_State := StateOnline, ph_MaintenanceStartedAt := None,
            ph_MaintenanceReason := '''', ph_MaintenanceSetBy := ''''\<rparr>))"
proof -
  obtain r w' where e: "ExitMaintenance mt h u w = (r, w')" by fastforce
  show ?thesis
  proof (cases r)
    case (Inl x)
    with e Exit_error [of mt h u w x w'] show ?thesis by simp
  next
    case (Inr x)
    with e have e': "ExitMaintenance mt h u w = (Inr (fst x, snd x), w')" by simp
    from Exit_ok [OF assms e'] e show ?thesis by auto
  qed
qed

text \<open>
  A property of rows that holds for the rows the create route makes and that the replace route,
  the check and the maintenance actions keep is an invariant of the table.
\<close>

lemma host_step_all:
  assumes step: "host_step m mt ok w w'" and g: "ms_repo m = g" "mt_repo mt = g"
    and new: "\<And>r newID. ok (Some r) \<Longrightarrow> hostRequest_validate r = None \<Longrightarrow>
        P (PhysicalHost_BeforeCreate newID (toModel r))"
    and repl: "\<And>r p. ok (Some r) \<Longrightarrow> hostRequest_validate r = None \<Longrightarrow> P p \<Longrightarrow> P (replace_fields r p)"
    and chk: "\<And>w p. P p \<Longrightarrow> P (checked m w p)"
    and ent: "\<And>p t reason u. P p \<Longrightarrow> P (p\<lparr>ph_State := StateMaintenance, ph_MaintenanceStartedAt := Some t,
            ph_MaintenanceReason := reason, ph_MaintenanceSetBy := u\<rparr>)"
    and exi: "\<And>p. P p \<Longrightarrow> P (p\<lparr>ph_State := StateOnline, ph_MaintenanceStartedAt := None,
            ph_MaintenanceReason := '''', ph_MaintenanceSetBy := ''''\<rparr>)"
    and all: "\<forall>k p. rows (wl_db w) k = Some p \<longrightarrow> P p"
  shows "\<forall>k p. rows (wl_db w') k = Some p \<longrightarrow> P p"
  using step
proof cases
  case (create body newID)
  with Create_rows [of newID "wl_db w" body] all new g show ?thesis by (auto split: if_splits)
next
  case (replace body k)
  with Replace_rows [of "wl_db w" k body] all repl g show ?thesis by (auto split: if_splits)
next
  case (delete k)
  with Delete_rows [of "wl_db w" k] all g show ?thesis by (auto split: if_splits)
next
  case (check k)
  with Check_rows [OF g(1), of k w] all chk show ?thesis by (auto split: if_splits)
next
  case (enter k reason u)
  with Enter_rows [OF g(2), of k reason u w] all ent show ?thesis by (auto split: if_splits)
next
  case (exit k u)
  with Exit_rows [OF g(2), of k u w] all exi show ?thesis by (auto split: if_splits)
qed

end

lemma PhysicalHost_BeforeCreate_maint [simp]:
  "ph_MaintenanceStartedAt (PhysicalHost_BeforeCreate n p) = ph_MaintenanceStartedAt p"
  by (simp add: PhysicalHost_BeforeCreate_def Let_def)

lemma maint_update_wf:
  "host_wf p \<Longrightarrow> PhysicalHostState_Valid st \<Longrightarrow>
   host_wf (p\<lparr>ph_State := st, ph_MaintenanceStartedAt := t, ph_MaintenanceReason := r,
     ph_MaintenanceSetBy := u\<rparr>)"
  by (simp add: host_wf_def)

lemma Valid_states [simp]:
  "PhysicalHostState_Valid StateOnline" "PhysicalHostState_Valid StateMaintenance"
  by (simp_all add: PhysicalHostState_Valid_def)

text \<open>
  C13: every host in the table is well formed (required fields present, port in 1 to 65535, one of
  the four states) after any sequence of requests, checks and maintenance actions, if it was
  before.
\<close>

theorem hosts_always_well_formed:
  assumes "gorm_table g ph_ID rows" "ms_repo m = g" "mt_repo mt = g"
    and "(host_step m mt (\<lambda>_. True))\<^sup>*\<^sup>* w0 w" "all_wf (rows (wl_db w0))"
  shows "all_wf (rows (wl_db w))"
  using assms(4,5)
proof (induction rule: rtranclp_induct)
  case (step y z)
  have "\<forall>k p. rows (wl_db z) k = Some p \<longrightarrow> host_wf p"
  proof (rule physical_hosts.host_step_all [OF physical_hosts.intro [OF assms(1)] step.hyps(2) assms(2,3),
      where P = host_wf])
    show "\<forall>k p. rows (wl_db y) k = Some p \<longrightarrow> host_wf p"
      using step.IH [OF step.prems] by (simp only: all_wf_def)
  qed (simp_all only: validate_wf replace_wf checked_wf maint_update_wf Valid_states)
  then show ?case by (simp only: all_wf_def)
qed simp

theorem hosts_always_well_formed_witness:
  "all_wf (mem_rows ph_ID (wl_db (snd (Check down_monitor ''h'' (world_of [sample_host] 7)))))"
proof -
  have tbl: "gorm_table (mem_gorm ph_ID) ph_ID (mem_rows ph_ID)" by (rule mem.gorm_table_axioms)
  have st: "(host_step down_monitor down_maint (\<lambda>_. True))\<^sup>*\<^sup>* (world_of [sample_host] 7)
      (snd (Check down_monitor ''h'' (world_of [sample_host] 7)))"
    by (rule r_into_rtranclp) (rule host_step.check)
  show ?thesis
    by (rule hosts_always_well_formed [OF tbl _ _ st])
      (simp_all add: all_wf_def host_wf_def NewMonitorService_def SetPublisher_def)
qed

text \<open>The two encodings of maintenance agree.\<close>

definition in_sync :: "physical_host \<Rightarrow> bool" where
  "in_sync p \<longleftrightarrow> (ph_State p = StateMaintenance \<longleftrightarrow> InMaintenance p)"

definition no_state :: "host_request option \<Rightarrow> bool" where
  "no_state body = (case body of None \<Rightarrow> True | Some r \<Rightarrow> hr_State r = '''')"

lemma check_transition_not_maint:
  "ph_State p \<noteq> StateMaintenance \<Longrightarrow> ph_State (check_transition thr r p) \<noteq> StateMaintenance"
  by (simp add: check_transition_def Let_def)

text \<open>
  As long as no request sets the state column itself, the state \<open>maintenance\<close> and the
  maintenance start time agree for every host, over any sequence of requests, checks and
  maintenance actions.
\<close>

theorem maintenance_encodings_agree:
  assumes "gorm_table g ph_ID rows" "ms_repo m = g" "mt_repo mt = g"
    and "(host_step m mt no_state)\<^sup>*\<^sup>* w0 w" "\<forall>k p. rows (wl_db w0) k = Some p \<longrightarrow> in_sync p"
  shows "\<forall>k p. rows (wl_db w) k = Some p \<longrightarrow> in_sync p"
  using assms(4,5)
proof (induction rule: rtranclp_induct)
  case (step y z)
  show ?case
  proof (rule physical_hosts.host_step_all [OF physical_hosts.intro [OF assms(1)] step.hyps(2) assms(2,3),
      where P = in_sync])
    fix r newID assume "no_state (Some r)"
    then show "in_sync (PhysicalHost_BeforeCreate newID (toModel r))"
      by (simp add: in_sync_def InMaintenance_def no_state_def toModel_def PhysicalHost_BeforeCreate_def Let_def)
  next
    fix r p assume "no_state (Some r)" "in_sync p"
    moreover from this have "ph_State (replace_fields r p) = ph_State p"
      by (simp add: no_state_def replace_fields_def Let_def)
    ultimately show "in_sync (replace_fields r p)" by (simp add: in_sync_def InMaintenance_def)
  next
    fix w p assume "in_sync p"
    then show "in_sync (checked m w p)"
      by (auto simp: in_sync_def InMaintenance_def checked_def Let_def check_transition_not_maint)
  next
    show "\<forall>k p. rows (wl_db y) k = Some p \<longrightarrow> in_sync p" by (rule step.IH [OF step.prems])
  qed (simp_all add: in_sync_def InMaintenance_def)
qed simp

theorem maintenance_encodings_agree_witness:
  "\<exists>q. mem_rows ph_ID (wl_db (snd (EnterMaintenance down_maint ''h'' ''r'' ''u'' (world_of [sample_host] 7)))) ''h''
     = Some q \<and> ph_State q = ''maintenance'' \<and> in_sync q"
proof -
  let ?w = "snd (EnterMaintenance down_maint ''h'' ''r'' ''u'' (world_of [sample_host] 7))"
  let ?q = "sample_host\<lparr>ph_State := StateMaintenance, ph_MaintenanceStartedAt := Some (Time 7),
    ph_MaintenanceReason := ''r'', ph_MaintenanceSetBy := ''u''\<rparr>"
  have tbl: "gorm_table (mem_gorm ph_ID) ph_ID (mem_rows ph_ID)" by (rule mem.gorm_table_axioms)
  have st: "(host_step down_monitor down_maint no_state)\<^sup>*\<^sup>* (world_of [sample_host] 7) ?w"
    by (rule r_into_rtranclp) (rule host_step.enter)
  have "\<forall>k p. mem_rows ph_ID (wl_db ?w) k = Some p \<longrightarrow> in_sync p"
    by (rule maintenance_encodings_agree [OF tbl _ _ st])
      (simp_all add: in_sync_def InMaintenance_def NewMonitorService_def SetPublisher_def)
  moreover have "mem_rows ph_ID (wl_db ?w) ''h'' = Some ?q"
    by (simp add: EnterMaintenance_def save_maintenance_def emit_maintenance_def repo_defs mem_calls
        InMaintenance_def)
  ultimately show ?thesis by auto
qed

text \<open>
  The replace route can set the state column to \<open>maintenance\<close> without a maintenance window, and
  the monitor then never leaves it on failures: after any number of failed probes the host still
  shows maintenance, although it is not in maintenance for the alert suppression.
\<close>

theorem state_without_window_is_stuck:
  assumes "gorm_table g ph_ID rows" "rows s k = Some p" "\<not> InMaintenance p"
    and "Host_handler_Replace g s k (Some r) = (Body 200 q, s')" "hr_State r = StateMaintenance"
  shows "rows s' k = Some q \<and> \<not> InMaintenance q
    \<and> ph_State (probes threshold (replicate n False) q) = StateMaintenance"
proof -
  have stuck: "ph_State (probes threshold (replicate n False) q) = StateMaintenance"
    if "ph_State q = StateMaintenance" for q
    using that unfolding probes_def
    by (induction n arbitrary: q) (simp_all add: check_transition_def Let_def)
  from assms(4) obtain p' where get: "Host_Get g s k = Inr p'" and q: "q = replace_fields r p'"
    and upd: "Host_Update g s q = Inr s'"
    by (auto simp: Host_handler_Replace_def Let_def split: option.splits sum.splits)
  from gorm_table.First_found [OF assms(1)] get assms(2) have p': "p' = p"
    by (auto simp: repo_Get_def split: sum.splits)
  have "ph_ID q = k" using gorm_table.rows_key [OF assms(1,2)] by (simp add: q p')
  with upd gorm_table.Save_ok [OF assms(1)] have "rows s' k = Some q"
    by (auto simp: repo_Update_def split: sum.splits)
  moreover have "ph_State q = StateMaintenance"
    using assms(5) by (simp add: q replace_fields_def Let_def)
  ultimately show ?thesis using assms(3) stuck by (simp add: q p' InMaintenance_def)
qed

abbreviation maint_request :: host_request where
  "maint_request \<equiv> \<lparr>hr_DeviceID = ''d'', hr_IPAddress = ''10.0.0.1'', hr_SSHPort = 22,
     hr_SSHUser = ''root'', hr_State = ''maintenance''\<rparr>"

theorem state_without_window_is_stuck_witness:
  "\<exists>q s'. Host_handler_Replace (mem_gorm ph_ID) [sample_host] ''h'' (Some maint_request) = (Body 200 q, s')
     \<and> \<not> InMaintenance q \<and> ph_State (probes 3 (replicate 100 False) q) = ''maintenance''"
proof -
  let ?q = "sample_host\<lparr>ph_State := ''maintenance''\<rparr>"
  have t: "TrimSpace ''d'' = ''d''" "TrimSpace ''10.0.0.1'' = ''10.0.0.1''" "TrimSpace ''root'' = ''root''"
    by code_simp+
  have h: "Host_handler_Replace (mem_gorm ph_ID) [sample_host] ''h'' (Some maint_request)
      = (Body 200 ?q, [?q])"
    by (simp add: Host_handler_Replace_def hostRequest_validate_def replace_fields_def repo_defs mem_calls
        t word_sless_alt PhysicalHostState_Valid_def Let_def)
  from state_without_window_is_stuck [OF mem.gorm_table_axioms _ _ h, of sample_host 3 100]
  have "\<not> InMaintenance ?q \<and> ph_State (probes 3 (replicate 100 False) ?q) = ''maintenance''"
    by (simp add: InMaintenance_def)
  with h show ?thesis by blast
qed

subsection \<open>A check in flight\<close>

text \<open>
  A check reads the row, probes for up to the per-host timeout, and then saves the whole row. The
  write of a check that read host \<open>p\<close> in the world \<open>w_read\<close>, executed in the world \<open>w\<close>:
\<close>

definition check_write ::
    "('s, 'w, 'r) monitor_service \<Rightarrow> physical_host \<Rightarrow> ('s, 'w, 'r) mon_world \<Rightarrow> ('s, 'w, 'r) mon_world
     \<Rightarrow> 's result" where
  "check_write m p w_read w = Host_Update (ms_repo m) (wl_db w) (checked m w_read p)"

text \<open>
  A maintenance entry that commits while a check of the host is probing is lost. The entry
  succeeds and is audited, then the check saves the row it read before: the host is out of
  maintenance again, no exit was recorded, and the alert suppression does not see the window.
\<close>

theorem check_in_flight_loses_maintenance:
  assumes "gorm_table (ms_repo m) ph_ID rows" "mt_repo mt = ms_repo m" "mt_auditor mt"
    and "rows (wl_db w0) h = Some p" "\<not> InMaintenance p"
    and "EnterMaintenance mt h reason u w0 = (Inr (q, e), w1)"
    and "check_write m p w0 w1 = Inr db2"
  shows "(\<exists>q'. rows (wl_db w1) h = Some q' \<and> InMaintenance q')
    \<and> wl_audit w1 = wl_audit w0 @ [e] \<and> me_Action e = ''maintenance_enter''
    \<and> rows db2 h = Some (checked m w0 p) \<and> \<not> InMaintenance (checked m w0 p)
    \<and> \<not> IsInMaintenance mt db2 h"
proof -
  note loc = physical_hosts.intro [OF assms(1)]
  have k: "ph_ID p = h" by (rule gorm_table.rows_key [OF assms(1,4)])
  from physical_hosts.Enter_ok [OF loc assms(2,6)] assms(3,4)
  have en: "\<exists>q'. rows (wl_db w1) h = Some q' \<and> InMaintenance q'" "wl_audit w1 = wl_audit w0 @ [e]"
    "me_Action e = ''maintenance_enter''"
    by (auto simp: InMaintenance_def)
  from assms(7) have "rows db2 = (rows (wl_db w1))(h \<mapsto> checked m w0 p)"
    using gorm_table.Save_ok [OF assms(1)] k by (auto simp: check_write_def repo_Update_def split: sum.splits)
  moreover have nm: "\<not> InMaintenance (checked m w0 p)" using assms(5) by (simp add: InMaintenance_def)
  moreover from calculation have "\<not> IsInMaintenance mt db2 h"
    using gorm_table.First_found [OF assms(1), of db2 h]
    by (auto simp: IsInMaintenance_def repo_Get_def assms(2) split: sum.splits)
  ultimately show ?thesis using en by simp
qed

theorem check_in_flight_loses_maintenance_witness:
  "\<exists>w1 db2. wl_audit w1 = [\<lparr>me_Action = ''maintenance_enter'', me_HostID = ''h'', me_UserID = ''u'',
       me_Reason = ''r'', me_Duration = 0, me_At = Time 5\<rparr>]
     \<and> check_write down_monitor sample_host (world_of [sample_host] 5) w1 = Inr db2
     \<and> \<not> IsInMaintenance down_maint db2 ''h''"
proof -
  let ?w0 = "world_of [sample_host] 5"
  let ?q = "sample_host\<lparr>ph_State := StateMaintenance, ph_MaintenanceStartedAt := Some (Time 5),
    ph_MaintenanceReason := ''r'', ph_MaintenanceSetBy := ''u''\<rparr>"
  let ?e = "\<lparr>me_Action = ''maintenance_enter'', me_HostID = ''h'', me_UserID = ''u'',
       me_Reason = ''r'', me_Duration = 0, me_At = Time 5\<rparr>"
  let ?w1 = "(world_of [?q] 6)\<lparr>wl_audit := [?e]\<rparr>"
  have en: "EnterMaintenance down_maint ''h'' ''r'' ''u'' ?w0 = (Inr (?q, ?e), ?w1)"
    by (simp add: EnterMaintenance_def save_maintenance_def emit_maintenance_def repo_defs mem_calls
        InMaintenance_def)
  have repo: "ms_repo down_monitor = mem_gorm ph_ID"
    by (simp add: NewMonitorService_def SetPublisher_def)
  have tbl: "gorm_table (ms_repo down_monitor) ph_ID (mem_rows ph_ID)"
    unfolding repo by (rule mem.gorm_table_axioms)
  have wr: "check_write down_monitor sample_host ?w0 ?w1 = Inr [checked down_monitor ?w0 sample_host]"
    unfolding check_write_def repo by (simp add: repo_defs mem_calls)
  have "\<not> IsInMaintenance down_maint [checked down_monitor ?w0 sample_host] ''h''"
    by (rule check_in_flight_loses_maintenance [OF tbl _ _ _ _ en wr, THEN conjunct2, THEN conjunct2,
          THEN conjunct2, THEN conjunct2, THEN conjunct2])
      (simp_all add: repo InMaintenance_def)
  with wr show ?thesis by (intro exI [of _ ?w1] exI conjI) simp_all
qed

subsection \<open>The periodic loop\<close>

record ('s, 'w, 'r) monitor_loop =
  lo_mon :: "('s, 'w, 'r) monitor_service"
  lo_Tick :: duration
  lo_Jitter :: duration
  lo_now :: "'w \<Rightarrow> time \<times> 'w"
  lo_ctxErr :: "'w \<Rightarrow> bool"

record loop_metrics =
  lm_iterations :: nat
  lm_lastTick :: "time option"
  lm_errors :: "string list"

definition NewMonitorLoop ::
    "('s, 'w, 'r) monitor_service \<Rightarrow> ('w \<Rightarrow> time \<times> 'w) \<Rightarrow> ('w \<Rightarrow> bool) \<Rightarrow> duration \<Rightarrow> duration
     \<Rightarrow> ('s, 'w, 'r) monitor_loop" where
  "NewMonitorLoop mon now ctxErr tick jitter =
     \<lparr>lo_mon = mon, lo_Tick = (if tick \<le> 0 then Minute else tick),
      lo_Jitter = (if jitter < 0 then 0 else jitter), lo_now = now, lo_ctxErr = ctxErr\<rparr>"

text \<open>The pass over the hosts: the context is polled before each host, a failed check is counted.\<close>

fun check_hosts ::
    "('s, 'w, 'r) monitor_loop \<Rightarrow> string list \<Rightarrow> ('s, 'w, 'r) mon_world \<times> loop_metrics
     \<Rightarrow> ('s, 'w, 'r) mon_world \<times> loop_metrics" where
  "check_hosts l [] (w, lm) = (w, lm)"
| "check_hosts l (k # ks) (w, lm) =
     (if lo_ctxErr l (wl_env w) then (w, lm)
      else
        (case Check (lo_mon l) k w of
           (None, w') \<Rightarrow> check_hosts l ks (w', lm)
         | (Some err, w') \<Rightarrow> check_hosts l ks (w', lm\<lparr>lm_errors := lm_errors lm @ [k]\<rparr>)))"

definition tick ::
    "('s, 'w, 'r) monitor_loop \<Rightarrow> string list option \<Rightarrow> ('s, 'w, 'r) mon_world \<times> loop_metrics
     \<Rightarrow> ('s, 'w, 'r) mon_world \<times> loop_metrics" where
  "tick l hostIDs x =
     (case x of (w, lm) \<Rightarrow>
        (let lm = lm\<lparr>lm_iterations := Suc (lm_iterations lm)\<rparr>
         in case lo_now l (wl_env w) of
              (t, env) \<Rightarrow>
                (let lm = lm\<lparr>lm_lastTick := Some t\<rparr>; w = w\<lparr>wl_env := env\<rparr>
                 in case hostIDs of
                      Some ids \<Rightarrow> check_hosts l ids (w, lm)
                    | None \<Rightarrow>
                        (case Host_List (ms_repo (lo_mon l)) (wl_db w)
                                \<lparr>lf_State = '''', lf_DeviceID = '''', lf_Limit = 10000, lf_Offset = 0\<rparr> of
                           Inl err \<Rightarrow> (w, lm)
                         | Inr (hosts, _) \<Rightarrow> check_hosts l (map ph_ID hosts) (w, lm)))))"

text \<open>
  \<open>Run\<close> with the outcomes of its select: the ticker fires or the context is done. The result is
  \<open>None\<close> while the loop is still waiting.
\<close>

datatype loop_select = TickerFired | CtxDone

fun run_loop ::
    "('s, 'w, 'r) monitor_loop \<Rightarrow> string list option \<Rightarrow> loop_select list
     \<Rightarrow> ('s, 'w, 'r) mon_world \<times> loop_metrics \<Rightarrow> (('s, 'w, 'r) mon_world \<times> loop_metrics) option" where
  "run_loop l hostIDs [] x = None"
| "run_loop l hostIDs (CtxDone # es) x = Some x"
| "run_loop l hostIDs (TickerFired # es) x = run_loop l hostIDs es (tick l hostIDs x)"

definition Run ::
    "('s, 'w, 'r) monitor_loop \<Rightarrow> string list option \<Rightarrow> loop_select list
     \<Rightarrow> ('s, 'w, 'r) mon_world \<times> loop_metrics \<Rightarrow> (('s, 'w, 'r) mon_world \<times> loop_metrics) option" where
  "Run l hostIDs es x =
     (if lo_ctxErr l (wl_env (fst x)) then Some x else run_loop l hostIDs es (tick l hostIDs x))"

context physical_hosts
begin

lemma Check_other_rows:
  "ms_repo m = g \<Longrightarrow> k \<noteq> h \<Longrightarrow> rows (wl_db (snd (Check m h w))) k = rows (wl_db w) k"
  using Check_rows [of m h w] by auto

lemma check_hosts_other:
  assumes "ms_repo (lo_mon l) = g"
  shows "k \<notin> set ks \<Longrightarrow> rows (wl_db (fst (check_hosts l ks (w, lm)))) k = rows (wl_db w) k"
proof (induction ks arbitrary: w lm)
  case (Cons h ks)
  with Check_other_rows [OF assms, of k h w] show ?case
    by (auto split: prod.splits option.splits)
qed simp

lemma check_hosts_errors:
  "set (lm_errors (snd (check_hosts l ks (w, lm)))) \<subseteq> set (lm_errors lm) \<union> set ks
   \<and> set (lm_errors lm) \<subseteq> set (lm_errors (snd (check_hosts l ks (w, lm))))"
proof (induction ks arbitrary: w lm)
  case (Cons h ks)
  show ?case
    using Cons.IH [of "snd (Check (lo_mon l) h w)" lm]
      Cons.IH [of "snd (Check (lo_mon l) h w)" "lm\<lparr>lm_errors := lm_errors lm @ [h]\<rparr>"]
    by (auto split: prod.splits option.splits)
qed simp

lemma check_hosts_each:
  assumes "ms_repo (lo_mon l) = g" "\<And>env. \<not> lo_ctxErr l env"
  shows "distinct ks \<Longrightarrow> k \<in> set ks \<Longrightarrow> k \<notin> set (lm_errors (snd (check_hosts l ks (w, lm)))) \<Longrightarrow>
    \<exists>w' p. rows (wl_db w) k = Some p
      \<and> rows (wl_db (fst (check_hosts l ks (w, lm)))) k = Some (checked (lo_mon l) w' p)"
proof (induction ks arbitrary: w lm)
  case (Cons h ks)
  obtain e w1 where c: "Check (lo_mon l) h w = (e, w1)" by fastforce
  define lm1 where "lm1 = (if e = None then lm else lm\<lparr>lm_errors := lm_errors lm @ [h]\<rparr>)"
  have u: "check_hosts l (h # ks) (w, lm) = check_hosts l ks (w1, lm1)"
    using c assms(2) by (simp add: lm1_def split: option.splits)
  show ?case
  proof (cases "k = h")
    case False
    with Cons.prems have "k \<in> set ks" "distinct ks" by auto
    from Cons.IH [OF this(2,1), of w1 lm1] Cons.prems(3) Check_other_rows [OF assms(1) False, of w] c u
    show ?thesis by simp
  next
    case True
    have "e = None"
    proof (rule ccontr)
      assume "e \<noteq> None"
      then have "lm1 = lm\<lparr>lm_errors := lm_errors lm @ [h]\<rparr>" by (simp only: lm1_def if_False)
      then have "h \<in> set (lm_errors lm1)" by simp
      with check_hosts_errors [of l ks w1 lm1] Cons.prems(3) u True show False by auto
    qed
    with c have "Check (lo_mon l) h w = (None, w1)" by simp
    from Check_ok [OF assms(1) this] obtain p where
      "rows (wl_db w) h = Some p" "rows (wl_db w1) = (rows (wl_db w))(h \<mapsto> checked (lo_mon l) w p)" by blast
    moreover from Cons.prems True have "h \<notin> set ks" by simp
    ultimately show ?thesis
      using check_hosts_other [OF assms(1), of h ks w1 lm1] u True by auto
  qed
qed simp

end

lemma checked_time: "\<exists>t. ph_LastCheckAt (checked m w p) = Some t
    \<and> ph_NextCheckAt (checked m w p) = Some (time_add t (ms_interval m))"
  by (auto simp: checked_def Let_def)

text \<open>
  The loop is best effort. In a pass over distinct hosts that is not cancelled every host is
  checked: a host whose check failed is counted in the error metric, and every other host's row
  carries the time of its check in this pass and the schedule of the next one, whatever happened
  to the hosts before it.
\<close>

theorem tick_checks_every_host:
  assumes "gorm_table (ms_repo (lo_mon l)) ph_ID rows" "\<And>env. \<not> lo_ctxErr l env"
    and "distinct ids" "k \<in> set ids" "tick l (Some ids) (w, lm) = (w', lm')" "k \<notin> set (lm_errors lm')"
  shows "\<exists>p q t. rows (wl_db w) k = Some p \<and> rows (wl_db w') k = Some q
      \<and> ph_LastCheckAt q = Some t \<and> ph_NextCheckAt q = Some (time_add t (ms_interval (lo_mon l)))"
proof -
  obtain t env where n: "lo_now l (wl_env w) = (t, env)" by fastforce
  let ?w = "w\<lparr>wl_env := env\<rparr>"
  let ?lm = "lm\<lparr>lm_iterations := Suc (lm_iterations lm), lm_lastTick := Some t\<rparr>"
  have e: "check_hosts l ids (?w, ?lm) = (w', lm')" using assms(5) n by (simp add: tick_def Let_def)
  from physical_hosts.check_hosts_each [OF physical_hosts.intro [OF assms(1)] refl assms(2,3,4), of ?w ?lm]
    e assms(6) checked_time
  show ?thesis by fastforce
qed

abbreviation down_loop :: "(physical_host list, nat, unit) monitor_loop" where
  "down_loop \<equiv> NewMonitorLoop down_monitor (\<lambda>n. (Time (int n), Suc n)) (\<lambda>_. False) 0 0"

abbreviation no_metrics :: loop_metrics where
  "no_metrics \<equiv> \<lparr>lm_iterations = 0, lm_lastTick = None, lm_errors = []\<rparr>"

theorem tick_checks_every_host_witness:
  "\<exists>q t. mem_rows ph_ID (wl_db (fst (tick down_loop (Some [''gone'', ''h''])
        (world_of [sample_host] 7, no_metrics)))) ''h'' = Some q \<and> ph_LastCheckAt q = Some t"
proof -
  let ?x = "tick down_loop (Some [''gone'', ''h'']) (world_of [sample_host] 7, no_metrics)"
  have mon: "lo_mon down_loop = down_monitor" "\<And>env. \<not> lo_ctxErr down_loop env"
    by (simp_all add: NewMonitorLoop_def)
  have tbl: "gorm_table (ms_repo (lo_mon down_loop)) ph_ID (mem_rows ph_ID)"
    unfolding mon using mem.gorm_table_axioms [of ph_ID] by (simp add: NewMonitorService_def SetPublisher_def)
  have "lm_errors (snd ?x) = [''gone'']" by code_simp
  then have ne: "''h'' \<notin> set (lm_errors (snd ?x))" by simp
  have x: "tick down_loop (Some [''gone'', ''h'']) (world_of [sample_host] 7, no_metrics) = (fst ?x, snd ?x)"
    by (simp only: prod.collapse)
  from tick_checks_every_host [OF tbl mon(2) _ _ x ne] show ?thesis by auto
qed

end
