(* ===== verification/Pipeline_Strategy.thy ===== *)
theory Pipeline_Strategy
  imports Contracts
begin

text \<open>
  The pipeline's data (\<open>internal/pipeline/models.go\<close>) and the deployment strategies
  (\<open>strategy.go\<close>): blue-green, canary and rolling planners, the dispatcher, and the resolution of a
  pipeline into the steps the executor runs (\<open>resolveSteps\<close> of \<open>service.go\<close>). The locale \<open>planner\<close>
  states what the service relies on: distinct names, because the step-run rows are keyed by name,
  and non-blank commands, because the executor rejects blank ones.
\<close>

subsection \<open>Steps, targets, statuses\<close>

type_synonym step_type = string

abbreviation StepTypeShell :: step_type where "StepTypeShell \<equiv> ''shell''"
abbreviation StepTypeK8sApply :: step_type where "StepTypeK8sApply \<equiv> ''k8s-apply''"
abbreviation StepTypeTerraform :: step_type where "StepTypeTerraform \<equiv> ''terraform''"
abbreviation StepTypeHTTP :: step_type where "StepTypeHTTP \<equiv> ''http''"

definition StepType_Valid :: "step_type \<Rightarrow> bool" where
  "StepType_Valid t \<longleftrightarrow>
     t = StepTypeShell \<or> t = StepTypeK8sApply \<or> t = StepTypeTerraform \<or> t = StepTypeHTTP"

type_synonym target_type = string

abbreviation TargetTypeProject :: target_type where "TargetTypeProject \<equiv> ''project''"
abbreviation TargetTypeDevice :: target_type where "TargetTypeDevice \<equiv> ''device''"
abbreviation TargetTypeCluster :: target_type where "TargetTypeCluster \<equiv> ''cluster''"
abbreviation TargetTypeWebhook :: target_type where "TargetTypeWebhook \<equiv> ''webhook''"

definition TargetType_Valid :: "target_type \<Rightarrow> bool" where
  "TargetType_Valid t \<longleftrightarrow>
     t = TargetTypeProject \<or> t = TargetTypeDevice \<or> t = TargetTypeCluster \<or> t = TargetTypeWebhook"

text \<open>A value of a step's configuration map, as far as the code looks at it.\<close>

datatype config_value = StrVal string | IntVal int | OtherVal

type_synonym step_config = "string \<Rightarrow> config_value option"

record pipeline_step =
  st_Name :: string
  st_Type :: step_type
  st_Config :: step_config

datatype run_status =
    RunStatusPending | RunStatusRunning | RunStatusSucceeded | RunStatusFailed | RunStatusCancelled

fun RunStatus_Terminal :: "run_status \<Rightarrow> bool" where
  "RunStatus_Terminal RunStatusSucceeded = True"
| "RunStatus_Terminal RunStatusFailed = True"
| "RunStatus_Terminal RunStatusCancelled = True"
| "RunStatus_Terminal _ = False"

datatype step_run_status =
    StepRunStatusPending | StepRunStatusRunning | StepRunStatusSucceeded | StepRunStatusFailed
  | StepRunStatusCancelled | StepRunStatusSkipped

fun StepRunStatus_Terminal :: "step_run_status \<Rightarrow> bool" where
  "StepRunStatus_Terminal StepRunStatusSucceeded = True"
| "StepRunStatus_Terminal StepRunStatusFailed = True"
| "StepRunStatus_Terminal StepRunStatusCancelled = True"
| "StepRunStatus_Terminal StepRunStatusSkipped = True"
| "StepRunStatus_Terminal _ = False"

subsection \<open>Strategies\<close>

type_synonym strategy_type = string

abbreviation StrategyBlueGreen :: strategy_type where "StrategyBlueGreen \<equiv> ''blue_green''"
abbreviation StrategyCanary :: strategy_type where "StrategyCanary \<equiv> ''canary''"
abbreviation StrategyRolling :: strategy_type where "StrategyRolling \<equiv> ''rolling''"

definition StrategyType_Valid :: "strategy_type \<Rightarrow> bool" where
  "StrategyType_Valid s \<longleftrightarrow> s = StrategyBlueGreen \<or> s = StrategyCanary \<or> s = StrategyRolling"

record phase =
  pha_Name :: string
  pha_Env :: string
  pha_TrafficPct :: int
  pha_Command :: string
  pha_Healthcheck :: string

record blue_green_config =
  bg_ActiveEnv :: string
  bg_InactiveEnv :: string

record canary_config =
  cn_Baseline :: string
  cn_Candidate :: string
  cn_Stages :: "int list"
  cn_Healthcheck :: string

record rolling_config =
  rl_TotalInstances :: int
  rl_MaxSurgePct :: int

record pipeline =
  pl_ID :: string
  pl_ProjectID :: string
  pl_Name :: string
  pl_Description :: string
  pl_TargetType :: target_type
  pl_TargetID :: string
  pl_ServiceID :: string
  pl_Trigger :: string
  pl_Steps :: "pipeline_step list"
  pl_Enabled :: bool
  pl_Strategy :: strategy_type
  pl_BlueGreenConfig :: blue_green_config
  pl_CanaryConfig :: canary_config
  pl_RollingConfig :: rolling_config

definition BlueGreen_Plan :: "blue_green_config \<Rightarrow> phase list" where
  "BlueGreen_Plan cfg =
     (let inactive = bg_InactiveEnv cfg; active = bg_ActiveEnv cfg
      in [\<lparr>pha_Name = ''deploy-inactive'', pha_Env = inactive, pha_TrafficPct = 0,
            pha_Command = ''deploy.sh '' @ inactive, pha_Healthcheck = ''''\<rparr>,
          \<lparr>pha_Name = ''smoke-inactive'', pha_Env = inactive, pha_TrafficPct = 0,
            pha_Command = ''smoke.sh '' @ inactive, pha_Healthcheck = ''/healthz''\<rparr>,
          \<lparr>pha_Name = ''switch-traffic'', pha_Env = inactive, pha_TrafficPct = 0,
            pha_Command = ''traffic-switch.sh '' @ active @ '' '' @ inactive, pha_Healthcheck = ''''\<rparr>,
          \<lparr>pha_Name = ''decommission'', pha_Env = active, pha_TrafficPct = 0,
            pha_Command = ''teardown.sh '' @ active, pha_Healthcheck = ''''\<rparr>])"

text \<open>The monotonicity check compares neighbours; the error text renders the slice.\<close>

fun not_ascending :: "int list \<Rightarrow> bool" where
  "not_ascending (a # b # xs) = (if b \<le> a then True else not_ascending (b # xs))"
| "not_ascending _ = False"

definition NewCanaryStrategyValidate :: "canary_config \<Rightarrow> canary_config result" where
  "NewCanaryStrategyValidate cfg =
     (if not_ascending (cn_Stages cfg)
      then Inl (Sentinel ''canary stages must be strictly ascending'')
      else if cn_Stages cfg = [] then Inl (Sentinel ''canary stages must not be empty'')
      else Inr cfg)"

definition canary_phase :: "canary_config \<Rightarrow> int \<Rightarrow> phase" where
  "canary_phase cfg pct =
     \<lparr>pha_Name = ''canary-'' @ Itoa pct @ [CHR 0x25], pha_Env = cn_Candidate cfg, pha_TrafficPct = pct,
      pha_Command = ''traffic-shift.sh '' @ Itoa pct @ '' '' @ cn_Candidate cfg,
      pha_Healthcheck = cn_Healthcheck cfg\<rparr>"

definition Canary_Plan :: "canary_config \<Rightarrow> phase list" where
  "Canary_Plan cfg =
     \<lparr>pha_Name = ''deploy-candidate'', pha_Env = cn_Candidate cfg, pha_TrafficPct = 0,
      pha_Command = ''deploy.sh '' @ cn_Candidate cfg, pha_Healthcheck = ''''\<rparr>
     # map (canary_phase cfg) (cn_Stages cfg)"

definition NewRollingStrategy :: "rolling_config \<Rightarrow> rolling_config" where
  "NewRollingStrategy cfg = (if rl_MaxSurgePct cfg \<le> 0 then cfg\<lparr>rl_MaxSurgePct := 20\<rparr> else cfg)"

text \<open>
  The batch size \<open>int(math.Ceil(float64(total) * float64(pct) / 100.0))\<close>. The floating-point
  expression equals the exact ceiling while \<open>total * pct\<close> is below \<open>2 ^ 53\<close>: the product is then
  exact, and a quotient that is not an integer is at least 1/100 away from one, more than the
  rounding error of the division.
\<close>

definition batch_size :: "rolling_config \<Rightarrow> int" where
  "batch_size cfg =
     (let b = - ((- (rl_TotalInstances cfg * rl_MaxSurgePct cfg)) div 100)
      in if b \<le> 0 then 1 else b)"

lemma batch_size_pos: "0 < batch_size cfg"
  by (simp add: batch_size_def Let_def)

definition rolling_phase :: "int \<Rightarrow> int \<Rightarrow> int \<Rightarrow> int \<Rightarrow> phase" where
  "rolling_phase N n a e =
     \<lparr>pha_Name = ''rolling-batch-'' @ Itoa n, pha_Env = ''production'', pha_TrafficPct = 0,
      pha_Command = ''rolling-update.sh '' @ Itoa a @ ''-'' @ Itoa e @ ''/'' @ Itoa N,
      pha_Healthcheck = ''''\<rparr>"

text \<open>The loop; the batch size is positive at every call (\<open>batch_size_pos\<close>).\<close>

function rolling_loop :: "int \<Rightarrow> int \<Rightarrow> int \<Rightarrow> int \<Rightarrow> phase list" where
  "rolling_loop N b complete batchNum =
     (if complete < N \<and> 0 < b then
        (let n = batchNum + 1;
             e = (if N < complete + b then N else complete + b)
         in rolling_phase N n (complete + 1) e # rolling_loop N b e n)
      else [])"
  by pat_completeness auto
termination
  by (relation "measure (\<lambda>(N, b, complete, n). nat (N - complete))") auto

declare rolling_loop.simps [simp del]

definition Rolling_Plan :: "rolling_config \<Rightarrow> phase list" where
  "Rolling_Plan cfg = rolling_loop (rl_TotalInstances cfg) (batch_size cfg) 0 0"

definition PlanForPipeline :: "pipeline option \<Rightarrow> phase list result" where
  "PlanForPipeline p =
     (case p of
        None \<Rightarrow> Inl (Sentinel ''pipeline is nil'')
      | Some p \<Rightarrow>
          if pl_Strategy p = '''' then Inr []
          else if pl_Strategy p = StrategyBlueGreen then Inr (BlueGreen_Plan (pl_BlueGreenConfig p))
          else if pl_Strategy p = StrategyCanary then Inr (Canary_Plan (pl_CanaryConfig p))
          else if pl_Strategy p = StrategyRolling
            then Inr (Rolling_Plan (NewRollingStrategy (pl_RollingConfig p)))
          else Inl (Sentinel (''unknown strategy '' @ Quote (pl_Strategy p))))"

subsection \<open>From phases to steps\<close>

definition phaseToStep :: "phase \<Rightarrow> pipeline_step" where
  "phaseToStep ph =
     \<lparr>st_Name = pha_Name ph, st_Type = StepTypeShell,
      st_Config = [''cmd'' \<mapsto> StrVal (pha_Command ph), ''phase'' \<mapsto> StrVal (pha_Name ph),
        ''traffic'' \<mapsto> IntVal (pha_TrafficPct ph), ''health'' \<mapsto> StrVal (pha_Healthcheck ph)]\<rparr>"

definition resolveSteps :: "pipeline \<Rightarrow> pipeline_step list" where
  "resolveSteps p =
     (case PlanForPipeline (Some p) of
        Inl _ \<Rightarrow> pl_Steps p
      | Inr phases \<Rightarrow> if phases = [] then pl_Steps p else map phaseToStep phases @ pl_Steps p)"

subsection \<open>What the service expects of a planner\<close>

locale planner =
  fixes plan :: "'cfg \<Rightarrow> phase list"
    and ok :: "'cfg \<Rightarrow> bool"
  assumes plan_nonempty: "ok c \<Longrightarrow> plan c \<noteq> []"
    and plan_names: "ok c \<Longrightarrow> distinct (map pha_Name (plan c))"
    and plan_commands: "ph \<in> set (plan c) \<Longrightarrow> TrimSpace (pha_Command ph) \<noteq> ''''"
    and plan_traffic: "ok c \<Longrightarrow> ph \<in> set (plan c) \<Longrightarrow> 0 \<le> pha_TrafficPct ph \<and> pha_TrafficPct ph \<le> 100"
begin

abbreviation plan_steps :: "'cfg \<Rightarrow> pipeline_step list" where
  "plan_steps c \<equiv> map phaseToStep (plan c)"

lemma steps_names: "ok c \<Longrightarrow> distinct (map st_Name (plan_steps c))"
  using plan_names [of c] by (simp add: phaseToStep_def comp_def)

lemma steps_runnable:
  "st \<in> set (plan_steps c) \<Longrightarrow>
   st_Type st = StepTypeShell \<and> (\<exists>cmd. st_Config st ''cmd'' = Some (StrVal cmd) \<and> TrimSpace cmd \<noteq> '''')"
  by (auto simp: phaseToStep_def dest: plan_commands)

end

text \<open>Commands start with the name of a script, so they do not trim to nothing.\<close>

lemma script_nonblank:
  "TrimSpace (''deploy.sh '' @ x) \<noteq> []" "TrimSpace (''smoke.sh '' @ x) \<noteq> []"
  "TrimSpace (''traffic-switch.sh '' @ x) \<noteq> []" "TrimSpace (''teardown.sh '' @ x) \<noteq> []"
  "TrimSpace (''traffic-shift.sh '' @ x) \<noteq> []" "TrimSpace (''rolling-update.sh '' @ x) \<noteq> []"
  by (rule TrimSpace_nonempty, simp add: space_seqs_def, simp)+

lemmas script_nonblank_char = script_nonblank [simplified]

definition blue_green_ok :: "blue_green_config \<Rightarrow> bool" where
  "blue_green_ok cfg \<longleftrightarrow> True"

definition canary_ok :: "canary_config \<Rightarrow> bool" where
  "canary_ok cfg \<longleftrightarrow> (\<exists>c. NewCanaryStrategyValidate cfg = Inr c)
     \<and> (\<forall>p \<in> set (cn_Stages cfg). 0 \<le> p \<and> p \<le> 100)"

definition rolling_ok :: "rolling_config \<Rightarrow> bool" where
  "rolling_ok cfg \<longleftrightarrow> 0 < rl_TotalInstances cfg"

lemma not_ascending_sorted: "\<not> not_ascending xs \<Longrightarrow> sorted_wrt (<) xs"
  by (induction xs rule: not_ascending.induct) (auto split: if_splits intro: order.strict_trans)

lemma validated_stages:
  "NewCanaryStrategyValidate cfg = Inr c \<longleftrightarrow>
     c = cfg \<and> cn_Stages cfg \<noteq> [] \<and> \<not> not_ascending (cn_Stages cfg)"
  by (auto simp: NewCanaryStrategyValidate_def)

interpretation bg: planner BlueGreen_Plan blue_green_ok
  by unfold_locales (auto simp: BlueGreen_Plan_def Let_def script_nonblank_char)

lemma canary_names:
  "distinct xs \<Longrightarrow> distinct (map pha_Name (map (canary_phase cfg) xs))"
  by (simp add: comp_def canary_phase_def distinct_map inj_on_def)

interpretation cn: planner Canary_Plan canary_ok
proof (unfold_locales, goal_cases)
  case 1 then show ?case by (simp add: Canary_Plan_def)
next
  case (2 c)
  then have "distinct (cn_Stages c)"
    using not_ascending_sorted [of "cn_Stages c"]
    by (auto simp: canary_ok_def validated_stages strict_sorted_iff)
  from canary_names [OF this, of c] show ?case
    by (auto simp: Canary_Plan_def canary_phase_def)
next
  case 3 then show ?case
    by (auto simp: Canary_Plan_def canary_phase_def script_nonblank_char)
next
  case 4 then show ?case
    by (auto simp: Canary_Plan_def canary_phase_def canary_ok_def)
qed

subsection \<open>Rolling batches\<close>

text \<open>The inclusive instance ranges of the batches.\<close>

function batch_ranges :: "int \<Rightarrow> int \<Rightarrow> int \<Rightarrow> (int \<times> int) list" where
  "batch_ranges N b complete =
     (if complete < N \<and> 0 < b then
        (let e = (if N < complete + b then N else complete + b)
         in (complete + 1, e) # batch_ranges N b e)
      else [])"
  by pat_completeness auto
termination
  by (relation "measure (\<lambda>(N, b, complete). nat (N - complete))") auto

declare batch_ranges.simps [simp del]

lemma shift_enumerate:
  "map (\<lambda>(i, (a, e)). rolling_phase N (n + 1 + 1 + int i) a e) (List.enumerate k xs) =
   map (\<lambda>(i, (a, e)). rolling_phase N (n + 1 + int i) a e) (List.enumerate (Suc k) xs)"
  by (induction xs arbitrary: k) (simp_all add: add.assoc split: prod.splits)

lemma rolling_loop_ranges:
  "rolling_loop N b complete n =
     map (\<lambda>(i, (a, e)). rolling_phase N (n + 1 + int i) a e)
       (List.enumerate 0 (batch_ranges N b complete))"
proof (induction N b complete n rule: rolling_loop.induct)
  case (1 N b complete n)
  let ?e = "if N < complete + b then N else complete + b"
  show ?case
  proof (cases "complete < N \<and> 0 < b")
    case True
    have "rolling_loop N b ?e (n + 1) = map (\<lambda>(i, (a, e)). rolling_phase N (n + 1 + 1 + int i) a e)
        (List.enumerate 0 (batch_ranges N b ?e))"
      using 1 [OF True refl refl] by simp
    also have "\<dots> = map (\<lambda>(i, (a, e)). rolling_phase N (n + 1 + int i) a e)
        (List.enumerate (Suc 0) (batch_ranges N b ?e))"
      by (rule shift_enumerate)
    finally show ?thesis
      unfolding rolling_loop.simps [of N b complete n] batch_ranges.simps [of N b complete]
      using True by (simp only: simp_thms if_True Let_def enumerate_simps list.map split_def fst_conv snd_conv
          int_ops(1) add_0_right)
  next
    case False
    then show ?thesis by (auto simp: rolling_loop.simps [of N b] batch_ranges.simps [of N b])
  qed
qed

lemma batch_ranges_cover:
  "0 < b \<Longrightarrow> complete \<le> N \<Longrightarrow>
     concat (map (\<lambda>(a, e). [a..e]) (batch_ranges N b complete)) = [complete + 1..N]"
proof (induction N b complete rule: batch_ranges.induct)
  case (1 N b complete)
  show ?case
  proof (cases "complete < N")
    case True
    let ?e = "if N < complete + b then N else complete + b"
    have s: "[complete + 1..?e] @ [?e + 1..N] = [complete + 1..N]"
      using True 1(2) by (intro upto_split2 [symmetric]) auto
    have c: "complete < N \<and> 0 < b" using True 1(2) by simp
    have "concat (map (\<lambda>(a, e). [a..e]) (batch_ranges N b ?e)) = [?e + 1..N]"
      by (rule 1(1) [OF c refl 1(2)]) simp
    with s c show ?thesis
      unfolding batch_ranges.simps [of N b complete]
      by (simp only: simp_thms if_True Let_def list.map concat.simps split_conv)
  next
    case False
    with 1 show ?thesis by (subst batch_ranges.simps) simp
  qed
qed

lemma batch_ranges_size:
  "r \<in> set (batch_ranges N b complete) \<Longrightarrow> fst r \<le> snd r \<and> snd r - fst r < b"
proof (induction N b complete rule: batch_ranges.induct)
  case (1 N b complete)
  then show ?case by (auto simp: batch_ranges.simps [of N b complete] Let_def split: if_splits)
qed

lemma enumerate_distinct_names:
  "distinct (map (\<lambda>(i, (a, e)). pha_Name (rolling_phase N (1 + int i) a e)) (List.enumerate k xs))"
  by (induction xs arbitrary: k)
     (auto simp: rolling_phase_def in_set_enumerate_eq)

interpretation rl: planner "\<lambda>cfg. Rolling_Plan (NewRollingStrategy cfg)" rolling_ok
proof (unfold_locales, goal_cases)
  case (1 c)
  then have "0 < rl_TotalInstances (NewRollingStrategy c)"
    by (simp add: rolling_ok_def NewRollingStrategy_def)
  then show ?case
    by (simp add: Rolling_Plan_def rolling_loop.simps batch_size_pos Let_def)
next
  case (2 c)
  show ?case
    using enumerate_distinct_names by (simp add: Rolling_Plan_def rolling_loop_ranges comp_def case_prod_unfold)
next
  case 3 then show ?case
    by (auto simp: Rolling_Plan_def rolling_loop_ranges rolling_phase_def script_nonblank_char)
next
  case 4 then show ?case
    by (auto simp: Rolling_Plan_def rolling_loop_ranges rolling_phase_def)
qed

subsection \<open>Properties\<close>

definition strategy_ok :: "pipeline \<Rightarrow> bool" where
  "strategy_ok p \<longleftrightarrow>
     pl_Strategy p = StrategyBlueGreen
     \<or> (pl_Strategy p = StrategyCanary \<and> canary_ok (pl_CanaryConfig p))
     \<or> (pl_Strategy p = StrategyRolling \<and> rolling_ok (pl_RollingConfig p))"

text \<open>The ranges in closed form, and the cover for every fleet size.\<close>

lemma batch_ranges_nth:
  "j < length (batch_ranges N b c) \<Longrightarrow> batch_ranges N b c ! j = (c + int j * b + 1, min N (c + (int j + 1) * b))"
proof (induction N b c arbitrary: j rule: batch_ranges.induct)
  case (1 N b c)
  let ?e = "if N < c + b then N else c + b"
  show ?case
  proof (cases "c < N \<and> 0 < b")
    case True
    then have r: "batch_ranges N b c = (c + 1, ?e) # batch_ranges N b ?e"
      by (simp add: batch_ranges.simps [of N b c] Let_def)
    show ?thesis
    proof (cases j)
      case 0 then show ?thesis using r by (auto simp: min_def)
    next
      case (Suc i)
      with 1(2) r have i: "i < length (batch_ranges N b ?e)" by simp
      then have "\<not> N < c + b" by (auto simp: batch_ranges.simps [of N b N])
      with Suc r 1(1) [OF True refl i] show ?thesis by (simp add: algebra_simps)
    qed
  next
    case False
    then have "batch_ranges N b c = []" by (subst batch_ranges.simps) auto
    with 1(2) show ?thesis by simp
  qed
qed

lemma batch_ranges_cover_all: "0 < b \<Longrightarrow> concat (map (\<lambda>(a, e). [a..e]) (batch_ranges N b 0)) = [1..N]"
  using batch_ranges_cover [of b 0 N] by (cases "0 \<le> N") (simp_all add: batch_ranges.simps [of N b 0])

text \<open>The step that carries a phase: a shell step named after it.\<close>

abbreviation phase_step :: "string \<Rightarrow> string \<Rightarrow> int \<Rightarrow> string \<Rightarrow> pipeline_step" where
  "phase_step n cmd pct health \<equiv>
     \<lparr>st_Name = n, st_Type = StepTypeShell,
      st_Config = [''cmd'' \<mapsto> StrVal cmd, ''phase'' \<mapsto> StrVal n, ''traffic'' \<mapsto> IntVal pct, ''health'' \<mapsto> StrVal health]\<rparr>"

lemma resolve_rolling:
  assumes "pl_Strategy p = StrategyRolling"
  shows "resolveSteps p = map (\<lambda>(i, (a, e)). phase_step (''rolling-batch-'' @ Itoa (int i + 1))
      (''rolling-update.sh '' @ Itoa a @ ''-'' @ Itoa e @ ''/'' @ Itoa (rl_TotalInstances (pl_RollingConfig p))) 0 '''')
      (List.enumerate 0 (batch_ranges (rl_TotalInstances (pl_RollingConfig p))
        (batch_size (NewRollingStrategy (pl_RollingConfig p))) 0)) @ pl_Steps p"
  using assms
  by (simp add: resolveSteps_def PlanForPipeline_def Rolling_Plan_def rolling_loop_ranges rolling_phase_def
      phaseToStep_def comp_def case_prod_unfold NewRollingStrategy_def add.commute)

lemma resolved_runnable:
  assumes "strategy_ok p"
  shows "\<exists>front. front \<noteq> [] \<and> resolveSteps p = front @ pl_Steps p \<and> distinct (map st_Name front)
    \<and> (\<forall>st \<in> set front. \<exists>cmd. st_Config st ''cmd'' = Some (StrVal cmd) \<and> TrimSpace cmd \<noteq> '''')"
  using assms unfolding strategy_ok_def
proof (elim disjE conjE)
  assume s: "pl_Strategy p = StrategyBlueGreen"
  let ?ph = "map phaseToStep (BlueGreen_Plan (pl_BlueGreenConfig p))"
  have ok: "blue_green_ok (pl_BlueGreenConfig p)" by (simp add: blue_green_ok_def)
  show ?thesis
    using bg.plan_nonempty [OF ok] bg.steps_names [OF ok] bg.steps_runnable s
    by (intro exI [of _ ?ph]) (auto simp: resolveSteps_def PlanForPipeline_def)
next
  assume s: "pl_Strategy p = StrategyCanary" and ok: "canary_ok (pl_CanaryConfig p)"
  let ?ph = "map phaseToStep (Canary_Plan (pl_CanaryConfig p))"
  show ?thesis
    using cn.plan_nonempty [OF ok] cn.steps_names [OF ok] cn.steps_runnable s
    by (intro exI [of _ ?ph]) (auto simp: resolveSteps_def PlanForPipeline_def)
next
  assume s: "pl_Strategy p = StrategyRolling" and ok: "rolling_ok (pl_RollingConfig p)"
  let ?ph = "map phaseToStep (Rolling_Plan (NewRollingStrategy (pl_RollingConfig p)))"
  show ?thesis
    using rl.plan_nonempty [OF ok] rl.steps_names [OF ok] rl.steps_runnable s
    by (intro exI [of _ ?ph]) (auto simp: resolveSteps_def PlanForPipeline_def)
qed

text \<open>
  C12: the steps a pipeline with a strategy runs, written out. Blue-green deploys to the inactive
  environment, smokes it, switches the traffic from the active to the inactive one and only then tears
  the active one down. Canary deploys the candidate and shifts the traffic through the configured
  percentages in their order. Rolling touches the instances 1 to the size of the fleet once each, in
  ascending batches of the ceiling of the surge percentage of the fleet (20 when none is set, at least
  one instance). The pipeline's own steps follow. Any other strategy runs the pipeline's own steps
  only. When the configuration is valid there is at least one step before the pipeline's own, these
  steps have pairwise distinct names, and each carries a command that is not blank.
\<close>

theorem resolved_strategy_steps:
  shows "(pl_Strategy p = ''blue_green'' \<longrightarrow>
      (let active = bg_ActiveEnv (pl_BlueGreenConfig p); inactive = bg_InactiveEnv (pl_BlueGreenConfig p)
       in resolveSteps p =
         [phase_step ''deploy-inactive'' (''deploy.sh '' @ inactive) 0 '''',
          phase_step ''smoke-inactive'' (''smoke.sh '' @ inactive) 0 ''/healthz'',
          phase_step ''switch-traffic'' (''traffic-switch.sh '' @ active @ '' '' @ inactive) 0 '''',
          phase_step ''decommission'' (''teardown.sh '' @ active) 0 ''''] @ pl_Steps p))
    \<and> (pl_Strategy p = ''canary'' \<longrightarrow>
      (let cfg = pl_CanaryConfig p
       in resolveSteps p =
         phase_step ''deploy-candidate'' (''deploy.sh '' @ cn_Candidate cfg) 0 ''''
         # map (\<lambda>pct. phase_step (''canary-'' @ Itoa pct @ [CHR 0x25])
               (''traffic-shift.sh '' @ Itoa pct @ '' '' @ cn_Candidate cfg) pct (cn_Healthcheck cfg)) (cn_Stages cfg)
         @ pl_Steps p))
    \<and> (pl_Strategy p = ''rolling'' \<longrightarrow>
      (let N = rl_TotalInstances (pl_RollingConfig p);
           surge = (if rl_MaxSurgePct (pl_RollingConfig p) \<le> 0 then 20 else rl_MaxSurgePct (pl_RollingConfig p));
           b = max 1 (- ((- (N * surge)) div 100))
       in \<exists>ranges. resolveSteps p = map (\<lambda>(i, (a, e)). phase_step (''rolling-batch-'' @ Itoa (int i + 1))
               (''rolling-update.sh '' @ Itoa a @ ''-'' @ Itoa e @ ''/'' @ Itoa N) 0 '''') (List.enumerate 0 ranges)
             @ pl_Steps p
         \<and> concat (map (\<lambda>(a, e). [a..e]) ranges) = [1..N]
         \<and> (\<forall>j < length ranges. ranges ! j = (int j * b + 1, min N ((int j + 1) * b)))))
    \<and> (pl_Strategy p \<notin> {''blue_green'', ''canary'', ''rolling''} \<longrightarrow> resolveSteps p = pl_Steps p)
    \<and> (strategy_ok p \<longrightarrow> (\<exists>front. front \<noteq> [] \<and> resolveSteps p = front @ pl_Steps p
      \<and> distinct (map st_Name front)
      \<and> (\<forall>st \<in> set front. \<exists>cmd. st_Config st ''cmd'' = Some (StrVal cmd) \<and> TrimSpace cmd \<noteq> '''')))"
proof (intro conjI impI)
  assume "pl_Strategy p = ''rolling''"
  note r = resolve_rolling [OF this]
  let ?c = "pl_RollingConfig p"
  let ?N = "rl_TotalInstances ?c" and ?b = "batch_size (NewRollingStrategy ?c)"
  have b: "?b = max 1 (- ((- (?N * (if rl_MaxSurgePct ?c \<le> 0 then 20 else rl_MaxSurgePct ?c))) div 100))"
    by (simp add: batch_size_def NewRollingStrategy_def Let_def max_def)
  show "let N = ?N; surge = (if rl_MaxSurgePct ?c \<le> 0 then 20 else rl_MaxSurgePct ?c);
           b = max 1 (- ((- (N * surge)) div 100))
       in \<exists>ranges. resolveSteps p = map (\<lambda>(i, (a, e)). phase_step (''rolling-batch-'' @ Itoa (int i + 1))
               (''rolling-update.sh '' @ Itoa a @ ''-'' @ Itoa e @ ''/'' @ Itoa N) 0 '''') (List.enumerate 0 ranges)
             @ pl_Steps p
         \<and> concat (map (\<lambda>(a, e). [a..e]) ranges) = [1..N]
         \<and> (\<forall>j < length ranges. ranges ! j = (int j * b + 1, min N ((int j + 1) * b)))"
    unfolding Let_def b [symmetric]
    using r batch_ranges_cover_all [of ?b ?N, OF batch_size_pos] batch_ranges_nth [of _ ?N ?b 0]
    by (intro exI [of _ "batch_ranges ?N ?b 0"]) simp
qed (erule resolved_runnable
    | simp add: resolveSteps_def PlanForPipeline_def BlueGreen_Plan_def Canary_Plan_def canary_phase_def
      phaseToStep_def comp_def Let_def)+

abbreviation canary_pipeline :: pipeline where
  "canary_pipeline \<equiv> \<lparr>pl_ID = ''p'', pl_ProjectID = ''a'', pl_Name = ''n'', pl_Description = '''',
     pl_TargetType = ''project'', pl_TargetID = '''', pl_ServiceID = '''', pl_Trigger = ''manual'',
     pl_Steps = [], pl_Enabled = True, pl_Strategy = ''canary'',
     pl_BlueGreenConfig = \<lparr>bg_ActiveEnv = '''', bg_InactiveEnv = ''''\<rparr>,
     pl_CanaryConfig = \<lparr>cn_Baseline = ''v1'', cn_Candidate = ''v2'', cn_Stages = [5, 50, 100],
       cn_Healthcheck = ''''\<rparr>,
     pl_RollingConfig = \<lparr>rl_TotalInstances = 0, rl_MaxSurgePct = 0\<rparr>\<rparr>"

theorem resolved_strategy_steps_witness:
  "map st_Name (resolveSteps canary_pipeline) = [''deploy-candidate'', ''canary-5%'', ''canary-50%'', ''canary-100%'']
   \<and> distinct (map st_Name (resolveSteps canary_pipeline))"
proof -
  have ok: "strategy_ok canary_pipeline"
    by (simp add: strategy_ok_def canary_ok_def validated_stages)
  note steps = resolved_strategy_steps [of canary_pipeline]
  have "map st_Name (resolveSteps canary_pipeline)
      = ''deploy-candidate'' # map (\<lambda>pct. ''canary-'' @ Itoa pct @ [CHR 0x25]) [5, 50, 100]"
    using steps [THEN conjunct2, THEN conjunct1] by (simp add: Let_def comp_def)
  moreover have "Itoa 5 = ''5''" "Itoa 50 = ''50''" "Itoa 100 = ''100''" by code_simp+
  ultimately show ?thesis by simp
qed

text \<open>
  A rolling update touches every instance of the fleet exactly once, in ascending order: the
  instance ranges of the batches, as the rendered commands carry them, concatenate to 1 up to the
  fleet size, and no batch is empty or larger than the batch size.
\<close>

theorem rolling_plan_partitions_fleet:
  assumes "0 \<le> rl_TotalInstances cfg"
  shows "\<exists>ranges.
      map pha_Command (Rolling_Plan cfg) =
        map (\<lambda>(a, e). ''rolling-update.sh '' @ Itoa a @ ''-'' @ Itoa e @ ''/'' @ Itoa (rl_TotalInstances cfg)) ranges
    \<and> concat (map (\<lambda>(a, e). [a..e]) ranges) = [1..rl_TotalInstances cfg]
    \<and> (\<forall>r \<in> set ranges. fst r \<le> snd r \<and> snd r - fst r < batch_size cfg)"
proof -
  let ?N = "rl_TotalInstances cfg"
  let ?rs = "batch_ranges ?N (batch_size cfg) 0"
  have cmd: "map pha_Command (map (\<lambda>(i, (a, e)). rolling_phase ?N (n + int i) a e) (List.enumerate k rs)) =
      map (\<lambda>(a, e). ''rolling-update.sh '' @ Itoa a @ ''-'' @ Itoa e @ ''/'' @ Itoa ?N) rs" for n k rs
    by (induction rs arbitrary: k) (auto simp: rolling_phase_def)
  have "map pha_Command (Rolling_Plan cfg) =
      map (\<lambda>(a, e). ''rolling-update.sh '' @ Itoa a @ ''-'' @ Itoa e @ ''/'' @ Itoa ?N) ?rs"
    unfolding Rolling_Plan_def rolling_loop_ranges by (rule cmd)
  moreover have "concat (map (\<lambda>(a, e). [a..e]) ?rs) = [1..?N]"
    using batch_ranges_cover [OF batch_size_pos assms] by simp
  ultimately show ?thesis using batch_ranges_size by blast
qed

theorem rolling_plan_partitions_fleet_witness:
  "\<exists>ranges. concat (map (\<lambda>(a, e). [a..e]) ranges) = [1..5::int]
     \<and> map pha_Command (Rolling_Plan \<lparr>rl_TotalInstances = 5, rl_MaxSurgePct = 40\<rparr>)
         = map (\<lambda>(a, e). ''rolling-update.sh '' @ Itoa a @ ''-'' @ Itoa e @ ''/'' @ Itoa 5) ranges"
proof -
  let ?cfg = "\<lparr>rl_TotalInstances = 5, rl_MaxSurgePct = 40\<rparr>"
  have n: "0 \<le> rl_TotalInstances ?cfg" by simp
  from rolling_plan_partitions_fleet [OF n] show ?thesis
    unfolding rolling_config.select_convs by blast
qed

text \<open>
  Validation of a canary configuration is exact: it accepts exactly the non-empty, strictly
  ascending stage lists, and the plan of an accepted configuration deploys the candidate first and
  then shifts traffic through the stages in ascending order.
\<close>

theorem canary_validation_exact:
  "((\<exists>c. NewCanaryStrategyValidate cfg = Inr c) \<longleftrightarrow>
      cn_Stages cfg \<noteq> [] \<and> sorted_wrt (<) (cn_Stages cfg))
   \<and> map pha_TrafficPct (Canary_Plan cfg) = 0 # cn_Stages cfg
   \<and> pha_Name (hd (Canary_Plan cfg)) = ''deploy-candidate''"
proof -
  have "sorted_wrt (<) xs \<Longrightarrow> \<not> not_ascending xs" for xs
    by (induction xs rule: not_ascending.induct) auto
  with not_ascending_sorted [of "cn_Stages cfg"] show ?thesis
    by (auto simp: validated_stages Canary_Plan_def canary_phase_def comp_def)
qed

end
