(* ===== verification/Pipeline_Executor.thy ===== *)
theory Pipeline_Executor
  imports Pipeline_Strategy
begin

text \<open>
  The step executors (\<open>internal/pipeline/executor.go\<close>): the step events, the scripted \<open>Fake\<close> and the
  \<open>Local\<close> shell executor, both as functions of an emitter callback and an environment. The locale
  \<open>step_executor\<close> states the contract between an executor and the run service as the shape of the
  emitted trace; both executors are shown to keep it.
\<close>

subsection \<open>Events and environments\<close>

record step_event =
  se_StepName :: string
  se_Status :: step_run_status
  se_Output :: string
  se_ExitCode :: int

abbreviation mk_event :: "string \<Rightarrow> step_run_status \<Rightarrow> string \<Rightarrow> int \<Rightarrow> step_event" where
  "mk_event n s out code \<equiv> \<lparr>se_StepName = n, se_Status = s, se_Output = out, se_ExitCode = code\<rparr>"

type_synonym 'w step_emitter = "step_event \<Rightarrow> 'w \<Rightarrow> go_error option \<times> 'w"

text \<open>
  What the executors read of the outside: the context's error once it is done, the outcome of
  \<open>cmd.Run\<close> (a process that exited with a non-zero code or was killed, or any other error), and the
  selects of the scripted executor, \<open>Some\<close> when the context was done first.
\<close>

datatype cmd_error = ExitError int | RunError go_error

record 'w exec_env =
  ex_ctxErr :: "'w \<Rightarrow> go_error option"
  ex_run :: "string \<Rightarrow> string \<Rightarrow> 'w \<Rightarrow> (string \<times> cmd_error option) \<times> 'w"
  ex_block :: "'w \<Rightarrow> go_error option \<times> 'w"
  ex_delay :: "'w \<Rightarrow> go_error option \<times> 'w"

definition is_ctx_error :: "go_error \<Rightarrow> bool" where
  "is_ctx_error e \<longleftrightarrow> errors_Is e DeadlineExceeded \<or> errors_Is e Canceled"

fun skip_rest :: "'w step_emitter \<Rightarrow> pipeline_step list \<Rightarrow> 'w \<Rightarrow> 'w" where
  "skip_rest emit [] w = w"
| "skip_rest emit (st # sts) w =
     skip_rest emit sts (snd (emit (mk_event (st_Name st) StepRunStatusSkipped '''' 0) w))"

subsection \<open>The local executor\<close>

record local_exec =
  lx_MaxOutputBytes :: int
  lx_ShellPath :: string

abbreviation defaultMaxOutputBytes :: int where "defaultMaxOutputBytes \<equiv> 1048576"

definition NewLocal :: "(local_exec \<Rightarrow> local_exec) list \<Rightarrow> local_exec" where
  "NewLocal opts = fold (\<lambda>opt l. opt l) opts
     \<lparr>lx_MaxOutputBytes = defaultMaxOutputBytes, lx_ShellPath = ''/bin/sh''\<rparr>"

definition WithMaxOutputBytes :: "int \<Rightarrow> local_exec \<Rightarrow> local_exec" where
  "WithMaxOutputBytes n l = l\<lparr>lx_MaxOutputBytes := n\<rparr>"

definition WithShellPath :: "string \<Rightarrow> local_exec \<Rightarrow> local_exec" where
  "WithShellPath p l = l\<lparr>lx_ShellPath := p\<rparr>"

definition truncate_output :: "string \<Rightarrow> int \<Rightarrow> string" where
  "truncate_output s cap = (if cap \<le> 0 \<or> int (length s) \<le> cap then s else take (nat cap) s)"

text \<open>The type assertion on \<open>Config["cmd"]\<close> gives the empty string for anything but a string.\<close>

definition step_cmd :: "pipeline_step \<Rightarrow> string" where
  "step_cmd st = (case st_Config st ''cmd'' of Some (StrVal s) \<Rightarrow> s | _ \<Rightarrow> '''')"

definition cmd_go_error :: "cmd_error \<Rightarrow> go_error" where
  "cmd_go_error e = (case e of ExitError c \<Rightarrow> External (''exit status '' @ Itoa c) | RunError err \<Rightarrow> err)"

definition runShell ::
    "local_exec \<Rightarrow> 'w exec_env \<Rightarrow> pipeline_step \<Rightarrow> 'w \<Rightarrow> (string \<times> int \<times> go_error option) \<times> 'w" where
  "runShell l env step w =
     (if TrimSpace (step_cmd step) = '''' then
        ((''step config is missing '' @ [CHR 0x27] @ ''cmd'' @ [CHR 0x27], - 1,
          Some (Sentinel (''pipeline: shell step is missing '' @ [CHR 0x27] @ ''cmd'' @ [CHR 0x27]))), w)
      else
        (case ex_run env (lx_ShellPath l) (step_cmd step) w of
           ((out, err), w') \<Rightarrow>
             ((out, (case err of None \<Rightarrow> 0 | Some (ExitError c) \<Rightarrow> c | Some (RunError _) \<Rightarrow> - 1),
               map_option cmd_go_error err), w')))"

fun Local_Execute ::
    "local_exec \<Rightarrow> 'w exec_env \<Rightarrow> 'w step_emitter \<Rightarrow> pipeline_step list \<Rightarrow> 'w
     \<Rightarrow> go_error option \<times> 'w" where
  "Local_Execute l env emit [] w = (None, w)"
| "Local_Execute l env emit (step # rest) w =
     (let n = st_Name step
      in case ex_ctxErr env w of
           Some e \<Rightarrow> (Some e, snd (emit (mk_event n StepRunStatusCancelled '''' 0) w))
         | None \<Rightarrow>
             (case emit (mk_event n StepRunStatusRunning '''' 0) w of
                (Some e, w) \<Rightarrow> (Some e, w)
              | (None, w) \<Rightarrow>
                  if st_Type step = StepTypeShell then
                    (case runShell l env step w of
                       ((output, exitCode, err), w) \<Rightarrow>
                         (case err of
                            Some e \<Rightarrow>
                              if \<not> is_ctx_error e then
                                (Some (Wrapped (''pipeline: step '' @ Quote n @ '' failed: '') e),
                                 skip_rest emit rest
                                   (snd (emit (mk_event n StepRunStatusFailed
                                           (truncate_output output (lx_MaxOutputBytes l)) exitCode) w)))
                              else (Some e, snd (emit (mk_event n StepRunStatusCancelled '''' 0) w))
                          | None \<Rightarrow>
                              if exitCode \<noteq> 0 then
                                (Some (Sentinel (''pipeline: step '' @ Quote n @ '' exited '' @ Itoa exitCode)),
                                 skip_rest emit rest
                                   (snd (emit (mk_event n StepRunStatusFailed
                                           (truncate_output output (lx_MaxOutputBytes l)) exitCode) w)))
                              else
                                Local_Execute l env emit rest
                                  (snd (emit (mk_event n StepRunStatusSucceeded
                                          (truncate_output output (lx_MaxOutputBytes l)) 0) w))))
                  else
                    (Some (Sentinel (''pipeline: step '' @ Quote n @ '': type '' @ Quote (st_Type step)
                             @ '' not implemented'')),
                     skip_rest emit rest
                       (snd (emit (mk_event n StepRunStatusFailed
                               (''step type '' @ Quote (st_Type step) @ '' is not implemented in v1'') (- 1)) w)))))"

subsection \<open>The scripted executor\<close>

record fake_exec =
  fx_FailStep :: string
  fx_DelayPerStep :: duration
  fx_Block :: bool
  fx_events :: "step_event list"
  fx_canceled :: bool

abbreviation fx_log :: "fake_exec \<Rightarrow> (string \<times> step_run_status) list \<Rightarrow> fake_exec" where
  "fx_log f evs \<equiv> f\<lparr>fx_events := fx_events f @ map (\<lambda>(n, s). mk_event n s '''' 0) evs\<rparr>"

fun Fake_skip ::
    "'w step_emitter \<Rightarrow> pipeline_step list \<Rightarrow> fake_exec \<Rightarrow> 'w \<Rightarrow> go_error option \<times> fake_exec \<times> 'w" where
  "Fake_skip emit [] f w = (None, f, w)"
| "Fake_skip emit (st # sts) f w =
     (case emit (mk_event (st_Name st) StepRunStatusSkipped '''' 0) w of
        (Some e, w) \<Rightarrow> (Some e, f, w)
      | (None, w) \<Rightarrow> Fake_skip emit sts (fx_log f [(st_Name st, StepRunStatusSkipped)]) w)"

fun Fake_steps ::
    "'w exec_env \<Rightarrow> 'w step_emitter \<Rightarrow> pipeline_step list \<Rightarrow> fake_exec \<Rightarrow> 'w
     \<Rightarrow> go_error option \<times> fake_exec \<times> 'w" where
  "Fake_steps env emit [] f w = (None, f, w)"
| "Fake_steps env emit (step # rest) f w =
     (let n = st_Name step
      in case (if 0 < fx_DelayPerStep f then ex_delay env w else (None, w)) of
           (Some e, w) \<Rightarrow> (Some e, f, w)
         | (None, w) \<Rightarrow>
             (case ex_ctxErr env w of
                Some e \<Rightarrow>
                  (Some e, f\<lparr>fx_canceled := True\<rparr>, snd (emit (mk_event n StepRunStatusCancelled '''' 0) w))
              | None \<Rightarrow>
                  (case emit (mk_event n StepRunStatusRunning '''' 0) w of
                     (Some e, w) \<Rightarrow> (Some e, f, w)
                   | (None, w) \<Rightarrow>
                       if fx_FailStep f \<noteq> '''' \<and> n = fx_FailStep f then
                         (case emit (mk_event n StepRunStatusFailed ''simulated failure'' 1) w of
                            (Some e, w) \<Rightarrow> (Some e, f, w)
                          | (None, w) \<Rightarrow>
                              (case Fake_skip emit rest
                                      (fx_log f [(n, StepRunStatusRunning), (n, StepRunStatusFailed)]) w of
                                 (Some e, f, w) \<Rightarrow> (Some e, f, w)
                               | (None, f, w) \<Rightarrow>
                                   (Some (Sentinel (''pipeline: step '' @ Quote n @ '' failed'')), f, w)))
                       else
                         (case emit (mk_event n StepRunStatusSucceeded ''ok'' 0) w of
                            (Some e, w) \<Rightarrow> (Some e, f, w)
                          | (None, w) \<Rightarrow>
                              Fake_steps env emit rest
                                (fx_log f [(n, StepRunStatusRunning), (n, StepRunStatusSucceeded)]) w))))"

definition Fake_Execute ::
    "'w exec_env \<Rightarrow> 'w step_emitter \<Rightarrow> pipeline_step list \<Rightarrow> fake_exec \<Rightarrow> 'w
     \<Rightarrow> go_error option \<times> fake_exec \<times> 'w" where
  "Fake_Execute env emit steps f w =
     (if steps = [] then (None, f, w)
      else
        (case (if fx_Block f then ex_block env w else (None, w)) of
           (Some e, w) \<Rightarrow> (Some e, f\<lparr>fx_canceled := True\<rparr>, w)
         | (None, w) \<Rightarrow> Fake_steps env emit steps f w))"

subsection \<open>The contract: the shape of a trace\<close>

text \<open>
  The transitions an executor may report for the step names \<open>ns\<close> when no emit fails, with the error
  it returns: all succeed; or one step fails, everything before it succeeded and everything after
  it is skipped, with an error that is not a context error; or the context was done at some step.
\<close>

inductive valid_trace ::
    "string list \<Rightarrow> (string \<times> step_run_status) list \<Rightarrow> go_error option \<Rightarrow> bool" where
  complete: "valid_trace [] [] None"
| succeed: "valid_trace ns tr err \<Longrightarrow>
    valid_trace (n # ns) ((n, StepRunStatusRunning) # (n, StepRunStatusSucceeded) # tr) err"
| failed: "\<not> is_ctx_error e \<Longrightarrow>
    valid_trace (n # ns)
      ((n, StepRunStatusRunning) # (n, StepRunStatusFailed) # map (\<lambda>m. (m, StepRunStatusSkipped)) ns)
      (Some e)"
| cancel_running: "is_ctx_error e \<Longrightarrow>
    valid_trace (n # ns) [(n, StepRunStatusRunning), (n, StepRunStatusCancelled)] (Some e)"
| cancel_before: "is_ctx_error e \<Longrightarrow> valid_trace (n # ns) [(n, StepRunStatusCancelled)] (Some e)"
| cancel_silent: "is_ctx_error e \<Longrightarrow> valid_trace (n # ns) [] (Some e)"

inductive_cases valid_trace_NoneE: "valid_trace ns tr None"
inductive_cases valid_trace_SomeE: "valid_trace ns tr (Some e)"
inductive_simps valid_trace_Nil: "valid_trace [] tr err"

definition transitions :: "step_event list \<Rightarrow> (string \<times> step_run_status) list" where
  "transitions evs = map (\<lambda>ev. (se_StepName ev, se_Status ev)) evs"

lemma transitions_simps [simp]:
  "transitions [] = []" "transitions (ev # evs) = (se_StepName ev, se_Status ev) # transitions evs"
  "transitions (xs @ ys) = transitions xs @ transitions ys"
  by (simp_all add: transitions_def)

definition all_succeed :: "string list \<Rightarrow> (string \<times> step_run_status) list" where
  "all_succeed ns = concat (map (\<lambda>n. [(n, StepRunStatusRunning), (n, StepRunStatusSucceeded)]) ns)"

lemma all_succeed_simps [simp]:
  "all_succeed [] = []"
  "all_succeed (n # ns) = (n, StepRunStatusRunning) # (n, StepRunStatusSucceeded) # all_succeed ns"
  by (simp_all add: all_succeed_def)

locale step_executor =
  fixes exec :: "pipeline_step list \<Rightarrow> 'e \<Rightarrow> go_error option \<times> step_event list"
    and ok_env :: "'e \<Rightarrow> bool"
  assumes trace: "ok_env e \<Longrightarrow> exec steps e = (err, evs) \<Longrightarrow>
      valid_trace (map st_Name steps) (transitions evs) err"
begin

text \<open>A nil error means that every step ran and succeeded, in order.\<close>

lemma success_all:
  assumes "ok_env e" "exec steps e = (None, evs)"
  shows "transitions evs = all_succeed (map st_Name steps)"
proof -
  have "valid_trace ns tr err \<Longrightarrow> err = None \<Longrightarrow> tr = all_succeed ns" for ns tr err
    by (induction rule: valid_trace.induct) simp_all
  from this [OF trace [OF assms] refl] show ?thesis .
qed

text \<open>An error splits the steps: a succeeded prefix, the step that stopped the run, the rest.\<close>

lemma error_split:
  assumes "ok_env e" "exec steps e = (Some err, evs)"
  shows "\<exists>pre n post tail. map st_Name steps = pre @ n # post
    \<and> transitions evs = all_succeed pre @ tail
    \<and> (\<not> is_ctx_error err \<and>
         tail = (n, StepRunStatusRunning) # (n, StepRunStatusFailed) # map (\<lambda>m. (m, StepRunStatusSkipped)) post
       \<or> is_ctx_error err \<and>
         (tail = [(n, StepRunStatusRunning), (n, StepRunStatusCancelled)]
          \<or> tail = [(n, StepRunStatusCancelled)] \<or> tail = []))"
proof -
  have "valid_trace ns tr r \<Longrightarrow> r = Some err \<Longrightarrow> \<exists>pre n post tail. ns = pre @ n # post
    \<and> tr = all_succeed pre @ tail
    \<and> (\<not> is_ctx_error err \<and>
         tail = (n, StepRunStatusRunning) # (n, StepRunStatusFailed) # map (\<lambda>m. (m, StepRunStatusSkipped)) post
       \<or> is_ctx_error err \<and>
         (tail = [(n, StepRunStatusRunning), (n, StepRunStatusCancelled)]
          \<or> tail = [(n, StepRunStatusCancelled)] \<or> tail = []))" for ns tr r
  proof (induction rule: valid_trace.induct)
    case (succeed ns tr r n)
    then obtain pre m post tail where s: "ns = pre @ m # post" "tr = all_succeed pre @ tail"
      "\<not> is_ctx_error err \<and>
         tail = (m, StepRunStatusRunning) # (m, StepRunStatusFailed) # map (\<lambda>m. (m, StepRunStatusSkipped)) post
       \<or> is_ctx_error err \<and>
         (tail = [(m, StepRunStatusRunning), (m, StepRunStatusCancelled)]
          \<or> tail = [(m, StepRunStatusCancelled)] \<or> tail = [])" by blast
    then show ?case by (intro exI [of _ "n # pre"] exI [of _ m] exI [of _ post] exI [of _ tail]) simp
  next
    case (failed x n ns)
    then have "x = err" "\<not> is_ctx_error err" by simp_all
    then show ?case
      by (intro exI [of _ "[]"] exI [of _ n] exI [of _ ns]
          exI [of _ "(n, StepRunStatusRunning) # (n, StepRunStatusFailed) # map (\<lambda>m. (m, StepRunStatusSkipped)) ns"])
        simp
  next
    case (cancel_running x n ns)
    then have "x = err" "is_ctx_error err" by simp_all
    then show ?case
      by (intro exI [of _ "[]"] exI [of _ n] exI [of _ ns] exI [of _ "[(n, StepRunStatusRunning), (n, StepRunStatusCancelled)]"]) simp
  next
    case (cancel_before x n ns)
    then have "x = err" "is_ctx_error err" by simp_all
    then show ?case
      by (intro exI [of _ "[]"] exI [of _ n] exI [of _ ns] exI [of _ "[(n, StepRunStatusCancelled)]"]) simp
  next
    case (cancel_silent x n ns)
    then have "x = err" "is_ctx_error err" by simp_all
    then show ?case
      by (intro exI [of _ "[]"] exI [of _ n] exI [of _ ns] exI [of _ "[] :: (string \<times> step_run_status) list"]) simp
  qed simp
  from this [OF trace [OF assms] refl] show ?thesis .
qed

lemma trace_length: "ok_env e \<Longrightarrow> exec steps e = (err, evs) \<Longrightarrow> length evs \<le> 2 * length steps"
proof -
  have "valid_trace ns tr r \<Longrightarrow> length tr \<le> 2 * length ns" for ns tr r
    by (induction rule: valid_trace.induct) simp_all
  then show "ok_env e \<Longrightarrow> exec steps e = (err, evs) \<Longrightarrow> length evs \<le> 2 * length steps"
    using trace by (metis length_map transitions_def)
qed

end

subsection \<open>The two executors keep the contract\<close>

text \<open>The recording emitter never fails; the environment does not see the log.\<close>

definition record_emit :: "('e \<times> step_event list) step_emitter" where
  "record_emit ev s = (None, (fst s, snd s @ [ev]))"

definition lift_env :: "'e exec_env \<Rightarrow> ('e \<times> step_event list) exec_env" where
  "lift_env env =
     \<lparr>ex_ctxErr = (\<lambda>s. ex_ctxErr env (fst s)),
      ex_run = (\<lambda>sh cmd s. case ex_run env sh cmd (fst s) of (r, e) \<Rightarrow> (r, (e, snd s))),
      ex_block = (\<lambda>s. case ex_block env (fst s) of (r, e) \<Rightarrow> (r, (e, snd s))),
      ex_delay = (\<lambda>s. case ex_delay env (fst s) of (r, e) \<Rightarrow> (r, (e, snd s)))\<rparr>"

text \<open>The errors of a done context are the two of package \<open>context\<close>.\<close>

definition ctx_env :: "'e exec_env \<Rightarrow> bool" where
  "ctx_env env \<longleftrightarrow>
     (\<forall>w e. ex_ctxErr env w = Some e \<longrightarrow> is_ctx_error e) \<and>
     (\<forall>w e w'. ex_block env w = (Some e, w') \<longrightarrow> is_ctx_error e) \<and>
     (\<forall>w e w'. ex_delay env w = (Some e, w') \<longrightarrow> is_ctx_error e)"

lemma is_ctx_error_simps [simp]:
  "\<not> is_ctx_error (Sentinel (''pipeline: '' @ x))" "is_ctx_error Canceled" "is_ctx_error DeadlineExceeded"
  by (simp_all add: is_ctx_error_def)

lemma is_ctx_error_Wrapped [simp]: "is_ctx_error (Wrapped p e) = is_ctx_error e"
  by (simp add: is_ctx_error_def)

lemma record_emit_simps [simp]: "record_emit ev (e, tr) = (None, (e, tr @ [ev]))"
  by (simp add: record_emit_def)

lemma skip_rest_record [simp]:
  "skip_rest record_emit sts (e, tr) =
     (e, tr @ map (\<lambda>st. mk_event (st_Name st) StepRunStatusSkipped '''' 0) sts)"
  by (induction sts arbitrary: tr) simp_all

lemma transitions_skipped [simp]:
  "transitions (map (\<lambda>st. mk_event (st_Name st) StepRunStatusSkipped '''' 0) sts) =
     map (\<lambda>m. (m, StepRunStatusSkipped)) (map st_Name sts)"
  by (simp add: transitions_def)

lemma runShell_lift:
  "runShell l (lift_env env) st (e, tr) = (case runShell l env st e of (r, e') \<Rightarrow> (r, (e', tr)))"
  by (simp add: runShell_def lift_env_def split: prod.splits)

lemma not_ctx_messages [simp]:
  "\<not> is_ctx_error (Sentinel (CHR ''p'' # CHR ''i'' # x))"
  by (simp add: is_ctx_error_def)

lemma failed_at:
  "\<not> is_ctx_error e \<Longrightarrow>
   valid_trace (n # map st_Name rest)
     ((n, StepRunStatusRunning) # (n, StepRunStatusFailed)
       # map ((\<lambda>m. (m, StepRunStatusSkipped)) \<circ> st_Name) rest) (Some e)"
  using valid_trace.failed [of e n "map st_Name rest"] by simp


definition Local_run ::
    "local_exec \<Rightarrow> 'e exec_env \<Rightarrow> pipeline_step list \<Rightarrow> 'e \<Rightarrow> go_error option \<times> step_event list" where
  "Local_run l env steps e =
     (case Local_Execute l (lift_env env) record_emit steps (e, []) of (err, s) \<Rightarrow> (err, snd s))"


lemma Fake_skip_record:
  "Fake_skip record_emit sts f (e, tr) = (None, fx_log f (map (\<lambda>st. (st_Name st, StepRunStatusSkipped)) sts),
     (e, tr @ map (\<lambda>st. mk_event (st_Name st) StepRunStatusSkipped '''' 0) sts))"
  by (induction sts arbitrary: f tr) simp_all

lemma lift_env_simps [simp]:
  "ex_ctxErr (lift_env env) (e, tr) = ex_ctxErr env e"
  "ex_delay (lift_env env) (e, tr) = (case ex_delay env e of (r, e') \<Rightarrow> (r, (e', tr)))"
  "ex_block (lift_env env) (e, tr) = (case ex_block env e of (r, e') \<Rightarrow> (r, (e', tr)))"
  by (simp_all add: lift_env_def)

lemma fake_delay_None:
  "(if 0 < fx_DelayPerStep f then ex_delay (lift_env env) (e, tr) else (None, (e, tr)))
     = (r, s) \<Longrightarrow> \<exists>e'. s = (e', tr) \<and> (\<forall>x. r = Some x \<longrightarrow> (\<exists>e0 e1. ex_delay env e0 = (Some x, e1)))"
  by (auto split: if_splits prod.splits)

lemma Fake_trace:
  assumes "ctx_env env"
  shows "Fake_steps (lift_env env) record_emit steps f (e, tr) = (err, f', (e', tr')) \<Longrightarrow>
    \<exists>evs. tr' = tr @ evs \<and> valid_trace (map st_Name steps) (transitions evs) err"
proof (induction steps arbitrary: e tr f)
  case Nil
  then show ?case by (simp add: valid_trace.complete)
next
  case (Cons step rest)
  let ?n = "st_Name step"
  obtain r s where d: "(if 0 < fx_DelayPerStep f then ex_delay (lift_env env) (e, tr) else (None, (e, tr))) = (r, s)"
    by (metis prod.collapse)
  from fake_delay_None [OF d] obtain e1 where s: "s = (e1, tr)"
    and rx: "\<forall>x. r = Some x \<longrightarrow> (\<exists>e0 e1. ex_delay env e0 = (Some x, e1))" by blast
  show ?case
  proof (cases r)
    case (Some x)
    with rx assms have x: "is_ctx_error x" unfolding ctx_env_def by blast
    from Cons.prems d s Some have "err = Some x" "tr' = tr" by (simp_all add: Let_def)
    with x show ?thesis by (simp add: valid_trace.cancel_silent)
  next
    case r: None
    show ?thesis
    proof (cases "ex_ctxErr env e1")
      case (Some x)
      with assms have x: "is_ctx_error x" by (auto simp: ctx_env_def)
      from Cons.prems d s r Some
      have "err = Some x" "tr' = tr @ [mk_event ?n StepRunStatusCancelled '''' 0]"
        by (simp_all add: Let_def)
      with x show ?thesis by (simp add: valid_trace.cancel_before)
    next
      case None
      show ?thesis
      proof (cases "fx_FailStep f \<noteq> '''' \<and> ?n = fx_FailStep f")
        case True
        with Cons.prems d s r None show ?thesis
          by (auto simp: Let_def Fake_skip_record failed_at)
      next
        case False
        from False Cons.prems d s r None
        have "Fake_steps (lift_env env) record_emit rest
            (fx_log f [(?n, StepRunStatusRunning), (?n, StepRunStatusSucceeded)])
            (e1, tr @ [mk_event ?n StepRunStatusRunning '''' 0] @ [mk_event ?n StepRunStatusSucceeded ''ok'' 0])
            = (err, f', (e', tr'))"
          by (auto simp: Let_def)
        from Cons.IH [OF this] show ?thesis by (auto intro: valid_trace.succeed)
      qed
    qed
  qed
qed

definition Fake_run ::
    "fake_exec \<Rightarrow> 'e exec_env \<Rightarrow> pipeline_step list \<Rightarrow> 'e \<Rightarrow> go_error option \<times> step_event list" where
  "Fake_run f env steps e =
     (case Fake_Execute (lift_env env) record_emit steps f (e, []) of (err, f', s) \<Rightarrow> (err, snd s))"

interpretation fx: step_executor "Fake_run f env" "\<lambda>_. ctx_env env" for f env
proof (unfold_locales, goal_cases)
  case (1 e steps err evs)
  show ?case
  proof (cases steps)
    case Nil
    with 1 show ?thesis by (simp add: Fake_run_def Fake_Execute_def valid_trace.complete)
  next
    case (Cons st sts)
    obtain r e1 where b: "(if fx_Block f then ex_block (lift_env env) (e, []) else (None, (e, [])))
        = (r, (e1, []))" and rx: "\<forall>x. r = Some x \<longrightarrow> is_ctx_error x"
    proof (cases "fx_Block f")
      case True
      obtain x e1 where x: "ex_block env e = (x, e1)" by fastforce
      with 1(1) have "\<forall>y. x = Some y \<longrightarrow> is_ctx_error y" unfolding ctx_env_def by blast
      with True x that show ?thesis by simp
    qed (use that in simp)
    show ?thesis
    proof (cases r)
      case (Some x)
      with 1 Cons b rx show ?thesis
        by (auto simp: Fake_run_def Fake_Execute_def valid_trace.cancel_silent)
    next
      case None
      with 1 Cons b obtain f' e' where
        "Fake_steps (lift_env env) record_emit steps f (e1, []) = (err, f', (e', evs))"
        by (auto simp: Fake_run_def Fake_Execute_def split: prod.splits)
      from Fake_trace [OF 1(1) this] show ?thesis by simp
    qed
  qed
qed

subsection \<open>Properties\<close>


abbreviation shell_step :: "string \<Rightarrow> string \<Rightarrow> pipeline_step" where
  "shell_step n cmd \<equiv> \<lparr>st_Name = n, st_Type = ''shell'', st_Config = [''cmd'' \<mapsto> StrVal cmd]\<rparr>"

text \<open>An environment in which the command \<open>false\<close> exits with 1 and every other succeeds.\<close>

abbreviation demo_env :: "unit exec_env" where
  "demo_env \<equiv> \<lparr>ex_ctxErr = (\<lambda>_. None),
     ex_run = (\<lambda>sh cmd w. ((''out'', if cmd = ''false'' then Some (ExitError 1) else None), w)),
     ex_block = (\<lambda>w. (None, w)), ex_delay = (\<lambda>w. (None, w))\<rparr>"



lemma demo_trim [simp]: "TrimSpace ''true'' = ''true''" "TrimSpace ''false'' = ''false''"
  by code_simp+


text \<open>
  The executor drops the errors of its terminal reports. A run whose every write after the
  running report fails is still reported as complete, although the rows of its steps stay running;
  the comment on \<open>StepEmitter\<close> says that an error aborts the execution.
\<close>

theorem local_ignores_emit_errors:
  assumes "\<And>ev w. se_Status ev = StepRunStatusRunning \<Longrightarrow> emit ev w = (None, w)"
    and "\<And>ev w. se_Status ev \<noteq> StepRunStatusRunning \<Longrightarrow> emit ev w = (Some (External ''database is locked''), w)"
    and "\<And>w. ex_ctxErr env w = None"
    and "\<And>sh cmd w. \<exists>out. ex_run env sh cmd w = ((out, None), w)"
    and "\<forall>st \<in> set steps. st_Type st = StepTypeShell \<and> TrimSpace (step_cmd st) \<noteq> ''''"
  shows "Local_Execute l env emit steps w = (None, w)"
  using assms(5)
proof (induction steps)
  case (Cons st sts)
  obtain out where o: "ex_run env (lx_ShellPath l) (step_cmd st) w = ((out, None), w)"
    using assms(4) by blast
  with Cons.prems have "runShell l env st w = ((out, 0, None), w)" by (simp add: runShell_def)
  with Cons assms(1-3) show ?case by (simp add: Let_def)
qed simp

theorem local_ignores_emit_errors_witness:
  "Local_Execute (NewLocal []) demo_env
     (\<lambda>ev w. (if se_Status ev = StepRunStatusRunning then None else Some (External ''database is locked''), w))
     [shell_step ''a'' ''true''] () = (None, ())"
proof -
  let ?env = "\<lparr>ex_ctxErr = (\<lambda>_. None), ex_run = (\<lambda>sh cmd w. ((''out'', None), w)),
     ex_block = (\<lambda>w. (None, w)), ex_delay = (\<lambda>w. (None, w))\<rparr> :: unit exec_env"
  have "Local_Execute (NewLocal []) ?env
     (\<lambda>ev w. (if se_Status ev = StepRunStatusRunning then None else Some (External ''database is locked''), w))
     [shell_step ''a'' ''true''] () = (None, ())"
    by (rule local_ignores_emit_errors) (simp_all add: step_cmd_def)
  then show ?thesis
    by (simp add: Let_def runShell_def step_cmd_def)
qed

text \<open>
  Cancelling the context while a shell step runs kills the process, and the operating system
  reports a killed process as an exit error; the executor then reports the step as failed and
  returns an error that is not a context error, so the run service records a failed run instead of
  a cancelled one.
\<close>

theorem killed_step_reports_failed:
  assumes "ctx_env env" "ex_ctxErr env e = None" "st_Type st = StepTypeShell"
    and "TrimSpace (step_cmd st) \<noteq> ''''"
    and "ex_run env (lx_ShellPath l) (step_cmd st) e = ((out, Some (ExitError (- 1))), e')"
  shows "\<exists>x evs. Local_run l env (st # rest) e = (Some x, evs) \<and> \<not> errors_Is x Canceled
    \<and> (st_Name st, StepRunStatusFailed) \<in> set (transitions evs)
    \<and> (st_Name st, StepRunStatusCancelled) \<notin> set (transitions evs)"
proof -
  have sh: "runShell l env st e = ((out, - 1, Some (External (''exit status '' @ Itoa (- 1)))), e')"
    using assms(4,5) by (simp add: runShell_def cmd_go_error_def)
  then show ?thesis
    using assms(2,3)
    by (auto simp: Local_run_def Let_def runShell_lift is_ctx_error_def transitions_def)
qed

theorem killed_step_reports_failed_witness:
  "\<exists>x evs. Local_run (NewLocal []) \<lparr>ex_ctxErr = (\<lambda>_. None),
        ex_run = (\<lambda>sh cmd w. (('''', Some (ExitError (- 1))), w)),
        ex_block = (\<lambda>w. (None, w)), ex_delay = (\<lambda>w. (None, w))\<rparr>
      [shell_step ''a'' ''true''] () = (Some x, evs) \<and> \<not> errors_Is x Canceled"
proof -
  let ?env = "\<lparr>ex_ctxErr = (\<lambda>_. None), ex_run = (\<lambda>sh cmd w. (('''', Some (ExitError (- 1))), w)),
     ex_block = (\<lambda>w. (None, w)), ex_delay = (\<lambda>w. (None, w))\<rparr> :: unit exec_env"
  have "ctx_env ?env" by (simp add: ctx_env_def)
  from killed_step_reports_failed [OF this, of "()" "shell_step ''a'' ''true''" "NewLocal []" "''''" "()" "[]"]
  show ?thesis by (simp add: step_cmd_def) blast
qed

end
