(* ===== verification/Pipeline_Service.thy ===== *)
theory Pipeline_Service
  imports Complex_Main Orm Caller Pipeline_Executor
begin

text \<open>
  The pipeline service (\<open>internal/pipeline/service.go\<close>) over its repository (\<open>repository.go\<close>):
  validation, create / read / update / delete with their caller-guarded variants, the trigger and
  the run goroutine with its step-run rows, cancellation, run queries and statistics. Lemmas: what
  a stored pipeline satisfies, which errors leave everything unchanged, how the outcome of the
  executor is recorded.
\<close>

subsection \<open>Rows and the world\<close>

record pipeline_run =
  rn_ID :: string
  rn_PipelineID :: string
  rn_Status :: run_status
  rn_StartedAt :: "time option"
  rn_FinishedAt :: "time option"
  rn_DurationMs :: int
  rn_TriggeredBy :: string
  rn_ErrorMessage :: string

record step_run =
  sr_ID :: string
  sr_RunID :: string
  sr_StepName :: string
  sr_Status :: step_run_status
  sr_Order :: int
  sr_FinishedAt :: "time option"
  sr_OutputTruncated :: string
  sr_ExitCode :: int

record audit_action =
  aa_Action :: string
  aa_ResourceID :: string
  aa_Metadata :: "(string \<times> string) list"

text \<open>
  The three tables, the registry of in-flight runs, the runs whose context was cancelled, the two
  package-level caches, the environment (clock, identifier generator, processes, membership
  queries), the audit records, and the goroutines that \<open>Trigger\<close> started. A context is named by the
  run it was created for; the registry's entry of a run stands for its cancel function.
\<close>

record ('p, 'r, 's, 'w) pipe_world =
  pw_pipelines :: 'p
  pw_runs :: 'r
  pw_steps :: 's
  pw_running :: "string set"
  pw_cancelled :: "string set"
  pw_stepRunCache :: "string \<Rightarrow> string option"
  pw_stepOrderCache :: "string \<Rightarrow> int option"
  pw_env :: 'w
  pw_audit :: "audit_action list"
  pw_jobs :: "(pipeline \<times> pipeline_run) list"

type_synonym ('p, 'r, 's, 'w) run_executor =
  "pipeline_run \<Rightarrow> ('p, 'r, 's, 'w) pipe_world step_emitter \<Rightarrow> pipeline_step list
   \<Rightarrow> ('p, 'r, 's, 'w) pipe_world \<Rightarrow> go_error option \<times> ('p, 'r, 's, 'w) pipe_world"

record ('p, 'r, 's, 'w) pipe_service =
  sv_pipelines :: "('p, pipeline) gorm"
  sv_runs :: "('r, pipeline_run) gorm"
  sv_steps :: "('s, step_run) gorm"
  sv_executor :: "('p, 'r, 's, 'w) run_executor"
  sv_serviceValidator :: "(string \<Rightarrow> go_error option) option"
  sv_membershipChecker :: "'w membership_checker option"
  sv_audit :: bool
  sv_now :: "'w \<Rightarrow> time \<times> 'w"
  sv_newID :: "'w \<Rightarrow> string \<times> 'w"

definition emitAudit ::
    "('p, 'r, 's, 'w) pipe_service \<Rightarrow> audit_action \<Rightarrow> ('p, 'r, 's, 'w) pipe_world
     \<Rightarrow> ('p, 'r, 's, 'w) pipe_world" where
  "emitAudit s a w = (if sv_audit s then w\<lparr>pw_audit := pw_audit w @ [a]\<rparr> else w)"

subsection \<open>The repository\<close>

abbreviation ErrPipelineNotFound :: go_error where
  "ErrPipelineNotFound \<equiv> Sentinel ''pipeline: not found''"
abbreviation ErrRunNotFound :: go_error where
  "ErrRunNotFound \<equiv> Sentinel ''pipeline run: not found''"

definition Pipe_IsNotFound :: "go_error \<Rightarrow> bool" where
  "Pipe_IsNotFound err \<longleftrightarrow> errors_Is err ErrPipelineNotFound \<or> errors_Is err ErrRunNotFound"

definition Pipeline_BeforeCreate :: "string \<Rightarrow> pipeline \<Rightarrow> pipeline" where
  "Pipeline_BeforeCreate newID p =
     (let p = (if pl_Trigger p = '''' then p\<lparr>pl_Trigger := ''manual''\<rparr> else p)
      in p\<lparr>pl_ID := (if pl_ID p = '''' then newID else pl_ID p)\<rparr>)"

text \<open>
  A field with a \<open>default\<close> tag whose value is the zero value of its type is inserted with the default,
  and the row in memory is updated with it (GORM's documented rule for default values). For
  \<open>Enabled\<close>, tagged \<open>default:true\<close>, this turns \<open>false\<close> into \<open>true\<close>; the trigger is set by the hook.
\<close>

definition pipeline_defaults :: "pipeline \<Rightarrow> pipeline" where
  "pipeline_defaults p = (if \<not> pl_Enabled p then p\<lparr>pl_Enabled := True\<rparr> else p)"

definition CreatePipeline ::
    "('p, pipeline) gorm \<Rightarrow> string \<Rightarrow> 'p \<Rightarrow> pipeline \<Rightarrow> 'p result \<times> pipeline" where
  "CreatePipeline g newID db p =
     (let p = pipeline_defaults (Pipeline_BeforeCreate newID p)
      in (repo_Create g ''pipeline.Create: '' db p, p))"

abbreviation GetPipeline :: "('p, pipeline) gorm \<Rightarrow> 'p \<Rightarrow> string \<Rightarrow> pipeline result" where
  "GetPipeline g db k \<equiv> repo_Get g ErrPipelineNotFound db k"

abbreviation UpdatePipeline :: "('p, pipeline) gorm \<Rightarrow> 'p \<Rightarrow> pipeline \<Rightarrow> 'p result" where
  "UpdatePipeline g db p \<equiv> repo_Update g pl_ID ''pipeline.Update: '' ErrPipelineNotFound db p"

abbreviation DeletePipeline :: "('p, pipeline) gorm \<Rightarrow> 'p \<Rightarrow> string \<Rightarrow> 'p result" where
  "DeletePipeline g db k \<equiv> repo_Delete g ''pipeline.Delete: '' ErrPipelineNotFound db k"

definition CreateRun ::
    "('r, pipeline_run) gorm \<Rightarrow> string \<Rightarrow> 'r \<Rightarrow> pipeline_run \<Rightarrow> 'r result \<times> pipeline_run" where
  "CreateRun g newID db r =
     (let r = r\<lparr>rn_ID := (if rn_ID r = '''' then newID else rn_ID r)\<rparr>
      in (repo_Create g ''pipeline.CreateRun: '' db r, r))"

abbreviation GetRun :: "('r, pipeline_run) gorm \<Rightarrow> 'r \<Rightarrow> string \<Rightarrow> pipeline_run result" where
  "GetRun g db k \<equiv> repo_Get g ErrRunNotFound db k"

text \<open>The column maps of the three run updates, as functions on the row.\<close>

definition set_run_status :: "run_status \<Rightarrow> int \<Rightarrow> string \<Rightarrow> time \<Rightarrow> pipeline_run \<Rightarrow> pipeline_run" where
  "set_run_status st durationMs errMsg now r =
     (let r = r\<lparr>rn_Status := st, rn_DurationMs := durationMs, rn_ErrorMessage := errMsg\<rparr>
      in if RunStatus_Terminal st then r\<lparr>rn_FinishedAt := Some now\<rparr> else r)"

definition set_run_started :: "time \<Rightarrow> pipeline_run \<Rightarrow> pipeline_run" where
  "set_run_started startedAt r = r\<lparr>rn_StartedAt := Some startedAt, rn_Status := RunStatusRunning\<rparr>"

definition set_run_finished :: "run_status \<Rightarrow> int \<Rightarrow> string \<Rightarrow> time \<Rightarrow> pipeline_run \<Rightarrow> pipeline_run" where
  "set_run_finished st durationMs errMsg now r =
     r\<lparr>rn_Status := st, rn_DurationMs := durationMs, rn_FinishedAt := Some now, rn_ErrorMessage := errMsg\<rparr>"

definition UpdateRunStatus ::
    "('r, pipeline_run) gorm \<Rightarrow> 'r \<Rightarrow> string \<Rightarrow> run_status \<Rightarrow> int \<Rightarrow> string \<Rightarrow> time \<Rightarrow> 'r result" where
  "UpdateRunStatus g db k st durationMs errMsg now =
     repo_Patch g ''pipeline.UpdateRunStatus: '' ErrRunNotFound db k
       (set_run_status st durationMs errMsg now)"

definition UpdateRunStartedAt ::
    "('r, pipeline_run) gorm \<Rightarrow> 'r \<Rightarrow> string \<Rightarrow> time \<Rightarrow> 'r result" where
  "UpdateRunStartedAt g db k startedAt =
     repo_Patch g ''pipeline.UpdateRunStartedAt: '' ErrRunNotFound db k (set_run_started startedAt)"

definition UpdateRunFinished ::
    "('r, pipeline_run) gorm \<Rightarrow> 'r \<Rightarrow> string \<Rightarrow> run_status \<Rightarrow> int \<Rightarrow> string \<Rightarrow> time \<Rightarrow> 'r result" where
  "UpdateRunFinished g db k st durationMs errMsg now =
     repo_Patch g ''pipeline.UpdateRunFinished: '' ErrRunNotFound db k
       (set_run_finished st durationMs errMsg now)"

definition CreateStepRun ::
    "('s, step_run) gorm \<Rightarrow> string \<Rightarrow> 's \<Rightarrow> step_run \<Rightarrow> 's result \<times> step_run" where
  "CreateStepRun g newID db r =
     (let r = r\<lparr>sr_ID := (if sr_ID r = '''' then newID else sr_ID r)\<rparr>
      in (repo_Create g ''pipeline.CreateStepRun: '' db r, r))"

definition set_step_status ::
    "step_run_status \<Rightarrow> int \<Rightarrow> string \<Rightarrow> time \<Rightarrow> step_run \<Rightarrow> step_run" where
  "set_step_status st exitCode out now r =
     (let r = r\<lparr>sr_Status := st, sr_ExitCode := exitCode, sr_OutputTruncated := out\<rparr>
      in if StepRunStatus_Terminal st then r\<lparr>sr_FinishedAt := Some now\<rparr> else r)"

text \<open>A missing row is reported wrapped in this one method.\<close>

definition UpdateStepRunStatus ::
    "('s, step_run) gorm \<Rightarrow> 's \<Rightarrow> string \<Rightarrow> step_run_status \<Rightarrow> int \<Rightarrow> string \<Rightarrow> time \<Rightarrow> 's result" where
  "UpdateStepRunStatus g db k st exitCode out now =
     repo_Patch g ''pipeline.UpdateStepRunStatus: '' (Wrapped ''pipeline step run: '' ErrRunNotFound) db k
       (set_step_status st exitCode out now)"

record pipeline_filter =
  pf_ProjectID :: string
  pf_Search :: string
  pf_ServiceID :: string
  pf_Limit :: int
  pf_Offset :: int

text \<open>\<open>LIKE '%...%'\<close> is the substring test of the database, a function \<open>like\<close> on the name.\<close>

definition pipeline_matches :: "(string \<Rightarrow> string \<Rightarrow> bool) \<Rightarrow> pipeline_filter \<Rightarrow> pipeline \<Rightarrow> bool" where
  "pipeline_matches like f p \<longleftrightarrow>
     (pf_ProjectID f \<noteq> '''' \<longrightarrow> pl_ProjectID p = pf_ProjectID f) \<and>
     (pf_ServiceID f \<noteq> '''' \<longrightarrow> pl_ServiceID p = pf_ServiceID f) \<and>
     (pf_Search f \<noteq> '''' \<longrightarrow> like (pf_Search f) (pl_Name p))"

definition ListPipelines ::
    "('p, pipeline) gorm \<Rightarrow> (string \<Rightarrow> string \<Rightarrow> bool) \<Rightarrow> 'p \<Rightarrow> pipeline_filter
     \<Rightarrow> (pipeline list \<times> nat) result" where
  "ListPipelines g like db f =
     (case db_Find g db (pipeline_matches like f) of
        Inl err \<Rightarrow> Inl (Wrapped ''pipeline.List count: '' err)
      | Inr all \<Rightarrow>
          (case db_Find g db (pipeline_matches like f) of
             Inl err \<Rightarrow> Inl (Wrapped ''pipeline.List find: '' err)
           | Inr rows \<Rightarrow> Inr (page_of (pf_Limit f) (pf_Offset f) rows, length all)))"

definition list_runs ::
    "('r, pipeline_run) gorm \<Rightarrow> string \<Rightarrow> 'r \<Rightarrow> (pipeline_run \<Rightarrow> bool) \<Rightarrow> int \<Rightarrow> int
     \<Rightarrow> (pipeline_run list \<times> nat) result" where
  "list_runs g label db P limit offset =
     (case db_Find g db P of
        Inl err \<Rightarrow> Inl (Wrapped (label @ '' count: '') err)
      | Inr all \<Rightarrow>
          (case db_Find g db P of
             Inl err \<Rightarrow> Inl (Wrapped (label @ '' find: '') err)
           | Inr rows \<Rightarrow> Inr (page_of limit offset rows, length all)))"

definition ListRunsForPipeline ::
    "('r, pipeline_run) gorm \<Rightarrow> 'r \<Rightarrow> string \<Rightarrow> int \<Rightarrow> int \<Rightarrow> (pipeline_run list \<times> nat) result" where
  "ListRunsForPipeline g db pipelineID limit offset =
     list_runs g ''pipeline.ListRunsForPipeline'' db (\<lambda>r. rn_PipelineID r = pipelineID) limit offset"

definition ListRecentRuns ::
    "('r, pipeline_run) gorm \<Rightarrow> 'r \<Rightarrow> int \<Rightarrow> int \<Rightarrow> (pipeline_run list \<times> nat) result" where
  "ListRecentRuns g db limit offset = list_runs g ''pipeline.ListRecentRuns'' db (\<lambda>_. True) limit offset"

text \<open>\<open>by_start\<close> is the database's sort by start time, newest first.\<close>

definition LastRunsForService ::
    "('p, pipeline) gorm \<Rightarrow> ('r, pipeline_run) gorm \<Rightarrow> (pipeline_run list \<Rightarrow> pipeline_run list)
     \<Rightarrow> 'p \<Rightarrow> 'r \<Rightarrow> string \<Rightarrow> int \<Rightarrow> pipeline_run list result" where
  "LastRunsForService gp gr by_start dbp dbr serviceID limit =
     (if serviceID = '''' then Inr []
      else
        (case db_Find gp dbp (\<lambda>p. pl_ServiceID p = serviceID) of
           Inl err \<Rightarrow> Inl (Wrapped ''pipeline.LastRunsForService pluck: '' err)
         | Inr ps \<Rightarrow>
             (let ids = map pl_ID ps
              in if ids = [] then Inr []
                 else
                   (case db_Find gr dbr (\<lambda>r. rn_PipelineID r \<in> set ids) of
                      Inl err \<Rightarrow> Inl (Wrapped ''pipeline.LastRunsForService find: '' err)
                    | Inr rows \<Rightarrow> Inr (page_of limit 0 (by_start rows))))))"

definition repo_GetRunWithSteps ::
    "('r, pipeline_run) gorm \<Rightarrow> ('s, step_run) gorm \<Rightarrow> 'r \<Rightarrow> 's \<Rightarrow> string
     \<Rightarrow> (pipeline_run \<times> step_run list) result" where
  "repo_GetRunWithSteps gr gs dbr dbs k =
     (case GetRun gr dbr k of
        Inl err \<Rightarrow> Inl err
      | Inr run \<Rightarrow>
          (case db_Find gs dbs (\<lambda>st. sr_RunID st = k) of
             Inl err \<Rightarrow> Inl (Wrapped ''pipeline.GetRunWithSteps: '' err)
           | Inr sts \<Rightarrow> Inr (run, sts)))"

subsection \<open>Validation\<close>

record create_input =
  ci_Name :: string
  ci_Description :: string
  ci_ProjectID :: string
  ci_TargetType :: target_type
  ci_TargetID :: string
  ci_ServiceID :: string
  ci_Trigger :: string
  ci_Steps :: "pipeline_step list"
  ci_Enabled :: "bool option"

record update_input =
  ui_Name :: "string option"
  ui_Description :: "string option"
  ui_TargetType :: "target_type option"
  ui_TargetID :: "string option"
  ui_ServiceID :: "string option"
  ui_Enabled :: "bool option"

abbreviation validation :: "string \<Rightarrow> go_error" where
  "validation m \<equiv> APIError CodeValidation m None"

fun validate_steps :: "nat \<Rightarrow> pipeline_step list \<Rightarrow> go_error option" where
  "validate_steps i [] = None"
| "validate_steps i (st # sts) =
     (if TrimSpace (st_Name st) = '''' then
        Some (validation (''step['' @ Itoa (int i) @ ''].name is required''))
      else if \<not> StepType_Valid (st_Type st) then
        Some (validation (''step['' @ Itoa (int i) @ ''].type '' @ Quote (st_Type st) @ '' is not valid''))
      else validate_steps (Suc i) sts)"

definition validateCreate :: "create_input \<Rightarrow> go_error option" where
  "validateCreate inp =
     (if TrimSpace (ci_Name inp) = '''' then Some (validation ''name is required'')
      else if TrimSpace (ci_ProjectID inp) = '''' then Some (validation ''project_id is required'')
      else if \<not> TargetType_Valid (ci_TargetType inp) then
        Some (validation (''target_type '' @ Quote (ci_TargetType inp) @ '' is not valid''))
      else if ci_Steps inp = [] then Some (validation ''at least one step is required'')
      else validate_steps 0 (ci_Steps inp))"

definition validateServiceID :: "(string \<Rightarrow> go_error option) option \<Rightarrow> string \<Rightarrow> go_error option" where
  "validateServiceID validator k =
     (if k = '''' then None
      else
        (case validator of
           None \<Rightarrow> Some (validation (''service_id '' @ Quote k @ '' is not validated (no catalog wired)''))
         | Some v \<Rightarrow>
             (case v k of
                None \<Rightarrow> None
              | Some err \<Rightarrow>
                  Some (APIError CodeValidation (''service_id '' @ Quote k @ '' does not exist'') (Some err)))))"

definition truncateMsg :: "string \<Rightarrow> string" where
  "truncateMsg s = (if length s \<le> 1024 then s else take 1024 s)"

subsection \<open>Create, read, update, delete\<close>

definition internal :: "string \<Rightarrow> go_error \<Rightarrow> go_error" where
  "internal m err = APIError CodeInternal m (Some err)"

definition pipeline_not_found :: "string \<Rightarrow> go_error" where
  "pipeline_not_found k = APIError CodeNotFound (''pipeline '' @ Quote k @ '' not found'') None"

definition run_not_found :: "string \<Rightarrow> go_error" where
  "run_not_found k = APIError CodeNotFound (''pipeline run '' @ Quote k @ '' not found'') None"

definition new_pipeline :: "create_input \<Rightarrow> pipeline" where
  "new_pipeline inp =
     \<lparr>pl_ID = '''', pl_ProjectID = TrimSpace (ci_ProjectID inp), pl_Name = TrimSpace (ci_Name inp),
      pl_Description = ci_Description inp, pl_TargetType = ci_TargetType inp,
      pl_TargetID = ci_TargetID inp, pl_ServiceID = ci_ServiceID inp,
      pl_Trigger = (if ci_Trigger inp = '''' then ''manual'' else ci_Trigger inp),
      pl_Steps = ci_Steps inp,
      pl_Enabled = (case ci_Enabled inp of None \<Rightarrow> True | Some b \<Rightarrow> b),
      pl_Strategy = '''', pl_BlueGreenConfig = \<lparr>bg_ActiveEnv = '''', bg_InactiveEnv = ''''\<rparr>,
      pl_CanaryConfig = \<lparr>cn_Baseline = '''', cn_Candidate = '''', cn_Stages = [], cn_Healthcheck = ''''\<rparr>,
      pl_RollingConfig = \<lparr>rl_TotalInstances = 0, rl_MaxSurgePct = 0\<rparr>\<rparr>"

definition Pipe_Create ::
    "('p, 'r, 's, 'w) pipe_service \<Rightarrow> create_input \<Rightarrow> ('p, 'r, 's, 'w) pipe_world
     \<Rightarrow> pipeline result \<times> ('p, 'r, 's, 'w) pipe_world" where
  "Pipe_Create s inp w =
     (case validateCreate inp of
        Some err \<Rightarrow> (Inl err, w)
      | None \<Rightarrow>
          (case validateServiceID (sv_serviceValidator s) (ci_ServiceID inp) of
             Some err \<Rightarrow> (Inl err, w)
           | None \<Rightarrow>
               (case sv_newID s (pw_env w) of
                  (newID, env) \<Rightarrow>
                    (case CreatePipeline (sv_pipelines s) newID (pw_pipelines w) (new_pipeline inp) of
                       (Inl err, _) \<Rightarrow> (Inl (internal ''failed to create pipeline'' err), w\<lparr>pw_env := env\<rparr>)
                     | (Inr db, p) \<Rightarrow>
                         (Inr p,
                          emitAudit s
                            \<lparr>aa_Action = ''create'', aa_ResourceID = pl_ID p,
                             aa_Metadata = [(''name'', pl_Name p), (''project_id'', pl_ProjectID p),
                               (''trigger'', pl_Trigger p)]\<rparr>
                            (w\<lparr>pw_env := env, pw_pipelines := db\<rparr>))))))"

definition Pipe_Get ::
    "('p, 'r, 's, 'w) pipe_service \<Rightarrow> string \<Rightarrow> ('p, 'r, 's, 'w) pipe_world \<Rightarrow> pipeline result" where
  "Pipe_Get s k w =
     (case GetPipeline (sv_pipelines s) (pw_pipelines w) k of
        Inl err \<Rightarrow>
          Inl (if Pipe_IsNotFound err then pipeline_not_found k else internal ''failed to load pipeline'' err)
      | Inr p \<Rightarrow> Inr p)"

definition Pipe_List ::
    "('p, 'r, 's, 'w) pipe_service \<Rightarrow> (string \<Rightarrow> string \<Rightarrow> bool) \<Rightarrow> pipeline_filter
     \<Rightarrow> ('p, 'r, 's, 'w) pipe_world \<Rightarrow> (pipeline list \<times> nat) result" where
  "Pipe_List s like f w =
     (case ListPipelines (sv_pipelines s) like (pw_pipelines w) f of
        Inl err \<Rightarrow> Inl (internal ''failed to list pipelines'' err)
      | Inr x \<Rightarrow> Inr x)"

text \<open>The field updates in the order of the code; an invalid value stops them.\<close>

definition apply_update :: "update_input \<Rightarrow> pipeline \<Rightarrow> pipeline result" where
  "apply_update inp p =
     (case (case ui_Name inp of
              None \<Rightarrow> Inr p
            | Some n \<Rightarrow>
                if TrimSpace n = '''' then Inl (validation ''name cannot be blank'')
                else Inr (p\<lparr>pl_Name := TrimSpace n\<rparr>)) of
        Inl err \<Rightarrow> Inl err
      | Inr p \<Rightarrow>
          (let p = (case ui_Description inp of None \<Rightarrow> p | Some d \<Rightarrow> p\<lparr>pl_Description := d\<rparr>)
           in case (case ui_TargetType inp of
                      None \<Rightarrow> Inr p
                    | Some t \<Rightarrow>
                        if \<not> TargetType_Valid t
                        then Inl (validation (''target_type '' @ Quote t @ '' is not valid''))
                        else Inr (p\<lparr>pl_TargetType := t\<rparr>)) of
                Inl err \<Rightarrow> Inl err
              | Inr p \<Rightarrow>
                  (let p = (case ui_TargetID inp of None \<Rightarrow> p | Some t \<Rightarrow> p\<lparr>pl_TargetID := t\<rparr>);
                       p = (case ui_ServiceID inp of None \<Rightarrow> p | Some t \<Rightarrow> p\<lparr>pl_ServiceID := t\<rparr>)
                   in Inr (case ui_Enabled inp of None \<Rightarrow> p | Some b \<Rightarrow> p\<lparr>pl_Enabled := b\<rparr>))))"

definition Pipe_Update ::
    "('p, 'r, 's, 'w) pipe_service \<Rightarrow> string \<Rightarrow> update_input \<Rightarrow> ('p, 'r, 's, 'w) pipe_world
     \<Rightarrow> pipeline result \<times> ('p, 'r, 's, 'w) pipe_world" where
  "Pipe_Update s k inp w =
     (case (case ui_ServiceID inp of None \<Rightarrow> None | Some sid \<Rightarrow> validateServiceID (sv_serviceValidator s) sid) of
        Some err \<Rightarrow> (Inl err, w)
      | None \<Rightarrow>
          (case Pipe_Get s k w of
             Inl err \<Rightarrow> (Inl err, w)
           | Inr p \<Rightarrow>
               (case apply_update inp p of
                  Inl err \<Rightarrow> (Inl err, w)
                | Inr p \<Rightarrow>
                    (case UpdatePipeline (sv_pipelines s) (pw_pipelines w) p of
                       Inl err \<Rightarrow>
                         (Inl (if Pipe_IsNotFound err then pipeline_not_found k
                               else internal ''failed to update pipeline'' err), w)
                     | Inr db \<Rightarrow>
                         (Inr p, emitAudit s \<lparr>aa_Action = ''update'', aa_ResourceID = pl_ID p, aa_Metadata = []\<rparr>
                                   (w\<lparr>pw_pipelines := db\<rparr>))))))"

definition Pipe_Delete ::
    "('p, 'r, 's, 'w) pipe_service \<Rightarrow> string \<Rightarrow> ('p, 'r, 's, 'w) pipe_world
     \<Rightarrow> go_error option \<times> ('p, 'r, 's, 'w) pipe_world" where
  "Pipe_Delete s k w =
     (case DeletePipeline (sv_pipelines s) (pw_pipelines w) k of
        Inl err \<Rightarrow>
          (Some (if Pipe_IsNotFound err then pipeline_not_found k
                 else internal ''failed to delete pipeline'' err), w)
      | Inr db \<Rightarrow>
          (None, emitAudit s \<lparr>aa_Action = ''delete'', aa_ResourceID = k, aa_Metadata = []\<rparr>
                   (w\<lparr>pw_pipelines := db\<rparr>)))"

subsection \<open>The caller-guarded variants\<close>

abbreviation Pipe_ErrUnauthenticated :: go_error where
  "Pipe_ErrUnauthenticated \<equiv> Sentinel ''pipeline: unauthenticated''"
abbreviation Pipe_ErrForbidden :: go_error where
  "Pipe_ErrForbidden \<equiv> Sentinel ''pipeline: forbidden''"

text \<open>SuperAdmin, or a member of the project; the membership query reads the environment.\<close>

definition member_or_admin ::
    "('p, 'r, 's, 'w) pipe_service \<Rightarrow> caller option \<Rightarrow> string \<Rightarrow> ('p, 'r, 's, 'w) pipe_world
     \<Rightarrow> bool \<times> ('p, 'r, 's, 'w) pipe_world" where
  "member_or_admin s cl projectID w =
     (if IsSuperAdmin cl then (True, w)
      else
        (case IsMemberOf projectID (sv_membershipChecker s) cl (pw_env w) of
           (b, _, env) \<Rightarrow> (b, w\<lparr>pw_env := env\<rparr>)))"

definition Pipe_GetWithCaller ::
    "('p, 'r, 's, 'w) pipe_service \<Rightarrow> ctx \<Rightarrow> string \<Rightarrow> ('p, 'r, 's, 'w) pipe_world
     \<Rightarrow> pipeline result \<times> ('p, 'r, 's, 'w) pipe_world" where
  "Pipe_GetWithCaller s ctx k w =
     (case authenticated ctx of
        None \<Rightarrow> (Inl Pipe_ErrUnauthenticated, w)
      | Some cl \<Rightarrow>
          (case Pipe_Get s k w of
             Inl err \<Rightarrow> (Inl err, w)
           | Inr p \<Rightarrow>
               (case member_or_admin s cl (pl_ProjectID p) w of
                  (b, w) \<Rightarrow> if b then (Inr p, w) else (Inl Pipe_ErrForbidden, w))))"

definition CreateWithCaller ::
    "('p, 'r, 's, 'w) pipe_service \<Rightarrow> ctx \<Rightarrow> create_input \<Rightarrow> ('p, 'r, 's, 'w) pipe_world
     \<Rightarrow> pipeline result \<times> ('p, 'r, 's, 'w) pipe_world" where
  "CreateWithCaller s ctx inp w =
     (case authenticated ctx of
        None \<Rightarrow> (Inl Pipe_ErrUnauthenticated, w)
      | Some cl \<Rightarrow>
          (case member_or_admin s cl (ci_ProjectID inp) w of
             (b, w) \<Rightarrow> if b then Pipe_Create s inp w else (Inl Pipe_ErrForbidden, w)))"

definition UpdateWithCaller ::
    "('p, 'r, 's, 'w) pipe_service \<Rightarrow> ctx \<Rightarrow> string \<Rightarrow> update_input \<Rightarrow> ('p, 'r, 's, 'w) pipe_world
     \<Rightarrow> pipeline result \<times> ('p, 'r, 's, 'w) pipe_world" where
  "UpdateWithCaller s ctx k inp w =
     (case authenticated ctx of
        None \<Rightarrow> (Inl Pipe_ErrUnauthenticated, w)
      | Some cl \<Rightarrow>
          (case GetPipeline (sv_pipelines s) (pw_pipelines w) k of
             Inl err \<Rightarrow> (Inl err, w)
           | Inr current \<Rightarrow>
               (case member_or_admin s cl (pl_ProjectID current) w of
                  (b, w) \<Rightarrow> if b then Pipe_Update s k inp w else (Inl Pipe_ErrForbidden, w))))"

definition DeleteWithCaller ::
    "('p, 'r, 's, 'w) pipe_service \<Rightarrow> ctx \<Rightarrow> string \<Rightarrow> ('p, 'r, 's, 'w) pipe_world
     \<Rightarrow> go_error option \<times> ('p, 'r, 's, 'w) pipe_world" where
  "DeleteWithCaller s ctx k w =
     (case authenticated ctx of
        None \<Rightarrow> (Some Pipe_ErrUnauthenticated, w)
      | Some cl \<Rightarrow>
          (case GetPipeline (sv_pipelines s) (pw_pipelines w) k of
             Inl err \<Rightarrow> (Some err, w)
           | Inr current \<Rightarrow>
               (case member_or_admin s cl (pl_ProjectID current) w of
                  (b, w) \<Rightarrow> if b then Pipe_Delete s k w else (Some Pipe_ErrForbidden, w))))"

subsection \<open>Triggering a run\<close>

definition Trigger ::
    "('p, 'r, 's, 'w) pipe_service \<Rightarrow> string \<Rightarrow> string \<Rightarrow> ('p, 'r, 's, 'w) pipe_world
     \<Rightarrow> pipeline_run result \<times> ('p, 'r, 's, 'w) pipe_world" where
  "Trigger s pipelineID triggeredBy w =
     (case GetPipeline (sv_pipelines s) (pw_pipelines w) pipelineID of
        Inl err \<Rightarrow>
          (Inl (if Pipe_IsNotFound err then pipeline_not_found pipelineID
                else internal ''failed to load pipeline'' err), w)
      | Inr p \<Rightarrow>
          if \<not> pl_Enabled p then (Inl (APIError CodeInvalidState ''pipeline is disabled'' None), w)
          else
            (case sv_newID s (pw_env w) of
               (newID, env) \<Rightarrow>
                 (case CreateRun (sv_runs s) newID (pw_runs w)
                         \<lparr>rn_ID = '''', rn_PipelineID = pl_ID p, rn_Status = RunStatusPending,
                          rn_StartedAt = None, rn_FinishedAt = None, rn_DurationMs = 0,
                          rn_TriggeredBy = triggeredBy, rn_ErrorMessage = ''''\<rparr> of
                    (Inl err, _) \<Rightarrow> (Inl (internal ''failed to create run'' err), w\<lparr>pw_env := env\<rparr>)
                  | (Inr db, run) \<Rightarrow>
                      (let w = w\<lparr>pw_env := env, pw_runs := db, pw_running := insert (rn_ID run) (pw_running w)\<rparr>;
                           w = emitAudit s
                             \<lparr>aa_Action = ''trigger'', aa_ResourceID = pl_ID p,
                              aa_Metadata = [(''run_id'', rn_ID run), (''triggered_by'', triggeredBy)]\<rparr> w
                       in (Inr run, w\<lparr>pw_jobs := pw_jobs w @ [(p, run)]\<rparr>)))))"

subsection \<open>The step rows of a run\<close>

definition order_key :: "string \<Rightarrow> string \<Rightarrow> string" where
  "order_key runID n = runID @ ''::order::'' @ n"

fun prime_loop :: "string \<Rightarrow> nat \<Rightarrow> pipeline_step list \<Rightarrow> (string \<Rightarrow> int option) \<Rightarrow> string \<Rightarrow> int option" where
  "prime_loop runID i [] m = m"
| "prime_loop runID i (st # sts) m =
     prime_loop runID (Suc i) sts (m(order_key runID (st_Name st) \<mapsto> int i))"

definition primeStepOrder ::
    "string \<Rightarrow> pipeline_step list \<Rightarrow> ('p, 'r, 's, 'w) pipe_world \<Rightarrow> ('p, 'r, 's, 'w) pipe_world" where
  "primeStepOrder runID steps w = w\<lparr>pw_stepOrderCache := prime_loop runID 0 steps (pw_stepOrderCache w)\<rparr>"

definition cacheKey :: "string \<Rightarrow> string \<Rightarrow> string" where
  "cacheKey runID stepName = runID @ ''|'' @ stepName"

fun index_of_step :: "string \<Rightarrow> nat \<Rightarrow> pipeline_step list \<Rightarrow> int" where
  "index_of_step n i [] = - 1"
| "index_of_step n i (st # sts) = (if st_Name st = n then int i else index_of_step n (Suc i) sts)"

text \<open>The order of a new row: the primed cache first, the stored pipeline otherwise.\<close>

definition step_order ::
    "('p, 'r, 's, 'w) pipe_service \<Rightarrow> pipeline_run \<Rightarrow> string \<Rightarrow> string \<Rightarrow> ('p, 'r, 's, 'w) pipe_world
     \<Rightarrow> int result" where
  "step_order s run runID stepName w =
     (let order = (case pw_stepOrderCache w (order_key runID stepName) of Some v \<Rightarrow> v | None \<Rightarrow> - 1)
      in if order < 0 then
           (case GetPipeline (sv_pipelines s) (pw_pipelines w) (rn_PipelineID run) of
              Inl err \<Rightarrow> Inl err
            | Inr p \<Rightarrow> Inr (index_of_step stepName 0 (pl_Steps p)))
         else Inr order)"

definition ensureStepRun ::
    "('p, 'r, 's, 'w) pipe_service \<Rightarrow> string \<Rightarrow> string \<Rightarrow> ('p, 'r, 's, 'w) pipe_world
     \<Rightarrow> string result \<times> ('p, 'r, 's, 'w) pipe_world" where
  "ensureStepRun s runID stepName w =
     (case pw_stepRunCache w (cacheKey runID stepName) of
        Some k \<Rightarrow> (Inr k, w)
      | None \<Rightarrow>
          (case GetRun (sv_runs s) (pw_runs w) runID of
             Inl err \<Rightarrow> (Inl err, w)
           | Inr run \<Rightarrow>
               (case step_order s run runID stepName w of
                  Inl err \<Rightarrow> (Inl err, w)
                | Inr order \<Rightarrow>
                    (case sv_newID s (pw_env w) of
                       (newID, env) \<Rightarrow>
                         (case CreateStepRun (sv_steps s) newID (pw_steps w)
                                 \<lparr>sr_ID = '''', sr_RunID = runID, sr_StepName = stepName,
                                  sr_Status = StepRunStatusPending, sr_Order = order,
                                  sr_FinishedAt = None, sr_OutputTruncated = '''', sr_ExitCode = 0\<rparr> of
                            (Inl err, _) \<Rightarrow> (Inl err, w\<lparr>pw_env := env\<rparr>)
                          | (Inr db, step) \<Rightarrow>
                              (Inr (sr_ID step),
                               w\<lparr>pw_env := env, pw_steps := db,
                                 pw_stepRunCache := (pw_stepRunCache w)(cacheKey runID stepName \<mapsto> sr_ID step)\<rparr>))))))"

definition recordStepEvent ::
    "('p, 'r, 's, 'w) pipe_service \<Rightarrow> string \<Rightarrow> ('p, 'r, 's, 'w) pipe_world step_emitter" where
  "recordStepEvent s runID e w =
     (case ensureStepRun s runID (se_StepName e) w of
        (Inl err, w) \<Rightarrow> (Some err, w)
      | (Inr k, w) \<Rightarrow>
          (case (if StepRunStatus_Terminal (se_Status e) then sv_now s (pw_env w) else (zero_time, pw_env w)) of
             (now, env) \<Rightarrow>
               (case UpdateStepRunStatus (sv_steps s) (pw_steps w) k (se_Status e) (se_ExitCode e)
                       (se_Output e) now of
                  Inl err \<Rightarrow> (Some err, w\<lparr>pw_env := env\<rparr>)
                | Inr db \<Rightarrow> (None, w\<lparr>pw_env := env, pw_steps := db\<rparr>))))"

subsection \<open>The run goroutine\<close>

text \<open>
  \<open>executeRun\<close> in the pieces between which other goroutines may run: the two writes before the
  executor, and the recording of its outcome. The clock is not read by \<open>UpdateRunStatus\<close> for a
  status that is not terminal.
\<close>

definition mark_started ::
    "('r, pipeline_run) gorm \<Rightarrow> string \<Rightarrow> time \<Rightarrow> 'r \<Rightarrow> 'r result" where
  "mark_started g k startedAt db = UpdateRunStartedAt g db k startedAt"

definition mark_running :: "('r, pipeline_run) gorm \<Rightarrow> string \<Rightarrow> 'r \<Rightarrow> 'r result" where
  "mark_running g k db = UpdateRunStatus g db k RunStatusRunning 0 '''' zero_time"

definition run_outcome :: "go_error option \<Rightarrow> run_status \<times> string" where
  "run_outcome execErr =
     (case execErr of
        Some e \<Rightarrow>
          if errors_Is e Canceled then (RunStatusCancelled, '''')
          else (RunStatusFailed, truncateMsg (Error_text e))
      | None \<Rightarrow> (RunStatusSucceeded, ''''))"

definition mark_finished ::
    "('r, pipeline_run) gorm \<Rightarrow> string \<Rightarrow> go_error option \<Rightarrow> int \<Rightarrow> time \<Rightarrow> 'r \<Rightarrow> 'r result" where
  "mark_finished g k execErr durationMs now db =
     (case run_outcome execErr of (st, msg) \<Rightarrow> UpdateRunFinished g db k st durationMs msg now)"

definition unregister ::
    "string \<Rightarrow> ('p, 'r, 's, 'w) pipe_world \<Rightarrow> ('p, 'r, 's, 'w) pipe_world" where
  "unregister k w = w\<lparr>pw_running := pw_running w - {k}\<rparr>"

text \<open>An error of the last write is dropped.\<close>

definition record_outcome ::
    "('p, 'r, 's, 'w) pipe_service \<Rightarrow> pipeline_run \<Rightarrow> time \<Rightarrow> go_error option
     \<Rightarrow> ('p, 'r, 's, 'w) pipe_world \<Rightarrow> ('p, 'r, 's, 'w) pipe_world" where
  "record_outcome s run startedAt execErr w =
     (case sv_now s (pw_env w) of
        (finishedAt, env) \<Rightarrow>
          (case sv_now s env of
             (now, env) \<Rightarrow>
               (case mark_finished (sv_runs s) (rn_ID run) execErr
                       (milliseconds (time_sub finishedAt startedAt)) now (pw_runs w) of
                  Inl _ \<Rightarrow> w\<lparr>pw_env := env\<rparr>
                | Inr db \<Rightarrow> w\<lparr>pw_env := env, pw_runs := db\<rparr>)))"

definition executeRun ::
    "('p, 'r, 's, 'w) pipe_service \<Rightarrow> pipeline \<Rightarrow> pipeline_run \<Rightarrow> ('p, 'r, 's, 'w) pipe_world
     \<Rightarrow> ('p, 'r, 's, 'w) pipe_world" where
  "executeRun s p run w =
     unregister (rn_ID run)
       (case sv_now s (pw_env w) of
          (startedAt, env) \<Rightarrow>
            (case mark_started (sv_runs s) (rn_ID run) startedAt (pw_runs w) of
               Inl _ \<Rightarrow> w\<lparr>pw_env := env\<rparr>
             | Inr db \<Rightarrow>
                 (case mark_running (sv_runs s) (rn_ID run) db of
                    Inl _ \<Rightarrow> w\<lparr>pw_env := env, pw_runs := db\<rparr>
                  | Inr db \<Rightarrow>
                      (let steps = resolveSteps p;
                           w = primeStepOrder (rn_ID run) steps (w\<lparr>pw_env := env, pw_runs := db\<rparr>)
                       in case sv_executor s run (recordStepEvent s (rn_ID run)) steps w of
                            (execErr, w) \<Rightarrow> record_outcome s run startedAt execErr w))))"

text \<open>The local executor as the service's executor: its context is the one of the run.\<close>

definition run_context ::
    "(string \<Rightarrow> string \<Rightarrow> ('p, 'r, 's, 'w) pipe_world
        \<Rightarrow> (string \<times> cmd_error option) \<times> ('p, 'r, 's, 'w) pipe_world)
     \<Rightarrow> pipeline_run \<Rightarrow> ('p, 'r, 's, 'w) pipe_world exec_env" where
  "run_context run_cmd run =
     \<lparr>ex_ctxErr = (\<lambda>w. if rn_ID run \<in> pw_cancelled w then Some Canceled else None),
      ex_run = run_cmd, ex_block = (\<lambda>w. (None, w)), ex_delay = (\<lambda>w. (None, w))\<rparr>"

definition local_run_executor ::
    "local_exec
     \<Rightarrow> (string \<Rightarrow> string \<Rightarrow> ('p, 'r, 's, 'w) pipe_world
          \<Rightarrow> (string \<times> cmd_error option) \<times> ('p, 'r, 's, 'w) pipe_world)
     \<Rightarrow> ('p, 'r, 's, 'w) run_executor" where
  "local_run_executor l run_cmd run emit steps w = Local_Execute l (run_context run_cmd run) emit steps w"

subsection \<open>Cancel and the queries\<close>

definition cancel_duration :: "pipeline_run \<Rightarrow> time \<Rightarrow> int" where
  "cancel_duration run now =
     (case rn_StartedAt run of None \<Rightarrow> 0 | Some t \<Rightarrow> milliseconds (time_sub now t))"

definition signal_cancel ::
    "string \<Rightarrow> ('p, 'r, 's, 'w) pipe_world \<Rightarrow> ('p, 'r, 's, 'w) pipe_world" where
  "signal_cancel k w =
     (if k \<in> pw_running w then w\<lparr>pw_cancelled := insert k (pw_cancelled w)\<rparr> else w)"

definition Cancel ::
    "('p, 'r, 's, 'w) pipe_service \<Rightarrow> string \<Rightarrow> ('p, 'r, 's, 'w) pipe_world
     \<Rightarrow> go_error option \<times> ('p, 'r, 's, 'w) pipe_world" where
  "Cancel s runID w =
     (case GetRun (sv_runs s) (pw_runs w) runID of
        Inl err \<Rightarrow>
          (Some (if Pipe_IsNotFound err then run_not_found runID else internal ''failed to load run'' err), w)
      | Inr run \<Rightarrow>
          if RunStatus_Terminal (rn_Status run) then (None, w)
          else
            (let w = signal_cancel runID w
             in case sv_now s (pw_env w) of
                  (now, env) \<Rightarrow>
                    (case sv_now s env of
                       (finishedAt, env) \<Rightarrow>
                         (case UpdateRunFinished (sv_runs s) (pw_runs w) runID RunStatusCancelled
                                 (cancel_duration run now) '''' finishedAt of
                            Inl err \<Rightarrow> (Some (internal ''failed to cancel run'' err), w\<lparr>pw_env := env\<rparr>)
                          | Inr db \<Rightarrow> (None, w\<lparr>pw_env := env, pw_runs := db\<rparr>)))))"

definition Pipe_GetRun ::
    "('p, 'r, 's, 'w) pipe_service \<Rightarrow> string \<Rightarrow> ('p, 'r, 's, 'w) pipe_world \<Rightarrow> pipeline_run result" where
  "Pipe_GetRun s k w =
     (case GetRun (sv_runs s) (pw_runs w) k of
        Inl err \<Rightarrow>
          Inl (if Pipe_IsNotFound err then run_not_found k else internal ''failed to load run'' err)
      | Inr run \<Rightarrow> Inr run)"

definition Pipe_GetRunWithSteps ::
    "('p, 'r, 's, 'w) pipe_service \<Rightarrow> string \<Rightarrow> ('p, 'r, 's, 'w) pipe_world
     \<Rightarrow> (pipeline_run \<times> step_run list) result" where
  "Pipe_GetRunWithSteps s k w =
     (case repo_GetRunWithSteps (sv_runs s) (sv_steps s) (pw_runs w) (pw_steps w) k of
        Inl err \<Rightarrow>
          Inl (if Pipe_IsNotFound err then run_not_found k else internal ''failed to load run'' err)
      | Inr x \<Rightarrow> Inr x)"

definition ListRuns ::
    "('p, 'r, 's, 'w) pipe_service \<Rightarrow> string \<Rightarrow> int \<Rightarrow> int \<Rightarrow> ('p, 'r, 's, 'w) pipe_world
     \<Rightarrow> (pipeline_run list \<times> nat) result" where
  "ListRuns s pipelineID limit offset w =
     (case GetPipeline (sv_pipelines s) (pw_pipelines w) pipelineID of
        Inl err \<Rightarrow>
          Inl (if Pipe_IsNotFound err then pipeline_not_found pipelineID
               else internal ''failed to load pipeline'' err)
      | Inr _ \<Rightarrow>
          (case ListRunsForPipeline (sv_runs s) (pw_runs w) pipelineID limit offset of
             Inl err \<Rightarrow> Inl (internal ''failed to list runs'' err)
           | Inr x \<Rightarrow> Inr x))"

definition ListAllRecentRuns ::
    "('p, 'r, 's, 'w) pipe_service \<Rightarrow> int \<Rightarrow> int \<Rightarrow> ('p, 'r, 's, 'w) pipe_world
     \<Rightarrow> (pipeline_run list \<times> nat) result" where
  "ListAllRecentRuns s limit offset w =
     (case ListRecentRuns (sv_runs s) (pw_runs w) limit offset of
        Inl err \<Rightarrow> Inl (internal ''failed to list runs'' err)
      | Inr x \<Rightarrow> Inr x)"

subsection \<open>Statistics\<close>

text \<open>
  The success rate is the exact quotient; the code rounds it to a \<open>float64\<close>. The sum of the
  durations is an \<open>int64\<close> and wraps.
\<close>

record pipeline_stats =
  ps_PipelineID :: string
  ps_TotalRuns :: int
  ps_SuccessfulRuns :: int
  ps_FailedRuns :: int
  ps_CancelledRuns :: int
  ps_SuccessRate :: rat
  ps_AverageDurationMs :: int
  ps_RecentRuns :: "pipeline_run list"

definition wrap64 :: "int \<Rightarrow> int" where
  "wrap64 z = sint (word_of_int z :: int64)"

fun stats_loop :: "pipeline_run list \<Rightarrow> int \<times> int \<times> int \<times> int \<Rightarrow> int \<times> int \<times> int \<times> int" where
  "stats_loop [] acc = acc"
| "stats_loop (r # rs) (ok, bad, cancelled, dur) =
     stats_loop rs
       (case rn_Status r of
          RunStatusSucceeded \<Rightarrow> (ok + 1, bad, cancelled, wrap64 (dur + rn_DurationMs r))
        | RunStatusFailed \<Rightarrow> (ok, bad + 1, cancelled, wrap64 (dur + rn_DurationMs r))
        | RunStatusCancelled \<Rightarrow> (ok, bad, cancelled + 1, dur)
        | _ \<Rightarrow> (ok, bad, cancelled, dur))"

definition Pipe_Stats ::
    "('p, 'r, 's, 'w) pipe_service \<Rightarrow> string \<Rightarrow> ('p, 'r, 's, 'w) pipe_world \<Rightarrow> pipeline_stats result" where
  "Pipe_Stats s pipelineID w =
     (case ListRunsForPipeline (sv_runs s) (pw_runs w) pipelineID 10000 0 of
        Inl err \<Rightarrow> Inl (internal ''failed to load runs'' err)
      | Inr (rows, N) \<Rightarrow>
          (case stats_loop rows (0, 0, 0, 0) of
             (ok, bad, cancelled, dur) \<Rightarrow>
               Inr \<lparr>ps_PipelineID = pipelineID, ps_TotalRuns = int N, ps_SuccessfulRuns = ok,
                    ps_FailedRuns = bad, ps_CancelledRuns = cancelled,
                    ps_SuccessRate = (if 0 < N then of_int ok / of_nat N else 0),
                    ps_AverageDurationMs = (if 0 < ok + bad then go_div dur (ok + bad) else 0),
                    ps_RecentRuns = (if 10 < length rows then take 10 rows else rows)\<rparr>))"

end
