(* ===== verification/Pipeline_Facts.thy ===== *)
theory Pipeline_Facts
  imports Pipeline_Service
begin

text \<open>
  What the pipeline service guarantees: the rows it stores are valid, a rejected call changes
  nothing, the caller-guarded operations (which no route calls) stay inside the caller's projects, a trigger registers
  exactly one run, and what the statistics count. The tables are any tables that behave as
  documented (locale \<open>pipeline_tables\<close>).
\<close>

subsection \<open>The tables\<close>

locale pipeline_tables =
  fixes s :: "('p, 'r, 's, 'w) pipe_service"
    and pls :: "'p \<Rightarrow> string \<Rightarrow> pipeline option"
    and rns :: "'r \<Rightarrow> string \<Rightarrow> pipeline_run option"
    and sts :: "'s \<Rightarrow> string \<Rightarrow> step_run option"
  assumes pls_table: "gorm_table (sv_pipelines s) pl_ID pls"
    and rns_table: "gorm_table (sv_runs s) rn_ID rns"
    and sts_table: "gorm_table (sv_steps s) sr_ID sts"

sublocale pipeline_tables \<subseteq> P: gorm_repo "sv_pipelines s" pl_ID pls ErrPipelineNotFound "\<lambda>m. ''pipeline.'' @ m @ '': ''"
  using pls_table by (intro gorm_repo.intro gorm_repo_axioms.intro) simp_all

sublocale pipeline_tables \<subseteq> R: gorm_repo "sv_runs s" rn_ID rns ErrRunNotFound "\<lambda>m. ''pipeline.'' @ m @ '': ''"
  using rns_table by (intro gorm_repo.intro gorm_repo_axioms.intro) simp_all

sublocale pipeline_tables \<subseteq> S: gorm_repo "sv_steps s" sr_ID sts ErrRunNotFound "\<lambda>m. ''pipeline.'' @ m @ '': ''"
  using sts_table by (intro gorm_repo.intro gorm_repo_axioms.intro) simp_all

type_synonym mem_world = "(pipeline list, pipeline_run list, step_run list, nat) pipe_world"
type_synonym mem_service = "(pipeline list, pipeline_run list, step_run list, nat) pipe_service"

text \<open>
  The service on the in-memory tables: the environment is a counter, read as the clock (in
  seconds) and as the source of identifiers.
\<close>

definition mem_pipes :: "(pipeline list, pipeline_run list, step_run list, nat) run_executor \<Rightarrow> mem_service" where
  "mem_pipes ex =
     \<lparr>sv_pipelines = mem_gorm pl_ID, sv_runs = mem_gorm rn_ID, sv_steps = mem_gorm sr_ID,
      sv_executor = ex, sv_serviceValidator = None,
      sv_membershipChecker = Some (\<lambda>u w. ((Some {''p1''}, None), w)), sv_audit = True,
      sv_now = (\<lambda>n. (Time (int n * Second), Suc n)), sv_newID = (\<lambda>n. (replicate (Suc n) CHR ''x'', Suc n))\<rparr>"

lemma mem_pipes_sel [simp]:
  "sv_pipelines (mem_pipes ex) = mem_gorm pl_ID" "sv_runs (mem_pipes ex) = mem_gorm rn_ID"
  "sv_steps (mem_pipes ex) = mem_gorm sr_ID" "sv_executor (mem_pipes ex) = ex"
  "sv_serviceValidator (mem_pipes ex) = None" "sv_audit (mem_pipes ex) = True"
  "sv_now (mem_pipes ex) n = (Time (int n * Second), Suc n)"
  "sv_newID (mem_pipes ex) n = (replicate (Suc n) CHR ''x'', Suc n)"
  "sv_membershipChecker (mem_pipes ex) = Some (\<lambda>u w. ((Some {''p1''}, None), w))"
  by (simp_all add: mem_pipes_def)

interpretation mem_pipes: pipeline_tables "mem_pipes ex" "mem_rows pl_ID" "mem_rows rn_ID" "mem_rows sr_ID"
  for ex
  by (rule pipeline_tables.intro; simp only: mem_pipes_sel mem.gorm_table_axioms)

subsection \<open>Create, update, delete\<close>

text \<open>What the rows of the pipelines table satisfy; the HTTP surface cannot set a strategy.\<close>

definition step_ok :: "pipeline_step \<Rightarrow> bool" where
  "step_ok st \<longleftrightarrow> TrimSpace (st_Name st) \<noteq> '''' \<and> StepType_Valid (st_Type st)"

definition pipeline_ok :: "pipeline \<Rightarrow> bool" where
  "pipeline_ok p \<longleftrightarrow> TrimSpace (pl_Name p) \<noteq> '''' \<and> TrimSpace (pl_ProjectID p) \<noteq> ''''
     \<and> TargetType_Valid (pl_TargetType p) \<and> pl_Steps p \<noteq> [] \<and> list_all step_ok (pl_Steps p)
     \<and> pl_Strategy p = '''' \<and> pl_Trigger p \<noteq> ''''"

lemma validate_steps_None: "validate_steps i sts = None \<longleftrightarrow> list_all step_ok sts"
  by (induction sts arbitrary: i) (auto simp: step_ok_def)

lemma validateCreate_None:
  "validateCreate inp = None \<longleftrightarrow> TrimSpace (ci_Name inp) \<noteq> '''' \<and> TrimSpace (ci_ProjectID inp) \<noteq> ''''
     \<and> TargetType_Valid (ci_TargetType inp) \<and> ci_Steps inp \<noteq> [] \<and> list_all step_ok (ci_Steps inp)"
  by (auto simp: validateCreate_def validate_steps_None split: if_splits)

lemma validateCreate_code: "validateCreate inp = Some e \<Longrightarrow> \<exists>m. e = validation m"
proof -
  have "validate_steps i sts = Some e \<Longrightarrow> \<exists>m. e = validation m" for i sts
    by (induction sts arbitrary: i) (auto split: if_splits)
  then show "validateCreate inp = Some e \<Longrightarrow> \<exists>m. e = validation m"
    by (auto simp: validateCreate_def split: if_splits)
qed

definition created :: "string \<Rightarrow> create_input \<Rightarrow> pipeline" where
  "created newID inp = pipeline_defaults (Pipeline_BeforeCreate newID (new_pipeline inp))"

lemma created_ok: "validateCreate inp = None \<Longrightarrow> pipeline_ok (created newID inp)"
  by (simp add: created_def pipeline_defaults_def Pipeline_BeforeCreate_def new_pipeline_def validateCreate_None pipeline_ok_def)

lemma created_sel [simp]:
  "pl_ID (created newID inp) = newID" "pl_ProjectID (created newID inp) = TrimSpace (ci_ProjectID inp)"
  "pl_Steps (created newID inp) = ci_Steps inp" "pl_Name (created newID inp) = TrimSpace (ci_Name inp)"
  by (simp_all add: created_def pipeline_defaults_def Pipeline_BeforeCreate_def new_pipeline_def)

lemma apply_update_ok:
  "apply_update inp p = Inr p' \<Longrightarrow> pipeline_ok p \<Longrightarrow> pipeline_ok p'"
  by (auto simp: apply_update_def pipeline_ok_def Let_def split: option.splits if_splits)

lemma apply_update_frame:
  "apply_update inp p = Inr p' \<Longrightarrow> pl_ID p' = pl_ID p \<and> pl_ProjectID p' = pl_ProjectID p
     \<and> pl_Steps p' = pl_Steps p \<and> pl_Strategy p' = pl_Strategy p"
  by (auto simp: apply_update_def Let_def split: option.splits if_splits)

text \<open>A world in which only the environment was read.\<close>

definition untouched :: "('p, 'r, 's, 'w) pipe_world \<Rightarrow> ('p, 'r, 's, 'w) pipe_world \<Rightarrow> bool" where
  "untouched w w' \<longleftrightarrow> w' = w\<lparr>pw_env := pw_env w'\<rparr>"

lemma untouched_refl [simp, intro]: "untouched w w"
  by (simp add: untouched_def)

lemma untouched_env [simp]: "untouched w (w\<lparr>pw_env := e\<rparr>)"
  by (simp add: untouched_def)

lemma untouched_sel:
  assumes "untouched w w'"
  shows "pw_pipelines w' = pw_pipelines w" "pw_runs w' = pw_runs w" "pw_steps w' = pw_steps w"
    "pw_running w' = pw_running w" "pw_audit w' = pw_audit w" "pw_jobs w' = pw_jobs w"
  using assms unfolding untouched_def by (metis pipe_world.select_convs pipe_world.surjective pipe_world.update_convs)+

lemma emitAudit_sel [simp]:
  "pw_pipelines (emitAudit s a w) = pw_pipelines w" "pw_runs (emitAudit s a w) = pw_runs w"
  "pw_steps (emitAudit s a w) = pw_steps w" "pw_running (emitAudit s a w) = pw_running w"
  "pw_jobs (emitAudit s a w) = pw_jobs w"
  "pw_audit (emitAudit s a w) = pw_audit w @ (if sv_audit s then [a] else [])"
  by (simp_all add: emitAudit_def)

context pipeline_tables
begin

text \<open>Each operation either leaves everything but the environment alone, or does one write.\<close>

lemma Create_cases:
  assumes "Pipe_Create s inp w = (res, w')"
  obtains (rejected) e where "res = Inl e" "untouched w w'"
  | (stored) newID env db where "validateCreate inp = None"
      "validateServiceID (sv_serviceValidator s) (ci_ServiceID inp) = None"
      "sv_newID s (pw_env w) = (newID, env)" "res = Inr (created newID inp)"
      "pls (pw_pipelines w) newID = None" "pls db = (pls (pw_pipelines w))(newID \<mapsto> created newID inp)"
      "w' = emitAudit s \<lparr>aa_Action = ''create'', aa_ResourceID = newID,
         aa_Metadata = [(''name'', pl_Name (created newID inp)), (''project_id'', pl_ProjectID (created newID inp)),
           (''trigger'', pl_Trigger (created newID inp))]\<rparr> (w\<lparr>pw_env := env, pw_pipelines := db\<rparr>)"
proof (cases "validateCreate inp")
  case (Some e)
  with assms rejected show ?thesis by (auto simp: Pipe_Create_def)
next
  case v: None
  show ?thesis
  proof (cases "validateServiceID (sv_serviceValidator s) (ci_ServiceID inp)")
    case (Some e)
    with assms v rejected show ?thesis by (auto simp: Pipe_Create_def)
  next
    case vs: None
    obtain newID env where n: "sv_newID s (pw_env w) = (newID, env)" by fastforce
    show ?thesis
    proof (cases "repo_Create (sv_pipelines s) ''pipeline.Create: '' (pw_pipelines w) (created newID inp)")
      case (Inl e)
      with assms v vs n rejected show ?thesis
        by (auto simp: Pipe_Create_def CreatePipeline_def created_def Let_def)
    next
      case (Inr db)
      from P.Create_row [OF Inr] have "pls (pw_pipelines w) newID = None"
        "pls db = (pls (pw_pipelines w))(newID \<mapsto> created newID inp)" by simp_all
      moreover from Inr assms v vs n created_sel [of newID inp] have "res = Inr (created newID inp)"
        "w' = emitAudit s \<lparr>aa_Action = ''create'', aa_ResourceID = newID,
         aa_Metadata = [(''name'', pl_Name (created newID inp)), (''project_id'', pl_ProjectID (created newID inp)),
           (''trigger'', pl_Trigger (created newID inp))]\<rparr> (w\<lparr>pw_env := env, pw_pipelines := db\<rparr>)"
        by (simp_all add: Pipe_Create_def CreatePipeline_def flip: created_def)
      ultimately show ?thesis using v vs n by (intro stored)
    qed
  qed
qed

lemma Get_ok: "Pipe_Get s k w = Inr p \<Longrightarrow> pls (pw_pipelines w) k = Some p \<and> pl_ID p = k"
  by (auto simp: Pipe_Get_def dest: P.Get_row split: sum.splits)

lemma Update_cases:
  assumes "Pipe_Update s k inp w = (res, w')"
  obtains (rejected) e where "res = Inl e" "w' = w"
  | (stored) p p' db where "pls (pw_pipelines w) k = Some p" "pl_ID p = k" "apply_update inp p = Inr p'"
      "res = Inr p'" "pls db = (pls (pw_pipelines w))(k \<mapsto> p')"
      "w' = emitAudit s \<lparr>aa_Action = ''update'', aa_ResourceID = k, aa_Metadata = []\<rparr> (w\<lparr>pw_pipelines := db\<rparr>)"
proof -
  let ?v = "case ui_ServiceID inp of None \<Rightarrow> None | Some sid \<Rightarrow> validateServiceID (sv_serviceValidator s) sid"
  show ?thesis
  proof (cases "?v = None \<and> (\<exists>p p' db. Pipe_Get s k w = Inr p \<and> apply_update inp p = Inr p'
      \<and> UpdatePipeline (sv_pipelines s) (pw_pipelines w) p' = Inr db)")
    case True
    then obtain p p' db where c: "?v = None" "Pipe_Get s k w = Inr p" "apply_update inp p = Inr p'"
      "UpdatePipeline (sv_pipelines s) (pw_pipelines w) p' = Inr db" by blast
    from Get_ok [OF c(2)] apply_update_frame [OF c(3)] P.Update_row [OF c(4)]
    have "pls (pw_pipelines w) k = Some p" "pl_ID p = k" "pl_ID p' = k"
      "pls db = (pls (pw_pipelines w))(k \<mapsto> p')" by auto
    with c assms show ?thesis by (intro stored) (auto simp: Pipe_Update_def)
  next
    case False
    with assms have "\<exists>e. res = Inl e" "w' = w"
      by (auto simp: Pipe_Update_def dest: sym split: option.splits sum.splits)
    with rejected show ?thesis by blast
  qed
qed

lemma Delete_cases:
  assumes "Pipe_Delete s k w = (err, w')"
  obtains (rejected) e where "err = Some e" "w' = w"
  | (stored) p db where "err = None" "pls (pw_pipelines w) k = Some p" "pls db = (pls (pw_pipelines w))(k := None)"
      "w' = emitAudit s \<lparr>aa_Action = ''delete'', aa_ResourceID = k, aa_Metadata = []\<rparr> (w\<lparr>pw_pipelines := db\<rparr>)"
proof (cases "DeletePipeline (sv_pipelines s) (pw_pipelines w) k")
  case (Inl e)
  with assms rejected show ?thesis by (auto simp: Pipe_Delete_def)
next
  case (Inr db)
  with P.Delete_row [OF Inr] assms stored show ?thesis by (auto simp: Pipe_Delete_def)
qed

end

subsection \<open>Requests\<close>

text \<open>
  The writes of the service behind its guards: the caller-guarded operations in the context \<open>ctx\<close>, the
  trigger and the cancellation. No route of the program calls the guarded operations; what the routes do
  is in \<open>Pipeline_Http\<close>.
\<close>

inductive pipe_request ::
    "('p, 'r, 's, 'w) pipe_service \<Rightarrow> ctx \<Rightarrow> ('p, 'r, 's, 'w) pipe_world \<Rightarrow> ('p, 'r, 's, 'w) pipe_world \<Rightarrow> bool"
  for s and ctx where
  create: "CreateWithCaller s ctx inp w = (res, w') \<Longrightarrow> pipe_request s ctx w w'"
| update: "UpdateWithCaller s ctx k uin w = (res, w') \<Longrightarrow> pipe_request s ctx w w'"
| delete: "DeleteWithCaller s ctx k w = (err, w') \<Longrightarrow> pipe_request s ctx w w'"
| trigger: "Trigger s k by w = (run, w') \<Longrightarrow> pipe_request s ctx w w'"
| cancel: "Cancel s k w = (err, w') \<Longrightarrow> pipe_request s ctx w w'"

inductive_cases pipe_requestE: "pipe_request s ctx w w'"

lemma member_or_admin_frame:
  "member_or_admin s cl pid w = (b, w1) \<Longrightarrow> \<exists>env. w1 = w\<lparr>pw_env := env\<rparr>"
  by (auto simp: member_or_admin_def intro: exI [of _ "pw_env w"] split: if_splits prod.splits)

lemma member_or_admin_granted:
  assumes "sv_membershipChecker s = Some m" "\<And>w. fst (m (user_ID u) w) = a"
    and "member_or_admin s (Some (New (Some u))) pid w = (True, w1)"
  shows "user_Role u = RoleSuperAdmin \<or> pid \<in> granted a"
proof (cases "user_Role u = RoleSuperAdmin")
  case False
  obtain cl' w' where e: "IsMemberOf pid (Some m) (Some (New (Some u))) (pw_env w) = (True, cl', w')"
    using assms(1,3) False by (auto simp: member_or_admin_def New_def split: prod.splits)
  from IsMemberOf_cache [OF cache_of_New [of u a] _ e] assms(2) show ?thesis by blast
qed simp

lemma Trigger_frame: "Trigger s k by w = (run, w') \<Longrightarrow> pw_pipelines w' = pw_pipelines w"
  by (auto simp: Trigger_def Let_def split: sum.splits if_splits prod.splits)

lemma Cancel_frame:
  assumes "Cancel s k w = (err, w')"
  shows "pw_pipelines w' = pw_pipelines w \<and> pw_jobs w' = pw_jobs w"
proof -
  have "pw_pipelines (signal_cancel k w) = pw_pipelines w" "pw_jobs (signal_cancel k w) = pw_jobs w"
    by (simp_all add: signal_cancel_def)
  with assms show ?thesis by (auto simp: Cancel_def Let_def split: sum.splits if_splits prod.splits)
qed

lemma authenticated_New [simp]: "authenticated (Some (Some (New (Some u)))) = Some (Some (New (Some u)))"
  by (simp add: authenticated_def FromContext_def New_def)

text \<open>The three guarded operations, reduced to the plain one behind the guard.\<close>

lemma guarded_cases:
  assumes "CreateWithCaller s ctx inp w = (res, w')"
  obtains (refused) "untouched w w'"
  | (allowed) cl w1 where "authenticated ctx = Some cl" "member_or_admin s cl (ci_ProjectID inp) w = (True, w1)"
      "Pipe_Create s inp w1 = (res, w')"
  using assms member_or_admin_frame [of s _ "ci_ProjectID inp" w]
  by (fastforce simp: CreateWithCaller_def split: option.splits prod.splits if_splits)

context pipeline_tables
begin

lemma guarded_update:
  assumes "UpdateWithCaller s ctx k inp w = (res, w')"
  obtains (refused) "untouched w w'"
  | (allowed) cl p w1 where "authenticated ctx = Some cl" "pls (pw_pipelines w) k = Some p"
      "member_or_admin s cl (pl_ProjectID p) w = (True, w1)" "Pipe_Update s k inp w1 = (res, w')"
proof (cases "authenticated ctx")
  case None
  with assms refused show ?thesis by (auto simp: UpdateWithCaller_def)
next
  case (Some cl)
  show ?thesis
  proof (cases "GetPipeline (sv_pipelines s) (pw_pipelines w) k")
    case (Inl e)
    with assms Some refused show ?thesis by (auto simp: UpdateWithCaller_def)
  next
    case (Inr p)
    obtain b w1 where m: "member_or_admin s cl (pl_ProjectID p) w = (b, w1)" by fastforce
    from P.Get_row [OF Inr] assms Some Inr m
      member_or_admin_frame [OF m] refused
    show ?thesis by (cases b) (auto simp: UpdateWithCaller_def allowed)
  qed
qed

lemma guarded_delete:
  assumes "DeleteWithCaller s ctx k w = (err, w')"
  obtains (refused) "untouched w w'"
  | (allowed) cl p w1 where "authenticated ctx = Some cl" "pls (pw_pipelines w) k = Some p"
      "member_or_admin s cl (pl_ProjectID p) w = (True, w1)" "Pipe_Delete s k w1 = (err, w')"
proof (cases "authenticated ctx")
  case None
  with assms refused show ?thesis by (auto simp: DeleteWithCaller_def)
next
  case (Some cl)
  show ?thesis
  proof (cases "GetPipeline (sv_pipelines s) (pw_pipelines w) k")
    case (Inl e)
    with assms Some refused show ?thesis by (auto simp: DeleteWithCaller_def)
  next
    case (Inr p)
    obtain b w1 where m: "member_or_admin s cl (pl_ProjectID p) w = (b, w1)" by fastforce
    from P.Get_row [OF Inr] assms Some Inr m member_or_admin_frame [OF m] refused
    show ?thesis by (cases b) (auto simp: DeleteWithCaller_def allowed)
  qed
qed

end

context pipeline_tables
begin

lemma Trigger_cases:
  assumes "Trigger s k by w = (res, w')"
  obtains (rejected) e where "res = Inl e" "untouched w w'"
  | (started) p run newID env db where "pls (pw_pipelines w) k = Some p" "pl_ID p = k" "pl_Enabled p"
      "run = \<lparr>rn_ID = newID, rn_PipelineID = k, rn_Status = RunStatusPending, rn_StartedAt = None,
         rn_FinishedAt = None, rn_DurationMs = 0, rn_TriggeredBy = by, rn_ErrorMessage = ''''\<rparr>"
      "res = Inr run" "rns (pw_runs w) newID = None" "rns db = (rns (pw_runs w))(newID \<mapsto> run)"
      "w' = (emitAudit s \<lparr>aa_Action = ''trigger'', aa_ResourceID = k,
           aa_Metadata = [(''run_id'', newID), (''triggered_by'', by)]\<rparr>
          (w\<lparr>pw_env := env, pw_runs := db, pw_running := insert newID (pw_running w)\<rparr>))
          \<lparr>pw_jobs := pw_jobs w @ [(p, run)]\<rparr>"
proof (cases "GetPipeline (sv_pipelines s) (pw_pipelines w) k")
  case (Inl e)
  with assms rejected show ?thesis by (auto simp: Trigger_def)
next
  case p: (Inr p)
  show ?thesis
  proof (cases "pl_Enabled p")
    case False
    with assms p rejected show ?thesis by (auto simp: Trigger_def)
  next
    case True
    obtain newID env where n: "sv_newID s (pw_env w) = (newID, env)" by fastforce
    let ?run = "\<lparr>rn_ID = newID, rn_PipelineID = k, rn_Status = RunStatusPending, rn_StartedAt = None,
         rn_FinishedAt = None, rn_DurationMs = 0, rn_TriggeredBy = by, rn_ErrorMessage = ''''\<rparr>"
    from P.Get_row [OF p] have k: "pls (pw_pipelines w) k = Some p" "pl_ID p = k" by simp_all
    show ?thesis
    proof (cases "repo_Create (sv_runs s) ''pipeline.CreateRun: '' (pw_runs w) ?run")
      case (Inl e)
      with assms p True n k rejected show ?thesis by (auto simp: Trigger_def CreateRun_def Let_def)
    next
      case (Inr db)
      from R.Create_row [OF Inr] have "rns (pw_runs w) newID = None"
        "rns db = (rns (pw_runs w))(newID \<mapsto> ?run)" by simp_all
      with Inr assms p True n k show ?thesis
        by (intro started [OF k True refl]) (auto simp: Trigger_def CreateRun_def Let_def)
    qed
  qed
qed

text \<open>What every request keeps: the validity of the stored rows and of the started jobs.\<close>

definition all_ok :: "('p, 'r, 's, 'w) pipe_world \<Rightarrow> bool" where
  "all_ok w \<longleftrightarrow> (\<forall>k p. pls (pw_pipelines w) k = Some p \<longrightarrow> pipeline_ok p)
     \<and> (\<forall>(p, run) \<in> set (pw_jobs w). pipeline_ok p \<and> pl_Enabled p \<and> rn_PipelineID run = pl_ID p)"

lemma all_ok_untouched: "untouched w w' \<Longrightarrow> all_ok w' = all_ok w"
  by (simp add: all_ok_def untouched_sel)

lemma all_ok_env [simp]: "all_ok (w\<lparr>pw_env := e\<rparr>) = all_ok w"
  by (simp add: all_ok_def)

lemma request_all_ok:
  assumes "pipe_request s ctx w w'" "all_ok w"
  shows "all_ok w'"
  using assms
proof (cases rule: pipe_request.cases)
  case (create inp res)
  from create show ?thesis
  proof (cases rule: guarded_cases)
    case (allowed cl w1)
    from member_or_admin_frame [OF allowed(2)] assms(2) have "all_ok w1" by auto
    with allowed(3) show ?thesis
      by (cases rule: Create_cases) (auto simp: all_ok_untouched, auto simp: all_ok_def created_ok)
  qed (simp add: all_ok_untouched assms(2))
next
  case (update k inp res)
  from update show ?thesis
  proof (cases rule: guarded_update)
    case (allowed cl p w1)
    from member_or_admin_frame [OF allowed(3)] assms(2) have "all_ok w1" by auto
    with allowed(4) show ?thesis
      by (cases rule: Update_cases) (auto simp: all_ok_def dest: apply_update_ok)
  qed (simp add: all_ok_untouched assms(2))
next
  case (delete k err)
  from delete show ?thesis
  proof (cases rule: guarded_delete)
    case (allowed cl p w1)
    from member_or_admin_frame [OF allowed(3)] assms(2) have "all_ok w1" by auto
    with allowed(4) show ?thesis
      by (cases rule: Delete_cases) (auto simp: all_ok_def)
  qed (simp add: all_ok_untouched assms(2))
next
  case (trigger k "by" run)
  from trigger show ?thesis
  proof (cases rule: Trigger_cases)
    case (started p run newID env db)
    with assms(2) show ?thesis by (auto simp: all_ok_def)
  qed (simp add: all_ok_untouched assms(2))
next
  case (cancel k err)
  from Cancel_frame [OF cancel] assms(2) show ?thesis by (simp add: all_ok_def)
qed

lemma requests_all_ok: "(\<lambda>w w'. \<exists>ctx. pipe_request s ctx w w')\<^sup>*\<^sup>* w0 w \<Longrightarrow> all_ok w0 \<Longrightarrow> all_ok w"
  by (induction rule: rtranclp_induct) (auto intro: request_all_ok)

lemma request_project:
  assumes "pipe_request s (Some (Some (New (Some u)))) w w'"
    and "sv_membershipChecker s = Some m" "\<And>w. fst (m (user_ID u) w) = a" "user_Role u \<noteq> RoleSuperAdmin"
    and trim: "\<And>pid. pid \<in> granted a \<Longrightarrow> TrimSpace pid = pid"
    and ne: "pls (pw_pipelines w') k \<noteq> pls (pw_pipelines w) k"
  shows "\<exists>pid \<in> granted a. (\<forall>p. pls (pw_pipelines w) k = Some p \<longrightarrow> pl_ProjectID p = pid)
    \<and> (\<forall>p. pls (pw_pipelines w') k = Some p \<longrightarrow> pl_ProjectID p = pid)"
  using assms(1)
proof (cases rule: pipe_request.cases)
  case (create inp res)
  from create show ?thesis
  proof (cases rule: guarded_cases)
    case refused
    with ne show ?thesis by (simp add: untouched_sel)
  next
    case (allowed cl w1)
    from allowed(1,2) member_or_admin_granted [OF assms(2,3)] assms(4)
    have g: "ci_ProjectID inp \<in> granted a" by auto
    from allowed(3) show ?thesis
    proof (cases rule: Create_cases)
      case (stored newID env db)
      with ne member_or_admin_frame [OF allowed(2)] have "k = newID" by (auto split: if_splits)
      with stored g trim [OF g] member_or_admin_frame [OF allowed(2)] show ?thesis by auto
    qed (use ne member_or_admin_frame [OF allowed(2)] untouched_sel in fastforce)
  qed
next
  case (update k' inp res)
  from update show ?thesis
  proof (cases rule: guarded_update)
    case refused
    with ne show ?thesis by (simp add: untouched_sel)
  next
    case (allowed cl p w1)
    from allowed(1,3) member_or_admin_granted [OF assms(2,3)] assms(4)
    have g: "pl_ProjectID p \<in> granted a" by auto
    from allowed(4) show ?thesis
    proof (cases rule: Update_cases)
      case (stored p0 p' db)
      with ne member_or_admin_frame [OF allowed(3)] have k: "k = k'" by (auto split: if_splits)
      with stored allowed(2) member_or_admin_frame [OF allowed(3)] apply_update_frame [OF stored(3)]
      show ?thesis by (intro bexI [OF _ g]) auto
    qed (use ne member_or_admin_frame [OF allowed(3)] in auto)
  qed
next
  case (delete k' err)
  from delete show ?thesis
  proof (cases rule: guarded_delete)
    case refused
    with ne show ?thesis by (simp add: untouched_sel)
  next
    case (allowed cl p w1)
    from allowed(1,3) member_or_admin_granted [OF assms(2,3)] assms(4)
    have g: "pl_ProjectID p \<in> granted a" by auto
    from allowed(4) show ?thesis
    proof (cases rule: Delete_cases)
      case (stored p0 db)
      with ne member_or_admin_frame [OF allowed(3)] have k: "k = k'" by (auto split: if_splits)
      with stored allowed(2) member_or_admin_frame [OF allowed(3)]
      show ?thesis by (intro bexI [OF _ g]) auto
    qed (use ne member_or_admin_frame [OF allowed(3)] in auto)
  qed
next
  case (trigger k "by" run)
  with ne Trigger_frame [OF trigger] show ?thesis by simp
next
  case (cancel k err)
  with ne Cancel_frame [OF cancel] show ?thesis by simp
qed

end

subsection \<open>Properties\<close>

text \<open>
  Behind the guards, a caller who is not SuperAdmin writes only inside the caller's projects: for every
  guarded operation made in the caller's context, a row of the pipelines table that it changes, creates or removes
  belongs before and after to one project that the membership query granted; the granted names are
  assumed to have no surrounding white space, because the guard looks at the project as sent and
  the row stores it trimmed.
\<close>

theorem pipeline_writes_stay_in_granted_projects:
  assumes "pipeline_tables s pls rns sts"
    and "pipe_request s (Some (Some (New (Some u)))) w w'"
    and "sv_membershipChecker s = Some m" "\<And>w. fst (m (user_ID u) w) = a" "user_Role u \<noteq> RoleSuperAdmin"
    and "\<And>pid. pid \<in> granted a \<Longrightarrow> TrimSpace pid = pid"
    and "pls (pw_pipelines w') k \<noteq> pls (pw_pipelines w) k"
  shows "\<exists>pid \<in> granted a. (\<forall>p. pls (pw_pipelines w) k = Some p \<longrightarrow> pl_ProjectID p = pid)
    \<and> (\<forall>p. pls (pw_pipelines w') k = Some p \<longrightarrow> pl_ProjectID p = pid)"
  using pipeline_tables.request_project [OF assms(1)] assms(2-7) by blast

abbreviation demo_executor :: "(pipeline list, pipeline_run list, step_run list, nat) run_executor" where
  "demo_executor \<equiv> local_run_executor (NewLocal [])
     (\<lambda>sh cmd w. ((''out'', if cmd = ''false'' then Some (ExitError 1) else None), w))"

abbreviation demo_input :: create_input where
  "demo_input \<equiv> \<lparr>ci_Name = ''deploy'', ci_Description = '''', ci_ProjectID = ''p1'', ci_TargetType = ''project'',
     ci_TargetID = '''', ci_ServiceID = '''', ci_Trigger = '''', ci_Steps = [shell_step ''a'' ''true''],
     ci_Enabled = Some False\<rparr>"

abbreviation demo_world :: mem_world where
  "demo_world \<equiv> \<lparr>pw_pipelines = [], pw_runs = [], pw_steps = [], pw_running = {}, pw_cancelled = {},
     pw_stepRunCache = (\<lambda>_. None), pw_stepOrderCache = (\<lambda>_. None), pw_env = 0, pw_audit = [], pw_jobs = []\<rparr>"

abbreviation demo_user :: user where
  "demo_user \<equiv> \<lparr>user_ID = ''u1'', user_Username = ''u1'', user_Email = '''', user_Role = RoleDeveloper, user_ProjectRole = ''viewer''\<rparr>"

lemma demo_input_valid: "validateCreate demo_input = None"
proof -
  have "TrimSpace ''deploy'' = ''deploy''" "TrimSpace ''p1'' = ''p1''" "TrimSpace ''a'' = ''a''" by code_simp+
  then show ?thesis by (simp add: validateCreate_None TargetType_Valid_def step_ok_def StepType_Valid_def)
qed

lemma demo_create:
  "Pipe_Create (mem_pipes ex) demo_input demo_world =
     (Inr (created ''x'' demo_input),
      emitAudit (mem_pipes ex) \<lparr>aa_Action = ''create'', aa_ResourceID = ''x'',
         aa_Metadata = [(''name'', pl_Name (created ''x'' demo_input)), (''project_id'', pl_ProjectID (created ''x'' demo_input)),
           (''trigger'', pl_Trigger (created ''x'' demo_input))]\<rparr>
        (demo_world\<lparr>pw_env := 1, pw_pipelines := [created ''x'' demo_input]\<rparr>))"
  using demo_input_valid
  by (simp add: Pipe_Create_def validateServiceID_def CreatePipeline_def repo_Create_def mem_Create Let_def
      flip: created_def)

lemma demo_request:
  "pipe_request (mem_pipes ex) (Some (Some (New (Some demo_user)))) demo_world
     (snd (Pipe_Create (mem_pipes ex) demo_input demo_world))"
proof (rule pipe_request.create)
  show "CreateWithCaller (mem_pipes ex) (Some (Some (New (Some demo_user)))) demo_input demo_world
      = (fst (Pipe_Create (mem_pipes ex) demo_input demo_world), snd (Pipe_Create (mem_pipes ex) demo_input demo_world))"
    by (simp add: CreateWithCaller_def authenticated_def FromContext_def New_def member_or_admin_def
        IsMemberOf_def load_memberships_def)
qed

theorem pipeline_writes_stay_in_granted_projects_witness:
  "mem_rows pl_ID (pw_pipelines (snd (Pipe_Create (mem_pipes demo_executor) demo_input demo_world))) ''x'' \<noteq> None
    \<and> (\<exists>pid \<in> granted (Some {''p1''}, None :: go_error option).
         mem_rows pl_ID (pw_pipelines (snd (Pipe_Create (mem_pipes demo_executor) demo_input demo_world))) ''x''
           \<in> {Some p | p. pl_ProjectID p = pid})"
proof -
  let ?s = "mem_pipes demo_executor"
  let ?w' = "snd (Pipe_Create ?s demo_input demo_world)"
  have row: "mem_rows pl_ID (pw_pipelines ?w') ''x'' = Some (created ''x'' demo_input)"
    by (simp add: demo_create)
  have "TrimSpace ''p1'' = ''p1''" by code_simp
  then have "\<exists>pid \<in> granted (Some {''p1''}, None :: go_error option).
      (\<forall>p. mem_rows pl_ID (pw_pipelines demo_world) ''x'' = Some p \<longrightarrow> pl_ProjectID p = pid)
    \<and> (\<forall>p. mem_rows pl_ID (pw_pipelines ?w') ''x'' = Some p \<longrightarrow> pl_ProjectID p = pid)"
    using row
    by (intro pipeline_writes_stay_in_granted_projects [OF mem_pipes.pipeline_tables_axioms demo_request])
      (auto simp: granted_def)
  then obtain pid where "pid \<in> granted (Some {''p1''}, None :: go_error option)"
    "pl_ProjectID (created ''x'' demo_input) = pid" using row by blast
  with row show ?thesis by blast
qed

text \<open>
  Every stored pipeline is valid and every started job runs a valid, enabled pipeline. After
  any sequence of requests by any callers, each row of the pipelines table has a name, a project, a
  valid target type and a non-empty list of named steps of valid types, and each goroutine that a
  trigger started was given an enabled pipeline of that kind whose steps are run as they were
  stored, because no request can set a strategy.
\<close>

theorem stored_pipelines_valid:
  assumes "pipeline_tables s pls rns sts"
    and "(\<lambda>w w'. \<exists>ctx. pipe_request s ctx w w')\<^sup>*\<^sup>* w0 w"
    and "\<And>k p. pls (pw_pipelines w0) k = Some p \<Longrightarrow> pipeline_ok p" "pw_jobs w0 = []"
  shows "(\<forall>k p. pls (pw_pipelines w) k = Some p \<longrightarrow> pipeline_ok p)
    \<and> (\<forall>(p, run) \<in> set (pw_jobs w). pipeline_ok p \<and> pl_Enabled p \<and> rn_PipelineID run = pl_ID p
         \<and> resolveSteps p = pl_Steps p)"
proof -
  have "pipeline_tables.all_ok pls w0"
    using assms(3,4) by (simp add: pipeline_tables.all_ok_def [OF assms(1)])
  from pipeline_tables.requests_all_ok [OF assms(1,2) this]
  have ok: "pipeline_tables.all_ok pls w" .
  have "pipeline_ok p \<Longrightarrow> resolveSteps p = pl_Steps p" for p
    by (simp add: pipeline_ok_def resolveSteps_def PlanForPipeline_def)
  with ok show ?thesis by (fastforce simp: pipeline_tables.all_ok_def [OF assms(1)])
qed

theorem stored_pipelines_valid_witness:
  "pw_pipelines (snd (Pipe_Create (mem_pipes demo_executor) demo_input demo_world)) \<noteq> []
    \<and> pipeline_ok (created ''x'' demo_input)"
proof -
  let ?s = "mem_pipes demo_executor"
  let ?w' = "snd (Pipe_Create ?s demo_input demo_world)"
  have "(\<lambda>w w'. \<exists>ctx. pipe_request ?s ctx w w')\<^sup>*\<^sup>* demo_world ?w'"
    using demo_request by (intro r_into_rtranclp) blast
  from stored_pipelines_valid [OF mem_pipes.pipeline_tables_axioms this]
  have "\<forall>k p. mem_rows pl_ID (pw_pipelines ?w') k = Some p \<longrightarrow> pipeline_ok p" by simp
  moreover have "mem_rows pl_ID (pw_pipelines ?w') ''x'' = Some (created ''x'' demo_input)"
    by (simp add: demo_create)
  ultimately show ?thesis by (auto simp: demo_create)
qed

text \<open>
  A pipeline cannot be created disabled. The request's \<open>enabled: false\<close> passes the service, but the
  column's default replaces the zero value on insertion: the stored row and the response are
  enabled, and a trigger of it starts a run.
\<close>

theorem disabled_pipeline_is_created_enabled:
  assumes "pipeline_tables s pls rns sts" "ci_Enabled inp = Some False"
    and "Pipe_Create s inp w = (Inr p, w')" "Trigger s (pl_ID p) by w' = (res, w'')"
  shows "pl_Enabled p \<and> pls (pw_pipelines w') (pl_ID p) = Some p
    \<and> res \<noteq> Inl (APIError CodeInvalidState ''pipeline is disabled'' None)"
proof -
  have e: "pl_Enabled (created newID inp)" for newID
    by (simp add: created_def pipeline_defaults_def)
  from assms(3) have p: "pl_Enabled p" "pls (pw_pipelines w') (pl_ID p) = Some p"
    by (cases rule: pipeline_tables.Create_cases [OF assms(1)]; simp add: e)+
  have "GetPipeline (sv_pipelines s) (pw_pipelines w') (pl_ID p) = Inr q \<Longrightarrow> q = p" for q
    using p pipeline_tables.Get_ok [OF assms(1), of "pl_ID p" w' q] by (simp add: Pipe_Get_def)
  with p(1) assms(4) have "res \<noteq> Inl (APIError CodeInvalidState ''pipeline is disabled'' None)"
    by (auto simp: Trigger_def internal_def pipeline_not_found_def Let_def split: sum.splits if_splits prod.splits)
  with p show ?thesis by simp
qed

theorem disabled_pipeline_is_created_enabled_witness:
  "ci_Enabled demo_input = Some False \<and> pl_Enabled (created ''x'' demo_input)"
proof -
  let ?w' = "snd (Pipe_Create (mem_pipes demo_executor) demo_input demo_world)"
  have "Pipe_Create (mem_pipes demo_executor) demo_input demo_world = (Inr (created ''x'' demo_input), ?w')"
    by (simp add: demo_create)
  from disabled_pipeline_is_created_enabled [OF mem_pipes.pipeline_tables_axioms _ this prod.collapse [symmetric]]
  show ?thesis by simp
qed

definition rejected_or_audited ::
    "bool \<Rightarrow> string \<Rightarrow> string \<Rightarrow> bool \<Rightarrow> ('p, 'r, 's, 'w) pipe_world \<Rightarrow> ('p, 'r, 's, 'w) pipe_world \<Rightarrow> bool" where
  "rejected_or_audited wired action k failed w w' \<longleftrightarrow>
     (if failed then w' = w\<lparr>pw_env := pw_env w'\<rparr>
      else \<exists>md. pw_audit w' = pw_audit w @
             (if wired then [\<lparr>aa_Action = action, aa_ResourceID = k, aa_Metadata = md\<rparr>] else []))"

lemma untouched_eq: "untouched w w' \<Longrightarrow> w' = w\<lparr>pw_env := pw_env w'\<rparr>"
  by (simp add: untouched_def)

text \<open>
  A refused write changes nothing and is not audited; an accepted one is audited once. Create,
  update, delete and trigger either return an error and leave every table, the registry, the jobs
  and the audit log as they were, or succeed and append exactly one record with the action and the
  pipeline's identifier (when an audit service is wired).
\<close>

theorem pipeline_writes_all_or_nothing:
  assumes "pipeline_tables s pls rns sts"
    and "Pipe_Create s inp w = (res1, w1)" "Pipe_Update s k uin w = (res2, w2)"
    and "Pipe_Delete s k w = (err3, w3)" "Trigger s k by w = (res4, w4)"
  shows "rejected_or_audited (sv_audit s) ''create'' (case res1 of Inr p \<Rightarrow> pl_ID p | _ \<Rightarrow> '''') (isl res1) w w1
    \<and> rejected_or_audited (sv_audit s) ''update'' k (isl res2) w w2
    \<and> rejected_or_audited (sv_audit s) ''delete'' k (err3 \<noteq> None) w w3
    \<and> rejected_or_audited (sv_audit s) ''trigger'' k (isl res4) w w4"
proof (intro conjI)
  show "rejected_or_audited (sv_audit s) ''create'' (case res1 of Inr p \<Rightarrow> pl_ID p | _ \<Rightarrow> '''') (isl res1) w w1"
    using assms(2) by (cases rule: pipeline_tables.Create_cases [OF assms(1)])
      (auto simp: rejected_or_audited_def dest: untouched_eq)
  show "rejected_or_audited (sv_audit s) ''update'' k (isl res2) w w2"
    using assms(3) by (cases rule: pipeline_tables.Update_cases [OF assms(1)])
      (auto simp: rejected_or_audited_def dest: untouched_eq)
  show "rejected_or_audited (sv_audit s) ''delete'' k (err3 \<noteq> None) w w3"
    using assms(4) by (cases rule: pipeline_tables.Delete_cases [OF assms(1)])
      (auto simp: rejected_or_audited_def dest: untouched_eq)
  show "rejected_or_audited (sv_audit s) ''trigger'' k (isl res4) w w4"
    using assms(5) by (cases rule: pipeline_tables.Trigger_cases [OF assms(1)])
      (auto simp: rejected_or_audited_def dest: untouched_eq)
qed

theorem pipeline_writes_all_or_nothing_witness:
  "\<exists>md. pw_audit (snd (Pipe_Create (mem_pipes demo_executor) demo_input demo_world))
     = [\<lparr>aa_Action = ''create'', aa_ResourceID = ''x'', aa_Metadata = md\<rparr>]"
proof -
  let ?s = "mem_pipes demo_executor"
  from pipeline_writes_all_or_nothing [OF mem_pipes.pipeline_tables_axioms prod.collapse [symmetric]
      prod.collapse [symmetric] prod.collapse [symmetric] prod.collapse [symmetric],
      of demo_executor demo_input demo_world]
  show ?thesis by (simp add: rejected_or_audited_def demo_create)
qed

end
