(* ===== verification/Pipeline_Run.thy ===== *)
theory Pipeline_Run
  imports Pipeline_Facts
begin

text \<open>
  The run goroutine of the pipeline service: the rows of a run's steps follow the events of the
  executor, the outcome of the executor is what the run records, and the goroutine and the cancel
  requests as one transition system (\<open>run_step\<close>) over the writes they make.
\<close>

subsection \<open>The step rows\<close>

lemma cacheKey_inj [simp]: "cacheKey k n = cacheKey k m \<longleftrightarrow> n = m"
  by (simp add: cacheKey_def)

lemma order_key_inj [simp]: "order_key k n = order_key k m \<longleftrightarrow> n = m"
  by (simp add: order_key_def)

text \<open>Every step name is primed with a position at which it occurs.\<close>

lemma prime_loop_order:
  "n \<in> st_Name ` set steps \<Longrightarrow>
   \<exists>j < length steps. prime_loop k i steps m (order_key k n) = Some (int (i + j)) \<and> st_Name (steps ! j) = n"
proof (induction steps arbitrary: i m)
  case (Cons st sts)
  have keep: "n \<notin> st_Name ` set sts \<Longrightarrow> prime_loop k i sts m (order_key k n) = m (order_key k n)" for i m
    by (induction sts arbitrary: i m) auto
  show ?case
  proof (cases "n \<in> st_Name ` set sts")
    case True
    from Cons.IH [OF True, of "Suc i" "m(order_key k (st_Name st) \<mapsto> int i)"]
    obtain j where "j < length sts"
      "prime_loop k (Suc i) sts (m(order_key k (st_Name st) \<mapsto> int i)) (order_key k n) = Some (int (Suc i + j))"
      "st_Name (sts ! j) = n" by blast
    then show ?thesis by (intro exI [of _ "Suc j"]) simp
  next
    case False
    with Cons.prems have "st_Name st = n" by simp
    with keep [OF False] show ?thesis by (intro exI [of _ 0]) simp
  qed
qed simp

fun record_events ::
    "('p, 'r, 's, 'w) pipe_service \<Rightarrow> string \<Rightarrow> step_event list \<Rightarrow> ('p, 'r, 's, 'w) pipe_world
     \<Rightarrow> ('p, 'r, 's, 'w) pipe_world option" where
  "record_events s k [] w = Some w"
| "record_events s k (e # es) w =
     (case recordStepEvent s k e w of (None, w) \<Rightarrow> record_events s k es w | (Some _, _) \<Rightarrow> None)"

fun last_event :: "string \<Rightarrow> step_event list \<Rightarrow> step_event option" where
  "last_event n [] = None"
| "last_event n (e # es) =
     (case last_event n es of Some x \<Rightarrow> Some x | None \<Rightarrow> if se_StepName e = n then Some e else None)"

lemma last_event_name: "last_event n evs = Some e \<Longrightarrow> n \<in> se_StepName ` set evs"
  by (induction evs) (auto split: option.splits if_splits)

lemma last_event_None: "last_event n evs = None \<longleftrightarrow> n \<notin> se_StepName ` set evs"
  by (induction evs) (auto split: option.splits if_splits)

text \<open>The row shows the event.\<close>

definition shows_event :: "step_event \<Rightarrow> step_run \<Rightarrow> bool" where
  "shows_event e r \<longleftrightarrow> sr_Status r = se_Status e \<and> sr_ExitCode r = se_ExitCode e
     \<and> sr_OutputTruncated r = se_Output e \<and> (StepRunStatus_Terminal (se_Status e) \<longrightarrow> sr_FinishedAt r \<noteq> None)"

definition step_order_ok :: "pipeline_step list \<Rightarrow> string \<Rightarrow> int \<Rightarrow> bool" where
  "step_order_ok steps n j \<longleftrightarrow> (\<exists>i < length steps. j = int i \<and> st_Name (steps ! i) = n)"

lemma set_step_status_sel [simp]:
  "sr_ID (set_step_status st code out now r) = sr_ID r"
  "sr_StepName (set_step_status st code out now r) = sr_StepName r"
  "sr_RunID (set_step_status st code out now r) = sr_RunID r"
  "sr_Order (set_step_status st code out now r) = sr_Order r"
  by (simp_all add: set_step_status_def Let_def)

lemma set_step_status_shows:
  "shows_event e (set_step_status (se_Status e) (se_ExitCode e) (se_Output e) now r)"
  by (simp add: shows_event_def set_step_status_def Let_def)

context pipeline_tables
begin

text \<open>The rows of run \<open>k\<close>: what the cache points at, with the order of the resolved steps.\<close>

definition rows_ok :: "string \<Rightarrow> pipeline_step list \<Rightarrow> ('p, 'r, 's, 'w) pipe_world \<Rightarrow> bool" where
  "rows_ok k steps w \<longleftrightarrow>
     (\<forall>n \<in> st_Name ` set steps. \<exists>j. pw_stepOrderCache w (order_key k n) = Some j \<and> step_order_ok steps n j) \<and>
     (\<forall>n i. pw_stepRunCache w (cacheKey k n) = Some i \<longrightarrow>
        (\<exists>r. sts (pw_steps w) i = Some r \<and> sr_RunID r = k \<and> sr_StepName r = n
           \<and> (n \<in> st_Name ` set steps \<longrightarrow> step_order_ok steps n (sr_Order r))))"

definition row_shows :: "string \<Rightarrow> string \<Rightarrow> step_event \<Rightarrow> ('p, 'r, 's, 'w) pipe_world \<Rightarrow> bool" where
  "row_shows k n e w \<longleftrightarrow> (\<exists>i r. pw_stepRunCache w (cacheKey k n) = Some i
     \<and> sts (pw_steps w) i = Some r \<and> shows_event e r)"

lemma rows_ok_name:
  assumes "rows_ok k steps w" "pw_stepRunCache w (cacheKey k n) = Some i" "sts (pw_steps w) i = Some r"
  shows "sr_StepName r = n"
proof -
  from assms(1,2) obtain r' where "sts (pw_steps w) i = Some r'" "sr_StepName r' = n"
    unfolding rows_ok_def by blast
  with assms(3) show ?thesis by simp
qed

lemma ensureStepRun_ok:
  assumes "rows_ok k steps w" "ensureStepRun s k n w = (Inr i, w')"
  shows "rows_ok k steps w' \<and> pw_stepRunCache w' (cacheKey k n) = Some i \<and> pw_runs w' = pw_runs w
    \<and> (\<forall>m e. m \<noteq> n \<and> row_shows k m e w \<longrightarrow> row_shows k m e w')"
proof (cases "pw_stepRunCache w (cacheKey k n)")
  case (Some i')
  with assms show ?thesis by (auto simp: ensureStepRun_def)
next
  case None
  obtain run order newID env db where c: "GetRun (sv_runs s) (pw_runs w) k = Inr run"
    "step_order s run k n w = Inr order" "sv_newID s (pw_env w) = (newID, env)"
    "repo_Create (sv_steps s) ''pipeline.CreateStepRun: '' (pw_steps w)
       \<lparr>sr_ID = newID, sr_RunID = k, sr_StepName = n, sr_Status = StepRunStatusPending, sr_Order = order,
        sr_FinishedAt = None, sr_OutputTruncated = '''', sr_ExitCode = 0\<rparr> = Inr db"
    "i = newID" "w' = w\<lparr>pw_env := env, pw_steps := db,
       pw_stepRunCache := (pw_stepRunCache w)(cacheKey k n \<mapsto> newID)\<rparr>"
    using assms(2) None by (auto simp: ensureStepRun_def CreateStepRun_def Let_def split: sum.splits prod.splits)
  from S.Create_row [OF c(4)] have db: "sts (pw_steps w) newID = None"
    "sts db = (sts (pw_steps w))(newID \<mapsto> \<lparr>sr_ID = newID, sr_RunID = k, sr_StepName = n,
        sr_Status = StepRunStatusPending, sr_Order = order,
        sr_FinishedAt = None, sr_OutputTruncated = '''', sr_ExitCode = 0\<rparr>)" by simp_all
  have "n \<in> st_Name ` set steps \<Longrightarrow> step_order_ok steps n order"
    using assms(1) c(2) by (fastforce simp: rows_ok_def step_order_def step_order_ok_def Let_def split: if_splits)
  with assms(1) db c(5,6) have "rows_ok k steps w'" by (fastforce simp: rows_ok_def)
  moreover have "row_shows k m e w'" if "m \<noteq> n" "row_shows k m e w" for m e
    using that db c(5,6) by (fastforce simp: row_shows_def)
  ultimately show ?thesis using c(5,6) by simp
qed

lemma recordStepEvent_ok:
  assumes "rows_ok k steps w" "recordStepEvent s k e w = (None, w')"
  shows "rows_ok k steps w' \<and> row_shows k (se_StepName e) e w' \<and> pw_runs w' = pw_runs w
    \<and> (\<forall>m x. m \<noteq> se_StepName e \<and> row_shows k m x w \<longrightarrow> row_shows k m x w')"
proof -
  from assms(2) obtain i w1 now env db where c: "ensureStepRun s k (se_StepName e) w = (Inr i, w1)"
    "UpdateStepRunStatus (sv_steps s) (pw_steps w1) i (se_Status e) (se_ExitCode e) (se_Output e) now = Inr db"
    "w' = w1\<lparr>pw_env := env, pw_steps := db\<rparr>"
    by (auto simp: recordStepEvent_def split: prod.splits sum.splits)
  from ensureStepRun_ok [OF assms(1) c(1)] have w1: "rows_ok k steps w1"
    "pw_stepRunCache w1 (cacheKey k (se_StepName e)) = Some i" "pw_runs w1 = pw_runs w"
    "\<And>m x. m \<noteq> se_StepName e \<Longrightarrow> row_shows k m x w \<Longrightarrow> row_shows k m x w1" by blast+
  let ?f = "set_step_status (se_Status e) (se_ExitCode e) (se_Output e) now"
  have "repo_Patch (sv_steps s) ''pipeline.UpdateStepRunStatus: '' (Wrapped ''pipeline step run: '' ErrRunNotFound)
      (pw_steps w1) i ?f = Inr db" using c(2) by (simp add: UpdateStepRunStatus_def)
  then obtain n0 where "db_Updates (sv_steps s) (pw_steps w1) i ?f = Inr (n0, db)" "n0 \<noteq> 0"
    by (auto simp: repo_Patch_def split: sum.splits if_splits)
  from S.Updates_ok [OF this(1)] this(2) obtain r where r: "sts (pw_steps w1) i = Some r"
    "sts db = (sts (pw_steps w1))(i \<mapsto> ?f r)" by auto
  from rows_ok_name [OF w1(1,2) r(1)] have n: "sr_StepName r = se_StepName e" .
  have "rows_ok k steps w'"
    using w1(1) r c(3) by (fastforce simp: rows_ok_def)
  moreover have "row_shows k (se_StepName e) e w'"
    using w1(2) r c(3) by (simp add: row_shows_def set_step_status_shows)
  moreover have "row_shows k m x w'" if m: "m \<noteq> se_StepName e" "row_shows k m x w" for m x
  proof -
    from w1(4) [OF m] obtain i' r' where "pw_stepRunCache w1 (cacheKey k m) = Some i'"
      "sts (pw_steps w1) i' = Some r'" "shows_event x r'" by (auto simp: row_shows_def)
    moreover from rows_ok_name [OF w1(1) calculation(1,2)] have "sr_StepName r' = m" .
    ultimately show ?thesis using m n r c(3) by (auto simp: row_shows_def)
  qed
  ultimately show ?thesis using w1(3) c(3) by simp
qed

lemma record_events_ok:
  "record_events s k evs w = Some w' \<Longrightarrow> rows_ok k steps w \<Longrightarrow>
   rows_ok k steps w' \<and> (\<forall>n e. last_event n evs = Some e \<longrightarrow> row_shows k n e w')
   \<and> (\<forall>n e. last_event n evs = None \<and> row_shows k n e w \<longrightarrow> row_shows k n e w')"
proof (induction evs arbitrary: w)
  case (Cons e es)
  then obtain w1 where w1: "recordStepEvent s k e w = (None, w1)" "record_events s k es w1 = Some w'"
    by (auto split: prod.splits option.splits)
  note ok = recordStepEvent_ok [OF Cons.prems(2) w1(1)]
  with Cons.IH [OF w1(2)] show ?case by (auto split: option.splits if_splits)
qed simp

text \<open>
  The rows of run \<open>k\<close> are the ones the cache names, for step names in \<open>N\<close> only; the rows of the other runs
  are those of \<open>w0\<close>.
\<close>

definition rows_exact :: "string \<Rightarrow> string set \<Rightarrow> ('p, 'r, 's, 'w) pipe_world \<Rightarrow> ('p, 'r, 's, 'w) pipe_world \<Rightarrow> bool" where
  "rows_exact k N w0 w \<longleftrightarrow>
     (\<forall>i r. sts (pw_steps w) i = Some r \<longrightarrow> sr_RunID r = k \<longrightarrow>
        pw_stepRunCache w (cacheKey k (sr_StepName r)) = Some i \<and> sr_StepName r \<in> N) \<and>
     (\<forall>i r. sr_RunID r \<noteq> k \<longrightarrow> (sts (pw_steps w) i = Some r \<longleftrightarrow> sts (pw_steps w0) i = Some r))"

lemma ensureStepRun_exact:
  assumes "rows_exact k N w0 w" "ensureStepRun s k n w = (Inr i, w')"
  shows "rows_exact k (insert n N) w0 w'"
proof (cases "pw_stepRunCache w (cacheKey k n)")
  case (Some i')
  with assms show ?thesis by (auto simp: ensureStepRun_def rows_exact_def)
next
  case None
  obtain order newID env db where c: "repo_Create (sv_steps s) ''pipeline.CreateStepRun: '' (pw_steps w)
       \<lparr>sr_ID = newID, sr_RunID = k, sr_StepName = n, sr_Status = StepRunStatusPending, sr_Order = order,
        sr_FinishedAt = None, sr_OutputTruncated = '''', sr_ExitCode = 0\<rparr> = Inr db"
    "w' = w\<lparr>pw_env := env, pw_steps := db,
       pw_stepRunCache := (pw_stepRunCache w)(cacheKey k n \<mapsto> newID)\<rparr>"
    using assms(2) None by (auto simp: ensureStepRun_def CreateStepRun_def Let_def split: sum.splits prod.splits)
  from S.Create_row [OF c(1)] have db: "sts (pw_steps w) newID = None"
    "sts db = (sts (pw_steps w))(newID \<mapsto> \<lparr>sr_ID = newID, sr_RunID = k, sr_StepName = n,
        sr_Status = StepRunStatusPending, sr_Order = order,
        sr_FinishedAt = None, sr_OutputTruncated = '''', sr_ExitCode = 0\<rparr>)" by simp_all
  from assms(1) have
    named: "\<And>j r. sts (pw_steps w) j = Some r \<Longrightarrow> sr_RunID r = k \<Longrightarrow>
      pw_stepRunCache w (cacheKey k (sr_StepName r)) = Some j \<and> sr_StepName r \<in> N" and
    frame: "\<And>j r. sr_RunID r \<noteq> k \<Longrightarrow> (sts (pw_steps w) j = Some r \<longleftrightarrow> sts (pw_steps w0) j = Some r)"
    unfolding rows_exact_def by blast+
  show ?thesis
    unfolding rows_exact_def
  proof (intro conjI allI impI)
    fix j r assume r: "sts (pw_steps w') j = Some r" "sr_RunID r = k"
    have m: "sr_StepName r \<noteq> n" if "sts (pw_steps w) j = Some r" using named [OF that r(2)] None by auto
    show "pw_stepRunCache w' (cacheKey k (sr_StepName r)) = Some j"
      using r named [OF _ r(2), of j] m c(2) db by (cases "j = newID") auto
    show "sr_StepName r \<in> insert n N"
      using r named [OF _ r(2), of j] c(2) db by (cases "j = newID") auto
  next
    fix j r assume r: "sr_RunID (r :: step_run) \<noteq> k"
    show "sts (pw_steps w') j = Some r \<longleftrightarrow> sts (pw_steps w0) j = Some r"
      using r frame [OF r, of j] c(2) db by (cases "j = newID") auto
  qed
qed

lemma recordStepEvent_exact:
  assumes "rows_exact k N w0 w" "rows_ok k steps w" "recordStepEvent s k e w = (None, w')"
  shows "rows_exact k (insert (se_StepName e) N) w0 w'"
proof -
  from assms(3) obtain i w1 now env db where c: "ensureStepRun s k (se_StepName e) w = (Inr i, w1)"
    "UpdateStepRunStatus (sv_steps s) (pw_steps w1) i (se_Status e) (se_ExitCode e) (se_Output e) now = Inr db"
    "w' = w1\<lparr>pw_env := env, pw_steps := db\<rparr>"
    by (auto simp: recordStepEvent_def split: prod.splits sum.splits)
  from ensureStepRun_ok [OF assms(2) c(1)] have w1: "rows_ok k steps w1"
    "pw_stepRunCache w1 (cacheKey k (se_StepName e)) = Some i" by blast+
  from w1 obtain r where r: "sts (pw_steps w1) i = Some r" "sr_RunID r = k" unfolding rows_ok_def by blast
  let ?f = "set_step_status (se_Status e) (se_ExitCode e) (se_Output e) now"
  have "repo_Patch (sv_steps s) ''pipeline.UpdateStepRunStatus: '' (Wrapped ''pipeline step run: '' ErrRunNotFound)
      (pw_steps w1) i ?f = Inr db" using c(2) by (simp add: UpdateStepRunStatus_def)
  then obtain n0 where "db_Updates (sv_steps s) (pw_steps w1) i ?f = Inr (n0, db)"
    by (auto simp: repo_Patch_def split: sum.splits if_splits)
  from S.Updates_ok [OF this] r(1) have "sts db = (sts (pw_steps w1))(i \<mapsto> ?f r)" by simp
  then have db: "sts (pw_steps w') = (sts (pw_steps w1))(i \<mapsto> ?f r)" "sr_RunID (?f r) = k"
      "sr_StepName (?f r) = sr_StepName r" "pw_stepRunCache w' = pw_stepRunCache w1"
    using r c(3) by (simp_all add: set_step_status_def Let_def)
  let ?N = "insert (se_StepName e) N"
  from ensureStepRun_exact [OF assms(1) c(1)] have
    named: "\<And>j x. sts (pw_steps w1) j = Some x \<Longrightarrow> sr_RunID x = k \<Longrightarrow>
      pw_stepRunCache w1 (cacheKey k (sr_StepName x)) = Some j \<and> sr_StepName x \<in> ?N" and
    frame: "\<And>j x. sr_RunID x \<noteq> k \<Longrightarrow> (sts (pw_steps w1) j = Some x \<longleftrightarrow> sts (pw_steps w0) j = Some x)"
    unfolding rows_exact_def by blast+
  show ?thesis
    unfolding rows_exact_def
  proof (intro conjI allI impI)
    fix j x assume x: "sts (pw_steps w') j = Some x" "sr_RunID x = k"
    show "pw_stepRunCache w' (cacheKey k (sr_StepName x)) = Some j"
      using x named [OF _ x(2), of j] named [OF r] db by (cases "j = i") auto
    show "sr_StepName x \<in> ?N"
      using x named [OF _ x(2), of j] named [OF r] db by (cases "j = i") auto
  next
    fix j x assume x: "sr_RunID (x :: step_run) \<noteq> k"
    show "sts (pw_steps w') j = Some x \<longleftrightarrow> sts (pw_steps w0) j = Some x"
    proof (cases "j = i")
      case True
      then show ?thesis using frame [OF x, of i] r x db(1,2) by auto
    next
      case False
      then show ?thesis using frame [OF x, of j] db(1) by simp
    qed
  qed
qed

lemma record_events_exact:
  "record_events s k evs w = Some w' \<Longrightarrow> rows_ok k steps w \<Longrightarrow> rows_exact k N w0 w \<Longrightarrow>
   rows_exact k (N \<union> se_StepName ` set evs) w0 w'"
proof (induction evs arbitrary: w N)
  case (Cons e es)
  then obtain w1 where w1: "recordStepEvent s k e w = (None, w1)" "record_events s k es w1 = Some w'"
    by (auto split: prod.splits option.splits)
  from Cons.IH [OF w1(2) recordStepEvent_ok [OF Cons.prems(2) w1(1), THEN conjunct1]
      recordStepEvent_exact [OF Cons.prems(3,2) w1(1)]]
  show ?case by (simp add: Un_commute)
qed simp

end

subsection \<open>The goroutine on its own\<close>

text \<open>What the emitter and the processes keep, the executor keeps.\<close>

lemma skip_rest_keeps: "(\<And>e w. Q w \<Longrightarrow> Q (snd (emit e w))) \<Longrightarrow> Q w \<Longrightarrow> Q (skip_rest emit sts w)"
  by (induction sts arbitrary: w) auto

lemma runShell_keeps:
  assumes "\<And>sh c w. Q w \<Longrightarrow> Q (snd (ex_run env sh c w))" "Q w"
  shows "Q (snd (runShell l env st w))"
  using assms(1) [OF assms(2), of "lx_ShellPath l" "step_cmd st"] assms(2)
  by (auto simp: runShell_def split: prod.splits)

lemma Local_Execute_keeps:
  assumes emit: "\<And>e w. Q w \<Longrightarrow> Q (snd (emit e w))"
    and run: "\<And>sh c w. Q w \<Longrightarrow> Q (snd (ex_run env sh c w))"
  shows "Q w \<Longrightarrow> Q (snd (Local_Execute l env emit steps w))"
proof (induction steps arbitrary: w)
  case (Cons st sts)
  let ?n = "st_Name st"
  let ?emit = "\<lambda>st' out code w. snd (emit (mk_event ?n st' out code) w)"
  obtain r w1 where e1: "emit (mk_event ?n StepRunStatusRunning '''' 0) w = (r, w1)" by fastforce
  obtain out code err w2 where sh: "runShell l env st w1 = ((out, code, err), w2)"
    by (metis prod.collapse)
  have w1: "Q w1" using emit [OF Cons.prems, of "mk_event ?n StepRunStatusRunning '''' 0"] e1 by simp
  have w2: "Q w2" using runShell_keeps [of Q env, OF run w1, of l st] sh by simp
  note k = skip_rest_keeps [of Q emit, OF emit] emit [OF Cons.prems] emit [OF w1] emit [OF w2] Cons.IH
  show ?case
  proof (cases "ex_ctxErr env w")
    case (Some x)
    with k(2) show ?thesis by (simp add: Let_def)
  next
    case None
    with k e1 sh show ?thesis
      by (cases r; cases err) (simp_all add: Let_def w1)
  qed
qed simp

context pipeline_tables
begin

lemma ensureStepRun_runs: "ensureStepRun s k n w = (r, w') \<Longrightarrow> pw_runs w' = pw_runs w \<and> pw_running w' = pw_running w"
  by (auto simp: ensureStepRun_def CreateStepRun_def Let_def split: option.splits sum.splits prod.splits)

lemma recordStepEvent_runs:
  "pw_runs (snd (recordStepEvent s k e w)) = pw_runs w \<and> pw_running (snd (recordStepEvent s k e w)) = pw_running w"
proof -
  obtain r w1 where e: "ensureStepRun s k (se_StepName e) w = (r, w1)" by fastforce
  from ensureStepRun_runs [OF e] show ?thesis
    by (auto simp: recordStepEvent_def e split: prod.splits sum.splits)
qed

lemma mark_started_row:
  assumes "rns db k = Some r" "\<And>db f e. db_Updates (sv_runs s) db k f \<noteq> Inl e"
  shows "\<exists>db'. mark_started (sv_runs s) k t db = Inr db' \<and> rns db' = (rns db)(k \<mapsto> set_run_started t r)"
  using R.Patch_live [OF assms(1) _ assms(2), of "set_run_started t"]
  by (simp add: mark_started_def UpdateRunStartedAt_def set_run_started_def)

lemma mark_running_row:
  assumes "rns db k = Some r" "\<And>db f e. db_Updates (sv_runs s) db k f \<noteq> Inl e"
  shows "\<exists>db'. mark_running (sv_runs s) k db = Inr db'
    \<and> rns db' = (rns db)(k \<mapsto> set_run_status RunStatusRunning 0 '''' zero_time r)"
  using R.Patch_live [OF assms(1) _ assms(2), of "set_run_status RunStatusRunning 0 '''' zero_time"]
  by (simp add: mark_running_def UpdateRunStatus_def set_run_status_def Let_def)

lemma UpdateRunFinished_row:
  assumes "rns db k = Some r" "\<And>db f e. db_Updates (sv_runs s) db k f \<noteq> Inl e"
  shows "\<exists>db'. UpdateRunFinished (sv_runs s) db k st d m now = Inr db'
    \<and> rns db' = (rns db)(k \<mapsto> set_run_finished st d m now r)"
  using R.Patch_live [OF assms(1) _ assms(2), of "set_run_finished st d m now"]
  by (simp add: UpdateRunFinished_def set_run_finished_def)

end

lemma run_outcome_terminal:
  "run_outcome e = (st, m) \<Longrightarrow> RunStatus_Terminal st \<and> length m \<le> 1024"
  by (auto simp: run_outcome_def truncateMsg_def split: option.splits if_splits)

lemma primeStepOrder_sel [simp]:
  "pw_runs (primeStepOrder k steps w) = pw_runs w" "pw_running (primeStepOrder k steps w) = pw_running w"
  by (simp_all add: primeStepOrder_def)

lemma truncateMsg_take: "truncateMsg m = take 1024 m"
  by (simp add: truncateMsg_def)

lemma Local_Execute_cancelled:
  "ex_ctxErr env w = Some e \<Longrightarrow> steps \<noteq> [] \<Longrightarrow> fst (Local_Execute l env emit steps w) = Some e"
  by (cases steps) (simp_all add: Let_def)

lemma primeStepOrder_cancelled [simp]: "pw_cancelled (primeStepOrder k steps w) = pw_cancelled w"
  by (simp add: primeStepOrder_def)

text \<open>
  C4: an undisturbed run ends with the outcome of its executor. When the database accepts the run's
  updates and the processes leave the service's tables alone, the goroutine runs the local executor
  over the resolved steps, under a context that is cancelled exactly when a cancel of this run has
  been requested, in the world that has the row marked as running from the current time and the order
  cache primed. The row ends as succeeded without a message when the executor returns no error, as
  cancelled without a message when the error is the cancellation, and as failed with the first 1024
  bytes of the error text otherwise; it has both times and the milliseconds between them, its other
  fields and the other runs are as they were, the step rows are those the executor left, and the run
  has left the registry of cancellable runs. A run cancelled before its first step ends as cancelled.
\<close>

theorem run_records_outcome:
  assumes "pipeline_tables s pls rns sts"
    and "sv_executor s = local_run_executor l run_cmd"
    and "\<And>sh c w. pw_runs (snd (run_cmd sh c w)) = pw_runs w"
    and "\<And>db f e. db_Updates (sv_runs s) db (rn_ID run) f \<noteq> Inl e"
    and "rns (pw_runs w) (rn_ID run) = Some r"
  shows "\<exists>t env db1 err w2 f env1 fin env2 st msg. sv_now s (pw_env w) = (t, env)
    \<and> rns db1 = (rns (pw_runs w))(rn_ID run \<mapsto> r\<lparr>rn_StartedAt := Some t, rn_Status := RunStatusRunning,
        rn_DurationMs := 0, rn_ErrorMessage := ''''\<rparr>)
    \<and> Local_Execute l
        \<lparr>ex_ctxErr = (\<lambda>v. if rn_ID run \<in> pw_cancelled v then Some Canceled else None), ex_run = run_cmd,
         ex_block = (\<lambda>v. (None, v)), ex_delay = (\<lambda>v. (None, v))\<rparr>
        (recordStepEvent s (rn_ID run)) (resolveSteps p)
        (primeStepOrder (rn_ID run) (resolveSteps p) (w\<lparr>pw_env := env, pw_runs := db1\<rparr>)) = (err, w2)
    \<and> sv_now s (pw_env w2) = (f, env1) \<and> sv_now s env1 = (fin, env2)
    \<and> rns (pw_runs (executeRun s p run w)) = (rns (pw_runs w))(rn_ID run \<mapsto>
        r\<lparr>rn_StartedAt := Some t, rn_Status := st, rn_DurationMs := milliseconds (time_sub f t),
          rn_FinishedAt := Some fin, rn_ErrorMessage := msg\<rparr>)
    \<and> (err = None \<longrightarrow> st = RunStatusSucceeded \<and> msg = '''')
    \<and> (\<forall>e. err = Some e \<and> errors_Is e Canceled \<longrightarrow> st = RunStatusCancelled \<and> msg = '''')
    \<and> (\<forall>e. err = Some e \<and> \<not> errors_Is e Canceled \<longrightarrow> st = RunStatusFailed \<and> msg = take 1024 (Error_text e))
    \<and> (rn_ID run \<in> pw_cancelled w \<and> resolveSteps p \<noteq> [] \<longrightarrow> st = RunStatusCancelled)
    \<and> pw_steps (executeRun s p run w) = pw_steps w2
    \<and> rn_ID run \<notin> pw_running (executeRun s p run w)"
proof -
  note loc = assms(1)
  let ?k = "rn_ID run"
  obtain t env where t: "sv_now s (pw_env w) = (t, env)" by fastforce
  from pipeline_tables.mark_started_row [OF loc assms(5,4)] obtain db1 where
    d1: "mark_started (sv_runs s) ?k t (pw_runs w) = Inr db1"
    "rns db1 = (rns (pw_runs w))(?k \<mapsto> set_run_started t r)" by blast
  let ?r2 = "set_run_status RunStatusRunning 0 '''' zero_time (set_run_started t r)"
  have "rns db1 ?k = Some (set_run_started t r)" using d1(2) by simp
  from pipeline_tables.mark_running_row [OF loc this assms(4)] obtain db2 where
    d2: "mark_running (sv_runs s) ?k db1 = Inr db2" "rns db2 = (rns (pw_runs w))(?k \<mapsto> ?r2)"
    by (metis d1(2) fun_upd_upd)
  let ?w2 = "primeStepOrder ?k (resolveSteps p) (w\<lparr>pw_env := env, pw_runs := db2\<rparr>)"
  obtain err w3 where x: "Local_Execute l (run_context run_cmd run) (recordStepEvent s ?k) (resolveSteps p) ?w2
      = (err, w3)" by fastforce
  have w3: "pw_runs w3 = db2"
    using Local_Execute_keeps [of "\<lambda>w. pw_runs w = db2" "recordStepEvent s ?k" "run_context run_cmd run" ?w2 l
        "resolveSteps p"] x pipeline_tables.recordStepEvent_runs [OF loc, of ?k]
      assms(3) by (simp add: run_context_def)
  have cancelled: "err = Some Canceled" if "?k \<in> pw_cancelled w" "resolveSteps p \<noteq> []"
    using Local_Execute_cancelled [of "run_context run_cmd run" ?w2 Canceled "resolveSteps p" l
        "recordStepEvent s ?k"] that x by (simp add: run_context_def)
  obtain f env1 where f: "sv_now s (pw_env w3) = (f, env1)" by fastforce
  obtain fin env2 where n: "sv_now s env1 = (fin, env2)" by fastforce
  obtain st msg where o: "run_outcome err = (st, msg)" by fastforce
  let ?d = "milliseconds (time_sub f t)"
  have "rns (pw_runs w3) ?k = Some ?r2" using w3 d2(2) by simp
  from pipeline_tables.UpdateRunFinished_row [OF loc this assms(4), of st ?d msg fin] obtain db3 where
    d3': "UpdateRunFinished (sv_runs s) (pw_runs w3) ?k st ?d msg fin = Inr db3"
    "rns db3 = (rns (pw_runs w3))(?k \<mapsto> set_run_finished st ?d msg fin ?r2)" by blast
  then have d3: "mark_finished (sv_runs s) ?k err ?d fin (pw_runs w3) = Inr db3"
    "rns db3 = (rns (pw_runs w))(?k \<mapsto> set_run_finished st ?d msg fin ?r2)"
    by (simp_all only: mark_finished_def o prod.case w3 d2(2) fun_upd_upd)
  have e: "pw_runs (executeRun s p run w) = db3" "pw_steps (executeRun s p run w) = pw_steps w3"
    "?k \<notin> pw_running (executeRun s p run w)"
    using t d1(1) d2(1) assms(2) x f n d3(1)
    by (simp_all add: executeRun_def unregister_def local_run_executor_def record_outcome_def)
  have r: "?r2 = r\<lparr>rn_StartedAt := Some t, rn_Status := RunStatusRunning, rn_DurationMs := 0, rn_ErrorMessage := ''''\<rparr>"
    "set_run_finished st ?d msg fin ?r2 = r\<lparr>rn_StartedAt := Some t, rn_Status := st, rn_DurationMs := ?d,
      rn_FinishedAt := Some fin, rn_ErrorMessage := msg\<rparr>"
    by (simp_all add: set_run_finished_def set_run_status_def set_run_started_def)
  have st: "err = None \<longrightarrow> st = RunStatusSucceeded \<and> msg = ''''"
    "\<forall>e. err = Some e \<and> errors_Is e Canceled \<longrightarrow> st = RunStatusCancelled \<and> msg = ''''"
    "\<forall>e. err = Some e \<and> \<not> errors_Is e Canceled \<longrightarrow> st = RunStatusFailed \<and> msg = take 1024 (Error_text e)"
    using o by (auto simp: run_outcome_def truncateMsg_take)
  have "?k \<in> pw_cancelled w \<and> resolveSteps p \<noteq> [] \<longrightarrow> st = RunStatusCancelled"
    using cancelled st(2) by simp
  then show ?thesis
    using t d2(2) [unfolded r(1)] x [unfolded run_context_def] f n trans [OF arg_cong [OF e(1), of rns] d3(2), unfolded r(2)]
      st e(2,3)
    by (intro exI conjI) assumption+
qed

definition demo_run :: pipeline_run where
  "demo_run = \<lparr>rn_ID = ''r1'', rn_PipelineID = ''x'', rn_Status = RunStatusPending, rn_StartedAt = None,
     rn_FinishedAt = None, rn_DurationMs = 0, rn_TriggeredBy = ''u1'', rn_ErrorMessage = ''''\<rparr>"

lemma demo_run_sel [simp]: "rn_ID demo_run = ''r1''" "rn_Status demo_run = RunStatusPending"
  by (simp_all add: demo_run_def)

definition demo_run_world :: mem_world where
  "demo_run_world =
     \<lparr>pw_pipelines = [created ''x'' demo_input], pw_runs = [demo_run], pw_steps = [], pw_running = {''r1''},
      pw_cancelled = {}, pw_stepRunCache = (\<lambda>_. None), pw_stepOrderCache = (\<lambda>_. None), pw_env = 0,
      pw_audit = [], pw_jobs = []\<rparr>"

theorem run_records_outcome_witness:
  "\<exists>r'. mem_rows rn_ID (pw_runs (executeRun (mem_pipes demo_executor) (created ''x'' demo_input) demo_run
       (demo_run_world\<lparr>pw_cancelled := {''r1''}\<rparr>))) ''r1'' = Some r'
     \<and> rn_Status r' = RunStatusCancelled \<and> rn_FinishedAt r' \<noteq> None"
proof -
  let ?s = "mem_pipes demo_executor" and ?w = "demo_run_world\<lparr>pw_cancelled := {''r1''}\<rparr>"
  let ?p = "created ''x'' demo_input"
  have row: "mem_rows rn_ID (pw_runs ?w) (rn_ID demo_run) = Some demo_run"
    by (simp add: demo_run_world_def)
  have ok: "db_Updates (sv_runs ?s) db (rn_ID demo_run) f \<noteq> Inl e" for db f e
    by (simp add: mem_Updates)
  have "resolveSteps ?p \<noteq> []"
    by (auto simp: resolveSteps_def split: sum.split)
  moreover have "rn_ID demo_run \<in> pw_cancelled ?w" by simp
  moreover note run_records_outcome [OF mem_pipes.pipeline_tables_axioms mem_pipes_sel(4) _ ok row, of ?p]
  ultimately obtain t st d fin msg where "mem_rows rn_ID (pw_runs (executeRun ?s ?p demo_run ?w))
      = (mem_rows rn_ID (pw_runs ?w))(rn_ID demo_run \<mapsto> demo_run\<lparr>rn_StartedAt := Some t, rn_Status := st,
          rn_DurationMs := d, rn_FinishedAt := Some fin, rn_ErrorMessage := msg\<rparr>)"
    "st = RunStatusCancelled" by (metis snd_conv)
  then show ?thesis by simp
qed

text \<open>
  C8: the step rows of a run are one row for each step that had an event, and it shows the last one.
  When a run that has no step rows yet has its order cache primed with the resolved steps, and every
  event of a list has been recorded without an error, each step name of the list has a row, the only
  one of the run with that name, that carries status, exit code and output of the last event for the
  name, a finish time if that status is terminal, and a position at which the name occurs in the
  resolved steps. A name without an event has no row, and the rows of the other runs are as they were.
\<close>

theorem step_rows_show_last_event:
  assumes "pipeline_tables s pls rns sts"
    and "\<And>n. pw_stepRunCache w (cacheKey k n) = None"
    and "k \<notin> sr_RunID ` ran (sts (pw_steps w))"
    and "record_events s k evs (primeStepOrder k steps w) = Some w'"
    and "se_StepName ` set evs \<subseteq> st_Name ` set steps"
  shows "(\<forall>n e. last_event n evs = Some e \<longrightarrow> (\<exists>i r. sts (pw_steps w') i = Some r
      \<and> sr_RunID r = k \<and> sr_StepName r = n \<and> shows_event e r \<and> step_order_ok steps n (sr_Order r)
      \<and> (\<forall>i' r'. sts (pw_steps w') i' = Some r' \<and> sr_RunID r' = k \<and> sr_StepName r' = n \<longrightarrow> i' = i)))
    \<and> (\<forall>n i r. last_event n evs = None \<and> sts (pw_steps w') i = Some r \<and> sr_RunID r = k \<longrightarrow> sr_StepName r \<noteq> n)
    \<and> (\<forall>i r. sr_RunID r \<noteq> k \<longrightarrow> (sts (pw_steps w') i = Some r \<longleftrightarrow> sts (pw_steps w) i = Some r))"
proof -
  let ?w = "primeStepOrder k steps w"
  have start: "pipeline_tables.rows_ok sts k steps ?w"
    unfolding pipeline_tables.rows_ok_def [OF assms(1)]
    using assms(2) prime_loop_order [of _ steps k 0 "pw_stepOrderCache w"]
    by (fastforce simp: primeStepOrder_def step_order_ok_def)
  have none: "sr_RunID r \<noteq> k" if "sts (pw_steps w) i = Some r" for i r
    using assms(3) ranI [of "sts (pw_steps w)" i r, OF that] by blast
  have "pipeline_tables.rows_exact sts k {} w ?w"
    unfolding pipeline_tables.rows_exact_def [OF assms(1)] using none by (simp add: primeStepOrder_def)
  note exact = pipeline_tables.record_events_exact [OF assms(1,4) start this,
      unfolded pipeline_tables.rows_exact_def [OF assms(1)]]
  have named: "\<And>i r. sts (pw_steps w') i = Some r \<Longrightarrow> sr_RunID r = k \<Longrightarrow>
        pw_stepRunCache w' (cacheKey k (sr_StepName r)) = Some i \<and> sr_StepName r \<in> se_StepName ` set evs"
    using exact [THEN conjunct1] by simp
  note all = pipeline_tables.record_events_ok [OF assms(1,4) start]
  have ok: "\<And>m i. pw_stepRunCache w' (cacheKey k m) = Some i \<Longrightarrow>
      \<exists>r. sts (pw_steps w') i = Some r \<and> sr_RunID r = k \<and> sr_StepName r = m
        \<and> (m \<in> st_Name ` set steps \<longrightarrow> step_order_ok steps m (sr_Order r))"
    using all [THEN conjunct1] unfolding pipeline_tables.rows_ok_def [OF assms(1)] by (elim conjE) blast
  have shown: "\<exists>i r. sts (pw_steps w') i = Some r
        \<and> sr_RunID r = k \<and> sr_StepName r = n \<and> shows_event e r \<and> step_order_ok steps n (sr_Order r)
        \<and> (\<forall>i' r'. sts (pw_steps w') i' = Some r' \<and> sr_RunID r' = k \<and> sr_StepName r' = n \<longrightarrow> i' = i)"
    if last: "last_event n evs = Some e" for n e
  proof -
    have "pipeline_tables.row_shows sts k n e w'" using all [THEN conjunct2, THEN conjunct1] last by blast
    then obtain i r where r: "pw_stepRunCache w' (cacheKey k n) = Some i" "sts (pw_steps w') i = Some r"
      "shows_event e r" unfolding pipeline_tables.row_shows_def [OF assms(1)] by blast
    have "n \<in> st_Name ` set steps" using last_event_name [OF last] assms(5) by blast
    with ok r(1) obtain r' where r': "sts (pw_steps w') i = Some r'" "sr_RunID r' = k" "sr_StepName r' = n"
      "step_order_ok steps n (sr_Order r')" by blast
    have uniq: "i' = i" if "sts (pw_steps w') i' = Some x" "sr_RunID x = k" "sr_StepName x = n" for i' x
      using named [OF that(1,2)] r(1) that(3) by simp
    have "r' = r" using r(2) r'(1) by simp
    with r(3) have "shows_event e r'" by simp
    with r' show ?thesis by (intro exI [of _ i] exI [of _ r'] conjI allI impI) (assumption | elim conjE, rule uniq)+
  qed
  show ?thesis
  proof (intro conjI)
    show "\<forall>n e. last_event n evs = Some e \<longrightarrow> (\<exists>i r. sts (pw_steps w') i = Some r
        \<and> sr_RunID r = k \<and> sr_StepName r = n \<and> shows_event e r \<and> step_order_ok steps n (sr_Order r)
        \<and> (\<forall>i' r'. sts (pw_steps w') i' = Some r' \<and> sr_RunID r' = k \<and> sr_StepName r' = n \<longrightarrow> i' = i))"
      by (intro allI impI) (rule shown)
    show "\<forall>n i r. last_event n evs = None \<and> sts (pw_steps w') i = Some r \<and> sr_RunID r = k \<longrightarrow> sr_StepName r \<noteq> n"
      by (intro allI impI notI, elim conjE, drule (1) named [THEN conjunct2]) (simp only: last_event_None)
    show "\<forall>i r. sr_RunID r \<noteq> k \<longrightarrow> (sts (pw_steps w') i = Some r \<longleftrightarrow> sts (pw_steps w) i = Some r)"
      by (rule exact [THEN conjunct2])
  qed
qed

theorem step_rows_show_last_event_witness:
  "\<exists>w' i r. record_events (mem_pipes demo_executor) ''r1''
       [mk_event ''a'' StepRunStatusRunning '''' 0, mk_event ''a'' StepRunStatusSucceeded ''out'' 0]
       (primeStepOrder ''r1'' [shell_step ''a'' ''true''] demo_run_world) = Some w'
     \<and> mem_rows sr_ID (pw_steps w') i = Some r \<and> sr_Status r = StepRunStatusSucceeded \<and> sr_Order r = 0"
proof -
  let ?evs = "[mk_event ''a'' StepRunStatusRunning '''' 0, mk_event ''a'' StepRunStatusSucceeded ''out'' 0]"
  have "record_events (mem_pipes demo_executor) ''r1'' ?evs
      (primeStepOrder ''r1'' [shell_step ''a'' ''true''] demo_run_world) \<noteq> None"
    by (simp add: recordStepEvent_def ensureStepRun_def demo_run_world_def primeStepOrder_def repo_defs mem_calls
        step_order_def CreateStepRun_def UpdateStepRunStatus_def Let_def set_step_status_def)
  then obtain w' where w': "record_events (mem_pipes demo_executor) ''r1'' ?evs
      (primeStepOrder ''r1'' [shell_step ''a'' ''true''] demo_run_world) = Some w'" by blast
  have c: "pw_stepRunCache demo_run_world (cacheKey ''r1'' n) = None" for n
    by (simp add: demo_run_world_def)
  have none: "''r1'' \<notin> sr_RunID ` ran (mem_rows sr_ID (pw_steps demo_run_world))"
    by (simp add: demo_run_world_def ran_def)
  have last: "last_event ''a'' ?evs = Some (mk_event ''a'' StepRunStatusSucceeded ''out'' 0)" by simp
  have sub: "se_StepName ` set ?evs \<subseteq> st_Name ` set [shell_step ''a'' ''true'']" by simp
  from step_rows_show_last_event [OF mem_pipes.pipeline_tables_axioms c none w' sub, THEN conjunct1, rule_format, OF last]
  obtain i r where "mem_rows sr_ID (pw_steps w') i = Some r"
    "shows_event (mk_event ''a'' StepRunStatusSucceeded ''out'' 0) r"
    "step_order_ok [shell_step ''a'' ''true''] ''a'' (sr_Order r)" by auto
  with w' show ?thesis by (auto simp: shows_event_def step_order_ok_def)
qed

subsection \<open>The goroutine and the cancel requests interleaved\<close>

text \<open>
  One run \<open>k\<close>, its goroutine and any number of cancel requests; every database call is one step. The
  program points of the goroutine: dispatched; started, with the start time; executing, with the
  flag whether its context was already cancelled when the executor began; executed, with the error
  of the executor; returned. A cancel request is in flight, with the row it read, between its
  terminal test and its write. An executor that begins with a cancelled context returns
  \<open>context.Canceled\<close> before the first of its steps; otherwise its error is arbitrary. The run is
  registered until the goroutine returns.
\<close>

datatype goroutine_pc =
  Dispatched | Started time | Executing time bool | Executed time "go_error option" | Returned

record 'r run_sys =
  ys_db :: 'r
  ys_pc :: goroutine_pc
  ys_signalled :: bool
  ys_cancels :: "pipeline_run list"

inductive run_step :: "('r, pipeline_run) gorm \<Rightarrow> string \<Rightarrow> 'r run_sys \<Rightarrow> 'r run_sys \<Rightarrow> bool"
  for g k where
  start: "ys_pc y = Dispatched \<Longrightarrow> mark_started g k t (ys_db y) = Inr db \<Longrightarrow>
    run_step g k y (y\<lparr>ys_db := db, ys_pc := Started t\<rparr>)"
| start_fail: "ys_pc y = Dispatched \<Longrightarrow> mark_started g k t (ys_db y) = Inl e \<Longrightarrow>
    run_step g k y (y\<lparr>ys_pc := Returned\<rparr>)"
| running: "ys_pc y = Started t \<Longrightarrow> mark_running g k (ys_db y) = Inr db \<Longrightarrow>
    run_step g k y (y\<lparr>ys_db := db, ys_pc := Executing t (ys_signalled y)\<rparr>)"
| running_fail: "ys_pc y = Started t \<Longrightarrow> mark_running g k (ys_db y) = Inl e \<Longrightarrow>
    run_step g k y (y\<lparr>ys_pc := Returned\<rparr>)"
| execute: "ys_pc y = Executing t b \<Longrightarrow> b \<longrightarrow> err = Some Canceled \<Longrightarrow>
    run_step g k y (y\<lparr>ys_pc := Executed t err\<rparr>)"
| finish: "ys_pc y = Executed t err \<Longrightarrow>
    mark_finished g k err (milliseconds (time_sub f t)) now (ys_db y) = Inr db \<Longrightarrow>
    run_step g k y (y\<lparr>ys_db := db, ys_pc := Returned\<rparr>)"
| finish_fail: "ys_pc y = Executed t err \<Longrightarrow>
    mark_finished g k err (milliseconds (time_sub f t)) now (ys_db y) = Inl e \<Longrightarrow>
    run_step g k y (y\<lparr>ys_pc := Returned\<rparr>)"
| cancel_read: "GetRun g (ys_db y) k = Inr run \<Longrightarrow> \<not> RunStatus_Terminal (rn_Status run) \<Longrightarrow>
    run_step g k y (y\<lparr>ys_cancels := run # ys_cancels y, ys_signalled := ys_signalled y \<or> ys_pc y \<noteq> Returned\<rparr>)"
| cancel_write: "run \<in> set (ys_cancels y) \<Longrightarrow>
    UpdateRunFinished g (ys_db y) k RunStatusCancelled (cancel_duration run now) '''' f = Inr db \<Longrightarrow>
    run_step g k y (y\<lparr>ys_db := db, ys_cancels := remove1 run (ys_cancels y)\<rparr>)"
| cancel_fail: "run \<in> set (ys_cancels y) \<Longrightarrow>
    UpdateRunFinished g (ys_db y) k RunStatusCancelled (cancel_duration run now) '''' f = Inl e \<Longrightarrow>
    run_step g k y (y\<lparr>ys_cancels := remove1 run (ys_cancels y)\<rparr>)"

inductive_cases run_stepE: "run_step g k y y'"

definition dispatched :: "'r \<Rightarrow> 'r run_sys" where
  "dispatched db = \<lparr>ys_db = db, ys_pc = Dispatched, ys_signalled = False, ys_cancels = []\<rparr>"

text \<open>
  The invariant, over the live row of the run: the row stays; once the goroutine has returned the
  row is terminal; a terminal row has a finish time; and what a cancel request in flight read was
  not terminal.
\<close>

definition run_inv :: "('r \<Rightarrow> string \<Rightarrow> pipeline_run option) \<Rightarrow> string \<Rightarrow> 'r run_sys \<Rightarrow> bool" where
  "run_inv rns k y \<longleftrightarrow> (\<exists>r. rns (ys_db y) k = Some r
     \<and> (ys_pc y = Returned \<longrightarrow> RunStatus_Terminal (rn_Status r))
     \<and> (RunStatus_Terminal (rn_Status r) \<longrightarrow> rn_FinishedAt r \<noteq> None))
     \<and> (\<forall>run \<in> set (ys_cancels y). \<not> RunStatus_Terminal (rn_Status run))"

context pipeline_tables
begin

lemma mark_finished_row:
  assumes "rns db k = Some r" "\<And>db f e. db_Updates (sv_runs s) db k f \<noteq> Inl e"
  shows "\<exists>db'. mark_finished (sv_runs s) k err d now db = Inr db'
    \<and> (\<exists>r'. rns db' = (rns db)(k \<mapsto> r') \<and> RunStatus_Terminal (rn_Status r') \<and> rn_FinishedAt r' \<noteq> None)"
proof -
  obtain st m where o: "run_outcome err = (st, m)" by fastforce
  from UpdateRunFinished_row [OF assms, of st d m now] obtain db' where
    "UpdateRunFinished (sv_runs s) db k st d m now = Inr db'"
    "rns db' = (rns db)(k \<mapsto> set_run_finished st d m now r)" by blast
  with o run_outcome_terminal [OF o] show ?thesis
    by (auto simp: mark_finished_def set_run_finished_def)
qed

lemma run_step_inv:
  assumes "run_step (sv_runs s) k y y'" "run_inv rns k y"
    and ok: "\<And>db f e. db_Updates (sv_runs s) db k f \<noteq> Inl e"
  shows "run_inv rns k y'"
proof -
  from assms(2) obtain r where r: "rns (ys_db y) k = Some r"
    "RunStatus_Terminal (rn_Status r) \<longrightarrow> rn_FinishedAt r \<noteq> None"
    "ys_pc y = Returned \<longrightarrow> RunStatus_Terminal (rn_Status r)" unfolding run_inv_def by blast
  note cs = assms(2) [unfolded run_inv_def, THEN conjunct2]
  from assms(1) show ?thesis
  proof (cases rule: run_step.cases)
    case (start t db)
    with mark_started_row [OF r(1) ok, of t] cs show ?thesis
      by (auto simp: run_inv_def set_run_started_def)
  next
    case (start_fail t e)
    with mark_started_row [OF r(1) ok, of t] show ?thesis by auto
  next
    case (running t db)
    with mark_running_row [OF r(1) ok] cs show ?thesis
      by (auto simp: run_inv_def set_run_status_def Let_def)
  next
    case (running_fail t e)
    with mark_running_row [OF r(1) ok] show ?thesis by auto
  next
    case (execute t b err)
    with r cs show ?thesis by (auto simp: run_inv_def)
  next
    case (finish t err f now db)
    with mark_finished_row [OF r(1) ok, of err "milliseconds (time_sub f t)" now] cs show ?thesis
      by (auto simp: run_inv_def)
  next
    case (finish_fail t err f now e)
    with mark_finished_row [OF r(1) ok, of err "milliseconds (time_sub f t)" now] show ?thesis by auto
  next
    case (cancel_read run)
    with r cs show ?thesis by (auto simp: run_inv_def)
  next
    case (cancel_write run now f db)
    with UpdateRunFinished_row [OF r(1) ok, of RunStatusCancelled "cancel_duration run now" "''''" f] cs
    show ?thesis by (auto simp: run_inv_def set_run_finished_def dest: notin_set_remove1)
  next
    case (cancel_fail run now f e)
    with UpdateRunFinished_row [OF r(1) ok, of RunStatusCancelled "cancel_duration run now" "''''" f]
    show ?thesis by auto
  qed
qed

lemma run_steps_inv:
  assumes "(run_step (sv_runs s) k)\<^sup>*\<^sup>* y y'" "run_inv rns k y"
    and ok: "\<And>db f e. db_Updates (sv_runs s) db k f \<noteq> Inl e"
  shows "run_inv rns k y'"
  using assms(1)
proof (induction rule: rtranclp_induct)
  case base
  show ?case by (rule assms(2))
next
  case (step y' y'')
  from run_step_inv [OF step.hyps(2) step.IH ok] show ?case .
qed

text \<open>The goroutine is never stuck: whatever the cancel requests did, it can run to its end.\<close>

lemma goroutine_returns:
  assumes "run_inv rns k y" and ok: "\<And>db f e. db_Updates (sv_runs s) db k f \<noteq> Inl e"
  shows "\<exists>y'. (run_step (sv_runs s) k)\<^sup>*\<^sup>* y y' \<and> ys_pc y' = Returned \<and> ys_cancels y' = ys_cancels y"
proof -
  let ?S = "run_step (sv_runs s) k"
  have executed: "\<exists>y'. ?S\<^sup>*\<^sup>* y y' \<and> ys_pc y' = Returned \<and> ys_cancels y' = ys_cancels y"
    if "run_inv rns k y" "ys_pc y = Executed t err" for y t err
  proof -
    from that(1) obtain r where "rns (ys_db y) k = Some r" unfolding run_inv_def by blast
    from mark_finished_row [OF this ok, of err "milliseconds (time_sub t t)" t] obtain db where
      "mark_finished (sv_runs s) k err (milliseconds (time_sub t t)) t (ys_db y) = Inr db" by blast
    from run_step.finish [OF that(2) this] show ?thesis by (intro exI conjI, rule r_into_rtranclp) auto
  qed
  have executing: "\<exists>y'. ?S\<^sup>*\<^sup>* y y' \<and> ys_pc y' = Returned \<and> ys_cancels y' = ys_cancels y"
    if "run_inv rns k y" "ys_pc y = Executing t b" for y t b
  proof -
    have st: "?S y (y\<lparr>ys_pc := Executed t (Some Canceled)\<rparr>)" using that(2) by (rule run_step.execute) simp
    from executed [OF run_step_inv [OF st that(1) ok], of t "Some Canceled"] st show ?thesis
      by (auto intro: converse_rtranclp_into_rtranclp)
  qed
  have started: "\<exists>y'. ?S\<^sup>*\<^sup>* y y' \<and> ys_pc y' = Returned \<and> ys_cancels y' = ys_cancels y"
    if "run_inv rns k y" "ys_pc y = Started t" for y t
  proof -
    from that(1) obtain r where "rns (ys_db y) k = Some r" unfolding run_inv_def by blast
    from mark_running_row [OF this ok] obtain db where "mark_running (sv_runs s) k (ys_db y) = Inr db" by blast
    from run_step.running [OF that(2) this]
    have st: "?S y (y\<lparr>ys_db := db, ys_pc := Executing t (ys_signalled y)\<rparr>)" .
    from executing [OF run_step_inv [OF st that(1) ok], of t "ys_signalled y"] st show ?thesis
      by (auto intro: converse_rtranclp_into_rtranclp)
  qed
  show ?thesis
  proof (cases "ys_pc y")
    case Dispatched
    from assms(1) obtain r where "rns (ys_db y) k = Some r" unfolding run_inv_def by blast
    from mark_started_row [OF this ok, of zero_time] obtain db where
      "mark_started (sv_runs s) k zero_time (ys_db y) = Inr db" by blast
    from run_step.start [OF Dispatched this]
    have st: "?S y (y\<lparr>ys_db := db, ys_pc := Started zero_time\<rparr>)" .
    from started [OF run_step_inv [OF st assms(1) ok], of zero_time] st show ?thesis
      by (auto intro: converse_rtranclp_into_rtranclp)
  qed (use started executing executed assms(1) in auto)
qed

end

text \<open>
  C15: a run ends, and ends terminal. From the dispatch of a pending run, under every interleaving
  with cancel requests and as long as the database accepts the run's updates, the goroutine is
  never stuck, and in every state after it returned the row is terminal with a finish time,
  whatever cancel requests are still in flight.
\<close>

theorem run_ends_terminal:
  assumes "pipeline_tables s pls rns sts"
    and "\<And>db f e. db_Updates (sv_runs s) db k f \<noteq> Inl e"
    and "rns db k = Some r" "rn_Status r = RunStatusPending"
    and "(run_step (sv_runs s) k)\<^sup>*\<^sup>* (dispatched db) y"
  shows "(\<exists>y'. (run_step (sv_runs s) k)\<^sup>*\<^sup>* y y' \<and> ys_pc y' = Returned)
    \<and> (ys_pc y = Returned \<longrightarrow> (\<exists>r'. rns (ys_db y) k = Some r' \<and> RunStatus_Terminal (rn_Status r')
          \<and> rn_FinishedAt r' \<noteq> None))"
proof -
  have "run_inv rns k (dispatched db)" using assms(3,4) by (simp add: run_inv_def dispatched_def)
  from pipeline_tables.run_steps_inv [OF assms(1,5) this assms(2)] have inv: "run_inv rns k y" .
  from pipeline_tables.goroutine_returns [OF assms(1) inv assms(2)] inv
  show ?thesis unfolding run_inv_def by blast
qed

abbreviation run_gorm :: "(pipeline_run list, pipeline_run) gorm" where
  "run_gorm \<equiv> mem_gorm rn_ID"

text \<open>The writes on a table with this one row.\<close>

lemma one_row_writes:
  assumes "rn_ID r = k"
  shows "mark_started run_gorm k t [r] = Inr [set_run_started t r]"
    "mark_running run_gorm k [r] = Inr [set_run_status RunStatusRunning 0 '''' zero_time r]"
    "UpdateRunFinished run_gorm [r] k st d msg now = Inr [set_run_finished st d msg now r]"
    "mark_finished run_gorm k err d now [r] = Inr [set_run_finished (fst (run_outcome err)) d (snd (run_outcome err)) now r]"
    "GetRun run_gorm [r] k = Inr r"
  using assms
  by (simp_all add: mark_started_def UpdateRunStartedAt_def mark_running_def UpdateRunStatus_def mark_finished_def
      UpdateRunFinished_def repo_Patch_def repo_Get_def mem_Updates mem_First split: prod.splits)

lemma run_updates_ID [simp]:
  "rn_ID (set_run_started t r) = rn_ID r" "rn_ID (set_run_status st d m now r) = rn_ID r"
  "rn_ID (set_run_finished st d m now r) = rn_ID r"
  "rn_Status (set_run_started t r) = RunStatusRunning" "rn_Status (set_run_finished st d m now r) = st"
  "rn_Status (set_run_status st d m now r) = st"
  by (simp_all add: set_run_started_def set_run_status_def set_run_finished_def Let_def)

theorem run_ends_terminal_witness:
  "\<exists>y' r'. (run_step run_gorm ''r1'')\<^sup>*\<^sup>* (dispatched [demo_run]) y' \<and> ys_pc y' = Returned
     \<and> mem_rows rn_ID (ys_db y') ''r1'' = Some r' \<and> RunStatus_Terminal (rn_Status r')"
proof -
  have ok: "db_Updates (sv_runs (mem_pipes demo_executor)) db ''r1'' f \<noteq> Inl e" for db f e
    by (simp add: mem_Updates)
  have row: "mem_rows rn_ID [demo_run] ''r1'' = Some demo_run" by simp
  note ends = run_ends_terminal [OF mem_pipes.pipeline_tables_axioms ok row demo_run_sel(2), unfolded mem_pipes_sel]
  from ends [OF rtranclp.rtrancl_refl, THEN conjunct1] obtain y' where
    y': "(run_step run_gorm ''r1'')\<^sup>*\<^sup>* (dispatched [demo_run]) y'" "ys_pc y' = Returned" by (elim exE conjE)
  from ends [OF y'(1), THEN conjunct2, rule_format, OF y'(2)] obtain r' where
    "mem_rows rn_ID (ys_db y') ''r1'' = Some r'" "RunStatus_Terminal (rn_Status r')" by (elim exE conjE)
  with y' show ?thesis by (intro exI conjI)
qed

text \<open>
  A terminal status is not final. A cancel request that lands before the goroutine starts is
  answered with success and the run is then set back to running; one whose read comes before the
  goroutine's last write has its cancelled status replaced by succeeded. Both contradict the
  comment on \<open>RunStatus.Terminal\<close>, that no further transitions are allowed.
\<close>

theorem cancelled_run_can_revive:
  assumes "rn_ID r = k" "rn_Status r = RunStatusPending"
  shows "(\<exists>y y'. (run_step run_gorm k)\<^sup>*\<^sup>* (dispatched [r]) y \<and> ys_cancels y = []
      \<and> map rn_Status (ys_db y) = [RunStatusCancelled]
      \<and> run_step run_gorm k y y' \<and> map rn_Status (ys_db y') = [RunStatusRunning])
   \<and> (\<exists>y y'. (run_step run_gorm k)\<^sup>*\<^sup>* (dispatched [r]) y \<and> ys_cancels y = []
      \<and> map rn_Status (ys_db y) = [RunStatusCancelled]
      \<and> run_step run_gorm k y y' \<and> ys_pc y' = Returned \<and> map rn_Status (ys_db y') = [RunStatusSucceeded])"
proof (intro conjI)
  let ?S = "run_step run_gorm k"
  let ?t = "Time 0"
  let ?c = "\<lambda>r. set_run_finished RunStatusCancelled (cancel_duration r ?t) '''' ?t r"
  let ?y = "\<lambda>db pc b cs. \<lparr>ys_db = db, ys_pc = pc, ys_signalled = b, ys_cancels = cs\<rparr>"
  note w = one_row_writes and k = assms(1)
  have read: "?S (?y [q] pc b []) (?y [q] pc True [q])"
    if "rn_ID q = k" "\<not> RunStatus_Terminal (rn_Status q)" "pc \<noteq> Returned" for q pc b
    using run_step.cancel_read [of run_gorm "?y [q] pc b []" k q] w(5) that by simp
  have cancel: "?S (?y [q] pc b [q]) (?y [?c q] pc b [])" if "rn_ID q = k" for q pc b
    using run_step.cancel_write [of q "?y [q] pc b [q]" run_gorm k ?t ?t "[?c q]"] w(3) that by simp
  have start: "?S (?y [q] Dispatched b []) (?y [set_run_started ?t q] (Started ?t) b [])" if "rn_ID q = k" for q b
    using run_step.start [of "?y [q] Dispatched b []" run_gorm k ?t] w(1) that by simp
  show "\<exists>y y'. ?S\<^sup>*\<^sup>* (dispatched [r]) y \<and> ys_cancels y = [] \<and> map rn_Status (ys_db y) = [RunStatusCancelled]
      \<and> ?S y y' \<and> map rn_Status (ys_db y') = [RunStatusRunning]"
  proof (intro exI conjI)
    show "?S\<^sup>*\<^sup>* (dispatched [r]) (?y [?c r] Dispatched True [])"
      using read [of r Dispatched False] cancel [of r Dispatched True] assms
      by (simp add: dispatched_def)
    show "?S (?y [?c r] Dispatched True []) (?y [set_run_started ?t (?c r)] (Started ?t) True [])"
      using k by (intro start) simp
  qed simp_all
  let ?run = "set_run_status RunStatusRunning 0 '''' zero_time (set_run_started ?t r)"
  have running: "?S (?y [set_run_started ?t r] (Started ?t) False []) (?y [?run] (Executing ?t False) False [])"
    using run_step.running [of "?y [set_run_started ?t r] (Started ?t) False []" ?t run_gorm k] w(2) k by simp
  have execute: "?S (?y [?run] (Executing ?t False) False []) (?y [?run] (Executed ?t None) False [])"
    using run_step.execute [of "?y [?run] (Executing ?t False) False []" ?t False None run_gorm k] by simp
  have succeed: "?S (?y [?c ?run] (Executed ?t None) True [])
      (?y [set_run_finished RunStatusSucceeded (milliseconds (time_sub ?t ?t)) '''' ?t (?c ?run)] Returned True [])"
    using run_step.finish [of "?y [?c ?run] (Executed ?t None) True []" ?t None run_gorm k ?t ?t] w(4) k
    by (simp add: run_outcome_def)
  show "\<exists>y y'. ?S\<^sup>*\<^sup>* (dispatched [r]) y \<and> ys_cancels y = [] \<and> map rn_Status (ys_db y) = [RunStatusCancelled]
      \<and> ?S y y' \<and> ys_pc y' = Returned \<and> map rn_Status (ys_db y') = [RunStatusSucceeded]"
  proof (intro exI conjI)
    show "?S\<^sup>*\<^sup>* (dispatched [r]) (?y [?c ?run] (Executed ?t None) True [])"
      using start [of r False] running execute read [of ?run "Executed ?t None" False] cancel [of ?run "Executed ?t None" True] k
      by (simp add: dispatched_def)
    show "?S (?y [?c ?run] (Executed ?t None) True [])
      (?y [set_run_finished RunStatusSucceeded (milliseconds (time_sub ?t ?t)) '''' ?t (?c ?run)] Returned True [])"
      by (rule succeed)
  qed simp_all
qed

theorem cancelled_run_can_revive_witness:
  "\<exists>y y'. (run_step run_gorm ''r1'')\<^sup>*\<^sup>* (dispatched [demo_run]) y \<and> ys_cancels y = []
      \<and> map rn_Status (ys_db y) = [RunStatusCancelled]
      \<and> run_step run_gorm ''r1'' y y' \<and> ys_pc y' = Returned \<and> map rn_Status (ys_db y') = [RunStatusSucceeded]"
proof -
  from cancelled_run_can_revive [OF demo_run_sel, THEN conjunct2] show ?thesis .
qed

end
