(* ===== verification/Pipeline_Stats.thy ===== *)
theory Pipeline_Stats
  imports Pipeline_Facts
begin

text \<open>
  What the statistics of a pipeline count: the loop over the runs as counts of a list, the sum of the
  durations below the wrap-around of \<open>int64\<close>, the average and the success rate.
\<close>

lemma wrap64_id: "- (2 ^ 63) \<le> z \<Longrightarrow> z < 2 ^ 63 \<Longrightarrow> wrap64 z = z"
  by (simp add: wrap64_def sint_sbintrunc' signed_take_bit_int_eq_self)

definition count_status :: "run_status \<Rightarrow> pipeline_run list \<Rightarrow> int" where
  "count_status st rs = int (length (filter (\<lambda>r. rn_Status r = st) rs))"

definition completed_ms :: "pipeline_run list \<Rightarrow> int" where
  "completed_ms rs = sum_list (map rn_DurationMs
     (filter (\<lambda>r. rn_Status r = RunStatusSucceeded \<or> rn_Status r = RunStatusFailed) rs))"

lemma count_status_simps [simp]:
  "count_status st [] = 0"
  "count_status st (r # rs) = (if rn_Status r = st then 1 else 0) + count_status st rs"
  by (simp_all add: count_status_def)

lemma completed_ms_simps [simp]:
  "completed_ms [] = 0"
  "completed_ms (r # rs) = (if rn_Status r = RunStatusSucceeded \<or> rn_Status r = RunStatusFailed
     then rn_DurationMs r else 0) + completed_ms rs"
  by (simp_all add: completed_ms_def)

lemma count_status_nonneg [simp]: "0 \<le> count_status st rs"
  by (simp add: count_status_def)

lemma count_status_le: "count_status RunStatusSucceeded rs + count_status RunStatusFailed rs
    + count_status RunStatusCancelled rs \<le> int (length rs)"
  by (induction rs) (auto split: run_status.splits)

lemma completed_ms_bounds:
  "\<forall>r \<in> set rs. 0 \<le> rn_DurationMs r \<and> rn_DurationMs r \<le> D \<Longrightarrow> 0 \<le> D \<Longrightarrow>
   0 \<le> completed_ms rs \<and> completed_ms rs \<le> D * int (length rs)"
  by (induction rs) (auto simp: algebra_simps)

lemma stats_loop_counts:
  "\<forall>r \<in> set rs. 0 \<le> rn_DurationMs r \<and> rn_DurationMs r \<le> D \<Longrightarrow> 0 \<le> D \<Longrightarrow> 0 \<le> dur \<Longrightarrow>
   dur + D * int (length rs) < 2 ^ 63 \<Longrightarrow>
   stats_loop rs (a, b, c, dur) = (a + count_status RunStatusSucceeded rs, b + count_status RunStatusFailed rs,
     c + count_status RunStatusCancelled rs, dur + completed_ms rs)"
proof (induction rs arbitrary: a b c dur)
  case (Cons r rs)
  let ?d = "rn_DurationMs r"
  have d: "0 \<le> ?d" "?d \<le> D" using Cons.prems(1) by auto
  have t: "\<forall>r \<in> set rs. 0 \<le> rn_DurationMs r \<and> rn_DurationMs r \<le> D" using Cons.prems(1) by auto
  have len: "dur + D + D * int (length rs) < 2 ^ 63" using Cons.prems(4) by (simp add: algebra_simps)
  have nn: "0 \<le> D * int (length rs)" using Cons.prems(2) by simp
  have w: "wrap64 (dur + ?d) = dur + ?d"
    by (rule wrap64_id) (use d Cons.prems(3) len nn in linarith)+
  have l1: "(dur + ?d) + D * int (length rs) < 2 ^ 63" "dur + D * int (length rs) < 2 ^ 63"
    using d len Cons.prems(2) by simp_all
  have p: "0 \<le> dur + ?d" using d Cons.prems(3) by simp
  note IH = Cons.IH [OF t Cons.prems(2) p l1(1)] Cons.IH [OF t Cons.prems(2,3) l1(2)]
  show ?case by (cases "rn_Status r") (simp_all add: w IH)
qed simp

text \<open>
  C16: what the statistics report. With durations of at most 25 million years each, the counts are
  those of the runs of the pipeline by status, the average is the truncated mean duration of the
  completed runs, and the recent runs are the first ten. Only the first 10000 runs are looked at
  while the total counts all of them: the success rate is at most 10000 divided by the total, so
  with more runs than that it stays below one even when every run succeeded.
\<close>

theorem pipeline_stats_report:
  assumes "pipeline_tables s pls rns sts" "Pipe_Stats s k w = Inr st"
    and "\<And>i r. rns (pw_runs w) i = Some r \<Longrightarrow> 0 \<le> rn_DurationMs r \<and> rn_DurationMs r \<le> 800000000000000"
  shows "\<exists>rows. distinct (map rn_ID rows)
    \<and> set rows = {r. rns (pw_runs w) (rn_ID r) = Some r \<and> rn_PipelineID r = k}
    \<and> ps_TotalRuns st = int (length rows)
    \<and> ps_SuccessfulRuns st = count_status RunStatusSucceeded (take 10000 rows)
    \<and> ps_FailedRuns st = count_status RunStatusFailed (take 10000 rows)
    \<and> ps_CancelledRuns st = count_status RunStatusCancelled (take 10000 rows)
    \<and> ps_AverageDurationMs st = completed_ms (take 10000 rows)
          div (ps_SuccessfulRuns st + ps_FailedRuns st)
    \<and> ps_SuccessRate st * of_nat (length rows) = of_int (ps_SuccessfulRuns st)
    \<and> ps_SuccessfulRuns st + ps_FailedRuns st + ps_CancelledRuns st \<le> 10000
    \<and> ps_RecentRuns st = take 10 rows"
proof -
  let ?P = "\<lambda>r. rn_PipelineID r = k"
  from assms(2) obtain rows where f: "db_Find (sv_runs s) (pw_runs w) ?P = Inr rows"
    by (auto simp: Pipe_Stats_def ListRunsForPipeline_def list_runs_def split: sum.splits)
  have fo: "distinct (map rn_ID rows)" "set rows = {r. rns (pw_runs w) (rn_ID r) = Some r \<and> ?P r}"
    using gorm_table.Find_ok [OF pipeline_tables.rns_table [OF assms(1)] f] by blast+
  let ?page = "take 10000 rows"
  have b: "\<forall>r \<in> set ?page. 0 \<le> rn_DurationMs r \<and> rn_DurationMs r \<le> 800000000000000"
    using fo(2) assms(3) by (auto dest!: in_set_takeD)
  have len: "int (length ?page) \<le> 10000" by simp
  have "800000000000000 * int (length ?page) \<le> 800000000000000 * 10000"
    using len by (intro mult_left_mono) simp_all
  then have lt: "0 + 800000000000000 * int (length ?page) < 2 ^ 63" by simp
  have c: "stats_loop ?page (0, 0, 0, 0) = (count_status RunStatusSucceeded ?page,
      count_status RunStatusFailed ?page, count_status RunStatusCancelled ?page, completed_ms ?page)"
    using stats_loop_counts [OF b _ _ lt, of 0 0 0] by simp
  have page: "page_of 10000 0 rows = ?page" by (simp add: page_of_def)
  have dur: "0 \<le> completed_ms ?page" using completed_ms_bounds [OF b] by simp
  have le: "count_status RunStatusSucceeded ?page + count_status RunStatusFailed ?page
      + count_status RunStatusCancelled ?page \<le> 10000"
    using count_status_le [of ?page] len by linarith
  have st: "st = \<lparr>ps_PipelineID = k, ps_TotalRuns = int (length rows),
      ps_SuccessfulRuns = count_status RunStatusSucceeded ?page, ps_FailedRuns = count_status RunStatusFailed ?page,
      ps_CancelledRuns = count_status RunStatusCancelled ?page,
      ps_SuccessRate = (if 0 < length rows then of_int (count_status RunStatusSucceeded ?page) / of_nat (length rows) else 0),
      ps_AverageDurationMs = (if 0 < count_status RunStatusSucceeded ?page + count_status RunStatusFailed ?page
        then go_div (completed_ms ?page) (count_status RunStatusSucceeded ?page + count_status RunStatusFailed ?page) else 0),
      ps_RecentRuns = (if 10 < length ?page then take 10 ?page else ?page)\<rparr>"
    using assms(2) f by (simp add: Pipe_Stats_def ListRunsForPipeline_def list_runs_def page c)
  have avg: "ps_AverageDurationMs st = completed_ms ?page div (ps_SuccessfulRuns st + ps_FailedRuns st)"
  proof (cases "0 < count_status RunStatusSucceeded ?page + count_status RunStatusFailed ?page")
    case True
    with dur show ?thesis by (simp add: st)
  next
    case False
    moreover have "0 \<le> count_status RunStatusSucceeded ?page + count_status RunStatusFailed ?page"
      by (simp add: add_nonneg_nonneg)
    ultimately have "count_status RunStatusSucceeded ?page + count_status RunStatusFailed ?page = 0" by linarith
    then show ?thesis by (simp add: st)
  qed
  have rate: "ps_SuccessRate st * of_nat (length rows) = of_int (ps_SuccessfulRuns st)"
    by (simp add: st)
  show ?thesis using fo avg rate le by (intro exI [of _ rows]) (simp add: st min_def)
qed

text \<open>Two runs of the pipeline, one succeeded in 10 ms, one failed in 15 ms.\<close>

abbreviation stat_run :: "string \<Rightarrow> run_status \<Rightarrow> int \<Rightarrow> pipeline_run" where
  "stat_run i st d \<equiv> \<lparr>rn_ID = i, rn_PipelineID = ''x'', rn_Status = st, rn_StartedAt = None,
     rn_FinishedAt = None, rn_DurationMs = d, rn_TriggeredBy = '''', rn_ErrorMessage = ''''\<rparr>"

definition stat_world :: mem_world where
  "stat_world = demo_world\<lparr>pw_runs := [stat_run ''a'' RunStatusSucceeded 10, stat_run ''b'' RunStatusFailed 15]\<rparr>"

theorem pipeline_stats_report_witness:
  "\<exists>st. Pipe_Stats (mem_pipes demo_executor) ''x'' stat_world = Inr st \<and> ps_TotalRuns st = 2
     \<and> ps_SuccessfulRuns st = 1 \<and> ps_AverageDurationMs st = 12 \<and> ps_SuccessRate st * 2 = 1"
proof -
  let ?runs = "[stat_run ''a'' RunStatusSucceeded 10, stat_run ''b'' RunStatusFailed 15]"
  obtain st where st: "Pipe_Stats (mem_pipes demo_executor) ''x'' stat_world = Inr st"
    and vals: "ps_TotalRuns st = 2" "ps_SuccessfulRuns st = 1" "ps_AverageDurationMs st = 12"
    by (simp add: Pipe_Stats_def ListRunsForPipeline_def list_runs_def mem_Find stat_world_def
        map_filter_simps page_of_def wrap64_id)
  have b: "mem_rows rn_ID (pw_runs stat_world) i = Some r \<Longrightarrow>
      0 \<le> rn_DurationMs r \<and> rn_DurationMs r \<le> 800000000000000" for i r
    by (auto simp: stat_world_def split: if_splits)
  obtain rows :: "pipeline_run list"
    where "ps_TotalRuns st = int (length rows)" "ps_SuccessRate st * of_nat (length rows) = of_int (ps_SuccessfulRuns st)"
    using pipeline_stats_report [OF mem_pipes.pipeline_tables_axioms st] b by blast
  with st vals show ?thesis by auto
qed

end
