(* ===== verification/Json_Map.thy ===== *)
theory Json_Map
  imports Contracts
begin

text \<open>
  JSON values and the column type \<open>JSONMap\<close> that the modules declare for themselves
  (\<open>internal/alerts/jsonmap.go\<close>, with a copy in \<open>internal/audit/models.go\<close>), with the list column
  \<open>StringList\<close>. The encoder and decoder of the standard library (\<open>encoding/json\<close>) are a parameter.
  Lemmas: what is written to a column reads back as the same map, and a nil map as the empty one.
\<close>

text \<open>
  A JSON object is the list of its members, with distinct names; the order of the list has no meaning.
  Numbers are kept as their text.
\<close>

datatype json =
    JNull
  | JBool bool
  | JNumber string
  | JString string
  | JArray "json list"
  | JObject "(string \<times> json) list"

type_synonym json_object = "(string \<times> json) list"

text \<open>\<open>None\<close> is the nil map of Go; reading a nil map is reading an empty one.\<close>

type_synonym json_map = "json_object option"

definition members :: "json_map \<Rightarrow> json_object" where
  "members m = (case m of None \<Rightarrow> [] | Some kvs \<Rightarrow> kvs)"

lemma members_simps [simp]: "members None = []" "members (Some kvs) = kvs"
  by (simp_all add: members_def)

subsection \<open>The column codecs\<close>

record json_codec =
  jc_Marshal :: "json \<Rightarrow> string"
  jc_Unmarshal :: "string \<Rightarrow> json result"

text \<open>What the database driver hands to \<open>Scan\<close>: NULL, bytes, a string, or a value of another type.\<close>

datatype db_value = DbNull | DbBytes string | DbString string | DbOther string

text \<open>Decoding into a map: an object gives its members, \<open>null\<close> a nil map, anything else is an error.\<close>

fun as_object :: "json \<Rightarrow> json_map result" where
  "as_object (JObject kvs) = Inr (Some kvs)"
| "as_object JNull = Inr None"
| "as_object _ = Inl (External ''json: cannot unmarshal into Go value of type map'')"

definition JSONMap_Value :: "json_codec \<Rightarrow> json_map \<Rightarrow> db_value" where
  "JSONMap_Value jc m =
     (case m of
        None \<Rightarrow> DbBytes ''{}''
      | Some kvs \<Rightarrow> DbBytes (jc_Marshal jc (JObject kvs)))"

definition scan_error :: "string \<Rightarrow> string \<Rightarrow> go_error" where
  "scan_error who ty = External (who @ ''.Scan: unsupported src type '' @ ty)"

text \<open>\<open>Unmarshal\<close> of the bytes, and an empty map in place of a nil one.\<close>

definition JSONMap_decode :: "json_codec \<Rightarrow> string \<Rightarrow> json_map result" where
  "JSONMap_decode jc data =
     (if data = [] then Inr (Some [])
      else
        (case jc_Unmarshal jc data of
           Inl err \<Rightarrow> Inl (Wrapped ''alerts.JSONMap.Scan: '' err)
         | Inr j \<Rightarrow>
             (case as_object j of
                Inl err \<Rightarrow> Inl (Wrapped ''alerts.JSONMap.Scan: '' err)
              | Inr None \<Rightarrow> Inr (Some [])
              | Inr (Some kvs) \<Rightarrow> Inr (Some kvs))))"

fun JSONMap_Scan :: "json_codec \<Rightarrow> db_value \<Rightarrow> json_map result" where
  "JSONMap_Scan jc DbNull = Inr (Some [])"
| "JSONMap_Scan jc (DbBytes v) = JSONMap_decode jc v"
| "JSONMap_Scan jc (DbString v) = (if v = '''' then Inr (Some []) else JSONMap_decode jc v)"
| "JSONMap_Scan jc (DbOther ty) = Inl (scan_error ''alerts.JSONMap'' ty)"

text \<open>A list of strings; a \<open>null\<close> element is decoded as the empty string.\<close>

fun as_strings :: "json list \<Rightarrow> string list result" where
  "as_strings [] = Inr []"
| "as_strings (j # js) =
     (case as_strings js of
        Inl err \<Rightarrow> Inl err
      | Inr ss \<Rightarrow>
          (case j of
             JString s \<Rightarrow> Inr (s # ss)
           | JNull \<Rightarrow> Inr ('''' # ss)
           | _ \<Rightarrow> Inl (External ''json: cannot unmarshal into Go value of type string'')))"

fun as_string_list :: "json \<Rightarrow> string list option result" where
  "as_string_list JNull = Inr None"
| "as_string_list (JArray js) = map_sum (\<lambda>e. e) Some (as_strings js)"
| "as_string_list _ = Inl (External ''json: cannot unmarshal into Go value of type []string'')"

definition StringList_Value :: "json_codec \<Rightarrow> string list option \<Rightarrow> db_value" where
  "StringList_Value jc s =
     (case s of
        None \<Rightarrow> DbBytes ''[]''
      | Some ss \<Rightarrow> DbBytes (jc_Marshal jc (JArray (map JString ss))))"

definition StringList_decode :: "json_codec \<Rightarrow> string \<Rightarrow> string list option result" where
  "StringList_decode jc data =
     (if data = [] then Inr (Some [])
      else
        (case jc_Unmarshal jc data of
           Inl err \<Rightarrow> Inl (Wrapped ''alerts.StringList.Scan: '' err)
         | Inr j \<Rightarrow>
             (case as_string_list j of
                Inl err \<Rightarrow> Inl (Wrapped ''alerts.StringList.Scan: '' err)
              | Inr out \<Rightarrow> Inr out)))"

fun StringList_Scan :: "json_codec \<Rightarrow> db_value \<Rightarrow> string list option result" where
  "StringList_Scan jc DbNull = Inr (Some [])"
| "StringList_Scan jc (DbBytes v) = StringList_decode jc v"
| "StringList_Scan jc (DbString v) = (if v = '''' then Inr (Some []) else StringList_decode jc v)"
| "StringList_Scan jc (DbOther ty) = Inl (scan_error ''alerts.StringList'' ty)"

text \<open>
  The form in which a column comes back from the database: a nil map is written as an empty object.
\<close>

definition stored_map :: "json_map \<Rightarrow> json_map" where
  "stored_map m = Some (members m)"

lemma stored_map_idem [simp]: "stored_map (stored_map m) = stored_map m"
  by (simp add: stored_map_def)

lemma members_stored_map [simp]: "members (stored_map m) = members m"
  by (simp add: stored_map_def)

lemma JSONMap_Scan_Value:
  assumes "jc_Unmarshal jc ''{}'' = Inr (JObject [])"
    and "jc_Marshal jc (JObject (members m)) \<noteq> ''''"
    and "jc_Unmarshal jc (jc_Marshal jc (JObject (members m))) = Inr (JObject (members m))"
  shows "JSONMap_Scan jc (JSONMap_Value jc m) = Inr (stored_map m)"
  using assms by (cases m) (simp_all add: JSONMap_Value_def JSONMap_decode_def stored_map_def)

lemma as_strings_JString [simp]: "as_strings (map JString ss) = Inr ss"
  by (induction ss) simp_all

lemma StringList_Scan_Value:
  assumes "jc_Marshal jc (JArray (map JString ss)) \<noteq> ''''"
    and "jc_Unmarshal jc (jc_Marshal jc (JArray (map JString ss))) = Inr (JArray (map JString ss))"
  shows "StringList_Scan jc (StringList_Value jc (Some ss)) = Inr (Some ss)"
  using assms by (simp add: StringList_Value_def StringList_decode_def)

text \<open>A column that is not NULL and not of the two text types is always refused.\<close>

lemma JSONMap_Scan_total: "JSONMap_Scan jc v \<noteq> Inr None"
  by (cases v) (auto simp: JSONMap_decode_def split: sum.splits option.splits)

end
