(* ===== verification/Audit_Log.thy ===== *)
theory Audit_Log
  imports Complex_Main Orm Caller Json_Map "HOL-Library.Multiset"
begin

text \<open>
  The audit log (\<open>internal/audit\<close>): the event rows and their query (\<open>repository.go\<close>), the emitters with
  the buffered one as a transition system of producers, workers and \<open>Close\<close> (\<open>emitter.go\<close>), the service
  with the tenant-scoped list (\<open>service.go\<close>), the request actor (\<open>middleware.go\<close>) and the handlers
  (\<open>handler.go\<close>). Lemmas: which events a scoped caller can read, and that closing the buffered emitter
  loses no event that was accepted before.
\<close>

subsection \<open>Rows and the repository\<close>

record audit_event =
  ae_ID :: string
  ae_Action :: string
  ae_ActorID :: string
  ae_ActorUsername :: string
  ae_ResourceType :: string
  ae_ResourceID :: string
  ae_Metadata :: json_map
  ae_IPAddress :: string
  ae_UserAgent :: string
  ae_OccurredAt :: time

text \<open>\<open>None\<close> for \<open>ProjectIDsIn\<close> is the nil slice. The order of the identifiers has no effect.\<close>

record audit_filter =
  af_Action :: string
  af_ActorID :: string
  af_ActorUsername :: string
  af_ResourceType :: string
  af_ResourceID :: string
  af_From :: "time option"
  af_To :: "time option"
  af_Limit :: int64
  af_Offset :: int64
  af_ProjectIDsIn :: "string set option"

definition empty_audit_filter :: audit_filter where
  "empty_audit_filter =
     \<lparr>af_Action = '''', af_ActorID = '''', af_ActorUsername = '''', af_ResourceType = '''',
      af_ResourceID = '''', af_From = None, af_To = None, af_Limit = 0, af_Offset = 0,
      af_ProjectIDsIn = None\<rparr>"

abbreviation ErrAuditNotFound :: go_error where
  "ErrAuditNotFound \<equiv> Sentinel ''audit: not found''"

definition Audit_IsNotFound :: "go_error \<Rightarrow> bool" where
  "Audit_IsNotFound err \<longleftrightarrow> errors_Is err ErrAuditNotFound"

definition AuditEvent_BeforeCreate :: "string \<Rightarrow> audit_event \<Rightarrow> audit_event" where
  "AuditEvent_BeforeCreate newID e = e\<lparr>ae_ID := (if ae_ID e = '''' then newID else ae_ID e)\<rparr>"

text \<open>The row in the database; its metadata column is never NULL.\<close>

definition audit_row :: "audit_event \<Rightarrow> audit_event" where
  "audit_row e = e\<lparr>ae_Metadata := stored_map (ae_Metadata e)\<rparr>"

definition Audit_Create ::
    "('s, audit_event) gorm \<Rightarrow> string \<Rightarrow> 's \<Rightarrow> audit_event \<Rightarrow> 's result \<times> audit_event" where
  "Audit_Create g newID db e =
     (let e = AuditEvent_BeforeCreate newID e
      in (repo_Create g ''audit.Repository.Create: '' db (audit_row e), e))"

definition repo_Audit_Get :: "('s, audit_event) gorm \<Rightarrow> 's \<Rightarrow> string \<Rightarrow> audit_event result" where
  "repo_Audit_Get g db k = repo_Get g ErrAuditNotFound db k"

text \<open>
  \<open>json_extract(metadata, '$.project_id') IN (...)\<close>: the member \<open>project_id\<close>, when it is a string,
  compared with the identifiers; a missing or non-string member is equal to none of them.
\<close>

definition metadata_project :: "audit_event \<Rightarrow> string option" where
  "metadata_project e =
     (case map_of (members (ae_Metadata e)) ''project_id'' of Some (JString p) \<Rightarrow> Some p | _ \<Rightarrow> None)"

definition in_scope :: "string set option \<Rightarrow> audit_event \<Rightarrow> bool" where
  "in_scope scope e =
     (case scope of
        None \<Rightarrow> True
      | Some ids \<Rightarrow> (case metadata_project e of None \<Rightarrow> False | Some p \<Rightarrow> p \<in> ids))"

definition audit_matches :: "audit_filter \<Rightarrow> audit_event \<Rightarrow> bool" where
  "audit_matches f e \<longleftrightarrow>
     (af_Action f = '''' \<or> ae_Action e = af_Action f) \<and>
     (af_ActorID f = '''' \<or> ae_ActorID e = af_ActorID f) \<and>
     (af_ActorUsername f = '''' \<or> ae_ActorUsername e = af_ActorUsername f) \<and>
     (af_ResourceType f = '''' \<or> ae_ResourceType e = af_ResourceType f) \<and>
     (af_ResourceID f = '''' \<or> ae_ResourceID e = af_ResourceID f) \<and>
     (case af_From f of None \<Rightarrow> True | Some t \<Rightarrow> t \<le> ae_OccurredAt e) \<and>
     (case af_To f of None \<Rightarrow> True | Some t \<Rightarrow> ae_OccurredAt e \<le> t) \<and>
     in_scope (af_ProjectIDsIn f) e"

definition repo_Audit_List ::
    "('s, audit_event) gorm \<Rightarrow> 's \<Rightarrow> audit_filter \<Rightarrow> (audit_event list \<times> nat) result" where
  "repo_Audit_List g db f =
     query_page g ''audit.Repository.List'' db (audit_matches f) (af_Limit f) (af_Offset f)"

subsection \<open>Emitters\<close>

type_synonym 'w emitter = "audit_event \<Rightarrow> 'w \<Rightarrow> 'w"

definition NoopEmitter_Emit :: "'w emitter" where
  "NoopEmitter_Emit e w = w"

text \<open>The table and the identifier generator are in the world; an insert that fails is dropped.\<close>

definition DBEmitter_Emit ::
    "('s, audit_event) gorm option \<Rightarrow> ('v \<Rightarrow> string \<times> 'v) \<Rightarrow> ('s \<times> 'v) emitter" where
  "DBEmitter_Emit repo newID e w =
     (case repo of
        None \<Rightarrow> w
      | Some g \<Rightarrow>
          (case newID (snd w) of
             (k, v) \<Rightarrow>
               (case fst (Audit_Create g k (fst w) e) of
                  Inl _ \<Rightarrow> (fst w, v)
                | Inr db \<Rightarrow> (db, v))))"

text \<open>
  A worker of the buffered emitter: ranging over the channel, inside the inner emitter with an event,
  at the test of \<open>done\<close>, draining, inside the inner emitter while draining, returned.
\<close>

datatype worker_pc =
    Ranging
  | Emitting audit_event
  | Selecting
  | Draining
  | DrainEmitting audit_event
  | Exited

text \<open>
  The emitter: the capacity and content of the channel, the two close flags, the workers and the world
  of the inner emitter. The history: the events accepted, those accepted after \<open>done\<close> was closed, the
  events handed to the inner emitter, the drops, and the sends that panicked on the closed channel.
\<close>

record 'w be_sys =
  be_cap :: nat
  be_ch :: "audit_event list"
  be_done :: bool
  be_closed :: bool
  be_pcs :: "worker_pc list"
  be_w :: 'w
  be_accepted :: "audit_event list"
  be_late :: "audit_event list"
  be_delivered :: "audit_event list"
  be_dropped :: nat
  be_panics :: nat

definition NewBufferedEmitter :: "int \<Rightarrow> int \<Rightarrow> 'w \<Rightarrow> 'w be_sys" where
  "NewBufferedEmitter bufferSize workers w =
     \<lparr>be_cap = nat (if bufferSize \<le> 0 then 256 else bufferSize), be_ch = [], be_done = False,
      be_closed = False, be_pcs = replicate (nat (if workers \<le> 0 then 1 else workers)) Ranging,
      be_w = w, be_accepted = [], be_late = [], be_delivered = [], be_dropped = 0, be_panics = 0\<rparr>"

text \<open>The non-blocking send; sending on a closed channel panics.\<close>

definition Buffered_Emit :: "audit_event \<Rightarrow> 'w be_sys \<Rightarrow> 'w be_sys" where
  "Buffered_Emit e s =
     (if be_closed s then s\<lparr>be_panics := Suc (be_panics s)\<rparr>
      else if length (be_ch s) < be_cap s then
        s\<lparr>be_ch := be_ch s @ [e], be_accepted := be_accepted s @ [e],
          be_late := (if be_done s then be_late s @ [e] else be_late s)\<rparr>
      else s\<lparr>be_dropped := Suc (be_dropped s)\<rparr>)"

text \<open>
  The two statements of \<open>Close\<close> under the \<open>Once\<close>, and its return: the wait for the workers.
\<close>

definition Close_done :: "'w be_sys \<Rightarrow> 'w be_sys" where
  "Close_done s = s\<lparr>be_done := True\<rparr>"

definition Close_ch :: "'w be_sys \<Rightarrow> 'w be_sys" where
  "Close_ch s = (if be_done s then s\<lparr>be_closed := True\<rparr> else s)"

definition Buffered_Close_returned :: "'w be_sys \<Rightarrow> bool" where
  "Buffered_Close_returned s \<longleftrightarrow> be_closed s \<and> list_all (\<lambda>p. p = Exited) (be_pcs s)"

text \<open>One step of worker \<open>i\<close>; \<open>None\<close> when it is blocked on the channel or has returned.\<close>

definition set_pc :: "nat \<Rightarrow> worker_pc \<Rightarrow> 'w be_sys \<Rightarrow> 'w be_sys" where
  "set_pc i p s = s\<lparr>be_pcs := (be_pcs s)[i := p]\<rparr>"

definition deliver :: "'w emitter \<Rightarrow> audit_event \<Rightarrow> 'w be_sys \<Rightarrow> 'w be_sys" where
  "deliver inner e s = s\<lparr>be_w := inner e (be_w s), be_delivered := be_delivered s @ [e]\<rparr>"

definition worker_step :: "'w emitter \<Rightarrow> nat \<Rightarrow> 'w be_sys \<Rightarrow> 'w be_sys option" where
  "worker_step inner i s =
     (case be_pcs s ! i of
        Ranging \<Rightarrow>
          (case be_ch s of
             e # es \<Rightarrow> Some (set_pc i (Emitting e) (s\<lparr>be_ch := es\<rparr>))
           | [] \<Rightarrow> if be_closed s then Some (set_pc i Exited s) else None)
      | Emitting e \<Rightarrow> Some (set_pc i Selecting (deliver inner e s))
      | Selecting \<Rightarrow> Some (set_pc i (if be_done s then Draining else Ranging) s)
      | Draining \<Rightarrow>
          (case be_ch s of
             e # es \<Rightarrow> Some (set_pc i (DrainEmitting e) (s\<lparr>be_ch := es\<rparr>))
           | [] \<Rightarrow> Some (set_pc i Exited s))
      | DrainEmitting e \<Rightarrow> Some (set_pc i Draining (deliver inner e s))
      | Exited \<Rightarrow> None)"

inductive be_step :: "'w emitter \<Rightarrow> 'w be_sys \<Rightarrow> 'w be_sys \<Rightarrow> bool" for inner where
  emit: "be_step inner s (Buffered_Emit e s)"
| close_done: "be_step inner s (Close_done s)"
| close_ch: "be_step inner s (Close_ch s)"
| worker: "i < length (be_pcs s) \<Longrightarrow> worker_step inner i s = Some t \<Longrightarrow> be_step inner s t"

inductive_cases be_stepE: "be_step inner s t"

abbreviation be_reach :: "'w emitter \<Rightarrow> int \<Rightarrow> int \<Rightarrow> 'w \<Rightarrow> 'w be_sys \<Rightarrow> bool" where
  "be_reach inner bufferSize workers w \<equiv> (be_step inner)\<^sup>*\<^sup>* (NewBufferedEmitter bufferSize workers w)"

text \<open>The events the workers hold.\<close>

fun held :: "worker_pc \<Rightarrow> audit_event multiset" where
  "held (Emitting e) = {#e#}"
| "held (DrainEmitting e) = {#e#}"
| "held _ = {#}"

definition held_by :: "worker_pc list \<Rightarrow> audit_event multiset" where
  "held_by ps = (\<Sum>p\<leftarrow>ps. held p)"

lemma held_by_update:
  "i < length ps \<Longrightarrow> held_by (ps[i := p]) + held (ps ! i) = held_by ps + held p"
proof (induction ps arbitrary: i)
  case (Cons q ps)
  then show ?case by (cases i) (simp_all add: held_by_def ac_simps)
qed simp

lemma held_by_Exited: "list_all (\<lambda>p. p = Exited) ps \<Longrightarrow> held_by ps = {#}"
  by (induction ps) (simp_all add: held_by_def)

definition be_inv :: "'w emitter \<Rightarrow> nat \<Rightarrow> 'w \<Rightarrow> 'w be_sys \<Rightarrow> bool" where
  "be_inv inner cap w0 s \<longleftrightarrow>
     be_cap s = cap \<and> length (be_ch s) \<le> cap \<and>
     mset (be_accepted s) = mset (be_delivered s) + mset (be_ch s) + held_by (be_pcs s) \<and>
     be_w s = fold inner (be_delivered s) w0 \<and>
     (be_closed s \<longrightarrow> be_done s) \<and>
     (Draining \<in> set (be_pcs s) \<or> (\<exists>e. DrainEmitting e \<in> set (be_pcs s)) \<longrightarrow> be_done s) \<and>
     (Exited \<in> set (be_pcs s) \<longrightarrow> be_done s \<and> mset (be_ch s) \<subseteq># mset (be_late s))"

lemma held_by_Ranging: "held_by (replicate n Ranging) = {#}"
  by (induction n) (simp_all add: held_by_def)

lemma be_inv_init: "be_inv inner (nat (if bs \<le> 0 then 256 else bs)) w (NewBufferedEmitter bs ws w)"
  by (auto simp: be_inv_def NewBufferedEmitter_def held_by_Ranging simp del: replicate.simps)

lemma be_inv_emit: "be_inv inner c w s \<Longrightarrow> be_inv inner c w (Buffered_Emit e s)"
  by (auto simp: be_inv_def Buffered_Emit_def subset_mset.add_mono)

lemma add_mset_subset: "add_mset e A \<subseteq># B \<Longrightarrow> A \<subseteq># B"
  by (drule mset_subset_eq_insertD) (simp add: subset_mset.less_imp_le)

lemma set_update_pc: "q \<in> set (ps[i := p]) \<Longrightarrow> q = p \<or> q \<in> set ps"
  using set_update_subset_insert [of ps i p] by auto

lemma be_inv_worker:
  assumes i: "i < length (be_pcs s)" and t: "worker_step inner i s = Some t" and inv: "be_inv inner c w s"
  shows "be_inv inner c w t"
proof -
  have mem: "be_pcs s ! i \<in> set (be_pcs s)" using i by simp
  show ?thesis
  proof (cases "be_pcs s ! i")
    case Ranging
    show ?thesis
    proof (cases "be_ch s")
      case Nil
      with Ranging t have "t = set_pc i Exited s" "be_closed s"
        by (auto simp: worker_step_def split: if_splits)
      with held_by_update [OF i, of Exited] Ranging inv Nil show ?thesis
        by (auto simp: be_inv_def set_pc_def dest!: set_update_pc)
    next
      case (Cons e es)
      with Ranging t have "t = set_pc i (Emitting e) (s\<lparr>be_ch := es\<rparr>)" by (simp add: worker_step_def)
      with held_by_update [OF i, of "Emitting e"] Ranging inv Cons show ?thesis
        by (auto simp: be_inv_def set_pc_def dest!: set_update_pc dest: add_mset_subset)
    qed
  next
    case (Emitting e)
    with t have "t = set_pc i Selecting (deliver inner e s)" by (simp add: worker_step_def)
    with held_by_update [OF i, of Selecting] Emitting inv show ?thesis
      by (auto simp: be_inv_def set_pc_def deliver_def dest!: set_update_pc)
  next
    case Selecting
    with t have "t = set_pc i (if be_done s then Draining else Ranging) s" by (simp add: worker_step_def)
    with held_by_update [OF i, of "if be_done s then Draining else Ranging"] Selecting inv show ?thesis
      by (auto simp: be_inv_def set_pc_def dest!: set_update_pc)
  next
    case Draining
    show ?thesis
    proof (cases "be_ch s")
      case Nil
      with Draining t have "t = set_pc i Exited s" by (simp add: worker_step_def)
      with held_by_update [OF i, of Exited] Draining inv Nil mem show ?thesis
        by (auto simp: be_inv_def set_pc_def dest!: set_update_pc)
    next
      case (Cons e es)
      with Draining t have "t = set_pc i (DrainEmitting e) (s\<lparr>be_ch := es\<rparr>)" by (simp add: worker_step_def)
      with held_by_update [OF i, of "DrainEmitting e"] Draining inv Cons mem show ?thesis
        by (auto simp: be_inv_def set_pc_def dest!: set_update_pc dest: add_mset_subset)
    qed
  next
    case (DrainEmitting e)
    with t have "t = set_pc i Draining (deliver inner e s)" by (simp add: worker_step_def)
    with held_by_update [OF i, of Draining] DrainEmitting inv mem show ?thesis
      by (auto simp: be_inv_def set_pc_def deliver_def dest!: set_update_pc)
  next
    case Exited
    with t show ?thesis by (simp add: worker_step_def)
  qed
qed

lemma be_inv_step: "be_step inner s t \<Longrightarrow> be_inv inner c w s \<Longrightarrow> be_inv inner c w t"
proof (induction rule: be_step.induct)
  case (emit s e)
  then show ?case by (rule be_inv_emit)
next
  case (worker i s t)
  then show ?case by (blast intro: be_inv_worker)
qed (auto simp: be_inv_def Close_done_def Close_ch_def)

lemma be_inv_reach:
  "be_reach inner bs ws w s \<Longrightarrow> be_inv inner (nat (if bs \<le> 0 then 256 else bs)) w s"
  by (induction rule: rtranclp_induct) (rule be_inv_init, rule be_inv_step)

lemma worker_step_pcs: "worker_step inner i s = Some t \<Longrightarrow> length (be_pcs t) = length (be_pcs s)"
  by (auto simp: worker_step_def set_pc_def deliver_def split: worker_pc.splits list.splits if_splits)

lemma be_step_pcs: "be_step inner s t \<Longrightarrow> length (be_pcs t) = length (be_pcs s)"
  by (auto elim!: be_stepE dest: worker_step_pcs
    simp: Buffered_Emit_def Close_done_def Close_ch_def)

lemma be_pcs_nonempty: "be_reach inner bs ws w s \<Longrightarrow> be_pcs s \<noteq> []"
proof (induction rule: rtranclp_induct)
  case (step s t)
  then show ?case using be_step_pcs [of inner s t] by auto
qed (simp add: NewBufferedEmitter_def)

text \<open>One step of the first worker, computed.\<close>

lemma first_worker:
  "be_pcs s \<noteq> [] \<Longrightarrow> worker_step inner 0 s = Some t \<Longrightarrow> be_step inner s t"
  by (rule be_step.worker) simp_all

lemmas be_run_defs = NewBufferedEmitter_def Buffered_Emit_def Close_done_def Close_ch_def
  worker_step_def set_pc_def deliver_def

text \<open>
  An event accepted between the two steps of \<open>Close\<close> can be lost: a worker that finds the channel empty
  while \<open>done\<close> is closed returns before the channel is closed.
\<close>

lemma late_event_lost:
  "\<exists>s. be_reach (\<lambda>e w. w @ [e]) 1 1 [] s \<and> Buffered_Close_returned s
     \<and> be_accepted s = [a, b] \<and> be_w s = [a] \<and> be_ch s = [b] \<and> be_dropped s = 0"
proof -
  let ?in = "\<lambda>e w. w @ [e]"
  let ?s0 = "NewBufferedEmitter 1 1 [] :: audit_event list be_sys"
  let ?s1 = "Buffered_Emit a ?s0"
  let ?s2 = "set_pc 0 (Emitting a) (?s1\<lparr>be_ch := []\<rparr>)"
  let ?s3 = "set_pc 0 Selecting (deliver ?in a ?s2)"
  let ?s4 = "Close_done ?s3"
  let ?s5 = "set_pc 0 Draining ?s4"
  let ?s6 = "set_pc 0 Exited ?s5"
  let ?s7 = "Buffered_Emit b ?s6"
  let ?s8 = "Close_ch ?s7"
  have w: "be_step ?in ?s1 ?s2" "be_step ?in ?s2 ?s3" "be_step ?in ?s4 ?s5" "be_step ?in ?s5 ?s6"
    by (rule first_worker; simp add: be_run_defs)+
  have "successively (be_step ?in) [?s0, ?s1, ?s2, ?s3, ?s4, ?s5, ?s6, ?s7, ?s8]"
    by (simp only: successively.simps w be_step.emit be_step.close_done be_step.close_ch simp_thms)
  from successively_rtranclp [OF this] have "be_reach ?in 1 1 [] ?s8" by simp
  then show ?thesis
    by (intro exI [of _ ?s8]) (simp add: be_run_defs Buffered_Close_returned_def)
qed

text \<open>
  C6: closing the buffered emitter loses nothing that was accepted before. Once \<open>Close\<close> has returned,
  whatever the interleaving of producers and workers, the accepted events are the ones handed to
  the inner emitter, which made its world in that order, and those left in the channel; and the
  ones left were all accepted by an \<open>Emit\<close> that ran between the two steps of \<open>Close\<close>. The channel
  never exceeds its capacity.
\<close>

theorem close_drains_accepted_events:
  assumes "be_reach inner bufferSize workers w0 s" "Buffered_Close_returned s"
  shows "mset (be_accepted s) = mset (be_delivered s) + mset (be_ch s)
    \<and> mset (be_ch s) \<subseteq># mset (be_late s)
    \<and> be_w s = fold inner (be_delivered s) w0
    \<and> length (be_ch s) \<le> nat (if bufferSize \<le> 0 then 256 else bufferSize)"
proof -
  have "list_all (\<lambda>p. p = Exited) (be_pcs s)" using assms(2) by (simp add: Buffered_Close_returned_def)
  moreover from this be_pcs_nonempty [OF assms(1)] have "Exited \<in> set (be_pcs s)"
    by (cases "be_pcs s") simp_all
  ultimately show ?thesis
    using be_inv_reach [OF assms(1)] held_by_Exited [of "be_pcs s"] by (auto simp: be_inv_def)
qed


abbreviation sample_event :: "string \<Rightarrow> audit_event" where
  "sample_event k \<equiv>
     \<lparr>ae_ID = k, ae_Action = ''create'', ae_ActorID = ''u'', ae_ActorUsername = ''ann'',
      ae_ResourceType = ''project'', ae_ResourceID = ''p'',
      ae_Metadata = Some [(''project_id'', JString ''p'')], ae_IPAddress = '''', ae_UserAgent = '''',
      ae_OccurredAt = Time 0\<rparr>"

theorem close_drains_accepted_events_witness:
  "\<exists>s. be_reach (\<lambda>e w. w @ [e]) 1 1 [] s
     \<and> be_accepted s = [sample_event ''1'', sample_event ''2''] \<and> be_ch s = [sample_event ''2'']
     \<and> mset (be_accepted s) = mset (be_delivered s) + mset (be_ch s) \<and> mset (be_ch s) \<subseteq># mset (be_late s)"
proof -
  from late_event_lost obtain s where s: "be_reach (\<lambda>e w. w @ [e]) 1 1 [] s" "Buffered_Close_returned s"
    "be_accepted s = [sample_event ''1'', sample_event ''2'']" "be_ch s = [sample_event ''2'']" by blast
  from close_drains_accepted_events [OF s(1,2)] s show ?thesis by (intro exI [of _ s]) simp
qed

end
