(* ===== verification/Audit_Service.thy ===== *)
theory Audit_Service
  imports Audit_Log
begin

text \<open>
  The audit service (\<open>internal/audit/service.go\<close>) with the tenant-scoped list, the request actor of the
  middleware (\<open>middleware.go\<close>) and the HTTP handlers (\<open>handler.go\<close>). The emitter is a function on the
  world, as in theory \<open>Audit_Log\<close>. Lemmas: a scoped caller reads exactly the events of the granted projects.
\<close>

subsection \<open>Recording\<close>

record record_action_input =
  ra_Action :: string
  ra_ResourceType :: string
  ra_ResourceID :: string
  ra_ActorID :: string
  ra_ActorName :: string
  ra_Metadata :: json_map
  ra_IPAddress :: string
  ra_UserAgent :: string

text \<open>The service; \<open>None\<close> in a field is the nil dependency. The clock reads the world.\<close>

record ('s, 'w) audit_service =
  as_repo :: "('s, audit_event) gorm option"
  as_emitter :: "'w emitter option"
  as_now :: "'w \<Rightarrow> time \<times> 'w"

definition NewAuditService ::
    "('s, audit_event) gorm option \<Rightarrow> 'w emitter option \<Rightarrow> ('w \<Rightarrow> time \<times> 'w) option
     \<Rightarrow> ('w \<Rightarrow> time \<times> 'w) \<Rightarrow> ('s, 'w) audit_service" where
  "NewAuditService repo emitter cfgNow wallClock =
     \<lparr>as_repo = repo, as_emitter = emitter,
      as_now = (case cfgNow of None \<Rightarrow> wallClock | Some f \<Rightarrow> f)\<rparr>"

definition action_event :: "record_action_input \<Rightarrow> time \<Rightarrow> audit_event" where
  "action_event inp now =
     \<lparr>ae_ID = '''', ae_Action = ra_Action inp, ae_ActorID = ra_ActorID inp,
      ae_ActorUsername = ra_ActorName inp, ae_ResourceType = ra_ResourceType inp,
      ae_ResourceID = ra_ResourceID inp,
      ae_Metadata = Some (case ra_Metadata inp of None \<Rightarrow> [] | Some md \<Rightarrow> md),
      ae_IPAddress = ra_IPAddress inp, ae_UserAgent = ra_UserAgent inp, ae_OccurredAt = now\<rparr>"

text \<open>The receiver may be nil.\<close>

definition RecordAction :: "('s, 'w) audit_service option \<Rightarrow> record_action_input \<Rightarrow> 'w \<Rightarrow> 'w" where
  "RecordAction s inp w =
     (case s of
        None \<Rightarrow> w
      | Some s \<Rightarrow>
          (case as_emitter s of
             None \<Rightarrow> w
           | Some emit \<Rightarrow> (case as_now s w of (now, w) \<Rightarrow> emit (action_event inp now) w)))"

subsection \<open>Reading\<close>

definition missing_repository :: go_error where
  "missing_repository = APIError CodeInternal ''audit service: missing repository'' None"

definition audit_repo :: "('s, 'w) audit_service option \<Rightarrow> ('s, audit_event) gorm option" where
  "audit_repo s = Option.bind s as_repo"

definition Audit_List ::
    "('s, 'w) audit_service option \<Rightarrow> 's \<Rightarrow> audit_filter \<Rightarrow> (audit_event list \<times> nat) result" where
  "Audit_List s db f =
     (case audit_repo s of
        None \<Rightarrow> Inl missing_repository
      | Some g \<Rightarrow>
          (case repo_Audit_List g db f of
             Inl err \<Rightarrow> Inl (APIError CodeInternal ''failed to list audit events'' (Some err))
           | Inr page \<Rightarrow> Inr page))"

definition Audit_ListForCaller ::
    "('s, 'w) audit_service option \<Rightarrow> 's \<Rightarrow> audit_filter \<Rightarrow> caller option
     \<Rightarrow> 'v membership_checker option \<Rightarrow> 'v \<Rightarrow> (audit_event list \<times> nat) result \<times> 'v" where
  "Audit_ListForCaller s db f cl membership v =
     (case audit_repo s of
        None \<Rightarrow> (Inl missing_repository, v)
      | Some _ \<Rightarrow>
          (case Option.bind cl cl_User of
             None \<Rightarrow> (Inr ([], 0), v)
           | Some u \<Rightarrow>
               if IsSuperAdmin cl then (Audit_List s db f, v)
               else
                 (case membership of
                    None \<Rightarrow> (Inr ([], 0), v)
                  | Some m \<Rightarrow>
                      (case m (user_ID u) v of
                         ((memberSet, err), v) \<Rightarrow>
                           (case err of
                              Some e \<Rightarrow>
                                (Inl (APIError CodeInternal ''failed to load caller memberships'' (Some e)), v)
                            | None \<Rightarrow>
                                (Audit_List s db
                                   (f\<lparr>af_ProjectIDsIn := Some (case memberSet of None \<Rightarrow> {} | Some ids \<Rightarrow> ids)\<rparr>),
                                 v))))))"

definition Audit_Get :: "('s, 'w) audit_service option \<Rightarrow> 's \<Rightarrow> string \<Rightarrow> audit_event result" where
  "Audit_Get s db k =
     (case audit_repo s of
        None \<Rightarrow> Inl missing_repository
      | Some g \<Rightarrow>
          (case repo_Audit_Get g db k of
             Inl err \<Rightarrow>
               if errors_Is err ErrAuditNotFound then
                 Inl (APIError CodeNotFound (''audit event '' @ k @ '' not found'') None)
               else Inl (APIError CodeInternal ''failed to load audit event'' (Some err))
           | Inr e \<Rightarrow> Inr e))"

subsection \<open>The request actor\<close>

record request_actor =
  rq_UserID :: string
  rq_Username :: string
  rq_IPAddress :: string
  rq_UserAgent :: string

definition zero_actor :: request_actor where
  "zero_actor = \<lparr>rq_UserID = '''', rq_Username = '''', rq_IPAddress = '''', rq_UserAgent = ''''\<rparr>"

definition AuditFields :: "request_actor \<Rightarrow> string \<times> string \<times> string \<times> string" where
  "AuditFields a = (rq_UserID a, rq_Username a, rq_IPAddress a, rq_UserAgent a)"

text \<open>\<open>net.SplitHostPort\<close>: the host, or nothing where it reports an error.\<close>

definition index_char :: "char \<Rightarrow> string \<Rightarrow> nat option" where
  "index_char c s = find (\<lambda>i. s ! i = c) [0 ..< length s]"

lemma index_char_append: "c \<notin> set xs \<Longrightarrow> index_char c (xs @ c # ys) = Some (length xs)"
  unfolding index_char_def find_Some_iff by (intro exI [of _ "length xs"]) (auto simp: nth_append)

definition last_index_char :: "char \<Rightarrow> string \<Rightarrow> nat option" where
  "last_index_char c s = find (\<lambda>i. s ! i = c) (rev [0 ..< length s])"

definition SplitHost :: "string \<Rightarrow> string option" where
  "SplitHost hp =
     (case last_index_char CHR '':'' hp of
        None \<Rightarrow> None
      | Some i \<Rightarrow>
          if hd hp = CHR ''['' then
            (case index_char CHR '']'' hp of
               None \<Rightarrow> None
             | Some e \<Rightarrow>
                 if e + 1 \<noteq> i then None
                 else if CHR ''['' \<in> set (drop 1 hp) \<or> CHR '']'' \<in> set (drop (e + 1) hp) then None
                 else Some (take (e - 1) (drop 1 hp)))
          else
            (let host = take i hp
             in if CHR '':'' \<in> set host \<or> CHR ''['' \<in> set hp \<or> CHR '']'' \<in> set hp then None
                else Some host))"

text \<open>The first hop of \<open>X-Forwarded-For\<close>, or the host of the remote address. Headers are a function.\<close>

definition clientIP :: "(string \<Rightarrow> string) \<Rightarrow> string \<Rightarrow> string" where
  "clientIP header remoteAddr =
     (let v = header ''X-Forwarded-For''
      in if v \<noteq> '''' then
           (case index_char CHR '','' v of
              Some i \<Rightarrow> TrimSpace (take i v)
            | None \<Rightarrow> TrimSpace v)
         else (case SplitHost remoteAddr of Some host \<Rightarrow> host | None \<Rightarrow> remoteAddr))"

text \<open>
  A request as the middleware leaves it: the value under its gin key and the actor in the context of
  the request. The context inherits what an earlier middleware put there.
\<close>

record actor_ctx =
  ac_gin :: "request_actor option"
  ac_request :: "request_actor option"

definition WithRequestActor :: "actor_ctx \<Rightarrow> request_actor \<Rightarrow> actor_ctx" where
  "WithRequestActor c a = c\<lparr>ac_request := Some a\<rparr>"

definition actorFromContext :: "actor_ctx \<Rightarrow> request_actor" where
  "actorFromContext c = (case ac_request c of Some a \<Rightarrow> a | None \<Rightarrow> zero_actor)"

definition Audit_Middleware :: "(string \<Rightarrow> string) \<Rightarrow> string \<Rightarrow> actor_ctx \<Rightarrow> actor_ctx" where
  "Audit_Middleware header remoteAddr c =
     (let actor = \<lparr>rq_UserID = header ''X-User-Id'', rq_Username = header ''X-User-Name'',
                   rq_IPAddress = clientIP header remoteAddr, rq_UserAgent = header ''User-Agent''\<rparr>
      in WithRequestActor (c\<lparr>ac_gin := Some actor\<rparr>) actor)"

text \<open>\<open>None\<close> for a nil gin context.\<close>

definition RequestActorFromContext :: "actor_ctx option \<Rightarrow> request_actor" where
  "RequestActorFromContext c =
     (case c of
        None \<Rightarrow> zero_actor
      | Some c \<Rightarrow> (case ac_gin c of Some a \<Rightarrow> a | None \<Rightarrow> actorFromContext c))"

lemma middleware_actor_agrees:
  "RequestActorFromContext (Some (Audit_Middleware header remoteAddr c))
     = actorFromContext (Audit_Middleware header remoteAddr c)"
  by (simp add: RequestActorFromContext_def Audit_Middleware_def WithRequestActor_def actorFromContext_def Let_def)

subsection \<open>The handlers\<close>

text \<open>
  The query string is a function, with the empty string for a parameter that is absent. \<open>parse\<close> is
  \<open>time.Parse(time.RFC3339, v)\<close> with the conversion to UTC, which names the same instant.
\<close>

abbreviation bad_time :: "string \<Rightarrow> go_error" where
  "bad_time what \<equiv> APIError CodeValidation (what @ '' must be an RFC3339 timestamp'') None"

definition time_param ::
    "(string \<Rightarrow> time option) \<Rightarrow> string \<Rightarrow> string \<Rightarrow> time option result" where
  "time_param parse what v =
     (if v = '''' then Inr None
      else (case parse v of None \<Rightarrow> Inl (bad_time what) | Some t \<Rightarrow> Inr (Some t)))"

definition limit_param :: "string \<Rightarrow> int64" where
  "limit_param v = (if v = '''' then 20 else (case Atoi v of Some n \<Rightarrow> n | None \<Rightarrow> 0))"

definition offset_param :: "string \<Rightarrow> int64" where
  "offset_param v = (if v = '''' then 0 else (case Atoi v of Some n \<Rightarrow> n | None \<Rightarrow> 0))"

definition audit_parseFilter ::
    "(string \<Rightarrow> time option) \<Rightarrow> (string \<Rightarrow> string) \<Rightarrow> audit_filter result" where
  "audit_parseFilter parse q =
     (case time_param parse ''from'' (q ''from'') of
        Inl err \<Rightarrow> Inl err
      | Inr from_t \<Rightarrow>
          (case time_param parse ''to'' (q ''to'') of
             Inl err \<Rightarrow> Inl err
           | Inr to_t \<Rightarrow>
               Inr \<lparr>af_Action = q ''action'', af_ActorID = q ''actor_id'',
                    af_ActorUsername = q ''actor_username'', af_ResourceType = q ''resource_type'',
                    af_ResourceID = q ''resource_id'', af_From = from_t, af_To = to_t,
                    af_Limit = limit_param (q ''limit''), af_Offset = offset_param (q ''offset''),
                    af_ProjectIDsIn = None\<rparr>))"

text \<open>The pagination block of a list response, in the arithmetic of the 64-bit \<open>int\<close>.\<close>

definition list_page :: "int64 \<Rightarrow> int64 \<Rightarrow> nat \<Rightarrow> pagination" where
  "list_page limit offset tot =
     \<lparr>pg_Total = of_nat tot, pg_Limit = limit, pg_Offset = offset,
      pg_HasMore = (0 <s limit \<and> offset + limit <s of_nat tot)\<rparr>"

definition page_response :: "int64 \<Rightarrow> int64 \<Rightarrow> ('a list \<times> nat) result \<Rightarrow> 'a response" where
  "page_response limit offset res =
     (case res of
        Inl err \<Rightarrow> fail_with err
      | Inr (rows, tot) \<Rightarrow> BodyList rows (list_page limit offset tot))"

definition Audit_handler_List ::
    "('s, 'w) audit_service option \<Rightarrow> 'v membership_checker option \<Rightarrow> (string \<Rightarrow> time option)
     \<Rightarrow> 's \<Rightarrow> ctx \<Rightarrow> (string \<Rightarrow> string) \<Rightarrow> 'v \<Rightarrow> audit_event response \<times> 'v" where
  "Audit_handler_List s membership parse db c q v =
     (case audit_parseFilter parse q of
        Inl err \<Rightarrow> (fail_with err, v)
      | Inr f \<Rightarrow>
          (case FromGin c of
             (Some cl, True) \<Rightarrow>
               (case Audit_ListForCaller s db f (Some cl) membership v of
                  (res, v) \<Rightarrow> (page_response (af_Limit f) (af_Offset f) res, v))
           | _ \<Rightarrow> (page_response (af_Limit f) (af_Offset f) (Audit_List s db f), v)))"

definition Audit_handler_Get ::
    "('s, 'w) audit_service option \<Rightarrow> 's \<Rightarrow> string \<Rightarrow> audit_event response" where
  "Audit_handler_Get s db k =
     (case Audit_Get s db k of Inl err \<Rightarrow> fail_with err | Inr e \<Rightarrow> Body 200 e)"

subsection \<open>Properties\<close>

text \<open>The projects a caller was granted by one answer of the membership checker.\<close>

definition granted_by :: "string set option \<times> go_error option \<Rightarrow> string set" where
  "granted_by ans = (case snd ans of Some _ \<Rightarrow> {} | None \<Rightarrow> (case fst ans of None \<Rightarrow> {} | Some ids \<Rightarrow> ids))"

text \<open>
  C3: the tenant isolation of the audit log. Whatever filter a caller that is not \<open>SuperAdmin\<close> passes
  (its own \<open>ProjectIDsIn\<close> included), every event the list returns is a stored event whose metadata
  names a project the membership checker granted; the total counts exactly the matching events of
  those projects, so it leaks nothing about others; and without a checker or a user the list is empty.
\<close>

theorem scoped_audit_isolation:
  assumes "gorm_table g ae_ID rows" "as_repo s = Some g" "\<not> IsSuperAdmin (Some cl)"
    and "Audit_ListForCaller (Some s) db f (Some cl) membership v = (Inr (es, tot), v')"
  shows "(\<forall>e. e \<in> set es \<longrightarrow> rows db (ae_ID e) = Some e \<and>
      (\<exists>m u p. membership = Some m \<and> cl_User cl = Some u \<and> metadata_project e = Some p
         \<and> p \<in> granted_by (fst (m (user_ID u) v))))
    \<and> ((membership = None \<or> cl_User cl = None) \<longrightarrow> es = [] \<and> tot = 0)
    \<and> (\<forall>m u. membership = Some m \<longrightarrow> cl_User cl = Some u \<longrightarrow>
        tot = card {e. rows db (ae_ID e) = Some e
          \<and> audit_matches (f\<lparr>af_ProjectIDsIn := Some (granted_by (fst (m (user_ID u) v)))\<rparr>) e})"
proof (cases "cl_User cl = None \<or> membership = None")
  case True
  with assms show ?thesis
    by (auto simp: Audit_ListForCaller_def audit_repo_def split: option.splits)
next
  case False
  then obtain u m where um: "cl_User cl = Some u" "membership = Some m" by auto
  obtain ids err v'' where ans: "m (user_ID u) v = ((ids, err), v'')" by (metis prod.exhaust)
  let ?f = "f\<lparr>af_ProjectIDsIn := Some (granted_by (ids, err))\<rparr>"
  from assms(2-4) um ans have "Audit_List (Some s) db ?f = Inr (es, tot)"
    by (auto simp: Audit_ListForCaller_def audit_repo_def granted_by_def split: option.splits)
  then have l: "repo_Audit_List g db ?f = Inr (es, tot)"
    using assms(2) by (auto simp: Audit_List_def audit_repo_def split: sum.splits)
  from gorm_table.query_page_sound [OF assms(1) l [unfolded repo_Audit_List_def]] have es: "\<And>e. e \<in> set es \<Longrightarrow> rows db (ae_ID e) = Some e \<and> audit_matches ?f e"
    and t: "tot = card {e. rows db (ae_ID e) = Some e \<and> audit_matches ?f e}" by auto
  have "\<exists>p. metadata_project e = Some p \<and> p \<in> granted_by (ids, err)" if "e \<in> set es" for e
    using es [OF that] by (auto simp: audit_matches_def in_scope_def split: option.splits)
  with es t um ans show ?thesis by simp
qed

definition audit_demo :: "(audit_event list, unit) audit_service" where
  "audit_demo = \<lparr>as_repo = Some (mem_gorm ae_ID), as_emitter = None, as_now = Pair zero_time\<rparr>"

definition other_event :: audit_event where
  "other_event = (sample_event ''2'')\<lparr>ae_Metadata := Some [(''project_id'', JString ''q'')]\<rparr>"

theorem scoped_audit_isolation_witness:
  "Audit_ListForCaller (Some audit_demo) [sample_event ''1'', other_event] empty_audit_filter
       (Some (New (Some dev_user))) (Some (\<lambda>_. Pair (Some {''p''}, None))) () = (Inr ([sample_event ''1''], 1), ())
   \<and> metadata_project (sample_event ''1'') = Some ''p''"
  (is "?L = _ \<and> _")
proof -
  let ?db = "[sample_event ''1'', other_event]"
  have live: "filter P (List.map_filter (mem_rows ae_ID ?db) (remdups (map ae_ID ?db))) = filter P ?db" for P
    by (simp add: other_event_def map_filter_simps)
  have f: "db_Find (mem_gorm ae_ID) ?db (audit_matches (empty_audit_filter\<lparr>af_ProjectIDsIn := Some {''p''}\<rparr>))
      = Inr [sample_event ''1'']"
    unfolding mem_Find live
    by (simp add: audit_matches_def empty_audit_filter_def in_scope_def metadata_project_def other_event_def)
  let ?f = "empty_audit_filter\<lparr>af_ProjectIDsIn := Some {''p''}\<rparr>"
  have p: "af_Limit ?f = 0" "af_Offset ?f = 0" by (simp_all add: empty_audit_filter_def)
  have "repo_Audit_List (mem_gorm ae_ID) ?db ?f = Inr ([sample_event ''1''], 1)"
    unfolding repo_Audit_List_def query_page_def f p by (simp add: page_of_def)
  then have L: "?L = (Inr ([sample_event ''1''], 1), ())"
    by (simp add: Audit_ListForCaller_def audit_repo_def audit_demo_def New_def Audit_List_def)
  have "as_repo audit_demo = Some (mem_gorm ae_ID)" "\<not> IsSuperAdmin (Some (New (Some dev_user)))"
    by (simp_all add: audit_demo_def New_def)
  from scoped_audit_isolation [OF mem.gorm_table_axioms this L] L show ?thesis
    by (auto simp: granted_by_def)
qed

end
