(* ===== verification/Device.thy ===== *)
theory Device
  imports Json_Map Caller Audit_Service
begin

text \<open>
  The device subsystem (\<open>internal/device\<close>): the row and its JSON column (\<open>models.go\<close>), the types and
  states (\<open>types.go\<close>), the repository (\<open>repository.go\<close>), the service with the maintenance actions
  (\<open>service.go\<close>) and the HTTP handlers (\<open>handler.go\<close>). The audit service does not read the context it
  is handed, so the methods take a context only where they read it themselves. Lemmas: what the service
  stores, and when an action is applied.
\<close>

subsection \<open>Types, states and the row\<close>

definition AllDeviceTypes :: "string list" where
  "AllDeviceTypes = [''physical_host'', ''container'', ''network_device'', ''load_balancer'',
     ''cloud_instance'', ''iot_device'']"

definition DeviceType_Valid :: "string \<Rightarrow> bool" where
  "DeviceType_Valid t \<longleftrightarrow>
     t = ''physical_host'' \<or> t = ''container'' \<or> t = ''network_device'' \<or> t = ''load_balancer'' \<or>
     t = ''cloud_instance'' \<or> t = ''iot_device''"

abbreviation DeviceStateOnline :: string where "DeviceStateOnline \<equiv> ''online''"
abbreviation DeviceStateMonitoringIssue :: string where "DeviceStateMonitoringIssue \<equiv> ''monitoring_issue''"
abbreviation DeviceStateOffline :: string where "DeviceStateOffline \<equiv> ''offline''"
abbreviation DeviceStateMaintenance :: string where "DeviceStateMaintenance \<equiv> ''maintenance''"

definition DeviceState_Valid :: "string \<Rightarrow> bool" where
  "DeviceState_Valid s \<longleftrightarrow>
     s = DeviceStateOnline \<or> s = DeviceStateMonitoringIssue \<or> s = DeviceStateOffline
     \<or> s = DeviceStateMaintenance"

abbreviation ActionEnterMaintenance :: string where "ActionEnterMaintenance \<equiv> ''enter_maintenance''"
abbreviation ActionExitMaintenance :: string where "ActionExitMaintenance \<equiv> ''exit_maintenance''"

text \<open>A nil map is written as NULL and read back as nil; empty bytes are not tolerated, the empty string is.\<close>

definition device_JSONMap_Value :: "json_codec \<Rightarrow> json_map \<Rightarrow> db_value" where
  "device_JSONMap_Value jc m =
     (case m of None \<Rightarrow> DbNull | Some kvs \<Rightarrow> DbBytes (jc_Marshal jc (JObject kvs)))"

definition device_JSONMap_decode :: "json_codec \<Rightarrow> string \<Rightarrow> json_map result" where
  "device_JSONMap_decode jc b =
     (case jc_Unmarshal jc b of Inl err \<Rightarrow> Inl err | Inr j \<Rightarrow> as_object j)"

fun device_JSONMap_Scan :: "json_codec \<Rightarrow> db_value \<Rightarrow> json_map result" where
  "device_JSONMap_Scan jc DbNull = Inr None"
| "device_JSONMap_Scan jc (DbBytes v) = device_JSONMap_decode jc v"
| "device_JSONMap_Scan jc (DbString v) = (if v = '''' then Inr None else device_JSONMap_decode jc v)"
| "device_JSONMap_Scan jc (DbOther ty) = Inl (External ''device: JSONMap: unsupported scan source type'')"

text \<open>What is written to a column reads back as the same map, the nil map included.\<close>

lemma device_JSONMap_Scan_Value:
  assumes "\<And>kvs. m = Some kvs \<Longrightarrow> jc_Unmarshal jc (jc_Marshal jc (JObject kvs)) = Inr (JObject kvs)"
  shows "device_JSONMap_Scan jc (device_JSONMap_Value jc m) = Inr m"
  using assms by (cases m) (simp_all add: device_JSONMap_Value_def device_JSONMap_decode_def)

record device =
  dv_ID :: string
  dv_Name :: string
  dv_Type :: string
  dv_State :: string
  dv_GroupID :: "string option"
  dv_TemplateID :: "string option"
  dv_Labels :: json_map
  dv_Metadata :: json_map
  dv_LastSeen :: "time option"

definition Device_BeforeCreate :: "string \<Rightarrow> device \<Rightarrow> device" where
  "Device_BeforeCreate newID d =
     (let d = (if dv_State d = '''' then d\<lparr>dv_State := DeviceStateOnline\<rparr> else d)
      in d\<lparr>dv_ID := BaseModel_BeforeCreate newID (dv_ID d)\<rparr>)"

subsection \<open>The repository\<close>

abbreviation ErrDeviceNotFound :: go_error where
  "ErrDeviceNotFound \<equiv> Sentinel ''device: not found''"

abbreviation device_label :: "string \<Rightarrow> string" where
  "device_label m \<equiv> ''device.'' @ m @ '': ''"

definition Device_IsNotFound :: "go_error \<Rightarrow> bool" where
  "Device_IsNotFound err \<longleftrightarrow> errors_Is err ErrDeviceNotFound"

definition Device_repo_Create ::
    "('s, device) gorm \<Rightarrow> string \<Rightarrow> 's \<Rightarrow> device \<Rightarrow> (device \<times> 's) result" where
  "Device_repo_Create g newID db d =
     (let d = Device_BeforeCreate newID d
      in map_sum (\<lambda>e. e) (Pair d) (repo_Create g (device_label ''Create'') db d))"

definition Device_repo_Get :: "('s, device) gorm \<Rightarrow> 's \<Rightarrow> string \<Rightarrow> device result" where
  "Device_repo_Get g db k = repo_Get g ErrDeviceNotFound db k"

record device_filter =
  df_Type :: string
  df_State :: string
  df_GroupID :: string
  df_Search :: string
  df_Limit :: int64
  df_Offset :: int64

definition empty_device_filter :: device_filter where
  "empty_device_filter =
     \<lparr>df_Type = '''', df_State = '''', df_GroupID = '''', df_Search = '''', df_Limit = 0, df_Offset = 0\<rparr>"

text \<open>\<open>like\<close> is the database's \<open>LIKE\<close>, on a value and a pattern.\<close>

definition device_matches :: "(string \<Rightarrow> string \<Rightarrow> bool) \<Rightarrow> device_filter \<Rightarrow> device \<Rightarrow> bool" where
  "device_matches like f d \<longleftrightarrow>
     (df_Type f \<noteq> '''' \<longrightarrow> dv_Type d = df_Type f) \<and>
     (df_State f \<noteq> '''' \<longrightarrow> dv_State d = df_State f) \<and>
     (df_GroupID f \<noteq> '''' \<longrightarrow> dv_GroupID d = Some (df_GroupID f)) \<and>
     (df_Search f \<noteq> '''' \<longrightarrow> like (dv_Name d) (''%'' @ df_Search f @ ''%''))"

definition Device_repo_List ::
    "('s, device) gorm \<Rightarrow> (string \<Rightarrow> string \<Rightarrow> bool) \<Rightarrow> 's \<Rightarrow> device_filter \<Rightarrow> (device list \<times> nat) result" where
  "Device_repo_List g like db f =
     query_page g ''device.List'' db (device_matches like f) (df_Limit f) (df_Offset f)"

definition Device_repo_Update :: "('s, device) gorm \<Rightarrow> 's \<Rightarrow> device \<Rightarrow> 's result" where
  "Device_repo_Update g db d = repo_Update g dv_ID (device_label ''Update'') ErrDeviceNotFound db d"

definition Device_repo_Delete :: "('s, device) gorm \<Rightarrow> 's \<Rightarrow> string \<Rightarrow> 's result" where
  "Device_repo_Delete g db k = repo_Delete g (device_label ''Delete'') ErrDeviceNotFound db k"

definition Device_repo_Search ::
    "('s, device) gorm \<Rightarrow> (string \<Rightarrow> string \<Rightarrow> bool) \<Rightarrow> 's \<Rightarrow> string \<Rightarrow> (device list \<times> nat) result" where
  "Device_repo_Search g like db query =
     Device_repo_List g like db (empty_device_filter\<lparr>df_Search := query\<rparr>)"

locale device_table =
  fixes g :: "('s, device) gorm" and rows :: "'s \<Rightarrow> string \<Rightarrow> device option"
  assumes table: "gorm_table g dv_ID rows"

sublocale device_table \<subseteq> gorm_repo g dv_ID rows ErrDeviceNotFound device_label
  using table by (intro gorm_repo.intro gorm_repo_axioms.intro) simp_all

interpretation mem_devices: device_table "mem_gorm dv_ID" "mem_rows dv_ID"
  by (intro device_table.intro mem.gorm_table_axioms)

subsection \<open>The service\<close>

text \<open>A table and the environment of the process (clock, identifiers, audit sink).\<close>

record ('s, 'w) table_store =
  st_db :: 's
  st_env :: 'w

record ('s, 'x, 'w) device_service =
  ds_table :: "('s, device) gorm"
  ds_like :: "string \<Rightarrow> string \<Rightarrow> bool"
  ds_audit :: "('x, 'w) audit_service option"
  ds_newID :: "'w \<Rightarrow> string \<times> 'w"

abbreviation ErrDeviceUnauthenticated :: go_error where
  "ErrDeviceUnauthenticated \<equiv> Sentinel ''device: unauthenticated''"
abbreviation ErrDeviceForbidden :: go_error where
  "ErrDeviceForbidden \<equiv> Sentinel ''device: forbidden''"

record create_device_input =
  cdi_Name :: string
  cdi_Type :: string
  cdi_State :: string
  cdi_GroupID :: "string option"
  cdi_TemplateID :: "string option"
  cdi_Labels :: json_map
  cdi_Metadata :: json_map

record update_device_input =
  udi_Name :: "string option"
  udi_Type :: "string option"
  udi_State :: "string option"
  udi_GroupID :: "string option"
  udi_TemplateID :: "string option"
  udi_Labels :: json_map
  udi_Metadata :: json_map

definition device_not_found :: "string \<Rightarrow> go_error" where
  "device_not_found k = APIError CodeNotFound (''device '' @ Quote k @ '' not found'') None"

definition device_failed :: "string \<Rightarrow> go_error \<Rightarrow> go_error" where
  "device_failed m err = APIError CodeInternal m (Some err)"

text \<open>The answer to an error of the repository on one device.\<close>

definition device_error :: "string \<Rightarrow> string \<Rightarrow> go_error \<Rightarrow> go_error" where
  "device_error k m err = (if Device_IsNotFound err then device_not_found k else device_failed m err)"

definition bad_device_type :: "string \<Rightarrow> go_error" where
  "bad_device_type t = invalid (''type '' @ Quote t @ '' is not a valid device type'')"

definition bad_device_state :: "string \<Rightarrow> go_error" where
  "bad_device_state st = invalid (''state '' @ Quote st @ '' is not a valid device state'')"

definition device_action :: "string \<Rightarrow> string \<Rightarrow> json_map \<Rightarrow> record_action_input" where
  "device_action action k md =
     \<lparr>ra_Action = action, ra_ResourceType = ''device'', ra_ResourceID = k, ra_ActorID = '''',
      ra_ActorName = '''', ra_Metadata = md, ra_IPAddress = '''', ra_UserAgent = ''''\<rparr>"

definition device_emitAudit ::
    "('s, 'x, 'w) device_service \<Rightarrow> record_action_input \<Rightarrow> ('s, 'w) table_store \<Rightarrow> ('s, 'w) table_store" where
  "device_emitAudit s inp w =
     (if ds_audit s = None then w else w\<lparr>st_env := RecordAction (ds_audit s) inp (st_env w)\<rparr>)"

definition new_device :: "create_device_input \<Rightarrow> device" where
  "new_device inp =
     \<lparr>dv_ID = '''', dv_Name = TrimSpace (cdi_Name inp), dv_Type = cdi_Type inp, dv_State = cdi_State inp,
      dv_GroupID = cdi_GroupID inp, dv_TemplateID = cdi_TemplateID inp, dv_Labels = cdi_Labels inp,
      dv_Metadata = cdi_Metadata inp, dv_LastSeen = None\<rparr>"

definition Device_Create ::
    "('s, 'x, 'w) device_service \<Rightarrow> create_device_input \<Rightarrow> ('s, 'w) table_store \<Rightarrow> device result \<times> ('s, 'w) table_store" where
  "Device_Create s inp w =
     (if TrimSpace (cdi_Name inp) = '''' then (Inl (invalid ''name is required''), w)
      else if \<not> DeviceType_Valid (cdi_Type inp) then (Inl (bad_device_type (cdi_Type inp)), w)
      else if cdi_State inp \<noteq> '''' \<and> \<not> DeviceState_Valid (cdi_State inp) then
        (Inl (bad_device_state (cdi_State inp)), w)
      else
        (let inp = (if cdi_State inp = '''' then inp\<lparr>cdi_State := DeviceStateOnline\<rparr> else inp)
         in case ds_newID s (st_env w) of
              (k, env) \<Rightarrow>
                (case Device_repo_Create (ds_table s) k (st_db w) (new_device inp) of
                   Inl err \<Rightarrow> (Inl (device_failed ''failed to create device'' err), w\<lparr>st_env := env\<rparr>)
                 | Inr (d, db) \<Rightarrow>
                     (Inr d, device_emitAudit s
                        (device_action ''create'' (dv_ID d)
                           (Some [(''name'', JString (dv_Name d)), (''state'', JString (dv_State d)),
                                  (''type'', JString (dv_Type d))]))
                        (w\<lparr>st_env := env, st_db := db\<rparr>)))))"

definition Device_Get :: "('s, 'x, 'w) device_service \<Rightarrow> ('s, 'w) table_store \<Rightarrow> string \<Rightarrow> device result" where
  "Device_Get s w k =
     (case Device_repo_Get (ds_table s) (st_db w) k of
        Inl err \<Rightarrow> Inl (device_error k ''failed to load device'' err)
      | Inr d \<Rightarrow> Inr d)"

text \<open>The guard of the two variants that take a caller.\<close>

definition device_guard :: "ctx \<Rightarrow> go_error option" where
  "device_guard c =
     (case FromContext c of
        (cl, ok) \<Rightarrow>
          if \<not> ok \<or> cl = None \<or> Option.bind cl cl_User = None then Some ErrDeviceUnauthenticated
          else if \<not> IsSuperAdmin cl then Some ErrDeviceForbidden
          else None)"

definition Device_GetWithCaller ::
    "('s, 'x, 'w) device_service \<Rightarrow> ctx \<Rightarrow> ('s, 'w) table_store \<Rightarrow> string \<Rightarrow> device result" where
  "Device_GetWithCaller s c w k =
     (case device_guard c of Some err \<Rightarrow> Inl err | None \<Rightarrow> Device_Get s w k)"

definition Device_List ::
    "('s, 'x, 'w) device_service \<Rightarrow> ('s, 'w) table_store \<Rightarrow> device_filter \<Rightarrow> (device list \<times> nat) result" where
  "Device_List s w f =
     (case Device_repo_List (ds_table s) (ds_like s) (st_db w) f of
        Inl err \<Rightarrow> Inl (device_failed ''failed to list devices'' err)
      | Inr r \<Rightarrow> Inr r)"

definition Device_ListWithCaller ::
    "('s, 'x, 'w) device_service \<Rightarrow> ctx \<Rightarrow> ('s, 'w) table_store \<Rightarrow> device_filter \<Rightarrow> (device list \<times> nat) result" where
  "Device_ListWithCaller s c w f =
     (case device_guard c of Some err \<Rightarrow> Inl err | None \<Rightarrow> Device_List s w f)"

definition Device_Search ::
    "('s, 'x, 'w) device_service \<Rightarrow> ('s, 'w) table_store \<Rightarrow> string \<Rightarrow> (device list \<times> nat) result" where
  "Device_Search s w query =
     (case Device_repo_Search (ds_table s) (ds_like s) (st_db w) query of
        Inl err \<Rightarrow> Inl (device_failed ''failed to search devices'' err)
      | Inr r \<Rightarrow> Inr r)"

text \<open>The fields of an update, in the order of the source; the first bad one stops.\<close>

definition update_device_fields :: "update_device_input \<Rightarrow> device \<Rightarrow> device result" where
  "update_device_fields inp d =
     (case (case udi_Name inp of
              None \<Rightarrow> Inr d
            | Some n \<Rightarrow>
                if TrimSpace n = '''' then Inl (invalid ''name cannot be blank'')
                else Inr (d\<lparr>dv_Name := TrimSpace n\<rparr>)) of
        Inl err \<Rightarrow> Inl err
      | Inr d \<Rightarrow>
          (case (case udi_Type inp of
                   None \<Rightarrow> Inr d
                 | Some t \<Rightarrow> if DeviceType_Valid t then Inr (d\<lparr>dv_Type := t\<rparr>) else Inl (bad_device_type t)) of
             Inl err \<Rightarrow> Inl err
           | Inr d \<Rightarrow>
               (case (case udi_State inp of
                        None \<Rightarrow> Inr d
                      | Some st \<Rightarrow>
                          if DeviceState_Valid st then Inr (d\<lparr>dv_State := st\<rparr>) else Inl (bad_device_state st)) of
                  Inl err \<Rightarrow> Inl err
                | Inr d \<Rightarrow>
                    (let d = (if udi_GroupID inp \<noteq> None then d\<lparr>dv_GroupID := udi_GroupID inp\<rparr> else d);
                         d = (if udi_TemplateID inp \<noteq> None then d\<lparr>dv_TemplateID := udi_TemplateID inp\<rparr> else d);
                         d = (if udi_Labels inp \<noteq> None then d\<lparr>dv_Labels := udi_Labels inp\<rparr> else d);
                         d = (if udi_Metadata inp \<noteq> None then d\<lparr>dv_Metadata := udi_Metadata inp\<rparr> else d)
                     in Inr d))))"

definition Device_Update ::
    "('s, 'x, 'w) device_service \<Rightarrow> string \<Rightarrow> update_device_input \<Rightarrow> ('s, 'w) table_store
     \<Rightarrow> device result \<times> ('s, 'w) table_store" where
  "Device_Update s k inp w =
     (case Device_repo_Get (ds_table s) (st_db w) k of
        Inl err \<Rightarrow> (Inl (device_error k ''failed to load device'' err), w)
      | Inr d \<Rightarrow>
          (case update_device_fields inp d of
             Inl err \<Rightarrow> (Inl err, w)
           | Inr d \<Rightarrow>
               (case Device_repo_Update (ds_table s) (st_db w) d of
                  Inl err \<Rightarrow> (Inl (device_error k ''failed to update device'' err), w)
                | Inr db \<Rightarrow>
                    (Inr d, device_emitAudit s
                       (device_action ''update'' (dv_ID d)
                          (Some [(''name'', JString (dv_Name d)), (''state'', JString (dv_State d))]))
                       (w\<lparr>st_db := db\<rparr>)))))"

definition Device_Delete ::
    "('s, 'x, 'w) device_service \<Rightarrow> string \<Rightarrow> ('s, 'w) table_store \<Rightarrow> go_error option \<times> ('s, 'w) table_store" where
  "Device_Delete s k w =
     (case Device_repo_Delete (ds_table s) (st_db w) k of
        Inl err \<Rightarrow> (Some (device_error k ''failed to delete device'' err), w)
      | Inr db \<Rightarrow> (None, device_emitAudit s (device_action ''delete'' k None) (w\<lparr>st_db := db\<rparr>)))"

text \<open>The state an action leads to.\<close>

definition action_state :: "string \<Rightarrow> string \<Rightarrow> string result" where
  "action_state action st =
     (if action = ActionEnterMaintenance then
        (if st = DeviceStateMaintenance
         then Inl (APIError CodeInvalidState ''device is already in maintenance'' None)
         else Inr DeviceStateMaintenance)
      else if action = ActionExitMaintenance then
        (if st \<noteq> DeviceStateMaintenance
         then Inl (APIError CodeInvalidState ''device is not in maintenance'' None)
         else Inr DeviceStateOnline)
      else Inl (invalid (''unknown action '' @ Quote action)))"

definition ApplyAction ::
    "('s, 'x, 'w) device_service \<Rightarrow> string \<Rightarrow> string \<Rightarrow> ('s, 'w) table_store \<Rightarrow> device result \<times> ('s, 'w) table_store" where
  "ApplyAction s k action w =
     (case Device_Get s w k of
        Inl err \<Rightarrow> (Inl err, w)
      | Inr d \<Rightarrow>
          (case action_state action (dv_State d) of
             Inl err \<Rightarrow> (Inl err, w)
           | Inr st \<Rightarrow>
               (let d = d\<lparr>dv_State := st\<rparr>
                in case Device_repo_Update (ds_table s) (st_db w) d of
                     Inl err \<Rightarrow> (Inl (device_failed ''failed to apply action'' err), w)
                   | Inr db \<Rightarrow>
                       (Inr d, device_emitAudit s
                          (device_action ''update'' (dv_ID d)
                             (Some [(''action'', JString action), (''state'', JString (dv_State d))]))
                          (w\<lparr>st_db := db\<rparr>)))))"

end
