(* ===== verification/Device_Http.thy ===== *)
theory Device_Http
  imports Device
begin

text \<open>
  The HTTP handlers of the devices (\<open>internal/device/handler.go\<close>) and what holds of the device service
  over any table that behaves as documented: every stored row is well formed, and an action moves a device
  in or out of maintenance and changes nothing else.
\<close>

subsection \<open>The handlers\<close>

record device_request =
  dr_Name :: string
  dr_Type :: string
  dr_State :: string
  dr_GroupID :: "string option"
  dr_TemplateID :: "string option"
  dr_Labels :: json_map
  dr_Metadata :: json_map

definition device_toCreate :: "device_request \<Rightarrow> create_device_input" where
  "device_toCreate r =
     \<lparr>cdi_Name = dr_Name r, cdi_Type = dr_Type r, cdi_State = dr_State r, cdi_GroupID = dr_GroupID r,
      cdi_TemplateID = dr_TemplateID r, cdi_Labels = dr_Labels r, cdi_Metadata = dr_Metadata r\<rparr>"

text \<open>An empty string of the request is a field that is left out.\<close>

definition nonempty :: "string \<Rightarrow> string option" where
  "nonempty v = (if v \<noteq> '''' then Some v else None)"

definition device_toUpdate :: "device_request \<Rightarrow> update_device_input" where
  "device_toUpdate r =
     \<lparr>udi_Name = nonempty (dr_Name r), udi_Type = nonempty (dr_Type r), udi_State = nonempty (dr_State r),
      udi_GroupID = dr_GroupID r, udi_TemplateID = dr_TemplateID r, udi_Labels = dr_Labels r,
      udi_Metadata = dr_Metadata r\<rparr>"

definition int_param :: "int64 \<Rightarrow> string \<Rightarrow> string \<Rightarrow> int64 result" where
  "int_param dflt name v =
     (if v = '''' then Inr dflt
      else (case Atoi v of None \<Rightarrow> Inl (invalid (name @ '' must be an integer'')) | Some n \<Rightarrow> Inr n))"

text \<open>\<open>q\<close> is \<open>c.Query\<close>.\<close>

definition parseListFilter :: "(string \<Rightarrow> string) \<Rightarrow> device_filter result" where
  "parseListFilter q =
     (if q ''type'' \<noteq> '''' \<and> \<not> DeviceType_Valid (q ''type'') then
        Inl (invalid ''type filter is not a recognised device type'')
      else if q ''state'' \<noteq> '''' \<and> \<not> DeviceState_Valid (q ''state'') then
        Inl (invalid ''state filter is not a recognised device state'')
      else
        (case int_param 20 ''limit'' (q ''limit'') of
           Inl err \<Rightarrow> Inl err
         | Inr l \<Rightarrow>
             (case int_param 0 ''offset'' (q ''offset'') of
                Inl err \<Rightarrow> Inl err
              | Inr k \<Rightarrow>
                  Inr \<lparr>df_Type = q ''type'', df_State = q ''state'', df_GroupID = q ''group_id'',
                       df_Search = q ''search'', df_Limit = l, df_Offset = k\<rparr>)))"

definition device_list where
  "device_list s q w =
     (case parseListFilter q of
        Inl err \<Rightarrow> fail_with err
      | Inr f \<Rightarrow>
          (case Device_List s w f of
             Inl err \<Rightarrow> fail_with err
           | Inr (rs, tot) \<Rightarrow>
               BodyList rs
                 \<lparr>pg_Total = of_nat tot, pg_Limit = df_Limit f, pg_Offset = df_Offset f,
                  pg_HasMore = (0 <s df_Limit f \<and> df_Offset f + df_Limit f <s of_nat tot)\<rparr>))"

definition device_search where
  "device_search s q w =
     (case Device_Search s w (q ''q'') of
        Inl err \<Rightarrow> fail_with err
      | Inr (rs, tot) \<Rightarrow>
          BodyList rs \<lparr>pg_Total = of_nat tot, pg_Limit = of_nat (length rs), pg_Offset = 0, pg_HasMore = False\<rparr>)"

definition device_get where
  "device_get s k w = respond 200 (Device_Get s w k)"

text \<open>A body that is not JSON of the shape is \<open>None\<close>.\<close>

definition device_create where
  "device_create s body w =
     (case body of
        None \<Rightarrow> (reject CodeValidation ''request body must be JSON'', w)
      | Some req \<Rightarrow> (case Device_Create s (device_toCreate req) w of (res, w) \<Rightarrow> (respond 201 res, w)))"

definition device_replace where
  "device_replace s k body w =
     (case body of
        None \<Rightarrow> (reject CodeValidation ''request body must be JSON'', w)
      | Some req \<Rightarrow> (case Device_Update s k (device_toUpdate req) w of (res, w) \<Rightarrow> (respond 200 res, w)))"

definition device_delete :: "('s, 'x, 'w) device_service \<Rightarrow> string \<Rightarrow> ('s, 'w) table_store
    \<Rightarrow> unit response \<times> ('s, 'w) table_store" where
  "device_delete s k w =
     (case Device_Delete s k w of
        (Some err, w) \<Rightarrow> (fail_with err, w) | (None, w) \<Rightarrow> (NoContent, w))"

definition device_do_action where
  "device_do_action s k body w =
     (case body of
        None \<Rightarrow> (reject CodeValidation (''request body must be JSON with an '' @ [CHR 0x27] @ ''action'' @ [CHR 0x27] @ '' field''), w)
      | Some action \<Rightarrow> (case ApplyAction s k action w of (res, w) \<Rightarrow> (respond 200 res, w)))"

subsection \<open>Well-formed rows\<close>

text \<open>A trimmed name that is not empty, a known type, one of the four states.\<close>

definition device_ok :: "device \<Rightarrow> bool" where
  "device_ok d \<longleftrightarrow>
     dv_Name d \<noteq> '''' \<and> TrimSpace (dv_Name d) = dv_Name d \<and> DeviceType_Valid (dv_Type d)
     \<and> DeviceState_Valid (dv_State d)"

definition devices_ok :: "(string \<Rightarrow> device option) \<Rightarrow> bool" where
  "devices_ok rows \<longleftrightarrow> (\<forall>k d. rows k = Some d \<longrightarrow> device_ok d)"

lemma devices_okI: "devices_ok rows \<Longrightarrow> device_ok d \<Longrightarrow> devices_ok (rows(k \<mapsto> d))"
  by (simp add: devices_ok_def)

lemma devices_ok_del: "devices_ok rows \<Longrightarrow> devices_ok (rows(k := None))"
  by (simp add: devices_ok_def)

lemma device_emitAudit_db [simp]: "st_db (device_emitAudit s a w) = st_db w"
  by (simp add: device_emitAudit_def)

lemma update_device_fields_ok:
  assumes "update_device_fields inp d = Inr d'" "device_ok d"
  shows "device_ok d' \<and> dv_ID d' = dv_ID d"
  using assms
  by (auto simp: update_device_fields_def device_ok_def Let_def split: option.splits if_splits)

lemma new_device_ok:
  assumes "TrimSpace (cdi_Name inp) \<noteq> ''''" "DeviceType_Valid (cdi_Type inp)" "DeviceState_Valid (cdi_State inp)"
  shows "device_ok (Device_BeforeCreate k (new_device inp))"
  using assms by (simp add: device_ok_def Device_BeforeCreate_def new_device_def DeviceState_Valid_def Let_def)

lemma action_state_cases:
  "action_state a st = Inr st' \<longleftrightarrow>
     (a = ActionEnterMaintenance \<and> st \<noteq> DeviceStateMaintenance \<and> st' = DeviceStateMaintenance)
     \<or> (a = ActionExitMaintenance \<and> st = DeviceStateMaintenance \<and> st' = DeviceStateOnline)"
  by (auto simp: action_state_def)

inductive device_step :: "('s, 'x, 'w) device_service \<Rightarrow> ('s, 'w) table_store \<Rightarrow> ('s, 'w) table_store \<Rightarrow> bool"
  for s :: "('s, 'x, 'w) device_service" where
  create: "Device_Create s inp w = (r, w') \<Longrightarrow> device_step s w w'"
| update: "Device_Update s k uin w = (r, w') \<Longrightarrow> device_step s w w'"
| delete: "Device_Delete s k w = (e, w') \<Longrightarrow> device_step s w w'"
| act: "ApplyAction s k a w = (r, w') \<Longrightarrow> device_step s w w'"

context device_table
begin

lemma Create_rows:
  assumes "Device_Create s inp w = (r, w')" "ds_table s = g" "devices_ok (rows (st_db w))"
  shows "devices_ok (rows (st_db w'))"
proof (cases r)
  case (Inl err)
  with assms(1) have "st_db w' = st_db w"
    by (auto simp: Device_Create_def Let_def split: if_splits prod.splits sum.splits)
  with assms(3) show ?thesis by simp
next
  case (Inr d)
  define inp' where "inp' = (if cdi_State inp = '''' then inp\<lparr>cdi_State := DeviceStateOnline\<rparr> else inp)"
  from assms(1) Inr have v: "TrimSpace (cdi_Name inp') \<noteq> ''''" "DeviceType_Valid (cdi_Type inp')"
    "DeviceState_Valid (cdi_State inp')"
    by (auto simp: Device_Create_def inp'_def DeviceState_Valid_def split: if_splits)
  from assms(1,2) Inr obtain k env where
    c: "Device_repo_Create g k (st_db w) (new_device inp') = Inr (d, st_db w')"
    by (auto simp: Device_Create_def inp'_def [symmetric] Let_def split: if_splits prod.splits sum.splits)
  from c have "d = Device_BeforeCreate k (new_device inp')" "rows (st_db w') = (rows (st_db w))(dv_ID d \<mapsto> d)"
    by (auto simp: Device_repo_Create_def map_sum_Inr Let_def dest: Create_row)
  with assms(3) new_device_ok [OF v] show ?thesis by (simp add: devices_okI)
qed

lemma Update_rows:
  assumes "Device_Update s k inp w = (r, w')" "ds_table s = g" "devices_ok (rows (st_db w))"
  shows "devices_ok (rows (st_db w'))"
proof (cases r)
  case (Inl err)
  with assms(1) have "st_db w' = st_db w" by (auto simp: Device_Update_def split: sum.splits)
  with assms(3) show ?thesis by simp
next
  case (Inr d)
  with assms(1,2) obtain d0 where d0: "Device_repo_Get g (st_db w) k = Inr d0" "update_device_fields inp d0 = Inr d"
    and u: "Device_repo_Update g (st_db w) d = Inr (st_db w')"
    by (auto simp: Device_Update_def split: sum.splits)
  from d0(1) have "rows (st_db w) k = Some d0" by (auto simp: Device_repo_Get_def dest: Get_row)
  with assms(3) d0(2) have "device_ok d" using update_device_fields_ok by (auto simp: devices_ok_def)
  moreover from u have "rows (st_db w') = (rows (st_db w))(dv_ID d \<mapsto> d)"
    by (auto simp: Device_repo_Update_def dest: Update_row)
  ultimately show ?thesis using assms(3) by (simp add: devices_okI)
qed

lemma Delete_rows:
  assumes "Device_Delete s k w = (e, w')" "ds_table s = g" "devices_ok (rows (st_db w))"
  shows "devices_ok (rows (st_db w'))"
  using assms(1,3)
  by (auto simp: Device_Delete_def Device_repo_Delete_def assms(2) devices_ok_del dest!: Delete_row split: sum.splits)

lemma ApplyAction_rows:
  assumes "ApplyAction s k a w = (r, w')" "ds_table s = g"
  shows "(\<exists>e. r = Inl e) \<and> rows (st_db w') = rows (st_db w)
    \<or> (\<exists>d st. r = Inr (d\<lparr>dv_State := st\<rparr>) \<and> rows (st_db w) k = Some d \<and> action_state a (dv_State d) = Inr st
          \<and> rows (st_db w') = (rows (st_db w))(k \<mapsto> d\<lparr>dv_State := st\<rparr>))"
proof (cases r)
  case (Inl err)
  with assms(1) have "st_db w' = st_db w" by (auto simp: ApplyAction_def Let_def split: sum.splits)
  with Inl show ?thesis by simp
next
  case (Inr d')
  with assms obtain d st where d: "Device_repo_Get g (st_db w) k = Inr d" "action_state a (dv_State d) = Inr st"
    "d' = d\<lparr>dv_State := st\<rparr>" "Device_repo_Update g (st_db w) (d\<lparr>dv_State := st\<rparr>) = Inr (st_db w')"
    by (auto simp: ApplyAction_def Device_Get_def Let_def split: sum.splits)
  from d(1) have k: "rows (st_db w) k = Some d" "dv_ID d = k" by (auto simp: Device_repo_Get_def dest: Get_row)
  from d(4) k have "rows (st_db w') = (rows (st_db w))(k \<mapsto> d\<lparr>dv_State := st\<rparr>)"
    by (auto simp: Device_repo_Update_def dest: Update_row)
  with d k Inr show ?thesis by blast
qed

lemma device_step_ok:
  assumes "device_step s w w'" "ds_table s = g" "devices_ok (rows (st_db w))"
  shows "devices_ok (rows (st_db w'))"
  using assms(1)
proof cases
  case (act k a r)
  from ApplyAction_rows [OF act assms(2)] show ?thesis
  proof (elim disjE exE conjE, goal_cases)
    case 1 with assms(3) show ?case by simp
  next
    case (2 d st)
    from 2(2,3) assms(3) have "device_ok (d\<lparr>dv_State := st\<rparr>)"
      by (auto simp: devices_ok_def device_ok_def action_state_cases DeviceState_Valid_def)
    with 2(4) assms(3) show ?case by (simp add: devices_okI)
  qed
qed (use Create_rows Update_rows Delete_rows assms(2,3) in blast)+

lemma device_steps_ok:
  assumes "(device_step s)\<^sup>*\<^sup>* w0 w" "ds_table s = g" "devices_ok (rows (st_db w0))"
  shows "devices_ok (rows (st_db w))"
  using assms(1) by (induction rule: rtranclp_induct) (auto intro: device_step_ok assms(2,3))

end

text \<open>
  C27: stored devices are well formed. Over any table that behaves as documented, after any sequence of
  requests every live device has a trimmed name that is not empty, one of the six types and one of the
  four states, if that was so at the start; an action that is applied moves exactly the device it names
  into maintenance, from a state that is not maintenance, or from maintenance to online, and one that is
  refused changes no row.
\<close>

theorem device_requests_keep_rows_valid:
  assumes "gorm_table (ds_table s) dv_ID rows" "devices_ok (rows (st_db w0))" "(device_step s)\<^sup>*\<^sup>* w0 w"
    and "ApplyAction s k a w = (r, w')"
  shows "devices_ok (rows (st_db w'))
    \<and> (case r of
         Inl err \<Rightarrow> rows (st_db w') = rows (st_db w)
       | Inr d \<Rightarrow> \<exists>d0. rows (st_db w) k = Some d0 \<and> rows (st_db w') = (rows (st_db w))(k \<mapsto> d)
           \<and> (a = ActionEnterMaintenance \<and> dv_State d0 \<noteq> DeviceStateMaintenance
                \<and> d = d0\<lparr>dv_State := DeviceStateMaintenance\<rparr>
              \<or> a = ActionExitMaintenance \<and> dv_State d0 = DeviceStateMaintenance
                \<and> d = d0\<lparr>dv_State := DeviceStateOnline\<rparr>))"
proof -
  have t: "device_table (ds_table s) rows" using assms(1) by (rule device_table.intro)
  have ok: "devices_ok (rows (st_db w))" by (rule device_table.device_steps_ok [OF t assms(3) refl assms(2)])
  have "devices_ok (rows (st_db w'))"
    by (rule device_table.device_step_ok [OF t device_step.act [OF assms(4)] refl ok])
  with device_table.ApplyAction_rows [OF t assms(4) refl] show ?thesis
    by (auto simp: action_state_cases)
qed

definition demo_devices :: "(device list, unit, nat) device_service" where
  "demo_devices =
     \<lparr>ds_table = mem_gorm dv_ID, ds_like = (\<lambda>_ _. False), ds_audit = None,
      ds_newID = (\<lambda>n. (''id-'' @ nat_digits n, Suc n))\<rparr>"

definition demo_device :: device where
  "demo_device =
     \<lparr>dv_ID = ''id-0'', dv_Name = ''web-1'', dv_Type = ''physical_host'', dv_State = DeviceStateOnline,
      dv_GroupID = None, dv_TemplateID = None, dv_Labels = None, dv_Metadata = None, dv_LastSeen = None\<rparr>"

definition demo_device_input :: create_device_input where
  "demo_device_input =
     \<lparr>cdi_Name = '' web-1 '', cdi_Type = ''physical_host'', cdi_State = '''', cdi_GroupID = None,
      cdi_TemplateID = None, cdi_Labels = None, cdi_Metadata = None\<rparr>"

lemma demo_device_created:
  "Device_Create demo_devices demo_device_input \<lparr>st_db = [], st_env = 0\<rparr>
     = (Inr demo_device, \<lparr>st_db = [demo_device], st_env = 1\<rparr>)"
proof -
  have t: "TrimSpace '' web-1 '' = ''web-1''" by code_simp
  have n: "nat_digits 0 = ''0''" by code_simp
  show ?thesis
    by (simp add: Device_Create_def demo_device_input_def t n demo_devices_def Device_repo_Create_def repo_Create_def
      Device_BeforeCreate_def new_device_def mem_Create device_emitAudit_def DeviceType_Valid_def
      BaseModel_BeforeCreate_def demo_device_def Let_def)
qed

theorem device_requests_keep_rows_valid_witness:
  "ApplyAction demo_devices ''id-0'' ActionEnterMaintenance \<lparr>st_db = [demo_device], st_env = 1\<rparr>
      = (Inr (demo_device\<lparr>dv_State := DeviceStateMaintenance\<rparr>),
         \<lparr>st_db = [demo_device\<lparr>dv_State := DeviceStateMaintenance\<rparr>], st_env = 1\<rparr>)
   \<and> devices_ok (mem_rows dv_ID [demo_device\<lparr>dv_State := DeviceStateMaintenance\<rparr>])"
proof -
  have g: "gorm_table (ds_table demo_devices) dv_ID (mem_rows dv_ID)"
    by (simp add: demo_devices_def mem.gorm_table_axioms)
  have k: "dv_ID demo_device = ''id-0''" by (simp add: demo_device_def)
  have a: "ApplyAction demo_devices ''id-0'' ActionEnterMaintenance \<lparr>st_db = [demo_device], st_env = 1\<rparr>
      = (Inr (demo_device\<lparr>dv_State := DeviceStateMaintenance\<rparr>),
         \<lparr>st_db = [demo_device\<lparr>dv_State := DeviceStateMaintenance\<rparr>], st_env = 1\<rparr>)"
    by (simp add: ApplyAction_def Device_Get_def Device_repo_Get_def repo_Get_def demo_devices_def mem_First k
      action_state_def Device_repo_Update_def repo_Update_def mem_Save device_emitAudit_def Let_def)
      (simp add: demo_device_def)
  have s: "(device_step demo_devices)\<^sup>*\<^sup>* \<lparr>st_db = [], st_env = 0\<rparr> \<lparr>st_db = [demo_device], st_env = 1\<rparr>"
    by (rule r_into_rtranclp) (rule device_step.create [OF demo_device_created])
  have e: "devices_ok (mem_rows dv_ID (st_db \<lparr>st_db = [], st_env = 0\<rparr>))" by (simp add: devices_ok_def)
  from device_requests_keep_rows_valid [OF g e s a]
  have "devices_ok (mem_rows dv_ID [demo_device\<lparr>dv_State := DeviceStateMaintenance\<rparr>])"
    unfolding table_store.simps by (rule conjunct1)
  with a show ?thesis ..
qed

end
