(* ===== verification/Pipeline_Http.thy ===== *)
theory Pipeline_Http
  imports Pipeline_Facts Device_Http
begin

text \<open>
  The HTTP side of the pipelines (\<open>internal/pipeline/handler.go\<close>): the wire shapes, the query parameters,
  every handler, and the routes with the permission each is registered under. The handlers call the plain
  operations of the service, not the caller-guarded variants; what that lets a request change is the property
  at the end.
\<close>

subsection \<open>Requests\<close>

record step_body =
  sb_Name :: string
  sb_Type :: string
  sb_Config :: step_config

record pipeline_body =
  pb_Name :: string
  pb_Description :: string
  pb_ProjectID :: string
  pb_TargetType :: string
  pb_TargetID :: string
  pb_ServiceID :: string
  pb_Trigger :: string
  pb_Enabled :: "bool option"
  pb_Steps :: "step_body list"

definition toCreateInput :: "pipeline_body \<Rightarrow> create_input" where
  "toCreateInput r =
     \<lparr>ci_Name = pb_Name r, ci_Description = pb_Description r, ci_ProjectID = pb_ProjectID r,
      ci_TargetType = pb_TargetType r, ci_TargetID = pb_TargetID r, ci_ServiceID = pb_ServiceID r,
      ci_Trigger = pb_Trigger r,
      ci_Steps = map (\<lambda>st. \<lparr>st_Name = sb_Name st, st_Type = sb_Type st, st_Config = sb_Config st\<rparr>) (pb_Steps r),
      ci_Enabled = pb_Enabled r\<rparr>"

text \<open>An empty field leaves the column as it is: the pointer stays nil.\<close>

definition given :: "string \<Rightarrow> string option" where
  "given v = (if v \<noteq> '''' then Some v else None)"

definition toUpdateInput :: "pipeline_body \<Rightarrow> update_input" where
  "toUpdateInput r =
     \<lparr>ui_Name = given (pb_Name r), ui_Description = given (pb_Description r),
      ui_TargetType = given (pb_TargetType r), ui_TargetID = given (pb_TargetID r),
      ui_ServiceID = given (pb_ServiceID r), ui_Enabled = pb_Enabled r\<rparr>"

text \<open>\<open>q\<close> is \<open>c.Query\<close>. A number that does not parse is an error for the list, and zero for the runs.\<close>

definition parsePipelineFilter :: "(string \<Rightarrow> string) \<Rightarrow> pipeline_filter result" where
  "parsePipelineFilter q =
     (case int_param 20 ''limit'' (q ''limit'') of
        Inl err \<Rightarrow> Inl err
      | Inr l \<Rightarrow>
          (case int_param 0 ''offset'' (q ''offset'') of
             Inl err \<Rightarrow> Inl err
           | Inr k \<Rightarrow>
               Inr \<lparr>pf_ProjectID = q ''project_id'', pf_Search = q ''search'', pf_ServiceID = '''',
                    pf_Limit = sint l, pf_Offset = sint k\<rparr>))"

definition lenient_int :: "string \<Rightarrow> int64" where
  "lenient_int v = (if v \<noteq> '''' then (case Atoi v of Some n \<Rightarrow> n | None \<Rightarrow> 0) else 0)"

definition parsePaging :: "(string \<Rightarrow> string) \<Rightarrow> int64 \<times> int64" where
  "parsePaging q = (lenient_int (q ''limit''), lenient_int (q ''offset''))"

subsection \<open>The handlers\<close>

definition pipeline_List where
  "pipeline_List s like q w =
     (case parsePipelineFilter q of
        Inl err \<Rightarrow> fail_with err
      | Inr f \<Rightarrow> page_response (word_of_int (pf_Limit f)) (word_of_int (pf_Offset f)) (Pipe_List s like f w))"

definition pipeline_Get where
  "pipeline_Get s k w = respond 200 (Pipe_Get s k w)"

text \<open>A body that is not JSON of the shape is \<open>None\<close>.\<close>

definition pipeline_Create ::
    "('p, 'r, 's, 'w) pipe_service \<Rightarrow> pipeline_body option \<Rightarrow> ('p, 'r, 's, 'w) pipe_world
     \<Rightarrow> pipeline response \<times> ('p, 'r, 's, 'w) pipe_world" where
  "pipeline_Create s body w =
     (case body of
        None \<Rightarrow> (reject CodeValidation ''request body must be JSON'', w)
      | Some r \<Rightarrow> (case Pipe_Create s (toCreateInput r) w of (res, w) \<Rightarrow> (respond 201 res, w)))"

definition pipeline_Update ::
    "('p, 'r, 's, 'w) pipe_service \<Rightarrow> string \<Rightarrow> pipeline_body option \<Rightarrow> ('p, 'r, 's, 'w) pipe_world
     \<Rightarrow> pipeline response \<times> ('p, 'r, 's, 'w) pipe_world" where
  "pipeline_Update s k body w =
     (case body of
        None \<Rightarrow> (reject CodeValidation ''request body must be JSON'', w)
      | Some r \<Rightarrow> (case Pipe_Update s k (toUpdateInput r) w of (res, w) \<Rightarrow> (respond 200 res, w)))"

definition pipeline_Delete ::
    "('p, 'r, 's, 'w) pipe_service \<Rightarrow> string \<Rightarrow> ('p, 'r, 's, 'w) pipe_world
     \<Rightarrow> unit response \<times> ('p, 'r, 's, 'w) pipe_world" where
  "pipeline_Delete s k w =
     (case Pipe_Delete s k w of
        (Some err, w) \<Rightarrow> (fail_with err, w)
      | (None, w) \<Rightarrow> (NoContent, w))"

text \<open>The user of a trigger is the one the client names in the header.\<close>

definition pipeline_Trigger ::
    "('p, 'r, 's, 'w) pipe_service \<Rightarrow> string \<Rightarrow> (string \<Rightarrow> string) \<Rightarrow> ('p, 'r, 's, 'w) pipe_world
     \<Rightarrow> pipeline_run response \<times> ('p, 'r, 's, 'w) pipe_world" where
  "pipeline_Trigger s k header w =
     (case Trigger s k (header ''X-User-Id'') w of (res, w) \<Rightarrow> (respond 201 res, w))"

definition pipeline_ListRuns where
  "pipeline_ListRuns s k q w =
     (case parsePaging q of
        (limit, offset) \<Rightarrow> page_response limit offset (ListRuns s k (sint limit) (sint offset) w))"

definition pipeline_Stats where
  "pipeline_Stats s k w = respond 200 (Pipe_Stats s k w)"

text \<open>A plan without phases is a nil slice, which the encoder writes as \<open>null\<close>: \<open>None\<close>.\<close>

definition pipeline_Phases where
  "pipeline_Phases s k w =
     (case Pipe_Get s k w of
        Inl err \<Rightarrow> fail_with err
      | Inr p \<Rightarrow>
          (case PlanForPipeline (Some p) of
             Inl err \<Rightarrow> fail_with (APIError CodeInternal ''failed to plan strategy phases'' (Some err))
           | Inr phases \<Rightarrow> Body 200 (pl_ID p, pl_Strategy p, if phases = [] then None else Some phases)))"

definition pipeline_ListAllRuns where
  "pipeline_ListAllRuns s q w =
     (case parsePaging q of
        (limit, offset) \<Rightarrow>
          (let limit = (if limit \<le>s 0 then 50 else limit)
           in page_response limit offset (ListAllRecentRuns s (sint limit) (sint offset) w)))"

definition pipeline_GetRun where
  "pipeline_GetRun s k w = respond 200 (Pipe_GetRunWithSteps s k w)"

definition pipeline_CancelRun ::
    "('p, 'r, 's, 'w) pipe_service \<Rightarrow> string \<Rightarrow> ('p, 'r, 's, 'w) pipe_world
     \<Rightarrow> pipeline_run response \<times> ('p, 'r, 's, 'w) pipe_world" where
  "pipeline_CancelRun s k w =
     (case Cancel s k w of
        (Some err, w) \<Rightarrow> (fail_with err, w)
      | (None, w) \<Rightarrow> (respond 200 (map_sum (\<lambda>e. e) fst (Pipe_GetRunWithSteps s k w)), w))"

subsection \<open>The routes that write\<close>

datatype pipeline_write =
    PostPipeline "pipeline_body option"
  | PutPipeline string "pipeline_body option"
  | DeletePipelineRoute string
  | PostTrigger string "string \<Rightarrow> string"
  | PostCancel string

text \<open>
  A handler behind its permission; \<open>v\<close> is the authenticated user as the middleware reads it. The whole reply
  of a write is its status here, because the bodies have different types.
\<close>

definition behind :: "permission \<Rightarrow> user option option \<Rightarrow> 'w \<Rightarrow> ('w \<Rightarrow> 'a response \<times> 'w) \<Rightarrow> nat \<times> 'w" where
  "behind perm v w h =
     (case RequirePermission perm v of
        Abort st c m \<Rightarrow> (st, w)
      | Next \<Rightarrow> (case h w of (resp, w') \<Rightarrow> (resp_status resp, w')))"

fun serve_write ::
    "('p, 'r, 's, 'w) pipe_service \<Rightarrow> user option option \<Rightarrow> pipeline_write \<Rightarrow> ('p, 'r, 's, 'w) pipe_world
     \<Rightarrow> nat \<times> ('p, 'r, 's, 'w) pipe_world" where
  "serve_write s v (PostPipeline body) w = behind PermissionManagePipelines v w (pipeline_Create s body)"
| "serve_write s v (PutPipeline k body) w = behind PermissionManagePipelines v w (pipeline_Update s k body)"
| "serve_write s v (DeletePipelineRoute k) w = behind PermissionManagePipelines v w (pipeline_Delete s k)"
| "serve_write s v (PostTrigger k header) w = behind PermissionManagePipelines v w (pipeline_Trigger s k header)"
| "serve_write s v (PostCancel k) w = behind PermissionManagePipelines v w (pipeline_CancelRun s k)"

subsection \<open>What a request can change\<close>

lemma manages_pipelines:
  "RequirePermission PermissionManagePipelines v =
     (if \<exists>u. v = Some (Some u) \<and> user_Role u \<in> {RoleSuperAdmin, RoleOperator} then Next
      else abortForbidden (case v of Some (Some _) \<Rightarrow> ''insufficient permission'' | _ \<Rightarrow> ''authentication required''))"
proof -
  have "RoleHasPermission r PermissionManagePipelines \<longleftrightarrow> r \<in> {RoleSuperAdmin, RoleOperator}" for r
    by (simp add: write_holders write_permissions_def)
  then show ?thesis by (auto simp: RequirePermission_def split: option.splits)
qed

lemma behind_refused:
  "\<not> (\<exists>u. v = Some (Some u) \<and> user_Role u \<in> {RoleSuperAdmin, RoleOperator}) \<Longrightarrow>
   behind PermissionManagePipelines v w h = (403, w)"
  unfolding behind_def manages_pipelines by (simp only: if_False verdict.case)

lemma behind_admitted:
  "user_Role u \<in> {RoleSuperAdmin, RoleOperator} \<Longrightarrow>
   behind PermissionManagePipelines (Some (Some u)) w h = (resp_status (fst (h w)), snd (h w))"
  unfolding behind_def manages_pipelines by (auto split: prod.splits)

text \<open>The effect of a write on the row \<open>k\<close> of the table, from \<open>x\<close> to \<open>y\<close>.\<close>

fun write_effect :: "pipeline_write \<Rightarrow> string \<Rightarrow> pipeline option \<Rightarrow> pipeline option \<Rightarrow> bool" where
  "write_effect (PostPipeline (Some b)) k x y \<longleftrightarrow>
     x = None \<and> (\<exists>p. y = Some p \<and> pl_Name p = TrimSpace (pb_Name b) \<and> pl_ProjectID p = TrimSpace (pb_ProjectID b))"
| "write_effect (PutPipeline k' (Some b)) k x y \<longleftrightarrow>
     k' = k \<and> (\<exists>p p'. x = Some p \<and> y = Some p' \<and> pl_ProjectID p' = pl_ProjectID p \<and> pl_Steps p' = pl_Steps p)"
| "write_effect (DeletePipelineRoute k') k x y \<longleftrightarrow> k' = k \<and> y = None"
| "write_effect _ k x y \<longleftrightarrow> False"

context pipeline_tables
begin

lemma Delete_done:
  assumes "pls (pw_pipelines w) k = Some p" "\<And>db e. db_Delete (sv_pipelines s) db k \<noteq> Inl e"
  shows "fst (pipeline_Delete s k w) = NoContent \<and> pls (pw_pipelines (snd (pipeline_Delete s k w))) k = None"
proof (cases "db_Delete (sv_pipelines s) (pw_pipelines w) k")
  case (Inl e)
  with assms(2) show ?thesis by simp
next
  case (Inr x)
  then obtain n db where d: "db_Delete (sv_pipelines s) (pw_pipelines w) k = Inr (n, db)" by (cases x) simp
  from P.Delete_ok [OF d] assms(1) have "n \<noteq> 0" "pls db k = None" by auto
  then show ?thesis by (simp add: pipeline_Delete_def Pipe_Delete_def repo_Delete_def d)
qed

lemma Create_effect:
  assumes "pls (pw_pipelines (snd (pipeline_Create s b w))) k \<noteq> pls (pw_pipelines w) k"
  shows "write_effect (PostPipeline b) k (pls (pw_pipelines w) k) (pls (pw_pipelines (snd (pipeline_Create s b w))) k)"
proof (cases b)
  case None
  with assms show ?thesis by (simp add: pipeline_Create_def)
next
  case (Some r)
  obtain res w' where c: "Pipe_Create s (toCreateInput r) w = (res, w')" by fastforce
  then have w': "snd (pipeline_Create s b w) = w'" using Some by (simp add: pipeline_Create_def)
  from c show ?thesis
  proof (cases rule: Create_cases)
    case (rejected e)
    with assms w' show ?thesis by (simp add: untouched_sel)
  next
    case (stored newID env db)
    with assms w' have "k = newID" by (auto split: if_splits)
    with stored w' Some show ?thesis by (simp add: toCreateInput_def)
  qed
qed

lemma Update_effect:
  assumes "pls (pw_pipelines (snd (pipeline_Update s k' b w))) k \<noteq> pls (pw_pipelines w) k"
  shows "write_effect (PutPipeline k' b) k (pls (pw_pipelines w) k) (pls (pw_pipelines (snd (pipeline_Update s k' b w))) k)"
proof (cases b)
  case None
  with assms show ?thesis by (simp add: pipeline_Update_def)
next
  case (Some r)
  obtain res w' where c: "Pipe_Update s k' (toUpdateInput r) w = (res, w')" by fastforce
  then have w': "snd (pipeline_Update s k' b w) = w'" using Some by (simp add: pipeline_Update_def)
  from c show ?thesis
  proof (cases rule: Update_cases)
    case (rejected e)
    with assms w' show ?thesis by simp
  next
    case (stored p p' db)
    with assms w' have "k = k'" by (auto split: if_splits)
    with stored w' Some apply_update_frame [OF stored(3)] show ?thesis by simp
  qed
qed

lemma Delete_effect:
  assumes "pls (pw_pipelines (snd (pipeline_Delete s k' w))) k \<noteq> pls (pw_pipelines w) k"
  shows "write_effect (DeletePipelineRoute k') k (pls (pw_pipelines w) k) (pls (pw_pipelines (snd (pipeline_Delete s k' w))) k)"
proof -
  obtain err w' where c: "Pipe_Delete s k' w = (err, w')" by fastforce
  then have w': "snd (pipeline_Delete s k' w) = w'" by (cases err) (simp_all add: pipeline_Delete_def)
  from c show ?thesis
  proof (cases rule: Delete_cases)
    case (rejected e)
    with assms w' show ?thesis by simp
  next
    case (stored p db)
    with assms w' show ?thesis by (auto split: if_splits)
  qed
qed

lemma serve_effect:
  assumes "user_Role u \<in> {RoleSuperAdmin, RoleOperator}"
    and "pls (pw_pipelines (snd (serve_write s (Some (Some u)) q w))) k \<noteq> pls (pw_pipelines w) k"
  shows "write_effect q k (pls (pw_pipelines w) k) (pls (pw_pipelines (snd (serve_write s (Some (Some u)) q w))) k)"
proof (cases q)
  case (PostPipeline b)
  with assms(2) Create_effect show ?thesis by (simp add: behind_admitted [OF assms(1)])
next
  case (PutPipeline k' b)
  with assms(2) Update_effect show ?thesis by (simp add: behind_admitted [OF assms(1)])
next
  case (DeletePipelineRoute k')
  with assms(2) Delete_effect show ?thesis by (simp add: behind_admitted [OF assms(1)])
next
  case (PostTrigger k' header)
  obtain res w' where t: "Trigger s k' (header ''X-User-Id'') w = (res, w')" by fastforce
  from assms(2) Trigger_frame [OF t] t PostTrigger show ?thesis
    by (simp add: behind_admitted [OF assms(1)] pipeline_Trigger_def)
next
  case (PostCancel k')
  obtain err w' where t: "Cancel s k' w = (err, w')" by fastforce
  from assms(2) Cancel_frame [OF t] t PostCancel show ?thesis
    by (cases err) (simp_all add: behind_admitted [OF assms(1)] pipeline_CancelRun_def)
qed

end

subsection \<open>Properties\<close>

text \<open>
  C5: the pipeline routes look at the caller's role and at nothing else. A write by anyone but a SuperAdmin or
  an Operator is refused with 403 and changes nothing. Any two callers of these roles get the same answer and
  leave the same state, whatever projects they are members of, and a change of the pipelines table is to the row
  the request names: a create adds a row with the project of the body, trimmed; an update keeps the project and
  the steps of the row; a delete removes the row, and a trigger and a cancel change no pipeline. In particular
  an Operator deletes any stored pipeline of any project, whereas \<open>DeleteWithCaller\<close>, which no route calls,
  leaves the table as it is for the same caller unless the membership query grants the pipeline's project.
\<close>

theorem pipeline_routes_guard_roles_only:
  assumes "pipeline_tables s pls rns sts"
    and "\<And>db k e. db_Delete (sv_pipelines s) db k \<noteq> Inl e"
  shows "(\<not> (\<exists>u. v = Some (Some u) \<and> user_Role u \<in> {RoleSuperAdmin, RoleOperator}) \<longrightarrow> serve_write s v q w = (403, w))
    \<and> (user_Role u \<in> {RoleSuperAdmin, RoleOperator} \<and> user_Role u' \<in> {RoleSuperAdmin, RoleOperator} \<longrightarrow>
        serve_write s (Some (Some u)) q w = serve_write s (Some (Some u')) q w)
    \<and> (pls (pw_pipelines (snd (serve_write s v q w))) k \<noteq> pls (pw_pipelines w) k \<longrightarrow>
        write_effect q k (pls (pw_pipelines w) k) (pls (pw_pipelines (snd (serve_write s v q w))) k))
    \<and> (user_Role u = RoleOperator \<and> pls (pw_pipelines w) k = Some p \<longrightarrow>
        fst (serve_write s (Some (Some u)) (DeletePipelineRoute k) w) = 204
        \<and> pls (pw_pipelines (snd (serve_write s (Some (Some u)) (DeletePipelineRoute k) w))) k = None)
    \<and> (user_Role u = RoleOperator \<and> pls (pw_pipelines w) k = Some p \<and> sv_membershipChecker s = Some m
        \<and> (\<forall>e. fst (m (user_ID u) e) = a) \<and> pl_ProjectID p \<notin> granted a \<longrightarrow>
        pls (pw_pipelines (snd (DeleteWithCaller s (Some (Some (New (Some u)))) k w))) = pls (pw_pipelines w))"
proof (intro conjI impI; (elim conjE)?)
  assume n: "\<not> (\<exists>u. v = Some (Some u) \<and> user_Role u \<in> {RoleSuperAdmin, RoleOperator})"
  show "serve_write s v q w = (403, w)" by (cases q) (simp_all only: serve_write.simps behind_refused [OF n])
next
  assume a: "user_Role u \<in> {RoleSuperAdmin, RoleOperator}" and a': "user_Role u' \<in> {RoleSuperAdmin, RoleOperator}"
  show "serve_write s (Some (Some u)) q w = serve_write s (Some (Some u')) q w"
    by (cases q) (simp_all only: serve_write.simps behind_admitted [OF a] behind_admitted [OF a'])
next
  assume c: "pls (pw_pipelines (snd (serve_write s v q w))) k \<noteq> pls (pw_pipelines w) k"
  show "write_effect q k (pls (pw_pipelines w) k) (pls (pw_pipelines (snd (serve_write s v q w))) k)"
  proof (cases "\<exists>u. v = Some (Some u) \<and> user_Role u \<in> {RoleSuperAdmin, RoleOperator}")
    case True
    with c pipeline_tables.serve_effect [OF assms(1)] show ?thesis by blast
  next
    case False
    have "serve_write s v q w = (403, w)" by (cases q) (simp_all only: serve_write.simps behind_refused [OF False])
    with c show ?thesis by simp
  qed
next
  assume r: "user_Role u = RoleOperator" "pls (pw_pipelines w) k = Some p"
  then have a: "user_Role u \<in> {RoleSuperAdmin, RoleOperator}" by simp
  from pipeline_tables.Delete_done [OF assms(1) r(2) assms(2)]
  show "fst (serve_write s (Some (Some u)) (DeletePipelineRoute k) w) = 204"
    "pls (pw_pipelines (snd (serve_write s (Some (Some u)) (DeletePipelineRoute k) w))) k = None"
    by (simp_all add: behind_admitted [OF a])
next
  assume r: "user_Role u = RoleOperator" "pls (pw_pipelines w) k = Some p" "sv_membershipChecker s = Some m"
    "\<forall>e. fst (m (user_ID u) e) = a" "pl_ProjectID p \<notin> granted a"
  obtain err w' where d: "DeleteWithCaller s (Some (Some (New (Some u)))) k w = (err, w')" by fastforce
  have "pls (pw_pipelines w') = pls (pw_pipelines w)"
  proof (rule pipeline_tables.guarded_delete [OF assms(1) d])
    assume "untouched w w'"
    then show ?thesis by (simp add: untouched_sel)
  next
    fix cl q w1
    assume g: "authenticated (Some (Some (New (Some u)))) = Some cl" "pls (pw_pipelines w) k = Some q"
      "member_or_admin s cl (pl_ProjectID q) w = (True, w1)"
    have "fst (m (user_ID u) e) = a" for e using r(4) by simp
    from member_or_admin_granted [OF r(3) this] g r show ?thesis by auto
  qed
  with d show "pls (pw_pipelines (snd (DeleteWithCaller s (Some (Some (New (Some u)))) k w))) = pls (pw_pipelines w)"
    by simp
qed

abbreviation operator_user :: user where
  "operator_user \<equiv> \<lparr>user_ID = ''u2'', user_Username = ''u2'', user_Email = '''', user_Role = RoleOperator,
     user_ProjectRole = ''viewer''\<rparr>"

definition foreign_pipeline :: pipeline where
  "foreign_pipeline = created ''x'' (demo_input\<lparr>ci_ProjectID := ''p9''\<rparr>)"

text \<open>The membership query grants ''p1'' only; the pipeline is of ''p9''.\<close>

theorem pipeline_routes_guard_roles_only_witness:
  "fst (serve_write (mem_pipes demo_executor) (Some (Some operator_user)) (DeletePipelineRoute ''x'')
      (demo_world\<lparr>pw_pipelines := [foreign_pipeline]\<rparr>)) = 204
   \<and> mem_rows pl_ID (pw_pipelines (snd (DeleteWithCaller (mem_pipes demo_executor)
       (Some (Some (New (Some operator_user)))) ''x'' (demo_world\<lparr>pw_pipelines := [foreign_pipeline]\<rparr>)))) ''x'' \<noteq> None"
proof -
  let ?w = "demo_world\<lparr>pw_pipelines := [foreign_pipeline]\<rparr>"
  have ok: "db_Delete (sv_pipelines (mem_pipes demo_executor)) db k \<noteq> Inl e" for db k e
    by (simp add: mem_Delete)
  have row: "mem_rows pl_ID (pw_pipelines ?w) ''x'' = Some foreign_pipeline"
    by (simp add: foreign_pipeline_def)
  have "TrimSpace ''p9'' = ''p9''" by code_simp
  then have p9: "pl_ProjectID foreign_pipeline \<notin> granted (Some {''p1''}, None)"
    by (simp add: foreign_pipeline_def granted_def)
  note routes = pipeline_routes_guard_roles_only [OF mem_pipes.pipeline_tables_axioms ok]
  have "fst (serve_write (mem_pipes demo_executor) (Some (Some operator_user)) (DeletePipelineRoute ''x'') ?w) = 204"
    using routes [THEN conjunct2, THEN conjunct2, THEN conjunct2, THEN conjunct1] row by simp
  moreover have "mem_rows pl_ID (pw_pipelines (snd (DeleteWithCaller (mem_pipes demo_executor)
      (Some (Some (New (Some operator_user)))) ''x'' ?w))) = mem_rows pl_ID (pw_pipelines ?w)"
    using routes [THEN conjunct2, THEN conjunct2, THEN conjunct2, THEN conjunct2, of operator_user ?w "''x''"
        foreign_pipeline "\<lambda>u w. ((Some {''p1''}, None), w)" "(Some {''p1''}, None)"] row p9 by simp
  ultimately show ?thesis using row by simp
qed

end
