(* ===== verification/Alert_Dsl.thy ===== *)
theory Alert_Dsl
  imports Contracts
begin

text \<open>
  The condition language of the alert rules (\<open>internal/alerts/dsl.go\<close>): the parser, the printer and the
  evaluator of a condition. Floating-point numbers and their decimal forms (\<open>strconv\<close>) are a
  parameter \<open>float_ops\<close>. Lemmas: a white-space-bounded operator is found exactly where the printer
  put it, so that parsing what was printed gives the condition back.
\<close>

text \<open>
  The operations on \<open>float64\<close> the code uses: \<open>ParseFloat\<close>, the test \<open>v == float64(int64(v))\<close> with the
  integer it compares, \<open>FormatFloat(v, 'f', -1, 64)\<close>, and the comparisons.
\<close>

record 'f float_ops =
  fo_ParseFloat :: "string \<Rightarrow> 'f option"
  fo_as_int :: "'f \<Rightarrow> int option"
  fo_FormatFloat :: "'f \<Rightarrow> string"
  fo_less :: "'f \<Rightarrow> 'f \<Rightarrow> bool"
  fo_le :: "'f \<Rightarrow> 'f \<Rightarrow> bool"
  fo_eq :: "'f \<Rightarrow> 'f \<Rightarrow> bool"

datatype condition_op = OpGT | OpLT | OpGTE | OpLTE | OpEQ

fun op_string :: "condition_op \<Rightarrow> string" where
  "op_string OpGT = ''>''"
| "op_string OpLT = ''<''"
| "op_string OpGTE = ''>=''"
| "op_string OpLTE = ''<=''"
| "op_string OpEQ = ''==''"

record 'f condition =
  cd_Metric :: string
  cd_Op :: condition_op
  cd_Threshold :: 'f

definition formatThreshold :: "'f float_ops \<Rightarrow> 'f \<Rightarrow> string" where
  "formatThreshold fo v = (case fo_as_int fo v of Some i \<Rightarrow> Itoa i | None \<Rightarrow> fo_FormatFloat fo v)"

definition Condition_String :: "'f float_ops \<Rightarrow> 'f condition \<Rightarrow> string" where
  "Condition_String fo c =
     cd_Metric c @ '' '' @ op_string (cd_Op c) @ '' '' @ formatThreshold fo (cd_Threshold c)"

definition isSpace :: "char \<Rightarrow> bool" where
  "isSpace b \<longleftrightarrow> b = CHR '' '' \<or> b = CHR 0x09 \<or> b = CHR 0x0A \<or> b = CHR 0x0D"

text \<open>The loop over the positions, with the tests of its body.\<close>

definition op_at :: "string \<Rightarrow> string \<Rightarrow> nat \<Rightarrow> bool" where
  "op_at s op i \<longleftrightarrow> take (length op) (drop i s) = op
     \<and> (i = 0 \<or> isSpace (s ! (i - 1)))
     \<and> (i + length op = length s \<or> isSpace (s ! (i + length op)))"

definition indexOp :: "string \<Rightarrow> string \<Rightarrow> nat option" where
  "indexOp s op = find (op_at s op) [0 ..< Suc (length s) - length op]"

definition metric_char :: "char \<Rightarrow> bool" where
  "metric_char r \<longleftrightarrow>
     (let n = (of_char r :: nat)
      in 97 \<le> n \<and> n \<le> 122 \<or> 65 \<le> n \<and> n \<le> 90 \<or> 48 \<le> n \<and> n \<le> 57 \<or> r = CHR ''_'' \<or> r = CHR ''.'')"

definition validMetricName :: "string \<Rightarrow> bool" where
  "validMetricName s \<longleftrightarrow> s \<noteq> '''' \<and> list_all metric_char s"

definition dsl_error :: "string \<Rightarrow> go_error" where
  "dsl_error m = APIError CodeValidation m None"

text \<open>The body of the loop over the operators, for the first one that is found.\<close>

definition split_at_op :: "'f float_ops \<Rightarrow> string \<Rightarrow> condition_op \<Rightarrow> nat \<Rightarrow> 'f condition result" where
  "split_at_op fo s op idx =
     (let metric = TrimSpace (take idx s);
          rest = TrimSpace (drop (idx + length (op_string op)) s)
      in if metric = '''' then Inl (dsl_error ''condition DSL is missing the metric (LHS) name'')
         else if \<not> validMetricName metric then
           Inl (dsl_error (''metric name '' @ Quote metric @ '' contains illegal characters''))
         else if rest = '''' then Inl (dsl_error ''condition DSL is missing the threshold (RHS) value'')
         else
           (case fo_ParseFloat fo rest of
              None \<Rightarrow> Inl (dsl_error (''threshold '' @ Quote rest @ '' is not a number''))
            | Some thresh \<Rightarrow> Inr \<lparr>cd_Metric = metric, cd_Op = op, cd_Threshold = thresh\<rparr>))"

fun try_ops :: "'f float_ops \<Rightarrow> string \<Rightarrow> condition_op list \<Rightarrow> 'f condition result" where
  "try_ops fo s [] =
     Inl (dsl_error (''condition DSL '' @ Quote s @ '' has no recognised operator (use >, <, >=, <=, ==)''))"
| "try_ops fo s (op # ops) =
     (case indexOp s (op_string op) of
        None \<Rightarrow> try_ops fo s ops
      | Some idx \<Rightarrow> split_at_op fo s op idx)"

definition ParseDSL :: "'f float_ops \<Rightarrow> string \<Rightarrow> 'f condition result" where
  "ParseDSL fo s =
     (let s = TrimSpace s
      in if s = '''' then Inl (dsl_error ''condition DSL is empty'')
         else try_ops fo s [OpGTE, OpLTE, OpEQ, OpGT, OpLT])"

definition Eval :: "'f float_ops \<Rightarrow> 'f condition \<Rightarrow> 'f \<Rightarrow> bool" where
  "Eval fo c v =
     (case cd_Op c of
        OpGT \<Rightarrow> fo_less fo (cd_Threshold c) v
      | OpLT \<Rightarrow> fo_less fo v (cd_Threshold c)
      | OpGTE \<Rightarrow> fo_le fo (cd_Threshold c) v
      | OpLTE \<Rightarrow> fo_le fo v (cd_Threshold c)
      | OpEQ \<Rightarrow> fo_eq fo v (cd_Threshold c))"

subsection \<open>Words without white space\<close>

text \<open>Printable ASCII without the space: no white-space sequence begins or ends with such a byte.\<close>

definition plain :: "char \<Rightarrow> bool" where
  "plain c \<longleftrightarrow> 33 \<le> (of_char c :: nat) \<and> (of_char c :: nat) \<le> 126"

lemma plain_not_space: "plain c \<Longrightarrow> \<not> isSpace c"
  by (auto simp: plain_def isSpace_def)

lemma space_seqs_not_plain: "list_all (\<lambda>p. p \<noteq> [] \<and> \<not> plain (hd p) \<and> \<not> plain (last p)) space_seqs"
  by code_simp

lemma no_space_front: "plain (hd s) \<Longrightarrow> s \<noteq> [] \<Longrightarrow> drop_seq space_seqs s = None"
  using space_seqs_not_plain by (auto simp: drop_seq_None list_all_iff prefix_def)

lemma no_space_back: "plain (last s) \<Longrightarrow> s \<noteq> [] \<Longrightarrow> drop_seq (map rev space_seqs) (rev s) = None"
  using space_seqs_not_plain
  by (auto simp: drop_seq_None list_all_iff suffix_to_prefix [symmetric] suffix_def)

lemma trim_space_front: "trim_front space_seqs (CHR '' '' # s) = trim_front space_seqs s"
  by (subst trim_front.simps) (simp add: space_seqs_def)

lemma trim_space_back: "trim_front (map rev space_seqs) (CHR '' '' # s) = trim_front (map rev space_seqs) s"
  by (subst trim_front.simps) (simp add: space_seqs_def)

lemma TrimSpace_plain: "plain (hd s) \<Longrightarrow> plain (last s) \<Longrightarrow> s \<noteq> [] \<Longrightarrow> TrimSpace s = s"
  by (simp add: TrimSpace_def trim_front_id no_space_front no_space_back)

lemma TrimSpace_before: "plain (hd s) \<Longrightarrow> plain (last s) \<Longrightarrow> s \<noteq> [] \<Longrightarrow> TrimSpace (CHR '' '' # s) = s"
  by (simp add: TrimSpace_def trim_space_front trim_front_id no_space_front no_space_back)

lemma TrimSpace_after: "plain (hd s) \<Longrightarrow> plain (last s) \<Longrightarrow> s \<noteq> [] \<Longrightarrow> TrimSpace (s @ '' '') = s"
  by (simp add: TrimSpace_def trim_front_id no_space_front no_space_back trim_space_back)

lemma metric_plain: "validMetricName m \<Longrightarrow> list_all plain m \<and> m \<noteq> []"
  by (auto simp: validMetricName_def metric_char_def plain_def list_all_iff Let_def)

lemma op_string_plain: "list_all plain (op_string op) \<and> op_string op \<noteq> []"
  by (cases op) (simp_all add: plain_def)

lemma op_string_inject: "op_string a = op_string b \<longleftrightarrow> a = b"
  by (cases a; cases b) simp_all

lemma op_string_not_metric: "list_all metric_char (op_string op) = False"
  by (cases op) (simp_all add: metric_char_def)

lemma three_intervals:
  fixes i n a b c :: nat
  assumes "i = 0 \<or> i = a + 1 \<or> i = a + b + 2"
    and "i + n = a + b + c + 2 \<or> i + n = a \<or> i + n = a + 1 + b"
    and "\<not> (i \<le> a \<and> a < i + n)" "\<not> (i \<le> a + 1 + b \<and> a + 1 + b < i + n)"
    and "0 < n" "0 < b" "0 < c"
  shows "i = 0 \<and> n = a \<or> i = a + 1 \<and> n = b \<or> i = a + b + 2 \<and> n = c"
  using assms by (auto simp: not_le not_less)

text \<open>In three words separated by single spaces, an operator that is neither the first nor the last
  word is found exactly if it is the middle word, and there.\<close>

abbreviation phrase :: "string \<Rightarrow> string \<Rightarrow> string \<Rightarrow> string" where
  "phrase m p t \<equiv> m @ '' '' @ p @ '' '' @ t"

definition three_words :: "string \<Rightarrow> string \<Rightarrow> string \<Rightarrow> bool" where
  "three_words m p t \<longleftrightarrow> list_all plain m \<and> list_all plain p \<and> list_all plain t
     \<and> m \<noteq> [] \<and> p \<noteq> [] \<and> t \<noteq> []"

lemma space_iff:
  assumes w: "three_words m p t" and "i < length (phrase m p t)"
  shows "isSpace (phrase m p t ! i) \<longleftrightarrow> i = length m \<or> i = length m + 1 + length p"
proof -
  have pl: "x \<in> set m \<Longrightarrow> \<not> isSpace x" "x \<in> set p \<Longrightarrow> \<not> isSpace x" "x \<in> set t \<Longrightarrow> \<not> isSpace x" for x
    using w plain_not_space by (auto simp: three_words_def list_all_iff)
  have sp: "isSpace (CHR '' '')" by (simp add: isSpace_def)
  consider "i < length m" | "i = length m" | "length m < i" "i < length m + 1 + length p"
    | "i = length m + 1 + length p" | "length m + 1 + length p < i" by linarith
  then show ?thesis
  proof cases
    case 3
    then have "(phrase m p t) ! i = p ! (i - length m - 1)" "i - length m - 1 < length p"
      by (auto simp: nth_append nth_Cons')
    with 3 pl(2) show ?thesis by simp
  next
    case 5
    then have "(phrase m p t) ! i = t ! (i - length m - length p - 2)" "i - length m - length p - 2 < length t"
      using assms(2) by (auto simp: nth_append nth_Cons')
    with 5 pl(3) show ?thesis by simp
  qed (use pl sp in \<open>auto simp: nth_append nth_Cons'\<close>)
qed

lemma op_at_word:
  assumes w: "three_words m p t" and q: "list_all plain q" "q \<noteq> []" and at: "op_at (phrase m p t) q i"
  shows "q = m \<or> q = p \<and> i = length m + 1 \<or> q = t"
proof -
  let ?n = "length q"
  from at have e: "take ?n (drop i (phrase m p t)) = q" by (simp add: op_at_def)
  from q(2) have n0: "0 < ?n" by simp
  have "min ?n (length (phrase m p t) - i) = ?n" using arg_cong [OF e, of length] by simp
  then have le: "i + ?n \<le> length (phrase m p t)" using n0 by (simp only: min_def split: if_splits)
  have no_space: "\<not> isSpace (phrase m p t ! j)" if "i \<le> j" "j < i + ?n" for j
  proof -
    have "take ?n (drop i (phrase m p t)) ! (j - i) = (phrase m p t) ! (i + (j - i))"
      using that le by (simp only: nth_take nth_drop le_diff_conv2)
    then have "(phrase m p t) ! j = q ! (j - i)" using that e by (simp del: append.simps append_assoc)
    moreover have "q ! (j - i) \<in> set q" using that by simp
    ultimately show ?thesis using q(1) plain_not_space by (auto simp: list_all_iff)
  qed
  have start: "i = 0 \<or> i = length m + 1 \<or> i = length m + length p + 2"
    using at space_iff [OF w, of "i - 1"] le q(2) by (cases i) (auto simp: op_at_def)
  have stop: "i + ?n = length (phrase m p t) \<or> i + ?n = length m \<or> i + ?n = length m + 1 + length p"
    using at space_iff [OF w, of "i + ?n"] le by (auto simp: op_at_def le_less)
  have sp: "isSpace (phrase m p t ! length m)" "isSpace (phrase m p t ! (length m + 1 + length p))"
    using space_iff [OF w, of "length m"] space_iff [OF w, of "length m + 1 + length p"]
    by (simp_all add: isSpace_def nth_append)
  have inside: "\<not> (i \<le> length m \<and> length m < i + ?n)"
    "\<not> (i \<le> length m + 1 + length p \<and> length m + 1 + length p < i + ?n)"
    using no_space sp by blast+
  have len: "length (phrase m p t) = length m + length p + length t + 2" by simp
  have "i = 0 \<and> ?n = length m \<or> i = length m + 1 \<and> ?n = length p
      \<or> i = length m + length p + 2 \<and> ?n = length t"
    by (rule three_intervals [OF start stop [unfolded len] inside n0])
      (use w in \<open>simp_all add: three_words_def\<close>)
  then show ?thesis using e by auto
qed

lemma op_at_middle:
  assumes "three_words m p t"
  shows "op_at (phrase m p t) p (length m + 1)"
  using space_iff [OF assms, of "length m"] space_iff [OF assms, of "length m + 1 + length p"]
  by (simp add: op_at_def)

lemma indexOp_middle:
  assumes w: "three_words m p t" and "p \<noteq> m" "p \<noteq> t"
  shows "indexOp (phrase m p t) p = Some (length m + 1)"
proof -
  let ?xs = "[0 ..< Suc (length (phrase m p t)) - length p]"
  have "length m + 1 \<in> set ?xs" using w by (simp add: three_words_def)
  then have "find (op_at (phrase m p t) p) ?xs \<noteq> None" using op_at_middle [OF w] unfolding find_None_iff by blast
  then obtain i where i: "find (op_at (phrase m p t) p) ?xs = Some i" by blast
  then have "op_at (phrase m p t) p i" by (auto simp: find_Some_iff)
  from op_at_word [OF w _ _ this] assms w have "i = length m + 1" by (auto simp: three_words_def)
  with i show ?thesis by (simp add: indexOp_def)
qed

lemma indexOp_absent:
  assumes w: "three_words m p t" and "list_all plain q" "q \<noteq> []" "q \<noteq> m" "q \<noteq> p" "q \<noteq> t"
  shows "indexOp (phrase m p t) q = None"
  using op_at_word [OF assms(1-3)] assms(4-6) by (auto simp: indexOp_def find_None_iff)

subsection \<open>Properties\<close>

text \<open>Where the code finds the operator, the metric stands before it and the threshold after it.\<close>

lemma split_phrase:
  assumes w: "three_words m (op_string op) t" and m: "validMetricName m" and v: "fo_ParseFloat fo t = Some v"
  shows "split_at_op fo (phrase m (op_string op) t) op (length m + 1)
     = Inr \<lparr>cd_Metric = m, cd_Op = op, cd_Threshold = v\<rparr>"
proof -
  from w have ends: "plain (hd m)" "plain (last m)" "m \<noteq> []" "plain (hd t)" "plain (last t)" "t \<noteq> []"
    by (auto simp: three_words_def list_all_iff)
  have "take (length m + 1) (phrase m (op_string op) t) = m @ '' ''"
    "drop (length m + 1 + length (op_string op)) (phrase m (op_string op) t) = CHR '' '' # t"
    by simp_all
  then show ?thesis
    using TrimSpace_after [OF ends(1-3)] TrimSpace_before [OF ends(4-6)] m v ends(3,6)
    by (simp only: split_at_op_def) simp
qed

lemma try_ops_phrase:
  assumes w: "three_words m (op_string op) t" and m: "validMetricName m" and v: "fo_ParseFloat fo t = Some v"
    and t: "\<And>q. t \<noteq> op_string q" and op: "op \<in> set ops"
  shows "try_ops fo (phrase m (op_string op) t) ops = Inr \<lparr>cd_Metric = m, cd_Op = op, cd_Threshold = v\<rparr>"
  using op
proof (induction ops)
  case (Cons q ops)
  have ne: "m \<noteq> op_string q" for q
    using m op_string_not_metric [of q] by (auto simp: validMetricName_def)
  show ?case
  proof (cases "q = op")
    case True
    with indexOp_middle [OF w] ne [of op] t [of op] split_phrase [OF w m v] show ?thesis
      by (simp del: append.simps)
  next
    case False
    then have "indexOp (phrase m (op_string op) t) (op_string q) = None"
      using indexOp_absent [OF w, of "op_string q"] op_string_plain [of q] ne [of q] t [of q] op_string_inject
      by metis
    with Cons False show ?thesis by (simp del: append.simps)
  qed
qed simp

text \<open>
  C19: what the parser accepts, and that printing is its inverse. A condition whose metric is a valid
  name and whose threshold's text is one word that reads back as the threshold is printed as a
  text that parses to the same condition; so whatever text the parser accepted, its canonical form
  parses to the same condition again. A text it accepts has a valid metric name.
\<close>

theorem condition_round_trip:
  assumes "validMetricName (cd_Metric c)"
    and "fo_ParseFloat fo (formatThreshold fo (cd_Threshold c)) = Some (cd_Threshold c)"
    and "list_all plain (formatThreshold fo (cd_Threshold c))" "formatThreshold fo (cd_Threshold c) \<noteq> ''''"
    and "\<And>q. formatThreshold fo (cd_Threshold c) \<noteq> op_string q"
  shows "ParseDSL fo (Condition_String fo c) = Inr c"
proof -
  let ?m = "cd_Metric c" and ?t = "formatThreshold fo (cd_Threshold c)"
  have w: "three_words ?m (op_string (cd_Op c)) ?t"
    using metric_plain [OF assms(1)] op_string_plain assms(3,4) by (simp add: three_words_def)
  then have "TrimSpace (phrase ?m (op_string (cd_Op c)) ?t) = phrase ?m (op_string (cd_Op c)) ?t"
    by (intro TrimSpace_plain) (auto simp: three_words_def list_all_iff)
  moreover have "cd_Op c \<in> set [OpGTE, OpLTE, OpEQ, OpGT, OpLT]" by (cases "cd_Op c") simp_all
  ultimately show ?thesis
    using try_ops_phrase [OF w assms(1,2,5)] w
    by (simp add: ParseDSL_def Condition_String_def three_words_def del: try_ops.simps append.simps)
qed

text \<open>Decimal integers as the numbers: the reader and printer of the prelude.\<close>

abbreviation int_floats :: "int float_ops" where
  "int_floats \<equiv> \<lparr>fo_ParseFloat = (\<lambda>s. map_option sint (Atoi s)), fo_as_int = Some,
     fo_FormatFloat = Itoa, fo_less = (<), fo_le = (\<le>), fo_eq = (=)\<rparr>"

theorem condition_round_trip_witness:
  "ParseDSL int_floats ''node.cpu >= 80'' = Inr \<lparr>cd_Metric = ''node.cpu'', cd_Op = OpGTE, cd_Threshold = 80\<rparr>"
proof -
  let ?c = "\<lparr>cd_Metric = ''node.cpu'', cd_Op = OpGTE, cd_Threshold = 80\<rparr> :: int condition"
  have "Itoa 80 = ''80''" "Atoi ''80'' = Some 80" by code_simp+
  then have f: "formatThreshold int_floats 80 = ''80''"
    and p: "fo_ParseFloat int_floats ''80'' = Some 80" by (simp_all add: formatThreshold_def)
  have "''80'' \<noteq> op_string q" for q by (cases q) simp_all
  with f p have "ParseDSL int_floats (Condition_String int_floats ?c) = Inr ?c"
    by (intro condition_round_trip) (simp_all add: validMetricName_def metric_char_def plain_def)
  with f show ?thesis by (simp add: Condition_String_def)
qed

end
