(* ===== verification/Alert_Service.thy ===== *)
theory Alert_Service
  imports Complex_Main Alert_Dsl Audit_Service Host_Monitor
begin

text \<open>
  The alert subsystem (\<open>internal/alerts\<close>): the rows (\<open>models.go\<close>), the repository (\<open>repository.go\<close>), the
  suppression checkers (\<open>suppression.go\<close>), the dispatchers (\<open>dispatcher.go\<close>) and the service with the
  dispatch of a fired alert (\<open>service.go\<close>). Lemmas: which channels an alert reaches, with and without a
  host in maintenance, what every stored alert satisfies, and the lifecycle the code allows.
\<close>

subsection \<open>Rows\<close>

type_synonym severity = string
type_synonym alert_state = string
type_synonym source_type = string
type_synonym channel_type = string

definition Severity_Valid :: "severity \<Rightarrow> bool" where
  "Severity_Valid s \<longleftrightarrow> s = ''info'' \<or> s = ''warning'' \<or> s = ''critical''"

abbreviation StateFiring :: alert_state where "StateFiring \<equiv> ''firing''"
abbreviation StateAcknowledged :: alert_state where "StateAcknowledged \<equiv> ''acknowledged''"
abbreviation StateResolved :: alert_state where "StateResolved \<equiv> ''resolved''"

definition State_Valid :: "alert_state \<Rightarrow> bool" where
  "State_Valid s \<longleftrightarrow> s = StateFiring \<or> s = StateAcknowledged \<or> s = StateResolved"

abbreviation SourceTypePhysicalHost :: source_type where "SourceTypePhysicalHost \<equiv> ''physical_host''"

definition SourceType_Valid :: "source_type \<Rightarrow> bool" where
  "SourceType_Valid t \<longleftrightarrow>
     t = SourceTypePhysicalHost \<or> t = ''k8s'' \<or> t = ''pipeline'' \<or> t = ''custom''"

abbreviation ChannelTypeLog :: channel_type where "ChannelTypeLog \<equiv> ''log''"

definition IsExternal :: "channel_type \<Rightarrow> bool" where
  "IsExternal t \<longleftrightarrow> t = ''slack'' \<or> t = ''pagerduty'' \<or> t = ''webhook'' \<or> t = ''email''"

definition ChannelType_Valid :: "channel_type \<Rightarrow> bool" where
  "ChannelType_Valid t \<longleftrightarrow>
     t = ''slack'' \<or> t = ''pagerduty'' \<or> t = ''webhook'' \<or> t = ''email'' \<or> t = ChannelTypeLog"

record alert =
  al_ID :: string
  al_Name :: string
  al_Severity :: severity
  al_State :: alert_state
  al_SourceType :: source_type
  al_SourceID :: string
  al_Labels :: json_map
  al_FiredAt :: time
  al_ResolvedAt :: "time option"
  al_AcknowledgedBy :: "string option"
  al_AcknowledgedAt :: "time option"
  al_Suppressed :: bool
  al_SuppressionReason :: string

record channel =
  ch_ID :: string
  ch_Type :: channel_type
  ch_Config :: json_map
  ch_Enabled :: bool

record alert_rule =
  ar_ID :: string
  ar_Name :: string
  ar_ConditionDSL :: string
  ar_ChannelIDs :: "string list option"
  ar_Enabled :: bool
  ar_SuppressionWindow :: duration

abbreviation ErrAlertNotFound :: go_error where
  "ErrAlertNotFound \<equiv> Sentinel ''alerts: not found''"

definition Alert_IsNotFound :: "go_error \<Rightarrow> bool" where
  "Alert_IsNotFound err \<longleftrightarrow>
     errors_Is err ErrAlertNotFound \<or>
     (case errors_As_API err of None \<Rightarrow> False | Some (c, _) \<Rightarrow> c = CodeNotFound)"

definition Alert_IsValidation :: "go_error \<Rightarrow> bool" where
  "Alert_IsValidation err \<longleftrightarrow>
     (case errors_As_API err of None \<Rightarrow> False | Some (c, _) \<Rightarrow> c = CodeValidation)"

subsection \<open>The repository\<close>

text \<open>
  The rows as they are inserted: the identifier of the hook, a map column never NULL, and \<open>Enabled\<close>,
  tagged \<open>default:true\<close>, inserted with its default when it is false (GORM's rule for zero values), which
  also updates the row in memory.
\<close>

definition alert_row :: "alert \<Rightarrow> alert" where
  "alert_row a = a\<lparr>al_Labels := stored_map (al_Labels a)\<rparr>"

definition CreateAlert_repo ::
    "('a, alert) gorm \<Rightarrow> string \<Rightarrow> 'a \<Rightarrow> alert \<Rightarrow> 'a result \<times> alert" where
  "CreateAlert_repo g newID db a =
     (let a = a\<lparr>al_ID := BaseModel_BeforeCreate newID (al_ID a)\<rparr>
      in (repo_Create g ''alerts.CreateAlert: '' db (alert_row a), a))"

definition GetAlert_repo :: "('a, alert) gorm \<Rightarrow> 'a \<Rightarrow> string \<Rightarrow> alert result" where
  "GetAlert_repo g db k = repo_Get g ErrAlertNotFound db k"

record alert_filter =
  lq_Name :: string
  lq_Severity :: severity
  lq_SourceType :: source_type
  lq_SourceID :: string
  lq_State :: alert_state
  lq_Suppressed :: "bool option"
  lq_Limit :: int64
  lq_Offset :: int64

definition empty_alert_filter :: alert_filter where
  "empty_alert_filter =
     \<lparr>lq_Name = '''', lq_Severity = '''', lq_SourceType = '''', lq_SourceID = '''', lq_State = '''',
      lq_Suppressed = None, lq_Limit = 0, lq_Offset = 0\<rparr>"

definition alert_matches :: "alert_filter \<Rightarrow> alert \<Rightarrow> bool" where
  "alert_matches f a \<longleftrightarrow>
     (lq_Name f = '''' \<or> al_Name a = lq_Name f) \<and>
     (lq_Severity f = '''' \<or> al_Severity a = lq_Severity f) \<and>
     (lq_SourceType f = '''' \<or> al_SourceType a = lq_SourceType f) \<and>
     (lq_SourceID f = '''' \<or> al_SourceID a = lq_SourceID f) \<and>
     (lq_State f = '''' \<or> al_State a = lq_State f) \<and>
     (case lq_Suppressed f of None \<Rightarrow> True | Some b \<Rightarrow> al_Suppressed a = b)"

definition ListAlerts :: "('a, alert) gorm \<Rightarrow> 'a \<Rightarrow> alert_filter \<Rightarrow> (alert list \<times> nat) result" where
  "ListAlerts g db f =
     query_page g ''alerts.ListAlerts'' db (alert_matches f) (lq_Limit f) (lq_Offset f)"

text \<open>A patch is the list of the columns it sets, with their values.\<close>

datatype alert_col =
    SetState alert_state
  | SetAcknowledgedBy string
  | SetAcknowledgedAt time
  | SetResolvedAt time
  | SetSuppressed bool
  | SetSuppressionReason string

fun set_alert_col :: "alert_col \<Rightarrow> alert \<Rightarrow> alert" where
  "set_alert_col (SetState v) a = a\<lparr>al_State := v\<rparr>"
| "set_alert_col (SetAcknowledgedBy v) a = a\<lparr>al_AcknowledgedBy := Some v\<rparr>"
| "set_alert_col (SetAcknowledgedAt v) a = a\<lparr>al_AcknowledgedAt := Some v\<rparr>"
| "set_alert_col (SetResolvedAt v) a = a\<lparr>al_ResolvedAt := Some v\<rparr>"
| "set_alert_col (SetSuppressed v) a = a\<lparr>al_Suppressed := v\<rparr>"
| "set_alert_col (SetSuppressionReason v) a = a\<lparr>al_SuppressionReason := v\<rparr>"

definition empty_patch :: go_error where
  "empty_patch = APIError CodeValidation ''update patch is empty'' None"

definition UpdateAlert :: "('a, alert) gorm \<Rightarrow> 'a \<Rightarrow> string \<Rightarrow> alert_col list \<Rightarrow> 'a result" where
  "UpdateAlert g db k patch =
     (if patch = [] then Inl empty_patch
      else repo_Patch g ''alerts.UpdateAlert: '' ErrAlertNotFound db k (fold set_alert_col patch))"

definition DeleteAlert_repo :: "('a, alert) gorm \<Rightarrow> 'a \<Rightarrow> string \<Rightarrow> 'a result" where
  "DeleteAlert_repo g db k = repo_Delete g ''alerts.DeleteAlert: '' ErrAlertNotFound db k"

definition channel_defaults :: "channel \<Rightarrow> channel" where
  "channel_defaults c = (if \<not> ch_Enabled c then c\<lparr>ch_Enabled := True\<rparr> else c)"

definition channel_row :: "channel \<Rightarrow> channel" where
  "channel_row c = c\<lparr>ch_Config := stored_map (ch_Config c)\<rparr>"

definition CreateChannel_repo ::
    "('c, channel) gorm \<Rightarrow> string \<Rightarrow> 'c \<Rightarrow> channel \<Rightarrow> 'c result \<times> channel" where
  "CreateChannel_repo g newID db c =
     (let c = channel_defaults (c\<lparr>ch_ID := BaseModel_BeforeCreate newID (ch_ID c)\<rparr>)
      in (repo_Create g ''alerts.CreateChannel: '' db (channel_row c), c))"

definition GetChannel_repo :: "('c, channel) gorm \<Rightarrow> 'c \<Rightarrow> string \<Rightarrow> channel result" where
  "GetChannel_repo g db k = repo_Get g ErrAlertNotFound db k"

definition ListChannels_repo :: "('c, channel) gorm \<Rightarrow> 'c \<Rightarrow> channel list result" where
  "ListChannels_repo g db =
     (case db_Find g db (\<lambda>_. True) of
        Inl err \<Rightarrow> Inl (Wrapped ''alerts.ListChannels: '' err)
      | Inr out \<Rightarrow> Inr out)"

datatype channel_col = SetType channel_type | SetConfig json_map | SetEnabled bool

fun set_channel_col :: "channel_col \<Rightarrow> channel \<Rightarrow> channel" where
  "set_channel_col (SetType v) c = c\<lparr>ch_Type := v\<rparr>"
| "set_channel_col (SetConfig v) c = c\<lparr>ch_Config := stored_map v\<rparr>"
| "set_channel_col (SetEnabled v) c = c\<lparr>ch_Enabled := v\<rparr>"

definition UpdateChannel_repo ::
    "('c, channel) gorm \<Rightarrow> 'c \<Rightarrow> string \<Rightarrow> channel_col list \<Rightarrow> 'c result" where
  "UpdateChannel_repo g db k patch =
     (if patch = [] then Inl empty_patch
      else repo_Patch g ''alerts.UpdateChannel: '' ErrAlertNotFound db k (fold set_channel_col patch))"

definition DeleteChannel_repo :: "('c, channel) gorm \<Rightarrow> 'c \<Rightarrow> string \<Rightarrow> 'c result" where
  "DeleteChannel_repo g db k = repo_Delete g ''alerts.DeleteChannel: '' ErrAlertNotFound db k"

text \<open>The rules are persisted records; nothing in the program evaluates them yet.\<close>

definition rule_defaults :: "alert_rule \<Rightarrow> alert_rule" where
  "rule_defaults r = (if \<not> ar_Enabled r then r\<lparr>ar_Enabled := True\<rparr> else r)"

definition CreateRule ::
    "('u, alert_rule) gorm \<Rightarrow> string \<Rightarrow> 'u \<Rightarrow> alert_rule \<Rightarrow> 'u result \<times> alert_rule" where
  "CreateRule g newID db r =
     (let r = rule_defaults (r\<lparr>ar_ID := BaseModel_BeforeCreate newID (ar_ID r)\<rparr>)
      in (repo_Create g ''alerts.CreateRule: '' db
            (r\<lparr>ar_ChannelIDs := Some (case ar_ChannelIDs r of None \<Rightarrow> [] | Some ids \<Rightarrow> ids)\<rparr>), r))"

definition GetRule :: "('u, alert_rule) gorm \<Rightarrow> 'u \<Rightarrow> string \<Rightarrow> alert_rule result" where
  "GetRule g db k = repo_Get g ErrAlertNotFound db k"

definition ListRules :: "('u, alert_rule) gorm \<Rightarrow> 'u \<Rightarrow> alert_rule list result" where
  "ListRules g db =
     (case db_Find g db (\<lambda>_. True) of
        Inl err \<Rightarrow> Inl (Wrapped ''alerts.ListRules: '' err)
      | Inr out \<Rightarrow> Inr out)"

definition DeleteRule :: "('u, alert_rule) gorm \<Rightarrow> 'u \<Rightarrow> string \<Rightarrow> 'u result" where
  "DeleteRule g db k = repo_Delete g ''alerts.DeleteRule: '' ErrAlertNotFound db k"

subsection \<open>Suppression and dispatch\<close>

text \<open>A checker reads the world; the production one asks the probe, when it has one.\<close>

type_synonym 'w suppression_checker = "string \<Rightarrow> 'w \<Rightarrow> bool"

definition DefaultSuppressionChecker :: "(string \<Rightarrow> 'w \<Rightarrow> bool) option \<Rightarrow> 'w suppression_checker" where
  "DefaultSuppressionChecker probe hostID w =
     (case probe of None \<Rightarrow> False | Some p \<Rightarrow> p hostID w)"

text \<open>The in-memory checker: a map from host to flag.\<close>

type_synonym fake_suppression = "string \<Rightarrow> bool option"

definition NewFakeSuppressionChecker :: fake_suppression where
  "NewFakeSuppressionChecker = Map.empty"

definition SetMaintenance :: "string \<Rightarrow> bool \<Rightarrow> fake_suppression \<Rightarrow> fake_suppression" where
  "SetMaintenance hostID b hosts = hosts(hostID \<mapsto> b)"

definition Fake_IsInMaintenance :: "fake_suppression \<Rightarrow> 'w suppression_checker" where
  "Fake_IsInMaintenance hosts hostID w = (case hosts hostID of Some b \<Rightarrow> b | None \<Rightarrow> False)"

text \<open>
  A dispatcher acts on the world and may fail. The log dispatcher hands a line to the logger; the
  fake one records the pair; the four external ones do nothing yet.
\<close>

type_synonym 'w dispatcher = "alert \<Rightarrow> channel \<Rightarrow> 'w \<Rightarrow> go_error option \<times> 'w"

definition LogDispatcher_Dispatch ::
    "((string \<times> string) list \<Rightarrow> 'w \<Rightarrow> 'w) \<Rightarrow> 'w dispatcher" where
  "LogDispatcher_Dispatch info a c w =
     (None, info [(''alert'', al_Name a), (''alert_id'', al_ID a), (''severity'', al_Severity a),
                  (''channel'', ch_Type c), (''channel_id'', ch_ID c),
                  (''suppressed'', if al_Suppressed a then ''true'' else ''false'')] w)"

definition FakeDispatcher_Dispatch :: "(alert \<times> channel) list dispatcher" where
  "FakeDispatcher_Dispatch a c calls = (None, calls @ [(a, c)])"

definition Stub_Dispatch :: "'w dispatcher" where
  "Stub_Dispatch a c w = (None, w)"

text \<open>
  The world of the service: the three tables, the environment (clock, identifiers, the host database,
  the audit emitter, the channels' endpoints), and the history of the calls of the dispatcher.
\<close>

record ('a, 'c, 'u, 'w) alert_world =
  av_alerts :: 'a
  av_channels :: 'c
  av_rules :: 'u
  av_env :: 'w
  av_calls :: "(alert \<times> channel) list"

record ('a, 'c, 'u, 's, 'w) alert_service =
  at_alerts :: "('a, alert) gorm"
  at_channels :: "('c, channel) gorm"
  at_rules :: "('u, alert_rule) gorm"
  at_dispatcher :: "'w dispatcher"
  at_suppression :: "'w suppression_checker option"
  at_audit :: "('s, 'w) audit_service option"
  at_now :: "'w \<Rightarrow> time \<times> 'w"
  at_newID :: "'w \<Rightarrow> string \<times> 'w"

text \<open>The defaults of the constructor for the nil dependencies.\<close>

definition NewAlertService ::
    "('a, alert) gorm \<Rightarrow> ('c, channel) gorm \<Rightarrow> ('u, alert_rule) gorm \<Rightarrow> 'w dispatcher option
     \<Rightarrow> 'w suppression_checker option \<Rightarrow> ('s, 'w) audit_service option \<Rightarrow> ('w \<Rightarrow> time \<times> 'w) option
     \<Rightarrow> ((string \<times> string) list \<Rightarrow> 'w \<Rightarrow> 'w) \<Rightarrow> ('w \<Rightarrow> time \<times> 'w) \<Rightarrow> ('w \<Rightarrow> string \<times> 'w)
     \<Rightarrow> ('a, 'c, 'u, 's, 'w) alert_service" where
  "NewAlertService ga gc gu disp supp aud cfgNow info wallClock newID =
     \<lparr>at_alerts = ga, at_channels = gc, at_rules = gu,
      at_dispatcher = (case disp of None \<Rightarrow> LogDispatcher_Dispatch info | Some d \<Rightarrow> d),
      at_suppression = Some (case supp of None \<Rightarrow> Fake_IsInMaintenance NewFakeSuppressionChecker | Some c \<Rightarrow> c),
      at_audit = aud, at_now = (case cfgNow of None \<Rightarrow> wallClock | Some f \<Rightarrow> f), at_newID = newID\<rparr>"

text \<open>The synthetic channel of the audit trail.\<close>

definition log_channel :: channel where
  "log_channel = \<lparr>ch_ID = '''', ch_Type = ChannelTypeLog, ch_Config = Some [], ch_Enabled = True\<rparr>"

text \<open>A call of the dispatcher; an error is only logged.\<close>

definition dispatch_one ::
    "('a, 'c, 'u, 's, 'w) alert_service \<Rightarrow> alert \<Rightarrow> channel \<Rightarrow> ('a, 'c, 'u, 'w) alert_world
     \<Rightarrow> ('a, 'c, 'u, 'w) alert_world" where
  "dispatch_one s a c w =
     w\<lparr>av_env := snd (at_dispatcher s a c (av_env w)), av_calls := av_calls w @ [(a, c)]\<rparr>"

fun dispatch_loop ::
    "('a, 'c, 'u, 's, 'w) alert_service \<Rightarrow> bool \<Rightarrow> alert \<Rightarrow> string list
     \<Rightarrow> ('a, 'c, 'u, 'w) alert_world \<Rightarrow> ('a, 'c, 'u, 'w) alert_world" where
  "dispatch_loop s suppress a [] w = w"
| "dispatch_loop s suppress a (k # ks) w =
     (case GetChannel_repo (at_channels s) (av_channels w) k of
        Inl _ \<Rightarrow> dispatch_loop s suppress a ks w
      | Inr c \<Rightarrow>
          if \<not> ch_Enabled c then dispatch_loop s suppress a ks w
          else if suppress \<and> IsExternal (ch_Type c) then dispatch_loop s suppress a ks w
          else dispatch_loop s suppress a ks (dispatch_one s a c w))"

definition host_suppressed :: "('a, 'c, 'u, 's, 'w) alert_service \<Rightarrow> alert \<Rightarrow> 'w \<Rightarrow> bool" where
  "host_suppressed s a env \<longleftrightarrow>
     al_SourceType a = SourceTypePhysicalHost \<and>
     (case at_suppression s of None \<Rightarrow> False | Some inMaint \<Rightarrow> inMaint (al_SourceID a) env)"

abbreviation suppressed_reason :: string where "suppressed_reason \<equiv> ''host_in_maintenance''"

definition mark_alert :: "alert \<Rightarrow> alert" where
  "mark_alert a = a\<lparr>al_Suppressed := True, al_SuppressionReason := suppressed_reason\<rparr>"

text \<open>The write of the suppression flag; its error is dropped.\<close>

definition stamp_suppressed ::
    "('a, 'c, 'u, 's, 'w) alert_service \<Rightarrow> string \<Rightarrow> ('a, 'c, 'u, 'w) alert_world
     \<Rightarrow> ('a, 'c, 'u, 'w) alert_world" where
  "stamp_suppressed s k w =
     (case UpdateAlert (at_alerts s) (av_alerts w) k
             [SetSuppressed True, SetSuppressionReason suppressed_reason] of
        Inl _ \<Rightarrow> w
      | Inr db \<Rightarrow> w\<lparr>av_alerts := db\<rparr>)"

definition dispatchChannels ::
    "('a, 'c, 'u, 's, 'w) alert_service \<Rightarrow> alert \<Rightarrow> string list \<Rightarrow> ('a, 'c, 'u, 'w) alert_world
     \<Rightarrow> alert \<times> ('a, 'c, 'u, 'w) alert_world" where
  "dispatchChannels s a channelIDs w =
     (let suppress = host_suppressed s a (av_env w);
          a' = (if suppress then mark_alert a else a);
          w = (if suppress then stamp_suppressed s (al_ID a) w else w);
          w = dispatch_one s a' log_channel w
      in (a', dispatch_loop s suppress a' channelIDs w))"

subsection \<open>The operations\<close>

definition alert_audit ::
    "('a, 'c, 'u, 's, 'w) alert_service \<Rightarrow> record_action_input \<Rightarrow> ('a, 'c, 'u, 'w) alert_world
     \<Rightarrow> ('a, 'c, 'u, 'w) alert_world" where
  "alert_audit s inp w = w\<lparr>av_env := RecordAction (at_audit s) inp (av_env w)\<rparr>"

definition alert_action :: "string \<Rightarrow> string \<Rightarrow> string \<Rightarrow> json_map \<Rightarrow> record_action_input" where
  "alert_action action k actor md =
     \<lparr>ra_Action = action, ra_ResourceType = ''alert'', ra_ResourceID = k, ra_ActorID = actor,
      ra_ActorName = '''', ra_Metadata = md, ra_IPAddress = '''', ra_UserAgent = ''''\<rparr>"

record create_alert_input =
  ca_Name :: string
  ca_Severity :: severity
  ca_SourceType :: source_type
  ca_SourceID :: string
  ca_Labels :: json_map
  ca_ChannelIDs :: "string list"
  ca_Message :: string

definition alert_not_found :: "string \<Rightarrow> go_error" where
  "alert_not_found k = APIError CodeNotFound (''alert '' @ k @ '' not found'') None"

definition validate_alert :: "create_alert_input \<Rightarrow> go_error option" where
  "validate_alert inp =
     (if TrimSpace (ca_Name inp) = '''' then Some (invalid ''name is required'')
      else if \<not> Severity_Valid (ca_Severity inp) then
        Some (invalid ''severity is not one of info / warning / critical'')
      else if \<not> SourceType_Valid (ca_SourceType inp) then
        Some (invalid ''source_type is not one of physical_host / k8s / pipeline / custom'')
      else if TrimSpace (ca_SourceID inp) = '''' then Some (invalid ''source_id is required'')
      else None)"

definition new_alert :: "create_alert_input \<Rightarrow> time \<Rightarrow> alert" where
  "new_alert inp now =
     \<lparr>al_ID = '''', al_Name = TrimSpace (ca_Name inp), al_Severity = ca_Severity inp,
      al_State = StateFiring, al_SourceType = ca_SourceType inp, al_SourceID = ca_SourceID inp,
      al_Labels = ca_Labels inp, al_FiredAt = now, al_ResolvedAt = None, al_AcknowledgedBy = None,
      al_AcknowledgedAt = None, al_Suppressed = False, al_SuppressionReason = ''''\<rparr>"

definition create_metadata :: "alert \<Rightarrow> json_map" where
  "create_metadata a =
     Some [(''name'', JString (al_Name a)), (''severity'', JString (al_Severity a)),
           (''source_type'', JString (al_SourceType a)), (''source_id'', JString (al_SourceID a))]"

definition CreateAlert ::
    "('a, 'c, 'u, 's, 'w) alert_service \<Rightarrow> create_alert_input \<Rightarrow> ('a, 'c, 'u, 'w) alert_world
     \<Rightarrow> alert result \<times> ('a, 'c, 'u, 'w) alert_world" where
  "CreateAlert s inp w =
     (case validate_alert inp of
        Some err \<Rightarrow> (Inl err, w)
      | None \<Rightarrow>
          (case at_now s (av_env w) of
             (now, env) \<Rightarrow>
               (case at_newID s env of
                  (k, env) \<Rightarrow>
                    let w = w\<lparr>av_env := env\<rparr>
                    in (case CreateAlert_repo (at_alerts s) k (av_alerts w) (new_alert inp now) of
                          (Inl err, _) \<Rightarrow>
                            (Inl (APIError CodeInternal ''failed to create alert'' (Some err)), w)
                        | (Inr db, a) \<Rightarrow>
                            (case dispatchChannels s a (ca_ChannelIDs inp) (w\<lparr>av_alerts := db\<rparr>) of
                               (a, w) \<Rightarrow>
                                 (Inr a, alert_audit s
                                    (alert_action ''create'' (al_ID a) '''' (create_metadata a)) w))))))"

text \<open>\<open>Fire\<close> hands its fields on; the two input types have the same fields.\<close>

definition Fire ::
    "('a, 'c, 'u, 's, 'w) alert_service \<Rightarrow> create_alert_input \<Rightarrow> ('a, 'c, 'u, 'w) alert_world
     \<Rightarrow> alert result \<times> ('a, 'c, 'u, 'w) alert_world" where
  "Fire s inp w = CreateAlert s inp w"

text \<open>The reads, with the error mapping of the writes.\<close>

definition alert_error :: "string \<Rightarrow> string \<Rightarrow> go_error \<Rightarrow> go_error" where
  "alert_error k m err =
     (if errors_Is err ErrAlertNotFound then alert_not_found k else APIError CodeInternal m (Some err))"

definition GetAlert ::
    "('a, 'c, 'u, 's, 'w) alert_service \<Rightarrow> ('a, 'c, 'u, 'w) alert_world \<Rightarrow> string \<Rightarrow> alert result" where
  "GetAlert s w k =
     (case GetAlert_repo (at_alerts s) (av_alerts w) k of
        Inl err \<Rightarrow> Inl (alert_error k ''failed to load alert'' err)
      | Inr a \<Rightarrow> Inr a)"

abbreviation ErrAlertUnauthenticated :: go_error where
  "ErrAlertUnauthenticated \<equiv> Sentinel ''alerts: unauthenticated''"
abbreviation ErrAlertForbidden :: go_error where
  "ErrAlertForbidden \<equiv> Sentinel ''alerts: forbidden''"

definition require_super_admin :: "ctx \<Rightarrow> go_error option" where
  "require_super_admin c =
     (case FromContext c of
        (Some cl, True) \<Rightarrow>
          if cl_User cl = None then Some ErrAlertUnauthenticated
          else if IsSuperAdmin (Some cl) then None
          else Some ErrAlertForbidden
      | _ \<Rightarrow> Some ErrAlertUnauthenticated)"

definition GetAlertWithCaller ::
    "('a, 'c, 'u, 's, 'w) alert_service \<Rightarrow> ctx \<Rightarrow> ('a, 'c, 'u, 'w) alert_world \<Rightarrow> string
     \<Rightarrow> alert result" where
  "GetAlertWithCaller s c w k =
     (case require_super_admin c of Some err \<Rightarrow> Inl err | None \<Rightarrow> GetAlert s w k)"

definition Alert_List ::
    "('a, 'c, 'u, 's, 'w) alert_service \<Rightarrow> ('a, 'c, 'u, 'w) alert_world \<Rightarrow> alert_filter
     \<Rightarrow> (alert list \<times> nat) result" where
  "Alert_List s w f =
     (case ListAlerts (at_alerts s) (av_alerts w) f of
        Inl err \<Rightarrow> Inl (APIError CodeInternal ''failed to list alerts'' (Some err))
      | Inr page \<Rightarrow> Inr page)"

definition Alert_ListWithCaller ::
    "('a, 'c, 'u, 's, 'w) alert_service \<Rightarrow> ctx \<Rightarrow> ('a, 'c, 'u, 'w) alert_world \<Rightarrow> alert_filter
     \<Rightarrow> (alert list \<times> nat) result" where
  "Alert_ListWithCaller s c w f =
     (case require_super_admin c of Some err \<Rightarrow> Inl err | None \<Rightarrow> Alert_List s w f)"

text \<open>The existence check, the patch, the audit record and the re-read of \<open>Acknowledge\<close> and \<open>Resolve\<close>.\<close>

definition patch_alert ::
    "('a, 'c, 'u, 's, 'w) alert_service \<Rightarrow> string \<Rightarrow> alert_col list \<Rightarrow> string \<Rightarrow> record_action_input
     \<Rightarrow> ('a, 'c, 'u, 'w) alert_world \<Rightarrow> alert result \<times> ('a, 'c, 'u, 'w) alert_world" where
  "patch_alert s k patch m action w =
     (case UpdateAlert (at_alerts s) (av_alerts w) k patch of
        Inl err \<Rightarrow> (Inl (alert_error k m err), w)
      | Inr db \<Rightarrow>
          (let w = alert_audit s action (w\<lparr>av_alerts := db\<rparr>)
           in (GetAlert s w k, w)))"

definition Acknowledge ::
    "('a, 'c, 'u, 's, 'w) alert_service \<Rightarrow> string \<Rightarrow> string \<Rightarrow> ('a, 'c, 'u, 'w) alert_world
     \<Rightarrow> alert result \<times> ('a, 'c, 'u, 'w) alert_world" where
  "Acknowledge s k userID w =
     (case GetAlert s w k of
        Inl err \<Rightarrow> (Inl err, w)
      | Inr _ \<Rightarrow>
          (case at_now s (av_env w) of
             (now, env) \<Rightarrow>
               patch_alert s k [SetState StateAcknowledged, SetAcknowledgedBy userID, SetAcknowledgedAt now]
                 ''failed to acknowledge alert'' (alert_action ''acknowledge'' k userID None)
                 (w\<lparr>av_env := env\<rparr>)))"

definition Resolve ::
    "('a, 'c, 'u, 's, 'w) alert_service \<Rightarrow> string \<Rightarrow> ('a, 'c, 'u, 'w) alert_world
     \<Rightarrow> alert result \<times> ('a, 'c, 'u, 'w) alert_world" where
  "Resolve s k w =
     (case GetAlert s w k of
        Inl err \<Rightarrow> (Inl err, w)
      | Inr _ \<Rightarrow>
          (case at_now s (av_env w) of
             (now, env) \<Rightarrow>
               patch_alert s k [SetState StateResolved, SetResolvedAt now]
                 ''failed to resolve alert'' (alert_action ''resolve'' k '''' None) (w\<lparr>av_env := env\<rparr>)))"

definition MarkSuppressed ::
    "('a, 'c, 'u, 's, 'w) alert_service \<Rightarrow> string \<Rightarrow> string \<Rightarrow> ('a, 'c, 'u, 'w) alert_world
     \<Rightarrow> alert result \<times> ('a, 'c, 'u, 'w) alert_world" where
  "MarkSuppressed s k reason w =
     (case UpdateAlert (at_alerts s) (av_alerts w) k [SetSuppressed True, SetSuppressionReason reason] of
        Inl err \<Rightarrow> (Inl (alert_error k ''failed to mark alert as suppressed'' err), w)
      | Inr db \<Rightarrow> (let w = w\<lparr>av_alerts := db\<rparr> in (GetAlert s w k, w)))"

text \<open>Operations that only return an error return the unit value on success.\<close>

definition Alert_Delete ::
    "('a, 'c, 'u, 's, 'w) alert_service \<Rightarrow> string \<Rightarrow> ('a, 'c, 'u, 'w) alert_world
     \<Rightarrow> unit result \<times> ('a, 'c, 'u, 'w) alert_world" where
  "Alert_Delete s k w =
     (case DeleteAlert_repo (at_alerts s) (av_alerts w) k of
        Inl err \<Rightarrow> (Inl (alert_error k ''failed to delete alert'' err), w)
      | Inr db \<Rightarrow> (Inr (), alert_audit s (alert_action ''delete'' k '''' None) (w\<lparr>av_alerts := db\<rparr>)))"

text \<open>The aggregate view; a map counts by key, and a key that never occurs is absent.\<close>

record alert_stats =
  ss_Total :: nat
  ss_BySeverity :: "string \<Rightarrow> nat option"
  ss_BySourceType :: "string \<Rightarrow> nat option"
  ss_SuppressedCount :: nat
  ss_SuppressedByHost :: "string \<Rightarrow> nat option"

definition incr :: "(string \<Rightarrow> nat option) \<Rightarrow> string \<Rightarrow> string \<Rightarrow> nat option" where
  "incr m k = m(k \<mapsto> (case m k of None \<Rightarrow> 1 | Some n \<Rightarrow> Suc n))"

definition count_alert :: "alert \<Rightarrow> alert_stats \<Rightarrow> alert_stats" where
  "count_alert a st =
     (let st = st\<lparr>ss_BySeverity := incr (ss_BySeverity st) (al_Severity a),
                  ss_BySourceType := incr (ss_BySourceType st) (al_SourceType a)\<rparr>
      in if al_Suppressed a
         then st\<lparr>ss_SuppressedCount := Suc (ss_SuppressedCount st),
                 ss_SuppressedByHost := incr (ss_SuppressedByHost st) (al_SourceID a)\<rparr>
         else st)"

definition Alert_Stats ::
    "('a, 'c, 'u, 's, 'w) alert_service \<Rightarrow> ('a, 'c, 'u, 'w) alert_world \<Rightarrow> alert_stats result" where
  "Alert_Stats s w =
     (case ListAlerts (at_alerts s) (av_alerts w) empty_alert_filter of
        Inl err \<Rightarrow> Inl (APIError CodeInternal ''failed to load alerts for stats'' (Some err))
      | Inr (rows, _) \<Rightarrow>
          Inr (fold count_alert rows
            \<lparr>ss_Total = length rows, ss_BySeverity = Map.empty, ss_BySourceType = Map.empty,
             ss_SuppressedCount = 0, ss_SuppressedByHost = Map.empty\<rparr>))"

subsection \<open>Channels\<close>

record create_channel_input =
  cc_Type :: channel_type
  cc_Config :: json_map
  cc_Enabled :: bool

record update_channel_input =
  uc_Type :: "channel_type option"
  uc_Config :: json_map
  uc_Enabled :: "bool option"

definition bad_channel_type :: go_error where
  "bad_channel_type = invalid ''type is not a recognised channel type''"

definition channel_error :: "string \<Rightarrow> string \<Rightarrow> go_error \<Rightarrow> go_error" where
  "channel_error k m err =
     (if errors_Is err ErrAlertNotFound
      then APIError CodeNotFound (''channel '' @ k @ '' not found'') None
      else APIError CodeInternal m (Some err))"

definition CreateChannel ::
    "('a, 'c, 'u, 's, 'w) alert_service \<Rightarrow> create_channel_input \<Rightarrow> ('a, 'c, 'u, 'w) alert_world
     \<Rightarrow> channel result \<times> ('a, 'c, 'u, 'w) alert_world" where
  "CreateChannel s inp w =
     (if \<not> ChannelType_Valid (cc_Type inp) then (Inl bad_channel_type, w)
      else
        (case at_newID s (av_env w) of
           (k, env) \<Rightarrow>
             let w = w\<lparr>av_env := env\<rparr>
             in (case CreateChannel_repo (at_channels s) k (av_channels w)
                        \<lparr>ch_ID = '''', ch_Type = cc_Type inp, ch_Config = cc_Config inp,
                         ch_Enabled = cc_Enabled inp\<rparr> of
                   (Inl err, _) \<Rightarrow>
                     (Inl (APIError CodeInternal ''failed to create channel'' (Some err)), w)
                 | (Inr db, c) \<Rightarrow>
                     (Inr c, alert_audit s
                        (alert_action ''create'' (ch_ID c) ''''
                           (Some [(''kind'', JString ''channel''), (''type'', JString (ch_Type c))]))
                        (w\<lparr>av_channels := db\<rparr>)))))"

definition GetChannel ::
    "('a, 'c, 'u, 's, 'w) alert_service \<Rightarrow> ('a, 'c, 'u, 'w) alert_world \<Rightarrow> string \<Rightarrow> channel result" where
  "GetChannel s w k =
     (case GetChannel_repo (at_channels s) (av_channels w) k of
        Inl err \<Rightarrow> Inl (channel_error k ''failed to load channel'' err)
      | Inr c \<Rightarrow> Inr c)"

definition ListChannels ::
    "('a, 'c, 'u, 's, 'w) alert_service \<Rightarrow> ('a, 'c, 'u, 'w) alert_world \<Rightarrow> channel list result" where
  "ListChannels s w =
     (case ListChannels_repo (at_channels s) (av_channels w) of
        Inl err \<Rightarrow> Inl (APIError CodeInternal ''failed to list channels'' (Some err))
      | Inr rows \<Rightarrow> Inr rows)"

definition channel_patch :: "update_channel_input \<Rightarrow> channel_col list" where
  "channel_patch inp =
     (case uc_Type inp of None \<Rightarrow> [] | Some t \<Rightarrow> [SetType t]) @
     (case uc_Config inp of None \<Rightarrow> [] | Some kvs \<Rightarrow> [SetConfig (Some kvs)]) @
     (case uc_Enabled inp of None \<Rightarrow> [] | Some b \<Rightarrow> [SetEnabled b])"

definition kind_channel :: json_map where
  "kind_channel = Some [(''kind'', JString ''channel'')]"

definition UpdateChannel ::
    "('a, 'c, 'u, 's, 'w) alert_service \<Rightarrow> string \<Rightarrow> update_channel_input
     \<Rightarrow> ('a, 'c, 'u, 'w) alert_world \<Rightarrow> unit result \<times> ('a, 'c, 'u, 'w) alert_world" where
  "UpdateChannel s k inp w =
     (case GetChannel s w k of
        Inl err \<Rightarrow> (Inl err, w)
      | Inr _ \<Rightarrow>
          if (case uc_Type inp of None \<Rightarrow> False | Some t \<Rightarrow> \<not> ChannelType_Valid t)
          then (Inl bad_channel_type, w)
          else if channel_patch inp = [] then (Inl empty_patch, w)
          else
            (case UpdateChannel_repo (at_channels s) (av_channels w) k (channel_patch inp) of
               Inl err \<Rightarrow> (Inl (channel_error k ''failed to update channel'' err), w)
             | Inr db \<Rightarrow>
                 (Inr (), alert_audit s (alert_action ''update'' k '''' kind_channel)
                    (w\<lparr>av_channels := db\<rparr>))))"

definition DeleteChannel ::
    "('a, 'c, 'u, 's, 'w) alert_service \<Rightarrow> string \<Rightarrow> ('a, 'c, 'u, 'w) alert_world
     \<Rightarrow> unit result \<times> ('a, 'c, 'u, 'w) alert_world" where
  "DeleteChannel s k w =
     (case DeleteChannel_repo (at_channels s) (av_channels w) k of
        Inl err \<Rightarrow> (Inl (channel_error k ''failed to delete channel'' err), w)
      | Inr db \<Rightarrow>
          (Inr (), alert_audit s (alert_action ''delete'' k '''' kind_channel) (w\<lparr>av_channels := db\<rparr>)))"

end
