(* ===== verification/Alert_Facts.thy ===== *)
theory Alert_Facts
  imports Alert_Service
begin

text \<open>
  What the alert service does, on every database that behaves as documented (locale \<open>alert_tables\<close>): the
  channels a fired alert reaches, the meeting of the dispatch with the maintenance state of the
  physical hosts (locale \<open>maintenance_probe\<close>, provided by \<open>IsInMaintenance\<close>), the invariant of the stored
  alerts over all sequences of requests, and the state changes the code allows.
\<close>

subsection \<open>The tables\<close>

locale alert_tables =
  fixes s :: "('a, 'c, 'u, 's, 'w) alert_service"
    and als :: "'a \<Rightarrow> string \<Rightarrow> alert option"
    and chs :: "'c \<Rightarrow> string \<Rightarrow> channel option"
  assumes als_table: "gorm_table (at_alerts s) al_ID als"
    and chs_table: "gorm_table (at_channels s) ch_ID chs"

sublocale alert_tables \<subseteq> A: gorm_repo "at_alerts s" al_ID als ErrAlertNotFound "\<lambda>m. ''alerts.'' @ m @ ''Alert: ''"
  using als_table by (intro gorm_repo.intro gorm_repo_axioms.intro) simp_all

sublocale alert_tables \<subseteq> C: gorm_repo "at_channels s" ch_ID chs ErrAlertNotFound "\<lambda>m. ''alerts.'' @ m @ ''Channel: ''"
  using chs_table by (intro gorm_repo.intro gorm_repo_axioms.intro) simp_all

lemma set_alert_col_ID [simp]: "al_ID (set_alert_col c a) = al_ID a"
  by (cases c) simp_all

lemma fold_alert_cols_ID [simp]: "al_ID (fold set_alert_col cs a) = al_ID a"
  by (induction cs arbitrary: a) simp_all

lemma alert_row_sel [simp]:
  "al_ID (alert_row a) = al_ID a" "al_Name (alert_row a) = al_Name a"
  "al_Severity (alert_row a) = al_Severity a" "al_State (alert_row a) = al_State a"
  "al_SourceType (alert_row a) = al_SourceType a" "al_SourceID (alert_row a) = al_SourceID a"
  "al_Suppressed (alert_row a) = al_Suppressed a" "al_Labels (alert_row a) = stored_map (al_Labels a)"
  "al_AcknowledgedBy (alert_row a) = al_AcknowledgedBy a"
  "al_AcknowledgedAt (alert_row a) = al_AcknowledgedAt a" "al_ResolvedAt (alert_row a) = al_ResolvedAt a"
  by (simp_all add: alert_row_def)

lemma mark_alert_sel [simp]:
  "al_ID (mark_alert a) = al_ID a" "al_Suppressed (mark_alert a)"
  "al_SuppressionReason (mark_alert a) = suppressed_reason"
  "al_SourceID (mark_alert a) = al_SourceID a" "al_SourceType (mark_alert a) = al_SourceType a"
  by (simp_all add: mark_alert_def)

subsection \<open>The channels a dispatch reaches\<close>

text \<open>The reference: the listed channels that exist, are enabled and are not held back.\<close>

definition reachable_channels ::
    "('c, channel) gorm \<Rightarrow> 'c \<Rightarrow> bool \<Rightarrow> string list \<Rightarrow> channel list" where
  "reachable_channels g db suppress ks =
     filter (\<lambda>c. ch_Enabled c \<and> \<not> (suppress \<and> IsExternal (ch_Type c)))
       (List.map_filter (\<lambda>k. case GetChannel_repo g db k of Inl _ \<Rightarrow> None | Inr c \<Rightarrow> Some c) ks)"

lemma dispatch_one_sel [simp]:
  "av_alerts (dispatch_one s a c w) = av_alerts w" "av_channels (dispatch_one s a c w) = av_channels w"
  "av_rules (dispatch_one s a c w) = av_rules w" "av_calls (dispatch_one s a c w) = av_calls w @ [(a, c)]"
  by (simp_all add: dispatch_one_def)

lemma dispatch_loop_calls:
  "av_calls (dispatch_loop s suppress a ks w)
     = av_calls w @ map (Pair a) (reachable_channels (at_channels s) (av_channels w) suppress ks)
   \<and> av_alerts (dispatch_loop s suppress a ks w) = av_alerts w
   \<and> av_channels (dispatch_loop s suppress a ks w) = av_channels w
   \<and> av_rules (dispatch_loop s suppress a ks w) = av_rules w"
proof (induction ks arbitrary: w)
  case (Cons k ks)
  then show ?case
    by (cases suppress; cases "GetChannel_repo (at_channels s) (av_channels w) k")
       (simp_all add: reachable_channels_def map_filter_simps)
qed (simp add: reachable_channels_def map_filter_simps)

lemma stamp_suppressed_sel [simp]:
  "av_channels (stamp_suppressed s k w) = av_channels w" "av_calls (stamp_suppressed s k w) = av_calls w"
  "av_rules (stamp_suppressed s k w) = av_rules w" "av_env (stamp_suppressed s k w) = av_env w"
  by (simp_all add: stamp_suppressed_def split: sum.splits)

lemma alert_audit_sel [simp]:
  "av_alerts (alert_audit s i w) = av_alerts w" "av_channels (alert_audit s i w) = av_channels w"
  "av_rules (alert_audit s i w) = av_rules w" "av_calls (alert_audit s i w) = av_calls w"
  by (simp_all add: alert_audit_def)

lemma dispatchChannels_calls:
  assumes "dispatchChannels s a ks w = (a', w')"
  shows "a' = (if host_suppressed s a (av_env w) then mark_alert a else a)"
    and "av_calls w' = av_calls w @ (a', log_channel)
      # map (Pair a') (reachable_channels (at_channels s) (av_channels w) (host_suppressed s a (av_env w)) ks)"
    and "av_alerts w' = (if host_suppressed s a (av_env w) then av_alerts (stamp_suppressed s (al_ID a) w)
      else av_alerts w)"
    and "av_channels w' = av_channels w" "av_rules w' = av_rules w"
  using assms by (auto simp: dispatchChannels_def Let_def dispatch_loop_calls)

text \<open>What \<open>CreateAlert\<close> does when it succeeds: the row it inserts, then the dispatch.\<close>

lemma CreateAlert_success:
  assumes "CreateAlert s inp w = (Inr a, w')"
  obtains now env1 k env2 db wd where
    "validate_alert inp = None" "at_now s (av_env w) = (now, env1)" "at_newID s env1 = (k, env2)"
    "repo_Create (at_alerts s) ''alerts.CreateAlert: '' (av_alerts w)
       (alert_row ((new_alert inp now)\<lparr>al_ID := k\<rparr>)) = Inr db"
    "dispatchChannels s ((new_alert inp now)\<lparr>al_ID := k\<rparr>) (ca_ChannelIDs inp)
       (w\<lparr>av_env := env2, av_alerts := db\<rparr>) = (a, wd)"
    "w' = alert_audit s (alert_action ''create'' (al_ID a) '''' (create_metadata a)) wd"
  using assms that
  by (auto simp: CreateAlert_def CreateAlert_repo_def BaseModel_BeforeCreate_def new_alert_def Let_def
    split: option.splits prod.splits sum.splits)

subsection \<open>Alerts of hosts in maintenance\<close>

text \<open>
  The interface of the maintenance probe: it is true only of hosts in maintenance, and tells the
  truth about a host whose row can be read.
\<close>

locale maintenance_probe =
  fixes in_maint :: "string \<Rightarrow> 'w \<Rightarrow> bool"
    and hosts :: "'w \<Rightarrow> string \<Rightarrow> physical_host option"
    and readable :: "'w \<Rightarrow> string \<Rightarrow> bool"
  assumes probe_sound: "in_maint h e \<Longrightarrow> \<exists>p. hosts e h = Some p \<and> InMaintenance p"
    and probe_complete: "hosts e h = Some p \<Longrightarrow> readable e h \<Longrightarrow> InMaintenance p \<Longrightarrow> in_maint h e"
begin

text \<open>Errors fail open: an alert is held back only for a host that is in maintenance.\<close>

lemma suppressed_only_in_maintenance:
  assumes "at_suppression s = Some (DefaultSuppressionChecker (Some in_maint))" "host_suppressed s a e"
  shows "al_SourceType a = SourceTypePhysicalHost \<and> (\<exists>p. hosts e (al_SourceID a) = Some p \<and> InMaintenance p)"
  using assms by (auto simp: host_suppressed_def DefaultSuppressionChecker_def dest: probe_sound)

lemma suppressed_iff:
  assumes "at_suppression s = Some (DefaultSuppressionChecker (Some in_maint))"
    and "al_SourceType a = SourceTypePhysicalHost" "hosts e (al_SourceID a) = Some p" "readable e (al_SourceID a)"
  shows "host_suppressed s a e \<longleftrightarrow> InMaintenance p"
  using assms by (auto simp: host_suppressed_def DefaultSuppressionChecker_def
    dest: probe_sound intro: probe_complete)

end

text \<open>\<open>IsInMaintenance\<close> of the maintenance service provides it on every hosts' table.\<close>

lemma IsInMaintenance_probe:
  assumes "gorm_table (mt_repo mt) ph_ID rows"
  shows "maintenance_probe (\<lambda>h e. IsInMaintenance mt (hdb e) h) (\<lambda>e. rows (hdb e))
    (\<lambda>e h. \<forall>m. db_First (mt_repo mt) (hdb e) h \<noteq> Inl (External m))"
proof (unfold_locales, goal_cases)
  case (1 h e)
  then show ?case
    using gorm_table.First_found [OF assms, of "hdb e" h]
    by (auto simp: IsInMaintenance_def repo_Get_def split: sum.splits)
next
  case (2 e h p)
  then obtain q where "db_First (mt_repo mt) (hdb e) h = Inr q"
    using gorm_table.First_missing [OF assms, of "hdb e" h] gorm_table.First_error [OF assms, of "hdb e" h]
    by (cases "db_First (mt_repo mt) (hdb e) h") auto
  with 2 show ?case
    using gorm_table.First_found [OF assms, of "hdb e" h]
    by (auto simp: IsInMaintenance_def repo_Get_def)
qed

interpretation mem_probe: maintenance_probe
  "\<lambda>h e. IsInMaintenance \<lparr>mt_repo = mem_gorm ph_ID, mt_auditor = b, mt_now = now\<rparr> (hdb e) h"
  "\<lambda>e. mem_rows ph_ID (hdb e)" "\<lambda>e h. \<forall>m. db_First (mem_gorm ph_ID) (hdb e) h \<noteq> Inl (External m)"
  for b now hdb
  using IsInMaintenance_probe [of "\<lparr>mt_repo = mem_gorm ph_ID, mt_auditor = b, mt_now = now\<rparr>"
    "mem_rows ph_ID" hdb, unfolded maintenance_service.simps, OF mem.gorm_table_axioms] .

text \<open>The row of a fired alert.\<close>

context alert_tables
begin

lemma UpdateAlert_row:
  "UpdateAlert (at_alerts s) db k cols = Inr db' \<Longrightarrow>
     \<exists>a. als db k = Some a \<and> als db' = (als db)(k \<mapsto> fold set_alert_col cols a)"
  by (auto simp: UpdateAlert_def split: if_splits dest!: A.Patch_row)

lemma stamp_suppressed_row:
  assumes "als (av_alerts w) k = Some a"
  shows "\<exists>r. als (av_alerts (stamp_suppressed s k w)) k = Some r \<and> (r = a \<or> r = mark_alert a)
    \<and> ((\<forall>f e. db_Updates (at_alerts s) (av_alerts w) k f \<noteq> Inl e) \<longrightarrow> r = mark_alert a)"
proof (cases "UpdateAlert (at_alerts s) (av_alerts w) k [SetSuppressed True, SetSuppressionReason suppressed_reason]")
  case (Inl e)
  have "\<exists>f e. db_Updates (at_alerts s) (av_alerts w) k f = Inl e"
  proof (rule ccontr)
    assume "\<not> ?thesis"
    then have "\<And>e. db_Updates (at_alerts s) (av_alerts w) k
        (fold set_alert_col [SetSuppressed True, SetSuppressionReason suppressed_reason]) \<noteq> Inl e" by blast
    from A.Patch_live [OF assms fold_alert_cols_ID this, of "''alerts.UpdateAlert: ''"] Inl show False
      by (auto simp: UpdateAlert_def)
  qed
  with Inl assms show ?thesis by (auto simp: stamp_suppressed_def)
next
  case (Inr db)
  from UpdateAlert_row [OF this] assms Inr show ?thesis
    by (auto simp: stamp_suppressed_def mark_alert_def)
qed

lemma created_row:
  assumes "CreateAlert s inp w = (Inr a, w')"
  shows "\<exists>env db. env = snd (at_newID s (snd (at_now s (av_env w))))
    \<and> al_SourceID a = ca_SourceID inp \<and> al_SourceType a = ca_SourceType inp
    \<and> al_Suppressed a = host_suppressed s a env
    \<and> (al_Suppressed a \<longrightarrow> al_SuppressionReason a = suppressed_reason)
    \<and> av_calls w' = av_calls w @ (a, log_channel)
        # map (Pair a) (reachable_channels (at_channels s) (av_channels w) (al_Suppressed a) (ca_ChannelIDs inp))
    \<and> (\<exists>r. als (av_alerts w') (al_ID a) = Some r \<and> (al_Suppressed r \<longrightarrow> al_Suppressed a)
        \<and> ((\<forall>f e. db_Updates (at_alerts s) db (al_ID a) f \<noteq> Inl e) \<longrightarrow> al_Suppressed r = al_Suppressed a))"
proof -
  obtain now env1 k env2 db wd where n: "at_now s (av_env w) = (now, env1)" "at_newID s env1 = (k, env2)"
    and c: "repo_Create (at_alerts s) ''alerts.CreateAlert: '' (av_alerts w)
       (alert_row ((new_alert inp now)\<lparr>al_ID := k\<rparr>)) = Inr db"
    "dispatchChannels s ((new_alert inp now)\<lparr>al_ID := k\<rparr>) (ca_ChannelIDs inp)
       (w\<lparr>av_env := env2, av_alerts := db\<rparr>) = (a, wd)"
    "w' = alert_audit s (alert_action ''create'' (al_ID a) '''' (create_metadata a)) wd"
    using assms by (rule CreateAlert_success) blast
  let ?a = "(new_alert inp now)\<lparr>al_ID := k\<rparr>" and ?w = "w\<lparr>av_env := env2, av_alerts := db\<rparr>"
  have new: "\<not> al_Suppressed ?a" "al_SourceID ?a = ca_SourceID inp" "al_SourceType ?a = ca_SourceType inp"
    by (simp_all add: new_alert_def)
  have live: "als (av_alerts ?w) k = Some (alert_row ?a)" using A.Create_row [OF c(1)] by simp
  note d = dispatchChannels_calls [OF c(2)]
  from d(1) new have a: "al_ID a = k" "al_SourceID a = ca_SourceID inp" "al_SourceType a = ca_SourceType inp"
    "al_Suppressed a \<longleftrightarrow> host_suppressed s ?a env2" "al_Suppressed a \<longrightarrow> al_SuppressionReason a = suppressed_reason"
    by auto
  have h: "host_suppressed s a env2 = host_suppressed s ?a env2"
    unfolding host_suppressed_def a(2,3) new(2,3) ..
  have ne: "alert_row ?a \<noteq> mark_alert (alert_row ?a)"
    using new(1) by (metis alert_row_sel(7) mark_alert_sel(2))
  have r: "\<exists>r. als (av_alerts w') (al_ID a) = Some r \<and> (al_Suppressed r \<longrightarrow> al_Suppressed a)
        \<and> ((\<forall>f e. db_Updates (at_alerts s) db (al_ID a) f \<noteq> Inl e) \<longrightarrow> al_Suppressed r = al_Suppressed a)"
    using stamp_suppressed_row [OF live] live a d(3) c(3) new(1) ne by auto
  show ?thesis
    using n a h r d(2) c(3) by (intro exI [of _ env2] exI [of _ db]) simp
qed

end


text \<open>
  C1: the meeting of alerts and maintenance. Firing an alert about a physical host whose row can be
  read marks the alert as suppressed exactly when the host is in maintenance; the dispatcher is called
  once for the audit trail, then once for each listed channel that exists and is enabled, in the
  listed order, where a suppressed alert skips the external channels and reaches every other one; and
  the stored row carries the flag, unless the database refuses the write of the flag.
\<close>

theorem maintenance_suppresses_notifications:
  assumes tables: "alert_tables s als chs" "gorm_table (mt_repo mt) ph_ID hosts"
    and wired: "at_suppression s = Some (DefaultSuppressionChecker (Some (\<lambda>h e. IsInMaintenance mt (hdb e) h)))"
    and frame: "\<And>e. hdb (snd (at_now s e)) = hdb e" "\<And>e. hdb (snd (at_newID s e)) = hdb e"
    and host: "ca_SourceType inp = SourceTypePhysicalHost" "hosts (hdb (av_env w)) (ca_SourceID inp) = Some p"
      "\<And>m. db_First (mt_repo mt) (hdb (av_env w)) (ca_SourceID inp) \<noteq> Inl (External m)"
    and fire: "Fire s inp w = (Inr a, w')"
  shows "(al_Suppressed a \<longleftrightarrow> InMaintenance p)
    \<and> av_calls w' = av_calls w @ (a, log_channel) # map (Pair a)
        (filter (\<lambda>c. ch_Enabled c \<and> (InMaintenance p \<longrightarrow> \<not> IsExternal (ch_Type c)))
          (List.map_filter (\<lambda>k. case GetChannel_repo (at_channels s) (av_channels w) k of
             Inl _ \<Rightarrow> None | Inr c \<Rightarrow> Some c) (ca_ChannelIDs inp)))
    \<and> (\<exists>r. als (av_alerts w') (al_ID a) = Some r \<and> (al_Suppressed r \<longrightarrow> InMaintenance p)
        \<and> ((\<forall>db k f e. db_Updates (at_alerts s) db k f \<noteq> Inl e) \<longrightarrow> al_Suppressed r = InMaintenance p))"
proof -
  from alert_tables.created_row [OF tables(1) fire [unfolded Fire_def]] obtain env db where c:
    "env = snd (at_newID s (snd (at_now s (av_env w))))" "al_SourceID a = ca_SourceID inp"
    "al_SourceType a = ca_SourceType inp" "al_Suppressed a = host_suppressed s a env"
    "av_calls w' = av_calls w @ (a, log_channel)
        # map (Pair a) (reachable_channels (at_channels s) (av_channels w) (al_Suppressed a) (ca_ChannelIDs inp))"
    "\<exists>r. als (av_alerts w') (al_ID a) = Some r \<and> (al_Suppressed r \<longrightarrow> al_Suppressed a)
        \<and> ((\<forall>f e. db_Updates (at_alerts s) db (al_ID a) f \<noteq> Inl e) \<longrightarrow> al_Suppressed r = al_Suppressed a)"
    by blast
  have env: "hdb env = hdb (av_env w)" using c(1) frame by simp
  have supp: "al_Suppressed a \<longleftrightarrow> InMaintenance p"
    unfolding c(4)
    by (rule maintenance_probe.suppressed_iff [OF IsInMaintenance_probe [OF tables(2), of hdb] wired])
      (use host c(2,3) env in simp_all)
  show ?thesis
    using c(5,6) unfolding supp reachable_channels_def by auto
qed

text \<open>
  A service on in-memory tables. The environment is the hosts' table with a counter, which is the clock
  (in seconds) and the source of identifiers.
\<close>

type_synonym alert_env = "physical_host list \<times> nat"
type_synonym mem_alert_world = "(alert list, channel list, alert_rule list, alert_env) alert_world"

definition mem_maint :: "(physical_host list, alert_env) maintenance_service" where
  "mem_maint = \<lparr>mt_repo = mem_gorm ph_ID, mt_auditor = False, mt_now = Pair zero_time\<rparr>"

definition mem_alerts ::
    "(alert list, channel list, alert_rule list, audit_event list, alert_env) alert_service" where
  "mem_alerts =
     \<lparr>at_alerts = mem_gorm al_ID, at_channels = mem_gorm ch_ID, at_rules = mem_gorm ar_ID,
      at_dispatcher = Stub_Dispatch,
      at_suppression = Some (DefaultSuppressionChecker (Some (\<lambda>h e. IsInMaintenance mem_maint (fst e) h))),
      at_audit = None, at_now = (\<lambda>e. (Time (int (snd e) * Second), e)),
      at_newID = (\<lambda>e. (replicate (Suc (snd e)) CHR ''a'', (fst e, Suc (snd e))))\<rparr>"

lemma mem_alerts_sel [simp]:
  "at_alerts mem_alerts = mem_gorm al_ID" "at_channels mem_alerts = mem_gorm ch_ID"
  "at_dispatcher mem_alerts = Stub_Dispatch" "at_audit mem_alerts = None"
  "at_suppression mem_alerts = Some (DefaultSuppressionChecker (Some (\<lambda>h e. IsInMaintenance mem_maint (fst e) h)))"
  "at_now mem_alerts e = (Time (int (snd e) * Second), e)"
  "at_newID mem_alerts e = (replicate (Suc (snd e)) CHR ''a'', (fst e, Suc (snd e)))"
  "mt_repo mem_maint = mem_gorm ph_ID"
  by (simp_all add: mem_alerts_def mem_maint_def)

interpretation mem_alerts: alert_tables mem_alerts "mem_rows al_ID" "mem_rows ch_ID"
  by (rule alert_tables.intro; simp only: mem_alerts_sel mem.gorm_table_axioms)

definition demo_channel :: "string \<Rightarrow> channel_type \<Rightarrow> channel" where
  "demo_channel k t = \<lparr>ch_ID = k, ch_Type = t, ch_Config = Some [], ch_Enabled = True\<rparr>"

lemma demo_channel_sel [simp]:
  "ch_ID (demo_channel k t) = k" "ch_Type (demo_channel k t) = t" "ch_Enabled (demo_channel k t)"
  by (simp_all add: demo_channel_def)

definition host_down :: physical_host where
  "host_down = sample_host\<lparr>ph_ID := ''h1'', ph_MaintenanceStartedAt := Some zero_time\<rparr>"

definition demo_alerts :: mem_alert_world where
  "demo_alerts =
     \<lparr>av_alerts = [], av_channels = [demo_channel ''c1'' ''slack'', demo_channel ''c2'' ''log''],
      av_rules = [], av_env = ([host_down], 0), av_calls = []\<rparr>"

definition demo_fire :: create_alert_input where
  "demo_fire =
     \<lparr>ca_Name = ''disk'', ca_Severity = ''critical'', ca_SourceType = SourceTypePhysicalHost,
      ca_SourceID = ''h1'', ca_Labels = None, ca_ChannelIDs = [''c1'', ''c2'', ''c3''], ca_Message = ''''\<rparr>"

lemma demo_sel [simp]:
  "av_alerts demo_alerts = []" "av_calls demo_alerts = []" "av_env demo_alerts = ([host_down], 0)"
  "av_channels demo_alerts = [demo_channel ''c1'' ''slack'', demo_channel ''c2'' ''log'']"
  "ca_SourceType demo_fire = SourceTypePhysicalHost" "ca_SourceID demo_fire = ''h1''"
  "ca_ChannelIDs demo_fire = [''c1'', ''c2'', ''c3'']" "ph_ID host_down = ''h1''" "InMaintenance host_down"
  by (simp_all add: demo_alerts_def demo_fire_def host_down_def InMaintenance_def)

lemma demo_fire_valid: "validate_alert demo_fire = None"
  by (simp add: validate_alert_def demo_fire_def Severity_Valid_def SourceType_Valid_def) code_simp

lemma demo_fired: "\<exists>a w'. Fire mem_alerts demo_fire demo_alerts = (Inr a, w')"
  by (simp add: Fire_def CreateAlert_def CreateAlert_repo_def demo_fire_valid Let_def repo_Create_def mem_calls
    split: prod.splits)

theorem maintenance_suppresses_notifications_witness:
  "\<exists>a w'. Fire mem_alerts demo_fire demo_alerts = (Inr a, w') \<and> al_Suppressed a
     \<and> map (\<lambda>x. ch_ID (snd x)) (av_calls w') = ['''', ''c2'']"
proof -
  from demo_fired obtain a w' where f: "Fire mem_alerts demo_fire demo_alerts = (Inr a, w')" by blast
  have "(al_Suppressed a \<longleftrightarrow> InMaintenance host_down)
    \<and> av_calls w' = av_calls demo_alerts @ (a, log_channel) # map (Pair a)
        (filter (\<lambda>c. ch_Enabled c \<and> (InMaintenance host_down \<longrightarrow> \<not> IsExternal (ch_Type c)))
          (List.map_filter (\<lambda>k. case GetChannel_repo (at_channels mem_alerts) (av_channels demo_alerts) k of
             Inl _ \<Rightarrow> None | Inr c \<Rightarrow> Some c) (ca_ChannelIDs demo_fire)))"
    using maintenance_suppresses_notifications [OF mem_alerts.alert_tables_axioms,
        where mt = mem_maint and hosts = "mem_rows ph_ID" and hdb = fst and p = host_down, OF _ _ _ _ _ _ _ f]
    by (simp add: mem.gorm_table_axioms mem_First)
  with f show ?thesis
    by (intro exI [of _ a] exI [of _ w'])
      (simp add: GetChannel_repo_def repo_Get_def mem_First map_filter_simps IsExternal_def log_channel_def)
qed

subsection \<open>Stored alerts\<close>

definition alert_ok :: "alert \<Rightarrow> bool" where
  "alert_ok a \<longleftrightarrow>
     TrimSpace (al_Name a) = al_Name a \<and> al_Name a \<noteq> '''' \<and> TrimSpace (al_SourceID a) \<noteq> '''' \<and>
     Severity_Valid (al_Severity a) \<and> State_Valid (al_State a) \<and> SourceType_Valid (al_SourceType a) \<and>
     al_Labels a \<noteq> None \<and>
     (al_State a = StateAcknowledged \<longrightarrow> al_AcknowledgedBy a \<noteq> None \<and> al_AcknowledgedAt a \<noteq> None) \<and>
     (al_State a = StateResolved \<longrightarrow> al_ResolvedAt a \<noteq> None)"

lemma alert_okD: "alert_ok a \<Longrightarrow> al_Labels a \<noteq> None"
  by (simp add: alert_ok_def)

definition alerts_ok :: "(string \<Rightarrow> alert option) \<Rightarrow> bool" where
  "alerts_ok rows \<longleftrightarrow> (\<forall>k a. rows k = Some a \<longrightarrow> alert_ok a)"

lemma alerts_ok_upd [simp]: "alerts_ok rows \<Longrightarrow> alert_ok a \<Longrightarrow> alerts_ok (rows(k \<mapsto> a))"
  by (simp add: alerts_ok_def)

lemma alerts_ok_del [simp]: "alerts_ok rows \<Longrightarrow> alerts_ok (rows(k := None))"
  by (simp add: alerts_ok_def)

lemma new_alert_ok:
  assumes "validate_alert inp = None"
  shows "alert_ok (alert_row ((new_alert inp now)\<lparr>al_ID := k\<rparr>))"
  using assms
  by (auto simp: validate_alert_def alert_ok_def new_alert_def State_Valid_def stored_map_def split: if_splits)

lemma suppress_ok: "alert_ok a \<Longrightarrow> alert_ok (a\<lparr>al_Suppressed := True, al_SuppressionReason := r\<rparr>)"
  by (simp add: alert_ok_def)

text \<open>
  The requests: every operation of the service with arbitrary input, in any order. The channel
  operations, and whatever changes the environment, leave the table of the alerts alone.
\<close>

inductive alert_request ::
    "('a, 'c, 'u, 's, 'w) alert_service \<Rightarrow> ('a, 'c, 'u, 'w) alert_world \<Rightarrow> ('a, 'c, 'u, 'w) alert_world \<Rightarrow> bool"
    for s where
  fire: "alert_request s w (snd (Fire s inp w))"
| acknowledge: "alert_request s w (snd (Acknowledge s k userID w))"
| resolve: "alert_request s w (snd (Resolve s k w))"
| mark: "alert_request s w (snd (MarkSuppressed s k reason w))"
| delete: "alert_request s w (snd (Alert_Delete s k w))"
| create_channel: "alert_request s w (snd (CreateChannel s cinp w))"
| update_channel: "alert_request s w (snd (UpdateChannel s k uinp w))"
| delete_channel: "alert_request s w (snd (DeleteChannel s k w))"
| environment: "alert_request s w (w\<lparr>av_env := e\<rparr>)"

lemma channel_operations_frame:
  "av_alerts (snd (CreateChannel s cinp w)) = av_alerts w"
  "av_alerts (snd (UpdateChannel s k uinp w)) = av_alerts w"
  "av_alerts (snd (DeleteChannel s k w)) = av_alerts w"
  by (simp_all add: CreateChannel_def UpdateChannel_def DeleteChannel_def Let_def
    split: prod.splits sum.splits option.splits)

context alert_tables
begin

lemma UpdateAlert_live:
  assumes "als db k = Some a" "\<And>f e. db_Updates (at_alerts s) db k f \<noteq> Inl e" "cols \<noteq> []"
  shows "\<exists>db'. UpdateAlert (at_alerts s) db k cols = Inr db'
    \<and> als db' = (als db)(k \<mapsto> fold set_alert_col cols a)"
  using A.Patch_live [OF assms(1) fold_alert_cols_ID assms(2), of "''alerts.UpdateAlert: ''"] assms(3)
  by (auto simp: UpdateAlert_def)

lemma GetAlert_live:
  assumes "als (av_alerts w) k = Some a" "\<And>m. db_First (at_alerts s) (av_alerts w) k \<noteq> Inl (External m)"
  shows "GetAlert s w k = Inr a"
  using A.First_found [of "av_alerts w" k] A.First_missing [of "av_alerts w" k]
    A.First_error [of "av_alerts w" k] assms
  by (cases "db_First (at_alerts s) (av_alerts w) k")
    (auto simp: GetAlert_def GetAlert_repo_def repo_Get_def)

lemma UpdateAlert_ok:
  assumes "UpdateAlert (at_alerts s) db k cols = Inr db'" "alerts_ok (als db)"
    and "\<And>a. alert_ok a \<Longrightarrow> alert_ok (fold set_alert_col cols a)"
  shows "alerts_ok (als db')"
  using UpdateAlert_row [OF assms(1)] assms(2,3)
  by (auto simp: alerts_ok_def split: if_splits)

lemma patch_alert_rows:
  assumes "alerts_ok (als (av_alerts w))" "\<And>a. alert_ok a \<Longrightarrow> alert_ok (fold set_alert_col cols a)"
  shows "alerts_ok (als (av_alerts (snd (patch_alert s k cols m act w))))"
  using assms
  by (auto simp: patch_alert_def Let_def intro: UpdateAlert_ok split: sum.splits)

lemma stamp_suppressed_ok:
  "alerts_ok (als (av_alerts w)) \<Longrightarrow> alerts_ok (als (av_alerts (stamp_suppressed s k w)))"
  by (auto simp: stamp_suppressed_def suppress_ok elim!: UpdateAlert_ok split: sum.splits)

lemma fire_ok:
  assumes "alerts_ok (als (av_alerts w))"
  shows "alerts_ok (als (av_alerts (snd (Fire s inp w))))"
proof (cases "CreateAlert s inp w")
  case (Pair res w')
  show ?thesis
  proof (cases res)
    case (Inl e)
    with Pair assms show ?thesis
      by (auto simp: Fire_def CreateAlert_def CreateAlert_repo_def Let_def
        split: option.splits prod.splits sum.splits)
  next
    case (Inr a)
    with Pair obtain now env1 k env2 db wd where v: "validate_alert inp = None"
      and c: "repo_Create (at_alerts s) ''alerts.CreateAlert: '' (av_alerts w)
         (alert_row ((new_alert inp now)\<lparr>al_ID := k\<rparr>)) = Inr db"
      "dispatchChannels s ((new_alert inp now)\<lparr>al_ID := k\<rparr>) (ca_ChannelIDs inp)
         (w\<lparr>av_env := env2, av_alerts := db\<rparr>) = (a, wd)"
      "w' = alert_audit s (alert_action ''create'' (al_ID a) '''' (create_metadata a)) wd"
      by (metis CreateAlert_success)
    from A.Create_row [OF c(1)] assms new_alert_ok [OF v] have "alerts_ok (als db)" by simp
    then have "alerts_ok (als (av_alerts wd))"
      using dispatchChannels_calls(3) [OF c(2)]
        stamp_suppressed_ok [of "w\<lparr>av_env := env2, av_alerts := db\<rparr>"] by (auto split: if_splits)
    with c(3) Pair show ?thesis by (simp add: Fire_def)
  qed
qed

lemma request_ok:
  "alert_request s w w' \<Longrightarrow> alerts_ok (als (av_alerts w)) \<Longrightarrow> alerts_ok (als (av_alerts w'))"
proof (induction rule: alert_request.induct)
  case (fire w inp)
  then show ?case by (rule fire_ok)
next
  case (acknowledge w k userID)
  then show ?case
    by (auto simp: Acknowledge_def split: sum.splits prod.splits intro!: patch_alert_rows)
      (simp add: alert_ok_def State_Valid_def)
next
  case (resolve w k)
  then show ?case
    by (auto simp: Resolve_def split: sum.splits prod.splits intro!: patch_alert_rows)
      (simp add: alert_ok_def State_Valid_def)
next
  case (mark w k reason)
  then show ?case
    by (auto simp: MarkSuppressed_def Let_def suppress_ok elim!: UpdateAlert_ok split: sum.splits)
next
  case (delete w k)
  then show ?case
    by (auto simp: Alert_Delete_def DeleteAlert_repo_def alerts_ok_def dest!: A.Delete_row split: sum.splits if_splits)
qed (simp_all add: channel_operations_frame)

end

text \<open>
  C11: every stored alert is well formed after any sequence of requests, whatever they contain: a
  trimmed non-empty name, a non-blank source, one of the recognised severities, states and source
  types, labels that are never NULL, who acknowledged and when in the acknowledged state, and the
  time of resolution in the resolved state.
\<close>

theorem alerts_always_well_formed:
  assumes "alert_tables s als chs"
    and "\<And>k a. als (av_alerts w) k = Some a \<Longrightarrow> alert_ok a"
    and "(alert_request s)\<^sup>*\<^sup>* w w'" "als (av_alerts w') k = Some a"
  shows "alert_ok a"
proof -
  have "alerts_ok (als (av_alerts w'))"
    using assms(3)
  proof (induction rule: rtranclp_induct)
    case base
    with assms(2) show ?case by (simp add: alerts_ok_def)
  next
    case (step u v)
    then show ?case using alert_tables.request_ok [OF assms(1)] by blast
  qed
  with assms(4) show ?thesis by (simp add: alerts_ok_def)
qed

theorem alerts_always_well_formed_witness:
  "\<exists>w' k a. (alert_request mem_alerts)\<^sup>*\<^sup>* demo_alerts w' \<and> mem_rows al_ID (av_alerts w') k = Some a \<and> alert_ok a"
proof -
  from demo_fired obtain b w' where f: "Fire mem_alerts demo_fire demo_alerts = (Inr b, w')" by blast
  from mem_alerts.created_row [OF f [unfolded Fire_def]] obtain a
    where a: "mem_rows al_ID (av_alerts w') (al_ID b) = Some a" by blast
  have r: "(alert_request mem_alerts)\<^sup>*\<^sup>* demo_alerts w'"
    using alert_request.fire [of mem_alerts demo_alerts demo_fire] f by auto
  have "alert_ok a"
    by (rule alerts_always_well_formed [OF mem_alerts.alert_tables_axioms _ r a]) simp
  with a r show ?thesis by blast
qed

subsection \<open>The lifecycle\<close>

text \<open>
  Acknowledging is possible from every state. When the database accepts the write, \<open>Acknowledge\<close>
  of a stored alert succeeds whatever its state, a resolved one included: the alert is acknowledged
  again, by the caller at the time of the clock, and keeps the resolution time it had. No other row
  changes. A resolved alert is therefore not terminal.
\<close>

theorem acknowledge_from_any_state:
  assumes "alert_tables s als chs" "als (av_alerts w) k = Some a" "at_now s (av_env w) = (now, env)"
    and "\<And>db m. db_First (at_alerts s) db k \<noteq> Inl (External m)"
    and "\<And>f e. db_Updates (at_alerts s) (av_alerts w) k f \<noteq> Inl e"
  shows "\<exists>a' w'. Acknowledge s k userID w = (Inr a', w')
    \<and> a' = a\<lparr>al_State := StateAcknowledged, al_AcknowledgedBy := Some userID, al_AcknowledgedAt := Some now\<rparr>
    \<and> als (av_alerts w') = (als (av_alerts w))(k \<mapsto> a')"
proof -
  let ?cols = "[SetState StateAcknowledged, SetAcknowledgedBy userID, SetAcknowledgedAt now]"
  let ?a = "a\<lparr>al_State := StateAcknowledged, al_AcknowledgedBy := Some userID, al_AcknowledgedAt := Some now\<rparr>"
  have live: "GetAlert s w k = Inr a"
    using alert_tables.GetAlert_live [OF assms(1,2)] assms(4) by blast
  from alert_tables.UpdateAlert_live [OF assms(1,2,5), of ?cols] obtain db where
    db: "UpdateAlert (at_alerts s) (av_alerts w) k ?cols = Inr db" "als db = (als (av_alerts w))(k \<mapsto> ?a)"
    by auto
  let ?w = "alert_audit s (alert_action ''acknowledge'' k userID None) (w\<lparr>av_env := env, av_alerts := db\<rparr>)"
  have "GetAlert s ?w k = Inr ?a"
    using alert_tables.GetAlert_live [OF assms(1), of ?w k ?a] assms(4) db(2) by auto
  with live db show ?thesis
    by (auto simp: Acknowledge_def patch_alert_def assms(3) Let_def)
qed

definition resolved_alert :: alert where
  "resolved_alert =
     \<lparr>al_ID = ''a1'', al_Name = ''disk'', al_Severity = ''critical'', al_State = StateResolved,
      al_SourceType = ''k8s'', al_SourceID = ''c'', al_Labels = Some [], al_FiredAt = Time 0,
      al_ResolvedAt = Some (Time 5), al_AcknowledgedBy = None, al_AcknowledgedAt = None,
      al_Suppressed = False, al_SuppressionReason = ''''\<rparr>"

theorem acknowledge_from_any_state_witness:
  "\<exists>a' w'. Acknowledge mem_alerts ''a1'' ''bob'' (demo_alerts\<lparr>av_alerts := [resolved_alert]\<rparr>) = (Inr a', w')
     \<and> al_State a' = StateAcknowledged \<and> al_ResolvedAt a' = Some (Time 5)"
proof -
  let ?w = "demo_alerts\<lparr>av_alerts := [resolved_alert]\<rparr>"
  have "mem_rows al_ID (av_alerts ?w) ''a1'' = Some resolved_alert" by (simp add: resolved_alert_def)
  moreover have "db_First (at_alerts mem_alerts) db ''a1'' \<noteq> Inl (External m)"
    "db_Updates (at_alerts mem_alerts) db ''a1'' f \<noteq> Inl e" for db m f e
    by (simp_all add: mem_calls split: option.split)
  ultimately have "\<exists>a' w'. Acknowledge mem_alerts ''a1'' ''bob'' ?w = (Inr a', w')
    \<and> a' = resolved_alert\<lparr>al_State := StateAcknowledged, al_AcknowledgedBy := Some ''bob'',
        al_AcknowledgedAt := Some (Time (int (snd (av_env ?w)) * Second))\<rparr>"
    using acknowledge_from_any_state [OF mem_alerts.alert_tables_axioms _ mem_alerts_sel(6),
      of ?w "''a1''" resolved_alert "''bob''"] by blast
  then show ?thesis by (auto simp: resolved_alert_def)
qed

subsection \<open>Statistics\<close>

definition tally :: "(string \<Rightarrow> nat option) \<Rightarrow> string \<Rightarrow> nat" where
  "tally m k = (case m k of None \<Rightarrow> 0 | Some n \<Rightarrow> n)"

lemma tally_incr [simp]: "tally (incr m k) j = tally m j + (if j = k then 1 else 0)"
  by (simp add: tally_def incr_def split: option.splits)

lemma tally_empty: "tally Map.empty k = 0"
  by (simp add: tally_def)

lemma fold_count_alert:
  "ss_Total (fold count_alert rows st) = ss_Total st"
  "tally (ss_BySeverity (fold count_alert rows st)) k
     = tally (ss_BySeverity st) k + length (filter (\<lambda>a. al_Severity a = k) rows)"
  "tally (ss_BySourceType (fold count_alert rows st)) k
     = tally (ss_BySourceType st) k + length (filter (\<lambda>a. al_SourceType a = k) rows)"
  "ss_SuppressedCount (fold count_alert rows st)
     = ss_SuppressedCount st + length (filter al_Suppressed rows)"
  "tally (ss_SuppressedByHost (fold count_alert rows st)) k
     = tally (ss_SuppressedByHost st) k + length (filter (\<lambda>a. al_Suppressed a \<and> al_SourceID a = k) rows)"
  by (induction rows arbitrary: st) (simp_all add: count_alert_def Let_def)

lemma length_filter_card: "distinct xs \<Longrightarrow> length (filter P xs) = card {x. x \<in> set xs \<and> P x}"
  using distinct_card [of "filter P xs"] by simp

text \<open>
  C17: the alert statistics count the live alerts: their number, their number per severity and per
  source type, and the suppressed ones in all and per source, each a count of the rows of the table
  with a key that does not occur counting as zero.
\<close>

theorem alert_stats_count_rows:
  assumes "gorm_table (at_alerts s) al_ID als" "Alert_Stats s w = Inr st"
  defines "live \<equiv> {a. als (av_alerts w) (al_ID a) = Some a}"
  shows "ss_Total st = card live
    \<and> (\<forall>k. tally (ss_BySeverity st) k = card {a. a \<in> live \<and> al_Severity a = k})
    \<and> (\<forall>k. tally (ss_BySourceType st) k = card {a. a \<in> live \<and> al_SourceType a = k})
    \<and> ss_SuppressedCount st = card {a. a \<in> live \<and> al_Suppressed a}
    \<and> (\<forall>k. tally (ss_SuppressedByHost st) k = card {a. a \<in> live \<and> al_Suppressed a \<and> al_SourceID a = k})"
proof -
  from assms(2) obtain rows n where l: "ListAlerts (at_alerts s) (av_alerts w) empty_alert_filter = Inr (rows, n)"
    and st: "st = fold count_alert rows
      \<lparr>ss_Total = length rows, ss_BySeverity = Map.empty, ss_BySourceType = Map.empty,
       ss_SuppressedCount = 0, ss_SuppressedByHost = Map.empty\<rparr>"
    by (auto simp: Alert_Stats_def split: sum.splits prod.splits)
  have "lq_Limit empty_alert_filter = 0" "lq_Offset empty_alert_filter = 0"
    and all: "alert_matches empty_alert_filter = (\<lambda>_. True)"
    by (simp_all add: empty_alert_filter_def alert_matches_def fun_eq_iff)
  with l have "query_page (at_alerts s) ''alerts.ListAlerts'' (av_alerts w) (\<lambda>_. True) 0 0 = Inr (rows, n)"
    by (simp add: ListAlerts_def)
  from gorm_table.query_page_everything [OF assms(1) this] have d: "distinct rows" and r: "set rows = live"
    by (auto simp: distinct_map live_def)
  from distinct_card [OF d] r have "length rows = card live" by simp
  with st r show ?thesis
    by (simp add: fold_count_alert length_filter_card [OF d] tally_empty)
qed

theorem alert_stats_count_rows_witness:
  "\<exists>st. Alert_Stats mem_alerts (demo_alerts\<lparr>av_alerts := [resolved_alert]\<rparr>) = Inr st
     \<and> ss_Total st = 1 \<and> tally (ss_BySeverity st) ''critical'' = 1"
proof -
  let ?w = "demo_alerts\<lparr>av_alerts := [resolved_alert]\<rparr>"
  obtain st where st: "Alert_Stats mem_alerts ?w = Inr st"
    by (simp add: Alert_Stats_def ListAlerts_def query_page_def mem_Find)
  have live: "{a. mem_rows al_ID (av_alerts ?w) (al_ID a) = Some a} = {resolved_alert}" by auto
  have sev: "{a. a = resolved_alert \<and> al_Severity a = ''critical''} = {resolved_alert}"
    by (auto simp: resolved_alert_def)
  from alert_stats_count_rows [OF mem_alerts.als_table st] show ?thesis
    unfolding live by (intro exI [of _ st]) (simp add: st sev)
qed

end
