(* ===== verification/Alert_Http.thy ===== *)
theory Alert_Http
  imports Alert_Facts Realtime
begin

text \<open>
  The HTTP side of the alerts: the masking of channel configurations (\<open>internal/alerts/masking.go\<close>, with
  the rules of \<open>pkg/logger/logger.go\<close> and \<open>secret_keys.go\<close>) and the handlers (\<open>handler.go\<close>). Lemmas:
  what a masked channel shows, and that the stored one keeps its secrets.
\<close>

subsection \<open>Sensitive names\<close>

definition SecretKeys :: "string list" where
  "SecretKeys =
     [''password'', ''kubeconfig'', ''bind_password'', ''token'', ''secret'', ''secret_key'', ''jwt_secret'',
      ''k8s_crypto_key'', ''private_key'', ''privatekey'', ''ssh_key'', ''client_secret'', ''api_key'',
      ''ldap_bind_pw'', ''tls_cert'']"

definition normalizeKey :: "string \<Rightarrow> string" where
  "normalizeKey key =
     map (\<lambda>c. if c = CHR ''-'' \<or> c = CHR ''.'' then CHR ''_'' else c) (ToLower (TrimSpace key))"

definition ShouldMask :: "string \<Rightarrow> bool" where
  "ShouldMask key \<longleftrightarrow> normalizeKey key \<in> set SecretKeys"

definition IsSensitiveField :: "string \<Rightarrow> bool" where
  "IsSensitiveField name = ShouldMask name"

definition sensitiveKeys :: "string list" where
  "sensitiveKeys =
     [''password'', ''passwd'', ''secret'', ''token'', ''api_key'', ''apikey'', ''private_key'', ''privatekey'',
      ''credential'', ''kubeconfig'', ''bind_password'']"

definition MaskValue :: "string \<Rightarrow> string \<Rightarrow> string" where
  "MaskValue key v =
     (if IsSensitiveField key then ''***''
      else if list_ex (Contains (ToLower key)) sensitiveKeys then ''***''
      else v)"

text \<open>A copy of the channel; a nil configuration becomes an empty one.\<close>

definition mask_entry :: "string \<times> json \<Rightarrow> string \<times> json" where
  "mask_entry kv = (case snd kv of JString v \<Rightarrow> (fst kv, JString (MaskValue (fst kv) v)) | _ \<Rightarrow> kv)"

definition Mask :: "channel \<Rightarrow> channel" where
  "Mask c =
     (case ch_Config c of
        None \<Rightarrow> c\<lparr>ch_Config := Some []\<rparr>
      | Some kvs \<Rightarrow> c\<lparr>ch_Config := Some (map mask_entry kvs)\<rparr>)"

subsection \<open>Requests\<close>

record alert_request_body =
  rb_Name :: string
  rb_Severity :: string
  rb_SourceType :: string
  rb_SourceID :: string
  rb_Labels :: json_map
  rb_ChannelIDs :: "string list"
  rb_Message :: string

definition toFire :: "alert_request_body \<Rightarrow> create_alert_input" where
  "toFire r =
     \<lparr>ca_Name = rb_Name r, ca_Severity = rb_Severity r, ca_SourceType = rb_SourceType r,
      ca_SourceID = rb_SourceID r, ca_Labels = None, ca_ChannelIDs = rb_ChannelIDs r,
      ca_Message = rb_Message r\<rparr>"

definition toCreate :: "alert_request_body \<Rightarrow> create_alert_input" where
  "toCreate r =
     \<lparr>ca_Name = rb_Name r, ca_Severity = rb_Severity r, ca_SourceType = rb_SourceType r,
      ca_SourceID = rb_SourceID r, ca_Labels = rb_Labels r, ca_ChannelIDs = rb_ChannelIDs r,
      ca_Message = rb_Message r\<rparr>"

record channel_request_body =
  cb_Type :: string
  cb_Config :: json_map
  cb_Enabled :: "bool option"

definition channel_toCreate :: "channel_request_body \<Rightarrow> create_channel_input" where
  "channel_toCreate r =
     \<lparr>cc_Type = cb_Type r, cc_Config = cb_Config r,
      cc_Enabled = (case cb_Enabled r of None \<Rightarrow> False | Some b \<Rightarrow> b)\<rparr>"

definition channel_toUpdate :: "channel_request_body \<Rightarrow> update_channel_input" where
  "channel_toUpdate r = \<lparr>uc_Type = None, uc_Config = cb_Config r, uc_Enabled = cb_Enabled r\<rparr>"

definition alert_parseFilter :: "(string \<Rightarrow> string) \<Rightarrow> alert_filter" where
  "alert_parseFilter q =
     \<lparr>lq_Name = q ''name'', lq_Severity = q ''severity'', lq_SourceType = q ''source_type'',
      lq_SourceID = q ''source_id'', lq_State = (if q ''state'' \<noteq> '''' then q ''state'' else q ''status''),
      lq_Suppressed = None, lq_Limit = limit_param (q ''limit''), lq_Offset = offset_param (q ''offset'')\<rparr>"

definition history_filter :: "(string \<Rightarrow> string) \<Rightarrow> alert_filter" where
  "history_filter q =
     (let f = alert_parseFilter q
      in if q ''suppressed'' = ''true'' then f\<lparr>lq_Suppressed := Some True\<rparr> else f)"

subsection \<open>The handlers\<close>

text \<open>The body is \<open>None\<close> when it is not JSON of the expected shape.\<close>

definition bad_body :: "'a response" where
  "bad_body = reject CodeValidation ''request body must be JSON''"

definition Alert_handler_List where
  "Alert_handler_List s q w =
     page_response (lq_Limit (alert_parseFilter q)) (lq_Offset (alert_parseFilter q))
       (Alert_List s w (alert_parseFilter q))"

definition Alert_handler_History where
  "Alert_handler_History s q w =
     page_response (lq_Limit (history_filter q)) (lq_Offset (history_filter q))
       (Alert_List s w (history_filter q))"

definition Alert_handler_Stats where
  "Alert_handler_Stats s w = respond 200 (Alert_Stats s w)"

definition Alert_handler_Get where
  "Alert_handler_Get s k w = respond 200 (GetAlert s w k)"

definition Alert_handler_Create where
  "Alert_handler_Create s body w =
     (case body of
        None \<Rightarrow> (bad_body, w)
      | Some r \<Rightarrow> (case Fire s (toFire r) w of (res, w) \<Rightarrow> (respond 201 res, w)))"

text \<open>The route changes nothing; it sets an \<open>Allow\<close> header and answers with an error.\<close>

definition Alert_handler_Update :: "alert_request_body option \<Rightarrow> alert response" where
  "Alert_handler_Update body =
     (case body of
        None \<Rightarrow> bad_body
      | Some _ \<Rightarrow>
          reject CodeValidation
            ''use POST /alerts/:id/acknowledge or POST /alerts/:id/resolve to mutate an alert'')"

definition Alert_handler_Delete where
  "Alert_handler_Delete s k w = (case Alert_Delete s k w of (res, w) \<Rightarrow> (respond_none res, w))"

definition Alert_handler_Acknowledge where
  "Alert_handler_Acknowledge s k header w =
     (let userID = header ''X-User-Id''
      in case Acknowledge s k (if userID = '''' then ''system'' else userID) w of
           (res, w) \<Rightarrow> (respond 200 res, w))"

definition Alert_handler_Resolve where
  "Alert_handler_Resolve s k w = (case Resolve s k w of (res, w) \<Rightarrow> (respond 200 res, w))"

text \<open>\<open>WriteList\<close> without a pagination block.\<close>

definition Alert_handler_ListChannels where
  "Alert_handler_ListChannels s w =
     (case ListChannels s w of
        Inl err \<Rightarrow> fail_with err
      | Inr rows \<Rightarrow> Body 200 (map Mask rows))"

definition Alert_handler_CreateChannel where
  "Alert_handler_CreateChannel s body w =
     (case body of
        None \<Rightarrow> (bad_body, w)
      | Some r \<Rightarrow>
          (case CreateChannel s (channel_toCreate r) w of
             (res, w) \<Rightarrow> (respond 201 (map_sum (\<lambda>e. e) Mask res), w)))"

definition Alert_handler_GetChannel where
  "Alert_handler_GetChannel s k w = respond 200 (map_sum (\<lambda>e. e) Mask (GetChannel s w k))"

text \<open>
  The re-read after the update ignores its error and dereferences the pointer: \<open>None\<close> is the panic of a
  nil channel.
\<close>

definition Alert_handler_UpdateChannel where
  "Alert_handler_UpdateChannel s k body w =
     (case body of
        None \<Rightarrow> (Some bad_body, w)
      | Some r \<Rightarrow>
          (case UpdateChannel s k (channel_toUpdate r) w of
             (Inl err, w) \<Rightarrow> (Some (fail_with err), w)
           | (Inr _, w) \<Rightarrow>
               (case GetChannel s w k of
                  Inl _ \<Rightarrow> (None, w)
                | Inr c \<Rightarrow> (Some (Body 200 (Mask c)), w))))"

definition Alert_handler_DeleteChannel where
  "Alert_handler_DeleteChannel s k w = (case DeleteChannel s k w of (res, w) \<Rightarrow> (respond_none res, w))"

subsection \<open>Properties\<close>

lemma mask_entry_fst [simp]: "fst (mask_entry kv) = fst kv"
  by (auto simp: mask_entry_def split: json.splits)

lemma Mask_sel [simp]:
  "members (ch_Config (Mask c)) = map mask_entry (members (ch_Config c))" "ch_ID (Mask c) = ch_ID c"
  "ch_Type (Mask c) = ch_Type c" "ch_Enabled (Mask c) = ch_Enabled c"
  by (simp_all add: Mask_def split: option.splits)

text \<open>Nested values are not looked at, and the names of the channel types' own secrets are not on the list.\<close>

lemma nested_secret_shown:
  "Mask (demo_channel ''c'' ''webhook''\<lparr>ch_Config := Some [(''auth'', JObject [(''password'', JString x)])]\<rparr>)
     = demo_channel ''c'' ''webhook''\<lparr>ch_Config := Some [(''auth'', JObject [(''password'', JString x)])]\<rparr>"
  by (simp add: Mask_def mask_entry_def)

lemma webhook_url_shown: "MaskValue ''webhook_url'' x = x" "MaskValue ''integration_key'' x = x"
proof -
  have "\<not> IsSensitiveField ''webhook_url'' \<and> \<not> list_ex (Contains (ToLower ''webhook_url'')) sensitiveKeys"
    "\<not> IsSensitiveField ''integration_key'' \<and> \<not> list_ex (Contains (ToLower ''integration_key'')) sensitiveKeys"
    by code_simp+
  then show "MaskValue ''webhook_url'' x = x" "MaskValue ''integration_key'' x = x"
    by (simp_all add: MaskValue_def)
qed

declare map_sum_Inr [simp]

text \<open>
  What a response should show of a stored channel, with the logger's two word lists written out: a
  secret name contains one of the first in any letter case, or is one of the second when hyphens and
  dots are read as underscores.
\<close>

definition secret_name :: "string \<Rightarrow> bool" where
  "secret_name key \<longleftrightarrow>
     (\<exists>word \<in> {''password'', ''passwd'', ''secret'', ''token'', ''api_key'', ''apikey'', ''private_key'',
               ''privatekey'', ''credential'', ''kubeconfig'', ''bind_password''}. sublist word (ToLower key))
     \<or> map (\<lambda>c. if c \<in> {CHR ''-'', CHR ''.''} then CHR ''_'' else c) (ToLower (TrimSpace key))
         \<in> {''password'', ''kubeconfig'', ''bind_password'', ''token'', ''secret'', ''secret_key'', ''jwt_secret'',
            ''k8s_crypto_key'', ''private_key'', ''privatekey'', ''ssh_key'', ''client_secret'', ''api_key'',
            ''ldap_bind_pw'', ''tls_cert''}"

definition shows_channel :: "channel \<Rightarrow> channel \<Rightarrow> bool" where
  "shows_channel c d \<longleftrightarrow> ch_ID c = ch_ID d \<and> ch_Type c = ch_Type d \<and> ch_Enabled c = ch_Enabled d
     \<and> ch_Config c = Some (map (\<lambda>(key, v). (key, case v of JString x \<Rightarrow> if secret_name key then JString ''***'' else v
                                                       | _ \<Rightarrow> v)) (members (ch_Config d)))"

lemma secret_name_masked: "MaskValue key v = (if secret_name key then ''***'' else v)"
proof -
  have "list_ex (Contains (ToLower key)) sensitiveKeys \<or> IsSensitiveField key \<longleftrightarrow> secret_name key"
    by (simp add: secret_name_def sensitiveKeys_def Contains_iff IsSensitiveField_def ShouldMask_def
        normalizeKey_def SecretKeys_def disj_commute disj_left_commute)
  then show ?thesis by (auto simp: MaskValue_def)
qed

lemma Mask_shows:
  assumes "ch_ID d = ch_ID e" "ch_Type d = ch_Type e" "ch_Enabled d = ch_Enabled e"
    "members (ch_Config d) = members (ch_Config e)"
  shows "shows_channel (Mask d) e"
proof -
  have "mask_entry = (\<lambda>(key, v). (key, case v of JString x \<Rightarrow> if secret_name key then JString ''***'' else v | _ \<Rightarrow> v))"
    by (auto simp: mask_entry_def secret_name_masked fun_eq_iff split: json.split)
  moreover have "ch_Config (Mask d) = Some (map mask_entry (members (ch_Config d)))"
    by (simp add: Mask_def split: option.split)
  ultimately show ?thesis using assms by (simp add: shows_channel_def)
qed

lemma set_channel_col_ID [simp]: "ch_ID (set_channel_col c d) = ch_ID d"
  by (cases c) simp_all

lemma fold_channel_cols_ID [simp]: "ch_ID (fold set_channel_col cs d) = ch_ID d"
  by (induction cs arbitrary: d) simp_all

lemma channel_patched:
  "ch_Type (fold set_channel_col (channel_patch (channel_toUpdate r)) d) = ch_Type d"
  "members (ch_Config (fold set_channel_col (channel_patch (channel_toUpdate r)) d)) =
     (case cb_Config r of None \<Rightarrow> members (ch_Config d) | Some kvs \<Rightarrow> kvs)"
  "ch_Enabled (fold set_channel_col (channel_patch (channel_toUpdate r)) d) =
     (case cb_Enabled r of None \<Rightarrow> ch_Enabled d | Some b \<Rightarrow> b)"
  by (simp_all add: channel_patch_def channel_toUpdate_def split: option.split)

context alert_tables
begin

lemma created_channel:
  assumes "Alert_handler_CreateChannel s (Some r) w = (Body st c, w')"
  shows "\<exists>d. chs (av_channels w) (ch_ID c) = None \<and> chs (av_channels w') = (chs (av_channels w))(ch_ID c \<mapsto> d)
    \<and> ch_Type d = cb_Type r \<and> members (ch_Config d) = members (cb_Config r) \<and> shows_channel c d"
proof -
  from assms obtain d where d: "CreateChannel s (channel_toCreate r) w = (Inr d, w')" "c = Mask d"
    by (auto simp: Alert_handler_CreateChannel_def respond_def split: prod.splits sum.splits)
  then obtain k env db where c: "CreateChannel_repo (at_channels s) k (av_channels w)
      \<lparr>ch_ID = '''', ch_Type = cb_Type r, ch_Config = cb_Config r, ch_Enabled = cc_Enabled (channel_toCreate r)\<rparr>
      = (Inr db, d)" "av_channels w' = db"
    by (auto simp: CreateChannel_def Let_def channel_toCreate_def split: prod.splits sum.splits if_splits)
  then have db: "repo_Create (at_channels s) ''alerts.CreateChannel: '' (av_channels w) (channel_row d) = Inr db"
    and sel: "ch_Type d = cb_Type r" "ch_Config d = cb_Config r"
    by (auto simp: CreateChannel_repo_def Let_def channel_defaults_def)
  have "shows_channel c (channel_row d)" unfolding d(2) by (rule Mask_shows) (simp_all add: channel_row_def)
  with C.Create_row [OF db] c(2) sel d(2) show ?thesis
    by (intro exI [of _ "channel_row d"]) (simp add: channel_row_def)
qed

lemma updated_channel:
  assumes "Alert_handler_UpdateChannel s k (Some r) w = (Some (Body st c), w')"
  shows "\<exists>d0 d. chs (av_channels w) k = Some d0 \<and> chs (av_channels w') = (chs (av_channels w))(k \<mapsto> d)
    \<and> ch_Type d = ch_Type d0
    \<and> members (ch_Config d) = (case cb_Config r of None \<Rightarrow> members (ch_Config d0) | Some kvs \<Rightarrow> kvs)
    \<and> ch_Enabled d = (case cb_Enabled r of None \<Rightarrow> ch_Enabled d0 | Some b \<Rightarrow> b) \<and> shows_channel c d"
proof -
  from assms obtain u d where u: "UpdateChannel s k (channel_toUpdate r) w = (Inr u, w')"
    "GetChannel s w' k = Inr d" "c = Mask d"
    by (auto simp: Alert_handler_UpdateChannel_def split: prod.splits sum.splits)
  from u(1) have "UpdateChannel_repo (at_channels s) (av_channels w) k (channel_patch (channel_toUpdate r))
      = Inr (av_channels w')"
    by (auto simp: UpdateChannel_def split: sum.splits if_splits)
  then have "repo_Patch (at_channels s) ''alerts.UpdateChannel: '' ErrAlertNotFound (av_channels w) k
      (fold set_channel_col (channel_patch (channel_toUpdate r))) = Inr (av_channels w')"
    by (simp add: UpdateChannel_repo_def split: if_splits)
  from C.Patch_row [OF this fold_channel_cols_ID] obtain d0 where d0: "chs (av_channels w) k = Some d0"
    "chs (av_channels w') = (chs (av_channels w))(k \<mapsto> fold set_channel_col (channel_patch (channel_toUpdate r)) d0)"
    by blast
  from u(2) have "GetChannel_repo (at_channels s) (av_channels w') k = Inr d"
    by (simp add: GetChannel_def split: sum.splits)
  with d0(2) have "d = fold set_channel_col (channel_patch (channel_toUpdate r)) d0"
    using C.Get_row [of "av_channels w'" k d] by (simp add: GetChannel_repo_def)
  moreover have "shows_channel c d" unfolding u(3) by (rule Mask_shows) simp_all
  ultimately show ?thesis using d0
    by (intro exI [of _ d0] exI [of _ "fold set_channel_col (channel_patch (channel_toUpdate r)) d0"])
       (simp add: channel_patched)
qed

lemma shown_channel:
  "Alert_handler_GetChannel s k w = Body st c \<Longrightarrow> \<exists>d. chs (av_channels w) k = Some d \<and> shows_channel c d"
  by (auto simp: Alert_handler_GetChannel_def GetChannel_def GetChannel_repo_def respond_def Mask_shows
      dest: C.Get_row split: sum.splits)

lemma listed_channels:
  assumes "Alert_handler_ListChannels s w = Body st cs"
  shows "\<exists>ds. list_all2 shows_channel cs ds \<and> distinct (map ch_ID ds)
    \<and> set ds = {d. chs (av_channels w) (ch_ID d) = Some d}"
proof -
  from assms obtain ds where ds: "db_Find (at_channels s) (av_channels w) (\<lambda>_. True) = Inr ds" "cs = map Mask ds"
    by (auto simp: Alert_handler_ListChannels_def ListChannels_def ListChannels_repo_def split: sum.splits)
  have "list_all2 shows_channel cs ds"
    unfolding ds(2) by (simp add: list.rel_map list.rel_refl Mask_shows)
  with C.Find_ok [OF ds(1)] show ?thesis by (intro exI [of _ ds]) simp
qed

end

text \<open>
  C18: the channel endpoints hide top-level secrets and nothing else. A get shows the stored row of the
  name asked for, a list shows each stored channel once, and a create and an update store the
  configuration of the request in clear, touch no other channel, and show the row they stored. What is
  shown of a row is its identifier, type and enabled flag, and its configuration entry by entry: a
  string under a secret name is \<open>***\<close> and every other value is the stored one. Secret names are those
  that contain one of the sensitive words in any letter case, or are one of the listed names up to
  separators; strings below the top level are not looked at.
\<close>

theorem channel_responses_hide_secrets:
  assumes "alert_tables s als chs"
  shows "(Alert_handler_GetChannel s k w = Body st c \<longrightarrow>
      (\<exists>d. chs (av_channels w) k = Some d \<and> shows_channel c d))
    \<and> (Alert_handler_ListChannels s w = Body st cs \<longrightarrow>
      (\<exists>ds. list_all2 shows_channel cs ds \<and> distinct (map ch_ID ds)
         \<and> set ds = {d. chs (av_channels w) (ch_ID d) = Some d}))
    \<and> (Alert_handler_CreateChannel s (Some r) w = (Body st c, w') \<longrightarrow>
      (\<exists>d. chs (av_channels w) (ch_ID c) = None \<and> chs (av_channels w') = (chs (av_channels w))(ch_ID c \<mapsto> d)
         \<and> ch_Type d = cb_Type r \<and> members (ch_Config d) = members (cb_Config r) \<and> shows_channel c d))
    \<and> (Alert_handler_UpdateChannel s k (Some r) w = (Some (Body st c), w') \<longrightarrow>
      (\<exists>d0 d. chs (av_channels w) k = Some d0 \<and> chs (av_channels w') = (chs (av_channels w))(k \<mapsto> d)
         \<and> ch_Type d = ch_Type d0
         \<and> members (ch_Config d) = (case cb_Config r of None \<Rightarrow> members (ch_Config d0) | Some kvs \<Rightarrow> kvs)
         \<and> ch_Enabled d = (case cb_Enabled r of None \<Rightarrow> ch_Enabled d0 | Some b \<Rightarrow> b) \<and> shows_channel c d))"
  using alert_tables.shown_channel [OF assms] alert_tables.listed_channels [OF assms]
    alert_tables.created_channel [OF assms] alert_tables.updated_channel [OF assms]
  by (intro conjI impI) simp_all

definition secret_channel :: channel where
  "secret_channel = demo_channel ''c1'' ''webhook''\<lparr>ch_Config :=
     Some [(''Api_Token'', JString ''s3cret''), (''room'', JString ''ops'')]\<rparr>"

theorem channel_responses_hide_secrets_witness:
  "\<exists>c. Alert_handler_GetChannel mem_alerts ''c1'' (demo_alerts\<lparr>av_channels := [secret_channel]\<rparr>) = Body 200 c
     \<and> ch_Config c = Some [(''Api_Token'', JString ''***''), (''room'', JString ''ops'')]"
proof -
  let ?w = "demo_alerts\<lparr>av_channels := [secret_channel]\<rparr>"
  have g: "Alert_handler_GetChannel mem_alerts ''c1'' ?w = Body 200 (Mask secret_channel)"
    by (simp add: Alert_handler_GetChannel_def GetChannel_def GetChannel_repo_def repo_Get_def mem_First
      respond_def secret_channel_def)
  have row: "mem_rows ch_ID (av_channels ?w) ''c1'' = Some secret_channel" by (simp add: secret_channel_def)
  from channel_responses_hide_secrets [OF mem_alerts.alert_tables_axioms, THEN conjunct1, rule_format, OF g] row
  have "shows_channel (Mask secret_channel) secret_channel" by simp
  moreover have "MaskValue ''Api_Token'' '''' = ''***''" "MaskValue ''room'' '''' = ''''" by code_simp+
  then have "secret_name ''Api_Token''" "\<not> secret_name ''room''"
    by (auto simp: secret_name_masked split: if_splits)
  ultimately have "ch_Config (Mask secret_channel) = Some [(''Api_Token'', JString ''***''), (''room'', JString ''ops'')]"
    by (simp add: shows_channel_def secret_channel_def)
  with g show ?thesis by blast
qed

end
