(* ===== verification/Ws_Hub_Facts.thy ===== *)
theory Ws_Hub_Facts
  imports Ws_Hub
begin

text \<open>
  The websocket hub running: the caps that hold after any sequence of operations, and the publish path
  as a transition system of publishers and the run loop (\<open>Hub.Run\<close>, \<open>hub.go\<close>). A payload and its channel
  travel through two queues; the delivery is right when each publish happens in one step, and can be
  wrong when a publisher is interrupted between its two sends.
\<close>

subsection \<open>The caps\<close>

text \<open>Every operation on the hub and its clients, the write pump's receive included.\<close>

inductive hub_op :: "marshaller \<Rightarrow> (string \<Rightarrow> (string \<times> string) option) \<Rightarrow> hub \<Rightarrow> hub \<Rightarrow> bool"
    for marshal decode where
  new_client: "hb_objs h k = None \<Longrightarrow>
    hub_op marshal decode h (h\<lparr>hb_objs := (hb_objs h)(k \<mapsto> NewClient u [] (hb_limits h))\<rparr>)"
| register: "hub_op marshal decode h (snd (Hub_Register k h))"
| unregister: "hub_op marshal decode h (Hub_Unregister k h)"
| message: "hub_op marshal decode h (handleClientMessage marshal decode k msg h)"
| subscribe: "hub_op marshal decode h (snd (Hub_Subscribe k ch h))"
| unsubscribe: "hub_op marshal decode h (Hub_Unsubscribe k ch h)"
| publish: "hub_op marshal decode h (snd (Hub_Publish ch p h))"
| broadcast: "hub_op marshal decode h (hub_deliver ch p h)"
| sent: "hub_op marshal decode h (on_client k (\<lambda>c. c\<lparr>hc_Send := tl (hc_Send c)\<rparr>) h)"
| closed: "hub_op marshal decode h (on_client k Client_Close h)"
| dequeue: "hub_op marshal decode h
    (h\<lparr>hb_broadcast := drop m (hb_broadcast h), hb_broadcastChan := drop n (hb_broadcastChan h)\<rparr>)"

definition client_ok :: "hub_limits \<Rightarrow> hub_client \<Rightarrow> bool" where
  "client_ok lim c \<longleftrightarrow> distinct (hc_channels c) \<and> hc_maxChannels c = hl_MaxChannelsPerConn lim
     \<and> int (length (hc_channels c)) \<le> hl_MaxChannelsPerConn lim \<and> length (hc_Send c) \<le> hc_cap c"

text \<open>The channels of the object with an identifier.\<close>

definition chans :: "(string \<Rightarrow> hub_client option) \<Rightarrow> string \<Rightarrow> string set" where
  "chans objs k = (case objs k of None \<Rightarrow> {} | Some c \<Rightarrow> set (hc_channels c))"

lemma chans_upd [simp]:
  "chans (objs(k := x)) j = (if j = k then (case x of None \<Rightarrow> {} | Some c \<Rightarrow> set (hc_channels c)) else chans objs j)"
  by (simp add: chans_def)

lemma chans_map:
  "(\<And>c. hc_channels (f c) = hc_channels c) \<Longrightarrow>
     chans (\<lambda>k. if k \<in> ks then map_option f (objs k) else objs k) = chans objs"
  by (auto simp: chans_def fun_eq_iff split: option.splits)

definition hub_ok :: "hub \<Rightarrow> bool" where
  "hub_ok h \<longleftrightarrow>
     registry_wf (hb_reg h) \<and> finite (hb_clients h) \<and>
     int (card (hb_clients h)) \<le> hl_MaxConnections (hb_limits h) \<and>
     0 \<le> hl_MaxChannelsPerConn (hb_limits h) \<and>
     (\<forall>k c. hb_objs h k = Some c \<longrightarrow> client_ok (hb_limits h) c) \<and>
     (\<forall>ch k. (ch, k) \<in> subscriptions (hb_reg h) \<longrightarrow> ch \<in> chans (hb_objs h) k) \<and>
     length (hb_broadcast h) \<le> queue_cap \<and> length (hb_broadcastChan h) \<le> queue_cap"

lemma length_removeAll_int: "int (length xs) \<le> n \<Longrightarrow> int (length (removeAll x xs)) \<le> n"
  using length_removeAll_less_eq [of x xs] by linarith

lemma client_ok_ops:
  "client_ok lim c \<Longrightarrow> client_ok lim (try_send m c)" "client_ok lim c \<Longrightarrow> client_ok lim (Client_Unsubscribe ch c)"
  "client_ok lim c \<Longrightarrow> client_ok lim (Client_Close c)"
  "client_ok lim c \<Longrightarrow> client_ok lim (c\<lparr>hc_Send := tl (hc_Send c)\<rparr>)"
  "0 \<le> hl_MaxChannelsPerConn lim \<Longrightarrow> client_ok lim (NewClient u [] lim)"
  "client_ok lim c \<Longrightarrow> Client_Subscribe ch c = (b, c') \<Longrightarrow> client_ok lim c'"
  by (auto simp: client_ok_def try_send_def Client_Close_def NewClient_def Client_Subscribe_def
    Client_Unsubscribe_def distinct_removeAll length_removeAll_int split: if_splits)

lemma hub_ok_subscribed: "hub_ok h \<Longrightarrow> (ch, k) \<in> subscriptions (hb_reg h) \<Longrightarrow> ch \<in> chans (hb_objs h) k"
  by (simp add: hub_ok_def)

lemma hc_channels_simps [simp]:
  "hc_channels (try_send m c) = hc_channels c" "hc_channels (Client_Close c) = hc_channels c"
  "hc_channels (sendError marshal r c) = hc_channels c" "hc_channels (sendOK marshal r ch c) = hc_channels c"
  by (simp_all add: try_send_def Client_Close_def sendError_def sendOK_def)

text \<open>An operation on one client that keeps its subscriptions.\<close>

lemma hub_ok_on_client:
  assumes "hub_ok h" "\<And>c. client_ok (hb_limits h) c \<Longrightarrow> client_ok (hb_limits h) (f c)"
    and f: "\<And>c. hc_channels (f c) = hc_channels c"
  shows "hub_ok (on_client k f h)"
proof -
  have "chans (hb_objs (on_client k f h)) = chans (hb_objs h)"
    by (auto simp: on_client_def chans_def f fun_eq_iff split: option.splits)
  with assms(1,2) show ?thesis by (auto simp: hub_ok_def on_client_def split: if_splits)
qed

lemma hub_ok_subscribe:
  assumes ok: "hub_ok h"
  shows "hub_ok (snd (Hub_Subscribe k ch h))"
proof (cases "hb_objs h k")
  case None
  with assms show ?thesis by (simp add: Hub_Subscribe_def)
next
  case (Some c)
  obtain b c' where cs: "Client_Subscribe ch c = (b, c')" by fastforce
  show ?thesis
  proof (cases "ch \<noteq> '''' \<and> b")
    case False
    with ok Some cs show ?thesis by (auto simp: Hub_Subscribe_def split: bool.splits)
  next
    case True
    with cs have ch: "set (hc_channels c') = insert ch (set (hc_channels c))"
      by (auto simp: Client_Subscribe_def split: if_splits)
    have "chans (hb_objs h) k = set (hc_channels c)" using Some by (simp add: chans_def)
    moreover have "client_ok (hb_limits h) c'"
      using ok Some client_ok_ops(6) [OF _ cs] by (auto simp: hub_ok_def)
    ultimately show ?thesis
      using True ok Some cs ch registry_Add_refines [where r = "hb_reg h" and ch = ch and k = k]
      by (auto simp: Hub_Subscribe_def hub_ok_def)
  qed
qed

lemma hub_ok_unsubscribe:
  assumes "hub_ok h"
  shows "hub_ok (Hub_Unsubscribe k ch h)"
proof (cases "hb_objs h k")
  case None
  with assms show ?thesis by (simp add: Hub_Unsubscribe_def)
next
  case (Some c)
  then have "chans (hb_objs h) k = set (hc_channels c)" by (simp add: chans_def)
  with assms Some registry_Remove_refines [where r = "hb_reg h" and ch = ch and k = k] show ?thesis
    by (auto simp: Hub_Unsubscribe_def hub_ok_def on_client_def client_ok_ops(2) split: if_splits)
      (auto simp: Client_Unsubscribe_def)
qed

lemma fold_Add_refines:
  assumes "registry_wf r"
  shows "registry_wf (fold (\<lambda>ch. registry_Add ch k) chs r)
    \<and> subscriptions (fold (\<lambda>ch. registry_Add ch k) chs r)
      = subscriptions r \<union> {(ch, k) | ch. ch \<in> set chs \<and> ch \<noteq> ''''}"
  using assms
proof (induction chs arbitrary: r)
  case (Cons ch chs)
  from Cons.IH [OF registry_Add_refines(1) [OF Cons.prems, of ch k]]
  show ?case by (auto simp: registry_Add_refines(2))
qed simp

lemma hub_ok_register:
  assumes "hub_ok h"
  shows "hub_ok (snd (Hub_Register k h))"
proof (cases "hb_objs h k")
  case None
  with assms show ?thesis by (simp add: Hub_Register_def)
next
  case (Some c)
  then have c: "chans (hb_objs h) k = set (hc_channels c)" by (simp add: chans_def)
  from assms have "registry_wf (hb_reg h)" by (simp add: hub_ok_def)
  from fold_Add_refines [where k = k and chs = "hc_channels c", OF this] assms Some c show ?thesis
    by (auto simp: Hub_Register_def hub_ok_def card_insert_if)
qed

lemma hub_ok_unregister:
  assumes "hub_ok h"
  shows "hub_ok (Hub_Unregister k h)"
proof -
  from assms have wf: "registry_wf (hb_reg h)" "finite (hb_clients h)"
    "int (card (hb_clients h)) \<le> hl_MaxConnections (hb_limits h)" by (simp_all add: hub_ok_def)
  from card_mono [OF wf(2), of "hb_clients h - {k}"] wf(3)
  have "int (card (hb_clients h - {k})) \<le> hl_MaxConnections (hb_limits h)" by auto
  with assms registry_RemoveAll_refines [OF wf(1), of k] show ?thesis
    by (auto simp: Hub_Unregister_def hub_ok_def)
qed

lemma hub_ok_broadcast: "hub_ok h \<Longrightarrow> hub_ok (hub_deliver ch p h)"
  by (auto simp: hub_deliver_def registry_Broadcast_def hub_ok_def chans_map client_ok_ops(1)
    split: option.splits if_splits)

lemma hub_ok_op: "hub_op marshal decode h h' \<Longrightarrow> hub_ok h \<Longrightarrow> hub_ok h'"
proof (induction rule: hub_op.induct)
  case (new_client h k u)
  then have "chans (hb_objs h) k = {}" by (simp add: chans_def)
  with new_client(2) have "(ch, k) \<notin> subscriptions (hb_reg h)" for ch
    using hub_ok_subscribed [of h ch k] by auto
  with new_client show ?case by (auto simp: hub_ok_def client_ok_ops(5) split: if_splits)
next
  case (message h k msg)
  then show ?case
    by (auto simp: handleClientMessage_def sendError_def sendOK_def client_ok_ops(1)
      intro!: hub_ok_on_client hub_ok_unsubscribe split: option.splits prod.splits bool.splits)
      (metis hub_ok_subscribe snd_conv)+
next
  case (publish h ch p)
  then show ?case
    by (auto simp: Hub_Publish_def publish_payload_def publish_channel_def hub_ok_def split: prod.splits bool.splits)
next
  case (sent h k)
  then show ?case by (intro hub_ok_on_client) (simp_all add: client_ok_ops)
next
  case (closed h k)
  then show ?case by (intro hub_ok_on_client) (simp_all add: client_ok_ops)
next
  case (dequeue h m n)
  then show ?case by (auto simp: hub_ok_def)
qed (simp_all add: hub_ok_register hub_ok_unregister hub_ok_subscribe hub_ok_unsubscribe hub_ok_broadcast)

lemma hub_ok_NewHub:
  "0 \<le> hl_MaxConnections lim \<Longrightarrow> 0 \<le> hl_MaxChannelsPerConn lim \<Longrightarrow> hub_ok (NewHub lim)"
  by (simp add: hub_ok_def NewHub_def registry_new DefaultLimits_def)


text \<open>
  C20: the caps of the hub hold after any sequence of operations: never more registered clients than
  \<open>MaxConnections\<close>, no client with more subscriptions than \<open>MaxChannelsPerConn\<close> or more pending
  messages than its buffer, and two bounded queues. The registry's two maps agree and hold no empty
  set, and a client is subscribed in it only to channels it has in its own set, so the number of
  subscribers of a channel is the number of the clients in the relation.
\<close>

theorem hub_caps_hold:
  assumes "0 \<le> hl_MaxConnections lim" "0 \<le> hl_MaxChannelsPerConn lim"
    and "(hub_op marshal decode)\<^sup>*\<^sup>* (NewHub lim) h"
  shows "int (card (hb_clients h)) \<le> hl_MaxConnections (hb_limits h)
    \<and> (\<forall>k c. hb_objs h k = Some c \<longrightarrow>
        int (length (hc_channels c)) \<le> hl_MaxChannelsPerConn (hb_limits h) \<and> length (hc_Send c) \<le> hc_cap c)
    \<and> length (hb_broadcast h) \<le> queue_cap \<and> length (hb_broadcastChan h) \<le> queue_cap
    \<and> registry_wf (hb_reg h)
    \<and> (\<forall>ch k. (ch, k) \<in> subscriptions (hb_reg h) \<longrightarrow>
        (\<exists>c. hb_objs h k = Some c \<and> ch \<in> set (hc_channels c)))
    \<and> (\<forall>ch. SubscriberCount ch (hb_reg h) = card {k. (ch, k) \<in> subscriptions (hb_reg h)})"
proof -
  have ok: "hub_ok h"
    using assms(3) by (induction rule: rtranclp_induct) (auto intro: hub_ok_NewHub assms hub_ok_op)
  have "\<exists>c. hb_objs h k = Some c \<and> ch \<in> set (hc_channels c)" if "(ch, k) \<in> subscriptions (hb_reg h)" for ch k
    using hub_ok_subscribed [OF ok that] by (auto simp: chans_def split: option.splits)
  with ok show ?thesis by (auto simp: hub_ok_def client_ok_def SubscriberCount_card)
qed

definition tiny_limits :: hub_limits where
  "tiny_limits = DefaultLimits\<lparr>hl_MaxConnections := 1\<rparr>"

lemma tiny_limits_sel [simp]: "hl_MaxConnections tiny_limits = 1" "hl_MaxChannelsPerConn tiny_limits = 32"
  by (simp_all add: tiny_limits_def DefaultLimits_def)

theorem hub_caps_hold_witness:
  "\<exists>h. (hub_op (\<lambda>_. '''') (\<lambda>_. None))\<^sup>*\<^sup>* (NewHub tiny_limits) h \<and> hb_clients h = {''a''}
     \<and> int (card (hb_clients h)) \<le> 1"
proof -
  let ?h0 = "NewHub tiny_limits"
  let ?h1 = "?h0\<lparr>hb_objs := (hb_objs ?h0)(''a'' \<mapsto> NewClient ''u'' [] (hb_limits ?h0))\<rparr>"
  let ?h2 = "snd (Hub_Register ''a'' ?h1)"
  have s: "hub_op (\<lambda>_. '''') (\<lambda>_. None) ?h0 ?h1" "hub_op (\<lambda>_. '''') (\<lambda>_. None) ?h1 ?h2"
    by (rule hub_op.new_client, simp add: NewHub_def) (rule hub_op.register)
  then have r: "(hub_op (\<lambda>_. '''') (\<lambda>_. None))\<^sup>*\<^sup>* ?h0 ?h2" by simp
  have "hb_clients ?h2 = {''a''}" "hl_MaxConnections (hb_limits ?h2) = 1"
    by (simp_all add: Hub_Register_def NewHub_def NewClient_def)
  with r hub_caps_hold [of tiny_limits, OF _ _ r] show ?thesis by (intro exI [of _ ?h2]) simp
qed


subsection \<open>Publishing\<close>

text \<open>
  The run loop: at its \<open>select\<close>, holding a payload whose channel it has not read, draining after the
  context was cancelled, draining with a payload in hand, returned.
\<close>

datatype run_pc = Running | Routing string | DrainLoop | DrainRouting string | RunReturned

text \<open>
  The system: the hub, the publishers between their two sends (channel and payload), the run loop, and
  the history of the accepted publishes and of the deliveries, as pairs of channel and payload.
\<close>

record run_hub =
  rh_hub :: hub
  rh_pending :: "(string \<times> string) list"
  rh_pc :: run_pc
  rh_published :: "(string \<times> string) list"
  rh_delivered :: "(string \<times> string) list"

definition rh_start :: "string \<Rightarrow> string \<Rightarrow> run_hub \<Rightarrow> run_hub" where
  "rh_start ch p s =
     (case publish_payload p (rh_hub s) of
        (False, _) \<Rightarrow> s
      | (True, h) \<Rightarrow> s\<lparr>rh_hub := h, rh_pending := rh_pending s @ [(ch, p)],
                        rh_published := rh_published s @ [(ch, p)]\<rparr>)"

definition rh_finish :: "string \<times> string \<Rightarrow> run_hub \<Rightarrow> run_hub" where
  "rh_finish cp s =
     s\<lparr>rh_hub := publish_channel (fst cp) (rh_hub s), rh_pending := remove1 cp (rh_pending s)\<rparr>"

text \<open>The same publish without an interruption.\<close>

definition rh_publish :: "string \<Rightarrow> string \<Rightarrow> run_hub \<Rightarrow> run_hub" where
  "rh_publish ch p s =
     (case Hub_Publish ch p (rh_hub s) of
        (False, _) \<Rightarrow> s
      | (True, h) \<Rightarrow> s\<lparr>rh_hub := h, rh_published := rh_published s @ [(ch, p)]\<rparr>)"

definition rh_deliver :: "string \<Rightarrow> string list \<Rightarrow> string \<Rightarrow> run_pc \<Rightarrow> run_hub \<Rightarrow> run_hub" where
  "rh_deliver ch chs p pc s =
     s\<lparr>rh_hub := hub_deliver ch p ((rh_hub s)\<lparr>hb_broadcastChan := chs\<rparr>), rh_pc := pc,
       rh_delivered := rh_delivered s @ [(ch, p)]\<rparr>"

text \<open>One step of \<open>Run\<close>; \<open>None\<close> when it is blocked or has returned.\<close>

definition Run_step :: "run_hub \<Rightarrow> run_hub option" where
  "Run_step s =
     (case rh_pc s of
        Running \<Rightarrow>
          (case hb_broadcast (rh_hub s) of
             [] \<Rightarrow> None
           | p # ps \<Rightarrow> Some (s\<lparr>rh_hub := (rh_hub s)\<lparr>hb_broadcast := ps\<rparr>, rh_pc := Routing p\<rparr>))
      | Routing p \<Rightarrow>
          (case hb_broadcastChan (rh_hub s) of
             [] \<Rightarrow> Some (s\<lparr>rh_pc := Running\<rparr>)
           | ch # chs \<Rightarrow> Some (rh_deliver ch chs p Running s))
      | DrainLoop \<Rightarrow>
          (case hb_broadcast (rh_hub s) of
             [] \<Rightarrow> Some (s\<lparr>rh_pc := RunReturned\<rparr>)
           | p # ps \<Rightarrow> Some (s\<lparr>rh_hub := (rh_hub s)\<lparr>hb_broadcast := ps\<rparr>, rh_pc := DrainRouting p\<rparr>))
      | DrainRouting p \<Rightarrow>
          (case hb_broadcastChan (rh_hub s) of
             [] \<Rightarrow> None
           | ch # chs \<Rightarrow> Some (rh_deliver ch chs p DrainLoop s))
      | RunReturned \<Rightarrow> None)"

text \<open>
  The steps; \<open>orderly\<close> says that a publish is never interrupted between its two sends and finds room
  in the second queue. Operations on clients and subscriptions leave the queues alone.
\<close>

inductive rh_step :: "bool \<Rightarrow> run_hub \<Rightarrow> run_hub \<Rightarrow> bool" for orderly where
  start: "\<not> orderly \<Longrightarrow> rh_step orderly s (rh_start ch p s)"
| finish: "\<not> orderly \<Longrightarrow> cp \<in> set (rh_pending s) \<Longrightarrow> rh_step orderly s (rh_finish cp s)"
| publish: "orderly \<Longrightarrow> length (hb_broadcastChan (rh_hub s)) < queue_cap \<Longrightarrow>
    rh_step orderly s (rh_publish ch p s)"
| run: "Run_step s = Some t \<Longrightarrow> rh_step orderly s t"
| cancel: "rh_pc s = Running \<Longrightarrow> rh_step orderly s (s\<lparr>rh_pc := DrainLoop\<rparr>)"
| clients: "hb_broadcast h = hb_broadcast (rh_hub s) \<Longrightarrow> hb_broadcastChan h = hb_broadcastChan (rh_hub s) \<Longrightarrow>
    rh_step orderly s (s\<lparr>rh_hub := h\<rparr>)"

definition rh_init :: "hub_limits \<Rightarrow> run_hub" where
  "rh_init lim = \<lparr>rh_hub = NewHub lim, rh_pending = [], rh_pc = Running, rh_published = [], rh_delivered = []\<rparr>"

abbreviation rh_reach :: "bool \<Rightarrow> hub_limits \<Rightarrow> run_hub \<Rightarrow> bool" where
  "rh_reach orderly lim \<equiv> (rh_step orderly)\<^sup>*\<^sup>* (rh_init lim)"

fun in_hand :: "run_pc \<Rightarrow> string list" where
  "in_hand (Routing p) = [p]"
| "in_hand (DrainRouting p) = [p]"
| "in_hand _ = []"

definition rh_synced :: "run_hub \<Rightarrow> bool" where
  "rh_synced s \<longleftrightarrow>
     (let ps = in_hand (rh_pc s) @ hb_broadcast (rh_hub s); chs = hb_broadcastChan (rh_hub s)
      in length ps = length chs \<and> rh_published s = rh_delivered s @ zip chs ps
         \<and> length (hb_broadcast (rh_hub s)) \<le> queue_cap)"


lemma hub_deliver_queues [simp]:
  "hb_broadcast (hub_deliver ch p h) = hb_broadcast h" "hb_broadcastChan (hub_deliver ch p h) = hb_broadcastChan h"
  by (simp_all add: hub_deliver_def registry_Broadcast_def split: option.splits)

lemma rh_synced_init: "rh_synced (rh_init lim)"
  by (simp add: rh_synced_def rh_init_def NewHub_def)

lemma Run_step_synced: "Run_step s = Some t \<Longrightarrow> rh_synced s \<Longrightarrow> rh_synced t"
  by (auto simp: Run_step_def rh_synced_def rh_deliver_def Let_def split: run_pc.splits list.splits)

lemma zip_snoc:
  "length cs = length xs + length ys \<Longrightarrow> zip (cs @ [c]) (xs @ ys @ [p]) = zip cs (xs @ ys) @ [(c, p)]"
  using zip_append [of cs "xs @ ys" "[c]" "[p]"] by simp

lemma rh_publish_synced:
  assumes "rh_synced s" "length (hb_broadcastChan (rh_hub s)) < queue_cap"
  shows "rh_synced (rh_publish ch p s)"
  using assms
  by (auto simp: rh_publish_def Hub_Publish_def publish_payload_def publish_channel_def rh_synced_def Let_def
    zip_snoc split: prod.splits bool.splits)

lemma rh_step_synced: "rh_step True s t \<Longrightarrow> rh_synced s \<Longrightarrow> rh_synced t"
proof (induction rule: rh_step.induct)
  case (run s t)
  then show ?case by (blast intro: Run_step_synced)
next
  case (publish s ch p)
  then show ?case by (blast intro: rh_publish_synced)
next
  case (cancel s)
  then show ?case by (simp add: rh_synced_def)
qed (simp_all add: rh_synced_def)

text \<open>
  C21: publishing in order delivers in order. As long as no publish is interrupted between its two
  sends and each finds room for its channel, the hub has delivered the accepted publishes from the
  first on, each payload to the channel it was published on, in the order of publishing, and the
  rest waits: in the hand of the run loop and in the two queues, in step with each other.
\<close>

theorem orderly_publish_in_order:
  assumes "rh_reach True lim s"
  shows "rh_published s = rh_delivered s
      @ zip (hb_broadcastChan (rh_hub s)) (in_hand (rh_pc s) @ hb_broadcast (rh_hub s))
    \<and> length (hb_broadcastChan (rh_hub s)) = length (in_hand (rh_pc s)) + length (hb_broadcast (rh_hub s))
    \<and> (hb_broadcastChan (rh_hub s) = [] \<longrightarrow> rh_delivered s = rh_published s)"
proof -
  have "rh_synced s"
    using assms by (induction rule: rtranclp_induct) (auto intro: rh_synced_init rh_step_synced)
  then show ?thesis by (auto simp: rh_synced_def Let_def)
qed


text \<open>Concrete runs of a hub without clients: the values of the queues, the loop and the history.\<close>

definition run_state ::
    "string list \<Rightarrow> string list \<Rightarrow> (string \<times> string) list \<Rightarrow> run_pc \<Rightarrow> (string \<times> string) list
     \<Rightarrow> (string \<times> string) list \<Rightarrow> run_hub" where
  "run_state b c pend pc pub del =
     \<lparr>rh_hub = (NewHub DefaultLimits)\<lparr>hb_broadcast := b, hb_broadcastChan := c\<rparr>, rh_pending = pend,
      rh_pc = pc, rh_published = pub, rh_delivered = del\<rparr>"

lemma run_state_sel [simp]:
  "hb_broadcast (rh_hub (run_state b c pend pc pub del)) = b"
  "hb_broadcastChan (rh_hub (run_state b c pend pc pub del)) = c"
  "rh_pending (run_state b c pend pc pub del) = pend" "rh_pc (run_state b c pend pc pub del) = pc"
  "rh_published (run_state b c pend pc pub del) = pub" "rh_delivered (run_state b c pend pc pub del) = del"
  by (simp_all add: run_state_def)

lemma run_init: "rh_init DefaultLimits = run_state [] [] [] Running [] []"
  by (simp add: rh_init_def run_state_def NewHub_def)

lemma run_start:
  "length b < queue_cap \<Longrightarrow> length p \<le> 1000 \<Longrightarrow>
     rh_start ch p (run_state b c pend pc pub del)
       = run_state (b @ [p]) c (pend @ [(ch, p)]) pc (pub @ [(ch, p)]) del"
  by (simp add: rh_start_def run_state_def publish_payload_def NewHub_def DefaultLimits_def)

lemma run_finish:
  "length c < queue_cap \<Longrightarrow>
     rh_finish cp (run_state b c pend pc pub del) = run_state b (c @ [fst cp]) (remove1 cp pend) pc pub del"
  by (simp add: rh_finish_def run_state_def publish_channel_def NewHub_def)

lemma run_publish:
  "length b < queue_cap \<Longrightarrow> length c < queue_cap \<Longrightarrow> length p \<le> 1000 \<Longrightarrow>
     rh_publish ch p (run_state b c pend pc pub del)
       = run_state (b @ [p]) (c @ [ch]) pend pc (pub @ [(ch, p)]) del"
  by (simp add: rh_publish_def Hub_Publish_def run_state_def publish_payload_def publish_channel_def
    NewHub_def DefaultLimits_def)

lemma run_steps:
  "Run_step (run_state (p # b) c pend Running pub del) = Some (run_state b c pend (Routing p) pub del)"
  "Run_step (run_state b [] pend (Routing p) pub del) = Some (run_state b [] pend Running pub del)"
  "Run_step (run_state b (ch # c) pend (Routing p) pub del)
     = Some (run_state b c pend Running pub (del @ [(ch, p)]))"
  by (simp_all add: Run_step_def rh_deliver_def run_state_def hub_deliver_def registry_Broadcast_def NewHub_def
    NewChannelRegistry_def)

theorem orderly_publish_in_order_witness:
  "\<exists>s. rh_reach True DefaultLimits s \<and> rh_published s = [(''alert'', ''x'')]
     \<and> rh_delivered s = [(''alert'', ''x'')]"
proof -
  let ?x = "(''alert'', ''x'')"
  let ?s0 = "run_state [] [] [] Running [] []"
  let ?s1 = "run_state [''x''] [''alert''] [] Running [?x] []"
  let ?s2 = "run_state [] [''alert''] [] (Routing ''x'') [?x] []"
  let ?s3 = "run_state [] [] [] Running [?x] [?x]"
  have 1: "rh_step True ?s0 ?s1"
    using rh_step.publish [of True ?s0 "''alert''" "''x''"] by (simp add: run_publish)
  have 2: "rh_step True ?s1 ?s2" "rh_step True ?s2 ?s3"
    by (rule rh_step.run, simp add: run_steps)+
  have "successively (rh_step True) [?s0, ?s1, ?s2, ?s3]"
    by (simp only: successively.simps 1 2 simp_thms)
  from successively_rtranclp [OF this] have r: "rh_reach True DefaultLimits ?s3" by (simp add: run_init)
  from orderly_publish_in_order [OF r] r show ?thesis by (intro exI [of _ ?s3]) simp
qed

text \<open>
  One interrupted publish misroutes every later one. There is a run with a single publisher, whose
  second publish starts after the first has returned, in which the loop takes the first payload
  before its channel was sent and drops it; the channel stays behind, and the second payload is
  delivered to the channel of the first: a subscriber of one channel receives what was published on
  another.
\<close>

theorem interrupted_publish_misroutes:
  "\<exists>s. rh_reach False DefaultLimits s \<and> rh_published s = [(''alert'', ''x''), (''container_log'', ''y'')]
     \<and> rh_pending s = [] \<and> rh_delivered s = [(''alert'', ''y'')]
     \<and> hb_broadcast (rh_hub s) = [] \<and> hb_broadcastChan (rh_hub s) = [''container_log'']"
proof -
  let ?x = "(''alert'', ''x'')" and ?y = "(''container_log'', ''y'')"
  let ?s0 = "run_state [] [] [] Running [] []"
  let ?s1 = "run_state [''x''] [] [?x] Running [?x] []"
  let ?s2 = "run_state [] [] [?x] (Routing ''x'') [?x] []"
  let ?s3 = "run_state [] [] [?x] Running [?x] []"
  let ?s4 = "run_state [] [''alert''] [] Running [?x] []"
  let ?s5 = "run_state [''y''] [''alert''] [?y] Running [?x, ?y] []"
  let ?s6 = "run_state [''y''] [''alert'', ''container_log''] [] Running [?x, ?y] []"
  let ?s7 = "run_state [] [''alert'', ''container_log''] [] (Routing ''y'') [?x, ?y] []"
  let ?s8 = "run_state [] [''container_log''] [] Running [?x, ?y] [(''alert'', ''y'')]"
  have p: "rh_step False ?s0 ?s1" "rh_step False ?s4 ?s5"
    using rh_step.start [of False ?s0 "''alert''" "''x''"] rh_step.start [of False ?s4 "''container_log''" "''y''"]
    by (simp_all add: run_start)
  have f: "rh_step False ?s3 ?s4" "rh_step False ?s5 ?s6"
    using rh_step.finish [of False ?x ?s3] rh_step.finish [of False ?y ?s5] by (simp_all add: run_finish)
  have r: "rh_step False ?s1 ?s2" "rh_step False ?s2 ?s3" "rh_step False ?s6 ?s7" "rh_step False ?s7 ?s8"
    by (rule rh_step.run, simp add: run_steps)+
  have "successively (rh_step False) [?s0, ?s1, ?s2, ?s3, ?s4, ?s5, ?s6, ?s7, ?s8]"
    by (simp only: successively.simps p f r simp_thms)
  from successively_rtranclp [OF this] have "rh_reach False DefaultLimits ?s8" by (simp add: run_init)
  then show ?thesis by (intro exI [of _ ?s8]) simp
qed

end
