(* ===== verification/Project.thy ===== *)
theory Project
  imports Json_Map Caller Audit_Service
begin

text \<open>
  The project hierarchy below the service (\<open>internal/project\<close>): the rows (\<open>models.go\<close>), the roles and
  bounds (\<open>types.go\<close>), the JSON column (\<open>jsonmap.go\<close>), the tree builder (\<open>tree.go\<close>) and the repository
  (\<open>repository.go\<close>). The walks along the hierarchy (\<open>GetAncestors\<close>, \<open>GetTree\<close>) are loops that follow
  the rows of the database; a walk that does not return is \<open>None\<close>.
\<close>

subsection \<open>Rows\<close>

record project_type =
  pt_ID :: string
  pt_Name :: string
  pt_Description :: string
  pt_Weight :: int64

record project =
  pj_ID :: string
  pj_Name :: string
  pj_Code :: string
  pj_Description :: string
  pj_ParentID :: "string option"
  pj_TypeID :: string
  pj_OwnerUserID :: "string option"
  pj_Weight :: int64
  pj_Labels :: json_map
  pj_Metadata :: json_map

record project_member =
  pm_ID :: string
  pm_ProjectID :: string
  pm_UserID :: string
  pm_Role :: string
  pm_AddedBy :: string
  pm_AddedAt :: time

abbreviation MaxDepth :: int where "MaxDepth \<equiv> 3"

definition IsValidProjectRole :: "string \<Rightarrow> bool" where
  "IsValidProjectRole role \<longleftrightarrow>
     role = ProjectRoleViewer \<or> role = ProjectRoleEditor \<or> role = ProjectRoleAdmin"

definition IsValidWeight :: "int64 \<Rightarrow> bool" where
  "IsValidWeight w \<longleftrightarrow> 0 \<le>s w"

text \<open>
  The column type of the labels and metadata, with its own error texts; the payload that the source
  appends to a decoding error is left out.
\<close>

definition project_JSONMap_decode :: "json_codec \<Rightarrow> string \<Rightarrow> json_map result" where
  "project_JSONMap_decode jc v =
     (if v = '''' then Inr (Some [])
      else (case jc_Unmarshal jc v of
              Inl err \<Rightarrow> Inl (Wrapped ''JSONMap.Scan: '' err)
            | Inr j \<Rightarrow> map_sum (Wrapped ''JSONMap.Scan: '') stored_map (as_object j)))"

fun project_JSONMap_Scan :: "json_codec \<Rightarrow> db_value \<Rightarrow> json_map result" where
  "project_JSONMap_Scan jc DbNull = Inr (Some [])"
| "project_JSONMap_Scan jc (DbBytes v) = project_JSONMap_decode jc v"
| "project_JSONMap_Scan jc (DbString v) = project_JSONMap_decode jc v"
| "project_JSONMap_Scan jc (DbOther ty) = Inl (scan_error ''JSONMap'' ty)"

subsection \<open>The tree of a flat list\<close>

datatype project_node = ProjectNode project "project_node list"

text \<open>
  \<open>sort_by_name\<close> is \<open>sort.Slice\<close> by name, whose order of equal names is not specified. The recursion
  follows the children of a node; \<open>None\<close> is a recursion deeper than the fuel.
\<close>

definition byParent :: "project list \<Rightarrow> string \<Rightarrow> project list" where
  "byParent ps k = filter (\<lambda>p. pj_ParentID p = Some k) ps"

fun buildNode ::
    "(project list \<Rightarrow> project list) \<Rightarrow> nat \<Rightarrow> project list \<Rightarrow> project \<Rightarrow> project_node option" where
  "buildNode sort_by_name 0 ps p = None"
| "buildNode sort_by_name (Suc fuel) ps p =
     (let kids = byParent ps (pj_ID p)
      in if kids = [] then Some (ProjectNode p [])
         else map_option (ProjectNode p)
                (those (map (buildNode sort_by_name fuel ps) (sort_by_name kids))))"

text \<open>The last row with the identifier is the root. The outer \<open>None\<close> is the endless recursion, the inner one nil.\<close>

definition BuildTree ::
    "(project list \<Rightarrow> project list) \<Rightarrow> nat \<Rightarrow> project list \<Rightarrow> string \<Rightarrow> project_node option option" where
  "BuildTree sort_by_name fuel ps rootID =
     (case find (\<lambda>p. pj_ID p = rootID) (rev ps) of
        None \<Rightarrow> Some None
      | Some rt \<Rightarrow> map_option Some (buildNode sort_by_name fuel ps rt))"

subsection \<open>Errors of the repository\<close>

definition project_notFound :: "string \<Rightarrow> string \<Rightarrow> go_error" where
  "project_notFound kind k = APIError CodeNotFound (kind @ '' '' @ k @ '' not found'') None"

definition project_IsNotFound :: "go_error \<Rightarrow> bool" where
  "project_IsNotFound err \<longleftrightarrow>
     (case errors_As_API err of None \<Rightarrow> False | Some (c, _) \<Rightarrow> c = CodeNotFound)"

definition project_IsConflict :: "go_error \<Rightarrow> bool" where
  "project_IsConflict err \<longleftrightarrow>
     (case errors_As_API err of None \<Rightarrow> False | Some (c, _) \<Rightarrow> c = CodeConflict)"

text \<open>
  \<open>SplitN(s, ".", 2)[1]\<close>, out of range when there is no dot: \<open>None\<close> is the panic. A panic in a
  repository call unwinds to the recovery middleware without a further effect, like an error that every
  caller returns as it is; it is the error value \<open>index_panic\<close>.
\<close>

definition after_dot :: "string \<Rightarrow> string option" where
  "after_dot s = (case dropWhile (\<lambda>c. c \<noteq> CHR ''.'') s of [] \<Rightarrow> None | _ # r \<Rightarrow> Some r)"

abbreviation index_panic :: go_error where
  "index_panic \<equiv> External ''runtime error: index out of range [1] with length 1''"

definition isUniqueViolation :: "go_error \<Rightarrow> string \<Rightarrow> bool option" where
  "isUniqueViolation err indexSubstring =
     (let msg = Error_text err
      in if \<not> Contains msg ''UNIQUE constraint failed'' \<and> \<not> Contains msg ''duplicate key'' then Some False
         else if indexSubstring = '''' then Some True
         else if Contains msg indexSubstring then Some True
         else map_option (Contains msg) (after_dot indexSubstring))"

definition unique_error :: "go_error \<Rightarrow> string \<Rightarrow> string \<Rightarrow> go_error" where
  "unique_error err index conflict =
     (case isUniqueViolation err index of
        None \<Rightarrow> index_panic
      | Some True \<Rightarrow> APIError CodeConflict conflict None
      | Some False \<Rightarrow> err)"

subsection \<open>The repository\<close>

record project_filter =
  pq_ParentID :: "string option"
  pq_TypeID :: string
  pq_OwnerID :: "string option"
  pq_Search :: string
  pq_Depth :: int64
  pq_Limit :: int64
  pq_Offset :: int64

definition empty_project_filter :: project_filter where
  "empty_project_filter =
     \<lparr>pq_ParentID = None, pq_TypeID = '''', pq_OwnerID = None, pq_Search = '''', pq_Depth = 0,
      pq_Limit = 0, pq_Offset = 0\<rparr>"

definition CreateType_repo ::
    "('t, project_type) gorm \<Rightarrow> string \<Rightarrow> 't \<Rightarrow> project_type \<Rightarrow> (project_type \<times> 't) result" where
  "CreateType_repo g newID db t =
     (let t = t\<lparr>pt_ID := BaseModel_BeforeCreate newID (pt_ID t)\<rparr>
      in case db_Create g db t of
           Inl err \<Rightarrow> Inl (unique_error err ''project_types.name'' ''project type name already exists'')
         | Inr db \<Rightarrow> Inr (t, db))"

definition ListTypes_repo :: "('t, project_type) gorm \<Rightarrow> 't \<Rightarrow> project_type list result" where
  "ListTypes_repo g db = db_Find g db (\<lambda>_. True)"

definition project_row :: "project \<Rightarrow> project" where
  "project_row p = p\<lparr>pj_Labels := stored_map (pj_Labels p), pj_Metadata := stored_map (pj_Metadata p)\<rparr>"

definition CreateProject_repo ::
    "('p, project) gorm \<Rightarrow> string \<Rightarrow> 'p \<Rightarrow> project \<Rightarrow> (project \<times> 'p) result" where
  "CreateProject_repo g newID db p =
     (let p = p\<lparr>pj_ID := BaseModel_BeforeCreate newID (pj_ID p)\<rparr>
      in case db_Create g db (project_row p) of
           Inl err \<Rightarrow> Inl (unique_error err ''projects.code'' ''project code already exists'')
         | Inr db \<Rightarrow> Inr (p, db))"

definition Project_Get :: "('p, project) gorm \<Rightarrow> 'p \<Rightarrow> string \<Rightarrow> project result" where
  "Project_Get g db k = repo_Get g (project_notFound ''project'' k) db k"

definition child_of :: "string \<Rightarrow> project \<Rightarrow> bool" where
  "child_of k p \<longleftrightarrow> pj_ParentID p = Some k"

definition ListMembers_repo :: "('m, project_member) gorm_bulk \<Rightarrow> 'm \<Rightarrow> string \<Rightarrow> project_member list result" where
  "ListMembers_repo b db projectID = db_Find (gb_table b) db (\<lambda>m. pm_ProjectID m = projectID)"

definition GetWithRelations ::
    "('p, project) gorm \<Rightarrow> ('m, project_member) gorm_bulk \<Rightarrow> 'p \<Rightarrow> 'm \<Rightarrow> string
     \<Rightarrow> (project \<times> project list \<times> project_member list) result" where
  "GetWithRelations g b db dbm k =
     (case Project_Get g db k of
        Inl err \<Rightarrow> Inl err
      | Inr p \<Rightarrow>
          (case db_Find g db (child_of k) of
             Inl err \<Rightarrow> Inl err
           | Inr children \<Rightarrow>
               (case ListMembers_repo b dbm k of
                  Inl err \<Rightarrow> Inl err
                | Inr ms \<Rightarrow> Inr (p, children, ms))))"

text \<open>
  The list. \<open>like\<close> is the database's \<open>LIKE\<close>, on a value and a pattern; the depth filter is raw SQL over
  the table, whose rows, deleted ones included, are \<open>raw\<close>.
\<close>

definition raw_ids :: "project list \<Rightarrow> (project \<Rightarrow> bool) \<Rightarrow> string set" where
  "raw_ids raw P = pj_ID ` set (filter P raw)"

definition depth_matches :: "project list \<Rightarrow> int64 \<Rightarrow> project \<Rightarrow> bool" where
  "depth_matches raw d p =
     (let roots = raw_ids raw (\<lambda>q. pj_ParentID q = None);
          below = (\<lambda>ids q. case pj_ParentID q of None \<Rightarrow> False | Some k \<Rightarrow> k \<in> ids)
      in if d = 1 then pj_ParentID p = None
         else if d = 2 then below roots p
         else if d = 3 then below (raw_ids raw (below roots)) p
         else True)"

definition project_matches ::
    "(string \<Rightarrow> string \<Rightarrow> bool) \<Rightarrow> project list \<Rightarrow> project_filter \<Rightarrow> project \<Rightarrow> bool" where
  "project_matches like raw f p \<longleftrightarrow>
     (case pq_ParentID f of None \<Rightarrow> True | Some k \<Rightarrow> child_of k p) \<and>
     (pq_TypeID f = '''' \<or> pj_TypeID p = pq_TypeID f) \<and>
     (case pq_OwnerID f of None \<Rightarrow> True | Some u \<Rightarrow> pj_OwnerUserID p = Some u) \<and>
     (pq_Search f = '''' \<or> like (pj_Name p) (''%'' @ pq_Search f @ ''%'')
        \<or> like (pj_Code p) (''%'' @ pq_Search f @ ''%'')) \<and>
     depth_matches raw (pq_Depth f) p"

definition Project_List ::
    "('p, project) gorm \<Rightarrow> (string \<Rightarrow> string \<Rightarrow> bool) \<Rightarrow> ('p \<Rightarrow> project list) \<Rightarrow> 'p \<Rightarrow> project_filter
     \<Rightarrow> (project list \<times> nat) result" where
  "Project_List g like raw db f =
     (case db_Find g db (project_matches like (raw db) f) of
        Inl err \<Rightarrow> Inl err
      | Inr all \<Rightarrow>
          (case db_Find g db (project_matches like (raw db) f) of
             Inl err \<Rightarrow> Inl err
           | Inr rs \<Rightarrow>
               Inr (if 0 <s pq_Limit f then page_of (sint (pq_Limit f)) (sint (pq_Offset f)) rs else rs,
                    length all)))"

text \<open>A patch is the list of the columns it sets.\<close>

datatype project_col =
    SetProjectName string
  | SetProjectDescription string
  | SetProjectOwner string
  | SetProjectWeight int64
  | SetProjectParent string

fun set_project_col :: "project_col \<Rightarrow> project \<Rightarrow> project" where
  "set_project_col (SetProjectName v) p = p\<lparr>pj_Name := v\<rparr>"
| "set_project_col (SetProjectDescription v) p = p\<lparr>pj_Description := v\<rparr>"
| "set_project_col (SetProjectOwner v) p = p\<lparr>pj_OwnerUserID := Some v\<rparr>"
| "set_project_col (SetProjectWeight v) p = p\<lparr>pj_Weight := v\<rparr>"
| "set_project_col (SetProjectParent v) p = p\<lparr>pj_ParentID := Some v\<rparr>"

text \<open>The update re-reads the row; when the read fails the update has happened.\<close>

definition Project_Update ::
    "('p, project) gorm \<Rightarrow> 'p \<Rightarrow> string \<Rightarrow> project_col list \<Rightarrow> project result \<times> 'p" where
  "Project_Update g db k patch =
     (if patch = [] then (Inl (invalid ''update patch is empty''), db)
      else
        (case db_Updates g db k (fold set_project_col patch) of
           Inl err \<Rightarrow> (Inl (unique_error err ''projects.code'' ''project code already exists''), db)
         | Inr (n, db) \<Rightarrow>
             if n = 0 then (Inl (project_notFound ''project'' k), db) else (Project_Get g db k, db)))"

definition Project_Delete :: "('p, project) gorm \<Rightarrow> 'p \<Rightarrow> string \<Rightarrow> 'p result" where
  "Project_Delete g db k =
     (case db_Delete g db k of
        Inl err \<Rightarrow> Inl err
      | Inr (n, db) \<Rightarrow> if n = 0 then Inl (project_notFound ''project'' k) else Inr db)"

definition CountChildren :: "('p, project) gorm \<Rightarrow> 'p \<Rightarrow> string \<Rightarrow> nat result" where
  "CountChildren g db k = map_sum (\<lambda>e. e) length (db_Find g db (child_of k))"

text \<open>The walk up to the root, leaf first; the result is reversed.\<close>

partial_function (option) ancestors_loop ::
    "('p, project) gorm \<Rightarrow> 'p \<Rightarrow> project \<Rightarrow> project list \<Rightarrow> project list result option" where
  "ancestors_loop g db cur chain =
     (case pj_ParentID cur of
        None \<Rightarrow> Some (Inr chain)
      | Some k \<Rightarrow>
          (case Project_Get g db k of
             Inl err \<Rightarrow> Some (Inl err)
           | Inr parent \<Rightarrow> ancestors_loop g db parent (chain @ [parent])))"

definition GetAncestors :: "('p, project) gorm \<Rightarrow> 'p \<Rightarrow> string \<Rightarrow> project list result option" where
  "GetAncestors g db k =
     (case Project_Get g db k of
        Inl err \<Rightarrow> Some (Inl err)
      | Inr cur \<Rightarrow> map_option (map_sum (\<lambda>e. e) rev) (ancestors_loop g db cur []))"

text \<open>The walk down, level by level.\<close>

partial_function (option) tree_loop ::
    "('p, project) gorm \<Rightarrow> 'p \<Rightarrow> string list \<Rightarrow> project list \<Rightarrow> project list result option" where
  "tree_loop g db frontier acc =
     (if frontier = [] then Some (Inr acc)
      else
        (case db_Find g db (\<lambda>p. \<exists>k\<in>set frontier. child_of k p) of
           Inl err \<Rightarrow> Some (Inl err)
         | Inr children \<Rightarrow>
             if children = [] then Some (Inr acc)
             else tree_loop g db (map pj_ID children) (acc @ children)))"

definition GetTree :: "('p, project) gorm \<Rightarrow> 'p \<Rightarrow> string \<Rightarrow> project list result option" where
  "GetTree g db rootID =
     (case Project_Get g db rootID of
        Inl err \<Rightarrow> Some (Inl err)
      | Inr rt \<Rightarrow> tree_loop g db [rootID] [rt])"

subsection \<open>Members\<close>

text \<open>The time of \<open>AddedAt\<close> is set on the value in memory after the insertion: the row keeps the zero time.\<close>

definition AddMember ::
    "('m, project_member) gorm_bulk \<Rightarrow> string \<Rightarrow> 'm \<Rightarrow> string \<Rightarrow> string \<Rightarrow> string \<Rightarrow> string \<Rightarrow> 'm result" where
  "AddMember b newID db projectID userID role addedBy =
     (case db_Create (gb_table b) db
             \<lparr>pm_ID = BaseModel_BeforeCreate newID '''', pm_ProjectID = projectID, pm_UserID = userID,
              pm_Role = role, pm_AddedBy = addedBy, pm_AddedAt = zero_time\<rparr> of
        Inl err \<Rightarrow> Inl (unique_error err ''project_members'' ''user is already a member of this project'')
      | Inr db \<Rightarrow> Inr db)"

definition is_membership :: "string \<Rightarrow> string \<Rightarrow> project_member \<Rightarrow> bool" where
  "is_membership projectID userID m \<longleftrightarrow> pm_ProjectID m = projectID \<and> pm_UserID m = userID"

definition RemoveMember ::
    "('m, project_member) gorm_bulk \<Rightarrow> 'm \<Rightarrow> string \<Rightarrow> string \<Rightarrow> 'm result" where
  "RemoveMember b db projectID userID =
     (case gb_Delete b db (is_membership projectID userID) of
        Inl err \<Rightarrow> Inl err
      | Inr (n, db) \<Rightarrow>
          if n = 0 then Inl (project_notFound ''project member'' (projectID @ '':'' @ userID)) else Inr db)"

text \<open>The promotion of an existing member, in the service (\<open>service.go\<close>), next to its table.\<close>

definition promote_member ::
    "('m, project_member) gorm_bulk \<Rightarrow> 'm \<Rightarrow> string \<Rightarrow> string \<Rightarrow> string \<Rightarrow> string \<Rightarrow> 'm result" where
  "promote_member b db projectID userID role addedBy =
     map_sum (\<lambda>e. e) snd
       (gb_Updates b db (is_membership projectID userID) (\<lambda>m. m\<lparr>pm_Role := role, pm_AddedBy := addedBy\<rparr>))"

definition ListProjectIDsForUser ::
    "('m, project_member) gorm_bulk \<Rightarrow> 'm \<Rightarrow> string \<Rightarrow> string set option \<times> go_error option" where
  "ListProjectIDsForUser b db userID =
     (if userID = '''' then (None, Some (invalid ''userID is required''))
      else
        (case db_Find (gb_table b) db (\<lambda>m. pm_UserID m = userID) of
           Inl err \<Rightarrow> (None, Some err)
         | Inr rs \<Rightarrow> (Some (pm_ProjectID ` set rs), None)))"

end
