(* ===== verification/Project_Service.thy ===== *)
theory Project_Service
  imports Project
begin

text \<open>
  The service of the project hierarchy (\<open>internal/project/service.go\<close>) and its HTTP handlers
  (\<open>handler.go\<close>). The world holds the three tables and the environment (clock, identifiers, audit
  sink); the membership checker reads the world, and by default queries the member table. An operation
  that walks the hierarchy may not return: its result is an option.
\<close>

subsection \<open>The service\<close>

record ('t, 'p, 'm, 'w) project_world =
  jw_types :: 't
  jw_projects :: 'p
  jw_members :: 'm
  jw_env :: 'w

record ('t, 'p, 'm, 's, 'w) project_service =
  js_types :: "('t, project_type) gorm"
  js_projects :: "('p, project) gorm"
  js_members :: "('m, project_member) gorm_bulk"
  js_like :: "string \<Rightarrow> string \<Rightarrow> bool"
  js_raw :: "'p \<Rightarrow> project list"
  js_checker :: "('t, 'p, 'm, 'w) project_world membership_checker option"
  js_audit :: "('s, 'w) audit_service option"
  js_newID :: "'w \<Rightarrow> string \<times> 'w"

text \<open>The checker the constructor installs, and that \<open>MembershipChecker\<close> hands to the middlewares.\<close>

definition MembershipChecker ::
    "('m, project_member) gorm_bulk \<Rightarrow> ('t, 'p, 'm, 'w) project_world membership_checker" where
  "MembershipChecker b userID w = (ListProjectIDsForUser b (jw_members w) userID, w)"

definition NewProjectService ::
    "('t, project_type) gorm \<Rightarrow> ('p, project) gorm \<Rightarrow> ('m, project_member) gorm_bulk
     \<Rightarrow> (string \<Rightarrow> string \<Rightarrow> bool) \<Rightarrow> ('p \<Rightarrow> project list) \<Rightarrow> ('s, 'w) audit_service option
     \<Rightarrow> ('w \<Rightarrow> string \<times> 'w) \<Rightarrow> ('t, 'p, 'm, 's, 'w) project_service" where
  "NewProjectService gt gp gm like raw aud newID =
     \<lparr>js_types = gt, js_projects = gp, js_members = gm, js_like = like, js_raw = raw,
      js_checker = Some (MembershipChecker gm), js_audit = aud, js_newID = newID\<rparr>"

abbreviation ErrProjectUnauthenticated :: go_error where
  "ErrProjectUnauthenticated \<equiv> Sentinel ''project: unauthenticated''"
abbreviation ErrProjectForbidden :: go_error where
  "ErrProjectForbidden \<equiv> Sentinel ''project: forbidden''"

definition requireMembership ::
    "('t, 'p, 'm, 's, 'w) project_service \<Rightarrow> ctx \<Rightarrow> string \<Rightarrow> ('t, 'p, 'm, 'w) project_world
     \<Rightarrow> go_error option \<times> ('t, 'p, 'm, 'w) project_world" where
  "requireMembership s c projectID w =
     (case authenticated c of
        None \<Rightarrow> (Some ErrProjectUnauthenticated, w)
      | Some cl \<Rightarrow>
          if IsSuperAdmin cl then (None, w)
          else
            (case IsMemberOf projectID (js_checker s) cl w of
               (b, _, w) \<Rightarrow> if b then (None, w) else (Some ErrProjectForbidden, w)))"

definition project_action :: "string \<Rightarrow> string \<Rightarrow> string \<Rightarrow> json_map \<Rightarrow> record_action_input" where
  "project_action action resource k md =
     \<lparr>ra_Action = action, ra_ResourceType = resource, ra_ResourceID = k, ra_ActorID = '''',
      ra_ActorName = '''', ra_Metadata = md, ra_IPAddress = '''', ra_UserAgent = ''''\<rparr>"

text \<open>The actor of the caller on the context, unless the input names one.\<close>

definition with_actor :: "ctx \<Rightarrow> record_action_input \<Rightarrow> record_action_input" where
  "with_actor c inp =
     (if ra_ActorID inp = '''' then
        (case authenticated c of
           None \<Rightarrow> inp
         | Some cl \<Rightarrow>
             (case Option.bind cl cl_User of
                None \<Rightarrow> inp
              | Some u \<Rightarrow>
                  inp\<lparr>ra_ActorID := user_ID u,
                      ra_ActorName := (if ra_ActorName inp = '''' then user_Username u else ra_ActorName inp)\<rparr>))
      else inp)"

definition project_emitAudit ::
    "('t, 'p, 'm, 's, 'w) project_service \<Rightarrow> ctx \<Rightarrow> record_action_input \<Rightarrow> ('t, 'p, 'm, 'w) project_world
     \<Rightarrow> ('t, 'p, 'm, 'w) project_world" where
  "project_emitAudit s c inp w =
     (if js_audit s = None then w
      else w\<lparr>jw_env := RecordAction (js_audit s) (with_actor c inp) (jw_env w)\<rparr>)"

subsection \<open>Types\<close>

definition Project_CreateType ::
    "('t, 'p, 'm, 's, 'w) project_service \<Rightarrow> ctx \<Rightarrow> project_type \<Rightarrow> ('t, 'p, 'm, 'w) project_world
     \<Rightarrow> project_type result \<times> ('t, 'p, 'm, 'w) project_world" where
  "Project_CreateType s c t w =
     (case requireMembership s c '''' w of
        (Some err, w) \<Rightarrow> (Inl err, w)
      | (None, w) \<Rightarrow>
          if TrimSpace (pt_Name t) = '''' then (Inl (invalid ''type name is required''), w)
          else
            (case js_newID s (jw_env w) of
               (k, env) \<Rightarrow>
                 (case CreateType_repo (js_types s) k (jw_types w) t of
                    Inl err \<Rightarrow> (Inl err, w\<lparr>jw_env := env\<rparr>)
                  | Inr (t, db) \<Rightarrow> (Inr t, w\<lparr>jw_env := env, jw_types := db\<rparr>))))"

definition Project_ListTypes ::
    "('t, 'p, 'm, 's, 'w) project_service \<Rightarrow> ctx \<Rightarrow> ('t, 'p, 'm, 'w) project_world
     \<Rightarrow> project_type list result \<times> ('t, 'p, 'm, 'w) project_world" where
  "Project_ListTypes s c w =
     (case requireMembership s c '''' w of
        (Some err, w) \<Rightarrow> (Inl err, w)
      | (None, w) \<Rightarrow> (ListTypes_repo (js_types s) (jw_types w), w))"

definition Project_ListAllTypes where
  "Project_ListAllTypes s c w = Project_ListTypes s c w"

subsection \<open>Creating a project\<close>

record create_project_input =
  np_Name :: string
  np_Code :: string
  np_Desc :: string
  np_ParentID :: "string option"
  np_TypeID :: string
  np_OwnerUserID :: "string option"
  np_Weight :: int64
  np_Labels :: json_map
  np_Metadata :: json_map

text \<open>The pattern \<open>^[a-z][a-z0-9-]{0,63}$\<close>.\<close>

definition slug_letter :: "char \<Rightarrow> bool" where
  "slug_letter c \<longleftrightarrow> 97 \<le> (of_char c :: nat) \<and> (of_char c :: nat) \<le> 122"

definition slug_char :: "char \<Rightarrow> bool" where
  "slug_char c \<longleftrightarrow> slug_letter c \<or> is_digit c \<or> c = CHR ''-''"

fun codePattern :: "string \<Rightarrow> bool" where
  "codePattern [] = False"
| "codePattern (c # cs) \<longleftrightarrow> slug_letter c \<and> length cs \<le> 63 \<and> list_all slug_char cs"

definition validateProjectFields :: "string \<Rightarrow> string \<Rightarrow> string \<Rightarrow> go_error option" where
  "validateProjectFields name code typeID =
     (if TrimSpace name = '''' then Some (invalid ''name is required'')
      else if TrimSpace code = '''' then Some (invalid ''code is required'')
      else if \<not> codePattern code then
        Some (invalid ''code must be 1-64 chars of [a-z0-9-] starting with a letter'')
      else if TrimSpace typeID = '''' then Some (invalid ''type_id is required'')
      else None)"

definition depthOf :: "('p, project) gorm \<Rightarrow> 'p \<Rightarrow> string \<Rightarrow> int result option" where
  "depthOf g db k = map_option (map_sum (\<lambda>e. e) (\<lambda>chain. int (length chain) + 1)) (GetAncestors g db k)"

definition too_deep :: go_error where
  "too_deep = invalid ''hierarchy is limited to 3 levels (BusinessLine -> System -> Project)''"

text \<open>The depth of the parent, which must exist; the first checks of both writers.\<close>

definition parent_depth :: "('p, project) gorm \<Rightarrow> 'p \<Rightarrow> string \<Rightarrow> int result option" where
  "parent_depth g db k =
     (case Project_Get g db k of
        Inl err \<Rightarrow>
          Some (Inl (if project_IsNotFound err then invalid ''parent project does not exist'' else err))
      | Inr parent \<Rightarrow> depthOf g db (pj_ID parent))"

definition room_below :: "int \<Rightarrow> unit result" where
  "room_below d = (if MaxDepth < d + 1 then Inl too_deep else Inr ())"

definition type_exists :: "('t, project_type) gorm \<Rightarrow> 't \<Rightarrow> string \<Rightarrow> unit result" where
  "type_exists g db k =
     (case ListTypes_repo g db of
        Inl err \<Rightarrow> Inl err
      | Inr _ \<Rightarrow>
          (case ListTypes_repo g db of
             Inl err \<Rightarrow> Inl err
           | Inr ts \<Rightarrow>
               if list_ex (\<lambda>t. pt_ID t = k) ts then Inr ()
               else Inl (invalid ''type_id does not reference an existing project type'')))"

definition new_project :: "create_project_input \<Rightarrow> project" where
  "new_project inp =
     \<lparr>pj_ID = '''', pj_Name = TrimSpace (np_Name inp), pj_Code = ToLower (TrimSpace (np_Code inp)),
      pj_Description = np_Desc inp, pj_ParentID = np_ParentID inp, pj_TypeID = np_TypeID inp,
      pj_OwnerUserID = np_OwnerUserID inp, pj_Weight = np_Weight inp, pj_Labels = np_Labels inp,
      pj_Metadata = np_Metadata inp\<rparr>"

definition check_create ::
    "('t, 'p, 'm, 's, 'w) project_service \<Rightarrow> create_project_input \<Rightarrow> ('t, 'p, 'm, 'w) project_world
     \<Rightarrow> unit result option" where
  "check_create s inp w =
     (case validateProjectFields (np_Name inp) (np_Code inp) (np_TypeID inp) of
        Some err \<Rightarrow> Some (Inl err)
      | None \<Rightarrow>
          if \<not> IsValidWeight (np_Weight inp) then Some (Inl (invalid ''weight must be non-negative''))
          else
            (case (case np_ParentID inp of
                     None \<Rightarrow> Some (Inr ())
                   | Some k \<Rightarrow>
                       (case parent_depth (js_projects s) (jw_projects w) k of
                          None \<Rightarrow> None
                        | Some (Inl err) \<Rightarrow> Some (Inl err)
                        | Some (Inr d) \<Rightarrow> Some (room_below d))) of
               None \<Rightarrow> None
             | Some (Inl err) \<Rightarrow> Some (Inl err)
             | Some (Inr _) \<Rightarrow> Some (type_exists (js_types s) (jw_types w) (np_TypeID inp))))"

definition CreateProject ::
    "('t, 'p, 'm, 's, 'w) project_service \<Rightarrow> ctx \<Rightarrow> create_project_input \<Rightarrow> ('t, 'p, 'm, 'w) project_world
     \<Rightarrow> (project result \<times> ('t, 'p, 'm, 'w) project_world) option" where
  "CreateProject s c inp w =
     (case requireMembership s c (case np_ParentID inp of None \<Rightarrow> '''' | Some k \<Rightarrow> k) w of
        (Some err, w) \<Rightarrow> Some (Inl err, w)
      | (None, w) \<Rightarrow>
          (case check_create s inp w of
             None \<Rightarrow> None
           | Some (Inl err) \<Rightarrow> Some (Inl err, w)
           | Some (Inr _) \<Rightarrow>
               (case js_newID s (jw_env w) of
                  (k, env) \<Rightarrow>
                    let w = w\<lparr>jw_env := env\<rparr>
                    in (case CreateProject_repo (js_projects s) k (jw_projects w) (new_project inp) of
                          Inl err \<Rightarrow> Some (Inl err, w)
                        | Inr (p, db) \<Rightarrow>
                            Some (Inr p, project_emitAudit s c
                              (project_action ''create'' ''project'' (pj_ID p)
                                 (Some [(''code'', JString (pj_Code p)), (''name'', JString (pj_Name p)),
                                        (''type_id'', JString (pj_TypeID p))]))
                              (w\<lparr>jw_projects := db\<rparr>))))))"

subsection \<open>Reading\<close>

definition GetProject ::
    "('t, 'p, 'm, 's, 'w) project_service \<Rightarrow> ctx \<Rightarrow> string \<Rightarrow> ('t, 'p, 'm, 'w) project_world
     \<Rightarrow> project result \<times> ('t, 'p, 'm, 'w) project_world" where
  "GetProject s c k w =
     (case requireMembership s c k w of
        (Some err, w) \<Rightarrow> (Inl err, w)
      | (None, w) \<Rightarrow> (Project_Get (js_projects s) (jw_projects w) k, w))"

text \<open>The caller variant repeats the guard in its own words.\<close>

definition GetProjectWithCaller ::
    "('t, 'p, 'm, 's, 'w) project_service \<Rightarrow> ctx \<Rightarrow> string \<Rightarrow> ('t, 'p, 'm, 'w) project_world
     \<Rightarrow> project result \<times> ('t, 'p, 'm, 'w) project_world" where
  "GetProjectWithCaller s c k w =
     (case authenticated c of
        None \<Rightarrow> (Inl ErrProjectUnauthenticated, w)
      | Some cl \<Rightarrow>
          if IsSuperAdmin cl then (Project_Get (js_projects s) (jw_projects w) k, w)
          else
            (case IsMemberOf k (js_checker s) cl w of
               (b, _, w) \<Rightarrow>
                 if b then (Project_Get (js_projects s) (jw_projects w) k, w)
                 else (Inl ErrProjectForbidden, w)))"

definition GetProjectWithRelations ::
    "('t, 'p, 'm, 's, 'w) project_service \<Rightarrow> ctx \<Rightarrow> string \<Rightarrow> ('t, 'p, 'm, 'w) project_world
     \<Rightarrow> (project \<times> project list \<times> project_member list) result \<times> ('t, 'p, 'm, 'w) project_world" where
  "GetProjectWithRelations s c k w =
     (case requireMembership s c k w of
        (Some err, w) \<Rightarrow> (Inl err, w)
      | (None, w) \<Rightarrow>
          (GetWithRelations (js_projects s) (js_members s) (jw_projects w) (jw_members w) k, w))"

definition membershipIDs ::
    "('t, 'p, 'm, 's, 'w) project_service \<Rightarrow> user \<Rightarrow> ('t, 'p, 'm, 'w) project_world
     \<Rightarrow> string set result \<times> ('t, 'p, 'm, 'w) project_world" where
  "membershipIDs s u w =
     (case js_checker s of
        None \<Rightarrow> (Inr {}, w)
      | Some m \<Rightarrow>
          (case m (user_ID u) w of
             ((ids, Some err), w) \<Rightarrow> (Inl err, w)
           | ((ids, None), w) \<Rightarrow> (Inr (case ids of None \<Rightarrow> {} | Some pids \<Rightarrow> pids), w)))"

text \<open>The page is taken first and filtered after; the total of a scoped caller is the length of what is left.\<close>

definition ListProjects ::
    "('t, 'p, 'm, 's, 'w) project_service \<Rightarrow> ctx \<Rightarrow> project_filter \<Rightarrow> ('t, 'p, 'm, 'w) project_world
     \<Rightarrow> (project list \<times> nat) result \<times> ('t, 'p, 'm, 'w) project_world" where
  "ListProjects s c f w =
     (case authenticated c of
        None \<Rightarrow> (Inl ErrProjectUnauthenticated, w)
      | Some cl \<Rightarrow>
          (case Project_List (js_projects s) (js_like s) (js_raw s) (jw_projects w) f of
             Inl err \<Rightarrow> (Inl err, w)
           | Inr (rs, tot) \<Rightarrow>
               if IsSuperAdmin cl then (Inr (rs, tot), w)
               else
                 (case Option.bind cl cl_User of
                    None \<Rightarrow> (Inl ErrProjectUnauthenticated, w)
                  | Some u \<Rightarrow>
                      (case membershipIDs s u w of
                         (Inl err, w) \<Rightarrow> (Inl err, w)
                       | (Inr ids, w) \<Rightarrow>
                           (let out = filter (\<lambda>p. pj_ID p \<in> ids) rs in (Inr (out, length out), w))))))"

subsection \<open>Updating a project\<close>

record update_project_input =
  up_Name :: "string option"
  up_ParentID :: "string option"
  up_Description :: "string option"
  up_OwnerUserID :: "string option"
  up_Weight :: "int64 option"

text \<open>The checks of a new parent: not the project itself, not below it, and not too deep.\<close>

definition check_move :: "('p, project) gorm \<Rightarrow> 'p \<Rightarrow> string \<Rightarrow> string \<Rightarrow> unit result option" where
  "check_move g db k parentID =
     (if parentID = k then
        Some (Inl (APIError CodeInvalidState ''a project cannot be its own parent'' None))
      else
        (case GetTree g db k of
           None \<Rightarrow> None
         | Some (Inl err) \<Rightarrow> Some (Inl err)
         | Some (Inr below) \<Rightarrow>
             if list_ex (\<lambda>n. pj_ID n = parentID) below then
               Some (Inl (APIError CodeInvalidState ''parent would create a cycle in the hierarchy'' None))
             else
               (case parent_depth g db parentID of
                  None \<Rightarrow> None
                | Some (Inl err) \<Rightarrow> Some (Inl err)
                | Some (Inr pd) \<Rightarrow>
                    (case depthOf g db k of
                       None \<Rightarrow> None
                     | Some (Inl err) \<Rightarrow> Some (Inl err)
                     | Some (Inr _) \<Rightarrow> Some (room_below pd)))))"

definition field_patch :: "update_project_input \<Rightarrow> project_col list result" where
  "field_patch inp =
     (if (case up_Name inp of None \<Rightarrow> False | Some v \<Rightarrow> TrimSpace v = '''') then
        Inl (invalid ''name cannot be empty'')
      else if (case up_Weight inp of None \<Rightarrow> False | Some v \<Rightarrow> \<not> IsValidWeight v) then
        Inl (invalid ''weight must be non-negative'')
      else
        Inr ((case up_Name inp of None \<Rightarrow> [] | Some v \<Rightarrow> [SetProjectName (TrimSpace v)])
             @ (case up_Description inp of None \<Rightarrow> [] | Some v \<Rightarrow> [SetProjectDescription v])
             @ (case up_OwnerUserID inp of None \<Rightarrow> [] | Some v \<Rightarrow> [SetProjectOwner v])
             @ (case up_Weight inp of None \<Rightarrow> [] | Some v \<Rightarrow> [SetProjectWeight v])))"

text \<open>The reads of an update, before its write: the current row and the patch.\<close>

definition prepare_update ::
    "('p, project) gorm \<Rightarrow> 'p \<Rightarrow> string \<Rightarrow> update_project_input \<Rightarrow> (project \<times> project_col list) result option" where
  "prepare_update g db k inp =
     (case Project_Get g db k of
        Inl err \<Rightarrow> Some (Inl err)
      | Inr current \<Rightarrow>
          (case field_patch inp of
             Inl err \<Rightarrow> Some (Inl err)
           | Inr patch \<Rightarrow>
               (case up_ParentID inp of
                  None \<Rightarrow> Some (Inr (current, patch))
                | Some q \<Rightarrow>
                    (case check_move g db k q of
                       None \<Rightarrow> None
                     | Some (Inl err) \<Rightarrow> Some (Inl err)
                     | Some (Inr _) \<Rightarrow> Some (Inr (current, patch @ [SetProjectParent q]))))))"

text \<open>The write of an update: nothing for an empty patch.\<close>

definition commit_update ::
    "('t, 'p, 'm, 's, 'w) project_service \<Rightarrow> ctx \<Rightarrow> string \<Rightarrow> project \<times> project_col list
     \<Rightarrow> ('t, 'p, 'm, 'w) project_world \<Rightarrow> project result \<times> ('t, 'p, 'm, 'w) project_world" where
  "commit_update s c k cp w =
     (if snd cp = [] then (Inr (fst cp), w)
      else
        (case Project_Update (js_projects s) (jw_projects w) k (snd cp) of
           (Inl err, db) \<Rightarrow> (Inl err, w\<lparr>jw_projects := db\<rparr>)
         | (Inr p, db) \<Rightarrow>
             (Inr p, project_emitAudit s c (project_action ''update'' ''project'' (pj_ID p) None)
                       (w\<lparr>jw_projects := db\<rparr>))))"

definition UpdateProject ::
    "('t, 'p, 'm, 's, 'w) project_service \<Rightarrow> ctx \<Rightarrow> string \<Rightarrow> update_project_input
     \<Rightarrow> ('t, 'p, 'm, 'w) project_world \<Rightarrow> (project result \<times> ('t, 'p, 'm, 'w) project_world) option" where
  "UpdateProject s c k inp w =
     (case requireMembership s c k w of
        (Some err, w) \<Rightarrow> Some (Inl err, w)
      | (None, w) \<Rightarrow>
          (case prepare_update (js_projects s) (jw_projects w) k inp of
             None \<Rightarrow> None
           | Some (Inl err) \<Rightarrow> Some (Inl err, w)
           | Some (Inr cp) \<Rightarrow> Some (commit_update s c k cp w)))"

definition DeleteProject ::
    "('t, 'p, 'm, 's, 'w) project_service \<Rightarrow> ctx \<Rightarrow> string \<Rightarrow> ('t, 'p, 'm, 'w) project_world
     \<Rightarrow> go_error option \<times> ('t, 'p, 'm, 'w) project_world" where
  "DeleteProject s c k w =
     (case requireMembership s c k w of
        (Some err, w) \<Rightarrow> (Some err, w)
      | (None, w) \<Rightarrow>
          (case CountChildren (js_projects s) (jw_projects w) k of
             Inl err \<Rightarrow> (Some err, w)
           | Inr n \<Rightarrow>
               if 0 < n then
                 (Some (APIError CodeInvalidState
                    ''cannot delete a project that has children; remove them first'' None), w)
               else
                 (case Project_Delete (js_projects s) (jw_projects w) k of
                    Inl err \<Rightarrow> (Some err, w)
                  | Inr db \<Rightarrow>
                      (None, project_emitAudit s c (project_action ''delete'' ''project'' k None)
                               (w\<lparr>jw_projects := db\<rparr>)))))"

subsection \<open>Members\<close>

text \<open>An insertion that conflicts is turned into an update, which may touch no row.\<close>

definition AssignMember ::
    "('t, 'p, 'm, 's, 'w) project_service \<Rightarrow> ctx \<Rightarrow> string \<Rightarrow> string \<Rightarrow> string \<Rightarrow> string
     \<Rightarrow> ('t, 'p, 'm, 'w) project_world \<Rightarrow> go_error option \<times> ('t, 'p, 'm, 'w) project_world" where
  "AssignMember s c projectID userID role addedBy w =
     (case requireMembership s c projectID w of
        (Some err, w) \<Rightarrow> (Some err, w)
      | (None, w) \<Rightarrow>
          if \<not> IsValidProjectRole role then (Some (invalid ''role must be viewer, editor, or admin''), w)
          else
            (case Project_Get (js_projects s) (jw_projects w) projectID of
               Inl err \<Rightarrow> (Some err, w)
             | Inr _ \<Rightarrow>
                 (case js_newID s (jw_env w) of
                    (newID, env) \<Rightarrow>
                      let w = w\<lparr>jw_env := env\<rparr>;
                          res = (case AddMember (js_members s) newID (jw_members w) projectID userID role addedBy of
                                   Inr db \<Rightarrow> Inr db
                                 | Inl err \<Rightarrow>
                                     if \<not> project_IsConflict err then Inl err
                                     else promote_member (js_members s) (jw_members w) projectID userID role addedBy)
                      in (case res of
                            Inl err \<Rightarrow> (Some err, w)
                          | Inr db \<Rightarrow>
                              (None, project_emitAudit s c
                                 (project_action ''member_add'' ''project_member'' (projectID @ '':'' @ userID)
                                    (Some [(''project_id'', JString projectID), (''user_id'', JString userID),
                                           (''role'', JString role)]))
                                 (w\<lparr>jw_members := db\<rparr>))))))"

definition RevokeMember ::
    "('t, 'p, 'm, 's, 'w) project_service \<Rightarrow> ctx \<Rightarrow> string \<Rightarrow> string
     \<Rightarrow> ('t, 'p, 'm, 'w) project_world \<Rightarrow> go_error option \<times> ('t, 'p, 'm, 'w) project_world" where
  "RevokeMember s c projectID userID w =
     (case requireMembership s c projectID w of
        (Some err, w) \<Rightarrow> (Some err, w)
      | (None, w) \<Rightarrow>
          (case RemoveMember (js_members s) (jw_members w) projectID userID of
             Inl err \<Rightarrow> (Some err, w)
           | Inr db \<Rightarrow>
               (None, project_emitAudit s c
                  (project_action ''member_remove'' ''project_member'' (projectID @ '':'' @ userID)
                     (Some [(''project_id'', JString projectID), (''user_id'', JString userID)]))
                  (w\<lparr>jw_members := db\<rparr>))))"

definition ListMembers ::
    "('t, 'p, 'm, 's, 'w) project_service \<Rightarrow> ctx \<Rightarrow> string \<Rightarrow> ('t, 'p, 'm, 'w) project_world
     \<Rightarrow> project_member list result \<times> ('t, 'p, 'm, 'w) project_world" where
  "ListMembers s c projectID w =
     (case requireMembership s c projectID w of
        (Some err, w) \<Rightarrow> (Inl err, w)
      | (None, w) \<Rightarrow> (ListMembers_repo (js_members s) (jw_members w) projectID, w))"

definition ListChildren ::
    "('t, 'p, 'm, 's, 'w) project_service \<Rightarrow> ctx \<Rightarrow> string \<Rightarrow> ('t, 'p, 'm, 'w) project_world
     \<Rightarrow> (project list \<times> nat) result \<times> ('t, 'p, 'm, 'w) project_world" where
  "ListChildren s c projectID w =
     (case requireMembership s c projectID w of
        (Some err, w) \<Rightarrow> (Inl err, w)
      | (None, w) \<Rightarrow>
          (Project_List (js_projects s) (js_like s) (js_raw s) (jw_projects w)
             (empty_project_filter\<lparr>pq_ParentID := Some projectID\<rparr>), w))"

definition ListAncestors ::
    "('t, 'p, 'm, 's, 'w) project_service \<Rightarrow> ctx \<Rightarrow> string \<Rightarrow> ('t, 'p, 'm, 'w) project_world
     \<Rightarrow> (project list result \<times> ('t, 'p, 'm, 'w) project_world) option" where
  "ListAncestors s c k w =
     (case requireMembership s c k w of
        (Some err, w) \<Rightarrow> Some (Inl err, w)
      | (None, w) \<Rightarrow> map_option (\<lambda>res. (res, w)) (GetAncestors (js_projects s) (jw_projects w) k))"

text \<open>Weights multiply in 64 bits; every error is the weight zero, and so is a missing type.\<close>

definition AggregateWeight ::
    "('t, 'p, 'm, 's, 'w) project_service \<Rightarrow> ctx \<Rightarrow> string \<Rightarrow> ('t, 'p, 'm, 'w) project_world
     \<Rightarrow> int64 \<times> ('t, 'p, 'm, 'w) project_world" where
  "AggregateWeight s c k w =
     (case requireMembership s c k w of
        (Some err, w) \<Rightarrow> (0, w)
      | (None, w) \<Rightarrow>
          (case Project_Get (js_projects s) (jw_projects w) k of
             Inl err \<Rightarrow> (0, w)
           | Inr p \<Rightarrow>
               (case ListTypes_repo (js_types s) (jw_types w) of
                  Inl err \<Rightarrow> (0, w)
                | Inr ts \<Rightarrow>
                    (pj_Weight p * (case find (\<lambda>t. pt_ID t = pj_TypeID p) ts of None \<Rightarrow> 0 | Some t \<Rightarrow> pt_Weight t),
                     w))))"

end
