(* ===== verification/Project_Facts.thy ===== *)
theory Project_Facts
  imports Project_Service
begin

text \<open>
  The hierarchy of the projects. The abstract view of the table is its live rows; \<open>forest\<close> says that
  every parent is live and that the parent relation has no cycle, by a rank that grows from parent to
  child. Under it the two walks return, \<open>GetAncestors\<close> the chain to the root and \<open>GetTree\<close> exactly
  the descendants. Every operation of the service keeps it; two interleaved moves do not. The
  members: what a revocation leaves behind.
\<close>

subsection \<open>Forests\<close>

definition child_rel :: "(string \<Rightarrow> project option) \<Rightarrow> string \<Rightarrow> string \<Rightarrow> bool" where
  "child_rel rows q k \<longleftrightarrow> (\<exists>p. rows k = Some p \<and> pj_ParentID p = Some q)"

abbreviation below :: "(string \<Rightarrow> project option) \<Rightarrow> string \<Rightarrow> string \<Rightarrow> bool" where
  "below rows \<equiv> (child_rel rows)\<^sup>*\<^sup>*"

definition ranked :: "(string \<Rightarrow> project option) \<Rightarrow> (string \<Rightarrow> nat) \<Rightarrow> bool" where
  "ranked rows d \<longleftrightarrow> (\<forall>q k. child_rel rows q k \<longrightarrow> rows q \<noteq> None \<and> d q < d k)"

definition forest :: "(string \<Rightarrow> project option) \<Rightarrow> bool" where
  "forest rows \<longleftrightarrow> finite (dom rows) \<and> (\<exists>d. ranked rows d)"

lemma rankedD: "ranked rows d \<Longrightarrow> child_rel rows q k \<Longrightarrow> rows q \<noteq> None \<and> d q < d k"
  by (auto simp: ranked_def)

lemma child_rel_row: "rows k = Some p \<Longrightarrow> child_rel rows q k \<longleftrightarrow> pj_ParentID p = Some q"
  by (simp add: child_rel_def)

lemma child_rel_live: "child_rel rows q k \<Longrightarrow> rows k \<noteq> None"
  by (auto simp: child_rel_def)

text \<open>The ancestors of a project, root first.\<close>

inductive chain_to_root :: "(string \<Rightarrow> project option) \<Rightarrow> string \<Rightarrow> string list \<Rightarrow> bool" for rows where
  at_root: "rows k = Some p \<Longrightarrow> pj_ParentID p = None \<Longrightarrow> chain_to_root rows k []"
| under: "child_rel rows q k \<Longrightarrow> chain_to_root rows q qs \<Longrightarrow> chain_to_root rows k (qs @ [q])"

text \<open>The three changes the service makes to the rows.\<close>

lemma forest_insert:
  assumes "forest rows" "rows k = None" "\<And>q. pj_ParentID p = Some q \<Longrightarrow> rows q \<noteq> None"
  shows "forest (rows(k \<mapsto> p))"
proof -
  from assms(1) obtain d where fin: "finite (dom rows)" and d: "ranked rows d" by (auto simp: forest_def)
  define d' where "d' = d(k := Suc (case pj_ParentID p of None \<Rightarrow> 0 | Some q \<Rightarrow> d q))"
  have "ranked (rows(k \<mapsto> p)) d'"
    unfolding ranked_def
  proof (intro allI impI)
    fix q j assume c: "child_rel (rows(k \<mapsto> p)) q j"
    show "(rows(k \<mapsto> p)) q \<noteq> None \<and> d' q < d' j"
    proof (cases "j = k")
      case True
      with c have "pj_ParentID p = Some q" by (simp add: child_rel_def)
      with assms(2,3) True show ?thesis by (auto simp: d'_def)
    next
      case False
      with c have c: "child_rel rows q j" by (simp add: child_rel_def)
      with rankedD [OF d c] assms(2) False show ?thesis by (auto simp: d'_def)
    qed
  qed
  with fin show ?thesis by (auto simp: forest_def)
qed

lemma forest_delete:
  assumes "forest rows" "\<And>j. \<not> child_rel rows k j"
  shows "forest (rows(k := None))"
proof -
  from assms(1) obtain d where fin: "finite (dom rows)" and d: "ranked rows d" by (auto simp: forest_def)
  have "ranked (rows(k := None)) d"
    unfolding ranked_def
  proof (intro allI impI)
    fix q j assume "child_rel (rows(k := None)) q j"
    then have c: "child_rel rows q j" by (auto simp: child_rel_def split: if_splits)
    with assms(2) [of j] have "q \<noteq> k" by blast
    with rankedD [OF d c] show "(rows(k := None)) q \<noteq> None \<and> d q < d j" by simp
  qed
  with fin show ?thesis by (auto simp: forest_def)
qed

text \<open>A move: the subtree keeps its shape, its ranks shifted above the new parent.\<close>

lemma forest_move:
  assumes "forest rows" "rows k = Some p0"
    and "\<And>q. pj_ParentID p = Some q \<Longrightarrow> rows q \<noteq> None \<and> (pj_ParentID p0 = Some q \<or> \<not> below rows k q)"
  shows "forest (rows(k \<mapsto> p))"
proof -
  from assms(1) obtain d where fin: "finite (dom rows)" and d: "ranked rows d" by (auto simp: forest_def)
  define b where "b = Suc (case pj_ParentID p of None \<Rightarrow> 0 | Some q \<Rightarrow> d q)"
  define d' where "d' j = (if below rows k j then d j + b else d j)" for j
  have anti: "\<not> below rows k q" if q: "pj_ParentID p = Some q" for q
  proof
    assume b: "below rows k q"
    with assms(3) [OF q] have "pj_ParentID p0 = Some q" by blast
    then have "child_rel rows q k" using assms(2) by (simp add: child_rel_def)
    then have "d q < d k" by (rule rankedD [OF d, THEN conjunct2])
    moreover have "d k \<le> d q" using b
    proof (induction rule: rtranclp_induct)
      case (step y z) with rankedD [OF d, of y z] show ?case by simp
    qed simp
    ultimately show False by simp
  qed
  have "ranked (rows(k \<mapsto> p)) d'"
    unfolding ranked_def
  proof (intro allI impI)
    fix q j assume c: "child_rel (rows(k \<mapsto> p)) q j"
    show "(rows(k \<mapsto> p)) q \<noteq> None \<and> d' q < d' j"
    proof (cases "j = k")
      case True
      with c have q: "pj_ParentID p = Some q" by (simp add: child_rel_def)
      with anti [OF q] assms(3) [OF q] True show ?thesis by (auto simp: d'_def b_def)
    next
      case False
      with c have c: "child_rel rows q j" by (simp add: child_rel_def)
      show ?thesis
      proof (cases "below rows k q")
        case True
        with c have "below rows k j" by simp
        with True rankedD [OF d c] show ?thesis by (simp add: d'_def)
      next
        case False
        with rankedD [OF d c] show ?thesis by (simp add: d'_def)
      qed
    qed
  qed
  with fin show ?thesis by (auto simp: forest_def)
qed

lemma forest_same_parents:
  assumes "forest rows" "rows k = Some p0" "pj_ParentID p = pj_ParentID p0"
  shows "forest (rows(k \<mapsto> p))"
proof (rule forest_move [OF assms(1,2)])
  fix q assume q: "pj_ParentID p = Some q"
  with assms have "child_rel rows q k" by (simp add: child_rel_def)
  with assms(1) have "rows q \<noteq> None" by (auto simp: forest_def dest: rankedD)
  with q assms(3) show "rows q \<noteq> None \<and> (pj_ParentID p0 = Some q \<or> \<not> below rows k q)" by simp
qed

subsection \<open>The walks\<close>

locale project_table = gorm_table g pj_ID rows
  for g :: "('p, project) gorm" and rows :: "'p \<Rightarrow> string \<Rightarrow> project option"
begin

lemma Get_live: "Project_Get g db k = Inr p \<Longrightarrow> rows db k = Some p \<and> pj_ID p = k"
  by (auto simp: Project_Get_def repo_Get_def dest: First_found rows_key split: sum.splits)

lemma ancestors_loop_returns:
  assumes "ranked (rows db) d" "rows db (pj_ID cur) = Some cur"
  shows "\<exists>r. ancestors_loop g db cur acc = Some r \<and>
    (\<forall>ps. r = Inr ps \<longrightarrow> (\<exists>qs. ps = acc @ qs \<and> chain_to_root (rows db) (pj_ID cur) (rev (map pj_ID qs))))"
  using assms(2)
proof (induction "d (pj_ID cur)" arbitrary: cur acc rule: less_induct)
  case less
  show ?case
  proof (cases "pj_ParentID cur")
    case None
    with chain_to_root.at_root [of "rows db" "pj_ID cur" cur] less.prems show ?thesis
      by (simp add: ancestors_loop.simps)
  next
    case (Some q)
    show ?thesis
    proof (cases "Project_Get g db q")
      case (Inl err)
      with Some show ?thesis by (simp add: ancestors_loop.simps)
    next
      case (Inr parent)
      from Get_live [OF this] have live: "rows db (pj_ID parent) = Some parent" and q: "pj_ID parent = q" by simp_all
      from less.prems Some have c: "child_rel (rows db) q (pj_ID cur)" by (simp add: child_rel_def)
      with rankedD [OF assms(1)] q have "d (pj_ID parent) < d (pj_ID cur)" by simp
      from less.hyps [OF this live, of "acc @ [parent]"] obtain r where r:
        "ancestors_loop g db parent (acc @ [parent]) = Some r"
        "\<And>ps. r = Inr ps \<Longrightarrow> \<exists>qs. ps = (acc @ [parent]) @ qs \<and> chain_to_root (rows db) q (rev (map pj_ID qs))"
        using q by blast
      have "\<exists>qs. ps = acc @ qs \<and> chain_to_root (rows db) (pj_ID cur) (rev (map pj_ID qs))" if "r = Inr ps" for ps
      proof -
        from r(2) [OF that] obtain qs where qs: "ps = acc @ parent # qs" "chain_to_root (rows db) q (rev (map pj_ID qs))"
          by auto
        from chain_to_root.under [OF c qs(2)] q qs(1) show ?thesis by (intro exI [of _ "parent # qs"]) simp
      qed
      with r(1) Some Inr show ?thesis by (simp add: ancestors_loop.simps)
    qed
  qed
qed

lemma GetAncestors_returns:
  assumes "forest (rows db)"
  shows "\<exists>r. GetAncestors g db k = Some r \<and>
    (\<forall>ps. r = Inr ps \<longrightarrow> chain_to_root (rows db) k (map pj_ID ps))"
proof (cases "Project_Get g db k")
  case (Inr cur)
  from assms obtain d where d: "ranked (rows db) d" by (auto simp: forest_def)
  from Get_live [OF Inr] have cur: "rows db (pj_ID cur) = Some cur" "pj_ID cur = k" by simp_all
  from ancestors_loop_returns [OF d cur(1), of "[]"] obtain r where r: "ancestors_loop g db cur [] = Some r"
    "\<And>ps. r = Inr ps \<Longrightarrow> chain_to_root (rows db) k (rev (map pj_ID ps))"
    using cur(2) by auto
  with Inr show ?thesis by (cases r) (auto simp: GetAncestors_def rev_map)
qed (simp add: GetAncestors_def)

text \<open>The loop of \<open>GetTree\<close> collects descendants, and stops when the collection is closed.\<close>

definition tree_inv :: "'p \<Rightarrow> string \<Rightarrow> string list \<Rightarrow> project list \<Rightarrow> bool" where
  "tree_inv db k frontier acc \<longleftrightarrow>
     k \<in> pj_ID ` set acc \<and> set frontier \<subseteq> pj_ID ` set acc \<and> (\<forall>x\<in>pj_ID ` set acc. below (rows db) k x) \<and>
     (\<forall>q x. q \<in> pj_ID ` set acc - set frontier \<longrightarrow> child_rel (rows db) q x \<longrightarrow> x \<in> pj_ID ` set acc)"

lemma tree_inv_closed:
  assumes "tree_inv db k frontier acc" "\<And>q x. q \<in> set frontier \<Longrightarrow> \<not> child_rel (rows db) q x"
  shows "pj_ID ` set acc = {x. below (rows db) k x}"
proof -
  have "x \<in> pj_ID ` set acc" if "below (rows db) k x" for x
    using that
  proof (induction rule: rtranclp_induct)
    case base then show ?case using assms(1) by (simp add: tree_inv_def)
  next
    case (step y z)
    from step.hyps(2) assms(2) have "y \<notin> set frontier" by blast
    with step assms(1) show ?case unfolding tree_inv_def by blast
  qed
  with assms(1) show ?thesis unfolding tree_inv_def by blast
qed

lemma children_found:
  assumes "db_Find g db (\<lambda>p. \<exists>k\<in>set frontier. child_of k p) = Inr cs"
  shows "pj_ID ` set cs = {x. \<exists>q\<in>set frontier. child_rel (rows db) q x}"
proof -
  from Find_ok [OF assms] have "set cs = {r. rows db (pj_ID r) = Some r \<and> (\<exists>k\<in>set frontier. child_of k r)}" by simp
  moreover have "pj_ID p = x" if "rows db x = Some p" for x p using rows_key [OF that] .
  ultimately show ?thesis
    by (fastforce simp: child_rel_def child_of_def image_def)
qed

lemma tree_inv_step:
  assumes "tree_inv db k frontier acc" "pj_ID ` set cs = {x. \<exists>q\<in>set frontier. child_rel (rows db) q x}"
  shows "tree_inv db k (map pj_ID cs) (acc @ cs)"
proof -
  define A C where "A = pj_ID ` set acc" and "C = pj_ID ` set cs"
  have C: "x \<in> C \<longleftrightarrow> (\<exists>q\<in>set frontier. child_rel (rows db) q x)" for x
    using assms(2) by (simp add: C_def)
  have A: "k \<in> A" "set frontier \<subseteq> A" "\<And>x. x \<in> A \<Longrightarrow> below (rows db) k x"
    "\<And>q x. q \<in> A \<Longrightarrow> q \<notin> set frontier \<Longrightarrow> child_rel (rows db) q x \<Longrightarrow> x \<in> A"
    using assms(1) unfolding tree_inv_def A_def by (blast+)
  have "below (rows db) k x" if "x \<in> C" for x
  proof -
    from that C obtain q where "q \<in> set frontier" "child_rel (rows db) q x" by blast
    with A(2,3) show ?thesis by (meson rtranclp.rtrancl_into_rtrancl subsetD)
  qed
  moreover have "x \<in> A \<union> C" if "q \<in> A" "child_rel (rows db) q x" for q x
    using that A(4) C by (cases "q \<in> set frontier") blast+
  ultimately show ?thesis
    using A(1,3) unfolding tree_inv_def set_append image_Un set_map A_def [symmetric] C_def [symmetric]
    by auto
qed

lemma tree_loop_returns:
  assumes "ranked (rows db) d" "\<And>k. rows db k \<noteq> None \<Longrightarrow> d k < B"
    and "tree_inv db k frontier acc" "\<And>q. q \<in> set frontier \<Longrightarrow> n \<le> d q"
  shows "\<exists>r. tree_loop g db frontier acc = Some r \<and>
    (\<forall>ps. r = Inr ps \<longrightarrow> pj_ID ` set ps = {x. below (rows db) k x})"
  using assms(3,4)
proof (induction "B - n" arbitrary: n frontier acc rule: less_induct)
  case less
  show ?case
  proof (cases "frontier = []")
    case True
    with tree_inv_closed [OF less.prems(1)] show ?thesis by (simp add: tree_loop.simps)
  next
    case False
    show ?thesis
    proof (cases "db_Find g db (\<lambda>p. \<exists>k\<in>set frontier. child_of k p)")
      case (Inl err)
      with False show ?thesis by (simp add: tree_loop.simps)
    next
      case (Inr cs)
      note cs = children_found [OF Inr]
      show ?thesis
      proof (cases "cs = []")
        case True
        with cs have "\<not> child_rel (rows db) q x" if "q \<in> set frontier" for q x using that by auto
        with tree_inv_closed [OF less.prems(1)] False True Inr show ?thesis by (simp add: tree_loop.simps)
      next
        case False
        have deeper: "Suc n \<le> d x \<and> d x < B" if "x \<in> set (map pj_ID cs)" for x
        proof -
          from that cs obtain q where "q \<in> set frontier" "child_rel (rows db) q x" by auto
          with rankedD [OF assms(1)] assms(2) [OF child_rel_live] less.prems(2) show ?thesis by fastforce
        qed
        moreover from False obtain x where "x \<in> set (map pj_ID cs)" by (cases cs) auto
        ultimately have "n < B" using less_le_trans by fastforce
        then have "B - Suc n < B - n" by simp
        from less.hyps [OF this tree_inv_step [OF less.prems(1) cs]] deeper \<open>frontier \<noteq> []\<close> False Inr
        show ?thesis by (simp add: tree_loop.simps)
      qed
    qed
  qed
qed

lemma GetTree_returns:
  assumes "forest (rows db)"
  shows "\<exists>r. GetTree g db k = Some r \<and> (\<forall>ps. r = Inr ps \<longrightarrow> pj_ID ` set ps = {x. below (rows db) k x})"
proof (cases "Project_Get g db k")
  case (Inr p)
  from assms obtain d where fin: "finite (dom (rows db))" and d: "ranked (rows db) d" by (auto simp: forest_def)
  have B: "d j < Suc (Max (d ` dom (rows db)))" if "rows db j \<noteq> None" for j
    using fin that by (auto simp: less_Suc_eq_le intro!: Max_ge)
  have "tree_inv db k [k] [p]" using Get_live [OF Inr] by (simp add: tree_inv_def)
  from tree_loop_returns [OF d B this, where n = 0] Inr show ?thesis by (simp add: GetTree_def)
qed (simp add: GetTree_def)

end

interpretation mem_projects: project_table "mem_gorm pj_ID" "mem_rows pj_ID"
  by unfold_locales

subsection \<open>The operations keep the forest\<close>

lemma MembershipChecker_reads: "snd (MembershipChecker b u w) = w"
  by (simp add: MembershipChecker_def)

lemma NewProjectService_sel [simp]:
  "js_types (NewProjectService gt gp gm like raw aud newID) = gt"
  "js_projects (NewProjectService gt gp gm like raw aud newID) = gp"
  "js_members (NewProjectService gt gp gm like raw aud newID) = gm"
  "js_like (NewProjectService gt gp gm like raw aud newID) = like"
  "js_raw (NewProjectService gt gp gm like raw aud newID) = raw"
  "js_checker (NewProjectService gt gp gm like raw aud newID) = Some (MembershipChecker gm)"
  "js_audit (NewProjectService gt gp gm like raw aud newID) = aud"
  "js_newID (NewProjectService gt gp gm like raw aud newID) = newID"
  by (simp_all add: NewProjectService_def)

lemma requireMembership_reads:
  assumes "js_checker s = Some (MembershipChecker b)" "requireMembership s c pid w = (e, w')"
  shows "w' = w"
  using assms(2) IsMemberOf_reads [OF MembershipChecker_reads, where b = True] 
    IsMemberOf_reads [OF MembershipChecker_reads, where b = False]
  by (auto simp: requireMembership_def assms(1) split: option.splits if_splits prod.splits)

lemma project_emitAudit_sel [simp]:
  "jw_projects (project_emitAudit s c a w) = jw_projects w" "jw_members (project_emitAudit s c a w) = jw_members w"
  "jw_types (project_emitAudit s c a w) = jw_types w"
  by (simp_all add: project_emitAudit_def)

lemma fold_project_cols_ID [simp]: "pj_ID (fold set_project_col patch p) = pj_ID p"
proof (induction patch arbitrary: p)
  case (Cons x xs) then show ?case by (cases x) simp_all
qed simp

lemma project_row_sel [simp]: "pj_ID (project_row p) = pj_ID p" "pj_ParentID (project_row p) = pj_ParentID p"
  by (simp_all add: project_row_def)

lemma field_patch_parent: "field_patch inp = Inr patch \<Longrightarrow> pj_ParentID (fold set_project_col patch p) = pj_ParentID p"
  by (auto simp: field_patch_def split: if_splits option.splits)

context project_table
begin

lemma parent_depth_live: "parent_depth g db k = Some (Inr d) \<Longrightarrow> rows db k \<noteq> None"
  by (auto simp: parent_depth_def dest: Get_live split: sum.splits)

lemma Create_forest:
  assumes "CreateProject_repo g newID db p = Inr (p', db')" "forest (rows db)"
    and "\<And>q. pj_ParentID p = Some q \<Longrightarrow> rows db q \<noteq> None"
  shows "forest (rows db') \<and> rows db (pj_ID p') = None
    \<and> rows db' = (rows db)(pj_ID p' \<mapsto> project_row p') \<and> pj_ParentID p' = pj_ParentID p"
proof -
  from assms(1) have p': "p' = p\<lparr>pj_ID := BaseModel_BeforeCreate newID (pj_ID p)\<rparr>"
    and c: "db_Create g db (project_row p') = Inr db'"
    by (auto simp: CreateProject_repo_def Let_def split: sum.splits)
  from Create_ok [OF c] have r: "rows db (pj_ID p') = None" "rows db' = (rows db)(pj_ID p' \<mapsto> project_row p')"
    by simp_all
  have "forest ((rows db)(pj_ID p' \<mapsto> project_row p'))"
    by (rule forest_insert [OF assms(2) r(1)]) (simp add: p' assms(3))
  with r p' show ?thesis by simp
qed

lemma Delete_forest:
  assumes "CountChildren g db k = Inr n" "\<not> 0 < n" "Project_Delete g db k = Inr db'" "forest (rows db)"
  shows "forest (rows db')"
proof -
  from assms(1,2) have f: "db_Find g db (child_of k) = Inr []"
    by (auto simp: CountChildren_def map_sum_Inr)
  have "\<not> child_rel (rows db) k j" for j
  proof
    assume "child_rel (rows db) k j"
    then obtain p where "rows db j = Some p" "child_of k p" by (auto simp: child_rel_def child_of_def)
    with rows_key [of db j p] Find_ok [OF f] show False by simp
  qed
  moreover have "rows db' = (rows db)(k := None)"
    using assms(3) by (auto simp: Project_Delete_def dest: Delete_ok split: sum.splits if_splits)
  ultimately show ?thesis using forest_delete [OF assms(4)] by simp
qed

lemma check_move_ok:
  assumes "check_move g db k q = Some (Inr u)" "forest (rows db)"
  shows "rows db q \<noteq> None \<and> \<not> below (rows db) k q"
proof -
  from assms(1) obtain ts d where t: "GetTree g db k = Some (Inr ts)" "\<not> list_ex (\<lambda>n. pj_ID n = q) ts"
    and d: "parent_depth g db q = Some (Inr d)"
    by (auto simp: check_move_def split: if_splits option.splits sum.splits)
  from t(2) have "q \<notin> pj_ID ` set ts" by (auto simp: list_ex_iff)
  with GetTree_returns [OF assms(2), of k] t(1) have "\<not> below (rows db) k q" by simp
  with parent_depth_live [OF d] show ?thesis by simp
qed

lemma Update_forest:
  assumes "prepare_update g db k inp = Some (Inr (cur, patch))" "forest (rows db)"
    and "Project_Update g db k patch = (res, db')"
  shows "forest (rows db')"
proof (cases "db_Updates g db k (fold set_project_col patch)")
  case (Inl e)
  with assms show ?thesis by (auto simp: Project_Update_def split: if_splits)
next
  case (Inr x)
  then obtain n db1 where u: "db_Updates g db k (fold set_project_col patch) = Inr (n, db1)" by (cases x) simp
  from assms(1) have cur: "rows db k = Some cur" by (auto simp: prepare_update_def dest: Get_live split: sum.splits option.splits)
  from Updates_ok [OF u] cur have r: "rows db1 = (rows db)(k \<mapsto> fold set_project_col patch cur)" by simp
  from assms(1) Get_live obtain fp where fp: "field_patch inp = Inr fp"
    and pt: "(up_ParentID inp = None \<and> patch = fp)
      \<or> (\<exists>q u. up_ParentID inp = Some q \<and> check_move g db k q = Some (Inr u) \<and> patch = fp @ [SetProjectParent q])"
    by (auto simp: prepare_update_def split: sum.splits option.splits)
  have "forest ((rows db)(k \<mapsto> fold set_project_col patch cur))"
    using pt
  proof (elim disjE exE conjE)
    assume "patch = fp"
    with field_patch_parent [OF fp] show ?thesis by (intro forest_same_parents [OF assms(2) cur]) simp
  next
    fix q u assume "check_move g db k q = Some (Inr u)" "patch = fp @ [SetProjectParent q]"
    with check_move_ok [OF _ assms(2)] show ?thesis by (intro forest_move [OF assms(2) cur]) auto
  qed
  with r u assms(2,3) show ?thesis by (auto simp: Project_Update_def split: if_splits)
qed

end

text \<open>Every operation of the service, and the environment, which leaves the tables alone.\<close>

inductive project_step ::
    "('t, 'p, 'm, 's, 'w) project_service \<Rightarrow> ('t, 'p, 'm, 'w) project_world
     \<Rightarrow> ('t, 'p, 'm, 'w) project_world \<Rightarrow> bool" for s where
  create: "CreateProject s c inp w = Some (r, w') \<Longrightarrow> project_step s w w'"
| update: "UpdateProject s c k uin w = Some (r, w') \<Longrightarrow> project_step s w w'"
| delete: "DeleteProject s c k w = (e, w') \<Longrightarrow> project_step s w w'"
| create_type: "Project_CreateType s c t w = (rt, w') \<Longrightarrow> project_step s w w'"
| assign: "AssignMember s c pid u role by w = (e, w') \<Longrightarrow> project_step s w w'"
| revoke: "RevokeMember s c pid u w = (e, w') \<Longrightarrow> project_step s w w'"
| environment: "project_step s w (w\<lparr>jw_env := env\<rparr>)"

context project_table
begin

lemma check_create_parent:
  assumes "check_create s inp w = Some (Inr u)" "js_projects s = g" "np_ParentID inp = Some q"
  shows "\<exists>d. parent_depth g (jw_projects w) q = Some (Inr d) \<and> d \<le> 2"
  using assms by (auto simp: check_create_def room_below_def split: option.splits if_splits sum.splits)

lemma Create_step:
  assumes "CreateProject s c inp w = Some (r, w')" "js_projects s = g" "js_checker s = Some (MembershipChecker b)"
    and "forest (rows (jw_projects w))"
  shows "forest (rows (jw_projects w')) \<and>
    (\<forall>p. r = Inr p \<longrightarrow> rows (jw_projects w) (pj_ID p) = None \<and>
       rows (jw_projects w') = (rows (jw_projects w))(pj_ID p \<mapsto> project_row p) \<and>
       pj_ParentID p = np_ParentID inp \<and>
       (\<forall>q. pj_ParentID p = Some q \<longrightarrow> (\<exists>d. parent_depth g (jw_projects w) q = Some (Inr d) \<and> d \<le> 2)))"
proof -
  obtain e w1 where g1: "requireMembership s c (case np_ParentID inp of None \<Rightarrow> '''' | Some k \<Rightarrow> k) w = (e, w1)"
    by (cases "requireMembership s c (case np_ParentID inp of None \<Rightarrow> '''' | Some k \<Rightarrow> k) w")
  from requireMembership_reads [OF assms(3) g1] g1 have g1:
    "requireMembership s c (case np_ParentID inp of None \<Rightarrow> '''' | Some k \<Rightarrow> k) w = (e, w)" by simp
  show ?thesis
  proof (cases "e = None \<and> (\<exists>u. check_create s inp w = Some (Inr u))")
    case False
    with assms(1,4) g1 show ?thesis
      by (auto simp: CreateProject_def split: option.splits sum.splits)
  next
    case True
    then obtain u where e: "e = None" and u: "check_create s inp w = Some (Inr u)" by blast
    note parent = check_create_parent [OF u assms(2)]
    obtain k env where id: "js_newID s (jw_env w) = (k, env)" by (cases "js_newID s (jw_env w)")
    show ?thesis
    proof (cases "CreateProject_repo g k (jw_projects w) (new_project inp)")
      case (Inl err)
      with assms(1,2,4) g1 e u id show ?thesis by (auto simp: CreateProject_def)
    next
      case (Inr x)
      then obtain p db where c: "CreateProject_repo g k (jw_projects w) (new_project inp) = Inr (p, db)" by (cases x) simp
      with assms(1,2) g1 e u id have r: "r = Inr p" "jw_projects w' = db" by (auto simp: CreateProject_def)
      have "rows (jw_projects w) q \<noteq> None" if "pj_ParentID (new_project inp) = Some q" for q
        using parent [of q] that by (auto simp: new_project_def dest: parent_depth_live)
      from Create_forest [OF c assms(4) this] parent r show ?thesis by (auto simp: new_project_def)
    qed
  qed
qed

lemma Update_step:
  assumes "UpdateProject s c k inp w = Some (r, w')" "js_projects s = g" "js_checker s = Some (MembershipChecker b)"
    and "forest (rows (jw_projects w))"
  shows "forest (rows (jw_projects w'))"
proof -
  obtain e w1 where g1: "requireMembership s c k w = (e, w1)" by (cases "requireMembership s c k w")
  from requireMembership_reads [OF assms(3) g1] g1 have g1: "requireMembership s c k w = (e, w)" by simp
  show ?thesis
  proof (cases "e = None \<and> (\<exists>x. prepare_update g (jw_projects w) k inp = Some (Inr x))")
    case False
    with assms(1,2,4) g1 show ?thesis by (auto simp: UpdateProject_def split: option.splits sum.splits)
  next
    case True
    then obtain cur patch where e: "e = None" and p: "prepare_update g (jw_projects w) k inp = Some (Inr (cur, patch))"
      by auto
    obtain res db where u: "Project_Update g (jw_projects w) k patch = (res, db)"
      by (cases "Project_Update g (jw_projects w) k patch")
    from Update_forest [OF p assms(4) u] u assms(1,2,4) g1 e p show ?thesis
      by (auto simp: UpdateProject_def commit_update_def split: sum.splits if_splits)
  qed
qed

lemma Delete_step:
  assumes "DeleteProject s c k w = (e, w')" "js_projects s = g" "js_checker s = Some (MembershipChecker b)"
    and "forest (rows (jw_projects w))"
  shows "forest (rows (jw_projects w'))"
proof -
  obtain e1 w1 where g1: "requireMembership s c k w = (e1, w1)" by (cases "requireMembership s c k w")
  from requireMembership_reads [OF assms(3) g1] g1 have g1: "requireMembership s c k w = (e1, w)" by simp
  have leaf: "forest (rows db')" if "CountChildren g (jw_projects w) k = Inr 0" "Project_Delete g (jw_projects w) k = Inr db'" for db'
    by (rule Delete_forest [OF that(1) _ that(2) assms(4)]) simp
  from assms(1,4) g1 show ?thesis
    by (auto simp: DeleteProject_def assms(2) split: option.splits sum.splits if_splits intro: leaf)
qed

end

lemma member_ops_projects:
  assumes "js_checker s = Some (MembershipChecker b)"
  shows "Project_CreateType s c t w = (rt, w') \<Longrightarrow> jw_projects w' = jw_projects w"
    "AssignMember s c pid u role by w = (e, w') \<Longrightarrow> jw_projects w' = jw_projects w"
    "RevokeMember s c pid u w = (e, w') \<Longrightarrow> jw_projects w' = jw_projects w"
  by (auto simp: Project_CreateType_def AssignMember_def RevokeMember_def Let_def
    dest!: requireMembership_reads [OF assms] split: prod.splits option.splits sum.splits if_splits)

context project_table
begin

lemma project_step_forest:
  assumes "project_step s w w'" "js_projects s = g" "js_checker s = Some (MembershipChecker b)"
    and "forest (rows (jw_projects w))"
  shows "forest (rows (jw_projects w'))"
  using assms(1)
proof cases
  case (create c inp r)
  from Create_step [OF create assms(2-4)] show ?thesis by blast
next
  case (update c k uin r)
  from Update_step [OF update assms(2-4)] show ?thesis .
next
  case (delete c k e)
  from Delete_step [OF delete assms(2-4)] show ?thesis .
qed (use assms(4) member_ops_projects [OF assms(3)] in simp_all)

lemma project_steps_forest:
  assumes "(project_step s)\<^sup>*\<^sup>* w0 w" "js_projects s = g" "js_checker s = Some (MembershipChecker b)"
    and "forest (rows (jw_projects w0))"
  shows "forest (rows (jw_projects w))"
  using assms(1) by (induction rule: rtranclp_induct) (auto intro: project_step_forest assms(2-4))

end

text \<open>
  C22: the hierarchy stays a forest. If the live projects form a forest, then after any sequence of
  requests, one after the other, every parent is live, the parent relation has no cycle, the
  ancestors the service reports are the chain from the root to the project, and the tree it walks
  before a move is exactly the project with everything below it.
\<close>

theorem hierarchy_stays_a_forest:
  assumes "project_table gp rows" "forest (rows (jw_projects w0))"
    and "(project_step (NewProjectService gt gp gm like raw aud newID))\<^sup>*\<^sup>* w0 w"
  shows "forest (rows (jw_projects w))
    \<and> (\<forall>k ps. GetAncestors gp (jw_projects w) k = Some (Inr ps)
          \<longrightarrow> chain_to_root (rows (jw_projects w)) k (map pj_ID ps))
    \<and> (\<forall>k ps. GetTree gp (jw_projects w) k = Some (Inr ps)
          \<longrightarrow> pj_ID ` set ps = {x. below (rows (jw_projects w)) k x})"
proof -
  have f: "forest (rows (jw_projects w))"
    by (rule project_table.project_steps_forest [OF assms(1,3) _ _ assms(2)]) simp_all
  with project_table.GetAncestors_returns [OF assms(1) f] project_table.GetTree_returns [OF assms(1) f]
  show ?thesis by (metis option.inject)
qed

text \<open>
  C23: the walks of the hierarchy end. After any sequence of requests, one after the other, every
  request that walks the hierarchy returns: the creation, the update with a move and the list of the
  ancestors, whatever the database answers.
\<close>

theorem hierarchy_walks_return:
  assumes "project_table gp rows" "forest (rows (jw_projects w0))"
    and "s = NewProjectService gt gp gm like raw aud newID" "(project_step s)\<^sup>*\<^sup>* w0 w"
  shows "CreateProject s c inp w \<noteq> None \<and> UpdateProject s c k uin w \<noteq> None \<and> ListAncestors s c k w \<noteq> None"
proof -
  have s: "js_projects s = gp" "js_checker s = Some (MembershipChecker gm)" by (simp_all add: assms(3))
  have f: "forest (rows (jw_projects w))"
    by (rule project_table.project_steps_forest [OF assms(1,4) s assms(2)])
  have a: "GetAncestors gp (jw_projects w) j \<noteq> None" and t: "GetTree gp (jw_projects w) j \<noteq> None" for j
    using project_table.GetAncestors_returns [OF assms(1) f, of j] project_table.GetTree_returns [OF assms(1) f, of j]
    by auto
  have d: "depthOf gp (jw_projects w) j \<noteq> None" for j using a by (simp add: depthOf_def)
  have p: "parent_depth gp (jw_projects w) j \<noteq> None" for j using d by (simp add: parent_depth_def split: sum.splits)
  have m: "check_move gp (jw_projects w) j q \<noteq> None" for j q
    using t [of j] p [of q] d [of j] by (auto simp: check_move_def split: option.splits sum.splits)
  have g: "w' = w" if "requireMembership s c j w = (e, w')" for j e w'
    using requireMembership_reads [OF s(2) that] .
  have "check_create s inp w \<noteq> None"
    using p [of "the (np_ParentID inp)"] by (cases "np_ParentID inp") (auto simp: check_create_def s(1) split: option.splits sum.splits)
  moreover have "prepare_update gp (jw_projects w) k uin \<noteq> None"
    using m [of k "the (up_ParentID uin)"] by (cases "up_ParentID uin") (auto simp: prepare_update_def split: option.splits sum.splits)
  ultimately show ?thesis
    using a [of k] by (auto simp: CreateProject_def UpdateProject_def ListAncestors_def s(1) Let_def dest!: g
      split: prod.splits option.splits sum.splits)
qed

subsection \<open>Concrete hierarchies\<close>

definition membership_key :: "project_member \<Rightarrow> string \<times> string" where
  "membership_key m = (pm_ProjectID m, pm_UserID m)"

definition sqlite_member_violation :: string where
  "sqlite_member_violation = ''UNIQUE constraint failed: project_members.project_id, project_members.user_id''"

text \<open>The service over in-memory tables, without an audit sink; identifiers are counted.\<close>

definition demo_projects ::
    "(project_type list, project list, project_member list \<times> (string \<times> string) list, unit, nat) project_service" where
  "demo_projects = NewProjectService (mem_gorm pt_ID) (mem_gorm pj_ID)
     (soft_gorm pm_ID membership_key sqlite_member_violation) (\<lambda>_ _. False) (\<lambda>db. db) None
     (\<lambda>n. (''id-'' @ nat_digits n, Suc n))"

lemma demo_projects_sel [simp]:
  "js_types demo_projects = mem_gorm pt_ID" "js_projects demo_projects = mem_gorm pj_ID"
  "js_members demo_projects = soft_gorm pm_ID membership_key sqlite_member_violation"
  "js_checker demo_projects = Some (MembershipChecker (soft_gorm pm_ID membership_key sqlite_member_violation))"
  "js_audit demo_projects = None" "js_newID demo_projects n = (''id-'' @ nat_digits n, Suc n)"
  by (simp_all add: demo_projects_def)

definition demo_project :: "string \<Rightarrow> string option \<Rightarrow> project" where
  "demo_project k parent =
     \<lparr>pj_ID = k, pj_Name = k, pj_Code = k, pj_Description = '''', pj_ParentID = parent, pj_TypeID = ''t'',
      pj_OwnerUserID = None, pj_Weight = 0, pj_Labels = Some [], pj_Metadata = Some []\<rparr>"

lemma demo_project_sel [simp]:
  "pj_ID (demo_project k parent) = k" "pj_ParentID (demo_project k parent) = parent"
  "pj_TypeID (demo_project k parent) = ''t''"
  by (simp_all add: demo_project_def)

definition admin_ctx :: ctx where
  "admin_ctx = WithContext (Some (New (Some \<lparr>user_ID = ''root'', user_Username = ''root'', user_Email = '''',
     user_Role = RoleSuperAdmin, user_ProjectRole = ''''\<rparr>)))"

lemma admin_requireMembership [simp]: "requireMembership s admin_ctx pid w = (None, w)"
  by (simp add: requireMembership_def authenticated_def admin_ctx_def FromContext_def WithContext_def New_def)

definition demo_world ::
    "project list \<Rightarrow> (project_type list, project list, project_member list \<times> (string \<times> string) list, nat) project_world" where
  "demo_world db = \<lparr>jw_types = [], jw_projects = db, jw_members = ([], []), jw_env = 0\<rparr>"

lemma demo_world_sel [simp]:
  "jw_projects (demo_world db) = db" "jw_types (demo_world db) = []" "jw_members (demo_world db) = ([], [])"
  "jw_env (demo_world db) = 0" "(demo_world db)\<lparr>jw_projects := db'\<rparr> = demo_world db'"
  by (simp_all add: demo_world_def)

text \<open>Two business lines with a system each, and two without.\<close>

definition two_lines :: "project list" where
  "two_lines = [demo_project ''a'' None, demo_project ''b'' (Some ''a''), demo_project ''r'' None,
     demo_project ''s'' (Some ''r'')]"

definition two_roots :: "project list" where
  "two_roots = [demo_project ''a'' None, demo_project ''b'' None]"

text \<open>Only the parent is changed.\<close>

definition move_to :: "string \<Rightarrow> update_project_input" where
  "move_to q = \<lparr>up_Name = None, up_ParentID = Some q, up_Description = None, up_OwnerUserID = None, up_Weight = None\<rparr>"

lemma prepare_move: "prepare_update g db k (move_to q) =
    (case Project_Get g db k of
        Inl err \<Rightarrow> Some (Inl err)
      | Inr current \<Rightarrow>
          (case check_move g db k q of
             None \<Rightarrow> None
           | Some (Inl err) \<Rightarrow> Some (Inl err)
           | Some (Inr _) \<Rightarrow> Some (Inr (current, [SetProjectParent q]))))"
  by (cases "Project_Get g db k") (simp_all add: prepare_update_def move_to_def field_patch_def split: option.splits sum.splits)

lemma mem_Project_Get:
  "Project_Get (mem_gorm pj_ID) db k =
     (case mem_rows pj_ID db k of None \<Rightarrow> Inl (project_notFound ''project'' k) | Some p \<Rightarrow> Inr p)"
  by (simp add: Project_Get_def repo_Get_def mem_First split: option.splits)

lemma mem_children:
  "distinct (map pj_ID db) \<Longrightarrow> db_Find (mem_gorm pj_ID) db P = Inr (filter P db)"
proof -
  assume d: "distinct (map pj_ID db)"
  have "List.map_filter (mem_rows pj_ID db) (map pj_ID xs) = xs" if "set xs \<subseteq> set db" for xs
    using that
  proof (induction xs)
    case (Cons x xs)
    then have "mem_rows pj_ID db (pj_ID x) = Some x" using mem_rows_distinct [OF d] by simp
    with Cons show ?case by (simp add: map_filter_simps)
  qed (simp add: map_filter_simps)
  from this [of db] d show ?thesis by (simp add: mem_Find distinct_remdups_id)
qed

text \<open>
  A move can break the limit of three levels. With two business lines, each with one system, moving
  the first line below the second system is accepted, and the system that came with it is then on the
  fourth level: the check looks at the depth of the new parent and not at what is below the project
  that moves.
\<close>

theorem moved_subtree_exceeds_depth:
  "\<exists>p db'. UpdateProject demo_projects admin_ctx ''a'' (move_to ''s'') (demo_world two_lines)
        = Some (Inr p, demo_world db')
     \<and> depthOf (mem_gorm pj_ID) two_lines ''a'' = Some (Inr 1) \<and> depthOf (mem_gorm pj_ID) two_lines ''b'' = Some (Inr 2)
     \<and> depthOf (mem_gorm pj_ID) two_lines ''r'' = Some (Inr 1) \<and> depthOf (mem_gorm pj_ID) two_lines ''s'' = Some (Inr 2)
     \<and> depthOf (mem_gorm pj_ID) db' ''b'' = Some (Inr 4)"
proof -
  define db where "db = two_lines"
  define w where "w = demo_world db"
  note db_def = db_def two_lines_def
  have g: "depthOf (mem_gorm pj_ID) (jw_projects w) k = Some (Inr (if k = ''a'' \<or> k = ''r'' then 1 else 2))"
    if "k \<in> {''a'', ''b'', ''r'', ''s''}" for k
    using that by (auto simp: w_def db_def depthOf_def GetAncestors_def mem_Project_Get ancestors_loop.simps)
  have t: "GetTree (mem_gorm pj_ID) db ''a'' = Some (Inr [demo_project ''a'' None, demo_project ''b'' (Some ''a'')])"
    by (simp add: GetTree_def db_def mem_Project_Get tree_loop.simps mem_children child_of_def)
  have m: "check_move (mem_gorm pj_ID) db ''a'' ''s'' = Some (Inr ())"
    using g [of "''s''"] g [of "''a''"]
    by (simp add: check_move_def t parent_depth_def room_below_def w_def) (simp add: db_def mem_Project_Get room_below_def)
  have a: "Project_Get (mem_gorm pj_ID) db ''a'' = Inr (demo_project ''a'' None)"
    by (simp add: db_def mem_Project_Get)
  define p' db' where "p' = demo_project ''a'' (Some ''s'')"
    and "db' = [p', demo_project ''b'' (Some ''a''), demo_project ''r'' None, demo_project ''s'' (Some ''r'')]"
  have "Project_Update (mem_gorm pj_ID) db ''a'' [SetProjectParent ''s''] = (Inr p', db')"
    by (simp add: Project_Update_def mem_Updates db_def db'_def p'_def mem_Project_Get) (simp add: demo_project_def)
  then have u: "UpdateProject demo_projects admin_ctx ''a'' (move_to ''s'') w
      = Some (Inr p', demo_world db')"
    by (simp add: UpdateProject_def prepare_move m a w_def commit_update_def project_emitAudit_def)
  have "depthOf (mem_gorm pj_ID) db' ''b'' = Some (Inr 4)"
    by (simp add: depthOf_def GetAncestors_def mem_Project_Get db'_def p'_def ancestors_loop.simps)
  with u g show ?thesis unfolding w_def \<open>db = two_lines\<close>
    by (intro exI [of _ p'] exI [of _ db']) simp
qed


lemma two_cycle_hangs:
  assumes "db_First g db a = Inr pa" "db_First g db b = Inr pb" "pj_ParentID pa = Some b" "pj_ParentID pb = Some a"
  shows "ancestors_loop g db pa acc = None \<and> ancestors_loop g db pb acc = None"
proof -
  have "g' = g \<longrightarrow> db' = db \<longrightarrow> cur \<in> {pa, pb} \<longrightarrow> False" if r: "ancestors_loop g' db' cur acc = Some r" for g' db' cur acc r
  proof (rule ancestors_loop.raw_induct [where P = "\<lambda>g' db' cur acc r. g' = g \<longrightarrow> db' = db \<longrightarrow> cur \<in> {pa, pb} \<longrightarrow> False",
      OF _ r], goal_cases)
    case (1 f g' db' cur acc r)
    from 1(1) [of g db pa "acc @ [pa]" r] 1(1) [of g db pb "acc @ [pb]" r] 1(2) assms show ?case
      by (auto simp: Project_Get_def repo_Get_def)
  qed
  from this [of g db pa acc] this [of g db pb acc] show ?thesis
    by (cases "ancestors_loop g db pa acc"; cases "ancestors_loop g db pb acc") auto
qed

text \<open>
  Two moves at the same time make a cycle. Of two business lines, one request moves the first below
  the second and another the second below the first. Each reads before the other writes, so both
  checks pass; after both writes the two projects are each other's parent, and the walk to the root
  never returns, for either of them: every later request that asks for the depth hangs.
\<close>

theorem concurrent_moves_hang:
  "\<exists>ca cb pa pb w1 w2.
     prepare_update (mem_gorm pj_ID) two_roots ''a'' (move_to ''b'') = Some (Inr ca)
     \<and> prepare_update (mem_gorm pj_ID) two_roots ''b'' (move_to ''a'') = Some (Inr cb)
     \<and> commit_update demo_projects admin_ctx ''a'' ca (demo_world two_roots) = (Inr pa, w1)
     \<and> commit_update demo_projects admin_ctx ''b'' cb w1 = (Inr pb, w2)
     \<and> ListAncestors demo_projects admin_ctx ''a'' w2 = None
     \<and> ListAncestors demo_projects admin_ctx ''b'' w2 = None"
proof -
  define a b where "a = demo_project ''a'' None" and "b = demo_project ''b'' None"
  define a' b' where "a' = demo_project ''a'' (Some ''b'')" and "b' = demo_project ''b'' (Some ''a'')"
  have get: "Project_Get (mem_gorm pj_ID) [a, b] ''a'' = Inr a" "Project_Get (mem_gorm pj_ID) [a, b] ''b'' = Inr b"
    by (simp_all add: mem_Project_Get a_def b_def)
  have "depthOf (mem_gorm pj_ID) [a, b] k = Some (Inr 1)" if "k \<in> {''a'', ''b''}" for k
    using that get by (auto simp: depthOf_def GetAncestors_def ancestors_loop.simps a_def b_def)
  moreover have "GetTree (mem_gorm pj_ID) [a, b] ''a'' = Some (Inr [a])" "GetTree (mem_gorm pj_ID) [a, b] ''b'' = Some (Inr [b])"
    by (simp_all add: GetTree_def get tree_loop.simps) (simp_all add: mem_children child_of_def a_def b_def)
  ultimately have m: "check_move (mem_gorm pj_ID) [a, b] ''a'' ''b'' = Some (Inr ())"
      "check_move (mem_gorm pj_ID) [a, b] ''b'' ''a'' = Some (Inr ())"
    using get by (simp_all add: check_move_def parent_depth_def room_below_def a_def b_def)
  have p: "prepare_update (mem_gorm pj_ID) [a, b] ''a'' (move_to ''b'') = Some (Inr (a, [SetProjectParent ''b'']))"
      "prepare_update (mem_gorm pj_ID) [a, b] ''b'' (move_to ''a'') = Some (Inr (b, [SetProjectParent ''a'']))"
    by (simp_all add: prepare_move get m)
  have "Project_Update (mem_gorm pj_ID) [a, b] ''a'' [SetProjectParent ''b''] = (Inr a', [a', b])"
      "Project_Update (mem_gorm pj_ID) [a', b] ''b'' [SetProjectParent ''a''] = (Inr b', [a', b'])"
    by (simp_all add: Project_Update_def mem_Updates mem_Project_Get a_def b_def a'_def b'_def)
      (simp_all add: demo_project_def)
  then have c: "commit_update demo_projects admin_ctx ''a'' (a, [SetProjectParent ''b'']) (demo_world [a, b])
        = (Inr a', demo_world [a', b])"
      "commit_update demo_projects admin_ctx ''b'' (b, [SetProjectParent ''a'']) (demo_world [a', b])
        = (Inr b', demo_world [a', b'])"
    by (simp_all add: commit_update_def project_emitAudit_def)
  have "ancestors_loop (mem_gorm pj_ID) [a', b'] a' [] = None \<and> ancestors_loop (mem_gorm pj_ID) [a', b'] b' [] = None"
    by (rule two_cycle_hangs [where a = "''a''" and b = "''b''"]) (simp_all add: mem_First a'_def b'_def)
  then have h: "ListAncestors demo_projects admin_ctx k (demo_world [a', b']) = None" if "k \<in> {''a'', ''b''}" for k
    using that by (auto simp: ListAncestors_def GetAncestors_def mem_Project_Get a'_def b'_def)
  have "two_roots = [a, b]" by (simp add: two_roots_def a_def b_def)
  with p c h show ?thesis by (metis insertCI)
qed

subsection \<open>Levels\<close>

lemma chain_update: "chain_to_root rows q qs \<Longrightarrow> \<not> below rows k q \<Longrightarrow> chain_to_root (rows(k := x)) q qs"
proof (induction rule: chain_to_root.induct)
  case (at_root j p)
  then have "j \<noteq> k" by auto
  with at_root show ?case by (intro chain_to_root.at_root) auto
next
  case (under q j qs)
  then have "j \<noteq> k" "\<not> below rows k q" by (auto intro: rtranclp.rtrancl_into_rtrancl)
  from \<open>\<not> below rows k q\<close> have "chain_to_root (rows(k := x)) q qs" by (rule under.IH)
  moreover have "child_rel (rows(k := x)) q j" using under.hyps(1) \<open>j \<noteq> k\<close> by (simp add: child_rel_def)
  ultimately show ?case by (rule chain_to_root.under [rotated])
qed

lemma below_dead: "forest rows \<Longrightarrow> rows k = None \<Longrightarrow> rows q \<noteq> None \<Longrightarrow> \<not> below rows k q"
proof
  assume "forest rows" "rows k = None" "rows q \<noteq> None" "below rows k q"
  then obtain d z where "ranked rows d" "child_rel rows k z"
    by (auto simp: forest_def elim: converse_rtranclpE)
  from rankedD [OF this] \<open>rows k = None\<close> show False by simp
qed

context project_table
begin

lemma parent_depth_chain:
  assumes "parent_depth g db q = Some (Inr d)" "forest (rows db)"
  shows "\<exists>qs. chain_to_root (rows db) q qs \<and> d = int (length qs) + 1"
proof -
  from assms(1) obtain ps where "GetAncestors g db q = Some (Inr ps)" "d = int (length ps) + 1"
    by (auto simp: parent_depth_def depthOf_def map_sum_Inr dest: Get_live split: sum.splits)
  with GetAncestors_returns [OF assms(2), of q] show ?thesis by (intro exI [of _ "map pj_ID ps"]) auto
qed

lemma created_level:
  assumes "CreateProject s c inp w = Some (Inr p, w')" "js_projects s = g" "js_checker s = Some (MembershipChecker b)"
    and "forest (rows (jw_projects w))"
  shows "\<exists>qs. chain_to_root (rows (jw_projects w')) (pj_ID p) qs \<and> length qs \<le> 2"
proof -
  from Create_step [OF assms] have r: "rows (jw_projects w) (pj_ID p) = None"
    "rows (jw_projects w') = (rows (jw_projects w))(pj_ID p \<mapsto> project_row p)"
    and parent: "\<And>q. pj_ParentID p = Some q \<Longrightarrow> \<exists>d. parent_depth g (jw_projects w) q = Some (Inr d) \<and> d \<le> 2"
    by auto
  show ?thesis
  proof (cases "pj_ParentID p")
    case None
    with r(2) chain_to_root.at_root [of "rows (jw_projects w')" "pj_ID p" "project_row p"] show ?thesis by force
  next
    case (Some q)
    from parent [OF Some] obtain d where d: "parent_depth g (jw_projects w) q = Some (Inr d)" "d \<le> 2" by blast
    from parent_depth_chain [OF d(1) assms(4)] d(2) obtain qs where
      qs: "chain_to_root (rows (jw_projects w)) q qs" "length qs \<le> 1" by auto
    from chain_update [OF qs(1) below_dead [OF assms(4) r(1) parent_depth_live [OF d(1)]]] r(2)
    have "chain_to_root (rows (jw_projects w')) q qs" by simp
    moreover have "child_rel (rows (jw_projects w')) q (pj_ID p)" using Some r(2) by (simp add: child_rel_def)
    ultimately show ?thesis using qs(2) by (intro exI [of _ "qs @ [q]"]) (auto intro: chain_to_root.under)
  qed
qed

lemma moved_level:
  assumes "UpdateProject s c k inp w = Some (Inr p, w')" "up_ParentID inp = Some q" "js_projects s = g"
    and "js_checker s = Some (MembershipChecker b)" "forest (rows (jw_projects w))"
  shows "\<exists>qs. chain_to_root (rows (jw_projects w')) k qs \<and> length qs \<le> 2"
proof -
  obtain e w1 where g1: "requireMembership s c k w = (e, w1)" by (cases "requireMembership s c k w")
  from requireMembership_reads [OF assms(4) g1] g1 have g1: "requireMembership s c k w = (e, w)" by simp
  from assms(1,3) g1 obtain cur patch where prep: "prepare_update g (jw_projects w) k inp = Some (Inr (cur, patch))"
    and com: "commit_update s c k (cur, patch) w = (Inr p, w')"
    by (auto simp: UpdateProject_def split: option.splits sum.splits)
  from prep assms(2) obtain fp u where cur: "Project_Get g (jw_projects w) k = Inr cur"
    and m: "check_move g (jw_projects w) k q = Some (Inr u)" and patch: "patch = fp @ [SetProjectParent q]"
    by (auto simp: prepare_update_def split: option.splits sum.splits)
  from m obtain d where d: "parent_depth g (jw_projects w) q = Some (Inr d)" "d \<le> 2"
    by (auto simp: check_move_def room_below_def split: option.splits sum.splits if_splits)
  from parent_depth_chain [OF d(1) assms(5)] d(2) obtain qs where
    qs: "chain_to_root (rows (jw_projects w)) q qs" "length qs \<le> 1" by auto
  from com patch assms(3) obtain n db where u: "db_Updates g (jw_projects w) k (fold set_project_col patch) = Inr (n, db)"
    and w': "jw_projects w' = db"
    by (auto simp: commit_update_def Project_Update_def split: sum.splits if_splits prod.splits)
  from Updates_ok [OF u] Get_live [OF cur] have r: "rows db = (rows (jw_projects w))(k \<mapsto> fold set_project_col patch cur)"
    by simp
  from check_move_ok [OF m assms(5)] chain_update [OF qs(1)] r have "chain_to_root (rows db) q qs" by simp
  moreover have "child_rel (rows db) q k" using r patch by (simp add: child_rel_def)
  ultimately show ?thesis using qs(2) w' by (intro exI [of _ "qs @ [q]"]) (auto intro: chain_to_root.under)
qed

end

text \<open>
  C24: where a request puts a project, it is on one of three levels. The project a creation returns, and
  the project a move moves, has at most two ancestors afterwards.
\<close>

theorem placed_within_three_levels:
  assumes "project_table gp rows" "forest (rows (jw_projects w))"
    and "s = NewProjectService gt gp gm like raw aud newID"
  shows "(CreateProject s c inp w = Some (Inr p, w') \<longrightarrow>
      (\<exists>qs. chain_to_root (rows (jw_projects w')) (pj_ID p) qs \<and> length qs \<le> 2))
    \<and> (UpdateProject s c k uin w = Some (Inr p, w') \<longrightarrow> up_ParentID uin = Some q \<longrightarrow>
      (\<exists>qs. chain_to_root (rows (jw_projects w')) k qs \<and> length qs \<le> 2))"
  using project_table.created_level [OF assms(1) _ _ _ assms(2), of s c inp p w' gm]
    project_table.moved_level [OF assms(1) _ _ _ _ assms(2), of s c k uin p w' q gm] assms(3) by simp

subsection \<open>Revoked members\<close>

locale member_table = soft_unique b pm_ID rows membership_key index
  for b :: "('m, project_member) gorm_bulk" and rows :: "'m \<Rightarrow> string \<Rightarrow> project_member option"
    and index :: "'m \<Rightarrow> (string \<times> string) set"
begin

lemma membership_pred: "is_membership p u = (\<lambda>m. membership_key m = (p, u))"
  by (auto simp: is_membership_def membership_key_def)

lemma AddMember_ghost: "AddMember b newID db p u role by = Inr db' \<Longrightarrow> ghost db x \<Longrightarrow> ghost db' x"
  by (auto simp: AddMember_def intro: ghost_Create split: sum.splits)

lemma promote_ghost: "promote_member b db p u role by = Inr db' \<Longrightarrow> ghost db x \<Longrightarrow> ghost db' x"
  by (auto simp: promote_member_def map_sum_Inr membership_key_def intro: ghost_Updates)

lemma RemoveMember_ghost: "RemoveMember b db p u = Inr db' \<Longrightarrow> ghost db x \<Longrightarrow> ghost db' x"
  by (auto simp: RemoveMember_def intro: ghost_Delete split: sum.splits if_splits)

lemma RemoveMember_makes_ghost: "RemoveMember b db p u = Inr db' \<Longrightarrow> ghost db' (p, u)"
  by (auto simp: RemoveMember_def membership_pred intro: Delete_makes_ghost split: sum.splits if_splits)

lemma ghost_not_listed:
  assumes "ghost db (p, u)" "ListProjectIDsForUser b db u = (ids, err)"
  shows "err \<noteq> None \<or> (\<exists>s. ids = Some s \<and> p \<notin> s)"
proof (cases "db_Find (gb_table b) db (\<lambda>m. pm_UserID m = u)")
  case (Inr ms)
  have "p \<notin> pm_ProjectID ` set ms"
  proof
    assume "p \<in> pm_ProjectID ` set ms"
    with Find_ok [OF Inr] obtain m where "rows db (pm_ID m) = Some m" "membership_key m = (p, u)"
      by (auto simp: membership_key_def)
    with ghostD [OF assms(1)] show False by blast
  qed
  with Inr assms(2) show ?thesis by (auto simp: ListProjectIDsForUser_def split: if_splits)
qed (use assms(2) in \<open>auto simp: ListProjectIDsForUser_def split: if_splits\<close>)

text \<open>The checks of a fresh principal: no listing, no membership.\<close>

lemma ghost_refused:
  assumes "ghost (jw_members w) (p, user_ID usr)" "user_Role usr \<noteq> RoleSuperAdmin"
    and "js_checker s = Some (MembershipChecker b)"
  shows "requireMembership s (WithContext (Some (New (Some usr)))) p w = (Some ErrProjectForbidden, w)"
  using ghost_not_listed [OF assms(1)] assms(2)
  by (cases "ListProjectIDsForUser b (jw_members w) (user_ID usr)")
    (auto simp: requireMembership_def authenticated_def FromContext_def WithContext_def New_def assms(3)
      IsMemberOf_def load_memberships_def MembershipChecker_def split: option.splits)

lemma project_step_ghost:
  assumes "project_step s w w'" "js_members s = b" "js_checker s = Some (MembershipChecker b)" "ghost (jw_members w) x"
  shows "ghost (jw_members w') x"
  using assms(1)
proof cases
  case (assign c pid u role adder e)
  then show ?thesis using assms(2,4)
    by (auto simp: AssignMember_def Let_def dest!: requireMembership_reads [OF assms(3)]
      split: prod.splits option.splits sum.splits if_splits intro: AddMember_ghost promote_ghost)
next
  case (revoke c pid u e)
  then show ?thesis using assms(2,4)
    by (auto simp: RevokeMember_def dest!: requireMembership_reads [OF assms(3)]
      split: prod.splits option.splits sum.splits intro: RemoveMember_ghost)
next
  case (create c inp r)
  then show ?thesis using assms(4)
    by (auto simp: CreateProject_def Let_def dest!: requireMembership_reads [OF assms(3)]
      split: prod.splits option.splits sum.splits)
next
  case (update c k uin r)
  then show ?thesis using assms(4)
    by (auto simp: UpdateProject_def commit_update_def dest!: requireMembership_reads [OF assms(3)]
      split: prod.splits option.splits sum.splits if_splits)
next
  case (delete c k e)
  then show ?thesis using assms(4)
    by (auto simp: DeleteProject_def dest!: requireMembership_reads [OF assms(3)]
      split: prod.splits option.splits sum.splits if_splits)
next
  case (create_type c t rt)
  then show ?thesis using assms(4)
    by (auto simp: Project_CreateType_def dest!: requireMembership_reads [OF assms(3)]
      split: prod.splits option.splits sum.splits if_splits)
qed (use assms(4) in simp)

lemma revoked_stays_out:
  assumes "RevokeMember s c p u w = (None, w1)" "(project_step s)\<^sup>*\<^sup>* w1 w2" "js_members s = b"
    and "js_checker s = Some (MembershipChecker b)"
  shows "ghost (jw_members w2) (p, u)"
proof -
  from assms(1) have "ghost (jw_members w1) (p, u)"
    by (auto simp: RevokeMember_def assms(3) dest!: requireMembership_reads [OF assms(4)] RemoveMember_makes_ghost
      split: prod.splits option.splits sum.splits)
  from assms(2) this show ?thesis
    by (induction rule: rtranclp_induct) (auto intro: project_step_ghost assms(3,4))
qed

end

interpretation soft_members: member_table
  "soft_gorm pm_ID membership_key m" "\<lambda>db. mem_rows pm_ID (fst db)" "soft_index membership_key"
  for m
  by unfold_locales

text \<open>
  C25: a revoked member never comes back. The member table deletes softly, so the revoked pair stays in
  its unique index. Whatever requests follow a successful revocation, grants of the same role to the
  same user included, no live row makes the user a member again, and every check of the user's
  membership refuses: a grant finds the conflict, turns into an update, touches no row and succeeds.
\<close>

theorem revoked_member_never_returns:
  assumes "member_table gm rm ix" "s = NewProjectService gt gp gm like raw aud newID"
    and "RevokeMember s c p u w = (None, w1)" "(project_step s)\<^sup>*\<^sup>* w1 w2"
  shows "(\<forall>k m. rm (jw_members w2) k = Some m \<longrightarrow> \<not> is_membership p u m)
    \<and> (\<forall>usr. user_ID usr = u \<longrightarrow> user_Role usr \<noteq> RoleSuperAdmin \<longrightarrow>
        requireMembership s (WithContext (Some (New (Some usr)))) p w2 = (Some ErrProjectForbidden, w2))"
proof -
  have s: "js_members s = gm" "js_checker s = Some (MembershipChecker gm)" by (simp_all add: assms(2))
  have g: "soft_unique.ghost rm membership_key ix (jw_members w2) (p, u)"
    by (rule member_table.revoked_stays_out [OF assms(1,3,4) s])
  have "soft_unique gm pm_ID rm membership_key ix" using assms(1) by (simp add: member_table_def)
  from soft_unique.ghostD [OF this g] member_table.ghost_refused [OF assms(1) _ _ s(2), of w2 p] g
  show ?thesis by (auto simp: is_membership_def membership_key_def)
qed

definition member_row :: "string \<Rightarrow> project_member" where
  "member_row k = \<lparr>pm_ID = k, pm_ProjectID = ''a'', pm_UserID = ''u1'', pm_Role = ''viewer'', pm_AddedBy = ''root'',
     pm_AddedAt = zero_time\<rparr>"

definition member_world :: "project_member list \<Rightarrow> (string \<times> string) list \<Rightarrow> nat
    \<Rightarrow> (project_type list, project list, project_member list \<times> (string \<times> string) list, nat) project_world" where
  "member_world ms ix n = \<lparr>jw_types = [], jw_projects = [demo_project ''a'' None], jw_members = (ms, ix), jw_env = n\<rparr>"

lemma demo_revoke:
  "RevokeMember demo_projects admin_ctx ''a'' ''u1'' (member_world [member_row ''m''] [] 0)
     = (None, member_world [] [(''a'', ''u1'')] 0)"
  by (simp add: RevokeMember_def RemoveMember_def soft_calls mem_live_def map_filter_simps member_world_def
    member_row_def is_membership_def membership_key_def project_emitAudit_def)

lemma sqlite_violation_found:
  "isUniqueViolation (External sqlite_member_violation) ''project_members'' = Some True"
proof -
  have "Contains sqlite_member_violation ''UNIQUE constraint failed''"
    by (rule ContainsI [of _ "''''" _ "'': project_members.project_id, project_members.user_id''"])
      (simp add: sqlite_member_violation_def)
  moreover have "Contains sqlite_member_violation ''project_members''"
    by (rule ContainsI [of _ "''UNIQUE constraint failed: ''" _ "''.project_id, project_members.user_id''"])
      (simp add: sqlite_member_violation_def)
  ultimately show ?thesis by (simp add: isUniqueViolation_def)
qed

lemma demo_regrant:
  "AssignMember demo_projects admin_ctx ''a'' ''u1'' ''admin'' ''root'' (member_world [] [(''a'', ''u1'')] 0)
     = (None, member_world [] [(''a'', ''u1'')] 1)"
proof -
  have "AddMember (js_members demo_projects) k ([], [(''a'', ''u1'')]) ''a'' ''u1'' ''admin'' ''root''
      = Inl (APIError CodeConflict ''user is already a member of this project'' None)" for k
    using sqlite_violation_found
    by (simp add: AddMember_def soft_calls soft_index_def membership_key_def unique_error_def)
  then show ?thesis
    by (simp add: AssignMember_def member_world_def mem_Project_Get IsValidProjectRole_def project_IsConflict_def
      promote_member_def soft_calls mem_live_def map_filter_simps project_emitAudit_def)
qed

theorem revoked_member_never_returns_witness:
  "\<exists>w2. AssignMember demo_projects admin_ctx ''a'' ''u1'' ''admin'' ''root'' (member_world [] [(''a'', ''u1'')] 0)
       = (None, w2)
     \<and> requireMembership demo_projects (WithContext (Some (New (Some dev_user)))) ''a'' w2
         = (Some ErrProjectForbidden, w2)"
proof -
  let ?w2 = "member_world [] [(''a'', ''u1'')] 1"
  have "(project_step demo_projects)\<^sup>*\<^sup>* (member_world [] [(''a'', ''u1'')] 0) ?w2"
    by (rule r_into_rtranclp) (rule project_step.assign [OF demo_regrant])
  from revoked_member_never_returns [OF soft_members.member_table_axioms demo_projects_def demo_revoke this]
  show ?thesis using demo_regrant by (intro exI [of _ ?w2]) simp
qed

text \<open>One creation over the in-memory tables, for the witnesses of the hierarchy.\<close>

definition root_input :: create_project_input where
  "root_input = \<lparr>np_Name = ''A'', np_Code = ''a'', np_Desc = '''', np_ParentID = None, np_TypeID = ''t'',
     np_OwnerUserID = None, np_Weight = 1, np_Labels = None, np_Metadata = None\<rparr>"

definition typed_world ::
    "project list \<Rightarrow> nat \<Rightarrow> (project_type list, project list, project_member list \<times> (string \<times> string) list, nat) project_world" where
  "typed_world db n = \<lparr>jw_types = [\<lparr>pt_ID = ''t'', pt_Name = ''T'', pt_Description = '''', pt_Weight = 1\<rparr>],
     jw_projects = db, jw_members = ([], []), jw_env = n\<rparr>"

definition created_root :: project where
  "created_root = (new_project root_input)\<lparr>pj_ID := ''id-0''\<rparr>"

lemma demo_create_project:
  "CreateProject demo_projects admin_ctx root_input (typed_world [] 0)
     = Some (Inr created_root, typed_world [project_row created_root] 1)"
proof -
  have v: "validateProjectFields ''A'' ''a'' ''t'' = None" by code_simp
  have d: "nat_digits 0 = ''0''" by code_simp
  show ?thesis
    by (simp add: CreateProject_def check_create_def root_input_def v IsValidWeight_def word_sle_eq type_exists_def
      ListTypes_repo_def typed_world_def mem_Find map_filter_simps CreateProject_repo_def new_project_def mem_Create
      BaseModel_BeforeCreate_def d created_root_def project_emitAudit_def Let_def)
qed

lemma forest_empty: "forest (mem_rows pj_ID [])"
  by (auto simp: forest_def ranked_def child_rel_def dom_def)

lemma demo_project_run:
  "(project_step demo_projects)\<^sup>*\<^sup>* (typed_world [] 0) (typed_world [project_row created_root] 1)"
  by (rule r_into_rtranclp) (rule project_step.create [OF demo_create_project])

lemma typed_world_projects [simp]: "jw_projects (typed_world db n) = db"
  by (simp add: typed_world_def)

theorem hierarchy_stays_a_forest_witness:
  "forest (mem_rows pj_ID [project_row created_root])"
  using hierarchy_stays_a_forest [OF mem_projects.project_table_axioms, of "typed_world [] 0",
    OF _ demo_project_run [unfolded demo_projects_def]] forest_empty by simp

theorem hierarchy_walks_return_witness:
  "ListAncestors demo_projects admin_ctx ''id-0'' (typed_world [project_row created_root] 1) \<noteq> None"
  using hierarchy_walks_return [OF mem_projects.project_table_axioms _ demo_projects_def demo_project_run] forest_empty
  by simp

theorem placed_within_three_levels_witness:
  "\<exists>qs. chain_to_root (mem_rows pj_ID [project_row created_root]) ''id-0'' qs \<and> length qs \<le> 2"
  using placed_within_three_levels [OF mem_projects.project_table_axioms _ demo_projects_def, of "typed_world [] 0"
      admin_ctx root_input created_root "typed_world [project_row created_root] 1"] forest_empty demo_create_project
  by (simp add: created_root_def)

end
