(* ===== verification/Project_Http.thy ===== *)
theory Project_Http
  imports Project_Facts
begin

text \<open>
  The HTTP handlers of the project hierarchy (\<open>internal/project/handler.go\<close>): from the body, the path and
  the query to the response. The JSON decoder is a parameter, as the outcome of decoding a body. A
  handler whose request never returns has no response. Lemmas: what a refused caller is answered, and
  what a scoped caller is shown.
\<close>

datatype 'b request_body = NoBody | EmptyBody | MalformedBody string | Decoded 'b

text \<open>\<open>bind\<close>: the decoded input, or the response it has written.\<close>

definition project_bind :: "'b request_body \<Rightarrow> ('a response, 'b) sum" where
  "project_bind body =
     (case body of
        NoBody \<Rightarrow> Inl (reject CodeValidation ''request body is required'')
      | EmptyBody \<Rightarrow> Inl (reject CodeValidation ''request body is empty'')
      | MalformedBody m \<Rightarrow> Inl (reject CodeValidation (''invalid request body: '' @ m))
      | Decoded b \<Rightarrow> Inr b)"

text \<open>The page parameters: a positive number, or the default.\<close>

definition positive_param :: "int64 \<Rightarrow> string \<Rightarrow> int64" where
  "positive_param dflt v =
     (if v = '''' then dflt else (case Atoi v of Some n \<Rightarrow> if 0 <s n then n else dflt | None \<Rightarrow> dflt))"

definition readPagination :: "(string \<Rightarrow> string) \<Rightarrow> int64 \<times> int64" where
  "readPagination q = (positive_param 1 (q ''page''), positive_param 20 (q ''page_size''))"

text \<open>The block of the response clamps the page size; the query does not.\<close>

definition project_page :: "int64 \<Rightarrow> int64 \<Rightarrow> nat \<Rightarrow> pagination" where
  "project_page page pageSize tot =
     (let p = (NewPagination page pageSize)\<lparr>pg_Total := of_nat tot\<rparr> in p\<lparr>pg_HasMore := MoreAvailable p\<rparr>)"

definition respond_page :: "int64 \<Rightarrow> int64 \<Rightarrow> ('a list \<times> nat) result \<Rightarrow> 'a response" where
  "respond_page page pageSize res =
     (case res of Inl err \<Rightarrow> fail_with err | Inr (rs, tot) \<Rightarrow> BodyList rs (project_page page pageSize tot))"

subsection \<open>The handlers\<close>

record create_type_body =
  tb_Name :: string
  tb_Description :: string
  tb_Weight :: int64

definition project_createType where
  "project_createType s c body w =
     (case project_bind body of
        Inl resp \<Rightarrow> (resp, w)
      | Inr b \<Rightarrow>
          (case Project_CreateType s c
                  \<lparr>pt_ID = '''', pt_Name = tb_Name b, pt_Description = tb_Description b, pt_Weight = tb_Weight b\<rparr> w of
             (res, w) \<Rightarrow> (respond 201 res, w)))"

definition project_listTypes where
  "project_listTypes s c w = (case Project_ListTypes s c w of (res, w) \<Rightarrow> (respond 200 res, w))"

text \<open>The two inputs of the wire have the fields of the inputs of the service.\<close>

definition project_create where
  "project_create s c body w =
     (case project_bind body of
        Inl resp \<Rightarrow> Some (resp, w)
      | Inr (inp :: create_project_input) \<Rightarrow>
          map_option (\<lambda>(res, w). (respond 201 res, w)) (CreateProject s c inp w))"

definition project_update where
  "project_update s c k body w =
     (case project_bind body of
        Inl resp \<Rightarrow> Some (resp, w)
      | Inr (inp :: update_project_input) \<Rightarrow>
          map_option (\<lambda>(res, w). (respond 200 res, w)) (UpdateProject s c k inp w))"

definition project_delete :: "('t, 'p, 'm, 's, 'w) project_service \<Rightarrow> ctx \<Rightarrow> string
    \<Rightarrow> ('t, 'p, 'm, 'w) project_world \<Rightarrow> unit response \<times> ('t, 'p, 'm, 'w) project_world" where
  "project_delete s c k w =
     (case DeleteProject s c k w of
        (Some err, w) \<Rightarrow> (fail_with err, w) | (None, w) \<Rightarrow> (NoContent, w))"

definition project_get where
  "project_get s c k w = (case GetProjectWithRelations s c k w of (res, w) \<Rightarrow> (respond 200 res, w))"

text \<open>The children are read from the repository, without the check of the service.\<close>

definition project_children where
  "project_children s k q w =
     (case readPagination q of
        (page, pageSize) \<Rightarrow>
          respond_page page pageSize
            (Project_List (js_projects s) (js_like s) (js_raw s) (jw_projects w)
               (empty_project_filter\<lparr>pq_ParentID := Some k, pq_Limit := pageSize,
                                     pq_Offset := (page - 1) * pageSize\<rparr>)))"

definition project_ancestors where
  "project_ancestors s c k w = map_option (\<lambda>(res, w). (respond 200 res, w)) (ListAncestors s c k w)"

definition project_listMembers where
  "project_listMembers s c k w = (case ListMembers s c k w of (res, w) \<Rightarrow> (respond 200 res, w))"

record add_member_body =
  mb_UserID :: string
  mb_Role :: string

text \<open>The granting user is the authenticated one, whatever the body says.\<close>

definition project_addMember where
  "project_addMember s c k body w =
     (case project_bind body of
        Inl resp \<Rightarrow> (resp, w)
      | Inr b \<Rightarrow>
          (case FromGin c of
             (Some cl, True) \<Rightarrow>
               (case cl_User cl of
                  None \<Rightarrow> (reject CodeUnauthorized ''authentication required'', w)
                | Some u \<Rightarrow>
                    (case AssignMember s c k (mb_UserID b) (mb_Role b) (user_ID u) w of
                       (Some err, w) \<Rightarrow> (fail_with err, w)
                     | (None, w) \<Rightarrow> (Body 201 (k, mb_UserID b, mb_Role b), w)))
           | _ \<Rightarrow> (reject CodeUnauthorized ''authentication required'', w)))"

definition project_removeMember :: "('t, 'p, 'm, 's, 'w) project_service \<Rightarrow> ctx \<Rightarrow> string \<Rightarrow> string
    \<Rightarrow> ('t, 'p, 'm, 'w) project_world \<Rightarrow> unit response \<times> ('t, 'p, 'm, 'w) project_world" where
  "project_removeMember s c k u w =
     (case RevokeMember s c k u w of
        (Some err, w) \<Rightarrow> (fail_with err, w) | (None, w) \<Rightarrow> (NoContent, w))"

definition project_list_filter :: "(string \<Rightarrow> string) \<Rightarrow> int64 \<Rightarrow> int64 \<Rightarrow> project_filter" where
  "project_list_filter q page pageSize =
     \<lparr>pq_ParentID = (if q ''parent_id'' = '''' then None else Some (q ''parent_id'')),
      pq_TypeID = q ''type_id'',
      pq_OwnerID = (if q ''owner_id'' = '''' then None else Some (q ''owner_id'')),
      pq_Search = q ''search'',
      pq_Depth = (if q ''depth'' = '''' then 0 else (case Atoi (q ''depth'') of Some d \<Rightarrow> d | None \<Rightarrow> 0)),
      pq_Limit = pageSize, pq_Offset = (page - 1) * pageSize\<rparr>"

definition project_list where
  "project_list s c q w =
     (case readPagination q of
        (page, pageSize) \<Rightarrow>
          (case ListProjects s c (project_list_filter q page pageSize) w of
             (res, w) \<Rightarrow> (respond_page page pageSize res, w)))"

subsection \<open>Properties\<close>

text \<open>A caller without membership, as the middlewares and the service both see it.\<close>

lemma refused_is_internal_error:
  "fail_with ErrProjectForbidden = ErrorBody 500 CodeInternal ''project: forbidden''"
  "fail_with ErrProjectUnauthenticated = ErrorBody 500 CodeInternal ''project: unauthenticated''"
  by (simp_all add: fail_with_def WriteAPIError_def)

lemma types_need_super_admin:
  assumes "user_Role u \<noteq> RoleSuperAdmin"
  shows "requireMembership s (WithContext (Some (New (Some u)))) '''' w = (Some ErrProjectForbidden, w)"
  using assms
  by (simp add: requireMembership_def authenticated_def FromContext_def WithContext_def New_def IsMemberOf_def)

text \<open>The membership checker in production asks the member table.\<close>

context project_table
begin

lemma Project_List_sound:
  assumes "Project_List g like raw db f = Inr (rs, n)"
  shows "set rs \<subseteq> {p. rows db (pj_ID p) = Some p \<and> project_matches like (raw db) f p}"
proof -
  from assms obtain xs where x: "db_Find g db (project_matches like (raw db) f) = Inr xs"
    "rs = (if 0 <s pq_Limit f then page_of (sint (pq_Limit f)) (sint (pq_Offset f)) xs else xs)"
    by (auto simp: Project_List_def split: sum.splits)
  from Find_ok [OF x(1)] set_page_of [of "sint (pq_Limit f)" "sint (pq_Offset f)" xs] x(2) show ?thesis
    by (auto split: if_splits)
qed

lemma scoped_list:
  assumes "ListProjects s (WithContext (Some (New (Some u)))) f w = (Inr (rs, n), w')" "user_Role u \<noteq> RoleSuperAdmin"
    and "js_projects s = g" "js_checker s = Some (MembershipChecker b)"
  shows "n = length rs \<and> (\<forall>p\<in>set rs. rows (jw_projects w) (pj_ID p) = Some p
    \<and> project_matches (js_like s) (js_raw s (jw_projects w)) f p
    \<and> (\<exists>ids. ListProjectIDsForUser b (jw_members w) (user_ID u) = (Some ids, None) \<and> pj_ID p \<in> ids))"
proof -
  obtain ids err where m: "ListProjectIDsForUser b (jw_members w) (user_ID u) = (ids, err)"
    by (cases "ListProjectIDsForUser b (jw_members w) (user_ID u)")
  from assms(1,2) obtain xs t where x: "Project_List g (js_like s) (js_raw s) (jw_projects w) f = Inr (xs, t)"
    and r: "rs = filter (\<lambda>p. pj_ID p \<in> (case ids of None \<Rightarrow> {} | Some pids \<Rightarrow> pids)) xs" "n = length rs" "err = None"
    by (auto simp: ListProjects_def authenticated_def FromContext_def WithContext_def New_def membershipIDs_def
      assms(3,4) MembershipChecker_def m Let_def split: sum.splits prod.splits option.splits)
  from Project_List_sound [OF x] m r show ?thesis by (auto split: option.splits)
qed

end

text \<open>
  C26: what the list shows a scoped caller. A caller who is not SuperAdmin sees only live projects that
  match the filter and that the member table grants to that caller; the total is the number of
  projects on the page. Since the page is cut before the memberships are applied, a project the
  caller is a member of may be on no page a client asks for.
\<close>

theorem scoped_project_list:
  assumes "project_table gp rows" "s = NewProjectService gt gp gm like raw aud newID" "user_Role u \<noteq> RoleSuperAdmin"
    and "ListProjects s (WithContext (Some (New (Some u)))) f w = (Inr (rs, n), w')"
  shows "n = length rs \<and> (\<forall>p\<in>set rs. rows (jw_projects w) (pj_ID p) = Some p
    \<and> project_matches like (raw (jw_projects w)) f p
    \<and> (\<exists>ids. ListProjectIDsForUser gm (jw_members w) (user_ID u) = (Some ids, None) \<and> pj_ID p \<in> ids))"
  using project_table.scoped_list [OF assms(1,4,3), of gm] assms(2) by simp

definition two_project_world ::
    "(project_type list, project list, project_member list \<times> (string \<times> string) list, nat) project_world" where
  "two_project_world = \<lparr>jw_types = [], jw_projects = [demo_project ''b'' None, demo_project ''a'' None],
     jw_members = ([member_row ''m''], []), jw_env = 0\<rparr>"

text \<open>A member of the second project asks for the first page of one row.\<close>

theorem scoped_project_list_witness:
  "ListProjects demo_projects (WithContext (Some (New (Some dev_user))))
       (empty_project_filter\<lparr>pq_Limit := 1\<rparr>) two_project_world = (Inr ([], 0), two_project_world)
   \<and> ListProjectIDsForUser (js_members demo_projects) (jw_members two_project_world) (user_ID dev_user) = (Some {''a''}, None)
   \<and> (0::nat) = length ([] :: project list)"
proof -
  have f: "project_matches (\<lambda>_ _. False) db (empty_project_filter\<lparr>pq_Limit := 1\<rparr>) p" for db p
    by (simp add: project_matches_def empty_project_filter_def depth_matches_def Let_def)
  have o: "pq_Offset empty_project_filter = 0" by (simp add: empty_project_filter_def)
  have l: "ListProjects demo_projects (WithContext (Some (New (Some dev_user))))
       (empty_project_filter\<lparr>pq_Limit := 1\<rparr>) two_project_world = (Inr ([], 0), two_project_world)"
    by (simp add: ListProjects_def authenticated_def FromContext_def WithContext_def New_def membershipIDs_def
      MembershipChecker_def Project_List_def two_project_world_def mem_children f page_of_def demo_projects_def
      o ListProjectIDsForUser_def soft_calls mem_Find [where key = pm_ID] map_filter_simps member_row_def
      word_sless_alt Let_def)
  from scoped_project_list [OF mem_projects.project_table_axioms demo_projects_def _ l] l show ?thesis
    by (simp add: ListProjectIDsForUser_def two_project_world_def soft_calls mem_Find map_filter_simps member_row_def)
qed

text \<open>On PostgreSQL the detection of a conflicting member panics: the index has no dot to split at.\<close>

lemma postgres_conflict_panics:
  "isUniqueViolation (External ''duplicate key value violates unique constraint idx_project_user'') ''project_members'' = None"
proof -
  have "Contains ''duplicate key value violates unique constraint idx_project_user'' ''duplicate key''"
    by (rule ContainsI [of _ "''''" _ "'' value violates unique constraint idx_project_user''"]) simp
  moreover have "\<not> Contains ''duplicate key value violates unique constraint idx_project_user'' ''project_members''"
    by (simp add: Contains_iff sublist_code)
  moreover have "after_dot ''project_members'' = None" by (simp add: after_dot_def)
  ultimately show ?thesis by (simp add: isUniqueViolation_def)
qed

end
