(* ===== verification/Device_Groups.thy ===== *)
theory Device_Groups
  imports Device_Http
begin

text \<open>
  The device groups (\<open>internal/device/groups.go\<close>) and the configuration templates
  (\<open>internal/device/templates.go\<close>), two modules of the same shape: row, repository, service and
  handlers. The \<open>RowsAffected\<close> of \<open>Save\<close>, which the update tests, is a field of the service: GORM inserts
  the row when its update touched none. Lemma: the update of a group that a concurrent request has deleted
  makes it live again.
\<close>

subsection \<open>Groups\<close>

record device_group =
  dg_ID :: string
  dg_Name :: string
  dg_Description :: string

abbreviation ErrGroupNotFound :: go_error where
  "ErrGroupNotFound \<equiv> Sentinel ''device group: not found''"

definition Group_BeforeCreate :: "string \<Rightarrow> device_group \<Rightarrow> device_group" where
  "Group_BeforeCreate newID r = r\<lparr>dg_ID := BaseModel_BeforeCreate newID (dg_ID r)\<rparr>"

definition IsGroupNotFound :: "go_error \<Rightarrow> bool" where
  "IsGroupNotFound err \<longleftrightarrow> errors_Is err ErrGroupNotFound"

definition Group_repo_Create :: "('s, device_group) gorm \<Rightarrow> string \<Rightarrow> 's \<Rightarrow> device_group \<Rightarrow> (device_group \<times> 's) result" where
  "Group_repo_Create g newID db r =
     (let r = Group_BeforeCreate newID r
      in map_sum (\<lambda>e. e) (Pair r) (repo_Create g ''group.Create: '' db r))"

definition Group_repo_Get :: "('s, device_group) gorm \<Rightarrow> 's \<Rightarrow> string \<Rightarrow> device_group result" where
  "Group_repo_Get g db k = repo_Get g ErrGroupNotFound db k"

definition Group_repo_List :: "('s, device_group) gorm \<Rightarrow> 's \<Rightarrow> int64 \<Rightarrow> int64 \<Rightarrow> (device_group list \<times> nat) result" where
  "Group_repo_List g db limit offset = query_page g ''group.List'' db (\<lambda>_. True) limit offset"

definition Group_repo_Update ::
    "('s, device_group) gorm \<Rightarrow> ('s \<Rightarrow> device_group \<Rightarrow> nat) \<Rightarrow> 's \<Rightarrow> device_group \<Rightarrow> 's result" where
  "Group_repo_Update g affected db r =
     (case db_Save g db r of
        Inl err \<Rightarrow> Inl (Wrapped ''group.Update: '' err)
      | Inr db' \<Rightarrow> if affected db r = 0 then Inl ErrGroupNotFound else Inr db')"

definition Group_repo_Delete :: "('s, device_group) gorm \<Rightarrow> 's \<Rightarrow> string \<Rightarrow> 's result" where
  "Group_repo_Delete g db k = repo_Delete g ''group.Delete: '' ErrGroupNotFound db k"

record ('s, 'x, 'w) group_service =
  gs_table :: "('s, device_group) gorm"
  gs_affected :: "'s \<Rightarrow> device_group \<Rightarrow> nat"
  gs_audit :: "('x, 'w) audit_service option"
  gs_newID :: "'w \<Rightarrow> string \<times> 'w"

record group_create_input =
  gc_Name :: string
  gc_Description :: string

record group_update_input =
  gu_Name :: "string option"
  gu_Description :: "string option"

definition group_not_found :: "string \<Rightarrow> go_error" where
  "group_not_found k = APIError CodeNotFound (''device group '' @ Quote k @ '' not found'') None"

definition group_error :: "string \<Rightarrow> string \<Rightarrow> go_error \<Rightarrow> go_error" where
  "group_error k m err =
     (if IsGroupNotFound err then group_not_found k else APIError CodeInternal m (Some err))"

definition group_audit ::
    "('s, 'x, 'w) group_service \<Rightarrow> record_action_input \<Rightarrow> ('s, 'w) table_store \<Rightarrow> ('s, 'w) table_store" where
  "group_audit s inp w =
     (if gs_audit s = None then w else w\<lparr>st_env := RecordAction (gs_audit s) inp (st_env w)\<rparr>)"

definition new_group :: "group_create_input \<Rightarrow> device_group" where
  "new_group inp = \<lparr>dg_ID = '''', dg_Name = gc_Name inp, dg_Description = gc_Description inp\<rparr>"

definition Group_Create ::
    "('s, 'x, 'w) group_service \<Rightarrow> group_create_input \<Rightarrow> ('s, 'w) table_store \<Rightarrow> device_group result \<times> ('s, 'w) table_store" where
  "Group_Create s inp w =
     (if gc_Name inp = '''' then (Inl (invalid ''name is required''), w)
      else
        (case gs_newID s (st_env w) of
           (k, env) \<Rightarrow>
             (case Group_repo_Create (gs_table s) k (st_db w) (new_group inp) of
                Inl err \<Rightarrow> (Inl (APIError CodeInternal ''failed to create device group'' (Some err)), w\<lparr>st_env := env\<rparr>)
              | Inr (r, db) \<Rightarrow>
                  (Inr r, group_audit s
                     (device_action ''create'' (dg_ID r)
                        (Some [(''group'', JBool True), (''name'', JString (dg_Name r))]))
                     (w\<lparr>st_env := env, st_db := db\<rparr>)))))"

definition Group_Get :: "('s, 'x, 'w) group_service \<Rightarrow> ('s, 'w) table_store \<Rightarrow> string \<Rightarrow> device_group result" where
  "Group_Get s w k =
     (case Group_repo_Get (gs_table s) (st_db w) k of
        Inl err \<Rightarrow> Inl (group_error k ''failed to load device group'' err)
      | Inr r \<Rightarrow> Inr r)"

definition Group_List :: "('s, 'x, 'w) group_service \<Rightarrow> ('s, 'w) table_store \<Rightarrow> int64 \<Rightarrow> int64 \<Rightarrow> (device_group list \<times> nat) result" where
  "Group_List s w limit offset =
     (case Group_repo_List (gs_table s) (st_db w) limit offset of
        Inl err \<Rightarrow> Inl (APIError CodeInternal ''failed to list device groups'' (Some err))
      | Inr r \<Rightarrow> Inr r)"

definition group_fields :: "group_update_input \<Rightarrow> device_group \<Rightarrow> device_group result" where
  "group_fields inp r =
     (if gu_Name inp = Some '''' then Inl (invalid ''name cannot be blank'')
      else
        (let r = (case gu_Name inp of None \<Rightarrow> r | Some v \<Rightarrow> r\<lparr>dg_Name := v\<rparr>);
             r = (case gu_Description inp of None \<Rightarrow> r | Some v \<Rightarrow> r\<lparr>dg_Description := v\<rparr>)
         in Inr r))"

definition Group_Update ::
    "('s, 'x, 'w) group_service \<Rightarrow> string \<Rightarrow> group_update_input \<Rightarrow> ('s, 'w) table_store
     \<Rightarrow> device_group result \<times> ('s, 'w) table_store" where
  "Group_Update s k inp w =
     (case Group_repo_Get (gs_table s) (st_db w) k of
        Inl err \<Rightarrow> (Inl (group_error k ''failed to load device group'' err), w)
      | Inr r \<Rightarrow>
          (case group_fields inp r of
             Inl err \<Rightarrow> (Inl err, w)
           | Inr r \<Rightarrow>
               (case Group_repo_Update (gs_table s) (gs_affected s) (st_db w) r of
                  Inl err \<Rightarrow> (Inl (group_error k ''failed to update device group'' err), w)
                | Inr db \<Rightarrow>
                    (Inr r, group_audit s
                       (device_action ''update'' (dg_ID r)
                          (Some [(''group'', JBool True), (''name'', JString (dg_Name r))]))
                       (w\<lparr>st_db := db\<rparr>)))))"

definition Group_Delete ::
    "('s, 'x, 'w) group_service \<Rightarrow> string \<Rightarrow> ('s, 'w) table_store \<Rightarrow> go_error option \<times> ('s, 'w) table_store" where
  "Group_Delete s k w =
     (case Group_repo_Delete (gs_table s) (st_db w) k of
        Inl err \<Rightarrow> (Some (group_error k ''failed to delete device group'' err), w)
      | Inr db \<Rightarrow>
          (None, group_audit s (device_action ''delete'' k (Some [(''group'', JBool True)])) (w\<lparr>st_db := db\<rparr>)))"

text \<open>The handlers. The list is the first page of twenty, and says that there is no more.\<close>

record group_request =
  gq_Name :: string
  gq_Description :: string

definition group_list where
  "group_list s w =
     (case Group_List s w 20 0 of
        Inl err \<Rightarrow> fail_with err
      | Inr (rs, tot) \<Rightarrow>
          BodyList rs \<lparr>pg_Total = of_nat tot, pg_Limit = 20, pg_Offset = 0, pg_HasMore = False\<rparr>)"

definition group_create where
  "group_create s body w =
     (case body of
        None \<Rightarrow> (reject CodeValidation ''request body must be JSON'', w)
      | Some req \<Rightarrow>
          (case Group_Create s \<lparr>gc_Name = gq_Name req, gc_Description = gq_Description req\<rparr> w of
             (res, w) \<Rightarrow> (respond 201 res, w)))"

definition group_get where
  "group_get s k w = respond 200 (Group_Get s w k)"

definition group_update where
  "group_update s k body w =
     (case body of
        None \<Rightarrow> (reject CodeValidation ''request body must be JSON'', w)
      | Some req \<Rightarrow>
          (case Group_Update s k \<lparr>gu_Name = nonempty (gq_Name req), gu_Description = nonempty (gq_Description req)\<rparr> w of
             (res, w) \<Rightarrow> (respond 200 res, w)))"

definition group_delete :: "('s, 'x, 'w) group_service \<Rightarrow> string \<Rightarrow> ('s, 'w) table_store
    \<Rightarrow> unit response \<times> ('s, 'w) table_store" where
  "group_delete s k w =
     (case Group_Delete s k w of
        (Some err, w) \<Rightarrow> (fail_with err, w) | (None, w) \<Rightarrow> (NoContent, w))"

subsection \<open>Configuration templates\<close>

record configuration_template =
  ct_ID :: string
  ct_Name :: string
  ct_Description :: string
  ct_Body :: string

abbreviation ErrTemplateNotFound :: go_error where
  "ErrTemplateNotFound \<equiv> Sentinel ''template: not found''"

definition Template_BeforeCreate :: "string \<Rightarrow> configuration_template \<Rightarrow> configuration_template" where
  "Template_BeforeCreate newID r = r\<lparr>ct_ID := BaseModel_BeforeCreate newID (ct_ID r)\<rparr>"

definition IsTemplateNotFound :: "go_error \<Rightarrow> bool" where
  "IsTemplateNotFound err \<longleftrightarrow> errors_Is err ErrTemplateNotFound"

definition Template_repo_Create :: "('s, configuration_template) gorm \<Rightarrow> string \<Rightarrow> 's \<Rightarrow> configuration_template \<Rightarrow> (configuration_template \<times> 's) result" where
  "Template_repo_Create g newID db r =
     (let r = Template_BeforeCreate newID r
      in map_sum (\<lambda>e. e) (Pair r) (repo_Create g ''template.Create: '' db r))"

definition Template_repo_Get :: "('s, configuration_template) gorm \<Rightarrow> 's \<Rightarrow> string \<Rightarrow> configuration_template result" where
  "Template_repo_Get g db k = repo_Get g ErrTemplateNotFound db k"

definition Template_repo_List :: "('s, configuration_template) gorm \<Rightarrow> 's \<Rightarrow> int64 \<Rightarrow> int64 \<Rightarrow> (configuration_template list \<times> nat) result" where
  "Template_repo_List g db limit offset = query_page g ''template.List'' db (\<lambda>_. True) limit offset"

definition Template_repo_Update ::
    "('s, configuration_template) gorm \<Rightarrow> ('s \<Rightarrow> configuration_template \<Rightarrow> nat) \<Rightarrow> 's \<Rightarrow> configuration_template \<Rightarrow> 's result" where
  "Template_repo_Update g affected db r =
     (case db_Save g db r of
        Inl err \<Rightarrow> Inl (Wrapped ''template.Update: '' err)
      | Inr db' \<Rightarrow> if affected db r = 0 then Inl ErrTemplateNotFound else Inr db')"

definition Template_repo_Delete :: "('s, configuration_template) gorm \<Rightarrow> 's \<Rightarrow> string \<Rightarrow> 's result" where
  "Template_repo_Delete g db k = repo_Delete g ''template.Delete: '' ErrTemplateNotFound db k"

record ('s, 'x, 'w) template_service =
  ts_table :: "('s, configuration_template) gorm"
  ts_affected :: "'s \<Rightarrow> configuration_template \<Rightarrow> nat"
  ts_audit :: "('x, 'w) audit_service option"
  ts_newID :: "'w \<Rightarrow> string \<times> 'w"

record template_create_input =
  tc_Name :: string
  tc_Description :: string
  tc_Body :: string

record template_update_input =
  tu_Name :: "string option"
  tu_Description :: "string option"
  tu_Body :: "string option"

definition template_not_found :: "string \<Rightarrow> go_error" where
  "template_not_found k = APIError CodeNotFound (''template '' @ Quote k @ '' not found'') None"

definition template_error :: "string \<Rightarrow> string \<Rightarrow> go_error \<Rightarrow> go_error" where
  "template_error k m err =
     (if IsTemplateNotFound err then template_not_found k else APIError CodeInternal m (Some err))"

definition template_audit ::
    "('s, 'x, 'w) template_service \<Rightarrow> record_action_input \<Rightarrow> ('s, 'w) table_store \<Rightarrow> ('s, 'w) table_store" where
  "template_audit s inp w =
     (if ts_audit s = None then w else w\<lparr>st_env := RecordAction (ts_audit s) inp (st_env w)\<rparr>)"

definition new_template :: "template_create_input \<Rightarrow> configuration_template" where
  "new_template inp = 
     \<lparr>ct_ID = '''', ct_Name = tc_Name inp, ct_Description = tc_Description inp, ct_Body = tc_Body inp\<rparr>"

definition Template_Create ::
    "('s, 'x, 'w) template_service \<Rightarrow> template_create_input \<Rightarrow> ('s, 'w) table_store \<Rightarrow> configuration_template result \<times> ('s, 'w) table_store" where
  "Template_Create s inp w =
     (if tc_Name inp = '''' then (Inl (invalid ''name is required''), w)
      else
        (case ts_newID s (st_env w) of
           (k, env) \<Rightarrow>
             (case Template_repo_Create (ts_table s) k (st_db w) (new_template inp) of
                Inl err \<Rightarrow> (Inl (APIError CodeInternal ''failed to create template'' (Some err)), w\<lparr>st_env := env\<rparr>)
              | Inr (r, db) \<Rightarrow>
                  (Inr r, template_audit s
                     (device_action ''create'' (ct_ID r)
                        (Some [(''template'', JBool True), (''name'', JString (ct_Name r))]))
                     (w\<lparr>st_env := env, st_db := db\<rparr>)))))"

definition Template_Get :: "('s, 'x, 'w) template_service \<Rightarrow> ('s, 'w) table_store \<Rightarrow> string \<Rightarrow> configuration_template result" where
  "Template_Get s w k =
     (case Template_repo_Get (ts_table s) (st_db w) k of
        Inl err \<Rightarrow> Inl (template_error k ''failed to load template'' err)
      | Inr r \<Rightarrow> Inr r)"

definition Template_List :: "('s, 'x, 'w) template_service \<Rightarrow> ('s, 'w) table_store \<Rightarrow> int64 \<Rightarrow> int64 \<Rightarrow> (configuration_template list \<times> nat) result" where
  "Template_List s w limit offset =
     (case Template_repo_List (ts_table s) (st_db w) limit offset of
        Inl err \<Rightarrow> Inl (APIError CodeInternal ''failed to list templates'' (Some err))
      | Inr r \<Rightarrow> Inr r)"

definition template_fields :: "template_update_input \<Rightarrow> configuration_template \<Rightarrow> configuration_template result" where
  "template_fields inp r =
     (if tu_Name inp = Some '''' then Inl (invalid ''name cannot be blank'')
      else
        (let r = (case tu_Name inp of None \<Rightarrow> r | Some v \<Rightarrow> r\<lparr>ct_Name := v\<rparr>);
             r = (case tu_Description inp of None \<Rightarrow> r | Some v \<Rightarrow> r\<lparr>ct_Description := v\<rparr>);
             r = (case tu_Body inp of None \<Rightarrow> r | Some v \<Rightarrow> r\<lparr>ct_Body := v\<rparr>)
         in Inr r))"

definition Template_Update ::
    "('s, 'x, 'w) template_service \<Rightarrow> string \<Rightarrow> template_update_input \<Rightarrow> ('s, 'w) table_store
     \<Rightarrow> configuration_template result \<times> ('s, 'w) table_store" where
  "Template_Update s k inp w =
     (case Template_repo_Get (ts_table s) (st_db w) k of
        Inl err \<Rightarrow> (Inl (template_error k ''failed to load template'' err), w)
      | Inr r \<Rightarrow>
          (case template_fields inp r of
             Inl err \<Rightarrow> (Inl err, w)
           | Inr r \<Rightarrow>
               (case Template_repo_Update (ts_table s) (ts_affected s) (st_db w) r of
                  Inl err \<Rightarrow> (Inl (template_error k ''failed to update template'' err), w)
                | Inr db \<Rightarrow>
                    (Inr r, template_audit s
                       (device_action ''update'' (ct_ID r)
                          (Some [(''template'', JBool True), (''name'', JString (ct_Name r))]))
                       (w\<lparr>st_db := db\<rparr>)))))"

definition Template_Delete ::
    "('s, 'x, 'w) template_service \<Rightarrow> string \<Rightarrow> ('s, 'w) table_store \<Rightarrow> go_error option \<times> ('s, 'w) table_store" where
  "Template_Delete s k w =
     (case Template_repo_Delete (ts_table s) (st_db w) k of
        Inl err \<Rightarrow> (Some (template_error k ''failed to delete template'' err), w)
      | Inr db \<Rightarrow>
          (None, template_audit s (device_action ''delete'' k (Some [(''template'', JBool True)])) (w\<lparr>st_db := db\<rparr>)))"

text \<open>The handlers. The list is the first page of twenty, and says that there is no more.\<close>

record template_request =
  tq_Name :: string
  tq_Description :: string
  tq_Body :: string

definition template_list where
  "template_list s w =
     (case Template_List s w 20 0 of
        Inl err \<Rightarrow> fail_with err
      | Inr (rs, tot) \<Rightarrow>
          BodyList rs \<lparr>pg_Total = of_nat tot, pg_Limit = 20, pg_Offset = 0, pg_HasMore = False\<rparr>)"

definition template_create where
  "template_create s body w =
     (case body of
        None \<Rightarrow> (reject CodeValidation ''request body must be JSON'', w)
      | Some req \<Rightarrow>
          (case Template_Create s 
                  \<lparr>tc_Name = tq_Name req, tc_Description = tq_Description req, tc_Body = tq_Body req\<rparr> w of
             (res, w) \<Rightarrow> (respond 201 res, w)))"

definition template_get where
  "template_get s k w = respond 200 (Template_Get s w k)"

definition template_update where
  "template_update s k body w =
     (case body of
        None \<Rightarrow> (reject CodeValidation ''request body must be JSON'', w)
      | Some req \<Rightarrow>
          (case Template_Update s k 
                  \<lparr>tu_Name = nonempty (tq_Name req), tu_Description = nonempty (tq_Description req),
                   tu_Body = nonempty (tq_Body req)\<rparr> w of
             (res, w) \<Rightarrow> (respond 200 res, w)))"

definition template_delete :: "('s, 'x, 'w) template_service \<Rightarrow> string \<Rightarrow> ('s, 'w) table_store
    \<Rightarrow> unit response \<times> ('s, 'w) table_store" where
  "template_delete s k w =
     (case Template_Delete s k w of
        (Some err, w) \<Rightarrow> (fail_with err, w) | (None, w) \<Rightarrow> (NoContent, w))"

subsection \<open>Updates that race with a deletion\<close>

text \<open>
  An update reads the row, another request deletes it, and the update saves what it read: \<open>Save\<close> inserts the
  row again, and since it has affected a row the update reports success.
\<close>

lemma deleted_group_comes_back:
  assumes "gorm_table g dg_ID rows"
    and "Group_repo_Get g db k = Inr r" "Group_repo_Delete g db k = Inr db1" "group_fields inp r = Inr r'"
    and "Group_repo_Update g affected db1 r' = Inr db2"
  shows "rows db1 k = None \<and> rows db2 k = Some r'"
proof -
  have t: "gorm_repo g dg_ID rows ErrGroupNotFound"
    using assms(1) by (intro gorm_repo.intro gorm_repo_axioms.intro) simp_all
  from assms(2) gorm_repo.Get_row [OF t] have k: "dg_ID r = k" by (auto simp: Group_repo_Get_def)
  with assms(4) have k': "dg_ID r' = k"
    by (auto simp: group_fields_def Let_def split: if_splits option.splits)
  from assms(3) gorm_repo.Delete_row [OF t] have "rows db1 k = None" by (fastforce simp: Group_repo_Delete_def)
  moreover from assms(5) have "db_Save g db1 r' = Inr db2"
    by (simp add: Group_repo_Update_def split: sum.splits if_splits)
  with gorm_table.Save_ok [OF assms(1)] k' have "rows db2 k = Some r'" by fastforce
  ultimately show ?thesis ..
qed

end
