(* ===== verification/Host_Project.thy ===== *)
theory Host_Project
  imports Project_Http Device_Groups
begin

text \<open>
  The links between hosts and projects (\<open>internal/hostproject\<close>): the row (\<open>models.go\<close>), the repository
  over a table with soft deletion and one unique index (\<open>repository.go\<close>), the service, which walks the
  project hierarchy and looks devices up through a getter it is given (\<open>service.go\<close>), and the handlers
  with the access check of their routes (\<open>handler.go\<close>). A walk that does not return is \<open>None\<close>.
\<close>

subsection \<open>The row and the repository\<close>

record host_project_link =
  hl_ID :: string
  hl_DeviceID :: string
  hl_ProjectID :: string
  hl_LinkedBy :: string
  hl_LinkedAt :: time
  hl_OrphanedAt :: "time option"

definition Link_BeforeCreate :: "string \<Rightarrow> host_project_link \<Rightarrow> host_project_link" where
  "Link_BeforeCreate newID l = l\<lparr>hl_ID := BaseModel_BeforeCreate newID (hl_ID l)\<rparr>"

definition link_isUniqueViolation :: "go_error \<Rightarrow> string \<Rightarrow> bool" where
  "link_isUniqueViolation err indexSubstring =
     (let msg = Error_text err
      in if \<not> Contains msg ''UNIQUE constraint failed'' \<and> \<not> Contains msg ''duplicate key'' then False
         else if indexSubstring = '''' then True
         else Contains msg indexSubstring)"

definition link_notFound :: "string \<Rightarrow> string \<Rightarrow> go_error" where
  "link_notFound kind k = APIError CodeNotFound (kind @ '' '' @ k @ '' not found'') None"

definition link_IsNotFound :: "go_error \<Rightarrow> bool" where
  "link_IsNotFound err \<longleftrightarrow>
     (case errors_As_API err of None \<Rightarrow> False | Some (c, _) \<Rightarrow> c = CodeNotFound)"

definition link_IsConflict :: "go_error \<Rightarrow> bool" where
  "link_IsConflict err \<longleftrightarrow>
     (case errors_As_API err of None \<Rightarrow> False | Some (c, _) \<Rightarrow> c = CodeConflict)"

abbreviation already_linked :: go_error where
  "already_linked \<equiv> APIError CodeConflict ''host is already linked to this project'' None"

text \<open>\<open>now\<close> is the time of the call, used when the link has none.\<close>

definition Link_repo_Create ::
    "('l, host_project_link) gorm_bulk \<Rightarrow> time \<Rightarrow> string \<Rightarrow> 'l \<Rightarrow> host_project_link
     \<Rightarrow> (host_project_link \<times> 'l) result" where
  "Link_repo_Create b now newID db l =
     (let l = (if hl_LinkedAt l = zero_time then l\<lparr>hl_LinkedAt := now\<rparr> else l);
          l = Link_BeforeCreate newID l
      in case db_Create (gb_table b) db l of
           Inl err \<Rightarrow>
             Inl (if link_isUniqueViolation err ''host_project_links.device_id'' then already_linked else err)
         | Inr db \<Rightarrow> Inr (l, db))"

definition Link_repo_Get :: "('l, host_project_link) gorm_bulk \<Rightarrow> 'l \<Rightarrow> string \<Rightarrow> host_project_link result" where
  "Link_repo_Get b db k = repo_Get (gb_table b) (link_notFound ''host project link'' k) db k"

definition device_link :: "string \<Rightarrow> host_project_link \<Rightarrow> bool" where
  "device_link deviceID l \<longleftrightarrow> hl_DeviceID l = deviceID \<and> hl_OrphanedAt l = None"

definition project_link :: "string \<Rightarrow> host_project_link \<Rightarrow> bool" where
  "project_link projectID l \<longleftrightarrow> hl_ProjectID l = projectID \<and> hl_OrphanedAt l = None"

definition Link_repo_ListByDevice ::
    "('l, host_project_link) gorm_bulk \<Rightarrow> 'l \<Rightarrow> string \<Rightarrow> host_project_link list result" where
  "Link_repo_ListByDevice b db deviceID = db_Find (gb_table b) db (device_link deviceID)"

definition Link_repo_ListByProject ::
    "('l, host_project_link) gorm_bulk \<Rightarrow> 'l \<Rightarrow> string \<Rightarrow> host_project_link list result" where
  "Link_repo_ListByProject b db projectID = db_Find (gb_table b) db (project_link projectID)"

definition Link_repo_Delete :: "('l, host_project_link) gorm_bulk \<Rightarrow> 'l \<Rightarrow> string \<Rightarrow> 'l result" where
  "Link_repo_Delete b db k =
     (case db_Delete (gb_table b) db k of
        Inl err \<Rightarrow> Inl err
      | Inr (n, db) \<Rightarrow> if n = 0 then Inl (link_notFound ''host project link'' k) else Inr db)"

definition DeleteByDeviceAndProject ::
    "('l, host_project_link) gorm_bulk \<Rightarrow> 'l \<Rightarrow> string \<Rightarrow> string \<Rightarrow> 'l result" where
  "DeleteByDeviceAndProject b db deviceID projectID =
     (case gb_Delete b db (\<lambda>l. hl_DeviceID l = deviceID \<and> hl_ProjectID l = projectID \<and> hl_OrphanedAt l = None) of
        Inl err \<Rightarrow> Inl err
      | Inr (n, db) \<Rightarrow>
          if n = 0 then Inl (link_notFound ''host project link'' (deviceID @ '':'' @ projectID)) else Inr db)"

definition Link_repo_OrphanByDevice ::
    "('l, host_project_link) gorm_bulk \<Rightarrow> time \<Rightarrow> 'l \<Rightarrow> string \<Rightarrow> 'l result" where
  "Link_repo_OrphanByDevice b now db deviceID =
     map_sum (\<lambda>e. e) snd (gb_Updates b db (device_link deviceID) (\<lambda>l. l\<lparr>hl_OrphanedAt := Some now\<rparr>))"

subsection \<open>The service\<close>

record ('t, 'p, 'm, 'l, 'w) link_world =
  lw_links :: 'l
  lw_base :: "('t, 'p, 'm, 'w) project_world"

text \<open>The device getter reads the world; \<open>None\<close> is the getter that was never set.\<close>

record ('t, 'p, 'm, 'l, 's, 'w) link_service =
  hs_repo :: "('l, host_project_link) gorm_bulk"
  hs_projects :: "('t, 'p, 'm, 's, 'w) project_service"
  hs_audit :: "('s, 'w) audit_service option"
  hs_getter :: "(('t, 'p, 'm, 'l, 'w) link_world \<Rightarrow> string \<Rightarrow> device result) option"
  hs_now :: "'w \<Rightarrow> time \<times> 'w"
  hs_newID :: "'w \<Rightarrow> string \<times> 'w"

definition NewLinkService ::
    "('l, host_project_link) gorm_bulk \<Rightarrow> ('t, 'p, 'm, 's, 'w) project_service \<Rightarrow> ('s, 'w) audit_service option
     \<Rightarrow> ('w \<Rightarrow> time \<times> 'w) \<Rightarrow> ('w \<Rightarrow> string \<times> 'w) \<Rightarrow> ('t, 'p, 'm, 'l, 's, 'w) link_service" where
  "NewLinkService b ps aud clock newID =
     \<lparr>hs_repo = b, hs_projects = ps, hs_audit = aud, hs_getter = None, hs_now = clock, hs_newID = newID\<rparr>"

definition SetDeviceGetter where
  "SetDeviceGetter getter s = s\<lparr>hs_getter := getter\<rparr>"

definition system_ctx :: ctx where
  "system_ctx = WithContext (Some (New (Some \<lparr>user_ID = ''system'', user_Username = ''system'', user_Email = '''',
     user_Role = RoleSuperAdmin, user_ProjectRole = ''''\<rparr>)))"

text \<open>The context argument is optional.\<close>

definition systemCtx :: "ctx option \<Rightarrow> ctx" where
  "systemCtx ctxArg =
     (case ctxArg of
        None \<Rightarrow> system_ctx
      | Some c \<Rightarrow> if snd (FromContext c) then c else system_ctx)"

definition validateLinkInputs :: "string \<Rightarrow> string \<Rightarrow> go_error option" where
  "validateLinkInputs deviceID linkedBy =
     (if TrimSpace deviceID = '''' then Some (invalid ''device_id is required'')
      else if TrimSpace linkedBy = '''' then Some (invalid ''linked_by is required'')
      else None)"

abbreviation no_getter :: go_error where
  "no_getter \<equiv> APIError CodeInternal ''hostproject: device getter is not configured'' None"

definition fetchDevice ::
    "('t, 'p, 'm, 'l, 's, 'w) link_service \<Rightarrow> ('t, 'p, 'm, 'l, 'w) link_world \<Rightarrow> string \<Rightarrow> device result" where
  "fetchDevice s w k = (case hs_getter s of None \<Rightarrow> Inl no_getter | Some get \<Rightarrow> get w k)"

definition assertDeviceExists ::
    "('t, 'p, 'm, 'l, 's, 'w) link_service \<Rightarrow> ('t, 'p, 'm, 'l, 'w) link_world \<Rightarrow> string \<Rightarrow> go_error option" where
  "assertDeviceExists s w k =
     (case hs_getter s of
        None \<Rightarrow> Some no_getter
      | Some get \<Rightarrow>
          (case get w k of
             Inr _ \<Rightarrow> None
           | Inl err \<Rightarrow>
               if Device_IsNotFound err then Some (APIError CodeNotFound (''device '' @ k @ '' not found'') None)
               else Some err))"

definition on_base ::
    "(('t, 'p, 'm, 'w) project_world \<Rightarrow> 'a \<times> ('t, 'p, 'm, 'w) project_world)
     \<Rightarrow> ('t, 'p, 'm, 'l, 'w) link_world \<Rightarrow> 'a \<times> ('t, 'p, 'm, 'l, 'w) link_world" where
  "on_base f w = (case f (lw_base w) of (x, base) \<Rightarrow> (x, w\<lparr>lw_base := base\<rparr>))"

definition assertProjectExists ::
    "('t, 'p, 'm, 'l, 's, 'w) link_service \<Rightarrow> ctx \<Rightarrow> string \<Rightarrow> ('t, 'p, 'm, 'l, 'w) link_world
     \<Rightarrow> go_error option \<times> ('t, 'p, 'm, 'l, 'w) link_world" where
  "assertProjectExists s c k w =
     (case on_base (GetProject (hs_projects s) c k) w of
        (Inl err, w) \<Rightarrow> (Some err, w) | (Inr _, w) \<Rightarrow> (None, w))"

definition link_emitAudit ::
    "('t, 'p, 'm, 'l, 's, 'w) link_service \<Rightarrow> string \<Rightarrow> string \<Rightarrow> string \<Rightarrow> string \<Rightarrow> bool
     \<Rightarrow> ('t, 'p, 'm, 'l, 'w) link_world \<Rightarrow> ('t, 'p, 'm, 'l, 'w) link_world" where
  "link_emitAudit s action deviceID projectID actor bulk w =
     (if hs_audit s = None then w
      else
        (let inp = \<lparr>ra_Action = action, ra_ResourceType = ''resource_link'',
                    ra_ResourceID = deviceID @ '':'' @ projectID, ra_ActorID = actor, ra_ActorName = '''',
                    ra_Metadata = Some ((if bulk then [(''bulk'', JBool True)] else [])
                       @ [(''device_id'', JString deviceID), (''project_id'', JString projectID)]),
                    ra_IPAddress = '''', ra_UserAgent = ''''\<rparr>
         in snd (on_base (\<lambda>base. ((), base\<lparr>jw_env := RecordAction (hs_audit s) inp (jw_env base)\<rparr>)) w)))"

text \<open>One insertion, with the draws of the clock and of the identifier.\<close>

definition create_link ::
    "('t, 'p, 'm, 'l, 's, 'w) link_service \<Rightarrow> string \<Rightarrow> string \<Rightarrow> string \<Rightarrow> ('t, 'p, 'm, 'l, 'w) link_world
     \<Rightarrow> host_project_link result \<times> ('t, 'p, 'm, 'l, 'w) link_world" where
  "create_link s deviceID projectID linkedBy w =
     (case hs_now s (jw_env (lw_base w)) of
        (now, env) \<Rightarrow>
          (case hs_newID s env of
             (k, env) \<Rightarrow>
               (let w = w\<lparr>lw_base := (lw_base w)\<lparr>jw_env := env\<rparr>\<rparr>;
                    l = \<lparr>hl_ID = '''', hl_DeviceID = deviceID, hl_ProjectID = projectID, hl_LinkedBy = linkedBy,
                         hl_LinkedAt = now, hl_OrphanedAt = None\<rparr>
                in case Link_repo_Create (hs_repo s) now k (lw_links w) l of
                     Inl err \<Rightarrow> (Inl err, w)
                   | Inr (l, db) \<Rightarrow> (Inr l, w\<lparr>lw_links := db\<rparr>))))"

definition Link ::
    "('t, 'p, 'm, 'l, 's, 'w) link_service \<Rightarrow> string \<Rightarrow> string \<Rightarrow> string \<Rightarrow> ctx option
     \<Rightarrow> ('t, 'p, 'm, 'l, 'w) link_world \<Rightarrow> host_project_link result \<times> ('t, 'p, 'm, 'l, 'w) link_world" where
  "Link s deviceID projectID linkedBy ctxArg w =
     (case validateLinkInputs deviceID linkedBy of
        Some err \<Rightarrow> (Inl err, w)
      | None \<Rightarrow>
          (case assertDeviceExists s w deviceID of
             Some err \<Rightarrow> (Inl err, w)
           | None \<Rightarrow>
               (case assertProjectExists s (systemCtx ctxArg) projectID w of
                  (Some err, w) \<Rightarrow> (Inl err, w)
                | (None, w) \<Rightarrow>
                    (case create_link s deviceID projectID linkedBy w of
                       (Inl err, w) \<Rightarrow> (Inl err, w)
                     | (Inr l, w) \<Rightarrow>
                         (Inr l, link_emitAudit s ''create'' (hl_DeviceID l) (hl_ProjectID l) linkedBy False w)))))"

definition Unlink ::
    "('t, 'p, 'm, 'l, 's, 'w) link_service \<Rightarrow> string \<Rightarrow> string \<Rightarrow> ('t, 'p, 'm, 'l, 'w) link_world
     \<Rightarrow> go_error option \<times> ('t, 'p, 'm, 'l, 'w) link_world" where
  "Unlink s deviceID projectID w =
     (case DeleteByDeviceAndProject (hs_repo s) (lw_links w) deviceID projectID of
        Inl err \<Rightarrow> (Some err, w)
      | Inr db \<Rightarrow> (None, link_emitAudit s ''delete'' deviceID projectID '''' False (w\<lparr>lw_links := db\<rparr>)))"

text \<open>The projects of a bulk request: empty and repeated identifiers are skipped, every other one is checked.\<close>

fun bulk_check ::
    "('t, 'p, 'm, 'l, 's, 'w) link_service \<Rightarrow> ctx \<Rightarrow> string list \<Rightarrow> string list \<Rightarrow> ('t, 'p, 'm, 'l, 'w) link_world
     \<Rightarrow> string list result \<times> ('t, 'p, 'm, 'l, 'w) link_world" where
  "bulk_check s c [] uniq w = (Inr uniq, w)"
| "bulk_check s c (pid # pids) uniq w =
     (if pid = '''' then bulk_check s c pids uniq w
      else if pid \<in> set uniq then bulk_check s c pids uniq w
      else
        (case assertProjectExists s c pid w of
           (Some err, w) \<Rightarrow> (Inl err, w)
         | (None, w) \<Rightarrow> bulk_check s c pids (uniq @ [pid]) w))"

text \<open>The links made before an error stay.\<close>

fun bulk_create ::
    "('t, 'p, 'm, 'l, 's, 'w) link_service \<Rightarrow> string \<Rightarrow> string \<Rightarrow> string list \<Rightarrow> host_project_link list
     \<Rightarrow> ('t, 'p, 'm, 'l, 'w) link_world \<Rightarrow> host_project_link list result \<times> ('t, 'p, 'm, 'l, 'w) link_world" where
  "bulk_create s deviceID linkedBy [] out w = (Inr out, w)"
| "bulk_create s deviceID linkedBy (pid # pids) out w =
     (case create_link s deviceID pid linkedBy w of
        (Inl err, w) \<Rightarrow>
          if link_IsConflict err then bulk_create s deviceID linkedBy pids out w else (Inl err, w)
      | (Inr l, w) \<Rightarrow>
          bulk_create s deviceID linkedBy pids (out @ [l])
            (link_emitAudit s ''create'' (hl_DeviceID l) (hl_ProjectID l) linkedBy True w))"

definition BulkLink ::
    "('t, 'p, 'm, 'l, 's, 'w) link_service \<Rightarrow> string \<Rightarrow> string list \<Rightarrow> string \<Rightarrow> ctx option
     \<Rightarrow> ('t, 'p, 'm, 'l, 'w) link_world \<Rightarrow> host_project_link list result \<times> ('t, 'p, 'm, 'l, 'w) link_world" where
  "BulkLink s deviceID projectIDs linkedBy ctxArg w =
     (case validateLinkInputs deviceID linkedBy of
        Some err \<Rightarrow> (Inl err, w)
      | None \<Rightarrow>
          (case assertDeviceExists s w deviceID of
             Some err \<Rightarrow> (Inl err, w)
           | None \<Rightarrow>
               (case bulk_check s (systemCtx ctxArg) projectIDs [] w of
                  (Inl err, w) \<Rightarrow> (Inl err, w)
                | (Inr uniq, w) \<Rightarrow> bulk_create s deviceID linkedBy uniq [] w)))"

fun BulkUnlink ::
    "('t, 'p, 'm, 'l, 's, 'w) link_service \<Rightarrow> string \<Rightarrow> string list \<Rightarrow> ('t, 'p, 'm, 'l, 'w) link_world
     \<Rightarrow> go_error option \<times> ('t, 'p, 'm, 'l, 'w) link_world" where
  "BulkUnlink s deviceID [] w = (None, w)"
| "BulkUnlink s deviceID (pid # pids) w =
     (if pid = '''' then BulkUnlink s deviceID pids w
      else
        (case DeleteByDeviceAndProject (hs_repo s) (lw_links w) deviceID pid of
           Inl err \<Rightarrow> if link_IsNotFound err then BulkUnlink s deviceID pids w else (Some err, w)
         | Inr db \<Rightarrow>
             BulkUnlink s deviceID pids (link_emitAudit s ''delete'' deviceID pid '''' True (w\<lparr>lw_links := db\<rparr>))))"

definition Link_ListByDevice where
  "Link_ListByDevice s w deviceID = Link_repo_ListByDevice (hs_repo s) (lw_links w) deviceID"

text \<open>The distinct projects, first occurrence first.\<close>

fun project_ids_loop :: "host_project_link list \<Rightarrow> string list \<Rightarrow> string list" where
  "project_ids_loop [] out = out"
| "project_ids_loop (l # ls) out =
     (if hl_OrphanedAt l \<noteq> None \<or> hl_ProjectID l \<in> set out then project_ids_loop ls out
      else project_ids_loop ls (out @ [hl_ProjectID l]))"

definition ProjectIDsForDevice ::
    "('t, 'p, 'm, 'l, 's, 'w) link_service \<Rightarrow> ('t, 'p, 'm, 'l, 'w) link_world \<Rightarrow> string \<Rightarrow> string list result" where
  "ProjectIDsForDevice s w deviceID =
     (if deviceID = '''' then Inr []
      else map_sum (\<lambda>e. e) (\<lambda>ls. project_ids_loop ls []) (Link_repo_ListByDevice (hs_repo s) (lw_links w) deviceID))"

definition OrphanByDevice ::
    "('t, 'p, 'm, 'l, 's, 'w) link_service \<Rightarrow> string \<Rightarrow> ('t, 'p, 'm, 'l, 'w) link_world
     \<Rightarrow> go_error option \<times> ('t, 'p, 'm, 'l, 'w) link_world" where
  "OrphanByDevice s deviceID w =
     (case hs_now s (jw_env (lw_base w)) of
        (now, env) \<Rightarrow>
          (let w = w\<lparr>lw_base := (lw_base w)\<lparr>jw_env := env\<rparr>\<rparr>
           in case Link_repo_OrphanByDevice (hs_repo s) now (lw_links w) deviceID of
                Inl err \<Rightarrow> (Some err, w) | Inr db \<Rightarrow> (None, w\<lparr>lw_links := db\<rparr>)))"

subsection \<open>The joined lists\<close>

record device_project_link =
  dp_Link :: host_project_link
  dp_Project :: project
  dp_Ancestors :: "project list"

text \<open>A link whose project cannot be read is skipped; an error of the walk is an empty chain.\<close>

fun project_details ::
    "('t, 'p, 'm, 'l, 's, 'w) link_service \<Rightarrow> ctx \<Rightarrow> host_project_link list \<Rightarrow> ('t, 'p, 'm, 'l, 'w) link_world
     \<Rightarrow> (device_project_link list \<times> ('t, 'p, 'm, 'l, 'w) link_world) option" where
  "project_details s c [] w = Some ([], w)"
| "project_details s c (l # ls) w =
     (case on_base (GetProject (hs_projects s) c (hl_ProjectID l)) w of
        (Inl err, w) \<Rightarrow> project_details s c ls w
      | (Inr p, w) \<Rightarrow>
          (case ListAncestors (hs_projects s) c (pj_ID p) (lw_base w) of
             None \<Rightarrow> None
           | Some (res, base) \<Rightarrow>
               map_option
                 (\<lambda>(rows, w).
                    (\<lparr>dp_Link = l, dp_Project = p,
                      dp_Ancestors = (case res of Inl _ \<Rightarrow> [] | Inr ps \<Rightarrow> ps)\<rparr> # rows, w))
                 (project_details s c ls (w\<lparr>lw_base := base\<rparr>))))"

definition ListProjectDetailsByDevice ::
    "('t, 'p, 'm, 'l, 's, 'w) link_service \<Rightarrow> string \<Rightarrow> ('t, 'p, 'm, 'l, 'w) link_world
     \<Rightarrow> (device_project_link list result \<times> ('t, 'p, 'm, 'l, 'w) link_world) option" where
  "ListProjectDetailsByDevice s deviceID w =
     (case Link_repo_ListByDevice (hs_repo s) (lw_links w) deviceID of
        Inl err \<Rightarrow> Some (Inl err, w)
      | Inr ls \<Rightarrow> map_option (\<lambda>(rows, w). (Inr rows, w)) (project_details s (systemCtx None) ls w))"

record project_device_link =
  pd_Link :: host_project_link
  pd_Device :: device
  pd_EffectiveProjectID :: string

text \<open>The rows of one project, and the devices seen so far; a device that cannot be read is skipped.\<close>

fun device_rows ::
    "('t, 'p, 'm, 'l, 's, 'w) link_service \<Rightarrow> ('t, 'p, 'm, 'l, 'w) link_world \<Rightarrow> string
     \<Rightarrow> host_project_link list \<Rightarrow> string list \<Rightarrow> project_device_link list \<times> string list" where
  "device_rows s w pid [] seen = ([], seen)"
| "device_rows s w pid (l # ls) seen =
     (if hl_DeviceID l \<in> set seen then device_rows s w pid ls seen
      else
        (case device_rows s w pid ls (hl_DeviceID l # seen) of
           (rows, seen') \<Rightarrow>
             (case fetchDevice s w (hl_DeviceID l) of
                Inl _ \<Rightarrow> (rows, seen')
              | Inr dev \<Rightarrow>
                  (\<lparr>pd_Link = l, pd_Device = dev, pd_EffectiveProjectID = pid\<rparr> # rows, seen'))))"

fun projects_rows ::
    "('t, 'p, 'm, 'l, 's, 'w) link_service \<Rightarrow> ('t, 'p, 'm, 'l, 'w) link_world \<Rightarrow> string list \<Rightarrow> string list
     \<Rightarrow> project_device_link list result" where
  "projects_rows s w [] seen = Inr []"
| "projects_rows s w (pid # pids) seen =
     (case Link_repo_ListByProject (hs_repo s) (lw_links w) pid of
        Inl err \<Rightarrow> Inl err
      | Inr ls \<Rightarrow>
          (case device_rows s w pid ls seen of
             (rows, seen) \<Rightarrow> map_sum (\<lambda>e. e) ((@) rows) (projects_rows s w pids seen)))"

definition ListDeviceDetailsByProject ::
    "('t, 'p, 'm, 'l, 's, 'w) link_service \<Rightarrow> string \<Rightarrow> ('t, 'p, 'm, 'l, 'w) link_world
     \<Rightarrow> (project_device_link list result \<times> ('t, 'p, 'm, 'l, 'w) link_world) option" where
  "ListDeviceDetailsByProject s projectID w =
     (case ListAncestors (hs_projects s) (systemCtx None) projectID (lw_base w) of
        None \<Rightarrow> None
      | Some (Inl err, base) \<Rightarrow> Some (Inl err, w\<lparr>lw_base := base\<rparr>)
      | Some (Inr ancestors, base) \<Rightarrow>
          (let w = w\<lparr>lw_base := base\<rparr>
           in Some (projects_rows s w (map pj_ID ancestors @ [projectID]) [], w)))"

end
