(* ===== verification/Host_Project_Http.thy ===== *)
theory Host_Project_Http
  imports Host_Project
begin

text \<open>
  The handlers of the host links (\<open>internal/hostproject/handler.go\<close>), the two linking routes with their
  permission and access middlewares, and what holds of the links: who can link through the routes, what
  a project's device list shows, and what unlinking and orphaning leave behind. The JSON decoders are a
  parameter, as functions of the bytes of the body; a body that has been read is the empty one.
\<close>

subsection \<open>The handlers\<close>

record link_peek =
  pk_ProjectID :: string
  pk_ProjectIDs :: "string list"

record link_request =
  lr_ProjectID :: string
  lr_LinkedBy :: string

record bulk_link_request =
  br_ProjectIDs :: "string list"
  br_LinkedBy :: string

record link_decoders =
  ld_peek :: "string \<Rightarrow> link_peek option"
  ld_link :: "string \<Rightarrow> link_request request_body"
  ld_bulk :: "string \<Rightarrow> bulk_link_request request_body"

text \<open>\<open>None\<close> is a nil body.\<close>

definition projectIDFromLinkBody :: "(string \<Rightarrow> link_peek option) \<Rightarrow> string option \<Rightarrow> string" where
  "projectIDFromLinkBody decode body =
     (case body of
        None \<Rightarrow> ''''
      | Some v \<Rightarrow>
          (case decode v of
             None \<Rightarrow> ''''
           | Some pk \<Rightarrow>
               if pk_ProjectID pk \<noteq> '''' then pk_ProjectID pk
               else (case pk_ProjectIDs pk of [] \<Rightarrow> '''' | pid # _ \<Rightarrow> pid)))"

definition link_bind :: "(string \<Rightarrow> 'b request_body) \<Rightarrow> string option \<Rightarrow> ('a response, 'b) sum" where
  "link_bind decode body =
     (case (case body of None \<Rightarrow> NoBody | Some v \<Rightarrow> decode v) of
        NoBody \<Rightarrow> Inl (reject CodeValidation ''request body is required'')
      | EmptyBody \<Rightarrow> Inl (reject CodeValidation ''request body is empty'')
      | MalformedBody m \<Rightarrow> Inl (reject CodeValidation (''invalid request body: '' @ m))
      | Decoded b \<Rightarrow> Inr b)"

definition callerFromGin :: "ctx \<Rightarrow> string" where
  "callerFromGin gin =
     (case FromGin gin of (cl, ok) \<Rightarrow> if ok \<and> cl \<noteq> None then UserID cl else '''')"

text \<open>A list without a pagination block is a body.\<close>

definition listDeviceProjects where
  "listDeviceProjects s deviceID w =
     map_option (\<lambda>(res, w). (respond 200 res, w)) (ListProjectDetailsByDevice s deviceID w)"

definition linkDeviceProject where
  "linkDeviceProject s decode deviceID gin body w =
     (case link_bind decode body of
        Inl resp \<Rightarrow> (resp, w)
      | Inr req \<Rightarrow>
          (case Link s deviceID (lr_ProjectID req) (callerFromGin gin) (Some gin) w of
             (res, w) \<Rightarrow> (respond 201 res, w)))"

definition unlinkDeviceProject :: "('t, 'p, 'm, 'l, 's, 'w) link_service \<Rightarrow> string \<Rightarrow> string
    \<Rightarrow> ('t, 'p, 'm, 'l, 'w) link_world \<Rightarrow> unit response \<times> ('t, 'p, 'm, 'l, 'w) link_world" where
  "unlinkDeviceProject s deviceID projectID w =
     (case Unlink s deviceID projectID w of
        (Some err, w) \<Rightarrow> (fail_with err, w) | (None, w) \<Rightarrow> (NoContent, w))"

definition bulkLinkDeviceProjects where
  "bulkLinkDeviceProjects s decode deviceID gin body w =
     (case link_bind decode body of
        Inl resp \<Rightarrow> (resp, w)
      | Inr req \<Rightarrow>
          (case BulkLink s deviceID (br_ProjectIDs req) (callerFromGin gin) (Some gin) w of
             (res, w) \<Rightarrow> (respond 201 res, w)))"

definition listProjectDevices where
  "listProjectDevices s projectID w =
     map_option (\<lambda>(res, w). (respond 200 res, w)) (ListDeviceDetailsByProject s projectID w)"

subsection \<open>The linking routes\<close>

text \<open>
  The chain of \<open>Register\<close>: the global permission, the access check with the project of the body, the
  handler. The check reads the body to its end, unless it decides before it looks for the project; the
  caller it leaves has its memberships cached.
\<close>

definition body_after_check :: "ctx \<Rightarrow> string option \<Rightarrow> string option" where
  "body_after_check gin body =
     (case FromGin gin of
        (cl, ok) \<Rightarrow>
          if \<not> ok \<or> cl = None then body
          else if IsSuperAdmin cl then body
          else map_option (\<lambda>_. '''') body)"

definition link_route ::
    "('t, 'p, 'm, 'l, 's, 'w) link_service \<Rightarrow> (string \<Rightarrow> link_peek option) \<Rightarrow> user option option \<Rightarrow> ctx
     \<Rightarrow> string option
     \<Rightarrow> (ctx \<Rightarrow> string option \<Rightarrow> ('t, 'p, 'm, 'l, 'w) link_world \<Rightarrow> 'a response \<times> ('t, 'p, 'm, 'l, 'w) link_world)
     \<Rightarrow> ('t, 'p, 'm, 'l, 'w) link_world \<Rightarrow> 'a response \<times> ('t, 'p, 'm, 'l, 'w) link_world" where
  "link_route s peek userv gin body handle w =
     (case RequirePermission PermissionManageHostProjectLinks userv of
        Abort st c m \<Rightarrow> (ErrorBody st c m, w)
      | Next \<Rightarrow>
          (case NewProjectAccessFactory (js_checker (hs_projects s)) PermissionManageHostProjectLinks
                  (Some (projectIDFromLinkBody peek)) body gin (lw_base w) of
             (Abort st c m, cl, base) \<Rightarrow> (ErrorBody st c m, w\<lparr>lw_base := base\<rparr>)
           | (Next, cl, base) \<Rightarrow>
               handle (Some cl) (body_after_check gin body) (w\<lparr>lw_base := base\<rparr>)))"

definition post_link where
  "post_link s d deviceID userv gin body w =
     link_route s (ld_peek d) userv gin body (linkDeviceProject s (ld_link d) deviceID) w"

definition post_bulk_link where
  "post_bulk_link s d deviceID userv gin body w =
     link_route s (ld_peek d) userv gin body (bulkLinkDeviceProjects s (ld_bulk d) deviceID) w"

subsection \<open>Who can link through the routes\<close>

lemma on_base_links [simp]: "on_base f w = (x, w') \<Longrightarrow> lw_links w' = lw_links w"
  by (auto simp: on_base_def split: prod.splits)

lemma assertProjectExists_links: "assertProjectExists s c k w = (e, w') \<Longrightarrow> lw_links w' = lw_links w"
  by (auto simp: assertProjectExists_def split: prod.splits sum.splits)

lemma link_emitAudit_links [simp]: "lw_links (link_emitAudit s a d p who b w) = lw_links w"
  by (simp add: link_emitAudit_def on_base_def Let_def)

lemma link_bind_drained:
  "decode '''' = EmptyBody \<Longrightarrow> link_bind decode (map_option (\<lambda>_. '''') body) \<noteq> Inr req"
  by (cases body) (auto simp: link_bind_def)

lemma link_bind_error: "link_bind decode body = Inl resp \<Longrightarrow> 400 \<le> resp_status resp"
  by (auto simp: link_bind_def reject_status split: request_body.splits option.splits)

lemma respond_Inl_status: "400 \<le> resp_status (respond st (Inl e))"
  by (simp add: respond_def fail_with_status)

lemma no_getter_Link:
  "hs_getter s = None \<Longrightarrow> \<exists>e. Link s d p who c w = (Inl e, w)"
  by (auto simp: Link_def assertDeviceExists_def split: option.splits)

lemma no_getter_BulkLink:
  "hs_getter s = None \<Longrightarrow> \<exists>e. BulkLink s d ps who c w = (Inl e, w)"
  by (auto simp: BulkLink_def assertDeviceExists_def split: option.splits)

text \<open>A handler that fails on a drained body, and on every body when no getter is set.\<close>

lemma link_route_refused:
  assumes "\<not> (\<exists>cl. gin = Some cl \<and> IsSuperAdmin cl) \<or> hs_getter s = None"
    and "\<And>cl (b :: string option) w. 400 \<le> resp_status (fst (handle cl (map_option (\<lambda>_. '''') b) w))
            \<and> lw_links (snd (handle cl (map_option (\<lambda>_. '''') b) w)) = lw_links w"
    and "\<And>cl b w. hs_getter s = None \<Longrightarrow>
            400 \<le> resp_status (fst (handle cl b w)) \<and> lw_links (snd (handle cl b w)) = lw_links w"
  shows "400 \<le> resp_status (fst (link_route s peek userv gin body handle w))
    \<and> lw_links (snd (link_route s peek userv gin body handle w)) = lw_links w"
proof (cases "RequirePermission PermissionManageHostProjectLinks userv")
  case (Abort st c m)
  then have "400 \<le> st" by (auto simp: RequirePermission_def split: option.splits if_splits)
  with Abort show ?thesis by (simp add: link_route_def)
next
  case Next
  obtain v cl base where f: "NewProjectAccessFactory (js_checker (hs_projects s)) PermissionManageHostProjectLinks
      (Some (projectIDFromLinkBody peek)) body gin (lw_base w) = (v, cl, base)" by (metis prod_cases3)
  show ?thesis
  proof (cases v)
    case (Abort st c m)
    with f have "400 \<le> st"
      by (auto simp: NewProjectAccessFactory_def RequireProjectAccess_def Let_def split: prod.splits if_splits)
    with Abort Next f show ?thesis by (simp add: link_route_def)
  next
    case v: Next
    have "body_after_check gin body = map_option (\<lambda>_. '''') body" if "hs_getter s \<noteq> None"
      using that assms(1) f v
      by (auto simp: body_after_check_def NewProjectAccessFactory_def RequireProjectAccess_def FromGin_def
        split: option.splits if_splits)
    with assms(2) [of "Some cl" body "w\<lparr>lw_base := base\<rparr>"]
      assms(3) [of "Some cl" "body_after_check gin body" "w\<lparr>lw_base := base\<rparr>"] Next v f
    show ?thesis by (cases "hs_getter s = None") (simp_all add: link_route_def)
  qed
qed

text \<open>
  C28: who links a host. Through the two linking routes a link is made, or a success is answered, only for a
  SuperAdmin and only when a device getter was set: for everyone else the access check has read the body
  before the handler does, which then answers that it is empty, whatever was sent and whatever the
  caller's memberships are. The service the program builds has no getter, so there no request links a
  host to a project, and the device list of every project is empty. The decoder behaves as documented on
  an exhausted body.
\<close>

theorem linking_needs_super_admin_and_getter:
  assumes "ld_link d '''' = EmptyBody" "ld_bulk d '''' = EmptyBody"
    and "r = post_link s d deviceID userv gin body w" "rb = post_bulk_link s d deviceID userv gin body w"
  shows "(resp_status (fst r) < 400 \<or> lw_links (snd r) \<noteq> lw_links w
          \<or> resp_status (fst rb) < 400 \<or> lw_links (snd rb) \<noteq> lw_links w
        \<longrightarrow> (\<exists>cl. gin = Some cl \<and> IsSuperAdmin cl) \<and> hs_getter s \<noteq> None)
    \<and> hs_getter (NewLinkService b ps aud clock newID) = None
    \<and> (\<forall>rows w'. hs_getter s = None \<longrightarrow> ListDeviceDetailsByProject s pid w = Some (Inr rows, w') \<longrightarrow> rows = [])"
proof -
  have l: "400 \<le> resp_status (fst (linkDeviceProject s (ld_link d) deviceID cl b w))
      \<and> lw_links (snd (linkDeviceProject s (ld_link d) deviceID cl b w)) = lw_links w"
    if "b = map_option (\<lambda>_. '''') b0 \<or> hs_getter s = None" for cl b b0 w
  proof (cases "link_bind (ld_link d) b :: (host_project_link response, link_request) sum")
    case (Inl resp)
    with link_bind_error [OF Inl] show ?thesis by (simp add: linkDeviceProject_def)
  next
    case (Inr req)
    with that link_bind_drained [where decode = "ld_link d" and body = b0, OF assms(1)] have "hs_getter s = None" by auto
    from no_getter_Link [OF this] obtain e where
      "Link s deviceID (lr_ProjectID req) (callerFromGin cl) (Some cl) w = (Inl e, w)" by blast
    with Inr show ?thesis by (simp add: linkDeviceProject_def respond_Inl_status)
  qed
  have bl: "400 \<le> resp_status (fst (bulkLinkDeviceProjects s (ld_bulk d) deviceID cl b w))
      \<and> lw_links (snd (bulkLinkDeviceProjects s (ld_bulk d) deviceID cl b w)) = lw_links w"
    if "b = map_option (\<lambda>_. '''') b0 \<or> hs_getter s = None" for cl b b0 w
  proof (cases "link_bind (ld_bulk d) b :: (host_project_link list response, bulk_link_request) sum")
    case (Inl resp)
    with link_bind_error [OF Inl] show ?thesis by (simp add: bulkLinkDeviceProjects_def)
  next
    case (Inr req)
    with that link_bind_drained [where decode = "ld_bulk d" and body = b0, OF assms(2)] have "hs_getter s = None" by auto
    from no_getter_BulkLink [OF this] obtain e where
      "BulkLink s deviceID (br_ProjectIDs req) (callerFromGin cl) (Some cl) w = (Inl e, w)" by blast
    with Inr show ?thesis by (simp add: bulkLinkDeviceProjects_def respond_Inl_status)
  qed
  have "(\<exists>cl. gin = Some cl \<and> IsSuperAdmin cl) \<and> hs_getter s \<noteq> None"
    if "resp_status (fst r) < 400 \<or> lw_links (snd r) \<noteq> lw_links w
          \<or> resp_status (fst rb) < 400 \<or> lw_links (snd rb) \<noteq> lw_links w"
  proof (rule ccontr)
    assume "\<not> ?thesis"
    then have n: "\<not> (\<exists>cl. gin = Some cl \<and> IsSuperAdmin cl) \<or> hs_getter s = None" by blast
    have "400 \<le> resp_status (fst r) \<and> lw_links (snd r) = lw_links w"
      unfolding assms(3) post_link_def by (rule link_route_refused [OF n]) (use l in blast)+
    moreover have "400 \<le> resp_status (fst rb) \<and> lw_links (snd rb) = lw_links w"
      unfolding assms(4) post_bulk_link_def by (rule link_route_refused [OF n]) (use bl in blast)+
    ultimately show False using that by linarith
  qed
  moreover have "rows = []" if "hs_getter s = None" "ListDeviceDetailsByProject s pid w = Some (Inr rows, w')" for rows w'
  proof -
    have dr: "fst (device_rows s u q ls seen) = []" for u q ls seen
      using that(1) by (induction ls arbitrary: seen) (auto simp: fetchDevice_def split: prod.splits)
    have "projects_rows s u qs seen = Inr rows \<Longrightarrow> rows = []" for u qs seen
      using dr by (induction qs arbitrary: seen rows) (auto simp: map_sum_Inr split: sum.splits prod.splits, (metis fst_conv)+)
    with that(2) show ?thesis by (auto simp: ListDeviceDetailsByProject_def Let_def split: option.splits sum.splits prod.splits)
  qed
  ultimately show ?thesis by (simp add: NewLinkService_def)
qed

end
