(* ===== verification/Host_Project_Facts.thy ===== *)
theory Host_Project_Facts
  imports Host_Project_Http
begin

text \<open>
  The links over tables that behave as documented. The device list of a project is read off the links of
  the project and of its ancestors in the forest of the hierarchy; a pair that was unlinked or orphaned
  keeps its entry in the unique index, and is never linked again.
\<close>

definition link_key :: "host_project_link \<Rightarrow> string \<times> string" where
  "link_key l = (hl_DeviceID l, hl_ProjectID l)"

definition sqlite_link_violation :: string where
  "sqlite_link_violation = ''UNIQUE constraint failed: host_project_links.device_id, host_project_links.project_id''"

subsection \<open>A concrete service\<close>

definition demo_links ::
    "(project_type list, project list, project_member list \<times> (string \<times> string) list,
      host_project_link list \<times> (string \<times> string) list, unit, nat) link_service" where
  "demo_links = SetDeviceGetter (Some (\<lambda>_ _. Inr demo_device))
     (NewLinkService (soft_gorm hl_ID link_key sqlite_link_violation) demo_projects None
        (\<lambda>n. (Time (int n), n)) (\<lambda>n. (''id-'' @ nat_digits n, Suc n)))"

lemma demo_links_sel [simp]:
  "hs_repo demo_links = soft_gorm hl_ID link_key sqlite_link_violation" "hs_projects demo_links = demo_projects"
  "hs_audit demo_links = None" "hs_getter demo_links = Some (\<lambda>_ _. Inr demo_device)"
  "hs_now demo_links n = (Time (int n), n)" "hs_newID demo_links n = (''id-'' @ nat_digits n, Suc n)"
  by (simp_all add: demo_links_def SetDeviceGetter_def NewLinkService_def)

definition demo_link :: "string \<Rightarrow> nat \<Rightarrow> host_project_link" where
  "demo_link p n =
     \<lparr>hl_ID = ''id-'' @ nat_digits n, hl_DeviceID = ''id-0'', hl_ProjectID = p, hl_LinkedBy = ''root'',
      hl_LinkedAt = Time (int n), hl_OrphanedAt = None\<rparr>"

definition link_demo ::
    "project list \<Rightarrow> host_project_link list \<Rightarrow> (string \<times> string) list \<Rightarrow> nat
     \<Rightarrow> (project_type list, project list, project_member list \<times> (string \<times> string) list,
         host_project_link list \<times> (string \<times> string) list, nat) link_world" where
  "link_demo ps ls ix n = \<lparr>lw_links = (ls, ix), lw_base = (demo_world ps)\<lparr>jw_env := n\<rparr>\<rparr>"

lemma link_demo_sel [simp]:
  "lw_links (link_demo ps ls ix n) = (ls, ix)" "jw_projects (lw_base (link_demo ps ls ix n)) = ps"
  "jw_env (lw_base (link_demo ps ls ix n)) = n"
  by (simp_all add: link_demo_def)

lemma demo_GetProject:
  "on_base (GetProject demo_projects admin_ctx k) (link_demo ps ls ix n) =
     (case mem_rows pj_ID ps k of
        None \<Rightarrow> Inl (project_notFound ''project'' k) | Some p \<Rightarrow> Inr p, link_demo ps ls ix n)"
  by (simp add: on_base_def GetProject_def mem_Project_Get link_demo_def)

lemma demo_ids: "nat_digits 0 = ''0''" "nat_digits (Suc 0) = ''1''"
  by (code_simp, code_simp)

lemma trim_words: "TrimSpace ''id-0'' = ''id-0''" "TrimSpace ''root'' = ''root''"
  by (code_simp, code_simp)

lemma demo_link_made:
  "Link demo_links ''id-0'' ''a'' ''root'' (Some admin_ctx) (link_demo [demo_project ''a'' None] [] [] 0)
     = (Inr (demo_link ''a'' 0), link_demo [demo_project ''a'' None] [demo_link ''a'' 0] [] 1)"
proof -
  have c: "systemCtx (Some admin_ctx) = admin_ctx"
    by (simp add: systemCtx_def admin_ctx_def FromContext_def WithContext_def)
  have r: "Link_repo_Create (hs_repo demo_links) now k ([], []) l
      = Inr (Link_BeforeCreate k l, [Link_BeforeCreate k l], [])" if "hl_LinkedAt l \<noteq> zero_time" for now k l
    using that by (simp add: Link_repo_Create_def soft_calls soft_index_def mem_Create Let_def)
  have z: "Time 0 \<noteq> zero_time" by simp
  have "create_link demo_links ''id-0'' ''a'' ''root'' (link_demo ps [] [] 0)
      = (Inr (demo_link ''a'' 0), link_demo ps [demo_link ''a'' 0] [] 1)" for ps
    by (simp add: create_link_def r z del: demo_links_sel(1))
      (simp add: demo_link_def Link_BeforeCreate_def BaseModel_BeforeCreate_def link_demo_def demo_world_def)
  then show ?thesis
    by (simp add: Link_def validateLinkInputs_def trim_words assertDeviceExists_def assertProjectExists_def c
      demo_GetProject link_emitAudit_def)
qed

definition demo_decoders :: link_decoders where
  "demo_decoders =
     \<lparr>ld_peek = (\<lambda>_. Some \<lparr>pk_ProjectID = ''a'', pk_ProjectIDs = []\<rparr>),
      ld_link = (\<lambda>v. if v = '''' then EmptyBody else Decoded \<lparr>lr_ProjectID = ''a'', lr_LinkedBy = ''''\<rparr>),
      ld_bulk = (\<lambda>v. if v = '''' then EmptyBody else Decoded \<lparr>br_ProjectIDs = [''a''], br_LinkedBy = ''''\<rparr>)\<rparr>"

definition root_user :: user where
  "root_user = \<lparr>user_ID = ''root'', user_Username = ''root'', user_Email = '''', user_Role = RoleSuperAdmin,
     user_ProjectRole = ''''\<rparr>"

text \<open>
  A SuperAdmin links the host of the demonstration through the route; a developer who sends the same
  request is told that the body is empty or forbidden, and nothing is linked.
\<close>

lemma demo_post_link:
  "post_link demo_links demo_decoders ''id-0'' (Some (Some root_user)) admin_ctx (Some ''{}'')
      (link_demo [demo_project ''a'' None] [] [] 0)
     = (Body 201 (demo_link ''a'' 0), link_demo [demo_project ''a'' None] [demo_link ''a'' 0] [] 1)"
proof -
  have p: "RequirePermission PermissionManageHostProjectLinks (Some (Some root_user)) = Next"
    by (simp add: RequirePermission_def root_user_def RoleHasPermission_def RolePermissions_def)
  obtain cl where s: "admin_ctx = Some (Some cl)" "IsSuperAdmin (Some cl)" "UserID (Some cl) = ''root''"
    by (simp add: admin_ctx_def WithContext_def New_def)
  have f: "NewProjectAccessFactory m perm fn req admin_ctx w = (Next, the admin_ctx, w)" for m perm fn req w
    using s(2) by (simp add: NewProjectAccessFactory_def RequireProjectAccess_def FromGin_def s(1))
  have b: "body_after_check admin_ctx body = body" for body using s(2) by (simp add: body_after_check_def FromGin_def s(1))
  have u: "callerFromGin admin_ctx = ''root''" using s(3) by (simp add: callerFromGin_def FromGin_def s(1))
  have a: "Some (the admin_ctx) = admin_ctx" by (simp add: s(1))
  show ?thesis
    by (simp add: post_link_def link_route_def p f b a linkDeviceProject_def link_bind_def demo_decoders_def u
      demo_link_made respond_def)
qed

theorem linking_needs_super_admin_and_getter_witness:
  "resp_status (fst (post_link demo_links demo_decoders ''id-0'' (Some (Some root_user)) admin_ctx (Some ''{}'')
      (link_demo [demo_project ''a'' None] [] [] 0))) < 400
   \<and> 400 \<le> resp_status (fst (post_link demo_links demo_decoders ''id-0'' (Some (Some dev_user))
      (Some (Some (New (Some dev_user)))) (Some ''{}'') (link_demo [demo_project ''a'' None] [] [] 0)))"
proof -
  let ?w = "link_demo [demo_project ''a'' None] [] [] 0"
  have d: "ld_link demo_decoders '''' = EmptyBody" "ld_bulk demo_decoders '''' = EmptyBody"
    by (simp_all add: demo_decoders_def)
  have "\<not> IsSuperAdmin (Some (New (Some dev_user)))" by (simp add: New_def)
  with linking_needs_super_admin_and_getter [OF d refl refl, of demo_links "''id-0''" "Some (Some dev_user)"
      "Some (Some (New (Some dev_user)))" "Some ''{}''" ?w]
  have "400 \<le> resp_status (fst (post_link demo_links demo_decoders ''id-0'' (Some (Some dev_user))
      (Some (Some (New (Some dev_user)))) (Some ''{}'') ?w))" by (metis leI option.inject)
  then show ?thesis by (simp add: demo_post_link)
qed

subsection \<open>The devices of a project\<close>

text \<open>The chain of a live project and the project itself are what is above it.\<close>

lemma chain_to_root_below:
  assumes "chain_to_root rows k qs"
  shows "set (qs @ [k]) = {q. below rows q k}"
  using assms
proof (induction rule: chain_to_root.induct)
  case (at_root k p)
  then have "\<not> child_rel rows q k" for q by (simp add: child_rel_row)
  then have "below rows q k \<longleftrightarrow> q = k" for q by (metis rtranclp.cases rtranclp.rtrancl_refl)
  then show ?case by auto
next
  case (under q k qs)
  have "below rows x k \<longleftrightarrow> x = k \<or> below rows x q" for x
  proof
    assume "below rows x k"
    then show "x = k \<or> below rows x q"
    proof (cases rule: rtranclp.cases)
      case (rtrancl_into_rtrancl y)
      with under.hyps(1) have "y = q" by (auto simp: child_rel_def)
      with rtrancl_into_rtrancl show ?thesis by simp
    qed simp
  next
    assume "x = k \<or> below rows x q"
    with under.hyps(1) show "below rows x k" by (auto intro: rtranclp.rtrancl_into_rtrancl)
  qed
  with under.IH show ?case by auto
qed

abbreviation row_device :: "project_device_link \<Rightarrow> string" where
  "row_device r \<equiv> hl_DeviceID (pd_Link r)"

definition found_device where
  "found_device s w d \<longleftrightarrow> (\<exists>x. fetchDevice s w d = Inr x)"

lemma device_rows_spec:
  assumes "device_rows s w pid ls seen = (out, seen')"
  shows "set seen' = set seen \<union> hl_DeviceID ` set ls \<and> distinct (map row_device out)
    \<and> row_device ` set out = {d \<in> hl_DeviceID ` set ls - set seen. found_device s w d}
    \<and> (\<forall>r\<in>set out. pd_Link r \<in> set ls \<and> pd_EffectiveProjectID r = pid
         \<and> fetchDevice s w (row_device r) = Inr (pd_Device r))"
  using assms
proof (induction ls arbitrary: seen out seen')
  case (Cons l ls)
  show ?case
  proof (cases "hl_DeviceID l \<in> set seen")
    case True
    with Cons.prems have "device_rows s w pid ls seen = (out, seen')" by simp
    from Cons.IH [OF this] True show ?thesis by auto
  next
    case False
    obtain rest seen2 where d: "device_rows s w pid ls (hl_DeviceID l # seen) = (rest, seen2)"
      by (cases "device_rows s w pid ls (hl_DeviceID l # seen)")
    note IH = Cons.IH [OF d]
    show ?thesis
    proof (cases "fetchDevice s w (hl_DeviceID l)")
      case (Inl err)
      with Cons.prems False d have o: "out = rest" "seen' = seen2" by simp_all
      from Inl have "\<not> found_device s w (hl_DeviceID l)" by (simp add: found_device_def)
      with IH show ?thesis unfolding o by auto
    next
      case (Inr x)
      with Cons.prems False d have o: "out = \<lparr>pd_Link = l, pd_Device = x, pd_EffectiveProjectID = pid\<rparr> # rest"
        "seen' = seen2" by simp_all
      from Inr have f: "found_device s w (hl_DeviceID l)" by (simp add: found_device_def)
      from IH have "hl_DeviceID l \<notin> row_device ` set rest" by auto
      with IH f False Inr show ?thesis unfolding o by auto
    qed
  qed
qed simp

text \<open>The devices with an effective link to a project: not orphaned, to that very project.\<close>

definition linked_devices :: "(string \<Rightarrow> host_project_link option) \<Rightarrow> string \<Rightarrow> string set" where
  "linked_devices lrows q = {hl_DeviceID l | l. \<exists>k. lrows k = Some l \<and> project_link q l}"

text \<open>The devices that have one to the project or to a project above it, and that the getter finds.\<close>

definition effective_devices where
  "effective_devices s prows lrows pid w =
     {d. found_device s w d \<and> (\<exists>q. below prows q pid \<and> d \<in> linked_devices lrows q)}"

context gorm_table
begin

lemma Find_image: "db_Find g s P = Inr rs \<Longrightarrow> f ` set rs = {f r | r. \<exists>k. rows s k = Some r \<and> P r}"
  by (auto dest!: Find_ok dest: rows_key)

end

lemma projects_rows_spec:
  assumes "gorm_table (gb_table (hs_repo s)) hl_ID lrows" "projects_rows s w pids seen = Inr out"
  shows "distinct (map row_device out)
    \<and> row_device ` set out = {d \<in> (\<Union>q\<in>set pids. linked_devices (lrows (lw_links w)) q) - set seen. found_device s w d}
    \<and> (\<forall>r\<in>set out. pd_EffectiveProjectID r = hl_ProjectID (pd_Link r)
         \<and> fetchDevice s w (row_device r) = Inr (pd_Device r))"
  using assms(2)
proof (induction pids arbitrary: seen out)
  case (Cons pid pids)
  from Cons.prems obtain ls rows1 seen1 rest where ls: "Link_repo_ListByProject (hs_repo s) (lw_links w) pid = Inr ls"
    and d: "device_rows s w pid ls seen = (rows1, seen1)" and p: "projects_rows s w pids seen1 = Inr rest"
    and o: "out = rows1 @ rest"
    by (auto simp: map_sum_Inr split: sum.splits prod.splits)
  note D = device_rows_spec [OF d] and IH = Cons.IH [OF p]
  from ls have f: "db_Find (gb_table (hs_repo s)) (lw_links w) (project_link pid) = Inr ls"
    by (simp add: Link_repo_ListByProject_def)
  from gorm_table.Find_image [OF assms(1) f, of hl_DeviceID]
  have L: "hl_DeviceID ` set ls = linked_devices (lrows (lw_links w)) pid" by (simp add: linked_devices_def)
  from gorm_table.Find_ok [OF assms(1) f] have P: "hl_ProjectID l = pid" if "l \<in> set ls" for l
    using that by (auto simp: project_link_def)
  define A B where "A = linked_devices (lrows (lw_links w)) pid"
    and "B = (\<Union>q\<in>set pids. linked_devices (lrows (lw_links w)) q)"
  have s1: "set seen1 = set seen \<union> A" and r1: "row_device ` set rows1 = {d \<in> A - set seen. found_device s w d}"
    using D by (simp_all add: L A_def)
  have r2: "row_device ` set rest = {d \<in> B - set seen1. found_device s w d}" using IH by (simp add: B_def)
  have "row_device ` set rows1 \<inter> row_device ` set rest = {}" unfolding r1 r2 s1 by blast
  then have "distinct (map row_device out)" using D IH unfolding o by auto
  moreover have "row_device ` set out = {d \<in> (A \<union> B) - set seen. found_device s w d}"
    unfolding o set_append image_Un r1 r2 s1 by blast
  moreover have "\<forall>r\<in>set out. pd_EffectiveProjectID r = hl_ProjectID (pd_Link r)
       \<and> fetchDevice s w (row_device r) = Inr (pd_Device r)"
    using D IH P unfolding o by auto
  ultimately show ?case by (simp add: A_def B_def)
qed simp

lemma system_requireMembership [simp]: "requireMembership s system_ctx pid w = (None, w)"
  by (simp add: requireMembership_def authenticated_def system_ctx_def FromContext_def WithContext_def New_def)

text \<open>
  C29: what the device list of a project shows. Over tables that behave as documented, and as long as the live
  projects form a forest, the list is computed, and when no query fails it holds every device, once, that has
  a link which is not orphaned to the project or to one of its ancestors and that the getter finds. The
  effective project of a row is the project its link was made with, never the one that was asked for
  by way of an ancestor.
\<close>

theorem project_devices_are_effective_links:
  assumes "project_table (js_projects (hs_projects s)) rows" "gorm_table (gb_table (hs_repo s)) hl_ID lrows"
    and "forest (rows (jw_projects (lw_base w)))"
  shows "\<exists>res. ListDeviceDetailsByProject s pid w = Some (res, w)
    \<and> (\<forall>out. res = Inr out \<longrightarrow>
        distinct (map row_device out)
        \<and> row_device ` set out = effective_devices s (rows (jw_projects (lw_base w))) (lrows (lw_links w)) pid w
        \<and> (\<forall>r\<in>set out. pd_EffectiveProjectID r = hl_ProjectID (pd_Link r)
             \<and> fetchDevice s w (row_device r) = Inr (pd_Device r)))"
proof -
  from project_table.GetAncestors_returns [OF assms(1,3)] obtain r where
    r: "GetAncestors (js_projects (hs_projects s)) (jw_projects (lw_base w)) pid = Some r"
    and c: "\<And>ps. r = Inr ps \<Longrightarrow> chain_to_root (rows (jw_projects (lw_base w))) pid (map pj_ID ps)" by blast
  have l: "ListAncestors (hs_projects s) (systemCtx None) pid (lw_base w) = Some (r, lw_base w)"
    by (simp add: ListAncestors_def systemCtx_def r)
  show ?thesis
  proof (cases r)
    case (Inl err)
    with l show ?thesis by (simp add: ListDeviceDetailsByProject_def)
  next
    case (Inr ps)
    have e: "ListDeviceDetailsByProject s pid w = Some (projects_rows s w (map pj_ID ps @ [pid]) [], w)"
      by (simp add: ListDeviceDetailsByProject_def l Inr)
    note U = chain_to_root_below [OF c [OF Inr]]
    show ?thesis
    proof (intro exI conjI allI impI, rule e, goal_cases)
      case (1 out) from projects_rows_spec [OF assms(2) 1] show ?case by blast
    next
      case (2 out)
      from projects_rows_spec [OF assms(2) 2] show ?case unfolding U effective_devices_def by auto
    next
      case (3 out) from projects_rows_spec [OF assms(2) 3] show ?case by blast
    qed
  qed
qed

definition system_below_line :: "project list" where
  "system_below_line = [demo_project ''a'' None, demo_project ''b'' (Some ''a'')]"

lemma demo_list:
  "ListDeviceDetailsByProject demo_links ''b'' (link_demo system_below_line [demo_link ''a'' 0] [] 1)
     = Some (Inr [\<lparr>pd_Link = demo_link ''a'' 0, pd_Device = demo_device, pd_EffectiveProjectID = ''a''\<rparr>],
             link_demo system_below_line [demo_link ''a'' 0] [] 1)"
proof -
  have g: "GetAncestors (mem_gorm pj_ID) system_below_line ''b'' = Some (Inr [demo_project ''a'' None])"
    by (simp add: GetAncestors_def mem_Project_Get system_below_line_def ancestors_loop.simps)
  have f: "db_Find (mem_gorm hl_ID) [demo_link ''a'' 0] (project_link q)
      = Inr (if q = ''a'' then [demo_link ''a'' 0] else [])" for q
    by (simp add: mem_Find map_filter_simps demo_link_def project_link_def)
  show ?thesis
    by (simp add: ListDeviceDetailsByProject_def ListAncestors_def systemCtx_def g Link_repo_ListByProject_def
      soft_calls f fetchDevice_def Let_def)
qed

lemma forest_system_below_line: "forest (mem_rows pj_ID system_below_line)"
proof -
  have e: "forest ((Map.empty(''a'' \<mapsto> demo_project ''a'' None))(''b'' \<mapsto> demo_project ''b'' (Some ''a'')))"
    by (intro forest_insert) (simp_all add: forest_def ranked_def child_rel_def)
  moreover have "mem_rows pj_ID system_below_line
      = (Map.empty(''a'' \<mapsto> demo_project ''a'' None))(''b'' \<mapsto> demo_project ''b'' (Some ''a''))"
    by (rule ext) (simp add: system_below_line_def)
  ultimately show ?thesis by simp
qed

theorem project_devices_are_effective_links_witness:
  "effective_devices demo_links (mem_rows pj_ID system_below_line) (mem_rows hl_ID [demo_link ''a'' 0]) ''b''
     (link_demo system_below_line [demo_link ''a'' 0] [] 1) = {''id-0''}"
proof -
  define w X where "w = link_demo system_below_line [demo_link ''a'' 0] [] 1"
    and "X = \<lparr>pd_Link = demo_link ''a'' 0, pd_Device = demo_device, pd_EffectiveProjectID = ''a''\<rparr>"
  have p: "project_table (js_projects (hs_projects demo_links)) (mem_rows pj_ID)"
    by (simp add: mem_projects.project_table_axioms)
  have g: "gorm_table (gb_table (hs_repo demo_links)) hl_ID (\<lambda>db. mem_rows hl_ID (fst db))"
    by (simp add: soft.gorm_table_axioms)
  have f: "forest (mem_rows pj_ID (jw_projects (lw_base w)))" by (simp add: forest_system_below_line w_def)
  have l: "ListDeviceDetailsByProject demo_links ''b'' w = Some (Inr [X], w)" unfolding w_def X_def by (rule demo_list)
  have "row_device ` set [X] = effective_devices demo_links (mem_rows pj_ID (jw_projects (lw_base w)))
      (mem_rows hl_ID (fst (lw_links w))) ''b'' w"
    using project_devices_are_effective_links [OF p g f, of "''b''", unfolded l] by auto
  moreover have "row_device X = ''id-0''" by (simp add: X_def demo_link_def)
  ultimately show ?thesis by (simp add: w_def)
qed

subsection \<open>Pairs that can never be linked again\<close>

locale link_table = soft_unique b hl_ID rows link_key index
  for b :: "('l, host_project_link) gorm_bulk" and rows :: "'l \<Rightarrow> string \<Rightarrow> host_project_link option"
    and index :: "'l \<Rightarrow> (string \<times> string) set"
begin

text \<open>The pair is in the index, and no live row of it is effective.\<close>

definition dead_pair :: "'l \<Rightarrow> string \<times> string \<Rightarrow> bool" where
  "dead_pair db u \<longleftrightarrow> u \<in> index db \<and> (\<forall>k l. rows db k = Some l \<longrightarrow> link_key l = u \<longrightarrow> hl_OrphanedAt l \<noteq> None)"

lemma dead_pairD: "dead_pair db u \<Longrightarrow> rows db k = Some l \<Longrightarrow> link_key l = u \<Longrightarrow> hl_OrphanedAt l \<noteq> None"
  by (simp add: dead_pair_def)

lemma dead_pair_repo_Create:
  assumes "dead_pair db u" "Link_repo_Create b now k db l = Inr (l', db')"
  shows "dead_pair db' u \<and> link_key l \<noteq> u"
proof -
  from assms(2) have c: "db_Create (gb_table b) db l' = Inr db'" and k: "link_key l' = link_key l"
    by (auto simp: Link_repo_Create_def Let_def Link_BeforeCreate_def link_key_def split: sum.splits)
  from index_Create [OF c] assms(1) have "link_key l' \<noteq> u" "index db' = insert (link_key l') (index db)"
    by (auto simp: dead_pair_def)
  with Create_ok [OF c] assms(1) k show ?thesis by (auto simp: dead_pair_def split: if_splits)
qed

lemma dead_pair_Delete:
  assumes "dead_pair db u" "gb_Delete b db P = Inr (n, db')"
  shows "dead_pair db' u"
  using assms index_Delete [OF assms(2)] bulk_Delete_none [OF assms(2)] by (fastforce simp: dead_pair_def)

lemma orphaning:
  assumes "gb_Updates b db P (\<lambda>l. l\<lparr>hl_OrphanedAt := Some now\<rparr>) = Inr (n, db')"
  shows "index db' = index db
    \<and> rows db' = (\<lambda>k. map_option (\<lambda>l. if P l then l\<lparr>hl_OrphanedAt := Some now\<rparr> else l) (rows db k))"
  using index_Updates [OF assms] bulk_Updates_ok [OF assms] by (simp add: link_key_def)

lemma dead_pair_Orphan:
  assumes "dead_pair db u" "Link_repo_OrphanByDevice b now db d = Inr db'"
  shows "dead_pair db' u"
proof -
  from assms(2) obtain n where "gb_Updates b db (device_link d) (\<lambda>l. l\<lparr>hl_OrphanedAt := Some now\<rparr>) = Inr (n, db')"
    by (auto simp: Link_repo_OrphanByDevice_def map_sum_Inr)
  from orphaning [OF this] assms(1) show ?thesis by (auto simp: dead_pair_def link_key_def split: if_splits)
qed

lemma dead_pair_not_listed:
  assumes "dead_pair db (d, p)" "Link_repo_ListByDevice b db d = Inr ls" "l \<in> set ls"
  shows "hl_ProjectID l \<noteq> p"
proof
  assume "hl_ProjectID l = p"
  from Find_ok [OF assms(2) [unfolded Link_repo_ListByDevice_def]] assms(3)
  have "rows db (hl_ID l) = Some l" "device_link d l" by auto
  with dead_pairD [OF assms(1) this(1)] \<open>hl_ProjectID l = p\<close> show False by (simp add: device_link_def link_key_def)
qed

lemma unlinked_is_dead:
  assumes "DeleteByDeviceAndProject b db d p = Inr db'"
  shows "dead_pair db' (d, p)"
proof -
  define P where "P l \<longleftrightarrow> hl_DeviceID l = d \<and> hl_ProjectID l = p \<and> hl_OrphanedAt l = None"
    for l :: host_project_link
  from assms obtain n where del: "gb_Delete b db P = Inr (n, db')" and n: "n \<noteq> 0"
    by (auto simp: DeleteByDeviceAndProject_def P_def [abs_def] split: sum.splits if_splits)
  from bulk_Delete_ok [OF del] n obtain k l where "rows db k = Some l" "P l" by blast
  then have "(d, p) \<in> index db'" using live_indexed [of db k l] index_Delete [OF del] by (auto simp: P_def link_key_def)
  then show ?thesis using bulk_Delete_none [OF del] by (auto simp: dead_pair_def link_key_def P_def)
qed

lemma orphaned_is_dead:
  assumes "Link_repo_OrphanByDevice b now db d = Inr db'" "rows db k = Some l" "link_key l = (d, p)"
  shows "dead_pair db' (d, p)"
proof -
  from assms(1) obtain n where u: "gb_Updates b db (device_link d) (\<lambda>l. l\<lparr>hl_OrphanedAt := Some now\<rparr>) = Inr (n, db')"
    by (auto simp: Link_repo_OrphanByDevice_def map_sum_Inr)
  from live_indexed [OF assms(2)] assms(3) orphaning [OF u] have "(d, p) \<in> index db'" by simp
  moreover have "hl_OrphanedAt l' \<noteq> None" if l': "rows db' k' = Some l'" "link_key l' = (d, p)" for k' l'
  proof -
    from l'(1) orphaning [OF u] obtain l0 where
      "l' = (if device_link d l0 then l0\<lparr>hl_OrphanedAt := Some now\<rparr> else l0)" by auto
    with l'(2) show ?thesis by (cases "hl_OrphanedAt l0") (auto simp: device_link_def link_key_def split: if_splits)
  qed
  ultimately show ?thesis by (simp add: dead_pair_def)
qed

end

interpretation soft_links: link_table
  "soft_gorm hl_ID link_key m" "\<lambda>db. mem_rows hl_ID (fst db)" "soft_index link_key"
  for m
  by unfold_locales

text \<open>The requests that change the links.\<close>

inductive link_step ::
    "('t, 'p, 'm, 'l, 's, 'w) link_service \<Rightarrow> ('t, 'p, 'm, 'l, 'w) link_world \<Rightarrow> ('t, 'p, 'm, 'l, 'w) link_world \<Rightarrow> bool"
  for s :: "('t, 'p, 'm, 'l, 's, 'w) link_service" where
  link: "Link s d p who c w = (r, w') \<Longrightarrow> link_step s w w'"
| unlink: "Unlink s d p w = (e, w') \<Longrightarrow> link_step s w w'"
| bulk_link: "BulkLink s d ps who c w = (rs, w') \<Longrightarrow> link_step s w w'"
| bulk_unlink: "BulkUnlink s d ps w = (e, w') \<Longrightarrow> link_step s w w'"
| orphan: "OrphanByDevice s d w = (e, w') \<Longrightarrow> link_step s w w'"

lemma bulk_check_links: "bulk_check s c ps uniq w = (r, w') \<Longrightarrow> lw_links w' = lw_links w"
proof (induction ps arbitrary: uniq w)
  case (Cons p ps)
  obtain e w1 where a: "assertProjectExists s c p w = (e, w1)" by (cases "assertProjectExists s c p w")
  from Cons.prems a assertProjectExists_links [OF a] Cons.IH [of uniq w] Cons.IH [of "uniq @ [p]" w1]
  show ?case by (auto split: if_splits option.splits)
qed simp

context link_table
begin

lemma create_link_dead:
  assumes "create_link s d p who w = (r, w')" "hs_repo s = b" "dead_pair (lw_links w) u"
  shows "dead_pair (lw_links w') u \<and> (\<forall>l. r = Inr l \<longrightarrow> (d, p) \<noteq> u)"
proof (cases r)
  case (Inl err)
  with assms show ?thesis by (auto simp: create_link_def Let_def split: prod.splits sum.splits)
next
  case (Inr l)
  with assms(1,2) obtain now k l0 where "Link_repo_Create b now k (lw_links w) l0 = Inr (l, lw_links w')"
    "link_key l0 = (d, p)"
    by (auto simp: create_link_def Let_def link_key_def split: prod.splits sum.splits)
  with dead_pair_repo_Create [OF assms(3)] show ?thesis by metis
qed

lemma Link_dead:
  assumes "Link s d p who c w = (r, w')" "hs_repo s = b" "dead_pair (lw_links w) u"
  shows "dead_pair (lw_links w') u \<and> (\<forall>l. r = Inr l \<longrightarrow> (d, p) \<noteq> u)"
proof -
  obtain e w1 where a: "assertProjectExists s (systemCtx c) p w = (e, w1)"
    by (cases "assertProjectExists s (systemCtx c) p w")
  obtain r2 w2 where c: "create_link s d p who w1 = (r2, w2)" by (cases "create_link s d p who w1")
  from create_link_dead [OF c assms(2), of u] assms(3) assertProjectExists_links [OF a] assms(1) a c
  show ?thesis by (auto simp: Link_def split: option.splits sum.splits)
qed

lemma Unlink_dead:
  assumes "Unlink s d p w = (e, w')" "hs_repo s = b" "dead_pair (lw_links w) u"
  shows "dead_pair (lw_links w') u"
  using assms(1,3)
  by (auto simp: Unlink_def assms(2) DeleteByDeviceAndProject_def intro: dead_pair_Delete split: sum.splits if_splits)

lemma bulk_create_dead:
  "bulk_create s d who ps out w = (r, w') \<Longrightarrow> hs_repo s = b \<Longrightarrow> dead_pair (lw_links w) u \<Longrightarrow>
     dead_pair (lw_links w') u"
proof (induction ps arbitrary: out w)
  case (Cons p ps)
  obtain r1 w1 where c: "create_link s d p who w = (r1, w1)" by (cases "create_link s d p who w")
  from create_link_dead [OF c Cons.prems(2,3)] have "dead_pair (lw_links w1) u" ..
  with Cons.prems c show ?case
    by (auto simp: Cons.prems(2) intro: Cons.IH split: sum.splits if_splits)
qed simp

lemma BulkLink_dead:
  assumes "BulkLink s d ps who c w = (r, w')" "hs_repo s = b" "dead_pair (lw_links w) u"
  shows "dead_pair (lw_links w') u"
proof -
  obtain r1 w1 where c: "bulk_check s (systemCtx c) ps [] w = (r1, w1)" by (cases "bulk_check s (systemCtx c) ps [] w")
  from bulk_check_links [OF c] assms(3) have "dead_pair (lw_links w1) u" by simp
  with assms(1,3) c show ?thesis
    by (auto simp: BulkLink_def intro: bulk_create_dead assms(2) split: option.splits sum.splits)
qed

lemma BulkUnlink_dead:
  "BulkUnlink s d ps w = (e, w') \<Longrightarrow> hs_repo s = b \<Longrightarrow> dead_pair (lw_links w) u \<Longrightarrow> dead_pair (lw_links w') u"
proof (induction ps arbitrary: w)
  case (Cons p ps)
  have d: "dead_pair db u" if "DeleteByDeviceAndProject b (lw_links w) d p = Inr db" for db
    using that Cons.prems(3) by (auto simp: DeleteByDeviceAndProject_def intro: dead_pair_Delete split: sum.splits if_splits)
  from Cons.prems d show ?case by (auto simp: Cons.prems(2) intro: Cons.IH split: sum.splits if_splits)
qed simp

lemma OrphanByDevice_dead:
  assumes "OrphanByDevice s d w = (e, w')" "hs_repo s = b" "dead_pair (lw_links w) u"
  shows "dead_pair (lw_links w') u"
  using assms(1,3)
  by (auto simp: OrphanByDevice_def assms(2) Let_def intro: dead_pair_Orphan split: prod.splits sum.splits)

lemma link_step_dead:
  assumes "link_step s w w'" "hs_repo s = b" "dead_pair (lw_links w) u"
  shows "dead_pair (lw_links w') u"
  using assms(1)
proof cases
  case (link d p who c r)
  from Link_dead [OF link assms(2,3)] show ?thesis ..
qed (rule Unlink_dead BulkLink_dead BulkUnlink_dead OrphanByDevice_dead, assumption, rule assms(2), rule assms(3))+

lemma link_steps_dead:
  assumes "(link_step s)\<^sup>*\<^sup>* w1 w2" "hs_repo s = b" "dead_pair (lw_links w1) u"
  shows "dead_pair (lw_links w2) u"
  using assms(1) by (induction rule: rtranclp_induct) (auto intro: link_step_dead assms(2,3))

end

text \<open>
  C30: an unlinked pair is never linked again. The table deletes softly and its unique index covers what is
  deleted and what is orphaned. After a successful unlinking of a host and a project, or after the host's
  links have been orphaned while the pair was in the table, whatever requests follow, the pair is on no
  list of the host's links, and no request to link it succeeds; the bulk request skips it in silence.
\<close>

theorem unlinked_pair_never_relinks:
  assumes "link_table b lrows ix" "hs_repo s = b" "(link_step s)\<^sup>*\<^sup>* w1 w2"
    and "Unlink s d p w = (None, w1)
      \<or> OrphanByDevice s d w = (None, w1) \<and> (\<exists>k l. lrows (lw_links w) k = Some l \<and> link_key l = (d, p))"
  shows "(\<forall>ls l. Link_repo_ListByDevice b (lw_links w2) d = Inr ls \<longrightarrow> l \<in> set ls \<longrightarrow> hl_ProjectID l \<noteq> p)
    \<and> (\<forall>who c w3 l. Link s d p who c w2 \<noteq> (Inr l, w3))"
proof -
  have "link_table.dead_pair lrows ix (lw_links w1) (d, p)" using assms(4)
  proof
    assume "Unlink s d p w = (None, w1)"
    then have "DeleteByDeviceAndProject b (lw_links w) d p = Inr (lw_links w1)"
      by (auto simp: Unlink_def assms(2) split: sum.splits)
    from link_table.unlinked_is_dead [OF assms(1) this] show ?thesis .
  next
    assume o: "OrphanByDevice s d w = (None, w1) \<and> (\<exists>k l. lrows (lw_links w) k = Some l \<and> link_key l = (d, p))"
    then obtain now where "Link_repo_OrphanByDevice b now (lw_links w) d = Inr (lw_links w1)"
      by (auto simp: OrphanByDevice_def assms(2) Let_def split: prod.splits sum.splits)
    with link_table.orphaned_is_dead [OF assms(1)] o show ?thesis by blast
  qed
  then have dead: "link_table.dead_pair lrows ix (lw_links w2) (d, p)"
    by (rule link_table.link_steps_dead [OF assms(1,3,2)])
  have "Link s d p who c w2 \<noteq> (Inr l, w3)" for who c w3 l
    using link_table.Link_dead [OF assms(1) _ assms(2) dead] by blast
  with link_table.dead_pair_not_listed [OF assms(1) dead] show ?thesis by blast
qed

lemma demo_unlink:
  "Unlink demo_links ''id-0'' ''a'' (link_demo ps [demo_link ''a'' 0] [] 1)
     = (None, link_demo ps [] [(''id-0'', ''a'')] 1)"
  by (simp add: Unlink_def DeleteByDeviceAndProject_def soft_calls mem_live_def map_filter_simps link_emitAudit_def)
    (simp add: demo_link_def link_key_def link_demo_def)

theorem unlinked_pair_never_relinks_witness:
  "\<forall>l w3. Link demo_links ''id-0'' ''a'' ''root'' (Some admin_ctx)
       (link_demo [demo_project ''a'' None] [] [(''id-0'', ''a'')] 1) \<noteq> (Inr l, w3)"
  using unlinked_pair_never_relinks [OF soft_links.link_table_axioms demo_links_sel(1) rtranclp.rtrancl_refl
      disjI1 [OF demo_unlink]] by blast

end
