(* ===== verification/Auth.thy ===== *)
theory Auth
  imports Caller Audit_Service
begin

text \<open>
  Tokens and the authentication middlewares (\<open>internal/auth/jwt.go\<close>, \<open>internal/auth/middleware.go\<close>). The
  JWT library is a parameter: signing the claims under a secret, and parsing a token with the function
  that chooses the key. The instant the middleware reads and the one the library reads are one argument.
  Lemmas: what a request needs to be authenticated.
\<close>

subsection \<open>Tokens\<close>

text \<open>
  A claim as it is set before signing (\<open>int64\<close>), or as it comes out of the JSON of a token, where every
  number is a \<open>float64\<close>, given here by its conversion to \<open>int64\<close>.
\<close>

datatype claim = ClaimString string | ClaimInt int | ClaimFloat int | ClaimOther

type_synonym map_claims = "string \<Rightarrow> claim option"

text \<open>\<open>jl_Parse\<close> gives the claims and the flag \<open>Valid\<close>.\<close>

record jwt_lib =
  jl_SignedString :: "string \<Rightarrow> map_claims \<Rightarrow> string result"
  jl_Parse :: "(string \<Rightarrow> string result) \<Rightarrow> time \<Rightarrow> string \<Rightarrow> (map_claims \<times> bool) result"

abbreviation SigningAlgorithm :: string where "SigningAlgorithm \<equiv> ''HS256''"
abbreviation Issuer :: string where "Issuer \<equiv> ''devops-toolkit''"

record signer =
  sg_secret :: string
  sg_ttl :: duration

definition NewSigner :: "string \<Rightarrow> duration \<Rightarrow> signer result" where
  "NewSigner secret ttl =
     (if secret = '''' then Inl (Sentinel ''auth: jwt secret is required'')
      else Inr \<lparr>sg_secret = secret, sg_ttl = (if ttl \<le> 0 then Hour else ttl)\<rparr>)"

text \<open>\<open>Time.Unix\<close>: whole seconds, rounded down.\<close>

definition Unix :: "time \<Rightarrow> int" where
  "Unix t = nanos t div Second"

definition issue_claims :: "signer \<Rightarrow> time \<Rightarrow> user \<Rightarrow> map_claims" where
  "issue_claims sg now u =
     [''iss'' \<mapsto> ClaimString Issuer, ''sub'' \<mapsto> ClaimString (user_ID u), ''iat'' \<mapsto> ClaimInt (Unix now),
      ''exp'' \<mapsto> ClaimInt (Unix (time_add now (sg_ttl sg))), ''uid'' \<mapsto> ClaimString (user_ID u),
      ''usr'' \<mapsto> ClaimString (user_Username u), ''rol'' \<mapsto> ClaimString (user_Role u)]"

definition Issue :: "jwt_lib \<Rightarrow> signer \<Rightarrow> time \<Rightarrow> user \<Rightarrow> (string \<times> int) result" where
  "Issue J sg now u =
     (case jl_SignedString J (sg_secret sg) (issue_claims sg now u) of
        Inl err \<Rightarrow> Inl (Wrapped ''auth: sign token: '' err)
      | Inr tok \<Rightarrow> Inr (tok, Unix (time_add now (sg_ttl sg))))"

definition key_func :: "signer \<Rightarrow> string \<Rightarrow> string result" where
  "key_func sg alg =
     (if alg \<noteq> SigningAlgorithm then Inl (Sentinel (''auth: unexpected signing method '' @ Quote alg))
      else Inr (sg_secret sg))"

definition string_claim :: "map_claims \<Rightarrow> string \<Rightarrow> string" where
  "string_claim mc k = (case mc k of Some (ClaimString v) \<Rightarrow> v | _ \<Rightarrow> '''')"

definition int_claim :: "map_claims \<Rightarrow> string \<Rightarrow> int" where
  "int_claim mc k = (case mc k of Some (ClaimFloat n) \<Rightarrow> n | Some (ClaimInt n) \<Rightarrow> n | _ \<Rightarrow> 0)"

definition decoded_claims :: "map_claims \<Rightarrow> jwt_claims" where
  "decoded_claims mc =
     \<lparr>jwt_UserID = string_claim mc ''uid'', jwt_Username = string_claim mc ''usr'',
      jwt_Role = string_claim mc ''rol'', jwt_ExpiresAt = int_claim mc ''exp''\<rparr>"

definition Verify :: "jwt_lib \<Rightarrow> signer \<Rightarrow> time \<Rightarrow> string \<Rightarrow> jwt_claims result" where
  "Verify J sg now raw =
     (case jl_Parse J (key_func sg) now raw of
        Inl err \<Rightarrow> Inl (Wrapped ''auth: parse token: '' err)
      | Inr (mc, ok) \<Rightarrow>
          if \<not> ok then Inl (Sentinel ''auth: invalid token'')
          else
            (let c = decoded_claims mc
             in if IsExpired (Unix now) c then Inl (Sentinel ''auth: token expired'') else Inr c))"

subsection \<open>The middlewares\<close>

text \<open>\<open>None\<close> in the signer is nil.\<close>

record auth_config =
  ac_Signer :: "signer option"
  ac_DevBypass :: bool
  ac_RequiredPerm :: "permission option"
  ac_HasPermissionSvc :: bool

text \<open>
  The user, a refusal that has been written, or the panic of a nil signer, which only a development
  wiring can have: there every bearer token is taken to reach it.
\<close>

datatype auth_outcome = Authenticated user | Refused verdict | SignerPanic

abbreviation abortUnauth :: "string \<Rightarrow> verdict" where
  "abortUnauth msg \<equiv> Abort 401 CodeUnauthorized msg"

definition extractBearer :: "string \<Rightarrow> string" where
  "extractBearer h =
     (if h = '''' then ''''
      else
        (case index_char CHR '' '' h of
           None \<Rightarrow> ''''
         | Some i \<Rightarrow>
             if i = 0 then ''''
             else if ToLower (TrimSpace (take i h)) \<noteq> ''bearer'' then ''''
             else TrimSpace (drop (i + 1) h)))"

text \<open>\<open>header\<close> is \<open>c.GetHeader\<close>.\<close>

definition authenticate :: "jwt_lib \<Rightarrow> auth_config \<Rightarrow> time \<Rightarrow> (string \<Rightarrow> string) \<Rightarrow> auth_outcome" where
  "authenticate J cfg now header =
     (if ac_DevBypass cfg \<and> header ''X-User'' \<noteq> '''' then
        Authenticated \<lparr>user_ID = header ''X-User'', user_Username = header ''X-User'', user_Email = '''',
          user_Role = RoleOperator, user_ProjectRole = ''''\<rparr>
      else
        (let raw = extractBearer (header ''Authorization'')
         in if raw = '''' then Refused (abortUnauth ''missing bearer token'')
            else
              (case ac_Signer cfg of
                 None \<Rightarrow> SignerPanic
               | Some sg \<Rightarrow>
                   (case Verify J sg now raw of
                      Inl err \<Rightarrow> Refused (abortUnauth (''invalid token: '' @ Error_text err))
                    | Inr cl \<Rightarrow>
                        if jwt_UserID cl = '''' then Refused (abortUnauth ''token has no subject'')
                        else
                          Authenticated \<lparr>user_ID = jwt_UserID cl, user_Username = jwt_Username cl, user_Email = '''',
                            user_Role = jwt_Role cl, user_ProjectRole = ''''\<rparr>))))"

text \<open>
  What the middlewares leave on the request: the user under its key and the caller, with nothing cached.
  A panic is the 500 of the recovery middleware.
\<close>

record auth_request =
  rq_user :: "user option option"
  rq_caller :: ctx

definition stamp_user :: "user \<Rightarrow> auth_request" where
  "stamp_user u = \<lparr>rq_user = Some (Some u), rq_caller = WithContext (Some (New (Some u)))\<rparr>"

definition unstamped :: auth_request where
  "unstamped = \<lparr>rq_user = None, rq_caller = None\<rparr>"

abbreviation signer_panic :: verdict where
  "signer_panic \<equiv> Abort 500 CodeInternal ''internal server error''"

definition getUser :: "auth_request \<Rightarrow> user option" where
  "getUser r = (case rq_user r of None \<Rightarrow> None | Some u \<Rightarrow> u)"

definition NewAuthMiddleware ::
    "jwt_lib \<Rightarrow> auth_config \<Rightarrow> time \<Rightarrow> (string \<Rightarrow> string) \<Rightarrow> (permission \<Rightarrow> string) \<Rightarrow> verdict \<times> auth_request" where
  "NewAuthMiddleware J cfg now header perm_text =
     (case authenticate J cfg now header of
        Refused v \<Rightarrow> (v, unstamped)
      | SignerPanic \<Rightarrow> (signer_panic, unstamped)
      | Authenticated u \<Rightarrow>
          (case ac_RequiredPerm cfg of
             None \<Rightarrow> (Next, stamp_user u)
           | Some p \<Rightarrow>
               if ac_HasPermissionSvc cfg \<and> \<not> Service_HasPermission (Some u) p
               then (abortForbidden (''insufficient permission: '' @ perm_text p), stamp_user u)
               else (Next, stamp_user u)))"

text \<open>\<open>None\<close> is the panic of the constructor.\<close>

definition NewAuthenticator :: "auth_config \<Rightarrow> auth_config option" where
  "NewAuthenticator cfg = (if ac_Signer cfg = None \<and> \<not> ac_DevBypass cfg then None else Some cfg)"

definition RequireAuth :: "jwt_lib \<Rightarrow> auth_config \<Rightarrow> time \<Rightarrow> (string \<Rightarrow> string) \<Rightarrow> verdict \<times> auth_request" where
  "RequireAuth J cfg now header =
     (case authenticate J cfg now header of
        Refused v \<Rightarrow> (v, unstamped)
      | SignerPanic \<Rightarrow> (signer_panic, unstamped)
      | Authenticated u \<Rightarrow> (Next, stamp_user u))"

subsection \<open>What a request needs\<close>

lemma Verify_Inr:
  "Verify J sg now raw = Inr c \<longleftrightarrow>
     (\<exists>mc. jl_Parse J (key_func sg) now raw = Inr (mc, True) \<and> c = decoded_claims mc \<and> Unix now < jwt_ExpiresAt c)"
  by (auto simp: Verify_def IsExpired_def Let_def split: sum.splits if_splits)

text \<open>
  C31: a request is let through only with a valid token. With a signer and the development bypass off,
  a request passes the middleware only if its Authorization header carries a bearer token whose
  signature under the server's secret with HS256 is right, that has not expired, and that names a
  user; the request then runs as that user with the role of the token, whatever other headers it has.
  That the library accepts a token only for a key the key function gave and a signature that matches
  (\<open>valid_sig alg key token claims\<close>) is what it documents.
\<close>

theorem requests_need_a_signed_token:
  assumes "\<And>kf t raw mc ok. jl_Parse J kf t raw = Inr (mc, ok) \<Longrightarrow> \<exists>alg key. kf alg = Inr key \<and> valid_sig alg key raw mc"
    and "ac_Signer cfg = Some sg" "\<not> ac_DevBypass cfg" "RequireAuth J cfg now header = (Next, r)"
  shows "\<exists>mc u. valid_sig ''HS256'' (sg_secret sg) (extractBearer (header ''Authorization'')) mc
    \<and> Unix now < int_claim mc ''exp'' \<and> getUser r = Some u \<and> rq_caller r = WithContext (Some (New (Some u)))
    \<and> user_ID u = string_claim mc ''uid'' \<and> user_ID u \<noteq> '''' \<and> user_Role u = string_claim mc ''rol''"
proof -
  from assms(4) obtain u where a: "authenticate J cfg now header = Authenticated u" and r: "r = stamp_user u"
    by (auto simp: RequireAuth_def split: auth_outcome.splits) (auto simp: authenticate_def Let_def split: if_splits option.splits sum.splits)
  from a assms(2,3) obtain cl where v: "Verify J sg now (extractBearer (header ''Authorization'')) = Inr cl"
    and u: "jwt_UserID cl \<noteq> ''''" "user_ID u = jwt_UserID cl" "user_Role u = jwt_Role cl"
    by (auto simp: authenticate_def Let_def split: if_splits sum.splits)
  from v obtain mc where p: "jl_Parse J (key_func sg) now (extractBearer (header ''Authorization'')) = Inr (mc, True)"
    and c: "cl = decoded_claims mc" "Unix now < jwt_ExpiresAt cl" unfolding Verify_Inr by blast
  from assms(1) [OF p] obtain alg key where "key_func sg alg = Inr key"
    "valid_sig alg key (extractBearer (header ''Authorization'')) mc" by blast
  then have "valid_sig ''HS256'' (sg_secret sg) (extractBearer (header ''Authorization'')) mc"
    by (auto simp: key_func_def split: if_splits)
  with u c r show ?thesis
    by (intro exI [of _ mc] exI [of _ u]) (simp add: decoded_claims_def getUser_def stamp_user_def)
qed

text \<open>A library that knows one token, signed for the developer of the demonstrations.\<close>

definition demo_signer :: signer where
  "demo_signer = \<lparr>sg_secret = ''s3cret'', sg_ttl = Hour\<rparr>"

definition through_json :: "map_claims \<Rightarrow> map_claims" where
  "through_json mc = (\<lambda>k. case mc k of Some (ClaimInt n) \<Rightarrow> Some (ClaimFloat n) | c \<Rightarrow> c)"

definition one_token :: "map_claims \<Rightarrow> jwt_lib" where
  "one_token mc =
     \<lparr>jl_SignedString = (\<lambda>_ mc'. if mc' = mc then Inr ''tok'' else Inl (External ''unknown claims'')),
      jl_Parse = (\<lambda>kf now raw.
         if raw = ''tok'' then map_sum (\<lambda>e. e) (\<lambda>_. (through_json mc, True)) (kf ''HS256'')
         else Inl (External ''token is malformed''))\<rparr>"

lemma bearer_tok: "extractBearer ''Bearer tok'' = ''tok''"
proof -
  have "index_char CHR '' '' ''Bearer tok'' = Some 6" by (simp add: index_char_def upt_rec numeral_eq_Suc)
  moreover have "TrimSpace ''Bearer'' = ''Bearer''" "TrimSpace ''tok'' = ''tok''" "ToLower ''Bearer'' = ''bearer''"
    by (code_simp, code_simp, code_simp)
  ultimately show ?thesis by (simp add: extractBearer_def numeral_eq_Suc)
qed

lemma issue_claims_read:
  "string_claim (through_json (issue_claims sg now u)) ''uid'' = user_ID u"
  "string_claim (through_json (issue_claims sg now u)) ''usr'' = user_Username u"
  "string_claim (through_json (issue_claims sg now u)) ''rol'' = user_Role u"
  "int_claim (through_json (issue_claims sg now u)) ''exp'' = Unix (time_add now (sg_ttl sg))"
  by (simp_all add: string_claim_def int_claim_def through_json_def issue_claims_def)

definition demo_auth :: auth_config where
  "demo_auth = \<lparr>ac_Signer = Some demo_signer, ac_DevBypass = False, ac_RequiredPerm = None,
     ac_HasPermissionSvc = False\<rparr>"

definition bearer_header :: "string \<Rightarrow> string \<Rightarrow> string" where
  "bearer_header tok h = (if h = ''Authorization'' then ''Bearer '' @ tok else '''')"

lemma demo_bearer_request:
  "RequireAuth (one_token (issue_claims demo_signer (Time 0) dev_user)) demo_auth (Time 0) (bearer_header ''tok'')
     = (Next, stamp_user (dev_user\<lparr>user_Email := '''', user_ProjectRole := ''''\<rparr>))"
  by (simp add: RequireAuth_def authenticate_def demo_auth_def bearer_header_def bearer_tok Verify_def one_token_def
    key_func_def demo_signer_def decoded_claims_def issue_claims_read IsExpired_def Unix_def time_add_def Let_def)

theorem requests_need_a_signed_token_witness:
  "\<exists>mc u. ''Bearer tok'' = bearer_header ''tok'' ''Authorization'' \<and> Unix (Time 0) < int_claim mc ''exp''
     \<and> getUser (stamp_user (dev_user\<lparr>user_Email := '''', user_ProjectRole := ''''\<rparr>)) = Some u
     \<and> user_ID u = string_claim mc ''uid''"
proof -
  let ?J = "one_token (issue_claims demo_signer (Time 0) dev_user)"
  have s: "\<exists>alg key. kf alg = Inr key \<and> (alg = ''HS256'' \<and> raw = ''tok'')"
    if "jl_Parse ?J kf t raw = Inr (mc, ok)" for kf t raw mc ok
    using that by (auto simp: one_token_def map_sum_Inr split: if_splits)
  have c: "ac_Signer demo_auth = Some demo_signer" "\<not> ac_DevBypass demo_auth" by (simp_all add: demo_auth_def)
  have "\<exists>mc u. (''HS256'' = ''HS256'' \<and> extractBearer (bearer_header ''tok'' ''Authorization'') = ''tok'')
      \<and> Unix (Time 0) < int_claim mc ''exp''
      \<and> getUser (stamp_user (dev_user\<lparr>user_Email := '''', user_ProjectRole := ''''\<rparr>)) = Some u
      \<and> rq_caller (stamp_user (dev_user\<lparr>user_Email := '''', user_ProjectRole := ''''\<rparr>))
          = WithContext (Some (New (Some u)))
      \<and> user_ID u = string_claim mc ''uid'' \<and> user_ID u \<noteq> '''' \<and> user_Role u = string_claim mc ''rol''"
    by (rule requests_need_a_signed_token [where valid_sig = "\<lambda>alg key raw mc. alg = ''HS256'' \<and> raw = ''tok''",
        OF _ c demo_bearer_request]) (rule s)
  then show ?thesis by (auto simp: bearer_header_def)
qed

end
