(* ===== verification/Ldap.thy ===== *)
theory Ldap
  imports Auth
begin

text \<open>
  LDAP authentication (\<open>internal/auth/ldap\<close>): the in-memory client (\<open>fake.go\<close>), the client with its pooled
  connection and its retries (\<open>client.go\<close>), the service with the mapping of groups to roles and the
  limiter of failed logins (\<open>service.go\<close>), and the two handlers (\<open>handler.go\<close>). The network, the wire
  protocol and the context are parameters; the readings of the clock are arguments, in their order.
\<close>

subsection \<open>Errors and identities\<close>

abbreviation ErrInvalidCredentials :: go_error where
  "ErrInvalidCredentials \<equiv> Sentinel ''ldap: invalid credentials''"
abbreviation ErrServerUnreachable :: go_error where
  "ErrServerUnreachable \<equiv> Sentinel ''ldap: server unreachable''"

record ldap_identity =
  id_Username :: string
  id_Email :: string
  id_Groups :: "string list"

text \<open>A client: the authentication and the probe, on the world.\<close>

record 'w ldap_client =
  lc_Authenticate :: "string \<Rightarrow> string \<Rightarrow> 'w \<Rightarrow> ldap_identity result \<times> 'w"
  lc_HealthCheck :: "'w \<Rightarrow> go_error option \<times> 'w"

subsection \<open>The in-memory client\<close>

record dev_fake_entry =
  fe_password :: string
  fe_email :: string
  fe_groups :: "string list"

record fake_ldap =
  fk_users :: "string \<Rightarrow> dev_fake_entry option"
  fk_healthy :: bool
  fk_failNext :: "go_error option"

definition Ldap_NewFake :: fake_ldap where
  "Ldap_NewFake = \<lparr>fk_users = Map.empty, fk_healthy = True, fk_failNext = None\<rparr>"

definition AddUser :: "string \<Rightarrow> string \<Rightarrow> string \<Rightarrow> string list \<Rightarrow> fake_ldap \<Rightarrow> fake_ldap" where
  "AddUser username password email groups f =
     f\<lparr>fk_users := (fk_users f)(username \<mapsto> \<lparr>fe_password = password, fe_email = email, fe_groups = groups\<rparr>)\<rparr>"

definition SetHealthy :: "bool \<Rightarrow> fake_ldap \<Rightarrow> fake_ldap" where
  "SetHealthy h f = f\<lparr>fk_healthy := h\<rparr>"

definition SetServerError :: "go_error option \<Rightarrow> fake_ldap \<Rightarrow> fake_ldap" where
  "SetServerError err f = f\<lparr>fk_failNext := err\<rparr>"

text \<open>\<open>ctx_err\<close> is \<open>ctx.Err()\<close>.\<close>

definition Fake_Authenticate ::
    "go_error option \<Rightarrow> string \<Rightarrow> string \<Rightarrow> fake_ldap \<Rightarrow> ldap_identity result \<times> fake_ldap" where
  "Fake_Authenticate ctx_err username password f =
     (case ctx_err of
        Some err \<Rightarrow> (Inl err, f)
      | None \<Rightarrow>
          (case fk_failNext f of
             Some err \<Rightarrow> (Inl err, f\<lparr>fk_failNext := None\<rparr>)
           | None \<Rightarrow>
               (case fk_users f username of
                  None \<Rightarrow> (Inl ErrInvalidCredentials, f)
                | Some e \<Rightarrow>
                    if fe_password e \<noteq> password then (Inl ErrInvalidCredentials, f)
                    else (Inr \<lparr>id_Username = username, id_Email = fe_email e, id_Groups = fe_groups e\<rparr>, f))))"

definition Ldap_Fake_Ping :: "fake_ldap \<Rightarrow> go_error option" where
  "Ldap_Fake_Ping f = (if fk_healthy f then None else Some (External ''ldap: server unreachable''))"

definition Fake_HealthCheck :: "fake_ldap \<Rightarrow> go_error option" where
  "Fake_HealthCheck f = (if fk_healthy f then None else Some (External ''ldap unhealthy: server unreachable''))"

definition fake_client :: "fake_ldap ldap_client" where
  "fake_client =
     \<lparr>lc_Authenticate = Fake_Authenticate None, lc_HealthCheck = (\<lambda>f. (Fake_HealthCheck f, f))\<rparr>"

subsection \<open>The client of a server\<close>

text \<open>
  A connection \<open>'c\<close> with its operations, the dialler (the hook, or TCP), the state of the context and the
  test for an error of package \<open>net\<close>.
\<close>

record ('c, 'w) ldap_net =
  ln_dial :: "'w \<Rightarrow> 'c result \<times> 'w"
  ln_Bind :: "'c \<Rightarrow> string \<Rightarrow> string \<Rightarrow> 'w \<Rightarrow> go_error option \<times> 'w"
  ln_SearchGroups :: "'c \<Rightarrow> string \<Rightarrow> string \<Rightarrow> 'w \<Rightarrow> string list result \<times> 'w"
  ln_Close :: "'c \<Rightarrow> 'w \<Rightarrow> go_error option \<times> 'w"
  ln_ctx_err :: "'w \<Rightarrow> go_error option"
  ln_is_op_error :: "go_error \<Rightarrow> bool"
  ln_sleep :: "duration \<Rightarrow> 'w \<Rightarrow> 'w"

text \<open>\<open>rc_filter\<close> is \<open>fmt.Sprintf\<close> with the configured user filter.\<close>

record real_config =
  rc_BaseDN :: string
  rc_filter :: "string \<Rightarrow> string"
  rc_Timeout :: duration
  rc_MaxRetries :: int
  rc_RetryBackoff :: duration

record ('c, 'w) real_ldap =
  rl_cfg :: real_config
  rl_pooled :: "'c option"
  rl_healthy :: bool
  rl_world :: 'w

definition NewReal :: "real_config \<Rightarrow> 'w \<Rightarrow> ('c, 'w) real_ldap" where
  "NewReal cfg w =
     (let cfg = (if rc_Timeout cfg \<le> 0 then cfg\<lparr>rc_Timeout := 5 * Second\<rparr> else cfg);
          cfg = (if rc_MaxRetries cfg < 0 then cfg\<lparr>rc_MaxRetries := 0\<rparr> else cfg);
          cfg = (if rc_RetryBackoff cfg \<le> 0 then cfg\<lparr>rc_RetryBackoff := 100 * Millisecond\<rparr> else cfg)
      in \<lparr>rl_cfg = cfg, rl_pooled = None, rl_healthy = True, rl_world = w\<rparr>)"

definition isTransient :: "('c, 'w) ldap_net \<Rightarrow> go_error \<Rightarrow> bool" where
  "isTransient net err \<longleftrightarrow>
     errors_Is err DeadlineExceeded \<or> errors_Is err Canceled \<or> ln_is_op_error net err"

text \<open>The error wraps the sentinel; the text of the cause, which follows it, is left out.\<close>

abbreviation unreachable :: go_error where
  "unreachable \<equiv> Wrapped '''' ErrServerUnreachable"

text \<open>\<open>left\<close> is the number of attempts that are left.\<close>

fun dial_loop :: "('c, 'w) ldap_net \<Rightarrow> duration \<Rightarrow> nat \<Rightarrow> 'w \<Rightarrow> 'c result \<times> 'w" where
  "dial_loop net backoff 0 w = (Inl unreachable, w)"
| "dial_loop net backoff (Suc left) w =
     (case ln_ctx_err net w of
        Some err \<Rightarrow> (Inl err, w)
      | None \<Rightarrow>
          (case ln_dial net w of
             (Inr conn, w) \<Rightarrow> (Inr conn, w)
           | (Inl err, w) \<Rightarrow>
               if \<not> isTransient net err then (Inl unreachable, w)
               else dial_loop net backoff left (if 0 < left then ln_sleep net backoff w else w)))"

definition dialWithRetry :: "('c, 'w) ldap_net \<Rightarrow> ('c, 'w) real_ldap \<Rightarrow> 'c result \<times> ('c, 'w) real_ldap" where
  "dialWithRetry net r =
     (case dial_loop net (rc_RetryBackoff (rl_cfg r)) (nat (1 + rc_MaxRetries (rl_cfg r))) (rl_world r) of
        (res, w) \<Rightarrow> (res, r\<lparr>rl_world := w\<rparr>))"

definition acquire :: "('c, 'w) ldap_net \<Rightarrow> ('c, 'w) real_ldap \<Rightarrow> 'c result \<times> ('c, 'w) real_ldap" where
  "acquire net r =
     (case rl_pooled r of
        Some c \<Rightarrow> (Inr c, r)
      | None \<Rightarrow>
          (case dialWithRetry net r of
             (Inl err, r) \<Rightarrow> (Inl err, r)
           | (Inr conn, r) \<Rightarrow> (Inr conn, r\<lparr>rl_pooled := Some conn\<rparr>)))"

definition invalidate :: "('c, 'w) ldap_net \<Rightarrow> ('c, 'w) real_ldap \<Rightarrow> ('c, 'w) real_ldap" where
  "invalidate net r =
     (case rl_pooled r of
        None \<Rightarrow> r
      | Some c \<Rightarrow> r\<lparr>rl_world := snd (ln_Close net c (rl_world r)), rl_pooled := None\<rparr>)"

definition Real_Authenticate ::
    "('c, 'w) ldap_net \<Rightarrow> string \<Rightarrow> string \<Rightarrow> ('c, 'w) real_ldap \<Rightarrow> ldap_identity result \<times> ('c, 'w) real_ldap" where
  "Real_Authenticate net username password r =
     (case ln_ctx_err net (rl_world r) of
        Some err \<Rightarrow> (Inl err, r)
      | None \<Rightarrow>
          (case acquire net r of
             (Inl err, r) \<Rightarrow> (Inl err, r)
           | (Inr conn, r) \<Rightarrow>
               (case ln_Bind net conn username password (rl_world r) of
                  (Some err, w) \<Rightarrow> (Inl (Wrapped ''ldap: bind: '' ErrInvalidCredentials), r\<lparr>rl_world := w\<rparr>)
                | (None, w) \<Rightarrow>
                    (case ln_SearchGroups net conn (rc_BaseDN (rl_cfg r)) (rc_filter (rl_cfg r) username) w of
                       (Inl err, w) \<Rightarrow> (Inl (Wrapped ''ldap: search groups: '' err), r\<lparr>rl_world := w\<rparr>)
                     | (Inr groups, w) \<Rightarrow>
                         (Inr \<lparr>id_Username = username, id_Email = '''', id_Groups = groups\<rparr>, r\<lparr>rl_world := w\<rparr>)))))"

definition Real_Ping :: "('c, 'w) ldap_net \<Rightarrow> ('c, 'w) real_ldap \<Rightarrow> go_error option \<times> ('c, 'w) real_ldap" where
  "Real_Ping net r =
     (case ln_ctx_err net (rl_world r) of
        Some err \<Rightarrow> (Some err, r)
      | None \<Rightarrow>
          (case dialWithRetry net r of
             (Inl err, r) \<Rightarrow> (Some err, r\<lparr>rl_healthy := False\<rparr>)
           | (Inr conn, r) \<Rightarrow>
               (None, r\<lparr>rl_world := snd (ln_Close net conn (rl_world r)), rl_healthy := True\<rparr>)))"

definition Real_HealthCheck :: "('c, 'w) ldap_net \<Rightarrow> ('c, 'w) real_ldap \<Rightarrow> go_error option \<times> ('c, 'w) real_ldap" where
  "Real_HealthCheck net r =
     (case Real_Ping net r of
        (Some err, r) \<Rightarrow> (Some (Wrapped ''ldap unhealthy: '' err), r) | (None, r) \<Rightarrow> (None, r))"

definition Real_Close :: "('c, 'w) ldap_net \<Rightarrow> ('c, 'w) real_ldap \<Rightarrow> go_error option \<times> ('c, 'w) real_ldap" where
  "Real_Close net r =
     (case rl_pooled r of
        None \<Rightarrow> (None, r)
      | Some c \<Rightarrow>
          (case ln_Close net c (rl_world r) of
             (err, w) \<Rightarrow> (err, r\<lparr>rl_world := w, rl_pooled := None\<rparr>)))"

definition real_client :: "('c, 'w) ldap_net \<Rightarrow> ('c, 'w) real_ldap ldap_client" where
  "real_client net = \<lparr>lc_Authenticate = Real_Authenticate net, lc_HealthCheck = Real_HealthCheck net\<rparr>"

text \<open>The connection of the build: the socket is closed by the first bind. The flag says that it is open.\<close>

definition tcp_Bind :: "bool \<Rightarrow> go_error option \<times> bool" where
  "tcp_Bind is_open = (Some (Wrapped '''' ErrServerUnreachable), False)"

definition tcp_SearchGroups :: "string list result" where
  "tcp_SearchGroups = Inl (Wrapped '''' ErrServerUnreachable)"

subsection \<open>The service\<close>

record rate_bucket =
  rb_fails :: int
  rb_firstTry :: time

record 'w ldap_service =
  ls_client :: "'w ldap_client"
  ls_maxFails :: int
  ls_window :: duration
  ls_groups :: "string \<Rightarrow> role option"

record 'w ldap_state =
  lt_buckets :: "string \<Rightarrow> rate_bucket option"
  lt_world :: 'w

definition defaultGroupRoleMap :: "string \<Rightarrow> role option" where
  "defaultGroupRoleMap =
     [''cn=IT_Ops,ou=Groups,dc=example,dc=com'' \<mapsto> RoleOperator,
      ''cn=DevTeam_Payments,ou=Groups,dc=example,dc=com'' \<mapsto> RoleDeveloper,
      ''cn=Security_Auditors,ou=Groups,dc=example,dc=com'' \<mapsto> RoleAuditor,
      ''cn=SRE_Lead,ou=Groups,dc=example,dc=com'' \<mapsto> RoleSuperAdmin]"

definition NewLdapService ::
    "'w ldap_client \<Rightarrow> int \<Rightarrow> duration \<Rightarrow> (string \<Rightarrow> role option) option \<Rightarrow> 'w \<Rightarrow> 'w ldap_service \<times> 'w ldap_state" where
  "NewLdapService client maxFails window groupMap w =
     (\<lparr>ls_client = client, ls_maxFails = (if maxFails \<le> 0 then 5 else maxFails),
       ls_window = (if window \<le> 0 then Minute else window),
       ls_groups = (case groupMap of None \<Rightarrow> defaultGroupRoleMap | Some m \<Rightarrow> m)\<rparr>,
      \<lparr>lt_buckets = Map.empty, lt_world = w\<rparr>)"

fun map_role_loop :: "(string \<Rightarrow> role option) \<Rightarrow> string list \<Rightarrow> role \<Rightarrow> role" where
  "map_role_loop m [] best = best"
| "map_role_loop m (g # gs) best =
     map_role_loop m gs
       (case m g of None \<Rightarrow> best | Some r \<Rightarrow> if Role_HasPermission r best then r else best)"

definition mapRole :: "'w ldap_service \<Rightarrow> string list \<Rightarrow> role" where
  "mapRole s groups = map_role_loop (ls_groups s) groups RoleProjectAdmin"

definition isInvalidCreds :: "go_error \<Rightarrow> bool" where
  "isInvalidCreds err \<longleftrightarrow> errors_Is err ErrInvalidCredentials"

definition translateClientError :: "go_error \<Rightarrow> go_error" where
  "translateClientError err =
     (if isInvalidCreds err then APIError CodeUnauthorized ''invalid username or password'' None
      else APIError CodeInternal ''authentication service is currently unavailable'' (Some err))"

definition deriveUserID :: "string \<Rightarrow> string" where
  "deriveUserID username = ''ldap:'' @ username"

text \<open>\<open>window_text\<close> is the \<open>String\<close> of the window.\<close>

definition checkRateLimit ::
    "'w ldap_service \<Rightarrow> (duration \<Rightarrow> string) \<Rightarrow> time \<Rightarrow> string \<Rightarrow> (string \<Rightarrow> rate_bucket option)
     \<Rightarrow> go_error option \<times> (string \<Rightarrow> rate_bucket option)" where
  "checkRateLimit s window_text now username bs =
     (case bs username of
        None \<Rightarrow> (None, bs)
      | Some b \<Rightarrow>
          if ls_window s < time_sub now (rb_firstTry b) then (None, bs(username := None))
          else if ls_maxFails s \<le> rb_fails b then
            (Some (APIError CodeRateLimited
                     (''too many failed attempts for user; try again in '' @ window_text (ls_window s)) None), bs)
          else (None, bs))"

definition recordFailure ::
    "'w ldap_service \<Rightarrow> time \<Rightarrow> time \<Rightarrow> string \<Rightarrow> (string \<Rightarrow> rate_bucket option) \<Rightarrow> (string \<Rightarrow> rate_bucket option)" where
  "recordFailure s now now' username bs =
     (case bs username of
        None \<Rightarrow> bs(username \<mapsto> \<lparr>rb_fails = 1, rb_firstTry = now'\<rparr>)
      | Some b \<Rightarrow>
          if ls_window s < time_sub now (rb_firstTry b)
          then bs(username \<mapsto> \<lparr>rb_fails = 1, rb_firstTry = now'\<rparr>)
          else bs(username \<mapsto> b\<lparr>rb_fails := rb_fails b + 1\<rparr>))"

definition recordSuccess :: "string \<Rightarrow> (string \<Rightarrow> rate_bucket option) \<Rightarrow> (string \<Rightarrow> rate_bucket option)" where
  "recordSuccess username bs = bs(username := None)"

text \<open>The clock is read by the check, by the test of the recorder, and when a bucket is made.\<close>

definition Ldap_Authenticate ::
    "'w ldap_service \<Rightarrow> (duration \<Rightarrow> string) \<Rightarrow> time \<times> time \<times> time \<Rightarrow> string \<Rightarrow> string \<Rightarrow> 'w ldap_state
     \<Rightarrow> user result \<times> 'w ldap_state" where
  "Ldap_Authenticate s window_text ts username password st =
     (if username = '''' \<or> password = '''' then (Inl (invalid ''username and password are required''), st)
      else
        (case checkRateLimit s window_text (fst ts) username (lt_buckets st) of
           (Some err, bs) \<Rightarrow> (Inl err, st\<lparr>lt_buckets := bs\<rparr>)
         | (None, bs) \<Rightarrow>
             (case lc_Authenticate (ls_client s) username password (lt_world st) of
                (Inl err, w) \<Rightarrow>
                  (Inl (translateClientError err),
                   \<lparr>lt_buckets = recordFailure s (fst (snd ts)) (snd (snd ts)) username bs, lt_world = w\<rparr>)
              | (Inr ident, w) \<Rightarrow>
                  (Inr \<lparr>user_ID = deriveUserID username, user_Username = id_Username ident,
                        user_Email = id_Email ident, user_Role = mapRole s (id_Groups ident), user_ProjectRole = ''''\<rparr>,
                   \<lparr>lt_buckets = recordSuccess username bs, lt_world = w\<rparr>))))"

definition Ldap_HealthCheck :: "'w ldap_service \<Rightarrow> 'w ldap_state \<Rightarrow> go_error option \<times> 'w ldap_state" where
  "Ldap_HealthCheck s st =
     (case lc_HealthCheck (ls_client s) (lt_world st) of (e, w) \<Rightarrow> (e, st\<lparr>lt_world := w\<rparr>))"

subsection \<open>The handlers\<close>

text \<open>Seconds times a second, in 64 bits.\<close>

definition secondsToDuration :: "int64 \<Rightarrow> duration" where
  "secondsToDuration s = (if s \<le>s 0 then Hour else sint (s * word_of_int Second))"

record 'w login_handler =
  lh_svc :: "'w ldap_service"
  lh_signer :: signer
  lh_ttl :: int64

text \<open>\<open>None\<close> is the panic on an empty secret.\<close>

definition NewLoginHandler :: "'w ldap_service \<Rightarrow> string \<Rightarrow> int64 \<Rightarrow> 'w login_handler option" where
  "NewLoginHandler svc secret ttl =
     (case NewSigner secret (secondsToDuration ttl) of
        Inl _ \<Rightarrow> None
      | Inr sg \<Rightarrow> Some \<lparr>lh_svc = svc, lh_signer = sg, lh_ttl = ttl\<rparr>)"

record login_request =
  lg_Username :: string
  lg_Password :: string

record login_response =
  lp_Token :: string
  lp_TokenType :: string
  lp_ExpiresAt :: int
  lp_Username :: string
  lp_Email :: string
  lp_Role :: string

definition writeServiceError :: "go_error \<Rightarrow> 'a response" where
  "writeServiceError err =
     (case errors_As_API err of
        None \<Rightarrow> reject CodeInternal ''internal server error''
      | Some (c, m) \<Rightarrow> reject c m)"

text \<open>A body that is not JSON of the shape is \<open>None\<close>; \<open>issued\<close> is the time of the issue.\<close>

definition Login ::
    "jwt_lib \<Rightarrow> 'w login_handler \<Rightarrow> (duration \<Rightarrow> string) \<Rightarrow> time \<times> time \<times> time \<Rightarrow> time \<Rightarrow> login_request option
     \<Rightarrow> 'w ldap_state \<Rightarrow> login_response response \<times> 'w ldap_state" where
  "Login J h window_text ts issued body st =
     (case body of
        None \<Rightarrow> (reject CodeValidation ''request body must be JSON with username and password'', st)
      | Some req \<Rightarrow>
          if lg_Username req = '''' \<or> lg_Password req = '''' then
            (reject CodeValidation ''username and password are required'', st)
          else
            (case Ldap_Authenticate (lh_svc h) window_text ts (lg_Username req) (lg_Password req) st of
               (Inl err, st) \<Rightarrow> (writeServiceError err, st)
             | (Inr u, st) \<Rightarrow>
                 (case Issue J (lh_signer h) issued u of
                    Inl err \<Rightarrow> (reject CodeInternal ''failed to issue session token'', st)
                  | Inr (tok, expiry) \<Rightarrow>
                      (Body 200 \<lparr>lp_Token = tok, lp_TokenType = ''Bearer'', lp_ExpiresAt = expiry,
                         lp_Username = user_Username u, lp_Email = user_Email u, lp_Role = user_Role u\<rparr>, st))))"

definition Ldap_Health :: "'w login_handler \<Rightarrow> 'w ldap_state \<Rightarrow> unit response \<times> 'w ldap_state" where
  "Ldap_Health h st =
     (case Ldap_HealthCheck (lh_svc h) st of
        (Some err, st) \<Rightarrow> (ErrorBody 503 CodeInternal ''ldap backend is unhealthy'', st)
      | (None, st) \<Rightarrow> (Body 200 (), st))"

end
