(* ===== verification/Ldap_Facts.thy ===== *)
theory Ldap_Facts
  imports Ldap
begin

text \<open>
  Logging in. The role of a user is the highest the groups give; a token that a login issued opens a session
  until it expires and not after; the number of passwords that can be tried in any stretch of time as
  long as the window is bounded, though by twice the configured number; a pooled connection that has died
  refuses everybody from then on.
\<close>

subsection \<open>Roles\<close>

lemma map_role_loop_spec:
  "roleRank (map_role_loop m gs best) = Max (insert (roleRank best) {roleRank r | r. \<exists>g\<in>set gs. m g = Some r})
   \<and> (map_role_loop m gs best = best \<or> (\<exists>g\<in>set gs. m g = Some (map_role_loop m gs best)))"
proof (induction gs arbitrary: best)
  case (Cons g gs)
  define b where "b = (case m g of None \<Rightarrow> best | Some r \<Rightarrow> if Role_HasPermission r best then r else best)"
  define R where "R xs = {roleRank r | r. \<exists>g\<in>set xs. m g = Some r}" for xs
  have fin: "finite (R xs)" for xs
    by (rule finite_subset [of _ "(\<lambda>g. case m g of None \<Rightarrow> 0 | Some r \<Rightarrow> roleRank r) ` set xs"]) (force simp: R_def)+
  have R: "R (g # gs) = (case m g of None \<Rightarrow> {} | Some r \<Rightarrow> {roleRank r}) \<union> R gs"
    by (auto simp: R_def split: option.splits)
  have rb: "roleRank b = Max (insert (roleRank best) (case m g of None \<Rightarrow> {} | Some r \<Rightarrow> {roleRank r}))"
    by (auto simp: b_def Role_HasPermission_def split: option.splits)
  have "Max (insert (roleRank b) (R gs)) = Max (insert (roleRank best) (R (g # gs)))"
    unfolding R rb using fin [of gs] by (cases "m g"; cases "R gs = {}") (simp_all add: max.assoc)
  moreover have "b = best \<or> m g = Some b" by (auto simp: b_def split: option.splits)
  ultimately show ?case using Cons.IH [of b] by (auto simp: b_def [symmetric] R_def)
qed simp

lemma mapRole_highest:
  "roleRank (mapRole s gs) = Max (insert 0 {roleRank r | r. \<exists>g\<in>set gs. ls_groups s g = Some r})
   \<and> (mapRole s gs = RoleProjectAdmin \<or> (\<exists>g\<in>set gs. ls_groups s g = Some (mapRole s gs)))"
  using map_role_loop_spec [of "ls_groups s" gs RoleProjectAdmin]
  by (simp add: mapRole_def roleRank_def [of RoleProjectAdmin])

text \<open>The unranked role of the scoped auditors is below the role of those without a group: it is never given.\<close>

lemma scoped_auditors_get_nothing:
  assumes "\<And>g r. g \<in> set gs \<Longrightarrow> ls_groups s g = Some r \<Longrightarrow> r = RoleScopedAuditor"
  shows "mapRole s gs = RoleProjectAdmin"
proof -
  have "map_role_loop (ls_groups s) gs RoleProjectAdmin = RoleProjectAdmin"
    using assms
  proof (induction gs)
    case (Cons g gs)
    have "\<not> Role_HasPermission RoleScopedAuditor RoleProjectAdmin"
      by (simp add: Role_HasPermission_def roleRank_def)
    with Cons.prems [of g] Cons show ?case by (auto split: option.splits)
  qed simp
  then show ?thesis by (simp add: mapRole_def)
qed

subsection \<open>Sessions\<close>

text \<open>
  What the library documents of one token: before it expires parsing gives its claims, as they come out of
  JSON, and at no time does it give others.
\<close>

definition reads_back :: "jwt_lib \<Rightarrow> signer \<Rightarrow> map_claims \<Rightarrow> string \<Rightarrow> bool" where
  "reads_back J sg mc tok \<longleftrightarrow>
     (\<forall>t. (Unix t < int_claim (through_json mc) ''exp'' \<longrightarrow> jl_Parse J (key_func sg) t tok = Inr (through_json mc, True))
        \<and> (\<forall>mc' ok. jl_Parse J (key_func sg) t tok = Inr (mc', ok) \<longrightarrow> mc' = through_json mc))"

lemma extractBearer_Bearer: "extractBearer (''Bearer '' @ tok) = TrimSpace tok"
proof -
  have "index_char CHR '' '' (''Bearer'' @ CHR '' '' # tok) = Some 6"
    by (subst index_char_append) simp_all
  moreover have "TrimSpace ''Bearer'' = ''Bearer''" "ToLower ''Bearer'' = ''bearer''" by (code_simp, code_simp)
  ultimately show ?thesis by (simp add: extractBearer_def)
qed

text \<open>
  C32: a login opens a session. When the login handler answers 200, the client has accepted the password, and
  a request that carries the token it returned, as a bearer token, runs as the LDAP user with the role
  shown in the answer, the highest role the user's groups map to, at every instant before the
  expiry shown in the answer and at none from then on.
\<close>

theorem login_opens_a_session:
  assumes "Login J h window_text ts issued (Some req) st = (Body 200 lr, st')"
    and "\<And>u. jl_SignedString J (sg_secret (lh_signer h)) (issue_claims (lh_signer h) issued u) = Inr (lp_Token lr)
          \<Longrightarrow> reads_back J (lh_signer h) (issue_claims (lh_signer h) issued u) (lp_Token lr)"
    and "ac_Signer cfg = Some (lh_signer h)" "header ''X-User'' = ''''"
    and "header ''Authorization'' = ''Bearer '' @ lp_Token lr" "TrimSpace (lp_Token lr) = lp_Token lr" "lp_Token lr \<noteq> ''''"
  shows "\<exists>ident w. lc_Authenticate (ls_client (lh_svc h)) (lg_Username req) (lg_Password req) (lt_world st) = (Inr ident, w)
    \<and> lp_Username lr = id_Username ident
    \<and> roleRank (lp_Role lr) = Max (insert 0 {roleRank r | r. \<exists>g\<in>set (id_Groups ident). ls_groups (lh_svc h) g = Some r})
    \<and> (lp_Role lr = RoleProjectAdmin \<or> (\<exists>g\<in>set (id_Groups ident). ls_groups (lh_svc h) g = Some (lp_Role lr)))
    \<and> (\<forall>now. Unix now < lp_ExpiresAt lr \<longrightarrow>
         RequireAuth J cfg now header
           = (Next, stamp_user \<lparr>user_ID = ''ldap:'' @ lg_Username req, user_Username = lp_Username lr,
                user_Email = '''', user_Role = lp_Role lr, user_ProjectRole = ''''\<rparr>))
    \<and> (\<forall>now r. lp_ExpiresAt lr \<le> Unix now \<longrightarrow> RequireAuth J cfg now header \<noteq> (Next, r))"
proof -
  from assms(1) obtain u where a: "Ldap_Authenticate (lh_svc h) window_text ts (lg_Username req) (lg_Password req) st = (Inr u, st')"
    and i: "Issue J (lh_signer h) issued u = Inr (lp_Token lr, lp_ExpiresAt lr)"
    and l: "lp_Username lr = user_Username u" "lp_Role lr = user_Role u"
    by (auto simp: Login_def writeServiceError_def split: if_splits prod.splits sum.splits option.splits)
  from a obtain ident w where
    c: "lc_Authenticate (ls_client (lh_svc h)) (lg_Username req) (lg_Password req) (lt_world st) = (Inr ident, w)"
    and u: "user_ID u = ''ldap:'' @ lg_Username req" "user_Username u = id_Username ident"
      "user_Role u = mapRole (lh_svc h) (id_Groups ident)"
    by (auto simp: Ldap_Authenticate_def deriveUserID_def split: if_splits prod.splits option.splits sum.splits)
  define mc where "mc = issue_claims (lh_signer h) issued u"
  from i have s: "jl_SignedString J (sg_secret (lh_signer h)) mc = Inr (lp_Token lr)"
    and x: "lp_ExpiresAt lr = int_claim (through_json mc) ''exp''"
    by (auto simp: Issue_def mc_def issue_claims_read split: sum.splits)
  from assms(2) [of u] s have rb: "reads_back J (lh_signer h) mc (lp_Token lr)" by (simp add: mc_def)
  have e: "extractBearer (header ''Authorization'') = lp_Token lr" unfolding assms(5) extractBearer_Bearer by (rule assms(6))
  have d: "decoded_claims (through_json mc) = \<lparr>jwt_UserID = user_ID u, jwt_Username = user_Username u,
      jwt_Role = user_Role u, jwt_ExpiresAt = lp_ExpiresAt lr\<rparr>"
    by (simp add: decoded_claims_def x) (simp add: mc_def issue_claims_read)
  have "RequireAuth J cfg now header
      = (Next, stamp_user \<lparr>user_ID = ''ldap:'' @ lg_Username req, user_Username = lp_Username lr,
           user_Email = '''', user_Role = lp_Role lr, user_ProjectRole = ''''\<rparr>)" if "Unix now < lp_ExpiresAt lr" for now
  proof -
    from rb that have "jl_Parse J (key_func (lh_signer h)) now (lp_Token lr) = Inr (through_json mc, True)"
      by (simp add: reads_back_def x)
    with that have "Verify J (lh_signer h) now (lp_Token lr) = Inr (decoded_claims (through_json mc))"
      by (simp add: Verify_Inr d)
    then show ?thesis using assms(3,4,7) u l by (simp add: RequireAuth_def authenticate_def e d)
  qed
  moreover have "RequireAuth J cfg now header \<noteq> (Next, r)" if "lp_ExpiresAt lr \<le> Unix now" for now r
  proof
    assume "RequireAuth J cfg now header = (Next, r)"
    then obtain cl where "Verify J (lh_signer h) now (lp_Token lr) = Inr cl"
      using assms(3,4,7) by (auto simp: RequireAuth_def authenticate_def e Let_def split: auth_outcome.splits if_splits sum.splits)
    then obtain mc' where "jl_Parse J (key_func (lh_signer h)) now (lp_Token lr) = Inr (mc', True)"
      "Unix now < jwt_ExpiresAt (decoded_claims mc')" unfolding Verify_Inr by blast
    moreover from rb this(1) have "mc' = through_json mc" unfolding reads_back_def by blast
    ultimately show False using that d by simp
  qed
  ultimately show ?thesis using c u l mapRole_highest [of "lh_svc h" "id_Groups ident"] by auto
qed

subsection \<open>The limiter of failed logins\<close>

record login_attempt =
  la_user :: string
  la_password :: string
  la_check :: time
  la_test :: time
  la_mark :: time

definition attempt_step :: "'w ldap_service \<Rightarrow> (duration \<Rightarrow> string) \<Rightarrow> login_attempt \<Rightarrow> 'w ldap_state \<Rightarrow> 'w ldap_state" where
  "attempt_step s wt a st =
     snd (Ldap_Authenticate s wt (la_check a, la_test a, la_mark a) (la_user a) (la_password a) st)"

text \<open>The attempt gets past the checks: its password is tried on the server.\<close>

definition reaches_server :: "'w ldap_service \<Rightarrow> (duration \<Rightarrow> string) \<Rightarrow> login_attempt \<Rightarrow> 'w ldap_state \<Rightarrow> bool" where
  "reaches_server s wt a st \<longleftrightarrow> la_user a \<noteq> '''' \<and> la_password a \<noteq> ''''
     \<and> fst (checkRateLimit s wt (la_check a) (la_user a) (lt_buckets st)) = None"

text \<open>The passwords of \<open>u\<close> that are tried during one window that starts at \<open>A\<close>.\<close>

definition counts :: "'w ldap_service \<Rightarrow> (duration \<Rightarrow> string) \<Rightarrow> string \<Rightarrow> time \<Rightarrow> login_attempt \<Rightarrow> 'w ldap_state \<Rightarrow> bool" where
  "counts s wt u A a st \<longleftrightarrow> la_user a = u \<and> reaches_server s wt a st
     \<and> A \<le> la_check a \<and> nanos (la_check a) \<le> nanos A + ls_window s"

fun tried :: "'w ldap_service \<Rightarrow> (duration \<Rightarrow> string) \<Rightarrow> string \<Rightarrow> time \<Rightarrow> login_attempt list \<Rightarrow> 'w ldap_state \<Rightarrow> nat" where
  "tried s wt u A [] st = 0"
| "tried s wt u A (a # as) st = (if counts s wt u A a st then 1 else 0) + tried s wt u A as (attempt_step s wt a st)"

text \<open>One after the other, on a clock that does not go back.\<close>

fun in_turn :: "time \<Rightarrow> login_attempt list \<Rightarrow> bool" where
  "in_turn t [] \<longleftrightarrow> True"
| "in_turn t (a # as) \<longleftrightarrow> t \<le> la_check a \<and> la_check a \<le> la_test a \<and> la_test a \<le> la_mark a \<and> in_turn (la_mark a) as"

text \<open>How many more passwords can be tried: a bound that every attempt keeps paying for.\<close>

definition budget :: "'w ldap_service \<Rightarrow> time \<Rightarrow> time \<Rightarrow> rate_bucket option \<Rightarrow> int" where
  "budget s A t b =
     (if nanos A + ls_window s < nanos t then 0
      else case b of
        None \<Rightarrow> 2 * ls_maxFails s - 1
      | Some b \<Rightarrow>
          if A \<le> rb_firstTry b then ls_maxFails s - rb_fails b
          else if t < A then 2 * ls_maxFails s - 1
          else 2 * ls_maxFails s - rb_fails b)"

definition bucket_ok :: "'w ldap_service \<Rightarrow> rate_bucket option \<Rightarrow> bool" where
  "bucket_ok s b = (case b of None \<Rightarrow> True | Some b \<Rightarrow> 1 \<le> rb_fails b \<and> rb_fails b \<le> ls_maxFails s)"

lemma expired: "0 \<le> w \<Longrightarrow> w < max_int64 \<Longrightarrow> w < time_sub t u \<longleftrightarrow> nanos u + w < nanos t"
  by (auto simp: time_sub_def)

lemma budget_nonneg: "bucket_ok s b \<Longrightarrow> 0 < ls_maxFails s \<Longrightarrow> 0 \<le> budget s A t b"
  by (auto simp: budget_def bucket_ok_def split: option.splits)

lemma budget_anti: "bucket_ok s b \<Longrightarrow> 0 < ls_maxFails s \<Longrightarrow> t \<le> t' \<Longrightarrow> budget s A t' b \<le> budget s A t b"
  by (auto simp: budget_def bucket_ok_def less_eq_time_def less_time_def split: option.splits)

lemma attempt_step_other: "la_user a \<noteq> u \<Longrightarrow> lt_buckets (attempt_step s wt a st) u = lt_buckets st u"
  by (auto simp: attempt_step_def Ldap_Authenticate_def checkRateLimit_def recordFailure_def recordSuccess_def
    split: prod.splits option.splits sum.splits if_splits)

text \<open>A set of states of the server in which it refuses every password of \<open>u\<close>, and which no request leaves.\<close>

definition refuses :: "'w ldap_client \<Rightarrow> string \<Rightarrow> 'w set \<Rightarrow> bool" where
  "refuses client u W \<longleftrightarrow>
     (\<forall>v p. \<forall>w\<in>W. snd (lc_Authenticate client v p w) \<in> W \<and> (v = u \<longrightarrow> (\<exists>err. fst (lc_Authenticate client v p w) = Inl err)))"

lemma attempt_step_stays:
  "refuses (ls_client s) u W \<Longrightarrow> lt_world st \<in> W \<Longrightarrow> lt_world (attempt_step s wt a st) \<in> W"
  unfolding attempt_step_def Ldap_Authenticate_def refuses_def
  by (auto split: prod.splits option.splits sum.splits) (metis snd_conv)+

text \<open>One refused attempt, on the bucket of its user alone.\<close>

lemma attempt_step_refused:
  assumes "refuses (ls_client s) u W" "lt_world st \<in> W" "la_user a = u"
  shows "lt_buckets (attempt_step s wt a st) u =
    (if la_user a = '''' \<or> la_password a = '''' then lt_buckets st u
     else case lt_buckets st u of
       None \<Rightarrow> Some \<lparr>rb_fails = 1, rb_firstTry = la_mark a\<rparr>
     | Some b \<Rightarrow>
         if ls_window s < time_sub (la_check a) (rb_firstTry b) then Some \<lparr>rb_fails = 1, rb_firstTry = la_mark a\<rparr>
         else if ls_maxFails s \<le> rb_fails b then Some b
         else if ls_window s < time_sub (la_test a) (rb_firstTry b) then Some \<lparr>rb_fails = 1, rb_firstTry = la_mark a\<rparr>
         else Some (b\<lparr>rb_fails := rb_fails b + 1\<rparr>))"
proof -
  obtain err w' where "lc_Authenticate (ls_client s) u (la_password a) (lt_world st) = (Inl err, w')"
    using assms(1,2) unfolding refuses_def by (metis prod.collapse)
  then show ?thesis using assms(3)
    by (simp add: attempt_step_def Ldap_Authenticate_def checkRateLimit_def recordFailure_def split: option.splits)
qed

lemma attempt_pays:
  assumes "refuses (ls_client s) u W" "lt_world st \<in> W" "la_user a = u"
    and w: "0 \<le> ls_window s" "ls_window s < max_int64" and m: "0 < ls_maxFails s" and ok: "bucket_ok s (lt_buckets st u)"
    and t: "t \<le> la_check a" "la_check a \<le> la_test a" "la_test a \<le> la_mark a"
  shows "bucket_ok s (lt_buckets (attempt_step s wt a st) u)"
    and "(if counts s wt u A a st then 1 else 0) + budget s A (la_mark a) (lt_buckets (attempt_step s wt a st) u)
      \<le> budget s A t (lt_buckets st u)"
proof -
  note step = attempt_step_refused [OF assms(1-3), of wt]
  show "bucket_ok s (lt_buckets (attempt_step s wt a st) u)"
    using ok m by (auto simp: step bucket_ok_def split: option.splits)
  show "(if counts s wt u A a st then 1 else 0) + budget s A (la_mark a) (lt_buckets (attempt_step s wt a st) u)
      \<le> budget s A t (lt_buckets st u)"
  proof (cases "lt_buckets st u")
    case None
    then show ?thesis using w m t assms(3)
      by (auto simp: step counts_def reaches_server_def checkRateLimit_def budget_def less_eq_time_def less_time_def)
  next
    case (Some b)
    have f: "1 \<le> rb_fails b" "rb_fails b \<le> ls_maxFails s" using ok Some by (simp_all add: bucket_ok_def)
    show ?thesis using Some f w m t assms(3)
      by (auto simp: step counts_def reaches_server_def checkRateLimit_def budget_def less_eq_time_def less_time_def
        expired [OF w])
  qed
qed

lemma tried_within_budget:
  assumes "refuses (ls_client s) u W"
    and "0 \<le> ls_window s" "ls_window s < max_int64" "0 < ls_maxFails s" "bucket_ok s (lt_buckets st u)" "lt_world st \<in> W" "in_turn t as"
  shows "int (tried s wt u A as st) \<le> budget s A t (lt_buckets st u)"
  using assms(5-7)
proof (induction as arbitrary: st t)
  case Nil
  then show ?case using budget_nonneg assms(4) by simp
next
  case (Cons a as)
  then have t: "t \<le> la_check a" "la_check a \<le> la_test a" "la_test a \<le> la_mark a" "in_turn (la_mark a) as" by simp_all
  have st: "lt_world st \<in> W" using Cons.prems by simp
  note st' = attempt_step_stays [OF assms(1) st, of wt a]
  show ?case
  proof (cases "la_user a = u")
    case True
    note pay = attempt_pays [OF assms(1) st True assms(2-4) Cons.prems(1) t(1-3), of wt]
    show ?thesis using Cons.IH [OF pay(1) st' t(4)] pay(2) [of A] by (simp split: if_splits)
  next
    case False
    then have e: "lt_buckets (attempt_step s wt a st) u = lt_buckets st u" by (rule attempt_step_other)
    with Cons.prems(1) have ok: "bucket_ok s (lt_buckets (attempt_step s wt a st) u)" by simp
    have "budget s A (la_mark a) (lt_buckets st u) \<le> budget s A t (lt_buckets st u)"
      using budget_anti Cons.prems(1) assms(4) t order_trans by metis
    with Cons.IH [OF ok st' t(4)] False e show ?thesis by (simp add: counts_def)
  qed
qed

text \<open>
  C33: password guessing is bounded. From a fresh service, whatever attempts of whatever users come one
  after the other, if the server refuses every password of a user then fewer than twice the configured number of
  that user's passwords are tried on the server within any stretch of time as long as the window.
\<close>

theorem failed_logins_bounded:
  assumes "NewLdapService client mf window gm w0 = (s, st0)" "window < max_int64"
    and "refuses client u W" "w0 \<in> W" "in_turn t as"
  shows "int (tried s wt u A as st0) < 2 * ls_maxFails s"
proof -
  have s: "ls_client s = client" "lt_world st0 = w0" "0 \<le> ls_window s" "ls_window s < max_int64" "0 < ls_maxFails s" "lt_buckets st0 = Map.empty"
    using assms(1,2) by (auto simp: NewLdapService_def)
  have "int (tried s wt u A as st0) \<le> budget s A t (lt_buckets st0 u)"
    by (rule tried_within_budget [where W = W, OF _ s(3-5) _ _ assms(5)]) (simp_all add: s assms(3,4) bucket_ok_def)
  also have "\<dots> < 2 * ls_maxFails s" using s(5) by (simp add: budget_def s)
  finally show ?thesis .
qed

text \<open>
  With two failures allowed in a minute, three passwords are tried within one minute: at the 50th, the
  61st and the 62nd second after the first failure.
\<close>

definition guess_at :: "int \<Rightarrow> login_attempt" where
  "guess_at n = \<lparr>la_user = ''bob'', la_password = ''guess'', la_check = Time (n * Second), la_test = Time (n * Second),
     la_mark = Time (n * Second)\<rparr>"

definition bob_guessed :: "fake_ldap ldap_service \<times> fake_ldap ldap_state" where
  "bob_guessed = NewLdapService fake_client 2 Minute None Ldap_NewFake"

theorem failed_logins_bounded_witness:
  "tried (fst bob_guessed) (\<lambda>_. '''') ''bob'' (Time (50 * Second)) (map guess_at [0, 50, 55, 61, 62, 63]) (snd bob_guessed) = 3
   \<and> int (tried (fst bob_guessed) (\<lambda>_. '''') ''bob'' (Time (50 * Second)) (map guess_at [0, 50, 55, 61, 62, 63]) (snd bob_guessed))
       < 2 * ls_maxFails (fst bob_guessed)"
proof -
  have t: "in_turn (Time 0) (map guess_at [0, 50, 55, 61, 62, 63])" by (simp add: guess_at_def less_eq_time_def)
  have "int (tried (fst bob_guessed) (\<lambda>_. '''') ''bob'' (Time (50 * Second)) (map guess_at [0, 50, 55, 61, 62, 63]) (snd bob_guessed))
      < 2 * ls_maxFails (fst bob_guessed)"
    by (rule failed_logins_bounded [where W = "{Ldap_NewFake}", OF _ _ _ _ t, of fake_client 2 Minute None Ldap_NewFake])
      (auto simp: bob_guessed_def fake_client_def Fake_Authenticate_def Ldap_NewFake_def refuses_def)
  moreover have "tried (fst bob_guessed) (\<lambda>_. '''') ''bob'' (Time (50 * Second)) (map guess_at [0, 50, 55, 61, 62, 63]) (snd bob_guessed) = 3"
    by (simp add: bob_guessed_def NewLdapService_def fake_client_def Fake_Authenticate_def Ldap_NewFake_def guess_at_def
      counts_def reaches_server_def attempt_step_def Ldap_Authenticate_def checkRateLimit_def recordFailure_def
      less_eq_time_def time_sub_def)
  ultimately show ?thesis by simp
qed

text \<open>One user, who is a developer and a lead; the token of his login at time 0.\<close>

definition lead_groups :: "string list" where
  "lead_groups = [''cn=DevTeam_Payments,ou=Groups,dc=example,dc=com'', ''cn=SRE_Lead,ou=Groups,dc=example,dc=com'']"

definition lead_user :: user where
  "lead_user = \<lparr>user_ID = ''ldap:lea'', user_Username = ''lea'', user_Email = '''', user_Role = RoleSuperAdmin,
     user_ProjectRole = ''''\<rparr>"

definition lead_login :: "fake_ldap login_handler \<times> fake_ldap ldap_state" where
  "lead_login =
     (case NewLdapService fake_client 0 0 None (AddUser ''lea'' ''pw'' '''' lead_groups Ldap_NewFake) of
        (s, st) \<Rightarrow> (\<lparr>lh_svc = s, lh_signer = demo_signer, lh_ttl = 0\<rparr>, st))"

definition lead_lib :: jwt_lib where
  "lead_lib = one_token (issue_claims demo_signer (Time 0) lead_user)"

lemma lead_logs_in:
  "Login lead_lib (fst lead_login) wt (Time 0, Time 0, Time 0) (Time 0) (Some \<lparr>lg_Username = ''lea'', lg_Password = ''pw''\<rparr>) (snd lead_login)
     = (Body 200 \<lparr>lp_Token = ''tok'', lp_TokenType = ''Bearer'', lp_ExpiresAt = 3600, lp_Username = ''lea'', lp_Email = '''',
          lp_Role = RoleSuperAdmin\<rparr>, snd lead_login)"
  by (simp add: Login_def lead_login_def NewLdapService_def Ldap_Authenticate_def checkRateLimit_def fake_client_def
    Fake_Authenticate_def AddUser_def Ldap_NewFake_def lead_groups_def mapRole_def defaultGroupRoleMap_def Role_HasPermission_def
    roleRank_def deriveUserID_def recordSuccess_def Issue_def lead_lib_def one_token_def demo_signer_def Unix_def time_add_def
    lead_user_def fun_upd_idem)

theorem login_opens_a_session_witness:
  "fst (RequireAuth lead_lib demo_auth (Time (3599 * Second)) (bearer_header ''tok'')) = Next
   \<and> (\<forall>r. RequireAuth lead_lib demo_auth (Time (3600 * Second)) (bearer_header ''tok'') \<noteq> (Next, r))"
proof -
  have sg: "lh_signer (fst lead_login) = demo_signer" by (simp add: lead_login_def NewLdapService_def)
  have rb: "reads_back lead_lib demo_signer (issue_claims demo_signer (Time 0) u) ''tok''"
    if "jl_SignedString lead_lib x (issue_claims demo_signer (Time 0) u) = Inr ''tok''" for u x
    using that by (auto simp: reads_back_def lead_lib_def one_token_def key_func_def split: if_splits)
  have t: "TrimSpace ''tok'' = ''tok''" by code_simp
  show ?thesis
    using login_opens_a_session [OF lead_logs_in [where wt = "\<lambda>_. ''''"], of demo_auth "bearer_header ''tok''"] rb t
    by (auto simp: sg demo_auth_def bearer_header_def Unix_def)
qed

subsection \<open>A connection that has died\<close>

definition binds_fail :: "('c, 'w) ldap_net \<Rightarrow> 'c \<Rightarrow> bool" where
  "binds_fail net c \<longleftrightarrow> (\<forall>u p w. fst (ln_Bind net c u p w) \<noteq> None)"

text \<open>The pooled connection refuses to bind, or there is none and every new one will.\<close>

definition stuck :: "('c, 'w) ldap_net \<Rightarrow> ('c, 'w) real_ldap \<Rightarrow> bool" where
  "stuck net r \<longleftrightarrow> (case rl_pooled r of Some c \<Rightarrow> binds_fail net c | None \<Rightarrow> \<forall>c. binds_fail net c)"

lemma dialWithRetry_pooled: "dialWithRetry net r = (res, r') \<Longrightarrow> rl_pooled r' = rl_pooled r"
  by (auto simp: dialWithRetry_def split: prod.splits)

lemma acquire_stuck: "stuck net r \<Longrightarrow> acquire net r = (res, r') \<Longrightarrow> stuck net r' \<and> (\<forall>c. res = Inr c \<longrightarrow> binds_fail net c)"
  by (auto simp: acquire_def stuck_def dest: dialWithRetry_pooled split: option.splits prod.splits sum.splits)

lemma Real_Authenticate_stuck:
  assumes "stuck net r" "Real_Authenticate net u p r = (res, r')"
  shows "stuck net r' \<and> (\<exists>err. res = Inl err)"
proof (cases "ln_ctx_err net (rl_world r)")
  case None
  obtain a r1 where a: "acquire net r = (a, r1)" by fastforce
  note st = acquire_stuck [OF assms(1) a]
  have s: "stuck net (r1\<lparr>rl_world := w\<rparr>)" for w using st by (simp add: stuck_def)
  show ?thesis
  proof (cases a)
    case (Inr c)
    with st have "fst (ln_Bind net c u p (rl_world r1)) \<noteq> None" by (auto simp: binds_fail_def)
    then show ?thesis using assms(2) None a Inr s by (auto simp: Real_Authenticate_def split: prod.splits option.splits)
  qed (use assms None a st in \<open>auto simp: Real_Authenticate_def\<close>)
qed (use assms in \<open>auto simp: Real_Authenticate_def\<close>)

lemma Real_HealthCheck_stuck: "stuck net r \<Longrightarrow> Real_HealthCheck net r = (e, r') \<Longrightarrow> stuck net r'"
  by (auto simp: Real_HealthCheck_def Real_Ping_def stuck_def dest: dialWithRetry_pooled
    split: option.splits prod.splits sum.splits)

datatype ldap_request =
  LoginRequest "time \<times> time \<times> time" time "login_request option"
| HealthRequest

fun ldap_request_step :: "jwt_lib \<Rightarrow> 'w login_handler \<Rightarrow> (duration \<Rightarrow> string) \<Rightarrow> ldap_request \<Rightarrow> 'w ldap_state \<Rightarrow> 'w ldap_state" where
  "ldap_request_step J h wt (LoginRequest ts t b) st = snd (Login J h wt ts t b st)"
| "ldap_request_step J h wt HealthRequest st = snd (Ldap_Health h st)"

lemma Login_stuck:
  assumes "ls_client (lh_svc h) = real_client net" "stuck net (lt_world st)" "Login J h wt ts t b st = (resp, st')"
  shows "stuck net (lt_world st') \<and> (\<forall>n lr. resp \<noteq> Body n lr)"
proof -
  have "stuck net (snd (Real_Authenticate net u p (lt_world st))) \<and> (\<exists>err. fst (Real_Authenticate net u p (lt_world st)) = Inl err)" for u p
    using Real_Authenticate_stuck [OF assms(2), of u p] by (metis prod.collapse)
  then have "\<exists>err r'. Real_Authenticate net u p (lt_world st) = (Inl err, r') \<and> stuck net r'" for u p
    by (metis prod.collapse)
  then obtain err r' where "\<And>u p. Real_Authenticate net u p (lt_world st) = (Inl (err u p), r' u p)" "\<And>u p. stuck net (r' u p)"
    by metis
  then show ?thesis using assms
    by (auto simp: Login_def Ldap_Authenticate_def real_client_def writeServiceError_def
      split: option.splits prod.splits sum.splits if_splits)
qed

lemma Ldap_Health_stuck:
  assumes "ls_client (lh_svc h) = real_client net" "stuck net (lt_world st)"
  shows "stuck net (lt_world (snd (Ldap_Health h st)))"
  using assms by (auto simp: Ldap_Health_def Ldap_HealthCheck_def real_client_def dest: Real_HealthCheck_stuck
    split: option.splits prod.splits)

text \<open>
  C34: a pooled connection that has died refuses everybody from then on. Once the client of a server holds
  a connection on which every bind fails, or while every connection there is does (as those of the
  build do), no sequence of logins and probes changes that, and no login is answered with a token,
  whatever the server would say on a new connection.
\<close>

theorem dead_connection_refuses_everyone:
  assumes "ls_client (lh_svc h) = real_client net"
    and "case rl_pooled (lt_world st) of Some c \<Rightarrow> binds_fail net c | None \<Rightarrow> \<forall>c. binds_fail net c"
    and "Login J h wt ts t b (fold (ldap_request_step J h wt) rs st) = (resp, st')"
  shows "resp \<noteq> Body n lr"
proof -
  have "stuck net (lt_world (fold (ldap_request_step J h wt) rs st))"
    using assms(2) [folded stuck_def]
  proof (induction rs arbitrary: st)
    case (Cons q rs)
    have "stuck net (lt_world (ldap_request_step J h wt q st))"
      using Cons.prems Login_stuck [OF assms(1) Cons.prems] Ldap_Health_stuck [OF assms(1) Cons.prems]
      by (cases q) (auto, metis prod.collapse)
    then show ?case using Cons.IH by simp
  qed simp
  from Login_stuck [OF assms(1) this assms(3)] show ?thesis by blast
qed

text \<open>The connection of the build over a socket that can always be opened: probes succeed, logins do not.\<close>

definition tcp_net :: "(unit, bool) ldap_net" where
  "tcp_net = \<lparr>ln_dial = (\<lambda>_. (Inr (), True)), ln_Bind = (\<lambda>_ _ _. tcp_Bind), ln_SearchGroups = (\<lambda>_ _ _ w. (tcp_SearchGroups, w)),
     ln_Close = (\<lambda>_ _. (None, False)), ln_ctx_err = (\<lambda>_. None), ln_is_op_error = (\<lambda>_. False), ln_sleep = (\<lambda>_ w. w)\<rparr>"

definition tcp_login :: "(unit, bool) real_ldap login_handler \<times> (unit, bool) real_ldap ldap_state" where
  "tcp_login =
     (case NewLdapService (real_client tcp_net) 0 0 None
             (NewReal \<lparr>rc_BaseDN = '''', rc_filter = (\<lambda>u. u), rc_Timeout = 0, rc_MaxRetries = 0, rc_RetryBackoff = 0\<rparr> False) of
        (s, st) \<Rightarrow> (\<lparr>lh_svc = s, lh_signer = demo_signer, lh_ttl = 0\<rparr>, st))"

theorem dead_connection_refuses_everyone_witness:
  "fst (Ldap_Health (fst tcp_login) (snd tcp_login)) = Body 200 ()
   \<and> (\<forall>lr. fst (Login lead_lib (fst tcp_login) (\<lambda>_. '''') (Time 0, Time 0, Time 0) (Time 0)
        (Some \<lparr>lg_Username = ''lea'', lg_Password = ''pw''\<rparr>)
        (fold (ldap_request_step lead_lib (fst tcp_login) (\<lambda>_. '''')) [HealthRequest] (snd tcp_login))) \<noteq> Body 200 lr)"
proof -
  have c: "ls_client (lh_svc (fst tcp_login)) = real_client tcp_net" "rl_pooled (lt_world (snd tcp_login)) = None"
    by (simp_all add: tcp_login_def NewLdapService_def NewReal_def Let_def)
  have b: "\<forall>x. binds_fail tcp_net x" by (simp add: binds_fail_def tcp_net_def tcp_Bind_def)
  have d: "case rl_pooled (lt_world (snd tcp_login)) of Some x \<Rightarrow> binds_fail tcp_net x | None \<Rightarrow> \<forall>x. binds_fail tcp_net x"
    unfolding c(2) option.case by (rule b)
  have "fst (Ldap_Health (fst tcp_login) (snd tcp_login)) = Body 200 ()"
    by (simp add: tcp_login_def NewLdapService_def NewReal_def Let_def Ldap_Health_def Ldap_HealthCheck_def real_client_def
      Real_HealthCheck_def Real_Ping_def dialWithRetry_def tcp_net_def)
  then show ?thesis
    by (intro conjI allI dead_connection_refuses_everyone [OF c(1) d prod.collapse [symmetric]])
qed

end
