(* ===== verification/Cidr.thy ===== *)
theory Cidr
  imports Audit_Service
begin

text \<open>
  Address ranges: \<open>CIDRRange\<close> with its helpers (\<open>internal/discovery/scanner.go\<close>) over a model of what it
  uses of package \<open>net\<close>: \<open>ParseCIDR\<close>, the masks, \<open>Contains\<close> and the rendering of an address, for both
  versions of IP. An address is the list of its bytes. The loop over a range need not end; a loop that
  does not return is \<open>None\<close>. Lemmas: the range of an IPv4 network, and that the one of \<open>0.0.0.0/0\<close> is never
  finished.
\<close>

unbundle bit_operations_syntax

subsection \<open>Parsing\<close>

type_synonym ip = "8 word list"

text \<open>\<open>parseIPv4Fields\<close>: the value and the number of digits of the current field, and the finished fields.\<close>

fun v4_fields :: "string \<Rightarrow> nat \<Rightarrow> nat \<Rightarrow> nat list \<Rightarrow> nat list option" where
  "v4_fields [] v digLen fs = (if length fs < 3 then None else Some (fs @ [v]))"
| "v4_fields (c # s) v digLen fs =
     (if is_digit c then
        if digLen = 1 \<and> v = 0 then None
        else if 255 < v * 10 + (of_char c - 48) then None
        else v4_fields s (v * 10 + (of_char c - 48)) (digLen + 1) fs
      else if c = CHR ''.'' then
        if digLen = 0 \<or> s = [] then None
        else if length fs = 3 then None
        else v4_fields s 0 0 (fs @ [v])
      else None)"

definition is_hex :: "char \<Rightarrow> bool" where
  "is_hex c \<longleftrightarrow> is_digit c \<or> of_char c \<in> {65 .. 70 :: nat} \<or> of_char c \<in> {97 .. 102 :: nat}"

definition hex_val :: "char \<Rightarrow> nat" where
  "hex_val c = (if is_digit c then of_char c - 48 else if of_char c \<le> (70 :: nat) then of_char c - 55 else of_char c - 87)"

text \<open>
  The groups of an IPv6 address: the text that is left, the bytes so far and the place of the ellipsis.
  An IPv4 address may stand for the last two groups.
\<close>

function v6_groups :: "string \<Rightarrow> nat list \<Rightarrow> nat option \<Rightarrow> (nat list \<times> nat option \<times> string) option" where
  "v6_groups s bs ell =
     (if 16 \<le> length bs then Some (bs, ell, s)
      else
        (let hs = takeWhile is_hex s; rest = dropWhile is_hex s; acc = foldl (\<lambda>a c. 16 * a + hex_val c) 0 hs
         in if hs = [] \<or> 4 < length hs then None
            else
              (case rest of
                 [] \<Rightarrow> Some (bs @ [acc div 256, acc mod 256], ell, [])
               | c # t \<Rightarrow>
                   if c = CHR ''.'' then
                     if ell = None \<and> length bs \<noteq> 12 then None
                     else if 16 < length bs + 4 then None
                     else map_option (\<lambda>fs. (bs @ fs, ell, [])) (v4_fields s 0 0 [])
                   else if c \<noteq> CHR '':'' \<or> t = [] then None
                   else if hd t = CHR '':'' then
                     if ell \<noteq> None then None
                     else if tl t = [] then Some (bs @ [acc div 256, acc mod 256], Some (length bs + 2), [])
                     else v6_groups (tl t) (bs @ [acc div 256, acc mod 256]) (Some (length bs + 2))
                   else v6_groups t (bs @ [acc div 256, acc mod 256]) ell)))"
  by pat_completeness auto
termination
  by (relation "measure (\<lambda>(s, bs, ell). 16 - length bs)") auto

declare v6_groups.simps [simp del]

definition parseIPv6 :: "string \<Rightarrow> nat list option" where
  "parseIPv6 s =
     (let ell = (if take 2 s = ''::'' then Some 0 else None);
          t = (if take 2 s = ''::'' then drop 2 s else s)
      in if ell = Some 0 \<and> t = [] then Some (replicate 16 0)
         else
           (case v6_groups t [] ell of
              None \<Rightarrow> None
            | Some (bs, ell, rest) \<Rightarrow>
                if rest \<noteq> [] then None
                else if length bs < 16 then
                  map_option (\<lambda>e. take e bs @ replicate (16 - length bs) 0 @ drop e bs) ell
                else if ell \<noteq> None then None
                else Some bs))"

text \<open>
  \<open>netip.ParseAddr\<close>, on the first of the characters that decides; an address with a zone is refused by the
  caller, so every zone is refused here.
\<close>

definition ParseAddr :: "string \<Rightarrow> ip option" where
  "ParseAddr s =
     (case find (\<lambda>c. c = CHR ''.'' \<or> c = CHR '':'' \<or> c = CHR 0x25) s of
        None \<Rightarrow> None
      | Some c \<Rightarrow>
          if c = CHR ''.'' then map_option (map of_nat) (v4_fields s 0 0 [])
          else if c = CHR '':'' \<and> CHR 0x25 \<notin> set s then map_option (map of_nat) (parseIPv6 s)
          else None)"

text \<open>\<open>CIDRMask\<close>, on the number of bytes.\<close>

fun CIDRMask :: "nat \<Rightarrow> nat \<Rightarrow> ip" where
  "CIDRMask n 0 = []"
| "CIDRMask n (Suc k) =
     (if 8 \<le> n then 255 # CIDRMask (n - 8) k else NOT (drop_bit n 255) # CIDRMask 0 k)"

abbreviation v4InV6Prefix :: ip where
  "v4InV6Prefix \<equiv> replicate 10 0 @ [255, 255]"

definition As16 :: "ip \<Rightarrow> ip" where
  "As16 a = (if length a = 4 then v4InV6Prefix @ a else a)"

text \<open>\<open>IP.Mask\<close>; the nil address is the empty list.\<close>

definition ip_Mask :: "ip \<Rightarrow> ip \<Rightarrow> ip" where
  "ip_Mask a m =
     (let m = (if length m = 16 \<and> length a = 4 \<and> take 12 m = replicate 12 255 then drop 12 m else m);
          a = (if length m = 4 \<and> length a = 16 \<and> take 12 a = v4InV6Prefix then drop 12 a else a)
      in if length a \<noteq> length m then [] else map2 (AND) a m)"

record ip_net =
  in_IP :: ip
  in_Mask :: ip

definition ParseCIDR :: "string \<Rightarrow> (ip \<times> ip_net) option" where
  "ParseCIDR s =
     (case index_char CHR ''/'' s of
        None \<Rightarrow> None
      | Some i \<Rightarrow>
          (case ParseAddr (take i s) of
             None \<Rightarrow> None
           | Some a \<Rightarrow>
               (let m = drop (i + 1) s
                in if m = [] \<or> \<not> list_all is_digit m \<or> 8 * length a < digits_val m then None
                   else
                     (let mask = CIDRMask (digits_val m) (length a)
                      in Some (As16 a, \<lparr>in_IP = ip_Mask (As16 a) mask, in_Mask = mask\<rparr>)))))"

subsection \<open>Addresses and networks\<close>

definition To4 :: "ip \<Rightarrow> ip option" where
  "To4 a =
     (if length a = 4 then Some a
      else if length a = 16 \<and> take 12 a = v4InV6Prefix then Some (drop 12 a)
      else None)"

definition ip_Equal :: "ip \<Rightarrow> ip \<Rightarrow> bool" where
  "ip_Equal a b \<longleftrightarrow>
     (if length a = length b then a = b
      else if length a = 4 \<and> length b = 16 then take 12 b = v4InV6Prefix \<and> drop 12 b = a
      else length a = 16 \<and> length b = 4 \<and> take 12 a = v4InV6Prefix \<and> drop 12 a = b)"

definition networkNumberAndMask :: "ip_net \<Rightarrow> (ip \<times> ip) option" where
  "networkNumberAndMask n =
     (let a = (case To4 (in_IP n) of Some x \<Rightarrow> x | None \<Rightarrow> in_IP n); m = in_Mask n
      in if length a \<noteq> 4 \<and> length a \<noteq> 16 then None
         else if length m = 4 then if length a \<noteq> 4 then None else Some (a, m)
         else if length m = 16 then Some (a, if length a = 4 then drop 12 m else m)
         else None)"

definition net_Contains :: "ip_net \<Rightarrow> ip \<Rightarrow> bool" where
  "net_Contains n a =
     (case networkNumberAndMask n of
        None \<Rightarrow> a = []
      | Some (nn, m) \<Rightarrow>
          (let x = (case To4 a of Some x \<Rightarrow> x | None \<Rightarrow> a)
           in length x = length nn \<and> map2 (AND) nn m = map2 (AND) x m))"

text \<open>Rendering: dotted decimals, or groups in hexadecimal with the longest run of zeros left out.\<close>

function hex_digits :: "nat \<Rightarrow> string" where
  "hex_digits n = (if n < 16 then [hex_digit n] else hex_digits (n div 16) @ [hex_digit (n mod 16)])"
  by pat_completeness auto
termination
  by (relation "measure id") auto

declare hex_digits.simps [simp del]

fun groups_of :: "ip \<Rightarrow> nat list" where
  "groups_of (a # b # bs) = (256 * unat a + unat b) # groups_of bs"
| "groups_of bs = []"

definition zero_run :: "nat list \<Rightarrow> nat \<times> nat" where
  "zero_run gs =
     fold (\<lambda>i (s, e). let j = i + length (takeWhile (\<lambda>g. g = 0) (drop i gs))
                       in if 2 \<le> j - i \<and> e - s < j - i then (i, j) else (s, e))
       [0 ..< length gs] (255, 255)"

fun v6_text :: "nat \<Rightarrow> nat \<Rightarrow> nat \<Rightarrow> nat list \<Rightarrow> string" where
  "v6_text s e i [] = (if i = e \<and> s < e then ''::'' else [])"
| "v6_text s e i (g # gs) =
     (if s \<le> i \<and> i < e then v6_text s e (i + 1) gs
      else (if i = e \<and> s < e then ''::'' else if 0 < i then '':'' else []) @ hex_digits g @ v6_text s e (i + 1) gs)"

definition ip_String :: "ip \<Rightarrow> string" where
  "ip_String a =
     (case To4 a of
        Some x \<Rightarrow> concat (map (\<lambda>b. nat_digits (unat b) @ ''.'') (butlast x)) @ nat_digits (unat (last x))
      | None \<Rightarrow> case zero_run (groups_of a) of (s, e) \<Rightarrow> v6_text s e 0 (groups_of a))"

subsection \<open>The range\<close>

text \<open>From the last byte on: a byte that does not become 0 ends the carry.\<close>

fun inc_bytes :: "8 word list \<Rightarrow> 8 word list" where
  "inc_bytes [] = []"
| "inc_bytes (b # bs) = (if b + 1 \<noteq> 0 then (b + 1) # bs else 0 # inc_bytes bs)"

definition incIP :: "ip \<Rightarrow> ip" where
  "incIP a = rev (inc_bytes (rev a))"

definition broadcastIP :: "ip_net \<Rightarrow> ip" where
  "broadcastIP n = map2 (\<lambda>b m. b OR NOT m) (in_IP n) (in_Mask n)"

partial_function (option) cidr_loop :: "ip_net \<Rightarrow> ip \<Rightarrow> string list \<Rightarrow> string list option" where
  "cidr_loop n cur res =
     (if \<not> net_Contains n cur then Some res
      else if ip_Equal cur (in_IP n) then cidr_loop n (incIP cur) res
      else if ip_Equal cur (broadcastIP n) then cidr_loop n (incIP cur) res
      else cidr_loop n (incIP cur) (res @ [ip_String cur]))"

definition CIDRRange :: "string \<Rightarrow> string list result option" where
  "CIDRRange cidr =
     (case ParseCIDR cidr of
        None \<Rightarrow> Some (Inl (External (''invalid CIDR address: '' @ cidr)))
      | Some (a, n) \<Rightarrow> map_option Inr (cidr_loop n (ip_Mask a (in_Mask n)) []))"

subsection \<open>Addresses as numbers\<close>

fun big :: "8 word list \<Rightarrow> nat" where
  "big [] = 0"
| "big (b # bs) = unat b * 256 ^ length bs + big bs"

lemma byte_less: "unat (b :: 8 word) < 256"
  using unsigned_less [of b, where ?'a = nat] by simp

lemma big_less: "big bs < 256 ^ length bs"
proof (induction bs)
  case (Cons b bs)
  have "unat b * 256 ^ length bs + big bs < (unat b + 1) * 256 ^ length bs" using Cons by simp
  also have "\<dots> \<le> 256 * 256 ^ length bs" using byte_less [of b] by (intro mult_right_mono) simp_all
  finally show ?case by simp
qed simp

lemma big_append: "big (xs @ ys) = big xs * 256 ^ length ys + big ys"
  by (induction xs) (simp_all add: power_add algebra_simps)

lemma div_plus: "r < c \<Longrightarrow> (a * c + r) div c = (a :: nat)"
  by (simp add: div_add1_eq)

lemma big_inject: "length xs = length ys \<Longrightarrow> big xs = big ys \<longleftrightarrow> xs = ys"
proof (induction xs ys rule: list_induct2)
  case (Cons x xs y ys)
  have "x = y \<and> big xs = big ys" if e: "big (x # xs) = big (y # ys)"
  proof -
    from e Cons.hyps have q: "unat x * 256 ^ length ys + big xs = unat y * 256 ^ length ys + big ys" by simp
    have "big xs < 256 ^ length ys" "big ys < 256 ^ length ys" using big_less [of xs] big_less [of ys] Cons.hyps by simp_all
    then have "unat x = unat y" using q div_plus by metis
    then show ?thesis using q word_unat_eq_iff by auto
  qed
  then show ?case using Cons.IH by (auto simp: Cons.hyps)
qed simp

lemma inc_bytes_length [simp]: "length (inc_bytes bs) = length bs"
  by (induction bs) simp_all

lemma incIP_length [simp]: "length (incIP a) = length a"
  by (simp add: incIP_def)

lemma byte_minus_1: "unat (- 1 :: 8 word) = 255"
  by (simp add: unsigned_minus_1_eq_mask mask_eq_exp_minus_1)

lemma big_incIP: "big (incIP a) = (big a + 1) mod 256 ^ length a"
proof -
  have "big (rev (inc_bytes bs)) = (big (rev bs) + 1) mod 256 ^ length bs" for bs :: "8 word list"
  proof (induction bs)
    case (Cons b bs)
    show ?case
    proof (cases "b + 1 = 0")
      case True
      then have "b = - 1" by (metis add_eq_0_iff2)
      then have b: "unat b = 255" by (simp add: unsigned_minus_1_eq_mask mask_eq_exp_minus_1)
      have "(big (rev bs) * 256 + 255 + 1) mod (256 * 256 ^ length bs) = 256 * ((big (rev bs) + 1) mod 256 ^ length bs)"
        by (simp add: mult_mod_right algebra_simps)
      then show ?thesis using True Cons b by (simp add: big_append)
    next
      case False
      from False have "b \<noteq> - 1" by auto
      then have "unat b \<noteq> 255" using byte_minus_1 by (metis word_unat_eq_iff)
      with byte_less [of b] have l: "unat b < 255" by linarith
      then have "unat (b + 1) = unat b + 1" by (simp add: unat_word_ariths(1))
      moreover have "big (rev bs) * 256 + unat b + 1 < 256 ^ length bs * 256"
        using big_less [of "rev bs"] l by simp
      ultimately show ?thesis using False by (simp add: big_append)
    qed
  qed simp
  from this [of "rev a"] show ?thesis by (simp add: incIP_def)
qed

text \<open>A byte with its low bits cleared, and with its low bits set.\<close>

lemma NOT_high: "n < 8 \<Longrightarrow> NOT (drop_bit n (255 :: 8 word)) = NOT (mask (8 - n))"
proof -
  have m: "(255 :: 8 word) = mask 8" by (simp add: mask_eq_exp_minus_1)
  assume "n < 8"
  then have "drop_bit n (mask 8 :: 8 word) = mask (8 - n)"
    by (intro bit_word_eqI) (auto simp: bit_simps)
  then show ?thesis by (simp only: m)
qed

lemma unat_clear_low: "k \<le> 8 \<Longrightarrow> unat ((b :: 8 word) AND NOT (mask k)) = unat b div 2 ^ k * 2 ^ k"
proof -
  assume "k \<le> 8"
  have "b AND NOT (mask k) = push_bit k (drop_bit k b)"
    by (rule bit_word_eqI) (auto simp: bit_simps)
  moreover have "unat b div 2 ^ k * 2 ^ k < 2 ^ 8"
    using byte_less [of b] by (simp add: le_less_trans [OF div_times_less_eq_dividend])
  then have "unat (push_bit k (drop_bit k b)) = unat b div 2 ^ k * 2 ^ k"
    using take_bit_nat_eq_self [of "unat b" 8] byte_less [of b]
    by (simp only: unsigned_push_bit_eq unsigned_drop_bit_eq)
      (simp add: push_bit_eq_mult drop_bit_eq_div take_bit_nat_eq_self)
  ultimately show ?thesis by simp
qed

lemma unat_set_low:
  assumes "k \<le> 8"
  shows "unat ((b :: 8 word) OR mask k) = unat b div 2 ^ k * 2 ^ k + (2 ^ k - 1)"
proof -
  have d: "(b AND NOT (mask k)) AND mask k = 0" by (rule bit_word_eqI) (auto simp: bit_simps)
  have "b OR mask k = (b AND NOT (mask k)) OR mask k" by (rule bit_word_eqI) (auto simp: bit_simps)
  also have "\<dots> = (b AND NOT (mask k)) + mask k" using word_plus_and_or [of "b AND NOT (mask k)" "mask k"] d by simp
  finally have e: "b OR mask k = (b AND NOT (mask k)) + mask k" .
  have "(mask k :: 8 word) = word_of_nat (mask k)" by (simp add: of_nat_mask_eq)
  moreover have "mask k < (256 :: nat)" using assms power_increasing [of k 8 "2 :: nat"] by (simp add: mask_eq_exp_minus_1)
  ultimately have m: "unat (mask k :: 8 word) = 2 ^ k - 1"
    by (simp only: unsigned_of_nat) (simp add: take_bit_nat_eq_self mask_eq_exp_minus_1)
  have "unat b div 2 ^ k < 2 ^ (8 - k)"
    using byte_less [of b] assms by (simp add: less_mult_imp_div_less power_add [symmetric])
  then have "(unat b div 2 ^ k + 1) * 2 ^ k \<le> 2 ^ (8 - k) * 2 ^ k" by (intro mult_right_mono) simp_all
  then have "unat b div 2 ^ k * 2 ^ k + (2 ^ k - 1) < 256" using assms by (simp add: power_add [symmetric])
  then show ?thesis unfolding e by (simp add: unat_word_ariths(1) unat_clear_low [OF assms] m)
qed

lemma CIDRMask_length [simp]: "length (CIDRMask n k) = k"
  by (induction n k rule: CIDRMask.induct) simp_all

lemma byte_256 [simp]: "(- 256 :: 8 word) = 0"
  by simp

lemma map2_and_zero: "length bs = k \<Longrightarrow> big (map2 (AND) bs (CIDRMask 0 k)) = 0"
  by (induction k arbitrary: bs) (auto simp: length_Suc_conv)

lemma byte_255: "(255 :: 8 word) = - 1"
  by simp

lemma big_and_mask:
  "length bs = k \<Longrightarrow> n \<le> 8 * k \<Longrightarrow>
     big (map2 (AND) bs (CIDRMask n k)) = big bs div 2 ^ (8 * k - n) * 2 ^ (8 * k - n)"
proof (induction n k arbitrary: bs rule: CIDRMask.induct)
  case (2 n k)
  then obtain b cs where bs: "bs = b # cs" "length cs = k" by (auto simp: length_Suc_conv)
  have p: "(256 :: nat) ^ k = 2 ^ (8 * k)" by (simp add: power_mult)
  show ?case
  proof (cases "8 \<le> n")
    case True
    let ?d = "2 ^ (8 * k - (n - 8)) :: nat"
    have s: "8 * Suc k - n = 8 * k - (n - 8)" using True by simp
    have "8 * k = (n - 8) + (8 * k - (n - 8))" using True 2(4) by simp
    then have f: "(256 :: nat) ^ k = 2 ^ (n - 8) * ?d" unfolding p by (metis power_add)
    have "big bs div ?d = unat b * 2 ^ (n - 8) + big cs div ?d"
      using bs(2) by (simp add: bs(1) f div_add1_eq mult.assoc [symmetric])
    then show ?thesis using True 2(1) [OF True bs(2)] 2(4) bs
      by (simp add: byte_255 f algebra_simps s)
  next
    case False
    then have s: "8 * Suc k - n = 8 * k + (8 - n)" by simp
    have "big bs div 256 ^ k = unat b" using big_less [of cs] bs by (simp add: div_plus)
    then have "big bs div 2 ^ (8 * Suc k - n) = unat b div 2 ^ (8 - n)"
      unfolding s power_add p [symmetric] by (simp add: div_mult2_eq)
    moreover have "2 ^ (8 - n) * 256 ^ k = (2 :: nat) ^ (8 + 8 * k - n)"
      using False by (simp add: p power_add [symmetric])
    ultimately show ?thesis using False bs map2_and_zero [OF bs(2)]
      by (simp add: NOT_high unat_clear_low s power_add p [symmetric])
  qed
qed simp

lemma map2_or_ones: "length bs = k \<Longrightarrow> Suc (big (map2 (\<lambda>b m. b OR NOT m) bs (CIDRMask 0 k))) = 256 ^ k"
proof (induction k arbitrary: bs)
  case (Suc k)
  then obtain b cs where bs: "bs = b # cs" "length cs = k" by (auto simp: length_Suc_conv)
  have "NOT (NOT (255 :: 8 word)) = - 1" by simp
  then have "b OR NOT (NOT (255 :: 8 word)) = - 1" by (simp only: bit.disj_one_right)
  then show ?case using Suc.IH [OF bs(2)] bs by (simp add: byte_minus_1)
qed simp

lemma big_or_mask:
  "length bs = k \<Longrightarrow> n \<le> 8 * k \<Longrightarrow>
     Suc (big (map2 (\<lambda>b m. b OR NOT m) bs (CIDRMask n k)))
       = big bs div 2 ^ (8 * k - n) * 2 ^ (8 * k - n) + 2 ^ (8 * k - n)"
proof (induction n k arbitrary: bs rule: CIDRMask.induct)
  case (2 n k)
  then obtain b cs where bs: "bs = b # cs" "length cs = k" by (auto simp: length_Suc_conv)
  have p: "(256 :: nat) ^ k = 2 ^ (8 * k)" by (simp add: power_mult)
  show ?case
  proof (cases "8 \<le> n")
    case True
    let ?d = "2 ^ (8 * k - (n - 8)) :: nat"
    have s: "8 * Suc k - n = 8 * k - (n - 8)" using True by simp
    have "8 * k = (n - 8) + (8 * k - (n - 8))" using True 2(4) by simp
    then have f: "(256 :: nat) ^ k = 2 ^ (n - 8) * ?d" unfolding p by (metis power_add)
    have "big bs div ?d = unat b * 2 ^ (n - 8) + big cs div ?d"
      using bs(2) by (simp add: bs(1) f div_add1_eq mult.assoc [symmetric])
    then show ?thesis using True 2(1) [OF True bs(2)] 2(4) bs
      by (simp add: byte_255 f algebra_simps s)
  next
    case False
    then have s: "8 * Suc k - n = 8 * k + (8 - n)" by simp
    have "big bs div 256 ^ k = unat b" using big_less [of cs] bs by (simp add: div_plus)
    then have d: "big bs div 2 ^ (8 * Suc k - n) = unat b div 2 ^ (8 - n)"
      unfolding s power_add p [symmetric] by (simp add: div_mult2_eq)
    have e: "2 ^ (8 - n) * 256 ^ k = (2 :: nat) ^ (8 + 8 * k - n)"
      using False by (simp add: p power_add [symmetric])
    have "NOT (NOT (drop_bit n (255 :: 8 word))) = mask (8 - n)" using False NOT_high [of n] by simp
    then have "Suc (big (map2 (\<lambda>b m. b OR NOT m) bs (CIDRMask n (Suc k))))
        = (unat b div 2 ^ (8 - n) * 2 ^ (8 - n) + (2 ^ (8 - n) - 1)) * 256 ^ k + 256 ^ k"
      using False bs map2_or_ones [OF bs(2)] by (simp add: unat_set_low)
    also have "\<dots> = (unat b div 2 ^ (8 - n) * 2 ^ (8 - n) + (2 ^ (8 - n) - 1) + 1) * 256 ^ k"
      by (simp only: add_mult_distrib mult_1_left)
    also have "\<dots> = (unat b div 2 ^ (8 - n) * 2 ^ (8 - n) + 2 ^ (8 - n)) * 256 ^ k" by simp
    finally show ?thesis using d e by (simp add: add_mult_distrib)
  qed
qed simp

subsection \<open>The range of an IPv4 network\<close>

definition ip4 :: "nat \<Rightarrow> ip" where
  "ip4 v = [of_nat (v div 256 ^ 3), of_nat (v div 256 ^ 2), of_nat (v div 256), of_nat v]"

lemma ip4_length [simp]: "length (ip4 v) = 4"
  by (simp add: ip4_def)

lemma unat_byte_of_nat [simp]: "unat (of_nat v :: 8 word) = v mod 256"
  by (simp add: unsigned_of_nat take_bit_eq_mod)

lemma big_ip4: "big (ip4 v) = v mod 2 ^ 32"
proof -
  have "v mod 4294967296 = 256 * (v div 256 mod 16777216) + v mod 256"
    using mod_mult2_eq [of v 256 16777216] by simp
  moreover have "v div 256 mod 16777216 = 256 * (v div 256 div 256 mod 65536) + v div 256 mod 256"
    using mod_mult2_eq [of "v div 256" 256 65536] by simp
  moreover have "v div 256 div 256 mod 65536 = 256 * (v div 256 div 256 div 256 mod 256) + v div 256 div 256 mod 256"
    using mod_mult2_eq [of "v div 256 div 256" 256 256] by simp
  moreover have "v div 256 ^ 3 = v div 256 div 256 div 256" "v div 256 ^ 2 = v div 256 div 256"
    by (simp_all add: div_mult2_eq [symmetric])
  ultimately show ?thesis unfolding ip4_def by simp
qed

lemma ip4_big: "length a = 4 \<Longrightarrow> ip4 (big a) = a"
  using big_inject [of "ip4 (big a)" a] big_less [of a] by (simp add: big_ip4)

lemma incIP_ip4: "incIP (ip4 v) = ip4 (Suc v)"
  using big_inject [of "incIP (ip4 v)" "ip4 (Suc v)"] by (simp add: big_incIP big_ip4 mod_Suc_eq)

text \<open>The network of the first \<open>p\<close> bits of \<open>a\<close>.\<close>

definition net4 :: "ip \<Rightarrow> nat \<Rightarrow> ip_net" where
  "net4 a p = \<lparr>in_IP = map2 (AND) a (CIDRMask p 4), in_Mask = CIDRMask p 4\<rparr>"

definition base4 :: "ip \<Rightarrow> nat \<Rightarrow> nat" where
  "base4 a p = big a div 2 ^ (32 - p) * 2 ^ (32 - p)"

lemma big_net4: "length a = 4 \<Longrightarrow> p \<le> 32 \<Longrightarrow> big (in_IP (net4 a p)) = base4 a p"
  using big_and_mask [of a 4 p] by (simp add: net4_def base4_def)

lemma net4_length: "length a = 4 \<Longrightarrow> length (in_IP (net4 a p)) = 4"
  by (simp add: net4_def)

lemma base4_top: "length a = 4 \<Longrightarrow> p \<le> 32 \<Longrightarrow> base4 a p + 2 ^ (32 - p) \<le> 2 ^ 32"
proof -
  assume a: "length a = 4" "p \<le> 32"
  have "big a < 2 ^ p * 2 ^ (32 - p)" using big_less [of a] a by (simp add: power_add [symmetric])
  then have "big a div 2 ^ (32 - p) < 2 ^ p" by (simp add: less_mult_imp_div_less)
  then have "(big a div 2 ^ (32 - p) + 1) * 2 ^ (32 - p) \<le> 2 ^ p * 2 ^ (32 - p)" by (intro mult_right_mono) simp_all
  then show ?thesis using a by (simp add: base4_def power_add [symmetric])
qed

lemma net4_Contains:
  assumes "length a = 4" "p \<le> 32" "length x = 4"
  shows "net_Contains (net4 a p) x \<longleftrightarrow> big a div 2 ^ (32 - p) = big x div 2 ^ (32 - p)"
proof -
  have "net_Contains (net4 a p) x \<longleftrightarrow> map2 (AND) (in_IP (net4 a p)) (CIDRMask p 4) = map2 (AND) x (CIDRMask p 4)"
    using assms by (simp add: net_Contains_def networkNumberAndMask_def To4_def net4_def Let_def)
  also have "\<dots> \<longleftrightarrow> big (map2 (AND) (in_IP (net4 a p)) (CIDRMask p 4)) = big (map2 (AND) x (CIDRMask p 4))"
    using assms by (simp add: big_inject net4_length)
  finally show ?thesis
    using big_and_mask [of "in_IP (net4 a p)" 4 p] big_and_mask [of x 4 p] assms
    by (simp add: net4_length big_net4 base4_def)
qed

lemma net4_broadcast:
  assumes "length a = 4" "p \<le> 32"
  shows "length (broadcastIP (net4 a p)) = 4" "Suc (big (broadcastIP (net4 a p))) = base4 a p + 2 ^ (32 - p)"
proof -
  have m: "in_Mask (net4 a p) = CIDRMask p 4" by (simp add: net4_def)
  show "length (broadcastIP (net4 a p)) = 4" using assms by (simp add: broadcastIP_def net4_length m)
  have "base4 a p div 2 ^ (32 - p) * 2 ^ (32 - p) = base4 a p" by (simp add: base4_def)
  then show "Suc (big (broadcastIP (net4 a p))) = base4 a p + 2 ^ (32 - p)"
    using big_or_mask [of "in_IP (net4 a p)" 4 p] assms
    by (simp add: broadcastIP_def net4_length m big_net4)
qed

lemma ip4_Equal:
  "length x = 4 \<Longrightarrow> v < 2 ^ 32 \<Longrightarrow> ip_Equal (ip4 v) x \<longleftrightarrow> v = big x"
  using big_inject [of "ip4 v" x] by (simp add: ip_Equal_def big_ip4)

lemma base4_range: "base4 a p \<le> v \<Longrightarrow> v < base4 a p + 2 ^ (32 - p) \<Longrightarrow> v div 2 ^ (32 - p) = big a div 2 ^ (32 - p)"
  by (rule div_nat_eqI) (simp_all add: base4_def mult.commute)

lemma base4_end:
  assumes "length a = 4" "p \<le> 32" "1 \<le> p"
  shows "(base4 a p + 2 ^ (32 - p)) mod 2 ^ 32 div 2 ^ (32 - p) \<noteq> big a div 2 ^ (32 - p)"
proof (cases "base4 a p + 2 ^ (32 - p) < 2 ^ 32")
  case True
  have "base4 a p + 2 ^ (32 - p) = (big a div 2 ^ (32 - p) + 1) * 2 ^ (32 - p)" by (simp add: base4_def)
  then have "(base4 a p + 2 ^ (32 - p)) div 2 ^ (32 - p) = big a div 2 ^ (32 - p) + 1"
    by (simp only: nonzero_mult_div_cancel_right power_not_zero zero_neq_numeral not_False_eq_True)
  with True show ?thesis by simp
next
  case False
  then have e: "base4 a p + 2 ^ (32 - p) = 2 ^ 32" using base4_top [OF assms(1,2)] by simp
  have "(2 :: nat) ^ (32 - p) < 2 ^ 32" using assms by (intro power_strict_increasing) simp_all
  then have "base4 a p \<noteq> 0" using e by linarith
  then have "big a div 2 ^ (32 - p) \<noteq> 0" by (auto simp: base4_def)
  then show ?thesis unfolding e by simp
qed

lemma cidr_loop_ip4:
  assumes "length a = 4" "p \<le> 32" "base4 a p \<le> v" "v < base4 a p + 2 ^ (32 - p)"
  shows "cidr_loop (net4 a p) (ip4 v) res
    = cidr_loop (net4 a p) (ip4 (Suc v))
        (if v = base4 a p \<or> Suc v = base4 a p + 2 ^ (32 - p) then res else res @ [ip_String (ip4 v)])"
proof -
  have v: "v < 2 ^ 32" using assms(4) base4_top [OF assms(1,2)] by simp
  have c: "net_Contains (net4 a p) (ip4 v)"
    using assms(1,2) v by (simp add: net4_Contains big_ip4 base4_range [OF assms(3,4)])
  have e: "ip_Equal (ip4 v) (in_IP (net4 a p)) \<longleftrightarrow> v = base4 a p"
    using assms(1,2) by (simp add: ip4_Equal [OF net4_length v] big_net4)
  have b: "ip_Equal (ip4 v) (broadcastIP (net4 a p)) \<longleftrightarrow> Suc v = base4 a p + 2 ^ (32 - p)"
    using ip4_Equal [OF net4_broadcast(1) v, OF assms(1,2)] net4_broadcast(2) [OF assms(1,2)] by auto
  show ?thesis by (subst cidr_loop.simps) (simp add: c e b incIP_ip4)
qed

lemma cidr_loop4:
  assumes "length a = 4" "p \<le> 32" "1 \<le> p" "v + k = base4 a p + 2 ^ (32 - p)" "base4 a p \<le> v"
  shows "cidr_loop (net4 a p) (ip4 v) res
    = Some (res @ map (\<lambda>v. ip_String (ip4 v)) [max v (Suc (base4 a p)) ..< base4 a p + 2 ^ (32 - p) - 1])"
  using assms(4,5)
proof (induction k arbitrary: v res)
  case 0
  then have v: "v = base4 a p + 2 ^ (32 - p)" by simp
  have "\<not> net_Contains (net4 a p) (ip4 v)"
    using base4_end [OF assms(1-3)] assms(1,2) unfolding v by (simp add: net4_Contains big_ip4)
  with v show ?case by (subst cidr_loop.simps) simp
next
  case (Suc k)
  from Suc.prems have v: "v < base4 a p + 2 ^ (32 - p)" by simp
  from Suc.prems have s: "Suc v + k = base4 a p + 2 ^ (32 - p)" "base4 a p \<le> Suc v" by simp_all
  show ?case
    unfolding cidr_loop_ip4 [OF assms(1,2) Suc.prems(2) v] Suc.IH [OF s]
    using Suc.prems s v by (cases "v = base4 a p"; cases "v = Suc (base4 a p)") (auto simp: max_def upt_conv_Cons)
qed

text \<open>With no bits fixed every address is in the network, and the loop goes round for ever.\<close>

lemma cidr_loop_all:
  assumes "\<And>x. length x = 4 \<Longrightarrow> net_Contains n x" "length cur = 4"
  shows "cidr_loop n cur res = None"
proof -
  have "m = n \<longrightarrow> length cur \<noteq> 4" if c: "cidr_loop m cur res = Some y" for m cur res y
  proof (rule cidr_loop.raw_induct [where P = "\<lambda>m cur res y. m = n \<longrightarrow> length cur \<noteq> 4", OF _ c])
    fix f m cur res y
    assume IH: "\<And>m cur res y. f m cur res = Some y \<Longrightarrow> m = n \<longrightarrow> length cur \<noteq> 4"
      and "(if \<not> net_Contains m cur then Some res
            else if ip_Equal cur (in_IP m) then f m (incIP cur) res
            else if ip_Equal cur (broadcastIP m) then f m (incIP cur) res
            else f m (incIP cur) (res @ [ip_String cur])) = Some y"
    then show "m = n \<longrightarrow> length cur \<noteq> 4" using assms(1) [of cur] IH [of m "incIP cur" res y] IH [of m "incIP cur" "res @ [ip_String cur]" y]
      by (auto split: if_splits)
  qed
  with assms(2) show ?thesis by (cases "cidr_loop n cur res") auto
qed

definition ipv4_range :: "ip \<Rightarrow> nat \<Rightarrow> string list" where
  "ipv4_range a p = map (\<lambda>v. ip_String (ip4 v)) [Suc (base4 a p) ..< base4 a p + 2 ^ (32 - p) - 1]"

lemma digits_are_digits: "list_all is_digit (nat_digits n)"
proof (induction n rule: nat_digits.induct)
  case (1 n)
  have "is_digit (char_of (48 + k))" if "k < 10" for k :: nat
    using that by (simp add: is_digit_def)
  with 1 show ?case by (subst nat_digits.simps) (simp add: list_all_append)
qed

text \<open>
  C35: the range of an IPv4 network. For an address and the first \<open>p\<close> of its bits \<open>CIDRRange\<close> gives every address
  of the network in order, once each and without the first and the last one, so nothing for the prefixes 31
  and 32; for the prefix 0 it does not return.
\<close>

theorem cidr_range_ipv4:
  assumes "ParseAddr addr = Some a" "length a = 4" "CHR ''/'' \<notin> set addr" "p \<le> 32"
  shows "CIDRRange (addr @ ''/'' @ nat_digits p) = (if p = 0 then None else Some (Inr (ipv4_range a p)))"
proof -
  have d: "nat_digits p \<noteq> []" using nat_digits_hd by blast
  have "ParseCIDR (addr @ ''/'' @ nat_digits p) = Some (As16 a, \<lparr>in_IP = ip_Mask (As16 a) (CIDRMask p 4), in_Mask = CIDRMask p 4\<rparr>)"
    using assms d index_char_append [OF assms(3), of "nat_digits p"] by (simp add: ParseCIDR_def digits_are_digits Let_def)
  moreover have im: "in_Mask (net4 a p) = CIDRMask p 4" by (simp add: net4_def)
  moreover have m: "ip_Mask (As16 a) (CIDRMask p 4) = in_IP (net4 a p)"
    using assms(2) by (simp add: ip_Mask_def As16_def net4_def)
  moreover have "\<lparr>in_IP = in_IP (net4 a p), in_Mask = CIDRMask p 4\<rparr> = net4 a p" by (simp add: net4_def)
  ultimately have r: "CIDRRange (addr @ ''/'' @ nat_digits p) = map_option Inr (cidr_loop (net4 a p) (in_IP (net4 a p)) [])"
    by (simp add: CIDRRange_def im)
  have b: "in_IP (net4 a p) = ip4 (base4 a p)"
    using ip4_big [OF net4_length [OF assms(2)], of p] assms by (simp add: big_net4)
  show ?thesis
  proof (cases "p = 0")
    case True
    have "net_Contains (net4 a p) x" if "length x = 4" for x
      using that assms(2) big_less [of a] big_less [of x] True by (simp add: net4_Contains)
    then show ?thesis unfolding r using True net4_length [OF assms(2)] cidr_loop_all by simp
  next
    case False
    then show ?thesis unfolding r b
      using cidr_loop4 [of a p "base4 a p" "2 ^ (32 - p)" "[]"] assms by (simp add: ipv4_range_def max_def)
  qed
qed

theorem cidr_range_ipv4_witness:
  "CIDRRange ''10.1.2.3/30'' = Some (Inr [''10.1.2.1'', ''10.1.2.2'']) \<and> CIDRRange ''0.0.0.0/0'' = None"
proof -
  have a: "ParseAddr ''10.1.2.3'' = Some [10, 1, 2, 3]" "ParseAddr ''0.0.0.0'' = Some [0, 0, 0, 0]" by (code_simp, code_simp)
  have d: "nat_digits 30 = ''30''" "nat_digits 0 = ''0''" by (code_simp, code_simp)
  have n: "nat_digits 10 = ''10''" "nat_digits (Suc 0) = ''1''" "nat_digits 2 = ''2''" by (code_simp, code_simp, code_simp)
  have "ipv4_range [10, 1, 2, 3] 30 = map (\<lambda>v. ip_String (ip4 v)) [167838209, 167838210]"
    by (simp add: ipv4_range_def base4_def upt_conv_Cons)
  also have "\<dots> = [''10.1.2.1'', ''10.1.2.2'']" by (simp add: ip4_def ip_String_def To4_def n)
  finally have "ipv4_range [10, 1, 2, 3] 30 = [''10.1.2.1'', ''10.1.2.2'']" .
  then show ?thesis
    using cidr_range_ipv4 [OF a(1), of 30] cidr_range_ipv4 [OF a(2), of 0] by (simp add: d)
qed

end
