(* ===== verification/Discovery.thy ===== *)
theory Discovery
  imports Device_Http Cidr
begin

text \<open>
  Network discovery (\<open>internal/discovery\<close>): runs and discovered hosts (\<open>models.go\<close>), the repository
  (\<open>repository.go\<close>), the fakes the program is wired with (\<open>fakes.go\<close>), the service that scans, probes,
  records and promotes hosts to devices (\<open>service.go\<close>), and the handlers (\<open>handler.go\<close>). The scanner and the
  prober are interfaces: functions on the environment, which also holds the context.
\<close>

subsection \<open>Rows\<close>

abbreviation RunStatusRunning :: string where "RunStatusRunning \<equiv> ''running''"
abbreviation RunStatusCompleted :: string where "RunStatusCompleted \<equiv> ''completed''"
abbreviation RunStatusFailed :: string where "RunStatusFailed \<equiv> ''failed''"
abbreviation RunStatusEmpty :: string where "RunStatusEmpty \<equiv> ''empty''"

definition RunStatus_Valid :: "string \<Rightarrow> bool" where
  "RunStatus_Valid s \<longleftrightarrow>
     s = RunStatusRunning \<or> s = RunStatusCompleted \<or> s = RunStatusFailed \<or> s = RunStatusEmpty"

definition discovery_JSONMap_Value :: "json_codec \<Rightarrow> json_map \<Rightarrow> db_value" where
  "discovery_JSONMap_Value jc m =
     (case m of None \<Rightarrow> DbNull | Some kvs \<Rightarrow> DbBytes (jc_Marshal jc (JObject kvs)))"

definition discovery_JSONMap_decode :: "json_codec \<Rightarrow> string \<Rightarrow> json_map result" where
  "discovery_JSONMap_decode jc b =
     (case jc_Unmarshal jc b of Inl err \<Rightarrow> Inl err | Inr j \<Rightarrow> as_object j)"

fun discovery_JSONMap_Scan :: "json_codec \<Rightarrow> db_value \<Rightarrow> json_map result" where
  "discovery_JSONMap_Scan jc DbNull = Inr None"
| "discovery_JSONMap_Scan jc (DbBytes v) = discovery_JSONMap_decode jc v"
| "discovery_JSONMap_Scan jc (DbString v) = (if v = '''' then Inr None else discovery_JSONMap_decode jc v)"
| "discovery_JSONMap_Scan jc (DbOther ty) =
     Inl (External ''discovery: JSONMap: unsupported scan source type'')"

lemma discovery_JSONMap_Scan_Value:
  assumes "\<And>kvs. m = Some kvs \<Longrightarrow> jc_Unmarshal jc (jc_Marshal jc (JObject kvs)) = Inr (JObject kvs)"
  shows "discovery_JSONMap_Scan jc (discovery_JSONMap_Value jc m) = Inr m"
  using assms by (cases m) (simp_all add: discovery_JSONMap_Value_def discovery_JSONMap_decode_def)

record discovery_run =
  rn_ID :: string
  rn_CIDR :: string
  rn_StartedAt :: time
  rn_CompletedAt :: "time option"
  rn_HostsFound :: int
  rn_Status :: string

definition Run_BeforeCreate :: "string \<Rightarrow> discovery_run \<Rightarrow> discovery_run" where
  "Run_BeforeCreate newID r =
     (let r = (if rn_Status r = '''' then r\<lparr>rn_Status := RunStatusRunning\<rparr> else r)
      in r\<lparr>rn_ID := BaseModel_BeforeCreate newID (rn_ID r)\<rparr>)"

record discovered_host =
  dh_ID :: string
  dh_RunID :: string
  dh_IPAddress :: string
  dh_Hostname :: string
  dh_OpenPorts :: json_map
  dh_SNMPSysDescr :: string
  dh_Promoted :: "string option"

subsection \<open>The repository\<close>

abbreviation ErrDiscoveryNotFound :: go_error where
  "ErrDiscoveryNotFound \<equiv> Sentinel ''discovery: not found''"

abbreviation discovery_label :: "string \<Rightarrow> string" where
  "discovery_label m \<equiv> ''discovery.'' @ m @ '': ''"

definition Discovery_IsNotFound :: "go_error \<Rightarrow> bool" where
  "Discovery_IsNotFound err \<longleftrightarrow> errors_Is err ErrDiscoveryNotFound"

definition Discovery_CreateRun ::
    "('r, discovery_run) gorm \<Rightarrow> string \<Rightarrow> 'r \<Rightarrow> discovery_run \<Rightarrow> (discovery_run \<times> 'r) result" where
  "Discovery_CreateRun g newID db r =
     (let r = Run_BeforeCreate newID r
      in map_sum (\<lambda>e. e) (Pair r) (repo_Create g (discovery_label ''CreateRun'') db r))"

definition Discovery_repo_GetRun :: "('r, discovery_run) gorm \<Rightarrow> 'r \<Rightarrow> string \<Rightarrow> discovery_run result" where
  "Discovery_repo_GetRun g db k = repo_Get g ErrDiscoveryNotFound db k"

record run_filter =
  rf_Limit :: int64
  rf_Offset :: int64

definition Discovery_repo_ListRuns ::
    "('r, discovery_run) gorm \<Rightarrow> 'r \<Rightarrow> run_filter \<Rightarrow> (discovery_run list \<times> nat) result" where
  "Discovery_repo_ListRuns g db f = query_page g ''discovery.ListRuns'' db (\<lambda>_. True) (rf_Limit f) (rf_Offset f)"

definition UpdateRun :: "('r, discovery_run) gorm \<Rightarrow> 'r \<Rightarrow> discovery_run \<Rightarrow> 'r result" where
  "UpdateRun g db r = repo_Update g rn_ID (discovery_label ''UpdateRun'') ErrDiscoveryNotFound db r"

text \<open>Two statements without a transaction: the hosts stay when the second one fails.\<close>

definition DeleteRun ::
    "('r, discovery_run) gorm \<Rightarrow> ('h, discovered_host) gorm_bulk \<Rightarrow> 'r \<times> 'h \<Rightarrow> string
     \<Rightarrow> go_error option \<times> 'r \<times> 'h" where
  "DeleteRun g b db k =
     (case db_Delete g (fst db) k of
        Inl err \<Rightarrow> (Some (Wrapped (discovery_label ''DeleteRun'') err), db)
      | Inr (_, rdb) \<Rightarrow>
          (case gb_Delete b (snd db) (\<lambda>h. dh_RunID h = k) of
             Inl err \<Rightarrow> (Some (Wrapped ''discovery.DeleteRun cascade: '' err), (rdb, snd db))
           | Inr (_, hdb) \<Rightarrow> (None, (rdb, hdb))))"

definition CreateHost ::
    "('h, discovered_host) gorm_bulk \<Rightarrow> string \<Rightarrow> 'h \<Rightarrow> discovered_host \<Rightarrow> (discovered_host \<times> 'h) result" where
  "CreateHost b newID db h =
     (let h = h\<lparr>dh_ID := BaseModel_BeforeCreate newID (dh_ID h)\<rparr>
      in map_sum (\<lambda>e. e) (Pair h) (repo_Create (gb_table b) (discovery_label ''CreateHost'') db h))"

definition GetHost :: "('h, discovered_host) gorm_bulk \<Rightarrow> 'h \<Rightarrow> string \<Rightarrow> discovered_host result" where
  "GetHost b db k = repo_Get (gb_table b) ErrDiscoveryNotFound db k"

definition UpdateHost :: "('h, discovered_host) gorm_bulk \<Rightarrow> 'h \<Rightarrow> discovered_host \<Rightarrow> 'h result" where
  "UpdateHost b db h = repo_Update (gb_table b) dh_ID (discovery_label ''UpdateHost'') ErrDiscoveryNotFound db h"

definition ListHostsByRun :: "('h, discovered_host) gorm_bulk \<Rightarrow> 'h \<Rightarrow> string \<Rightarrow> discovered_host list result" where
  "ListHostsByRun b db runID =
     map_sum (Wrapped (discovery_label ''ListHostsByRun'')) (\<lambda>hs. hs) (db_Find (gb_table b) db (\<lambda>h. dh_RunID h = runID))"

definition HostExistsByIP :: "('h, discovered_host) gorm_bulk \<Rightarrow> 'h \<Rightarrow> string \<Rightarrow> bool result" where
  "HostExistsByIP b db ip =
     map_sum (Wrapped (discovery_label ''HostExistsByIP'')) (\<lambda>hs. 0 < length hs)
       (db_Find (gb_table b) db (\<lambda>h. dh_IPAddress h = ip))"

subsection \<open>Scanner and prober\<close>

record scan_host =
  sh_IPAddress :: string
  sh_Hostname :: string

text \<open>Nil ports are \<open>None\<close>.\<close>

record probe_result =
  pb_OpenPorts :: "int list option"
  pb_SNMPSysDescr :: string
  pb_Reachable :: bool

definition unreachable_probe :: probe_result where
  "unreachable_probe = \<lparr>pb_OpenPorts = None, pb_SNMPSysDescr = '''', pb_Reachable = False\<rparr>"

record scanner_config =
  sc_Timeout :: duration
  sc_Concurrency :: int

definition TimeoutOrDefault :: "scanner_config \<Rightarrow> duration" where
  "TimeoutOrDefault c = (if sc_Timeout c \<le> 0 then 5 * Second else sc_Timeout c)"

definition ConcurrencyOrDefault :: "scanner_config \<Rightarrow> int" where
  "ConcurrencyOrDefault c = (if sc_Concurrency c \<le> 0 then 64 else sc_Concurrency c)"

record fake_scanner =
  fs_hosts :: "scan_host list"
  fs_err :: "go_error option"

text \<open>\<open>ctx_err\<close> is \<open>ctx.Err()\<close>.\<close>

definition FakeScanner_Scan :: "go_error option \<Rightarrow> fake_scanner \<Rightarrow> string \<Rightarrow> scan_host list result" where
  "FakeScanner_Scan ctx_err f cidr =
     (case ctx_err of
        Some err \<Rightarrow> Inl err
      | None \<Rightarrow> case fs_err f of Some err \<Rightarrow> Inl err | None \<Rightarrow> Inr (fs_hosts f))"

record fake_probes =
  fp_results :: "string \<Rightarrow> probe_result option"
  fp_err :: "go_error option"

definition FakeProber_Probe :: "go_error option \<Rightarrow> fake_probes \<Rightarrow> scan_host \<Rightarrow> probe_result" where
  "FakeProber_Probe ctx_err f h =
     (if ctx_err \<noteq> None then unreachable_probe
      else if fp_err f \<noteq> None then unreachable_probe
      else case fp_results f (sh_IPAddress h) of Some r \<Rightarrow> r | None \<Rightarrow> unreachable_probe)"

definition FakeProber_ProbeWithError :: "go_error option \<Rightarrow> fake_probes \<Rightarrow> scan_host \<Rightarrow> probe_result \<times> go_error option" where
  "FakeProber_ProbeWithError ctx_err f h =
     (case ctx_err of
        Some err \<Rightarrow> (unreachable_probe, Some err)
      | None \<Rightarrow>
          (case fp_err f of
             Some err \<Rightarrow> (unreachable_probe, Some err)
           | None \<Rightarrow>
               (case fp_results f (sh_IPAddress h) of
                  Some r \<Rightarrow> (r, None)
                | None \<Rightarrow> (unreachable_probe, None))))"

end
