(* ===== verification/Discovery_Service.thy ===== *)
theory Discovery_Service
  imports Discovery
begin

text \<open>
  The discovery service and its handlers (\<open>internal/discovery/service.go\<close>, \<open>handler.go\<close>): a run is created,
  the range scanned, the known hosts left out, the others probed and stored, and the run finished; the
  hosts of a run are promoted to devices.
\<close>

subsection \<open>The service\<close>

record ('r, 'h, 'd, 'w) discovery_world =
  dw_runs :: 'r
  dw_hosts :: 'h
  dw_devs :: 'd
  dw_env :: 'w

record ('r, 'h, 'd, 's, 'w) discovery_service =
  di_runs :: "('r, discovery_run) gorm"
  di_hosts :: "('h, discovered_host) gorm_bulk"
  di_devs :: "('d, device) gorm"
  di_scan :: "string \<Rightarrow> 'w \<Rightarrow> scan_host list result \<times> 'w"
  di_probe :: "scan_host \<Rightarrow> 'w \<Rightarrow> probe_result \<times> 'w"
  di_clock :: "'w \<Rightarrow> time \<times> 'w"
  di_newID :: "'w \<Rightarrow> string \<times> 'w"
  di_audit :: "('s, 'w) audit_service option"

record start_run_input =
  si_CIDR :: string
  si_Ports :: "int list"
  si_SNMP :: bool

record promote_input =
  pi_RunID :: string
  pi_HostIDs :: "string list"

definition discovery_emit ::
    "('r, 'h, 'd, 's, 'w) discovery_service \<Rightarrow> string \<Rightarrow> string \<Rightarrow> json_map
     \<Rightarrow> ('r, 'h, 'd, 'w) discovery_world \<Rightarrow> ('r, 'h, 'd, 'w) discovery_world" where
  "discovery_emit s rtype k md w =
     (if di_audit s = None then w
      else w\<lparr>dw_env := RecordAction (di_audit s)
        \<lparr>ra_Action = ''create'', ra_ResourceType = rtype, ra_ResourceID = k, ra_ActorID = '''',
         ra_ActorName = '''', ra_Metadata = md, ra_IPAddress = '''', ra_UserAgent = ''''\<rparr> (dw_env w)\<rparr>)"

abbreviation discovery_failed :: "string \<Rightarrow> go_error \<Rightarrow> go_error" where
  "discovery_failed m err \<equiv> APIError CodeInternal m (Some err)"

text \<open>The run is marked as failed, whether or not that can be stored.\<close>

definition mark_failed ::
    "('r, 'h, 'd, 's, 'w) discovery_service \<Rightarrow> discovery_run \<Rightarrow> ('r, 'h, 'd, 'w) discovery_world
     \<Rightarrow> discovery_run \<times> ('r, 'h, 'd, 'w) discovery_world" where
  "mark_failed s r w =
     (case di_clock s (dw_env w) of
        (now, env) \<Rightarrow>
          (let r = r\<lparr>rn_Status := RunStatusFailed, rn_CompletedAt := Some now\<rparr>; w = w\<lparr>dw_env := env\<rparr>
           in (r, case UpdateRun (di_runs s) (dw_runs w) r of Inl _ \<Rightarrow> w | Inr db \<Rightarrow> w\<lparr>dw_runs := db\<rparr>)))"

fun fresh_hosts ::
    "('r, 'h, 'd, 's, 'w) discovery_service \<Rightarrow> 'h \<Rightarrow> scan_host list \<Rightarrow> scan_host list result" where
  "fresh_hosts s db [] = Inr []"
| "fresh_hosts s db (h # hs) =
     (case HostExistsByIP (di_hosts s) db (sh_IPAddress h) of
        Inl err \<Rightarrow> Inl err
      | Inr known \<Rightarrow> map_sum (\<lambda>e. e) (\<lambda>out. if known then out else h # out) (fresh_hosts s db hs))"

definition new_host :: "discovery_run \<Rightarrow> scan_host \<Rightarrow> probe_result \<Rightarrow> discovered_host" where
  "new_host r h result =
     (let openPorts = (case pb_OpenPorts result of None \<Rightarrow> [] | Some ps \<Rightarrow> ps)
      in \<lparr>dh_ID = '''', dh_RunID = rn_ID r, dh_IPAddress = sh_IPAddress h, dh_Hostname = sh_Hostname h,
          dh_OpenPorts = Some [(''tcp'', JArray (map (\<lambda>p. JNumber (Itoa p)) openPorts))],
          dh_SNMPSysDescr = pb_SNMPSysDescr result, dh_Promoted = None\<rparr>)"

text \<open>Probe and store, until a host cannot be stored.\<close>

fun store_hosts ::
    "('r, 'h, 'd, 's, 'w) discovery_service \<Rightarrow> discovery_run \<Rightarrow> scan_host list \<Rightarrow> ('r, 'h, 'd, 'w) discovery_world
     \<Rightarrow> go_error option \<times> ('r, 'h, 'd, 'w) discovery_world" where
  "store_hosts s r [] w = (None, w)"
| "store_hosts s r (h # hs) w =
     (case di_probe s h (dw_env w) of
        (result, env) \<Rightarrow>
          (case di_newID s env of
             (k, env) \<Rightarrow>
               (case CreateHost (di_hosts s) k (dw_hosts w) (new_host r h result) of
                  Inl err \<Rightarrow> (Some err, w\<lparr>dw_env := env\<rparr>)
                | Inr (_, db) \<Rightarrow> store_hosts s r hs (w\<lparr>dw_env := env, dw_hosts := db\<rparr>))))"

text \<open>The scan of a run that has been created. The run and the error are returned together.\<close>

definition run_scan ::
    "('r, 'h, 'd, 's, 'w) discovery_service \<Rightarrow> discovery_run \<Rightarrow> ('r, 'h, 'd, 'w) discovery_world
     \<Rightarrow> (discovery_run \<times> go_error option) \<times> ('r, 'h, 'd, 'w) discovery_world" where
  "run_scan s r w =
     (case di_scan s (rn_CIDR r) (dw_env w) of
        (Inl err, env) \<Rightarrow> (case mark_failed s r (w\<lparr>dw_env := env\<rparr>) of (r, w) \<Rightarrow> ((r, None), w))
      | (Inr hosts, env) \<Rightarrow>
          (let w = w\<lparr>dw_env := env\<rparr>
           in case fresh_hosts s (dw_hosts w) hosts of
                Inl err \<Rightarrow>
                  (case mark_failed s r w of (r, w) \<Rightarrow> ((r, Some (discovery_failed ''failed to dedup hosts'' err)), w))
              | Inr fresh \<Rightarrow>
                  (case store_hosts s r fresh w of
                     (Some err, w) \<Rightarrow>
                       (case mark_failed s r w of
                          (r, w) \<Rightarrow> ((r, Some (discovery_failed ''failed to persist discovered host'' err)), w))
                   | (None, w) \<Rightarrow>
                       (case di_clock s (dw_env w) of
                          (now, env) \<Rightarrow>
                            (let r = r\<lparr>rn_CompletedAt := Some now, rn_HostsFound := int (length fresh),
                                       rn_Status := (if fresh = [] then RunStatusEmpty else RunStatusCompleted)\<rparr>;
                                 w = w\<lparr>dw_env := env\<rparr>
                             in case UpdateRun (di_runs s) (dw_runs w) r of
                                  Inl err \<Rightarrow> ((r, Some (discovery_failed ''failed to finalise discovery run'' err)), w)
                                | Inr db \<Rightarrow>
                                    ((r, None), discovery_emit s ''discovery_run'' (rn_ID r)
                                       (Some [(''cidr'', JString (rn_CIDR r)),
                                              (''hosts_found'', JNumber (Itoa (rn_HostsFound r))),
                                              (''status'', JString (rn_Status r))])
                                       (w\<lparr>dw_runs := db\<rparr>)))))))"

definition StartRun ::
    "('r, 'h, 'd, 's, 'w) discovery_service \<Rightarrow> start_run_input \<Rightarrow> ('r, 'h, 'd, 'w) discovery_world
     \<Rightarrow> (discovery_run option \<times> go_error option) \<times> ('r, 'h, 'd, 'w) discovery_world" where
  "StartRun s inp w =
     (let cidr = TrimSpace (si_CIDR inp)
      in if cidr = '''' then ((None, Some (invalid ''cidr is required'')), w)
         else if ParseCIDR cidr = None then
           ((None, Some (invalid (''cidr '' @ Quote cidr @ '' is not a valid network range''))), w)
         else
           (case di_clock s (dw_env w) of
              (now, env) \<Rightarrow>
                (case di_newID s env of
                   (k, env) \<Rightarrow>
                     (case Discovery_CreateRun (di_runs s) k (dw_runs w)
                             \<lparr>rn_ID = '''', rn_CIDR = cidr, rn_StartedAt = now, rn_CompletedAt = None,
                              rn_HostsFound = 0, rn_Status = RunStatusRunning\<rparr> of
                        Inl err \<Rightarrow>
                          ((None, Some (discovery_failed ''failed to create discovery run'' err)), w\<lparr>dw_env := env\<rparr>)
                      | Inr (r, db) \<Rightarrow>
                          (case run_scan s r (w\<lparr>dw_env := env, dw_runs := db\<rparr>) of
                             ((r, err), w) \<Rightarrow> ((Some r, err), w))))))"

definition Discovery_GetRun ::
    "('r, 'h, 'd, 's, 'w) discovery_service \<Rightarrow> ('r, 'h, 'd, 'w) discovery_world \<Rightarrow> string \<Rightarrow> discovery_run result" where
  "Discovery_GetRun s w k =
     (case Discovery_repo_GetRun (di_runs s) (dw_runs w) k of
        Inl err \<Rightarrow>
          Inl (if Discovery_IsNotFound err then APIError CodeNotFound (''discovery run '' @ Quote k @ '' not found'') None
               else discovery_failed ''failed to load discovery run'' err)
      | Inr r \<Rightarrow> Inr r)"

record run_detail =
  rd_Run :: discovery_run
  rd_Hosts :: "discovered_host list"

definition GetRunWithHosts ::
    "('r, 'h, 'd, 's, 'w) discovery_service \<Rightarrow> ('r, 'h, 'd, 'w) discovery_world \<Rightarrow> string \<Rightarrow> run_detail result" where
  "GetRunWithHosts s w k =
     (case Discovery_GetRun s w k of
        Inl err \<Rightarrow> Inl err
      | Inr r \<Rightarrow>
          (case ListHostsByRun (di_hosts s) (dw_hosts w) (rn_ID r) of
             Inl err \<Rightarrow> Inl (discovery_failed ''failed to list hosts'' err)
           | Inr hs \<Rightarrow> Inr \<lparr>rd_Run = r, rd_Hosts = hs\<rparr>))"

definition Discovery_ListRuns ::
    "('r, 'h, 'd, 's, 'w) discovery_service \<Rightarrow> ('r, 'h, 'd, 'w) discovery_world \<Rightarrow> run_filter
     \<Rightarrow> (discovery_run list \<times> nat) result" where
  "Discovery_ListRuns s w f =
     (case Discovery_repo_ListRuns (di_runs s) (dw_runs w) f of
        Inl err \<Rightarrow> Inl (discovery_failed ''failed to list discovery runs'' err)
      | Inr res \<Rightarrow> Inr res)"

definition json_of_map :: "json_map \<Rightarrow> json" where
  "json_of_map m = (case m of None \<Rightarrow> JNull | Some kvs \<Rightarrow> JObject kvs)"

definition buildDevice :: "discovered_host \<Rightarrow> device" where
  "buildDevice h =
     \<lparr>dv_ID = '''', dv_Name = (if dh_Hostname h = '''' then dh_IPAddress h else dh_Hostname h),
      dv_Type = (if dh_SNMPSysDescr h = '''' then ''physical_host'' else ''network_device''),
      dv_State = DeviceStateOnline, dv_GroupID = None, dv_TemplateID = None,
      dv_Labels = Some [(''discovered_from'', JString ''network_scan''), (''ip'', JString (dh_IPAddress h))],
      dv_Metadata = Some [(''open_ports'', json_of_map (dh_OpenPorts h)), (''snmp_sys_descr'', JString (dh_SNMPSysDescr h))],
      dv_LastSeen = None\<rparr>"

text \<open>The devices made before an error are returned with it.\<close>

fun promote_loop ::
    "('r, 'h, 'd, 's, 'w) discovery_service \<Rightarrow> discovery_run \<Rightarrow> string list \<Rightarrow> discovered_host list
     \<Rightarrow> ('r, 'h, 'd, 'w) discovery_world \<Rightarrow> (device list \<times> go_error option) \<times> ('r, 'h, 'd, 'w) discovery_world" where
  "promote_loop s r ids [] w = (([], None), w)"
| "promote_loop s r ids (h # hs) w =
     (if ids \<noteq> [] \<and> dh_ID h \<notin> set ids then promote_loop s r ids hs w
      else if dh_Promoted h \<noteq> None then promote_loop s r ids hs w
      else
        (case di_newID s (dw_env w) of
           (k, env) \<Rightarrow>
             (case Device_repo_Create (di_devs s) k (dw_devs w) (buildDevice h) of
                Inl err \<Rightarrow>
                  (([], Some (discovery_failed ''failed to create device from discovered host'' err)), w\<lparr>dw_env := env\<rparr>)
              | Inr (d, ddb) \<Rightarrow>
                  (let h = h\<lparr>dh_Promoted := Some (dv_ID d)\<rparr>; w = w\<lparr>dw_env := env, dw_devs := ddb\<rparr>
                   in case UpdateHost (di_hosts s) (dw_hosts w) h of
                        Inl err \<Rightarrow> (([], Some (discovery_failed ''failed to mark host as promoted'' err)), w)
                      | Inr hdb \<Rightarrow>
                          (case promote_loop s r ids hs
                                  (discovery_emit s ''discovery_host'' (dh_ID h)
                                     (Some [(''run_id'', JString (rn_ID r)), (''device_id'', JString (dv_ID d)),
                                            (''ip'', JString (dh_IPAddress h))])
                                     (w\<lparr>dw_hosts := hdb\<rparr>)) of
                             ((ds, err), w) \<Rightarrow> ((d # ds, err), w))))))"

definition PromoteHosts ::
    "('r, 'h, 'd, 's, 'w) discovery_service \<Rightarrow> promote_input \<Rightarrow> ('r, 'h, 'd, 'w) discovery_world
     \<Rightarrow> (device list \<times> go_error option) \<times> ('r, 'h, 'd, 'w) discovery_world" where
  "PromoteHosts s inp w =
     (case Discovery_GetRun s w (pi_RunID inp) of
        Inl err \<Rightarrow> (([], Some err), w)
      | Inr r \<Rightarrow>
          (case ListHostsByRun (di_hosts s) (dw_hosts w) (rn_ID r) of
             Inl err \<Rightarrow> (([], Some (discovery_failed ''failed to list hosts'' err)), w)
           | Inr hosts \<Rightarrow> promote_loop s r (pi_HostIDs inp) hosts w))"

subsection \<open>The handlers\<close>

record create_run_request =
  cq_CIDR :: string
  cq_Ports :: "int list"
  cq_SNMP :: bool

text \<open>A body that is not JSON of the shape is \<open>None\<close>.\<close>

definition discovery_create where
  "discovery_create s body w =
     (case body of
        None \<Rightarrow> (reject CodeValidation ''request body must be JSON'', w)
      | Some req \<Rightarrow>
          (case StartRun s \<lparr>si_CIDR = cq_CIDR req, si_Ports = cq_Ports req, si_SNMP = cq_SNMP req\<rparr> w of
             ((_, Some err), w) \<Rightarrow> (fail_with err, w)
           | ((r, None), w) \<Rightarrow> (Body 201 r, w)))"

definition discovery_list where
  "discovery_list s q w =
     (case int_param 20 ''limit'' (q ''limit'') of
        Inl err \<Rightarrow> fail_with err
      | Inr l \<Rightarrow>
          (case int_param 0 ''offset'' (q ''offset'') of
             Inl err \<Rightarrow> fail_with err
           | Inr k \<Rightarrow>
               (case Discovery_ListRuns s w \<lparr>rf_Limit = l, rf_Offset = k\<rparr> of
                  Inl err \<Rightarrow> fail_with err
                | Inr (rs, tot) \<Rightarrow>
                    BodyList rs \<lparr>pg_Total = of_nat tot, pg_Limit = l, pg_Offset = k,
                      pg_HasMore = (0 <s l \<and> k + l <s of_nat tot)\<rparr>)))"

definition discovery_get where
  "discovery_get s k w = respond 200 (GetRunWithHosts s w k)"

text \<open>The body is read only when its announced length is positive; the inner \<open>None\<close> is one that is not JSON.\<close>

definition discovery_promote where
  "discovery_promote s k contentLength body w =
     (case (if (0 :: int) < contentLength then body else Some []) of
        None \<Rightarrow> (reject CodeValidation ''request body must be JSON'', w)
      | Some ids \<Rightarrow>
          (case PromoteHosts s \<lparr>pi_RunID = k, pi_HostIDs = ids\<rparr> w of
             ((_, Some err), w) \<Rightarrow> (fail_with err, w)
           | ((ds, None), w) \<Rightarrow> (Body 200 ds, w)))"

end
