(* ===== verification/Discovery_Facts.thy ===== *)
theory Discovery_Facts
  imports Discovery_Service
begin

text \<open>
  What a scan records and what a promotion creates, over tables that behave as documented: a finished run
  has stored exactly the scanned hosts whose address was unknown before, and a promotion that went through
  leaves nothing for a second one.
\<close>

locale discovery_tables =
  runs: gorm_repo "di_runs s" rn_ID runs ErrDiscoveryNotFound discovery_label +
  hosts: gorm_bulk_table "di_hosts s" dh_ID rows +
  devs: device_table "di_devs s" devs
  for s :: "('r, 'h, 'd, 's, 'w) discovery_service" and runs rows devs
begin

lemma hosts_repo: "gorm_repo (gb_table (di_hosts s)) dh_ID rows ErrDiscoveryNotFound"
  by (intro gorm_repo.intro gorm_repo_axioms.intro hosts.gorm_table_axioms) simp

definition known :: "'h \<Rightarrow> string \<Rightarrow> bool" where
  "known db ip \<longleftrightarrow> (\<exists>k h. rows db k = Some h \<and> dh_IPAddress h = ip)"

lemma HostExistsByIP_known:
  assumes "HostExistsByIP (di_hosts s) db ip = Inr b"
  shows "b = known db ip"
proof -
  from assms obtain hs where f: "db_Find (gb_table (di_hosts s)) db (\<lambda>h. dh_IPAddress h = ip) = Inr hs" "b = (hs \<noteq> [])"
    by (auto simp: HostExistsByIP_def map_sum_Inr)
  from hosts.Find_ok [OF f(1)] have "set hs = {h. rows db (dh_ID h) = Some h \<and> dh_IPAddress h = ip}" by simp
  then have "hs \<noteq> [] \<longleftrightarrow> (\<exists>h. rows db (dh_ID h) = Some h \<and> dh_IPAddress h = ip)" by (auto simp flip: set_empty)
  then show ?thesis using f(2) by (auto simp: known_def dest: hosts.rows_key)
qed

lemma fresh_hosts_unknown:
  "fresh_hosts s db hs = Inr fresh \<Longrightarrow> fresh = filter (\<lambda>h. \<not> known db (sh_IPAddress h)) hs"
  by (induction hs arbitrary: fresh) (auto simp: map_sum_Inr dest!: HostExistsByIP_known split: sum.splits if_splits)

definition stored_as :: "discovery_run \<Rightarrow> 'h \<Rightarrow> string \<Rightarrow> scan_host \<Rightarrow> bool" where
  "stored_as r db k h \<longleftrightarrow> (\<exists>row. rows db k = Some row \<and> dh_IPAddress row = sh_IPAddress h
     \<and> dh_Hostname row = sh_Hostname h \<and> dh_RunID row = rn_ID r \<and> dh_Promoted row = None)"

lemma CreateHost_row:
  assumes "CreateHost (di_hosts s) k db (new_host r h res) = Inr (row, db')"
  shows "rows db (dh_ID row) = None \<and> rows db' = (rows db)(dh_ID row \<mapsto> row) \<and> stored_as r db' (dh_ID row) h"
proof -
  let ?row = "(new_host r h res)\<lparr>dh_ID := BaseModel_BeforeCreate k (dh_ID (new_host r h res))\<rparr>"
  from assms have c: "repo_Create (gb_table (di_hosts s)) (discovery_label ''CreateHost'') db ?row = Inr db'" "row = ?row"
    by (auto simp: CreateHost_def Let_def map_sum_Inr)
  from gorm_repo.Create_row [OF hosts_repo c(1)] c(2) show ?thesis
    by (simp add: stored_as_def new_host_def Let_def)
qed

lemma store_hosts_new:
  assumes "store_hosts s r hs w = (None, w')"
  shows "dw_runs w' = dw_runs w \<and> dw_devs w' = dw_devs w \<and>
    (\<exists>ks. distinct ks \<and> (\<forall>k\<in>set ks. rows (dw_hosts w) k = None)
      \<and> (\<forall>k. k \<notin> set ks \<longrightarrow> rows (dw_hosts w') k = rows (dw_hosts w) k)
      \<and> list_all2 (stored_as r (dw_hosts w')) ks hs)"
  using assms
proof (induction hs arbitrary: w)
  case Nil
  then show ?case by (auto intro: exI [of _ "[]"])
next
  case (Cons h hs)
  obtain res env where p: "di_probe s h (dw_env w) = (res, env)" by fastforce
  obtain k env' where n: "di_newID s env = (k, env')" by fastforce
  from Cons.prems p n obtain row db where c: "CreateHost (di_hosts s) k (dw_hosts w) (new_host r h res) = Inr (row, db)"
    and rest: "store_hosts s r hs (w\<lparr>dw_env := env', dw_hosts := db\<rparr>) = (None, w')"
    by (auto split: sum.splits prod.splits)
  note row = CreateHost_row [OF c]
  from Cons.IH [OF rest] obtain ks where ks: "distinct ks" "\<forall>k\<in>set ks. rows db k = None"
      "\<forall>k. k \<notin> set ks \<longrightarrow> rows (dw_hosts w') k = rows db k" "list_all2 (stored_as r (dw_hosts w')) ks hs"
    and same: "dw_runs w' = dw_runs w" "dw_devs w' = dw_devs w" by auto
  from ks(2) row have new: "dh_ID row \<notin> set ks" by (metis fun_upd_same option.distinct(1))
  with ks(3) row have "stored_as r (dw_hosts w') (dh_ID row) h" by (auto simp: stored_as_def)
  moreover have "\<forall>x\<in>set (dh_ID row # ks). rows (dw_hosts w) x = None" using ks(2) row by (auto split: if_splits)
  moreover have "\<forall>x. x \<notin> set (dh_ID row # ks) \<longrightarrow> rows (dw_hosts w') x = rows (dw_hosts w) x" using ks(3) row by simp
  ultimately show ?case using ks(1,4) new same by (intro conjI exI [of _ "dh_ID row # ks"]) simp_all
qed

lemma discovery_emit_sel [simp]:
  "dw_runs (discovery_emit s t k md w) = dw_runs w" "dw_hosts (discovery_emit s t k md w) = dw_hosts w"
  "dw_devs (discovery_emit s t k md w) = dw_devs w"
  by (simp_all add: discovery_emit_def)

lemma mark_failed_status: "mark_failed s r w = (r', w') \<Longrightarrow> rn_Status r' = RunStatusFailed"
  by (auto simp: mark_failed_def Let_def split: prod.splits)

lemma run_scan_finished:
  assumes "run_scan s r w = ((r', None), w')" "rn_Status r' \<noteq> RunStatusFailed"
  shows "\<exists>hs fresh env now. di_scan s (rn_CIDR r) (dw_env w) = (Inr hs, env)
    \<and> fresh = filter (\<lambda>h. \<not> known (dw_hosts w) (sh_IPAddress h)) hs
    \<and> r' = r\<lparr>rn_CompletedAt := Some now, rn_HostsFound := int (length fresh),
              rn_Status := (if fresh = [] then RunStatusEmpty else RunStatusCompleted)\<rparr>
    \<and> runs (dw_runs w') (rn_ID r) = Some r'
    \<and> (\<exists>ks. distinct ks \<and> (\<forall>k\<in>set ks. rows (dw_hosts w) k = None)
        \<and> (\<forall>k. k \<notin> set ks \<longrightarrow> rows (dw_hosts w') k = rows (dw_hosts w) k)
        \<and> list_all2 (stored_as r (dw_hosts w')) ks fresh)"
proof -
  obtain a env where sc: "di_scan s (rn_CIDR r) (dw_env w) = (a, env)" by fastforce
  from assms sc obtain hs where hs: "a = Inr hs"
    by (cases a) (auto simp: run_scan_def dest: mark_failed_status split: prod.splits)
  obtain b where fr: "fresh_hosts s (dw_hosts w) hs = b" by simp
  from assms sc hs fr obtain fresh where b: "b = Inr fresh"
    by (cases b) (auto simp: run_scan_def Let_def split: prod.splits)
  obtain e w1 where st: "store_hosts s r fresh (w\<lparr>dw_env := env\<rparr>) = (e, w1)" by fastforce
  obtain now env' where cl: "di_clock s (dw_env w1) = (now, env')" by fastforce
  from assms(1) sc hs fr b st have e: "e = None"
    by (cases e) (auto simp: run_scan_def Let_def split: prod.splits)
  let ?r = "r\<lparr>rn_CompletedAt := Some now, rn_HostsFound := int (length fresh),
    rn_Status := (if fresh = [] then RunStatusEmpty else RunStatusCompleted)\<rparr>"
  from assms(1) sc hs fr b st e cl obtain db where u: "UpdateRun (di_runs s) (dw_runs w1) ?r = Inr db" and r': "r' = ?r"
    and w': "dw_runs w' = db" "dw_hosts w' = dw_hosts w1"
    by (auto simp: run_scan_def Let_def split: prod.splits sum.splits)
  from u have "runs db (rn_ID r) = Some ?r" by (auto simp: UpdateRun_def dest: runs.Update_row)
  then show ?thesis
    using sc hs fr b fresh_hosts_unknown [OF fr [unfolded b]] store_hosts_new [OF st [unfolded e]] r' w' by auto
qed

text \<open>Promotion: the hosts that are selected and not yet promoted.\<close>

definition wanted :: "string list \<Rightarrow> discovered_host \<Rightarrow> bool" where
  "wanted ids h \<longleftrightarrow> ids = [] \<or> dh_ID h \<in> set ids"

lemma promote_loop_idle:
  "(\<And>h. h \<in> set hs \<Longrightarrow> wanted ids h \<Longrightarrow> dh_Promoted h \<noteq> None) \<Longrightarrow> promote_loop s r ids hs w = (([], None), w)"
  by (induction hs) (auto simp: wanted_def)

lemma UpdateHost_row:
  "UpdateHost (di_hosts s) db h = Inr db' \<Longrightarrow> rows db' = (rows db)(dh_ID h \<mapsto> h)"
  using gorm_repo.Update_row [OF hosts_repo] by (auto simp: UpdateHost_def)

lemma promote_loop_skips:
  "promote_loop s r ids hs w = promote_loop s r ids (filter (\<lambda>h. wanted ids h \<and> dh_Promoted h = None) hs) w"
proof (induction hs arbitrary: w)
  case (Cons h hs)
  show ?case
    by (cases "wanted ids h \<and> dh_Promoted h = None")
      (simp_all add: Cons.IH wanted_def split del: if_split cong: if_cong sum.case_cong prod.case_cong,
       auto simp: wanted_def Cons.IH)
qed simp

text \<open>The device made from a host, and what a promotion of the hosts \<open>hs\<close> leaves that went through.\<close>

definition device_of :: "discovered_host \<Rightarrow> device \<Rightarrow> bool" where
  "device_of h d \<longleftrightarrow> d = (buildDevice h)\<lparr>dv_ID := dv_ID d\<rparr>"

definition promoted_from ::
    "discovered_host list \<Rightarrow> device list \<Rightarrow> ('r, 'h, 'd, 'w) discovery_world \<Rightarrow> ('r, 'h, 'd, 'w) discovery_world \<Rightarrow> bool" where
  "promoted_from hs ds w w' \<longleftrightarrow>
     list_all2 (\<lambda>h d. device_of h d \<and> rows (dw_hosts w') (dh_ID h) = Some (h\<lparr>dh_Promoted := Some (dv_ID d)\<rparr>)
       \<and> devs (dw_devs w) (dv_ID d) = None \<and> devs (dw_devs w') (dv_ID d) = Some d) hs ds
     \<and> distinct (map dv_ID ds)
     \<and> (\<forall>k. k \<notin> dh_ID ` set hs \<longrightarrow> rows (dw_hosts w') k = rows (dw_hosts w) k)
     \<and> (\<forall>k. k \<notin> dv_ID ` set ds \<longrightarrow> devs (dw_devs w') k = devs (dw_devs w) k)"

lemma promote_loop_promotes:
  assumes "promote_loop s r ids hs w = ((ds, None), w')" "distinct (map dh_ID hs)"
    and "\<And>h. h \<in> set hs \<Longrightarrow> wanted ids h \<and> dh_Promoted h = None"
  shows "promoted_from hs ds w w'"
  using assms
proof (induction hs arbitrary: w ds)
  case Nil
  then show ?case by (simp add: promoted_from_def)
next
  case (Cons h hs)
  have sel: "\<not> (ids \<noteq> [] \<and> dh_ID h \<notin> set ids)" "dh_Promoted h = None" using Cons.prems(3) [of h] by (auto simp: wanted_def)
  obtain k env where n: "di_newID s (dw_env w) = (k, env)" by fastforce
  from sel Cons.prems(1) n obtain d ddb where c: "Device_repo_Create (di_devs s) k (dw_devs w) (buildDevice h) = Inr (d, ddb)"
    by (cases "Device_repo_Create (di_devs s) k (dw_devs w) (buildDevice h)") auto
  let ?h = "h\<lparr>dh_Promoted := Some (dv_ID d)\<rparr>"
  from sel Cons.prems(1) n c obtain hdb where u: "UpdateHost (di_hosts s) (dw_hosts w) ?h = Inr hdb"
    by (cases "UpdateHost (di_hosts s) (dw_hosts w) ?h") (auto simp: Let_def)
  let ?w = "discovery_emit s ''discovery_host'' (dh_ID h)
    (Some [(''run_id'', JString (rn_ID r)), (''device_id'', JString (dv_ID d)), (''ip'', JString (dh_IPAddress h))])
    (w\<lparr>dw_env := env, dw_devs := ddb, dw_hosts := hdb\<rparr>)"
  from sel Cons.prems(1) n c u obtain ds' where rest: "promote_loop s r ids hs ?w = ((ds', None), w')" and ds: "ds = d # ds'"
    by (auto simp: Let_def split: prod.splits)
  from Cons.IH [OF rest] Cons.prems(2,3) have IH: "promoted_from hs ds' ?w w'" by simp
  have hrows: "rows (dw_hosts ?w) = (rows (dw_hosts w))(dh_ID h \<mapsto> ?h)" using UpdateHost_row [OF u] by simp
  from c have made: "device_of h d" and cr: "repo_Create (di_devs s) (device_label ''Create'') (dw_devs w) d = Inr ddb"
    by (auto simp: Device_repo_Create_def Let_def map_sum_Inr device_of_def Device_BeforeCreate_def buildDevice_def)
  from devs.Create_row [OF cr]
  have drows: "devs (dw_devs w) (dv_ID d) = None" "devs (dw_devs ?w) = (devs (dw_devs w))(dv_ID d \<mapsto> d)" by simp_all
  have new: "devs (dw_devs w) (dv_ID x) = None" "dv_ID x \<noteq> dv_ID d" if "x \<in> set ds'" for x
    using that IH drows by (auto simp: promoted_from_def list_all2_conv_all_nth in_set_conv_nth split: if_splits)
  have "list_all2 (\<lambda>h d. device_of h d \<and> rows (dw_hosts w') (dh_ID h) = Some (h\<lparr>dh_Promoted := Some (dv_ID d)\<rparr>)
       \<and> devs (dw_devs w) (dv_ID d) = None \<and> devs (dw_devs w') (dv_ID d) = Some d) hs ds'"
    using IH new(1) by (auto simp: promoted_from_def list_all2_conv_all_nth)
  moreover have nd: "dv_ID d \<notin> dv_ID ` set ds'" using new(2) by (metis imageE)
  moreover have nh: "dh_ID h \<notin> dh_ID ` set hs" using Cons.prems(2) by simp
  ultimately show ?case
    using IH drows hrows made unfolding promoted_from_def ds by simp
qed

lemma ListHostsByRun_rows:
  assumes "ListHostsByRun (di_hosts s) db k = Inr hs"
  shows "distinct (map dh_ID hs)" "\<And>h. h \<in> set hs \<longleftrightarrow> rows db (dh_ID h) = Some h \<and> dh_RunID h = k"
  using hosts.Find_ok [of db "\<lambda>h. dh_RunID h = k" hs] assms by (auto simp: ListHostsByRun_def map_sum_Inr)

lemma PromoteHosts_promotes:
  assumes "PromoteHosts s inp w = ((ds, None), w')"
  shows "\<exists>hs. distinct (map dh_ID hs)
    \<and> set hs = {h. rows (dw_hosts w) (dh_ID h) = Some h \<and> dh_RunID h = pi_RunID inp \<and> wanted (pi_HostIDs inp) h
        \<and> dh_Promoted h = None}
    \<and> promoted_from hs ds w w'"
proof -
  from assms obtain r hs where g: "Discovery_GetRun s w (pi_RunID inp) = Inr r"
    and l: "ListHostsByRun (di_hosts s) (dw_hosts w) (rn_ID r) = Inr hs"
    and p: "promote_loop s r (pi_HostIDs inp) hs w = ((ds, None), w')"
    by (auto simp: PromoteHosts_def split: sum.splits)
  from g have k: "rn_ID r = pi_RunID inp"
    by (auto simp: Discovery_GetRun_def Discovery_repo_GetRun_def dest: runs.Get_row split: sum.splits)
  let ?hs = "filter (\<lambda>h. wanted (pi_HostIDs inp) h \<and> dh_Promoted h = None) hs"
  have "distinct (map dh_ID ?hs)" using ListHostsByRun_rows(1) [OF l] by (rule distinct_map_filter)
  moreover have "promoted_from ?hs ds w w'"
    using p unfolding promote_loop_skips [of _ _ hs] by (rule promote_loop_promotes) (use calculation in auto)
  moreover have "set ?hs = {h. rows (dw_hosts w) (dh_ID h) = Some h \<and> dh_RunID h = pi_RunID inp
      \<and> wanted (pi_HostIDs inp) h \<and> dh_Promoted h = None}"
    using ListHostsByRun_rows(2) [OF l] k by auto
  ultimately show ?thesis by blast
qed

lemma promote_again:
  assumes "promoted_from hs ds w w'"
    and "set hs = {h. rows (dw_hosts w) (dh_ID h) = Some h \<and> dh_RunID h = pi_RunID inp \<and> wanted (pi_HostIDs inp) h
        \<and> dh_Promoted h = None}"
    and "dw_hosts u = dw_hosts w'" "PromoteHosts s inp u = (res, v)"
  shows "fst res = [] \<and> dw_devs v = dw_devs u \<and> dw_hosts v = dw_hosts u"
proof -
  have marked: "dh_Promoted h \<noteq> None" if "rows (dw_hosts u) (dh_ID h) = Some h" "dh_RunID h = pi_RunID inp"
      "wanted (pi_HostIDs inp) h" for h
  proof (cases "dh_ID h \<in> dh_ID ` set hs")
    case True
    then obtain i where i: "i < length hs" "dh_ID h = dh_ID (hs ! i)" by (auto simp: in_set_conv_nth)
    have "rows (dw_hosts w') (dh_ID (hs ! i)) = Some ((hs ! i)\<lparr>dh_Promoted := Some (dv_ID (ds ! i))\<rparr>)"
      using assms(1) [unfolded promoted_from_def, THEN conjunct1] i(1) by (blast dest: list_all2_nthD)
    with that(1) i(2) assms(3) have "h = (hs ! i)\<lparr>dh_Promoted := Some (dv_ID (ds ! i))\<rparr>" by simp
    then show ?thesis by (metis discovered_host.select_convs(7) discovered_host.surjective discovered_host.update_convs(7) option.distinct(1))
  next
    case False
    then have "rows (dw_hosts w) (dh_ID h) = Some h" using assms(1,3) that(1) by (simp add: promoted_from_def)
    moreover have "h \<notin> set hs" using False by blast
    ultimately show ?thesis using that(2,3) unfolding assms(2) by simp
  qed
  show ?thesis
  proof (cases "Discovery_GetRun s u (pi_RunID inp)")
    case (Inl e)
    then show ?thesis using assms(4) by (auto simp: PromoteHosts_def)
  next
    case run: (Inr r)
    then have k: "rn_ID r = pi_RunID inp"
      by (auto simp: Discovery_GetRun_def Discovery_repo_GetRun_def dest: runs.Get_row split: sum.splits)
    show ?thesis
    proof (cases "ListHostsByRun (di_hosts s) (dw_hosts u) (rn_ID r)")
      case (Inl e)
      then show ?thesis using assms(4) run by (auto simp: PromoteHosts_def)
    next
      case (Inr l)
      have "promote_loop s r (pi_HostIDs inp) l u = (([], None), u)"
        by (rule promote_loop_idle) (use marked ListHostsByRun_rows [OF Inr] k in auto)
      then show ?thesis using assms(4) run Inr by (auto simp: PromoteHosts_def)
    qed
  qed
qed

end

interpretation mem_discovery: discovery_tables
    "\<lparr>di_runs = mem_gorm rn_ID, di_hosts = soft_gorm dh_ID dh_ID ''UNIQUE constraint failed'', di_devs = mem_gorm dv_ID,
       di_scan = scan, di_probe = probe, di_clock = clock, di_newID = newID, di_audit = aud\<rparr>"
    "mem_rows rn_ID" "\<lambda>db. mem_rows dh_ID (fst db)" "mem_rows dv_ID"
  for scan probe clock newID aud
  by (intro discovery_tables.intro gorm_repo.intro gorm_repo_axioms.intro)
    (simp_all add: mem.gorm_table_axioms soft.gorm_bulk_table_axioms mem_devices.device_table_axioms)

subsection \<open>Scans\<close>

text \<open>
  C36: a finished scan records the new hosts. When a run is started without an error and does not end as failed,
  the scanner has answered; the hosts stored for the run are those of its answer whose address was not in the
  table, each in a row of its own, in the state that is not promoted; every other row is as before; and
  the stored run shows their number and is completed or, without any, empty. An address that the scanner
  reports twice is stored twice. A scan that answers with live hosts all of which are known is therefore
  recorded as empty with no hosts found, although the model's comments reserve the state for a range without
  live hosts and make the number the distinct live hosts of the scan.
\<close>

theorem scan_records_new_hosts:
  assumes "gorm_table (di_runs s) rn_ID runs" "gorm_bulk_table (di_hosts s) dh_ID rows" "gorm_table (di_devs s) dv_ID devs"
    and "StartRun s inp w = ((Some r, None), w')" "rn_Status r \<noteq> RunStatusFailed"
  shows "\<exists>hs fresh env env'. di_scan s (TrimSpace (si_CIDR inp)) env = (Inr hs, env')
    \<and> fresh = filter (\<lambda>h. \<nexists>k row. rows (dw_hosts w) k = Some row \<and> dh_IPAddress row = sh_IPAddress h) hs
    \<and> runs (dw_runs w') (rn_ID r) = Some r \<and> rn_HostsFound r = int (length fresh)
    \<and> rn_Status r = (if fresh = [] then RunStatusEmpty else RunStatusCompleted)
    \<and> ((\<forall>h\<in>set hs. \<exists>k row. rows (dw_hosts w) k = Some row \<and> dh_IPAddress row = sh_IPAddress h) \<longrightarrow>
         rn_Status r = RunStatusEmpty \<and> rn_HostsFound r = 0)
    \<and> (\<exists>ks. distinct ks \<and> (\<forall>k\<in>set ks. rows (dw_hosts w) k = None)
        \<and> (\<forall>k. k \<notin> set ks \<longrightarrow> rows (dw_hosts w') k = rows (dw_hosts w) k)
        \<and> list_all2 (\<lambda>k h. \<exists>row. rows (dw_hosts w') k = Some row \<and> dh_IPAddress row = sh_IPAddress h
            \<and> dh_Hostname row = sh_Hostname h \<and> dh_RunID row = rn_ID r \<and> dh_Promoted row = None) ks fresh)"
proof -
  have t: "discovery_tables s runs rows devs"
    by (intro discovery_tables.intro gorm_repo.intro gorm_repo_axioms.intro device_table.intro assms(1-3)) simp
  from assms(4) obtain r0 w0 where scan: "run_scan s r0 w0 = ((r, None), w')" and w0: "dw_hosts w0 = dw_hosts w"
    and c: "rn_CIDR r0 = TrimSpace (si_CIDR inp)"
    by (auto simp: StartRun_def Discovery_CreateRun_def Run_BeforeCreate_def Let_def map_sum_Inr split: if_splits prod.splits sum.splits)
  show ?thesis
  proof -
    from discovery_tables.run_scan_finished [OF t scan assms(5),
        unfolded discovery_tables.known_def [OF t] discovery_tables.stored_as_def [OF t] w0 c]
    obtain hs fresh env now ks where f: "di_scan s (TrimSpace (si_CIDR inp)) (dw_env w0) = (Inr hs, env)"
        "fresh = filter (\<lambda>h. \<nexists>k row. rows (dw_hosts w) k = Some row \<and> dh_IPAddress row = sh_IPAddress h) hs"
      and r: "r = r0\<lparr>rn_CompletedAt := Some now, rn_HostsFound := int (length fresh),
          rn_Status := (if fresh = [] then RunStatusEmpty else RunStatusCompleted)\<rparr>" "runs (dw_runs w') (rn_ID r0) = Some r"
      and ks: "distinct ks" "\<forall>k\<in>set ks. rows (dw_hosts w) k = None"
        "\<forall>k. k \<notin> set ks \<longrightarrow> rows (dw_hosts w') k = rows (dw_hosts w) k"
        "list_all2 (\<lambda>k h. \<exists>row. rows (dw_hosts w') k = Some row \<and> dh_IPAddress row = sh_IPAddress h
            \<and> dh_Hostname row = sh_Hostname h \<and> dh_RunID row = rn_ID r0 \<and> dh_Promoted row = None) ks fresh"
      by (elim exE conjE) (rule that; assumption)
    from r have i: "rn_ID r = rn_ID r0" "rn_HostsFound r = int (length fresh)"
      "rn_Status r = (if fresh = [] then RunStatusEmpty else RunStatusCompleted)" by simp_all
    have "(\<forall>h\<in>set hs. \<exists>k row. rows (dw_hosts w) k = Some row \<and> dh_IPAddress row = sh_IPAddress h) \<longrightarrow> fresh = []"
      unfolding f(2) by simp
    with i have e: "(\<forall>h\<in>set hs. \<exists>k row. rows (dw_hosts w) k = Some row \<and> dh_IPAddress row = sh_IPAddress h) \<longrightarrow>
        rn_Status r = RunStatusEmpty \<and> rn_HostsFound r = 0" by simp
    show ?thesis
      by (intro exI [of _ hs] exI [of _ fresh] exI [of _ "dw_env w0"] exI [of _ env] conjI exI [of _ ks])
        (use f r(2) ks i e in simp_all)
  qed
qed

definition demo_discovery ::
    "(discovery_run list, discovered_host list \<times> string list, device list, unit, nat) discovery_service" where
  "demo_discovery =
     \<lparr>di_runs = mem_gorm rn_ID, di_hosts = soft_gorm dh_ID dh_ID ''UNIQUE constraint failed'', di_devs = mem_gorm dv_ID,
      di_scan = (\<lambda>cidr n. (FakeScanner_Scan None
        \<lparr>fs_hosts = [\<lparr>sh_IPAddress = ''10.0.0.1'', sh_Hostname = ''''\<rparr>, \<lparr>sh_IPAddress = ''10.0.0.2'', sh_Hostname = ''web''\<rparr>],
         fs_err = None\<rparr> cidr, n)),
      di_probe = (\<lambda>h n. (FakeProber_Probe None \<lparr>fp_results = Map.empty, fp_err = None\<rparr> h, n)),
      di_clock = (\<lambda>n. (Time (int n), n)), di_newID = (\<lambda>n. (replicate (Suc n) CHR ''x'', Suc n)), di_audit = None\<rparr>"

definition seen_host :: discovered_host where
  "seen_host = \<lparr>dh_ID = ''old'', dh_RunID = ''before'', dh_IPAddress = ''10.0.0.1'', dh_Hostname = '''', dh_OpenPorts = None,
     dh_SNMPSysDescr = '''', dh_Promoted = None\<rparr>"

definition demo_network :: "(discovery_run list, discovered_host list \<times> string list, device list, nat) discovery_world" where
  "demo_network = \<lparr>dw_runs = [], dw_hosts = ([seen_host], []), dw_devs = [], dw_env = 0\<rparr>"

definition demo_scan_run :: discovery_run where
  "demo_scan_run = \<lparr>rn_ID = ''x'', rn_CIDR = ''10.0.0.0/30'', rn_StartedAt = Time 0, rn_CompletedAt = Some (Time 2),
     rn_HostsFound = 1, rn_Status = RunStatusCompleted\<rparr>"

definition demo_host :: discovered_host where
  "demo_host = \<lparr>dh_ID = ''xx'', dh_RunID = ''x'', dh_IPAddress = ''10.0.0.2'', dh_Hostname = ''web'',
     dh_OpenPorts = Some [(''tcp'', JArray [])], dh_SNMPSysDescr = '''', dh_Promoted = None\<rparr>"

definition scanned_network :: "(discovery_run list, discovered_host list \<times> string list, device list, nat) discovery_world" where
  "scanned_network = \<lparr>dw_runs = [demo_scan_run], dw_hosts = ([demo_host, seen_host], []), dw_devs = [], dw_env = 2\<rparr>"

lemma demo_scan:
  "StartRun demo_discovery \<lparr>si_CIDR = ''10.0.0.0/30'', si_Ports = [], si_SNMP = False\<rparr> demo_network
     = ((Some demo_scan_run, None), scanned_network)"
proof -
  have c: "TrimSpace ''10.0.0.0/30'' = ''10.0.0.0/30''" "ParseCIDR ''10.0.0.0/30''
      = Some (v4InV6Prefix @ [10, 0, 0, 0], \<lparr>in_IP = [10, 0, 0, 0], in_Mask = [255, 255, 255, 252]\<rparr>)"
    by (code_simp, code_simp)
  show ?thesis using c(2)
    by (auto simp: StartRun_def c(1) demo_discovery_def demo_network_def Discovery_CreateRun_def Run_BeforeCreate_def Let_def
      repo_defs mem_calls BaseModel_BeforeCreate_def run_scan_def FakeScanner_Scan_def HostExistsByIP_def soft_calls
      mem_live_def seen_host_def List.map_filter_simps CreateHost_def new_host_def FakeProber_Probe_def unreachable_probe_def
      UpdateRun_def discovery_emit_def demo_scan_run_def scanned_network_def demo_host_def soft_index_def numeral_eq_Suc)
qed

theorem scan_records_new_hosts_witness:
  "\<exists>ks. list_all2 (\<lambda>k h. \<exists>row. mem_rows dh_ID (fst (dw_hosts scanned_network)) k = Some row \<and> dh_IPAddress row = sh_IPAddress h
       \<and> dh_RunID row = ''x'') ks
     (filter (\<lambda>h. sh_IPAddress h \<noteq> ''10.0.0.1'')
        [\<lparr>sh_IPAddress = ''10.0.0.1'', sh_Hostname = ''''\<rparr>, \<lparr>sh_IPAddress = ''10.0.0.2'', sh_Hostname = ''web''\<rparr>])"
proof -
  have g: "gorm_table (di_runs demo_discovery) rn_ID (mem_rows rn_ID)"
    "gorm_bulk_table (di_hosts demo_discovery) dh_ID (\<lambda>db. mem_rows dh_ID (fst db))"
    "gorm_table (di_devs demo_discovery) dv_ID (mem_rows dv_ID)"
    by (simp_all add: demo_discovery_def mem.gorm_table_axioms soft.gorm_bulk_table_axioms)
  have s: "rn_Status demo_scan_run \<noteq> RunStatusFailed" "rn_ID demo_scan_run = ''x''" by (simp_all add: demo_scan_run_def)
  have w: "(\<exists>k row. mem_rows dh_ID (fst (dw_hosts demo_network)) k = Some row \<and> dh_IPAddress row = ip) \<longleftrightarrow> ip = ''10.0.0.1''" for ip
    by (auto simp: demo_network_def seen_host_def)
  show ?thesis
    using scan_records_new_hosts [OF g demo_scan s(1), unfolded w s(2)]
    by (auto simp: demo_discovery_def FakeScanner_Scan_def intro: list_all2_mono)
qed

subsection \<open>Promotions\<close>

text \<open>
  C37: a host is promoted once. A promotion that goes through makes one device for each host of the run that is
  selected and names no device yet, and returns these devices: the device of a host has a row that was not there
  before, its own among the new ones, carries the host's name (the address when there is none), address and type,
  and is the one the host's row names afterwards, with everything else of the row as it was. Every other host row
  and every other device row is as before. A later promotion of the same selection, with the rows of the hosts as
  the first one left them, creates nothing.
\<close>

theorem hosts_are_promoted_once:
  assumes "gorm_table (di_runs s) rn_ID runs" "gorm_bulk_table (di_hosts s) dh_ID rows" "gorm_table (di_devs s) dv_ID devs"
    and "PromoteHosts s inp w = ((ds, None), w')"
  shows "(\<exists>hs. distinct (map dh_ID hs)
      \<and> set hs = {h. rows (dw_hosts w) (dh_ID h) = Some h \<and> dh_RunID h = pi_RunID inp
          \<and> (pi_HostIDs inp = [] \<or> dh_ID h \<in> set (pi_HostIDs inp)) \<and> dh_Promoted h = None}
      \<and> list_all2 (\<lambda>h d. dv_Name d = (if dh_Hostname h = '''' then dh_IPAddress h else dh_Hostname h)
          \<and> dv_Type d = (if dh_SNMPSysDescr h = '''' then ''physical_host'' else ''network_device'')
          \<and> dv_State d = ''online''
          \<and> dv_Labels d = Some [(''discovered_from'', JString ''network_scan''), (''ip'', JString (dh_IPAddress h))]
          \<and> devs (dw_devs w) (dv_ID d) = None \<and> devs (dw_devs w') (dv_ID d) = Some d
          \<and> rows (dw_hosts w') (dh_ID h) = Some (h\<lparr>dh_Promoted := Some (dv_ID d)\<rparr>)) hs ds
      \<and> (\<forall>k. k \<notin> dh_ID ` set hs \<longrightarrow> rows (dw_hosts w') k = rows (dw_hosts w) k))
    \<and> distinct (map dv_ID ds)
    \<and> (\<forall>k. k \<notin> dv_ID ` set ds \<longrightarrow> devs (dw_devs w') k = devs (dw_devs w) k)
    \<and> (\<forall>u v res. dw_hosts u = dw_hosts w' \<longrightarrow> PromoteHosts s inp u = (res, v) \<longrightarrow>
         fst res = [] \<and> dw_devs v = dw_devs u \<and> dw_hosts v = dw_hosts u)"
proof -
  have t: "discovery_tables s runs rows devs"
    by (intro discovery_tables.intro gorm_repo.intro gorm_repo_axioms.intro device_table.intro assms(1-3)) simp
  from discovery_tables.PromoteHosts_promotes [OF t assms(4)] obtain hs where d: "distinct (map dh_ID hs)"
    and hs: "set hs = {h. rows (dw_hosts w) (dh_ID h) = Some h \<and> dh_RunID h = pi_RunID inp
        \<and> discovery_tables.wanted (pi_HostIDs inp) h \<and> dh_Promoted h = None}"
    and p: "discovery_tables.promoted_from rows devs hs ds w w'" by blast
  note again = discovery_tables.promote_again [OF t p hs]
  note p = p [unfolded discovery_tables.promoted_from_def [OF t] discovery_tables.device_of_def [OF t]]
  have made: "list_all2 (\<lambda>h d. dv_Name d = (if dh_Hostname h = '''' then dh_IPAddress h else dh_Hostname h)
        \<and> dv_Type d = (if dh_SNMPSysDescr h = '''' then ''physical_host'' else ''network_device'')
        \<and> dv_State d = ''online''
        \<and> dv_Labels d = Some [(''discovered_from'', JString ''network_scan''), (''ip'', JString (dh_IPAddress h))]
        \<and> devs (dw_devs w) (dv_ID d) = None \<and> devs (dw_devs w') (dv_ID d) = Some d
        \<and> rows (dw_hosts w') (dh_ID h) = Some (h\<lparr>dh_Promoted := Some (dv_ID d)\<rparr>)) hs ds"
    using p [THEN conjunct1]
  proof (rule list_all2_mono)
    fix h d assume x: "d = (buildDevice h)\<lparr>dv_ID := dv_ID d\<rparr>
        \<and> rows (dw_hosts w') (dh_ID h) = Some (h\<lparr>dh_Promoted := Some (dv_ID d)\<rparr>)
        \<and> devs (dw_devs w) (dv_ID d) = None \<and> devs (dw_devs w') (dv_ID d) = Some d"
    obtain i where d: "d = (buildDevice h)\<lparr>dv_ID := i\<rparr>" using x by blast
    show "dv_Name d = (if dh_Hostname h = '''' then dh_IPAddress h else dh_Hostname h)
        \<and> dv_Type d = (if dh_SNMPSysDescr h = '''' then ''physical_host'' else ''network_device'')
        \<and> dv_State d = ''online''
        \<and> dv_Labels d = Some [(''discovered_from'', JString ''network_scan''), (''ip'', JString (dh_IPAddress h))]
        \<and> devs (dw_devs w) (dv_ID d) = None \<and> devs (dw_devs w') (dv_ID d) = Some d
        \<and> rows (dw_hosts w') (dh_ID h) = Some (h\<lparr>dh_Promoted := Some (dv_ID d)\<rparr>)"
      using x [THEN conjunct2] unfolding d by (simp add: buildDevice_def)
  qed
  have "\<forall>u v res. dw_hosts u = dw_hosts w' \<longrightarrow> PromoteHosts s inp u = (res, v) \<longrightarrow>
      fst res = [] \<and> dw_devs v = dw_devs u \<and> dw_hosts v = dw_hosts u"
    by (intro allI impI) (rule again)
  with d made p hs [unfolded discovery_tables.wanted_def [OF t]] show ?thesis
    by (intro conjI exI [of _ hs]) (elim conjE, assumption)+
qed

definition promoted_device :: device where
  "promoted_device = (buildDevice demo_host)\<lparr>dv_ID := ''xxx''\<rparr>"

definition promoted_network :: "(discovery_run list, discovered_host list \<times> string list, device list, nat) discovery_world" where
  "promoted_network = \<lparr>dw_runs = [demo_scan_run], dw_hosts = ([demo_host\<lparr>dh_Promoted := Some ''xxx''\<rparr>, seen_host], []),
     dw_devs = [promoted_device], dw_env = 3\<rparr>"

lemma demo_promote:
  "PromoteHosts demo_discovery \<lparr>pi_RunID = ''x'', pi_HostIDs = []\<rparr> scanned_network = (([promoted_device], None), promoted_network)"
  by (simp add: PromoteHosts_def Discovery_GetRun_def Discovery_repo_GetRun_def scanned_network_def demo_discovery_def
    repo_defs mem_calls demo_scan_run_def ListHostsByRun_def soft_calls mem_live_def demo_host_def seen_host_def
    List.map_filter_simps Device_repo_Create_def Device_BeforeCreate_def BaseModel_BeforeCreate_def buildDevice_def
    Let_def UpdateHost_def discovery_emit_def promoted_device_def promoted_network_def numeral_eq_Suc)

theorem hosts_are_promoted_once_witness:
  "mem_rows dv_ID (dw_devs promoted_network) ''xxx'' = Some promoted_device
   \<and> fst (fst (PromoteHosts demo_discovery \<lparr>pi_RunID = ''x'', pi_HostIDs = []\<rparr> promoted_network)) = []"
proof -
  have g: "gorm_table (di_runs demo_discovery) rn_ID (mem_rows rn_ID)"
    "gorm_bulk_table (di_hosts demo_discovery) dh_ID (\<lambda>db. mem_rows dh_ID (fst db))"
    "gorm_table (di_devs demo_discovery) dv_ID (mem_rows dv_ID)"
    by (simp_all add: demo_discovery_def mem.gorm_table_axioms soft.gorm_bulk_table_axioms)
  note once = hosts_are_promoted_once [OF g demo_promote]
  have "fst (fst (PromoteHosts demo_discovery \<lparr>pi_RunID = ''x'', pi_HostIDs = []\<rparr> promoted_network)) = []"
    using once [THEN conjunct2, THEN conjunct2, THEN conjunct2, rule_format, OF refl surjective_pairing] by blast
  moreover have "mem_rows dv_ID (dw_devs promoted_network) (dv_ID promoted_device) = Some promoted_device"
    using once [THEN conjunct1] by (auto simp: list_all2_Cons2)
  ultimately show ?thesis by (simp add: promoted_device_def)
qed

end
