(* ===== verification/Catalog.thy ===== *)
theory Catalog
  imports Json_Map Caller Audit_Service
begin

text \<open>
  The service catalogue (\<open>internal/servicecatalog\<close>): services, the on-call rotation and the runbook
  (\<open>models.go\<close>), the repository (\<open>repository.go\<close>) and the business rules (\<open>service.go\<close>). A \<open>fmt.Errorf\<close> that
  puts text after the error it wraps is the wrapped error alone: the model of errors has no place for
  what follows.
\<close>

subsection \<open>Rows\<close>

abbreviation TierCritical :: string where "TierCritical \<equiv> ''critical''"
abbreviation TierImportant :: string where "TierImportant \<equiv> ''important''"
abbreviation TierStandard :: string where "TierStandard \<equiv> ''standard''"

record catalog_service =
  cs_ID :: string
  cs_Name :: string
  cs_Description :: string
  cs_Owner :: string
  cs_RepositoryURL :: string
  cs_Tier :: string

text \<open>The column of the tier has a default, which the database gives to an empty one.\<close>

definition Service_BeforeCreate :: "string \<Rightarrow> catalog_service \<Rightarrow> catalog_service" where
  "Service_BeforeCreate newID s =
     s\<lparr>cs_ID := (if cs_ID s = '''' then newID else cs_ID s),
       cs_Tier := (if cs_Tier s = '''' then TierStandard else cs_Tier s)\<rparr>"

record on_call =
  oc_ID :: string
  oc_ServiceID :: string
  oc_User :: string
  oc_ShiftStart :: time
  oc_ShiftEnd :: time

definition OnCall_BeforeCreate :: "string \<Rightarrow> on_call \<Rightarrow> on_call" where
  "OnCall_BeforeCreate newID s = (if oc_ID s = '''' then s\<lparr>oc_ID := newID\<rparr> else s)"

record runbook_entry =
  rk_ID :: string
  rk_ServiceID :: string
  rk_Title :: string
  rk_Body :: string

definition Runbook_BeforeCreate :: "string \<Rightarrow> runbook_entry \<Rightarrow> runbook_entry" where
  "Runbook_BeforeCreate newID e = (if rk_ID e = '''' then e\<lparr>rk_ID := newID\<rparr> else e)"

subsection \<open>The repository\<close>

abbreviation ErrCatalogNotFound :: go_error where
  "ErrCatalogNotFound \<equiv> Sentinel ''servicecatalog: not found''"
abbreviation ErrCatalogConflict :: go_error where
  "ErrCatalogConflict \<equiv> Sentinel ''servicecatalog: conflict''"
abbreviation ErrCatalogValidation :: go_error where
  "ErrCatalogValidation \<equiv> Sentinel ''servicecatalog: validation''"
abbreviation ErrCatalogUnauthenticated :: go_error where
  "ErrCatalogUnauthenticated \<equiv> Sentinel ''servicecatalog: unauthenticated''"
abbreviation ErrCatalogForbidden :: go_error where
  "ErrCatalogForbidden \<equiv> Sentinel ''servicecatalog: forbidden''"

abbreviation catalog_label :: "string \<Rightarrow> string" where
  "catalog_label m \<equiv> ''servicecatalog.'' @ m @ '': ''"

definition Catalog_IsNotFound :: "go_error \<Rightarrow> bool" where
  "Catalog_IsNotFound err \<longleftrightarrow> errors_Is err ErrCatalogNotFound"

definition Catalog_IsConflict :: "go_error \<Rightarrow> bool" where
  "Catalog_IsConflict err \<longleftrightarrow> errors_Is err ErrCatalogConflict"

definition Catalog_IsValidation :: "go_error \<Rightarrow> bool" where
  "Catalog_IsValidation err \<longleftrightarrow> errors_Is err ErrCatalogValidation"

definition Catalog_repo_Create ::
    "('s, catalog_service) gorm \<Rightarrow> string \<Rightarrow> 's \<Rightarrow> catalog_service \<Rightarrow> (catalog_service \<times> 's) result" where
  "Catalog_repo_Create g newID db s =
     (let s = Service_BeforeCreate newID s
      in map_sum (\<lambda>e. e) (Pair s) (repo_Create g (catalog_label ''Create'') db s))"

definition Catalog_repo_Get :: "('s, catalog_service) gorm \<Rightarrow> 's \<Rightarrow> string \<Rightarrow> catalog_service result" where
  "Catalog_repo_Get g db k = repo_Get g ErrCatalogNotFound db k"

text \<open>\<open>Updates\<close> with a struct writes the fields that are not empty.\<close>

definition nonzero_fields :: "catalog_service \<Rightarrow> catalog_service \<Rightarrow> catalog_service" where
  "nonzero_fields s row =
     row\<lparr>cs_Name := (if cs_Name s = '''' then cs_Name row else cs_Name s),
         cs_Description := (if cs_Description s = '''' then cs_Description row else cs_Description s),
         cs_Owner := (if cs_Owner s = '''' then cs_Owner row else cs_Owner s),
         cs_RepositoryURL := (if cs_RepositoryURL s = '''' then cs_RepositoryURL row else cs_RepositoryURL s),
         cs_Tier := (if cs_Tier s = '''' then cs_Tier row else cs_Tier s)\<rparr>"

definition Catalog_repo_Update :: "('s, catalog_service) gorm \<Rightarrow> 's \<Rightarrow> catalog_service \<Rightarrow> 's result" where
  "Catalog_repo_Update g db s =
     repo_Patch g (catalog_label ''Update'') ErrCatalogNotFound db (cs_ID s) (nonzero_fields s)"

definition Catalog_repo_SoftDelete :: "('s, catalog_service) gorm \<Rightarrow> 's \<Rightarrow> string \<Rightarrow> 's result" where
  "Catalog_repo_SoftDelete g db k = repo_Delete g (catalog_label ''SoftDelete'') ErrCatalogNotFound db k"

definition lowerASCII :: "string \<Rightarrow> string" where
  "lowerASCII s = map (\<lambda>c. if (65 :: nat) \<le> of_char c \<and> of_char c \<le> (90 :: nat) then char_of (of_char c + (32 :: nat)) else c) s"

record service_filter =
  sf_Tier :: string
  sf_Owner :: string
  sf_Query :: string
  sf_Limit :: int64
  sf_Offset :: int64

text \<open>\<open>like\<close> is the database's \<open>LIKE\<close> and \<open>lower\<close> its \<open>LOWER\<close>.\<close>

definition service_matches ::
    "(string \<Rightarrow> string \<Rightarrow> bool) \<Rightarrow> (string \<Rightarrow> string) \<Rightarrow> service_filter \<Rightarrow> catalog_service \<Rightarrow> bool" where
  "service_matches like lower f s \<longleftrightarrow>
     (sf_Tier f \<noteq> '''' \<longrightarrow> cs_Tier s = sf_Tier f) \<and>
     (sf_Owner f \<noteq> '''' \<longrightarrow> cs_Owner s = sf_Owner f) \<and>
     (sf_Query f \<noteq> '''' \<longrightarrow> like (lower (cs_Name s)) (''%'' @ lowerASCII (sf_Query f) @ ''%''))"

definition Catalog_repo_List ::
    "('s, catalog_service) gorm \<Rightarrow> (string \<Rightarrow> string \<Rightarrow> bool) \<Rightarrow> (string \<Rightarrow> string) \<Rightarrow> 's \<Rightarrow> service_filter
     \<Rightarrow> catalog_service list result" where
  "Catalog_repo_List g like lower db f =
     map_sum (Wrapped (catalog_label ''List'')) (page_of (sint (sf_Limit f)) (sint (sf_Offset f)))
       (db_Find g db (service_matches like lower f))"

definition repo_CreateOnCall :: "('o, on_call) gorm \<Rightarrow> string \<Rightarrow> 'o \<Rightarrow> on_call \<Rightarrow> (on_call \<times> 'o) result" where
  "repo_CreateOnCall g newID db row =
     (let row = OnCall_BeforeCreate newID row
      in map_sum (\<lambda>e. e) (Pair row) (repo_Create g (catalog_label ''CreateOnCall'') db row))"

definition shift_covers :: "time \<Rightarrow> on_call \<Rightarrow> bool" where
  "shift_covers instant s \<longleftrightarrow> oc_ShiftStart s \<le> instant \<and> instant < oc_ShiftEnd s"

text \<open>
  \<open>latest_first\<close> is \<open>ORDER BY shift_start DESC LIMIT 1\<close>; the column of the service has no NULL, since every
  row is written by the program.
\<close>

definition latest_first :: "on_call list \<Rightarrow> on_call list" where
  "latest_first rows = take 1 (sort_key (\<lambda>s. - nanos (oc_ShiftStart s)) rows)"

definition CurrentOnCall :: "('o, on_call) gorm \<Rightarrow> 'o \<Rightarrow> string \<Rightarrow> time \<Rightarrow> on_call option result" where
  "CurrentOnCall g db serviceID instant =
     (case db_Find g db (\<lambda>s. oc_ServiceID s = serviceID \<and> shift_covers instant s) of
        Inl err \<Rightarrow> Inl (Wrapped (catalog_label ''CurrentOnCall'') err)
      | Inr rows \<Rightarrow>
          (case latest_first rows of
             s # _ \<Rightarrow> Inr (Some s)
           | [] \<Rightarrow>
               (case db_Find g db (\<lambda>s. oc_ServiceID s = '''' \<and> shift_covers instant s) of
                  Inl err \<Rightarrow> Inl (Wrapped ''servicecatalog.CurrentOnCall global: '' err)
                | Inr rows \<Rightarrow> (case latest_first rows of s # _ \<Rightarrow> Inr (Some s) | [] \<Rightarrow> Inr None))))"

definition repo_CreateRunbook :: "('b, runbook_entry) gorm \<Rightarrow> string \<Rightarrow> 'b \<Rightarrow> runbook_entry \<Rightarrow> (runbook_entry \<times> 'b) result" where
  "repo_CreateRunbook g newID db e =
     (let e = Runbook_BeforeCreate newID e
      in map_sum (\<lambda>e. e) (Pair e) (repo_Create g (catalog_label ''CreateRunbook'') db e))"

definition ListRunbook :: "('b, runbook_entry) gorm \<Rightarrow> 'b \<Rightarrow> string \<Rightarrow> runbook_entry list result" where
  "ListRunbook g db serviceID =
     map_sum (Wrapped (catalog_label ''ListRunbook'')) (\<lambda>rows. rows) (db_Find g db (\<lambda>e. rk_ServiceID e = serviceID))"

definition repo_DeleteOnCall :: "('o, on_call) gorm \<Rightarrow> 'o \<Rightarrow> string \<Rightarrow> 'o result" where
  "repo_DeleteOnCall g db k = repo_Delete g (catalog_label ''DeleteOnCall'') ErrCatalogNotFound db k"

definition HasOverlappingOnCall :: "('o, on_call) gorm \<Rightarrow> 'o \<Rightarrow> string \<Rightarrow> time \<Rightarrow> time \<Rightarrow> bool result" where
  "HasOverlappingOnCall g db serviceID from til =
     (if \<not> from < til then Inl (External ''servicecatalog.HasOverlappingOnCall: end <= start'')
      else map_sum (Wrapped (catalog_label ''HasOverlappingOnCall'')) (\<lambda>rows. 0 < length rows)
        (db_Find g db (\<lambda>s. oc_ServiceID s = serviceID \<and> oc_ShiftStart s < til \<and> from < oc_ShiftEnd s)))"

definition repo_DeleteRunbook :: "('b, runbook_entry) gorm \<Rightarrow> 'b \<Rightarrow> string \<Rightarrow> 'b result" where
  "repo_DeleteRunbook g db k = repo_Delete g (catalog_label ''DeleteRunbook'') ErrCatalogNotFound db k"

subsection \<open>The catalogue\<close>

record ('s, 'o, 'b, 'w) catalog_world =
  cw_services :: 's
  cw_oncall :: 'o
  cw_runbook :: 'b
  cw_env :: 'w

record ('s, 'o, 'b, 'x, 'w) catalog =
  ca_services :: "('s, catalog_service) gorm"
  ca_oncall :: "('o, on_call) gorm"
  ca_runbook :: "('b, runbook_entry) gorm"
  ca_like :: "string \<Rightarrow> string \<Rightarrow> bool"
  ca_lower :: "string \<Rightarrow> string"
  ca_audit :: "('x, 'w) audit_service option"
  ca_newID :: "'w \<Rightarrow> string \<times> 'w"

record create_service_input =
  csi_Name :: string
  csi_Description :: string
  csi_Owner :: string
  csi_RepositoryURL :: string
  csi_Tier :: string

record update_service_input =
  usi_Name :: "string option"
  usi_Description :: "string option"
  usi_Owner :: "string option"
  usi_RepositoryURL :: "string option"
  usi_Tier :: "string option"

text \<open>\<open>m\<close> is what follows the sentinel in the text of the error.\<close>

definition catalog_invalid :: "string \<Rightarrow> go_error" where
  "catalog_invalid m = Wrapped '''' ErrCatalogValidation"

definition catalog_conflict :: "string \<Rightarrow> go_error" where
  "catalog_conflict m = Wrapped '''' ErrCatalogConflict"

definition valid_tier :: "string \<Rightarrow> bool" where
  "valid_tier t \<longleftrightarrow> t = TierCritical \<or> t = TierImportant \<or> t = TierStandard"

definition service_validateCreate :: "create_service_input \<Rightarrow> go_error option" where
  "service_validateCreate inp =
     (if TrimSpace (csi_Name inp) = '''' then Some (catalog_invalid ''name is required'')
      else if 64 < length (csi_Name inp) then Some (catalog_invalid ''name exceeds 64 chars'')
      else if valid_tier (csi_Tier inp) then None
      else if csi_Tier inp = '''' then None
      else Some (catalog_invalid (''tier '' @ Quote (csi_Tier inp) @ '' is not valid'')))"

definition service_validateUpdate :: "update_service_input \<Rightarrow> go_error option" where
  "service_validateUpdate inp =
     (case usi_Name inp of
        Some n \<Rightarrow>
          if 64 < length n then Some (catalog_invalid ''name exceeds 64 chars'')
          else
            (case usi_Tier inp of
               Some t \<Rightarrow> if valid_tier t then None else Some (catalog_invalid (''tier '' @ Quote t @ '' is not valid''))
             | None \<Rightarrow> None)
      | None \<Rightarrow>
          (case usi_Tier inp of
             Some t \<Rightarrow> if valid_tier t then None else Some (catalog_invalid (''tier '' @ Quote t @ '' is not valid''))
           | None \<Rightarrow> None))"

definition catalog_isUniqueViolation :: "go_error \<Rightarrow> bool" where
  "catalog_isUniqueViolation err \<longleftrightarrow>
     Contains (Error_text err) ''UNIQUE constraint failed'' \<or> Contains (Error_text err) ''duplicate key''"

text \<open>What a failed write of a service becomes.\<close>

definition service_write_error :: "go_error \<Rightarrow> go_error" where
  "service_write_error err = (if catalog_isUniqueViolation err then catalog_conflict (Error_text err) else err)"

definition catalog_emit ::
    "('s, 'o, 'b, 'x, 'w) catalog \<Rightarrow> string \<Rightarrow> string \<Rightarrow> string \<Rightarrow> json_map
     \<Rightarrow> ('s, 'o, 'b, 'w) catalog_world \<Rightarrow> ('s, 'o, 'b, 'w) catalog_world" where
  "catalog_emit c action rtype k md w =
     (if ca_audit c = None then w
      else w\<lparr>cw_env := RecordAction (ca_audit c)
        \<lparr>ra_Action = action, ra_ResourceType = rtype, ra_ResourceID = k, ra_ActorID = '''',
         ra_ActorName = '''', ra_Metadata = md, ra_IPAddress = '''', ra_UserAgent = ''''\<rparr> (cw_env w)\<rparr>)"

definition Catalog_Create ::
    "('s, 'o, 'b, 'x, 'w) catalog \<Rightarrow> create_service_input \<Rightarrow> ('s, 'o, 'b, 'w) catalog_world
     \<Rightarrow> catalog_service result \<times> ('s, 'o, 'b, 'w) catalog_world" where
  "Catalog_Create c inp w =
     (case service_validateCreate inp of
        Some err \<Rightarrow> (Inl err, w)
      | None \<Rightarrow>
          (case ca_newID c (cw_env w) of
             (k, env) \<Rightarrow>
               (case Catalog_repo_Create (ca_services c) k (cw_services w)
                       \<lparr>cs_ID = '''', cs_Name = TrimSpace (csi_Name inp), cs_Description = TrimSpace (csi_Description inp),
                        cs_Owner = TrimSpace (csi_Owner inp), cs_RepositoryURL = TrimSpace (csi_RepositoryURL inp),
                        cs_Tier = csi_Tier inp\<rparr> of
                  Inl err \<Rightarrow> (Inl (service_write_error err), w\<lparr>cw_env := env\<rparr>)
                | Inr (row, db) \<Rightarrow>
                    (Inr row, catalog_emit c ''create'' ''service'' (cs_ID row)
                       (Some [(''name'', JString (cs_Name row)), (''tier'', JString (cs_Tier row))])
                       (w\<lparr>cw_env := env, cw_services := db\<rparr>)))))"

text \<open>The guard of the variants that take a caller.\<close>

definition catalog_guard :: "ctx \<Rightarrow> go_error option" where
  "catalog_guard cx =
     (case FromContext cx of
        (cl, ok) \<Rightarrow>
          if \<not> ok \<or> cl = None \<or> Option.bind cl cl_User = None then Some ErrCatalogUnauthenticated
          else if \<not> IsSuperAdmin cl then Some ErrCatalogForbidden
          else None)"

definition Catalog_CreateWithCaller ::
    "('s, 'o, 'b, 'x, 'w) catalog \<Rightarrow> ctx \<Rightarrow> create_service_input \<Rightarrow> ('s, 'o, 'b, 'w) catalog_world
     \<Rightarrow> catalog_service result \<times> ('s, 'o, 'b, 'w) catalog_world" where
  "Catalog_CreateWithCaller c cx inp w =
     (case catalog_guard cx of Some err \<Rightarrow> (Inl err, w) | None \<Rightarrow> Catalog_Create c inp w)"

definition Catalog_Get :: "('s, 'o, 'b, 'x, 'w) catalog \<Rightarrow> ('s, 'o, 'b, 'w) catalog_world \<Rightarrow> string \<Rightarrow> catalog_service result" where
  "Catalog_Get c w k = Catalog_repo_Get (ca_services c) (cw_services w) k"

definition Catalog_GetWithCaller ::
    "('s, 'o, 'b, 'x, 'w) catalog \<Rightarrow> ctx \<Rightarrow> ('s, 'o, 'b, 'w) catalog_world \<Rightarrow> string \<Rightarrow> catalog_service result" where
  "Catalog_GetWithCaller c cx w k = (case catalog_guard cx of Some err \<Rightarrow> Inl err | None \<Rightarrow> Catalog_Get c w k)"

definition Catalog_List ::
    "('s, 'o, 'b, 'x, 'w) catalog \<Rightarrow> ('s, 'o, 'b, 'w) catalog_world \<Rightarrow> service_filter \<Rightarrow> catalog_service list result" where
  "Catalog_List c w f = Catalog_repo_List (ca_services c) (ca_like c) (ca_lower c) (cw_services w) f"

definition Catalog_ListWithCaller ::
    "('s, 'o, 'b, 'x, 'w) catalog \<Rightarrow> ctx \<Rightarrow> ('s, 'o, 'b, 'w) catalog_world \<Rightarrow> service_filter \<Rightarrow> catalog_service list result" where
  "Catalog_ListWithCaller c cx w f = (case catalog_guard cx of Some err \<Rightarrow> Inl err | None \<Rightarrow> Catalog_List c w f)"

definition update_service_fields :: "update_service_input \<Rightarrow> catalog_service \<Rightarrow> catalog_service result" where
  "update_service_fields inp row =
     (case (case usi_Name inp of
              None \<Rightarrow> Inr row
            | Some n \<Rightarrow>
                if TrimSpace n = '''' then Inl (catalog_invalid ''name cannot be blank'')
                else if 64 < length (TrimSpace n) then Inl (catalog_invalid ''name exceeds 64 chars'')
                else Inr (row\<lparr>cs_Name := TrimSpace n\<rparr>)) of
        Inl err \<Rightarrow> Inl err
      | Inr row \<Rightarrow>
          (let row = (case usi_Description inp of None \<Rightarrow> row | Some v \<Rightarrow> row\<lparr>cs_Description := TrimSpace v\<rparr>);
               row = (case usi_Owner inp of None \<Rightarrow> row | Some v \<Rightarrow> row\<lparr>cs_Owner := TrimSpace v\<rparr>);
               row = (case usi_RepositoryURL inp of None \<Rightarrow> row | Some v \<Rightarrow> row\<lparr>cs_RepositoryURL := TrimSpace v\<rparr>);
               row = (case usi_Tier inp of None \<Rightarrow> row | Some t \<Rightarrow> row\<lparr>cs_Tier := t\<rparr>)
           in Inr row))"

definition Catalog_Update ::
    "('s, 'o, 'b, 'x, 'w) catalog \<Rightarrow> string \<Rightarrow> update_service_input \<Rightarrow> ('s, 'o, 'b, 'w) catalog_world
     \<Rightarrow> catalog_service result \<times> ('s, 'o, 'b, 'w) catalog_world" where
  "Catalog_Update c k inp w =
     (case service_validateUpdate inp of
        Some err \<Rightarrow> (Inl err, w)
      | None \<Rightarrow>
          (case Catalog_Get c w k of
             Inl err \<Rightarrow> (Inl err, w)
           | Inr row \<Rightarrow>
               (case update_service_fields inp row of
                  Inl err \<Rightarrow> (Inl err, w)
                | Inr row \<Rightarrow>
                    (case Catalog_repo_Update (ca_services c) (cw_services w) row of
                       Inl err \<Rightarrow> (Inl (service_write_error err), w)
                     | Inr db \<Rightarrow>
                         (Inr row, catalog_emit c ''update'' ''service'' (cs_ID row)
                            (Some [(''name'', JString (cs_Name row))]) (w\<lparr>cw_services := db\<rparr>))))))"

definition Catalog_SoftDelete ::
    "('s, 'o, 'b, 'x, 'w) catalog \<Rightarrow> string \<Rightarrow> ('s, 'o, 'b, 'w) catalog_world
     \<Rightarrow> go_error option \<times> ('s, 'o, 'b, 'w) catalog_world" where
  "Catalog_SoftDelete c k w =
     (case Catalog_repo_SoftDelete (ca_services c) (cw_services w) k of
        Inl err \<Rightarrow> (Some err, w)
      | Inr db \<Rightarrow> (None, catalog_emit c ''delete'' ''service'' k (Some []) (w\<lparr>cw_services := db\<rparr>)))"

text \<open>\<open>apiErrFrom\<close>, which nothing calls.\<close>

definition apiErrFrom :: "go_error \<Rightarrow> go_error" where
  "apiErrFrom err =
     (if Catalog_IsNotFound err then APIError CodeNotFound ''service not found'' (Some err)
      else if Catalog_IsConflict err then APIError CodeConflict ''service name already in use'' (Some err)
      else if Catalog_IsValidation err then APIError CodeValidation (Error_text err) (Some err)
      else APIError CodeInternal ''internal error'' (Some err))"

subsection \<open>On-call rotation and runbook\<close>

abbreviation OnCallScopeService :: string where "OnCallScopeService \<equiv> ''service''"
abbreviation OnCallScopeGlobal :: string where "OnCallScopeGlobal \<equiv> ''global''"

record create_oncall_input =
  ci_User :: string
  ci_ShiftStart :: time
  ci_ShiftEnd :: time
  ci_Scope :: string
  ci_Actor :: string

record create_runbook_input =
  ri_Title :: string
  ri_Body :: string
  ri_Actor :: string

definition validateOnCall :: "create_oncall_input \<Rightarrow> go_error option" where
  "validateOnCall inp =
     (if TrimSpace (ci_User inp) = '''' then Some (catalog_invalid ''user_email is required'')
      else if ci_ShiftStart inp = zero_time then Some (catalog_invalid ''shift_start is required'')
      else if ci_ShiftEnd inp = zero_time then Some (catalog_invalid ''shift_end is required'')
      else if \<not> ci_ShiftStart inp < ci_ShiftEnd inp then Some (catalog_invalid ''shift_start must be before shift_end'')
      else if ci_Scope inp \<noteq> '''' \<and> ci_Scope inp \<noteq> OnCallScopeService \<and> ci_Scope inp \<noteq> OnCallScopeGlobal
        then Some (catalog_invalid (''scope '' @ Quote (ci_Scope inp) @ '' is not valid''))
      else None)"

definition validateRunbook :: "create_runbook_input \<Rightarrow> go_error option" where
  "validateRunbook inp =
     (let title = TrimSpace (ri_Title inp)
      in if title = '''' then Some (catalog_invalid ''title is required'')
         else if 256 < length title then Some (catalog_invalid ''title exceeds 256 chars'')
         else if 64 * 1024 < length (ri_Body inp) then Some (catalog_invalid ''body exceeds 64 KiB'')
         else None)"

definition effectiveServiceID :: "string \<Rightarrow> string \<Rightarrow> string" where
  "effectiveServiceID scope urlParam = (if scope = OnCallScopeGlobal then '''' else urlParam)"

definition CreateOnCall ::
    "('s, 'o, 'b, 'x, 'w) catalog \<Rightarrow> string \<Rightarrow> create_oncall_input \<Rightarrow> ('s, 'o, 'b, 'w) catalog_world
     \<Rightarrow> on_call result \<times> ('s, 'o, 'b, 'w) catalog_world" where
  "CreateOnCall c serviceID inp w =
     (case validateOnCall inp of
        Some err \<Rightarrow> (Inl err, w)
      | None \<Rightarrow>
          (case Catalog_Get c w serviceID of
             Inl err \<Rightarrow> (Inl err, w)
           | Inr _ \<Rightarrow>
               (case HasOverlappingOnCall (ca_oncall c) (cw_oncall w) (effectiveServiceID (ci_Scope inp) serviceID)
                       (ci_ShiftStart inp) (ci_ShiftEnd inp) of
                  Inl err \<Rightarrow> (Inl err, w)
                | Inr overlap \<Rightarrow>
                    if overlap then (Inl (catalog_conflict ''shift overlaps an existing on-call rotation''), w)
                    else
                      (case ca_newID c (cw_env w) of
                         (k, env) \<Rightarrow>
                           (case repo_CreateOnCall (ca_oncall c) k (cw_oncall w)
                                   \<lparr>oc_ID = '''', oc_ServiceID = effectiveServiceID (ci_Scope inp) serviceID,
                                    oc_User = TrimSpace (ci_User inp), oc_ShiftStart = ci_ShiftStart inp,
                                    oc_ShiftEnd = ci_ShiftEnd inp\<rparr> of
                              Inl err \<Rightarrow> (Inl err, w\<lparr>cw_env := env\<rparr>)
                            | Inr (row, db) \<Rightarrow>
                                (Inr row, catalog_emit c ''create'' ''service_oncall'' (oc_ID row)
                                   (Some [(''service_id'', JString (oc_ServiceID row)), (''user'', JString (oc_User row))])
                                   (w\<lparr>cw_env := env, cw_oncall := db\<rparr>)))))))"

definition DeleteOnCall ::
    "('s, 'o, 'b, 'x, 'w) catalog \<Rightarrow> string \<Rightarrow> string \<Rightarrow> ('s, 'o, 'b, 'w) catalog_world
     \<Rightarrow> go_error option \<times> ('s, 'o, 'b, 'w) catalog_world" where
  "DeleteOnCall c serviceID shiftID w =
     (case Catalog_Get c w serviceID of
        Inl err \<Rightarrow> (Some err, w)
      | Inr _ \<Rightarrow>
          (case repo_DeleteOnCall (ca_oncall c) (cw_oncall w) shiftID of
             Inl err \<Rightarrow> (Some err, w)
           | Inr db \<Rightarrow>
               (None, catalog_emit c ''delete'' ''service_oncall'' shiftID (Some [(''service_id'', JString serviceID)])
                  (w\<lparr>cw_oncall := db\<rparr>))))"

definition CreateRunbook ::
    "('s, 'o, 'b, 'x, 'w) catalog \<Rightarrow> string \<Rightarrow> create_runbook_input \<Rightarrow> ('s, 'o, 'b, 'w) catalog_world
     \<Rightarrow> runbook_entry result \<times> ('s, 'o, 'b, 'w) catalog_world" where
  "CreateRunbook c serviceID inp w =
     (case validateRunbook inp of
        Some err \<Rightarrow> (Inl err, w)
      | None \<Rightarrow>
          (case Catalog_Get c w serviceID of
             Inl err \<Rightarrow> (Inl err, w)
           | Inr _ \<Rightarrow>
               (case ca_newID c (cw_env w) of
                  (k, env) \<Rightarrow>
                    (case repo_CreateRunbook (ca_runbook c) k (cw_runbook w)
                            \<lparr>rk_ID = '''', rk_ServiceID = serviceID, rk_Title = TrimSpace (ri_Title inp), rk_Body = ri_Body inp\<rparr> of
                       Inl err \<Rightarrow> (Inl err, w\<lparr>cw_env := env\<rparr>)
                     | Inr (row, db) \<Rightarrow>
                         (Inr row, catalog_emit c ''create'' ''service_runbook'' (rk_ID row)
                            (Some [(''service_id'', JString (rk_ServiceID row)), (''title'', JString (rk_Title row))])
                            (w\<lparr>cw_env := env, cw_runbook := db\<rparr>))))))"

definition DeleteRunbook ::
    "('s, 'o, 'b, 'x, 'w) catalog \<Rightarrow> string \<Rightarrow> string \<Rightarrow> ('s, 'o, 'b, 'w) catalog_world
     \<Rightarrow> go_error option \<times> ('s, 'o, 'b, 'w) catalog_world" where
  "DeleteRunbook c serviceID entryID w =
     (case Catalog_Get c w serviceID of
        Inl err \<Rightarrow> (Some err, w)
      | Inr _ \<Rightarrow>
          (case repo_DeleteRunbook (ca_runbook c) (cw_runbook w) entryID of
             Inl err \<Rightarrow> (Some err, w)
           | Inr db \<Rightarrow>
               (None, catalog_emit c ''delete'' ''service_runbook'' entryID (Some [(''service_id'', JString serviceID)])
                  (w\<lparr>cw_runbook := db\<rparr>))))"

end
