(* ===== verification/Catalog_Health.thy ===== *)
theory Catalog_Health
  imports Catalog Pipeline_Service
begin

text \<open>
  The health of a service (\<open>health.go\<close>, \<open>multicluster_k8s.go\<close>, \<open>adapter.go\<close>, \<open>metrics.go\<close> of
  \<open>internal/servicecatalog\<close>): derived from the deployments of the registered clusters when there are
  any, from the last runs of its pipelines otherwise. The client of a cluster is a parameter, as is the
  Prometheus library. A function that can panic returns \<open>None\<close> for the panic.
\<close>

subsection \<open>Runs and deployments\<close>

abbreviation HealthHealthy :: string where "HealthHealthy \<equiv> ''healthy''"
abbreviation HealthDegraded :: string where "HealthDegraded \<equiv> ''degraded''"
abbreviation HealthUnknown :: string where "HealthUnknown \<equiv> ''unknown''"

abbreviation stuckRunningThreshold :: duration where "stuckRunningThreshold \<equiv> 10 * Minute"

text \<open>\<open>HealthRun\<close>, \<open>runRow\<close> and \<open>PipelineRun\<close> have the same fields.\<close>

record health_run =
  hr_RunID :: string
  hr_RunStatus :: string
  hr_StartedAt :: time
  hr_DurationMs :: int

type_synonym int32 = "32 word"

record k8s_deployment =
  kd_ClusterID :: string
  kd_Namespace :: string
  kd_Name :: string
  kd_Replicas :: int32
  kd_Available :: int32

record k8s_health =
  kh_ClusterID :: string
  kh_Namespace :: string
  kh_Name :: string
  kh_Ready :: string
  kh_Replicas :: int32
  kh_Available :: int32

record k8s_block =
  kb_Deployments :: "k8s_health list"
  kb_AllReady :: bool

record health_result =
  hx_ServiceID :: string
  hx_Status :: string
  hx_DerivedFrom :: string
  hx_Reason :: string
  hx_K8s :: "k8s_block option"
  hx_LastRun :: "health_run option"
  hx_RecentRuns :: "health_run list"

text \<open>The adapter and the wiring of the pipeline repository (\<open>main.go\<close>).\<close>

definition LastNRunsForService ::
    "(string \<Rightarrow> int \<Rightarrow> health_run list result) \<Rightarrow> string \<Rightarrow> int \<Rightarrow> health_run list result" where
  "LastNRunsForService fn serviceID n =
     (case fn serviceID n of
        Inl err \<Rightarrow> Inl err
      | Inr rows \<Rightarrow>
          Inr (map (\<lambda>r. \<lparr>hr_RunID = hr_RunID r, hr_RunStatus = hr_RunStatus r,
                         hr_StartedAt = hr_StartedAt r, hr_DurationMs = hr_DurationMs r\<rparr>) rows))"

fun run_status_string :: "run_status \<Rightarrow> string" where
  "run_status_string RunStatusPending = ''pending''"
| "run_status_string RunStatusRunning = ''running''"
| "run_status_string RunStatusSucceeded = ''succeeded''"
| "run_status_string RunStatusFailed = ''failed''"
| "run_status_string RunStatusCancelled = ''cancelled''"

definition orZeroTime :: "time option \<Rightarrow> time" where
  "orZeroTime t = (case t of None \<Rightarrow> zero_time | Some t \<Rightarrow> t)"

definition pipeline_health_runs ::
    "('p, pipeline) gorm \<Rightarrow> ('r, pipeline_run) gorm \<Rightarrow> (pipeline_run list \<Rightarrow> pipeline_run list)
     \<Rightarrow> 'p \<Rightarrow> 'r \<Rightarrow> string \<Rightarrow> int \<Rightarrow> health_run list result" where
  "pipeline_health_runs gp gr by_start dbp dbr serviceID n =
     (case LastRunsForService gp gr by_start dbp dbr serviceID n of
        Inl err \<Rightarrow> Inl err
      | Inr rows \<Rightarrow>
          Inr (map (\<lambda>r. \<lparr>hr_RunID = rn_ID r, hr_RunStatus = run_status_string (rn_Status r),
                         hr_StartedAt = orZeroTime (rn_StartedAt r), hr_DurationMs = rn_DurationMs r\<rparr>) rows))"

subsection \<open>Deployments of the clusters\<close>

text \<open>
  The digits are written from the end of a buffer of eight bytes; \<open>room\<close> is the index of the last one
  written, and writing below index 0 is a panic. The number is positive while the loop runs.
\<close>

fun fmt_digits :: "nat \<Rightarrow> int32 \<Rightarrow> string \<Rightarrow> string option" where
  "fmt_digits room n buf =
     (if 0 <s n then
        (case room of
           0 \<Rightarrow> None
         | Suc i \<Rightarrow> fmt_digits i (n div 10) (char_of (48 + unat (n mod 10)) # buf))
      else Some buf)"

declare fmt_digits.simps [simp del]

definition fmtInt :: "int32 \<Rightarrow> string option" where
  "fmtInt n = (if n = 0 then Some ''0'' else fmt_digits 8 n [])"

definition renderReady :: "int32 \<Rightarrow> int32 \<Rightarrow> string option" where
  "renderReady available replicas =
     (if replicas = 0 then Some ''0/0''
      else
        (case fmtInt available of
           None \<Rightarrow> None
         | Some a \<Rightarrow> (case fmtInt replicas of None \<Rightarrow> None | Some r \<Rightarrow> Some (a @ ''/'' @ r))))"

abbreviation ErrK8sNoClient :: go_error where
  "ErrK8sNoClient \<equiv> Sentinel ''servicecatalog: no K8s client for cluster''"

abbreviation ErrK8sNotFound :: go_error where
  "ErrK8sNotFound \<equiv> Sentinel ''k8s: not found''"

type_synonym k8s_client = "string \<Rightarrow> k8s_deployment list result"

text \<open>The two adapters of \<open>main.go\<close> over the registry of the k8s package, \<open>listerFor\<close>.\<close>

definition adapt_deployments :: "string \<Rightarrow> k8s_client \<Rightarrow> k8s_client" where
  "adapt_deployments clusterID client ns =
     (case client ns of
        Inl err \<Rightarrow> Inl err
      | Inr deps \<Rightarrow>
          Inr (map (\<lambda>d. \<lparr>kd_ClusterID = clusterID, kd_Namespace = kd_Namespace d, kd_Name = kd_Name d,
                         kd_Replicas = kd_Replicas d, kd_Available = kd_Available d\<rparr>) deps))"

definition registry_ClientFor :: "(string \<Rightarrow> k8s_client result) \<Rightarrow> string \<Rightarrow> k8s_client result" where
  "registry_ClientFor listerFor clusterID =
     (case listerFor clusterID of
        Inl err \<Rightarrow> Inl (if errors_Is err ErrK8sNotFound then ErrK8sNoClient else err)
      | Inr c \<Rightarrow> Inr (adapt_deployments clusterID c))"

record multi_cluster =
  mc_getter :: "string \<Rightarrow> k8s_client result"
  mc_clusterIDs :: "string list"
  mc_namespace :: string

definition NewMultiClusterK8sSource :: "(string \<Rightarrow> k8s_client result) \<Rightarrow> string list \<Rightarrow> string \<Rightarrow> multi_cluster" where
  "NewMultiClusterK8sSource getter clusterIDs ns =
     \<lparr>mc_getter = getter, mc_clusterIDs = clusterIDs, mc_namespace = (if ns = '''' then ''default'' else ns)\<rparr>"

fun matching_deployments :: "string \<Rightarrow> k8s_deployment list \<Rightarrow> k8s_health list option" where
  "matching_deployments serviceName [] = Some []"
| "matching_deployments serviceName (d # ds) =
     (if kd_Name d \<noteq> serviceName then matching_deployments serviceName ds
      else
        (case renderReady (kd_Available d) (kd_Replicas d) of
           None \<Rightarrow> None
         | Some ready \<Rightarrow>
             map_option (Cons \<lparr>kh_ClusterID = kd_ClusterID d, kh_Namespace = kd_Namespace d, kh_Name = kd_Name d,
                               kh_Ready = ready, kh_Replicas = kd_Replicas d, kh_Available = kd_Available d\<rparr>)
               (matching_deployments serviceName ds)))"

fun list_deployments ::
    "multi_cluster \<Rightarrow> string \<Rightarrow> string list \<Rightarrow> k8s_health list \<Rightarrow> k8s_health list result option" where
  "list_deployments m serviceName [] out = Some (Inr out)"
| "list_deployments m serviceName (cid # cids) out =
     (case mc_getter m cid of
        Inl err \<Rightarrow>
          if errors_Is err ErrK8sNoClient then list_deployments m serviceName cids out else Some (Inl err)
      | Inr client \<Rightarrow>
          (case client (mc_namespace m) of
             Inl err \<Rightarrow> Some (Inl err)
           | Inr deps \<Rightarrow>
               (case matching_deployments serviceName deps of
                  None \<Rightarrow> None
                | Some found \<Rightarrow> list_deployments m serviceName cids (out @ found))))"

definition ListDeploymentsForService :: "multi_cluster \<Rightarrow> string \<Rightarrow> k8s_health list result option" where
  "ListDeploymentsForService m serviceName = list_deployments m serviceName (mc_clusterIDs m) []"

subsection \<open>The rollup\<close>

record catalog_health =
  hl_src :: "string \<Rightarrow> int \<Rightarrow> health_run list result"
  hl_k8s :: "(string \<Rightarrow> k8s_health list result option) option"
  hl_stale :: duration

definition NewHealth :: "(string \<Rightarrow> int \<Rightarrow> health_run list result) \<Rightarrow> catalog_health" where
  "NewHealth src = \<lparr>hl_src = src, hl_k8s = None, hl_stale = stuckRunningThreshold\<rparr>"

definition WithK8s :: "catalog_health \<Rightarrow> (string \<Rightarrow> k8s_health list result option) \<Rightarrow> catalog_health" where
  "WithK8s h k = h\<lparr>hl_k8s := Some k\<rparr>"

text \<open>The first deployment that is not ready decides; the reason, or the empty string.\<close>

fun unready_reason :: "k8s_health list \<Rightarrow> string" where
  "unready_reason [] = ''''"
| "unready_reason (d # ds) =
     (if kh_Replicas d = 0 then ''scaled_to_zero''
      else if kh_Available d <s kh_Replicas d then ''insufficient_replicas''
      else unready_reason ds)"

definition health_frame :: "string \<Rightarrow> health_run list \<Rightarrow> health_result" where
  "health_frame serviceID rows =
     \<lparr>hx_ServiceID = serviceID, hx_Status = '''', hx_DerivedFrom = ''last_pipeline_run'', hx_Reason = '''',
      hx_K8s = None, hx_LastRun = (case rows of [] \<Rightarrow> None | r # _ \<Rightarrow> Some r), hx_RecentRuns = rows\<rparr>"

text \<open>The rule over the pipeline runs.\<close>

definition pipeline_signal :: "duration \<Rightarrow> time \<Rightarrow> health_run list \<Rightarrow> health_result \<Rightarrow> health_result" where
  "pipeline_signal stale now rows out =
     (case rows of
        [] \<Rightarrow> out\<lparr>hx_Status := HealthUnknown, hx_Reason := ''no_pipeline_runs''\<rparr>
      | r # _ \<Rightarrow>
          if hr_RunStatus r = ''succeeded'' then out\<lparr>hx_Status := HealthHealthy\<rparr>
          else if hr_RunStatus r = ''failed'' \<or> hr_RunStatus r = ''cancelled'' then
            out\<lparr>hx_Status := HealthDegraded, hx_Reason := ''last_run_'' @ hr_RunStatus r\<rparr>
          else if hr_RunStatus r = ''running'' \<or> hr_RunStatus r = ''pending'' then
            (if stale < time_sub now (hr_StartedAt r)
             then out\<lparr>hx_Status := HealthDegraded, hx_Reason := ''running_too_long''\<rparr>
             else out\<lparr>hx_Status := HealthHealthy\<rparr>)
          else out\<lparr>hx_Status := HealthDegraded, hx_Reason := ''unknown_status''\<rparr>)"

definition k8s_signal :: "k8s_health list \<Rightarrow> health_result \<Rightarrow> health_result" where
  "k8s_signal deps out =
     (let why = unready_reason deps
      in out\<lparr>hx_K8s := Some \<lparr>kb_Deployments = deps, kb_AllReady = (why = '''')\<rparr>,
             hx_Status := (if why = '''' then HealthHealthy else HealthDegraded),
             hx_Reason := why, hx_DerivedFrom := ''k8s_pod_health''\<rparr>)"

definition Rollup :: "catalog_health \<Rightarrow> time \<Rightarrow> string \<Rightarrow> health_result result option" where
  "Rollup h now serviceID =
     (case hl_src h serviceID 5 of
        Inl err \<Rightarrow> Some (Inl err)
      | Inr rows \<Rightarrow>
          (let rows = sort_key (\<lambda>r. - nanos (hr_StartedAt r)) rows;
               out = health_frame serviceID rows
           in
             (case hl_k8s h of
                None \<Rightarrow> Some (Inr (pipeline_signal (hl_stale h) now rows out))
              | Some k8s \<Rightarrow>
                  (case k8s serviceID of
                     None \<Rightarrow> None
                   | Some (Inl err) \<Rightarrow>
                       Some (Inr (out\<lparr>hx_Status := HealthUnknown, hx_Reason := ''k8s_query_failed'',
                                      hx_DerivedFrom := ''k8s_pod_health''\<rparr>))
                   | Some (Inr []) \<Rightarrow> Some (Inr (pipeline_signal (hl_stale h) now rows out))
                   | Some (Inr deps) \<Rightarrow> Some (Inr (k8s_signal deps out))))))"

subsection \<open>The gauge and the counter\<close>

definition healthStatusValue :: "string \<Rightarrow> nat" where
  "healthStatusValue st =
     (if st = HealthHealthy then 1 else if st = HealthDegraded then 2 else if st = HealthUnknown then 0 else 0)"

text \<open>The instruments as the library offers them, over the registry in \<open>'w\<close>.\<close>

record 'w catalog_metrics =
  cm_Set :: "string list \<Rightarrow> nat \<Rightarrow> 'w \<Rightarrow> 'w"
  cm_Inc :: "string list \<Rightarrow> 'w \<Rightarrow> 'w"
  cm_DeletePartialMatch :: "(string \<times> string) list \<Rightarrow> 'w \<Rightarrow> 'w"

definition Metrics_Record ::
    "'w catalog_metrics option \<Rightarrow> catalog_service option \<Rightarrow> health_result option \<Rightarrow> 'w \<Rightarrow> 'w" where
  "Metrics_Record m svc res w =
     (case m of
        None \<Rightarrow> w
      | Some m \<Rightarrow>
          (case svc of
             None \<Rightarrow> w
           | Some s \<Rightarrow>
               (case res of
                  None \<Rightarrow> w
                | Some r \<Rightarrow>
                    cm_Inc m [hx_Status r, hx_DerivedFrom r]
                      (cm_Set m [cs_ID s, cs_Name s, cs_Tier s, hx_DerivedFrom r] (healthStatusValue (hx_Status r)) w))))"

definition Metrics_Reset :: "'w catalog_metrics option \<Rightarrow> string \<Rightarrow> 'w \<Rightarrow> 'w" where
  "Metrics_Reset m serviceID w =
     (case m of
        None \<Rightarrow> w
      | Some m \<Rightarrow> if serviceID = '''' then w else cm_DeletePartialMatch m [(''service_id'', serviceID)] w)"

end
