(* ===== verification/Catalog_Http.thy ===== *)
theory Catalog_Http
  imports Catalog_Health
begin

text \<open>
  The routes of the service catalogue (\<open>internal/servicecatalog/handler.go\<close>). A body that is not JSON of
  the shape is \<open>None\<close>; the query string is a function with the empty string for a parameter that is
  absent.
\<close>

record ('s, 'o, 'b, 'x, 'w) catalog_handler =
  ch_cat :: "('s, 'o, 'b, 'x, 'w) catalog"
  ch_health :: "catalog_health option"
  ch_metrics :: "'w catalog_metrics option"

record service_request =
  sq_Name :: string
  sq_Description :: string
  sq_Owner :: string
  sq_RepositoryURL :: string
  sq_Tier :: string

definition service_toInput :: "service_request \<Rightarrow> create_service_input" where
  "service_toInput r =
     \<lparr>csi_Name = sq_Name r, csi_Description = sq_Description r, csi_Owner = sq_Owner r,
      csi_RepositoryURL = sq_RepositoryURL r, csi_Tier = sq_Tier r\<rparr>"

definition ptrOrNil :: "string \<Rightarrow> string option" where
  "ptrOrNil v = (if v = '''' then None else Some v)"

text \<open>\<open>errors.Unwrap\<close>: one step down the chain.\<close>

fun errors_Unwrap :: "go_error \<Rightarrow> go_error option" where
  "errors_Unwrap (Wrapped _ e) = Some e"
| "errors_Unwrap (APIError _ _ cause) = cause"
| "errors_Unwrap _ = None"

text \<open>The text of a nil error is the panic, the 500 of the recovery middleware.\<close>

definition catalog_writeAPIError :: "go_error \<Rightarrow> 'a response" where
  "catalog_writeAPIError err =
     (if Catalog_IsNotFound err then reject CodeNotFound ''service not found''
      else if Catalog_IsConflict err then reject CodeConflict ''service name already in use''
      else if Catalog_IsValidation err then
        (case errors_Unwrap err of
           Some e \<Rightarrow> reject CodeValidation (Error_text e)
         | None \<Rightarrow> reject CodeInternal ''internal server error'')
      else reject CodeInternal ''internal error'')"

definition catalog_respond :: "nat \<Rightarrow> 'a result \<Rightarrow> 'a response" where
  "catalog_respond st res = (case res of Inl err \<Rightarrow> catalog_writeAPIError err | Inr x \<Rightarrow> Body st x)"

text \<open>\<open>None\<close> is a panic.\<close>

definition catalog_Health where
  "catalog_Health h now k w =
     (case Catalog_Get (ch_cat h) w k of
        Inl err \<Rightarrow> Some (catalog_writeAPIError err, w)
      | Inr svc \<Rightarrow>
          (case ch_health h of
             None \<Rightarrow>
               Some (Body 200
                 \<lparr>hx_ServiceID = k, hx_Status = HealthUnknown, hx_DerivedFrom = ''last_pipeline_run'',
                  hx_Reason = ''health_not_configured'', hx_K8s = None, hx_LastRun = None, hx_RecentRuns = []\<rparr>, w)
           | Some hl \<Rightarrow>
               (case Rollup hl now k of
                  None \<Rightarrow> None
                | Some (Inl err) \<Rightarrow> Some (catalog_writeAPIError err, w)
                | Some (Inr out) \<Rightarrow>
                    Some (Body 200 out, w\<lparr>cw_env := Metrics_Record (ch_metrics h) (Some svc) (Some out) (cw_env w)\<rparr>))))"

definition page_param :: "string \<Rightarrow> string \<Rightarrow> int64 result" where
  "page_param name v =
     (if v = '''' then Inr 0
      else (case Atoi v of None \<Rightarrow> Inl (invalid (name @ '' must be an integer'')) | Some n \<Rightarrow> Inr n))"

definition catalog_list where
  "catalog_list h q w =
     (case page_param ''limit'' (q ''limit'') of
        Inl err \<Rightarrow> catalog_writeAPIError err
      | Inr l \<Rightarrow>
          (case page_param ''offset'' (q ''offset'') of
             Inl err \<Rightarrow> catalog_writeAPIError err
           | Inr k \<Rightarrow>
               (case Catalog_List (ch_cat h) w
                       \<lparr>sf_Tier = q ''tier'', sf_Owner = q ''owner'', sf_Query = q ''q'', sf_Limit = l, sf_Offset = k\<rparr> of
                  Inl err \<Rightarrow> catalog_writeAPIError err
                | Inr rows \<Rightarrow>
                    BodyList rows
                      \<lparr>pg_Total = of_nat (length rows), pg_Limit = l, pg_Offset = k,
                       pg_HasMore = (0 <s l \<and> k + l <s of_nat (length rows))\<rparr>)))"

definition catalog_create where
  "catalog_create h body w =
     (case body of
        None \<Rightarrow> (reject CodeValidation ''request body must be JSON'', w)
      | Some req \<Rightarrow>
          (case Catalog_Create (ch_cat h) (service_toInput req) w of (res, w) \<Rightarrow> (catalog_respond 201 res, w)))"

record service_detail =
  sd_row :: catalog_service
  sd_oncall :: "on_call option"
  sd_runbook :: "runbook_entry list"

text \<open>Failed lookups of the shift and of the runbook are left out of the answer.\<close>

definition catalog_get where
  "catalog_get h now k w =
     (case Catalog_Get (ch_cat h) w k of
        Inl err \<Rightarrow> catalog_writeAPIError err
      | Inr row \<Rightarrow>
          Body 200
            \<lparr>sd_row = row,
             sd_oncall = (case CurrentOnCall (ca_oncall (ch_cat h)) (cw_oncall w) (cs_ID row) now of
                            Inl _ \<Rightarrow> None | Inr oc \<Rightarrow> oc),
             sd_runbook = (case ListRunbook (ca_runbook (ch_cat h)) (cw_runbook w) (cs_ID row) of
                             Inl _ \<Rightarrow> [] | Inr rb \<Rightarrow> rb)\<rparr>)"

definition catalog_update where
  "catalog_update h k body w =
     (case body of
        None \<Rightarrow> (reject CodeValidation ''request body must be JSON'', w)
      | Some req \<Rightarrow>
          (case Catalog_Update (ch_cat h) k
                  \<lparr>usi_Name = ptrOrNil (sq_Name req), usi_Description = ptrOrNil (sq_Description req),
                   usi_Owner = ptrOrNil (sq_Owner req), usi_RepositoryURL = ptrOrNil (sq_RepositoryURL req),
                   usi_Tier = (if sq_Tier req \<noteq> '''' then Some (sq_Tier req) else None)\<rparr> w of
             (res, w) \<Rightarrow> (catalog_respond 200 res, w)))"

definition catalog_delete :: "('s, 'o, 'b, 'x, 'w) catalog_handler \<Rightarrow> string \<Rightarrow> ('s, 'o, 'b, 'w) catalog_world
    \<Rightarrow> unit response \<times> ('s, 'o, 'b, 'w) catalog_world" where
  "catalog_delete h k w =
     (case Catalog_SoftDelete (ch_cat h) k w of
        (Some err, w) \<Rightarrow> (catalog_writeAPIError err, w)
      | (None, w) \<Rightarrow> (NoContent, w\<lparr>cw_env := Metrics_Reset (ch_metrics h) k (cw_env w)\<rparr>))"

text \<open>
  What the gin context of a request holds for the actor: the user under \<open>rbac.AuthUserKey\<close> and the headers.
\<close>

record catalog_gin =
  cg_User :: "user option"
  cg_Header :: "string \<Rightarrow> string"

definition actorFrom :: "catalog_gin \<Rightarrow> string" where
  "actorFrom c =
     (case (case cg_User c of None \<Rightarrow> '''' | Some u \<Rightarrow> user_ID u) of
        '''' \<Rightarrow> if cg_Header c ''X-User'' \<noteq> '''' then cg_Header c ''X-User'' else ''system''
      | k \<Rightarrow> k)"

record on_call_request =
  oq_UserEmail :: string
  oq_ShiftStart :: time
  oq_ShiftEnd :: time
  oq_Scope :: string

definition on_call_toInput :: "on_call_request \<Rightarrow> catalog_gin \<Rightarrow> create_oncall_input" where
  "on_call_toInput r c =
     \<lparr>ci_User = oq_UserEmail r, ci_ShiftStart = oq_ShiftStart r, ci_ShiftEnd = oq_ShiftEnd r,
      ci_Scope = oq_Scope r, ci_Actor = actorFrom c\<rparr>"

definition catalog_create_on_call where
  "catalog_create_on_call h k gin body w =
     (case body of
        None \<Rightarrow> (reject CodeValidation ''request body must be JSON'', w)
      | Some req \<Rightarrow>
          (case CreateOnCall (ch_cat h) k (on_call_toInput req gin) w of (res, w) \<Rightarrow> (catalog_respond 201 res, w)))"

definition catalog_delete_on_call :: "('s, 'o, 'b, 'x, 'w) catalog_handler \<Rightarrow> string \<Rightarrow> string
    \<Rightarrow> ('s, 'o, 'b, 'w) catalog_world \<Rightarrow> unit response \<times> ('s, 'o, 'b, 'w) catalog_world" where
  "catalog_delete_on_call h k shiftID w =
     (case DeleteOnCall (ch_cat h) k shiftID w of
        (Some err, w) \<Rightarrow> (catalog_writeAPIError err, w) | (None, w) \<Rightarrow> (NoContent, w))"

record runbook_request =
  rbq_Title :: string
  rbq_Body :: string

definition runbook_toInput :: "runbook_request \<Rightarrow> catalog_gin \<Rightarrow> create_runbook_input" where
  "runbook_toInput r c = \<lparr>ri_Title = rbq_Title r, ri_Body = rbq_Body r, ri_Actor = actorFrom c\<rparr>"

definition catalog_create_runbook where
  "catalog_create_runbook h k gin body w =
     (case body of
        None \<Rightarrow> (reject CodeValidation ''request body must be JSON'', w)
      | Some req \<Rightarrow>
          (case CreateRunbook (ch_cat h) k (runbook_toInput req gin) w of (res, w) \<Rightarrow> (catalog_respond 201 res, w)))"

definition catalog_delete_runbook :: "('s, 'o, 'b, 'x, 'w) catalog_handler \<Rightarrow> string \<Rightarrow> string
    \<Rightarrow> ('s, 'o, 'b, 'w) catalog_world \<Rightarrow> unit response \<times> ('s, 'o, 'b, 'w) catalog_world" where
  "catalog_delete_runbook h k entryID w =
     (case DeleteRunbook (ch_cat h) k entryID w of
        (Some err, w) \<Rightarrow> (catalog_writeAPIError err, w) | (None, w) \<Rightarrow> (NoContent, w))"

subsection \<open>The writing routes together\<close>

datatype catalog_request =
    PostService "service_request option"
  | PutService string "service_request option"
  | DeleteService string
  | PostOnCall string catalog_gin "on_call_request option"
  | DeleteShift string string
  | PostRunbook string catalog_gin "runbook_request option"
  | DeleteEntry string string

fun catalog_serve :: "('s, 'o, 'b, 'x, 'w) catalog_handler \<Rightarrow> catalog_request
    \<Rightarrow> ('s, 'o, 'b, 'w) catalog_world \<Rightarrow> ('s, 'o, 'b, 'w) catalog_world" where
  "catalog_serve h (PostService body) w = snd (catalog_create h body w)"
| "catalog_serve h (PutService k body) w = snd (catalog_update h k body w)"
| "catalog_serve h (DeleteService k) w = snd (catalog_delete h k w)"
| "catalog_serve h (PostOnCall k gin body) w = snd (catalog_create_on_call h k gin body w)"
| "catalog_serve h (DeleteShift k s) w = snd (catalog_delete_on_call h k s w)"
| "catalog_serve h (PostRunbook k gin body) w = snd (catalog_create_runbook h k gin body w)"
| "catalog_serve h (DeleteEntry k e) w = snd (catalog_delete_runbook h k e w)"

definition catalog_requests where
  "catalog_requests h reqs w = fold (catalog_serve h) reqs w"

end
