(* ===== verification/Catalog_Facts.thy ===== *)
theory Catalog_Facts
  imports Catalog_Http
begin

text \<open>
  What holds of the service catalogue: the shifts of a rotation never overlap, so that the page names
  exactly the one on duty; the replica counts are printed as decimals below a hundred million and are a panic
  from there on; deployments are looked up under the ID of the service, so that those that carry its
  name are not seen.
\<close>

subsection \<open>The rotation\<close>

definition apart :: "on_call \<Rightarrow> on_call \<Rightarrow> bool" where
  "apart s t \<longleftrightarrow> oc_ShiftEnd s \<le> oc_ShiftStart t \<or> oc_ShiftEnd t \<le> oc_ShiftStart s"

text \<open>Every shift has a positive length, and two shifts of the same rotation do not overlap.\<close>

definition rotation_ok :: "(string \<Rightarrow> on_call option) \<Rightarrow> bool" where
  "rotation_ok rows \<longleftrightarrow>
     (\<forall>k s. rows k = Some s \<longrightarrow> oc_ShiftStart s < oc_ShiftEnd s) \<and>
     (\<forall>k s k' s'. rows k = Some s \<and> rows k' = Some s' \<and> k \<noteq> k' \<and> oc_ServiceID s = oc_ServiceID s' \<longrightarrow> apart s s')"

text \<open>The shift of the service, or the global one when the service has none.\<close>

definition on_duty :: "(string \<Rightarrow> on_call option) \<Rightarrow> string \<Rightarrow> time \<Rightarrow> on_call \<Rightarrow> bool" where
  "on_duty rows serviceID instant s \<longleftrightarrow>
     rows (oc_ID s) = Some s \<and> shift_covers instant s \<and>
     (oc_ServiceID s = serviceID \<or>
      oc_ServiceID s = '''' \<and>
      (\<forall>k t. rows k = Some t \<and> oc_ServiceID t = serviceID \<longrightarrow> \<not> shift_covers instant t))"

lemma covers_not_apart: "shift_covers instant s \<Longrightarrow> shift_covers instant t \<Longrightarrow> \<not> apart s t"
  by (auto simp: shift_covers_def apart_def)

lemma rotation_ok_covers:
  assumes "rotation_ok rows" "rows k = Some s" "rows k' = Some s'" "oc_ServiceID s = oc_ServiceID s'"
    "shift_covers instant s" "shift_covers instant s'"
  shows "k = k'"
  using assms covers_not_apart [of instant s s'] unfolding rotation_ok_def by blast

lemma rotation_ok_del: "rotation_ok rows \<Longrightarrow> rotation_ok (rows(k := None))"
  by (auto simp: rotation_ok_def)

lemma rotation_ok_add:
  assumes "rotation_ok rows" "oc_ShiftStart s < oc_ShiftEnd s"
    "\<And>k t. rows k = Some t \<Longrightarrow> oc_ServiceID t = oc_ServiceID s \<Longrightarrow> apart t s"
  shows "rotation_ok (rows(oc_ID s \<mapsto> s))"
  using assms unfolding rotation_ok_def apart_def by (auto split: if_splits) (metis, metis)

lemma latest_first_set: "set (latest_first rows) \<subseteq> set rows"
  using set_take_subset [of 1 "sort_key (\<lambda>s. - nanos (oc_ShiftStart s)) rows"] by (simp add: latest_first_def)

lemma latest_first_Nil: "latest_first rows = [] \<longleftrightarrow> rows = []"
proof -
  have "length (latest_first rows) = min 1 (length rows)" by (simp add: latest_first_def)
  then show ?thesis by (cases rows) auto
qed

locale rotation_table = gorm_repo g oc_ID rows ErrCatalogNotFound catalog_label
  for g :: "('o, on_call) gorm" and rows
begin

lemma no_overlap_apart:
  assumes "HasOverlappingOnCall g db sid a b = Inr False" "rows db k = Some t" "oc_ServiceID t = sid"
  shows "oc_ShiftEnd t \<le> a \<or> b \<le> oc_ShiftStart t"
proof -
  from assms(1) have "db_Find g db (\<lambda>s. oc_ServiceID s = sid \<and> oc_ShiftStart s < b \<and> a < oc_ShiftEnd s) = Inr []"
    by (auto simp: HasOverlappingOnCall_def map_sum_Inr split: if_splits)
  from Find_ok [OF this] have "{r. rows db (oc_ID r) = Some r \<and> oc_ServiceID r = sid \<and> oc_ShiftStart r < b \<and> a < oc_ShiftEnd r} = {}"
    by simp
  then have "\<not> (rows db (oc_ID t) = Some t \<and> oc_ServiceID t = sid \<and> oc_ShiftStart t < b \<and> a < oc_ShiftEnd t)"
    by blast
  with assms(2,3) rows_key [OF assms(2)] show ?thesis by (simp add: not_less disj_commute)
qed

lemma found_shift:
  assumes "db_Find g db (\<lambda>s. oc_ServiceID s = sid \<and> shift_covers instant s) = Inr found"
  shows "set found = {s. rows db (oc_ID s) = Some s \<and> oc_ServiceID s = sid \<and> shift_covers instant s}"
  using Find_ok [OF assms] by simp

lemma CurrentOnCall_on_duty:
  assumes "CurrentOnCall g db sid instant = Inr r" "rotation_ok (rows db)"
  shows "on_duty (rows db) sid instant s \<longleftrightarrow> r = Some s"
proof -
  have pick: "t \<in> set found \<longleftrightarrow> t = u"
    if f: "db_Find g db (\<lambda>s. oc_ServiceID s = x \<and> shift_covers instant s) = Inr found" and u: "u \<in> set found"
    for t u x found
  proof
    assume t: "t \<in> set found"
    from t u have "oc_ID t = oc_ID u"
      unfolding found_shift [OF f] mem_Collect_eq
      by (intro rotation_ok_covers [OF assms(2), of "oc_ID t" t "oc_ID u" u instant]) simp_all
    with t u show "t = u" unfolding found_shift [OF f] mem_Collect_eq by (metis option.inject)
  qed (use u in simp)
  let ?q = "db_Find g db (\<lambda>s. oc_ServiceID s = sid \<and> shift_covers instant s)"
  obtain own where own: "?q = Inr own"
    using assms(1) by (cases ?q) (simp_all add: CurrentOnCall_def)
  note own_set = found_shift [OF own]
  show ?thesis
  proof (cases "latest_first own")
    case (Cons t ts)
    then have t: "t \<in> set own" using latest_first_set [of own] by simp
    from assms(1) own Cons have r: "r = Some t" by (simp add: CurrentOnCall_def)
    from t have "on_duty (rows db) sid instant s \<longleftrightarrow> s \<in> set own"
      unfolding on_duty_def own_set mem_Collect_eq by metis
    with pick [OF own t] r show ?thesis by auto
  next
    case Nil
    then have none: "set own = {}" by (simp add: latest_first_Nil)
    let ?p = "db_Find g db (\<lambda>s. oc_ServiceID s = '''' \<and> shift_covers instant s)"
    obtain glob where glob: "?p = Inr glob"
      using assms(1) own Nil by (cases ?p) (simp_all add: CurrentOnCall_def)
    with assms(1) own Nil have r: "r = (case latest_first glob of s # _ \<Rightarrow> Some s | [] \<Rightarrow> None)"
      by (simp add: CurrentOnCall_def split: list.splits)
    have off: "\<not> shift_covers instant t" if "rows db k = Some t" "oc_ServiceID t = sid" for k t
    proof -
      have "t \<notin> set own" using none by simp
      then show ?thesis unfolding own_set mem_Collect_eq using that rows_key [OF that(1)] by simp
    qed
    then have "on_duty (rows db) sid instant s \<longleftrightarrow> s \<in> set glob"
      unfolding on_duty_def found_shift [OF glob] mem_Collect_eq by metis
    moreover have "s \<in> set glob \<longleftrightarrow> r = Some s"
    proof (cases "latest_first glob")
      case Nil
      with r have "r = None" by simp
      with Nil show ?thesis by (simp add: latest_first_Nil)
    next
      case (Cons t ts)
      then have "t \<in> set glob" using latest_first_set [of glob] by simp
      from pick [OF glob this] Cons r show ?thesis by auto
    qed
    ultimately show ?thesis by simp
  qed
qed

end

interpretation mem_rotation: rotation_table "mem_gorm oc_ID" "mem_rows oc_ID"
  by unfold_locales simp

lemma catalog_emit_sel [simp]:
  "cw_oncall (catalog_emit c a t k md w) = cw_oncall w"
  "cw_services (catalog_emit c a t k md w) = cw_services w"
  by (simp_all add: catalog_emit_def)

lemma validateOnCall_interval: "validateOnCall inp = None \<Longrightarrow> ci_ShiftStart inp < ci_ShiftEnd inp"
  by (auto simp: validateOnCall_def split: if_splits)

lemma CreateOnCall_cases:
  "cw_oncall (snd (CreateOnCall c sid inp w)) = cw_oncall w \<or>
   (\<exists>k row db. validateOnCall inp = None
     \<and> HasOverlappingOnCall (ca_oncall c) (cw_oncall w) (effectiveServiceID (ci_Scope inp) sid)
         (ci_ShiftStart inp) (ci_ShiftEnd inp) = Inr False
     \<and> repo_CreateOnCall (ca_oncall c) k (cw_oncall w)
         \<lparr>oc_ID = '''', oc_ServiceID = effectiveServiceID (ci_Scope inp) sid, oc_User = TrimSpace (ci_User inp),
          oc_ShiftStart = ci_ShiftStart inp, oc_ShiftEnd = ci_ShiftEnd inp\<rparr> = Inr (row, db)
     \<and> cw_oncall (snd (CreateOnCall c sid inp w)) = db)"
  by (auto simp: CreateOnCall_def split: option.splits sum.splits prod.splits)

lemma catalog_frames:
  "cw_oncall (snd (Catalog_Create c inp w)) = cw_oncall w"
  "cw_oncall (snd (Catalog_Update c k uinp w)) = cw_oncall w"
  "cw_oncall (snd (Catalog_SoftDelete c k w)) = cw_oncall w"
  "cw_oncall (snd (CreateRunbook c k rinp w)) = cw_oncall w"
  "cw_oncall (snd (DeleteRunbook c k e w)) = cw_oncall w"
  by (auto simp: Catalog_Create_def Catalog_Update_def Catalog_SoftDelete_def CreateRunbook_def DeleteRunbook_def
      split: option.splits sum.splits prod.splits)

context rotation_table
begin

lemma CreateOnCall_rotation:
  assumes "ca_oncall c = g" "rotation_ok (rows (cw_oncall w))"
  shows "rotation_ok (rows (cw_oncall (snd (CreateOnCall c sid inp w))))"
  using CreateOnCall_cases [of c sid inp w]
proof (elim disjE exE conjE)
  assume "cw_oncall (snd (CreateOnCall c sid inp w)) = cw_oncall w"
  with assms(2) show ?thesis by simp
next
  fix k row db
  let ?row = "\<lparr>oc_ID = '''', oc_ServiceID = effectiveServiceID (ci_Scope inp) sid, oc_User = TrimSpace (ci_User inp),
    oc_ShiftStart = ci_ShiftStart inp, oc_ShiftEnd = ci_ShiftEnd inp\<rparr>"
  assume v: "validateOnCall inp = None"
    and free: "HasOverlappingOnCall (ca_oncall c) (cw_oncall w) (effectiveServiceID (ci_Scope inp) sid)
      (ci_ShiftStart inp) (ci_ShiftEnd inp) = Inr False"
    and made: "repo_CreateOnCall (ca_oncall c) k (cw_oncall w) ?row = Inr (row, db)"
    and w': "cw_oncall (snd (CreateOnCall c sid inp w)) = db"
  from made have row: "row = ?row\<lparr>oc_ID := k\<rparr>"
    and c: "repo_Create g (catalog_label ''CreateOnCall'') (cw_oncall w) row = Inr db"
    by (auto simp: repo_CreateOnCall_def Let_def OnCall_BeforeCreate_def map_sum_Inr assms(1))
  from Create_row [OF c] have "rows db = (rows (cw_oncall w))(oc_ID row \<mapsto> row)" by simp
  moreover have "rotation_ok ((rows (cw_oncall w))(oc_ID row \<mapsto> row))"
  proof (rule rotation_ok_add [OF assms(2)])
    show "oc_ShiftStart row < oc_ShiftEnd row" using validateOnCall_interval [OF v] row by simp
  next
    fix k' t
    assume "rows (cw_oncall w) k' = Some t" "oc_ServiceID t = oc_ServiceID row"
    with no_overlap_apart [OF free [unfolded assms(1)], of k' t] row show "apart t row" by (auto simp: apart_def)
  qed
  ultimately show ?thesis using w' by simp
qed

lemma DeleteOnCall_rotation:
  assumes "ca_oncall c = g" "rotation_ok (rows (cw_oncall w))"
  shows "rotation_ok (rows (cw_oncall (snd (DeleteOnCall c sid k w))))"
proof (cases "repo_DeleteOnCall g (cw_oncall w) k")
  case (Inl err)
  with assms show ?thesis by (auto simp: DeleteOnCall_def split: sum.splits)
next
  case (Inr db)
  then have "rows db = (rows (cw_oncall w))(k := None)" by (auto simp: repo_DeleteOnCall_def dest: Delete_row)
  with Inr assms rotation_ok_del [OF assms(2), of k] show ?thesis by (auto simp: DeleteOnCall_def split: sum.splits)
qed

lemma catalog_serve_rotation:
  assumes "ca_oncall (ch_cat h) = g" "rotation_ok (rows (cw_oncall w))"
  shows "rotation_ok (rows (cw_oncall (catalog_serve h req w)))"
proof (cases req)
  case (PostService body)
  with assms catalog_frames(1) [of "ch_cat h" _ w] show ?thesis
    by (cases body) (simp_all add: catalog_create_def case_prod_unfold)
next
  case (PutService k body)
  with assms catalog_frames(2) [of "ch_cat h" k _ w] show ?thesis
    by (cases body) (simp_all add: catalog_update_def case_prod_unfold)
next
  case (DeleteService k)
  with assms catalog_frames(3) [of "ch_cat h" k w] show ?thesis
    by (auto simp: catalog_delete_def split: prod.splits option.splits)
next
  case (PostOnCall k gin body)
  with assms CreateOnCall_rotation [OF assms] show ?thesis
    by (cases body) (simp_all add: catalog_create_on_call_def case_prod_unfold)
next
  case (DeleteShift k s)
  with DeleteOnCall_rotation [OF assms, of k s] show ?thesis
    by (auto simp: catalog_delete_on_call_def split: prod.splits option.splits)
next
  case (PostRunbook k gin body)
  with assms catalog_frames(4) [of "ch_cat h" k _ w] show ?thesis
    by (cases body) (simp_all add: catalog_create_runbook_def case_prod_unfold)
next
  case (DeleteEntry k e)
  with assms catalog_frames(5) [of "ch_cat h" k e w] show ?thesis
    by (auto simp: catalog_delete_runbook_def split: prod.splits option.splits)
qed

lemma catalog_requests_rotation:
  assumes "ca_oncall (ch_cat h) = g" "rotation_ok (rows (cw_oncall w))"
  shows "rotation_ok (rows (cw_oncall (catalog_requests h reqs w)))"
  using assms(2) by (induction reqs arbitrary: w) (auto simp: catalog_requests_def intro: catalog_serve_rotation [OF assms(1)])

end

text \<open>
  C38: whatever sequence of writes the service catalogue serves, the shifts of a rotation never overlap, and the
  lookup for the detail page answers exactly who is on duty at the instant: the shift of the service
  that covers it, the global one when the service has none, and nobody only when there is nobody. The database
  compares the times as instants; on a driver that compares their texts this is the case while they are all
  written with one zone offset.
\<close>

theorem on_call_is_who_is_on_duty:
  assumes "rotation_table (ca_oncall (ch_cat h)) rows" "rotation_ok (rows (cw_oncall w))"
    "w' = catalog_requests h reqs w"
  shows "rotation_ok (rows (cw_oncall w'))
    \<and> (\<forall>serviceID instant r s. CurrentOnCall (ca_oncall (ch_cat h)) (cw_oncall w') serviceID instant = Inr r
         \<longrightarrow> (on_duty (rows (cw_oncall w')) serviceID instant s \<longleftrightarrow> r = Some s))"
  using rotation_table.catalog_requests_rotation [OF assms(1) refl assms(2)]
    rotation_table.CurrentOnCall_on_duty [OF assms(1)] assms(3) by blast

subsection \<open>Replica counts\<close>

lemma sint_int32: "sint (n :: int32) = (if unat n < 2 ^ 31 then int (unat n) else int (unat n) - 2 ^ 32)"
proof -
  define k where "k = int (unat n)"
  have k: "uint n = k" "k < 2 ^ 32" "0 \<le> k" using uint_lt2p [of n] by (simp_all add: k_def)
  have "sint n = signed_take_bit 31 k" by (simp add: sint_uint k)
  also have "\<dots> = take_bit 32 k - 2 ^ 32 * of_bool (bit k 31)"
    by (simp add: signed_take_bit_eq_take_bit_minus)
  also have "take_bit 32 k = k" by (rule take_bit_int_eq_self) (use k in auto)
  also have "bit k 31 \<longleftrightarrow> \<not> k < 2 ^ 31"
  proof (cases "k < 2 ^ 31")
    case True
    then have "k div 2 ^ 31 = 0" using k by (intro div_pos_pos_trivial) auto
    then show ?thesis using True by (simp only: bit_iff_odd) simp
  next
    case False
    then have "k div 2 ^ 31 = 1" using k(2) by (simp add: div_pos_geq div_pos_pos_trivial)
    then show ?thesis using False by (simp only: bit_iff_odd) simp
  qed
  also have "k < 2 ^ 31 \<longleftrightarrow> unat n < 2 ^ 31" unfolding k_def by (metis of_nat_less_numeral_iff of_nat_less_numeral_power_cancel_iff)
  finally show ?thesis by (simp add: k_def)
qed

lemma sless_int32: "0 <s (n :: int32) \<longleftrightarrow> 0 < unat n \<and> unat n < 2 ^ 31"
proof -
  have "int (unat n) < 2 ^ 32" using uint_lt2p [of n] by simp
  moreover have "0 < uint n \<longleftrightarrow> 0 < unat n" by (simp flip: of_nat_0_less_iff [where 'a = int])
  ultimately show ?thesis by (simp add: word_sless_alt sint_int32)
qed

lemma fmt_digits_spec:
  assumes "unat n < 2 ^ 31" "0 < unat n"
  shows "fmt_digits room n buf = (if unat n < 10 ^ room then Some (nat_digits (unat n) @ buf) else None)"
  using assms
proof (induction room arbitrary: n buf)
  case 0
  then show ?case by (simp add: fmt_digits.simps sless_int32)
next
  case (Suc i)
  have u: "unat (n div 10) = unat n div 10" "unat (n mod 10) = unat n mod 10" by (simp_all add: unat_div unat_mod)
  have step: "fmt_digits (Suc i) n buf = fmt_digits i (n div 10) (char_of (48 + unat n mod 10) # buf)"
    using Suc.prems u by (simp add: fmt_digits.simps [of "Suc i"] sless_int32)
  show ?case
  proof (cases "unat n < 10")
    case True
    then have "n div 10 = 0" using u by (simp add: word_unat_eq_iff)
    moreover have "unat n < 10 ^ Suc i" using True by (rule less_le_trans) simp
    ultimately show ?thesis
      using True by (simp add: step fmt_digits.simps [of i] nat_digits.simps [of "unat n"])
  next
    case False
    have "unat n < 10 ^ Suc i \<longleftrightarrow> unat n div 10 < 10 ^ i" by (simp add: less_mult_imp_div_less div_less_iff_less_mult mult.commute)
    with False Suc.prems Suc.IH [of "n div 10"] show ?thesis
      by (simp add: step u nat_digits.simps [of "unat n"])
  qed
qed

text \<open>
  C39: the hand-written conversion agrees with \<open>strconv.Itoa\<close> from zero to 99,999,999. A negative number is printed
  as nothing, and a number of nine or ten digits runs off the buffer, which is a panic.
\<close>

theorem fmtInt_is_Itoa_below_hundred_million:
  "fmtInt n = (if sint n < 0 then Some '''' else if sint n < 100000000 then Some (Itoa (sint n)) else None)"
proof (cases "0 <s n")
  case True
  then have u: "unat n < 2 ^ 31" "0 < unat n" by (simp_all add: sless_int32)
  define k where "k = unat n"
  have "sint n = int k" using u(1) unfolding sint_int32 k_def by simp
  moreover have "n \<noteq> 0" using u(2) by auto
  ultimately show ?thesis using u(2) fmt_digits_spec [OF u, of 8 "[]"]
    by (simp add: fmtInt_def Itoa_def flip: k_def)
next
  case False
  moreover have "nat_digits 0 = ''0''" by code_simp
  ultimately show ?thesis
    by (cases "n = 0") (auto simp: fmtInt_def fmt_digits.simps word_sless_alt Itoa_def signed_eq_0_iff)
qed

subsection \<open>The rollup\<close>

definition unready :: "k8s_health \<Rightarrow> bool" where
  "unready d \<longleftrightarrow> kh_Replicas d = 0 \<or> kh_Available d <s kh_Replicas d"

lemma unready_reason_empty: "unready_reason ds = '''' \<longleftrightarrow> (\<forall>d\<in>set ds. \<not> unready d)"
  by (induction ds) (auto simp: unready_def)

lemma pipeline_signal_sel [simp]:
  "hx_K8s (pipeline_signal stale now rows out) = hx_K8s out"
  "hx_DerivedFrom (pipeline_signal stale now rows out) = hx_DerivedFrom out"
  by (simp_all add: pipeline_signal_def split: list.splits)

lemma rollup_follows_the_clusters:
  assumes "hl_src h serviceID 5 = Inr runs" "Rollup (WithK8s h k) now serviceID = Some (Inr out)"
  shows "k serviceID = Some (Inr deps) \<Longrightarrow> deps \<noteq> [] \<Longrightarrow>
      hx_Status out = (if \<exists>d\<in>set deps. unready d then HealthDegraded else HealthHealthy)
      \<and> hx_K8s out = Some \<lparr>kb_Deployments = deps, kb_AllReady = (\<forall>d\<in>set deps. \<not> unready d)\<rparr>"
    and "k serviceID = Some (Inl err) \<Longrightarrow> hx_Status out = HealthUnknown"
    and "k serviceID = Some (Inr []) \<Longrightarrow> Rollup (h\<lparr>hl_k8s := None\<rparr>) now serviceID = Some (Inr out)"
  using assms unready_reason_empty [of deps]
  by (auto simp: Rollup_def WithK8s_def k8s_signal_def Let_def split: list.splits)

lemma matching_deployments_set:
  assumes "matching_deployments name ds = Some out" "d \<in> set ds" "kd_Name d = name"
  shows "\<exists>x\<in>set out. kh_Replicas x = kd_Replicas d \<and> kh_Available x = kd_Available d"
  using assms by (induction ds arbitrary: out) (auto split: if_splits option.splits)

lemma list_deployments_keeps:
  "list_deployments m name cids out = Some (Inr res) \<Longrightarrow> set out \<subseteq> set res"
  by (induction cids arbitrary: out) (fastforce split: sum.splits option.splits if_splits)+

lemma list_deployments_finds:
  assumes "list_deployments m name cids out = Some (Inr res)" "cid \<in> set cids" "mc_getter m cid = Inr client"
    "client (mc_namespace m) = Inr ds" "d \<in> set ds" "kd_Name d = name"
  shows "\<exists>x\<in>set res. kh_Replicas x = kd_Replicas d \<and> kh_Available x = kd_Available d"
  using assms(1,2)
proof (induction cids arbitrary: out)
  case (Cons c cids)
  show ?case
  proof (cases "c = cid")
    case True
    with Cons.prems(1) assms(3,4) obtain found where m: "matching_deployments name ds = Some found"
      and l: "list_deployments m name cids (out @ found) = Some (Inr res)" by (auto split: option.splits)
    from matching_deployments_set [OF m assms(5,6)] list_deployments_keeps [OF l] show ?thesis by auto
  next
    case False
    with Cons.prems Cons.IH show ?thesis by (auto split: sum.splits option.splits if_splits)
  qed
qed simp

text \<open>
  C40: a deployment that carries the identifier the rollup asks for and is not ready keeps the service from being
  reported healthy, in whichever of the registered clusters it runs and whatever the last pipeline run
  did: the service is degraded, or unknown when some cluster could not be queried.
\<close>

theorem unready_deployment_never_healthy:
  assumes "cid \<in> set (mc_clusterIDs m)" "mc_getter m cid = Inr client" "client (mc_namespace m) = Inr ds"
    "d \<in> set ds" "kd_Name d = serviceID" "kd_Replicas d = 0 \<or> kd_Available d <s kd_Replicas d"
    "Rollup (WithK8s h (ListDeploymentsForService m)) now serviceID = Some (Inr out)"
  shows "hx_Status out = HealthDegraded \<and> hx_DerivedFrom out = ''k8s_pod_health''
    \<or> hx_Status out = HealthUnknown \<and> (\<exists>err. ListDeploymentsForService m serviceID = Some (Inl err))"
proof -
  from assms(7) obtain runs where r: "hl_src h serviceID 5 = Inr runs"
    by (cases "hl_src h serviceID 5") (auto simp: Rollup_def WithK8s_def)
  from assms(7) r obtain a where a: "ListDeploymentsForService m serviceID = Some a"
    by (cases "ListDeploymentsForService m serviceID") (auto simp: Rollup_def WithK8s_def Let_def)
  show ?thesis
  proof (cases a)
    case (Inl err)
    with a rollup_follows_the_clusters(2) [OF r assms(7), of err] show ?thesis by simp
  next
    case (Inr deps)
    with a list_deployments_finds [OF _ assms(1-5), of "[]" deps] obtain x
      where x: "x \<in> set deps" "kh_Replicas x = kd_Replicas d" "kh_Available x = kd_Available d"
      by (auto simp: ListDeploymentsForService_def)
    with assms(6) have u: "unready x" by (simp add: unready_def)
    from x(1) have ne: "deps \<noteq> []" by auto
    have "hx_Status out = HealthDegraded"
      using rollup_follows_the_clusters(1) [OF r assms(7), of deps] a Inr x(1) u ne by auto
    moreover have "hx_DerivedFrom out = ''k8s_pod_health''"
      using assms(7) r a Inr ne by (auto simp: Rollup_def WithK8s_def k8s_signal_def Let_def split: list.splits)
    ultimately show ?thesis by simp
  qed
qed

text \<open>
  The rollup asks for deployments by the ID of the service, a UUID, where the deployments carry its name: when
  none is called like the ID, the clusters have no say.
\<close>

lemma no_deployment_named_by_ID:
  assumes "\<And>cid. cid \<in> set cids \<Longrightarrow> case mc_getter m cid of
      Inl err \<Rightarrow> errors_Is err ErrK8sNoClient
    | Inr client \<Rightarrow> \<exists>ds. client (mc_namespace m) = Inr ds \<and> (\<forall>d\<in>set ds. kd_Name d \<noteq> serviceID)"
  shows "list_deployments m serviceID cids out = Some (Inr out)"
proof -
  have none: "matching_deployments serviceID ds = Some []" if "\<forall>d\<in>set ds. kd_Name d \<noteq> serviceID" for ds
    using that by (induction ds) auto
  show ?thesis using assms
  proof (induction cids)
    case (Cons c cids)
    have rest: "list_deployments m serviceID cids out = Some (Inr out)" by (rule Cons.IH) (use Cons.prems in simp)
    from Cons.prems [of c] rest show ?case by (auto simp: none split: sum.splits)
  qed simp
qed

lemma clusters_have_no_say:
  assumes "\<And>cid. cid \<in> set (mc_clusterIDs m) \<Longrightarrow> case mc_getter m cid of
      Inl err \<Rightarrow> errors_Is err ErrK8sNoClient
    | Inr client \<Rightarrow> \<exists>ds. client (mc_namespace m) = Inr ds \<and> (\<forall>d\<in>set ds. kd_Name d \<noteq> serviceID)"
  shows "Rollup (WithK8s h (ListDeploymentsForService m)) now serviceID = Rollup (h\<lparr>hl_k8s := None\<rparr>) now serviceID"
proof -
  have "ListDeploymentsForService m serviceID = Some (Inr [])"
    unfolding ListDeploymentsForService_def by (rule no_deployment_named_by_ID) (rule assms)
  then show ?thesis by (simp add: Rollup_def WithK8s_def split: sum.splits)
qed

subsection \<open>Instances\<close>

definition demo_catalog :: "(catalog_service list, on_call list, runbook_entry list, unit, nat) catalog_handler" where
  "demo_catalog =
     \<lparr>ch_cat = \<lparr>ca_services = mem_gorm cs_ID, ca_oncall = mem_gorm oc_ID, ca_runbook = mem_gorm rk_ID,
        ca_like = (\<lambda>_ _. True), ca_lower = (\<lambda>x. x), ca_audit = None,
        ca_newID = (\<lambda>n. (replicate n CHR ''s'', Suc n))\<rparr>,
      ch_health = None, ch_metrics = None\<rparr>"

definition demo_catalog_world :: "(catalog_service list, on_call list, runbook_entry list, nat) catalog_world" where
  "demo_catalog_world = \<lparr>cw_services = [], cw_oncall = [], cw_runbook = [], cw_env = 1\<rparr>"

definition demo_gin :: catalog_gin where
  "demo_gin = \<lparr>cg_User = None, cg_Header = (\<lambda>_. '''')\<rparr>"

definition demo_shift :: "string \<Rightarrow> int \<Rightarrow> int \<Rightarrow> on_call_request" where
  "demo_shift u a b = \<lparr>oq_UserEmail = u, oq_ShiftStart = Time a, oq_ShiftEnd = Time b, oq_Scope = ''''\<rparr>"

definition demo_catalog_requests :: "catalog_request list" where
  "demo_catalog_requests =
     [PostService (Some \<lparr>sq_Name = ''pay'', sq_Description = '''', sq_Owner = '''', sq_RepositoryURL = '''', sq_Tier = ''''\<rparr>),
      PostOnCall ''s'' demo_gin (Some (demo_shift ''ann'' 10 20)),
      PostOnCall ''s'' demo_gin (Some (demo_shift ''bob'' 15 25))]"

lemma demo_catalog_words: "TrimSpace ''pay'' = ''pay''" "TrimSpace ''ann'' = ''ann''" "TrimSpace ''bob'' = ''bob''"
  by code_simp+

lemma demo_rotation:
  "cw_oncall (catalog_requests demo_catalog demo_catalog_requests demo_catalog_world)
     = [\<lparr>oc_ID = ''ss'', oc_ServiceID = ''s'', oc_User = ''ann'', oc_ShiftStart = Time 10, oc_ShiftEnd = Time 20\<rparr>]"
  by (simp add: catalog_requests_def demo_catalog_requests_def demo_catalog_def demo_catalog_world_def demo_shift_def
      catalog_create_def service_toInput_def Catalog_Create_def service_validateCreate_def valid_tier_def
      Catalog_repo_Create_def Service_BeforeCreate_def catalog_emit_def repo_defs mem_calls demo_catalog_words
      catalog_create_on_call_def on_call_toInput_def CreateOnCall_def validateOnCall_def Catalog_Get_def
      Catalog_repo_Get_def HasOverlappingOnCall_def effectiveServiceID_def repo_CreateOnCall_def
      OnCall_BeforeCreate_def less_time_def map_filter_simps Let_def numeral_2_eq_2)

theorem on_call_is_who_is_on_duty_witness:
  "rotation_ok (mem_rows oc_ID (cw_oncall (catalog_requests demo_catalog demo_catalog_requests demo_catalog_world)))
   \<and> on_duty (mem_rows oc_ID (cw_oncall (catalog_requests demo_catalog demo_catalog_requests demo_catalog_world)))
       ''s'' (Time 17)
       \<lparr>oc_ID = ''ss'', oc_ServiceID = ''s'', oc_User = ''ann'', oc_ShiftStart = Time 10, oc_ShiftEnd = Time 20\<rparr>"
proof -
  let ?w = "catalog_requests demo_catalog demo_catalog_requests demo_catalog_world"
  let ?s = "\<lparr>oc_ID = ''ss'', oc_ServiceID = ''s'', oc_User = ''ann'', oc_ShiftStart = Time 10, oc_ShiftEnd = Time 20\<rparr>"
  have g: "ca_oncall (ch_cat demo_catalog) = mem_gorm oc_ID" by (simp add: demo_catalog_def)
  have start: "rotation_ok (mem_rows oc_ID (cw_oncall demo_catalog_world))"
    by (simp add: rotation_ok_def demo_catalog_world_def)
  note spec = on_call_is_who_is_on_duty [of demo_catalog "mem_rows oc_ID" demo_catalog_world ?w demo_catalog_requests,
    unfolded g, OF mem_rotation.rotation_table_axioms start refl]
  have "CurrentOnCall (mem_gorm oc_ID) (cw_oncall ?w) ''s'' (Time 17) = Inr (Some ?s)"
    by (simp add: demo_rotation CurrentOnCall_def mem_calls map_filter_simps shift_covers_def less_eq_time_def
        less_time_def latest_first_def)
  with spec [THEN conjunct2, rule_format, of "''s''" "Time 17" "Some ?s" ?s] spec [THEN conjunct1] show ?thesis by simp
qed

definition demo_clusters :: multi_cluster where
  "demo_clusters = NewMultiClusterK8sSource
     (registry_ClientFor (\<lambda>cid. if cid = ''eu'' then Inl ErrK8sNotFound
        else Inr (\<lambda>_. Inr [\<lparr>kd_ClusterID = '''', kd_Namespace = ''default'', kd_Name = ''7f'',
                            kd_Replicas = 3, kd_Available = 1\<rparr>])))
     [''eu'', ''us''] ''''"

definition demo_health :: catalog_health where
  "demo_health = NewHealth (\<lambda>_ _. Inr [\<lparr>hr_RunID = ''r1'', hr_RunStatus = ''succeeded'', hr_StartedAt = Time 5, hr_DurationMs = 1\<rparr>])"

lemma demo_ready: "renderReady 1 3 = Some ''1/3''"
  by code_simp

lemma demo_deployments:
  "ListDeploymentsForService demo_clusters ''7f'' = Some (Inr [\<lparr>kh_ClusterID = ''us'', kh_Namespace = ''default'',
     kh_Name = ''7f'', kh_Ready = ''1/3'', kh_Replicas = 3, kh_Available = 1\<rparr>])"
  by (simp add: ListDeploymentsForService_def demo_clusters_def NewMultiClusterK8sSource_def registry_ClientFor_def
      adapt_deployments_def demo_ready)

theorem unready_deployment_never_healthy_witness:
  "\<exists>out. Rollup (WithK8s demo_health (ListDeploymentsForService demo_clusters)) (Time 9) ''7f'' = Some (Inr out)
     \<and> hx_Status out = HealthDegraded \<and> hx_DerivedFrom out = ''k8s_pod_health''"
proof -
  have "\<exists>out. Rollup (WithK8s demo_health (ListDeploymentsForService demo_clusters)) (Time 9) ''7f'' = Some (Inr out)"
    by (simp add: Rollup_def WithK8s_def demo_health_def NewHealth_def demo_deployments Let_def)
  then obtain out
    where r: "Rollup (WithK8s demo_health (ListDeploymentsForService demo_clusters)) (Time 9) ''7f'' = Some (Inr out)" ..
  have "hx_Status out = HealthDegraded \<and> hx_DerivedFrom out = ''k8s_pod_health''
    \<or> hx_Status out = HealthUnknown \<and> (\<exists>err. ListDeploymentsForService demo_clusters ''7f'' = Some (Inl err))"
    by (rule unready_deployment_never_healthy [OF _ _ _ _ _ _ r, of "''us''"
          "adapt_deployments ''us'' (\<lambda>_. Inr [\<lparr>kd_ClusterID = '''', kd_Namespace = ''default'', kd_Name = ''7f'',
             kd_Replicas = 3, kd_Available = 1\<rparr>])" _
          "\<lparr>kd_ClusterID = ''us'', kd_Namespace = ''default'', kd_Name = ''7f'', kd_Replicas = 3, kd_Available = 1\<rparr>"])
      (auto simp: demo_clusters_def NewMultiClusterK8sSource_def registry_ClientFor_def adapt_deployments_def word_sless_alt)
  with r show ?thesis by (auto simp: demo_deployments)
qed

text \<open>
  An update whose owner is blank once trimmed answers with an empty owner and leaves the stored one: an
  empty field is not written.
\<close>

lemma cleared_owner_is_not_written: "nonzero_fields (row\<lparr>cs_Owner := ''''\<rparr>) row = row"
  by (simp add: nonzero_fields_def)

end
