(* ===== verification/Spec2Isabelle.thy ===== *)
theory Spec2Isabelle
  imports Host_Monitor Pipeline_Run Pipeline_Stats Pipeline_Http Audit_Service Alert_Http Ws_Hub_Facts Host_Project_Facts Ldap_Facts Discovery_Facts Catalog_Facts
begin

text \<open>
  A verification library of the DevOps toolkit backend: a Go program that keeps an inventory of
  physical hosts, devices, projects and services in a SQL database, watches the hosts, runs deployment
  pipelines, fires alerts, writes an audit log and pushes events to websocket clients. The theories follow
  the packages below \<open>internal/\<close> and \<open>pkg/\<close>. A definition has the name of the function it translates
  where HOL allows it, with the name of its package in front where two packages use the same one.

  The parts and how they interact. A request passes the authentication middleware, which turns a signed
  token into a user; the permission middleware, which asks the role matrix; on routes of a project the
  project-access middleware, which asks the principal of the request for its memberships; and reaches a
  handler, which decodes, calls the service of its package and writes a response or the error envelope.
  A service validates, reads and writes its tables through its repository, and records what it did with
  the audit service, whose emitter may be buffered and then hands the events to a pool of workers. Beside
  the requests run the monitor of the hosts, which probes them and moves their state, the goroutine of
  each pipeline run, and the loop of the websocket hub; state changes, run progress and alerts reach the
  clients of the hub through the publisher of \<open>ws/realtime\<close>.

  The theories.

  \<^item> \<open>Go_Prelude\<close>: Go's integers, instants, durations and strings, what the code uses of \<open>strings\<close> and
    \<open>strconv\<close>, list lemmas and the collections \<open>go_defs\<close> and \<open>go_split\<close>.
  \<^item> \<open>Contracts\<close>: \<open>pkg/contracts\<close> and \<open>internal/handler\<close>: error codes, errors with wrapping, roles, users,
    pagination, responses.
  \<^item> \<open>Orm\<close>: \<open>internal/database\<close> and what the repositories use of GORM. A table is an argument; the locale
    \<open>gorm_table\<close> states the documented behaviour of its calls over the live rows, \<open>soft_unique\<close> that of a
    table with soft deletion and a unique index, \<open>repository\<close> what a repository promises to its service.
    The in-memory tables at the end of the theory instantiate every one of them.
  \<^item> \<open>Rbac\<close>, \<open>Caller\<close>: \<open>internal/auth/rbac\<close>, \<open>internal/auth/caller\<close>: the matrix of roles and permissions with the
    permission middleware; the principal with its lazily loaded memberships and the access middlewares.
  \<^item> \<open>Auth\<close>, \<open>Ldap\<close>, \<open>Ldap_Facts\<close>: \<open>internal/auth/jwt.go\<close>, \<open>middleware.go\<close> and \<open>internal/auth/ldap\<close>: tokens, the
    authentication middlewares, the two LDAP clients, login with its limiter.
  \<^item> \<open>Physical_Host\<close>, \<open>Host_Metrics\<close>, \<open>Host_Monitor\<close>: \<open>internal/physicalhost\<close>: rows, repository, service and routes;
    collector, cache and asynchronous writer; the monitor with maintenance and its loop.
  \<^item> \<open>Realtime\<close>, \<open>Ws_Hub\<close>, \<open>Ws_Hub_Facts\<close>: \<open>internal/ws/realtime\<close> and \<open>internal/ws/hub\<close>: events, registry, clients,
    the hub and its two-queue publish path.
  \<^item> \<open>Pipeline_Strategy\<close>, \<open>Pipeline_Executor\<close>, \<open>Pipeline_Service\<close>, \<open>Pipeline_Facts\<close>, \<open>Pipeline_Run\<close>, \<open>Pipeline_Stats\<close>,
    \<open>Pipeline_Http\<close>: \<open>internal/pipeline\<close>: planners, executors, service and repository, the goroutine of a run,
    statistics, handlers and the routes that write.
  \<^item> \<open>Json_Map\<close>, \<open>Audit_Log\<close>, \<open>Audit_Service\<close>: JSON values and columns; \<open>internal/audit\<close>: rows, emitters, service,
    request actor, handlers.
  \<^item> \<open>Alert_Dsl\<close>, \<open>Alert_Service\<close>, \<open>Alert_Facts\<close>, \<open>Alert_Http\<close>: \<open>internal/alerts\<close>: the condition language, service with
    suppression and dispatch, masking and handlers.
  \<^item> \<open>Project\<close>, \<open>Project_Service\<close>, \<open>Project_Facts\<close>, \<open>Project_Http\<close>: \<open>internal/project\<close>: the hierarchy of projects and
    its members.
  \<^item> \<open>Device\<close>, \<open>Device_Http\<close>, \<open>Device_Groups\<close>: \<open>internal/device\<close>: devices, groups, configuration templates.
  \<^item> \<open>Host_Project\<close>, \<open>Host_Project_Http\<close>, \<open>Host_Project_Facts\<close>: \<open>internal/hostproject\<close>: links between hosts and
    projects, inherited down the hierarchy.
  \<^item> \<open>Cidr\<close>, \<open>Discovery\<close>, \<open>Discovery_Service\<close>, \<open>Discovery_Facts\<close>: \<open>internal/discovery\<close>: address ranges, scans, promotion
    of hosts to devices.
  \<^item> \<open>Catalog\<close>, \<open>Catalog_Health\<close>, \<open>Catalog_Http\<close>, \<open>Catalog_Facts\<close>: \<open>internal/servicecatalog\<close>: services, on-call rotation,
    runbook, the health rollup over clusters and pipeline runs.

  How state and operations correspond. A struct is a record, a named string type stays a string (its values
  arrive unchecked), an enumeration whose values only the program writes is a datatype. An operation that
  changes state takes the state and returns it: the tables of its package and the environment \<open>'w\<close>, which the
  clock, the source of identifiers, the network and the audit emitter read and change. An error is the left
  of a sum; \<open>None\<close> stands for a nil pointer, and where the text of a definition says so for a panic or for a
  walk that never returns. The times a query compares are compared as instants (see \<open>Orm\<close>). Goroutines that share state are steps of an inductive relation with a program
  counter each: the workers of the buffered emitter, the asynchronous writer of metrics, a run and its
  cancel requests, publishers and the loop of the hub.

  What the lemmas show. For every package: what its stored rows satisfy after any sequence of requests; who
  can read and write what; which events and audit rows an operation leaves; that the loops and walks end, and
  when they do not. The interfaces are locales: \<open>step_executor\<close> is met by both executors, \<open>planner\<close> by the
  three strategies, \<open>bounded_cache\<close> by the metrics cache, \<open>maintenance_probe\<close> by the maintenance checker the
  alerts ask, and the table locales of each package (\<open>physical_hosts\<close>, \<open>pipeline_tables\<close>, \<open>alert_tables\<close>,
  \<open>project_table\<close>, \<open>member_table\<close>, \<open>device_table\<close>, \<open>link_table\<close>, \<open>discovery_tables\<close>, \<open>rotation_table\<close>) by the in-memory
  tables. A property over "any table that behaves as documented" has such a locale as its hypothesis, and a
  witness on the in-memory table.

  Bounds and fuel. Integers that can overflow are words of their width. The statistics of a pipeline are exact
  for durations up to \<open>8 * 10 ^ 14\<close> milliseconds each; the batch sizes of the rolling strategy, computed by the
  source in floating point, are exact while the product of total and percentage is below \<open>2 ^ 53\<close>. The queue of the
  buffered emitter has the capacity of its configuration (256 by default). The tree of projects is built with the
  number of rows as fuel, which no branch of a forest exceeds; the walks of the hierarchy and the loop over an
  address range are partial functions, and the theorems say when they return. A dial has as many attempts as
  configured. Everything else is structural recursion.

  Not modelled. The route tables and the wiring of \<open>main.go\<close> (apart from the adapters of the service catalogue),
  configuration, logging, TLS and metrics exposition: glue over third-party libraries. The Kubernetes module,
  its exec and log-stream websockets and the query module for logs call out to client libraries and HTTP
  backends on nearly every line. The SSH and TCP probers and their parsers read floating-point text and
  sockets. JSON, JWT and LDAP encodings, the SQL dialects, processes and clocks are arguments of the
  definitions that use them.
\<close>

end
